(* ===== verification/Prelude.thy ===== *)
theory Prelude
  imports Main "HOL-Library.Word" "HOL-Library.Char_ord" "HOL-Library.List_Lexorder"
    "HOL-Library.Product_Lexorder"
begin

text \<open>
  Shared vocabulary of the development.  Results of fallible Go functions are sums
  (\<open>Inl\<close> an error, \<open>Inr\<close> a value); a handler is a function from a state to a result and
  the next state.  Go integers are HOL integers whose arithmetic is wrapped to the width
  of the Go type by \<open>wrap64\<close> and \<open>wrap32\<close>.  A MySQL table is the list of its rows, a
  Redis sorted set is the list of its members in score order, and a database transaction
  is \<open>run_tx\<close>, which restores the database part of the state when its body fails.
\<close>

named_theorems table_simps "facts on rows, updates and counts of a table"
named_theorems wrap_simps "facts on wrap-around arithmetic"

section \<open>Machine integers\<close>

definition wrap64 :: "int \<Rightarrow> int" where
  "wrap64 x = (x + 2 ^ 63) mod 2 ^ 64 - 2 ^ 63"

definition wrap32 :: "int \<Rightarrow> int" where
  "wrap32 x = (x + 2 ^ 31) mod 2 ^ 32 - 2 ^ 31"

definition in64 :: "int \<Rightarrow> bool" where
  "in64 x \<longleftrightarrow> - (2 ^ 63) \<le> x \<and> x < 2 ^ 63"

definition in32 :: "int \<Rightarrow> bool" where
  "in32 x \<longleftrightarrow> - (2 ^ 31) \<le> x \<and> x < 2 ^ 31"

lemma wrap64_id [wrap_simps]: "in64 x \<Longrightarrow> wrap64 x = x"
  by (simp add: wrap64_def in64_def)

lemma wrap32_id [wrap_simps]: "in32 x \<Longrightarrow> wrap32 x = x"
  by (simp add: wrap32_def in32_def)

lemma wrap64_in64 [simp]: "in64 (wrap64 x)"
proof -
  have "0 \<le> m \<Longrightarrow> m < 2 ^ 64 \<Longrightarrow> in64 (m - 2 ^ 63)" for m :: int
    by (simp add: in64_def)
  then show ?thesis unfolding wrap64_def by simp
qed

lemma wrap32_in32 [simp]: "in32 (wrap32 x)"
proof -
  have "0 \<le> m \<Longrightarrow> m < 2 ^ 32 \<Longrightarrow> in32 (m - 2 ^ 31)" for m :: int
    by (simp add: in32_def)
  then show ?thesis unfolding wrap32_def by simp
qed

lemma wrap_zero [simp]: "wrap64 0 = 0" "wrap32 0 = 0"
  by (simp_all add: wrap64_def wrap32_def)

lemma wrap64_word: "wrap64 x = sint (word_of_int x :: 64 word)"
  by (simp add: wrap64_def sint_sbintrunc' signed_take_bit_eq_take_bit_shift take_bit_eq_mod)

lemma wrap32_word: "wrap32 x = sint (word_of_int x :: 32 word)"
  by (simp add: wrap32_def sint_sbintrunc' signed_take_bit_eq_take_bit_shift take_bit_eq_mod)

lemma wrap64_wrap64 [simp]: "wrap64 (wrap64 x) = wrap64 x"
  by (simp add: wrap64_id)

lemma wrap64_add_left [wrap_simps]: "wrap64 (wrap64 x + y) = wrap64 (x + y)"
proof -
  have "((x + 2 ^ 63) mod 2 ^ 64 - 2 ^ 63 + y + 2 ^ 63) mod (2 ^ 64 :: int)
      = ((x + 2 ^ 63) mod 2 ^ 64 + y) mod 2 ^ 64" by (simp add: algebra_simps)
  also have "\<dots> = (x + y + 2 ^ 63) mod 2 ^ 64"
    unfolding mod_add_left_eq by (simp add: algebra_simps)
  finally show ?thesis unfolding wrap64_def by simp
qed

lemma wrap64_add_right [wrap_simps]: "wrap64 (x + wrap64 y) = wrap64 (x + y)"
  using wrap64_add_left [of y x] by (simp add: add.commute)

text \<open>Go's \<open>/\<close> on integers rounds towards zero.\<close>

definition go_div :: "int \<Rightarrow> int \<Rightarrow> int" where
  "go_div n d = (if (n < 0) = (d < 0) then \<bar>n\<bar> div \<bar>d\<bar> else - (\<bar>n\<bar> div \<bar>d\<bar>))"

lemma go_div_nonneg: "0 \<le> n \<Longrightarrow> 0 < d \<Longrightarrow> go_div n d = n div d"
  by (simp add: go_div_def)

section \<open>Results and transactions\<close>

definition is_ok :: "('e + 'a) \<Rightarrow> bool" where
  "is_ok r \<longleftrightarrow> (case r of Inl _ \<Rightarrow> False | Inr _ \<Rightarrow> True)"

lemma is_ok_simps [simp]: "is_ok (Inl e) = False" "is_ok (Inr x) = True"
  by (simp_all add: is_ok_def)

definition run_tx ::
  "('s \<Rightarrow> 'd) \<Rightarrow> ('d \<Rightarrow> 's \<Rightarrow> 's) \<Rightarrow> ('s \<Rightarrow> ('e + 'a) \<times> 's) \<Rightarrow> 's \<Rightarrow> ('e + 'a) \<times> 's" where
  "run_tx get put body s =
     (case body s of
        (Inl e, s') \<Rightarrow> (Inl e, put (get s) s')
      | (Inr x, s') \<Rightarrow> (Inr x, s'))"

lemma run_tx_result: "fst (run_tx get put body s) = fst (body s)"
  by (auto simp: run_tx_def split: prod.splits sum.splits)

lemma run_tx_error:
  assumes "\<And>d s. get (put d s) = d" "fst (run_tx get put body s) = Inl e"
  shows "get (snd (run_tx get put body s)) = get s"
  using assms by (auto simp: run_tx_def split: prod.splits sum.splits)

lemma run_tx_ok:
  "fst (run_tx get put body s) = Inr x \<Longrightarrow> run_tx get put body s = body s"
  by (auto simp: run_tx_def split: prod.splits sum.splits)

section \<open>Tables\<close>

definition find_row :: "('r \<Rightarrow> 'k) \<Rightarrow> 'k \<Rightarrow> 'r list \<Rightarrow> 'r option" where
  "find_row key k rows = find (\<lambda>r. key r = k) rows"

definition update_where :: "('r \<Rightarrow> bool) \<Rightarrow> ('r \<Rightarrow> 'r) \<Rightarrow> 'r list \<Rightarrow> 'r list" where
  "update_where P f rows = map (\<lambda>r. if P r then f r else r) rows"

definition rows_affected :: "('r \<Rightarrow> bool) \<Rightarrow> 'r list \<Rightarrow> nat" where
  "rows_affected P rows = length (filter P rows)"

lemma find_row_Nil [simp]: "find_row key k [] = None"
  by (simp add: find_row_def)

lemma find_row_Cons [simp]:
  "find_row key k (r # rows) = (if key r = k then Some r else find_row key k rows)"
  by (simp add: find_row_def)

lemma find_row_append [table_simps]:
  "find_row key k (xs @ ys) = (case find_row key k xs of None \<Rightarrow> find_row key k ys | Some r \<Rightarrow> Some r)"
  by (induction xs) auto

lemma find_row_None_iff [table_simps]: "find_row key k rows = None \<longleftrightarrow> k \<notin> key ` set rows"
  by (induction rows) auto

lemma find_row_SomeD: "find_row key k rows = Some r \<Longrightarrow> r \<in> set rows \<and> key r = k"
  by (induction rows) (auto split: if_splits)

lemma filter_unique:
  "distinct (map f xs) \<Longrightarrow> filter (\<lambda>x. f x = k) xs = (case find_row f k xs of None \<Rightarrow> [] | Some x \<Rightarrow> [x])"
proof (induction xs)
  case (Cons x xs)
  have "f x = k \<Longrightarrow> filter (\<lambda>x. f x = k) xs = []"
    using Cons.prems by (auto simp: filter_empty_conv image_iff)
  then show ?case using Cons by simp
qed simp

lemma find_row_unique:
  "distinct (map key rows) \<Longrightarrow> r \<in> set rows \<Longrightarrow> find_row key (key r) rows = Some r"
  by (induction rows) auto

lemma find_row_filter:
  "k \<in> S \<Longrightarrow> find_row key k (filter (\<lambda>r. key r \<in> S) rows) = find_row key k rows"
  by (induction rows) auto

lemma find_row_iff:
  "distinct (map key rows) \<Longrightarrow> find_row key k rows = Some r \<longleftrightarrow> r \<in> set rows \<and> key r = k"
  using find_row_SomeD find_row_unique by metis

lemma update_where_Nil [simp]: "update_where P f [] = []"
  by (simp add: update_where_def)

lemma update_where_Cons [simp]:
  "update_where P f (r # rows) = (if P r then f r else r) # update_where P f rows"
  by (simp add: update_where_def)

lemma update_where_append [table_simps]:
  "update_where P f (xs @ ys) = update_where P f xs @ update_where P f ys"
  by (simp add: update_where_def)

lemma update_where_keys [table_simps]:
  "(\<And>r. key (f r) = key r) \<Longrightarrow> map key (update_where P f rows) = map key rows"
  by (simp add: update_where_def)

lemma update_where_length [simp]: "length (update_where P f rows) = length rows"
  by (simp add: update_where_def)

lemma update_where_set [table_simps]:
  "set (update_where P f rows) = (\<lambda>r. if P r then f r else r) ` set rows"
  by (simp add: update_where_def)

lemma update_where_image:
  "(\<And>r. g (f r) = g r) \<Longrightarrow> g ` set (update_where P f rows) = g ` set rows"
  using update_where_keys [of g f P rows] by (metis list.set_map)

lemma update_where_none [table_simps]:
  "(\<And>r. r \<in> set rows \<Longrightarrow> \<not> P r) \<Longrightarrow> update_where P f rows = rows"
  by (induction rows) auto

lemma find_row_update [table_simps]:
  assumes "\<And>r. key (f r) = key r"
  shows "find_row key k (update_where P f rows)
       = map_option (\<lambda>r. if P r then f r else r) (find_row key k rows)"
  by (induction rows) (auto simp: assms)

lemma rows_affected_Nil [simp]: "rows_affected P [] = 0"
  by (simp add: rows_affected_def)

lemma rows_affected_Cons [simp]:
  "rows_affected P (r # rows) = (if P r then 1 else 0) + rows_affected P rows"
  by (simp add: rows_affected_def)

lemma rows_affected_zero [table_simps]:
  "rows_affected P rows = 0 \<longleftrightarrow> (\<forall>r \<in> set rows. \<not> P r)"
  by (simp add: rows_affected_def filter_empty_conv)

lemma rows_affected_le: "rows_affected P rows \<le> length rows"
  by (simp add: rows_affected_def)

lemma rows_affected_key_le_1:
  "distinct (map key rows) \<Longrightarrow> rows_affected (\<lambda>r. key r = k \<and> P r) rows \<le> 1"
proof (induction rows)
  case (Cons r rows)
  show ?case
  proof (cases "key r = k")
    case True
    then have "rows_affected (\<lambda>r. key r = k \<and> P r) rows = 0"
      using Cons.prems by (auto simp: rows_affected_zero image_iff)
    then show ?thesis by simp
  next
    case False
    then show ?thesis using Cons by simp
  qed
qed simp

lemma rows_affected_append [simp]: "rows_affected P (xs @ ys) = rows_affected P xs + rows_affected P ys"
  by (simp add: rows_affected_def)

lemma rows_affected_remove1:
  assumes "distinct (map key rows)" "r \<in> set rows"
  shows "rows_affected P rows = (if P r then 1 else 0) + rows_affected P (filter (\<lambda>x. key x \<noteq> key r) rows)"
  using assms
proof (induction rows)
  case (Cons x rows)
  show ?case
  proof (cases "x = r")
    case True
    then have "filter (\<lambda>x. key x \<noteq> key r) rows = rows"
      using Cons.prems by (auto simp: filter_id_conv image_iff)
    then show ?thesis using True by simp
  next
    case False
    then have "r \<in> set rows" "key x \<noteq> key r" using Cons.prems by (auto simp: image_iff)
    then show ?thesis using Cons by simp
  qed
qed simp

lemma rows_affected_keys:
  assumes "distinct (map key rows)" "distinct ks"
  shows "rows_affected (\<lambda>r. key r \<in> set ks \<and> P r) rows \<le> length ks"
    and "rows_affected (\<lambda>r. key r \<in> set ks \<and> P r) rows = length ks
     \<longleftrightarrow> (\<forall>k \<in> set ks. \<exists>r \<in> set rows. key r = k \<and> P r)"
proof -
  let ?f = "filter (\<lambda>r. key r \<in> set ks \<and> P r) rows"
  have d: "distinct (map key ?f)" using assms(1) by (simp add: distinct_map_filter)
  then have c: "card (key ` set ?f) = length ?f"
    using distinct_card [of "map key ?f"] by simp
  have s: "key ` set ?f \<subseteq> set ks" by auto
  have k: "card (set ks) = length ks" using assms(2) by (rule distinct_card)
  show "rows_affected (\<lambda>r. key r \<in> set ks \<and> P r) rows \<le> length ks"
    using card_mono [OF _ s] c k by (simp add: rows_affected_def)
  have "length ?f = length ks \<longleftrightarrow> key ` set ?f = set ks"
    using card_subset_eq [OF _ s] c k by auto
  also have "\<dots> \<longleftrightarrow> set ks \<subseteq> key ` set ?f" using s by blast
  also have "\<dots> \<longleftrightarrow> (\<forall>k \<in> set ks. \<exists>r \<in> set rows. key r = k \<and> P r)"
    by (auto simp: subset_iff image_iff)
  finally show "rows_affected (\<lambda>r. key r \<in> set ks \<and> P r) rows = length ks
     \<longleftrightarrow> (\<forall>k \<in> set ks. \<exists>r \<in> set rows. key r = k \<and> P r)"
    by (simp add: rows_affected_def)
qed

section \<open>Decimal text\<close>

text \<open>\<open>strconv.FormatInt(i, 10)\<close> and \<open>strconv.ParseInt(s, 10, 64)\<close>.\<close>

definition digit_char :: "nat \<Rightarrow> char" where
  "digit_char d = char_of (48 + d)"

fun format_nat :: "nat \<Rightarrow> string" where
  "format_nat n = (if n < 10 then [digit_char n] else format_nat (n div 10) @ [digit_char (n mod 10)])"

declare format_nat.simps [simp del]

definition format_int :: "int \<Rightarrow> string" where
  "format_int i = (if i < 0 then CHR ''-'' # format_nat (nat (- i)) else format_nat (nat i))"

definition digit_val :: "char \<Rightarrow> nat option" where
  "digit_val c = (let k = (of_char c :: nat) in if 48 \<le> k \<and> k < 58 then Some (k - 48) else None)"

fun parse_digits :: "nat \<Rightarrow> string \<Rightarrow> nat option" where
  "parse_digits acc [] = Some acc"
| "parse_digits acc (c # cs) =
     (case digit_val c of None \<Rightarrow> None | Some d \<Rightarrow> parse_digits (10 * acc + d) cs)"

definition parse_nat :: "string \<Rightarrow> nat option" where
  "parse_nat s = (if s = [] then None else parse_digits 0 s)"

definition parse_int :: "string \<Rightarrow> int option" where
  "parse_int s =
     (case s of
        [] \<Rightarrow> None
      | c # cs \<Rightarrow>
          (case (if c = CHR ''-'' then map_option (\<lambda>n. - int n) (parse_nat cs)
                 else if c = CHR ''+'' then map_option int (parse_nat cs)
                 else map_option int (parse_nat s)) of
             None \<Rightarrow> None
           | Some i \<Rightarrow> if in64 i then Some i else None))"

lemma digit_val_digit_char [simp]: "d < 10 \<Longrightarrow> digit_val (digit_char d) = Some d"
  by (simp add: digit_val_def digit_char_def of_char_of Let_def)

lemma parse_digits_append:
  "parse_digits acc (xs @ ys) =
     (case parse_digits acc xs of None \<Rightarrow> None | Some a \<Rightarrow> parse_digits a ys)"
  by (induction xs arbitrary: acc) (auto split: option.splits)

lemma parse_digits_format_nat: "parse_digits 0 (format_nat n) = Some n"
proof (induction n rule: format_nat.induct)
  case (1 n)
  then show ?case
    by (subst format_nat.simps) (auto simp: parse_digits_append)
qed

lemma format_nat_not_Nil [simp]: "format_nat n \<noteq> []"
  by (subst format_nat.simps) simp

lemma format_nat_digits: "c \<in> set (format_nat n) \<Longrightarrow> digit_val c \<noteq> None"
proof (induction n rule: format_nat.induct)
  case (1 n)
  then show ?case by (subst (asm) format_nat.simps) (auto split: if_splits)
qed

lemma digit_val_signs [simp]: "digit_val (CHR ''-'') = None" "digit_val (CHR ''+'') = None"
  by (simp_all add: digit_val_def Let_def)

lemma parse_format_int: "in64 i \<Longrightarrow> parse_int (format_int i) = Some i"
proof (cases "i < 0")
  case True
  assume "in64 i"
  then show ?thesis using True
    by (simp add: parse_int_def format_int_def parse_nat_def parse_digits_format_nat)
next
  case False
  assume i: "in64 i"
  obtain c cs where f: "format_nat (nat i) = c # cs" by (cases "format_nat (nat i)") auto
  have "digit_val c \<noteq> None" using format_nat_digits [of c "nat i"] f by simp
  then have "c \<noteq> CHR ''-''" "c \<noteq> CHR ''+''" by auto
  then show ?thesis using False i f parse_digits_format_nat [of "nat i"]
    by (simp add: parse_int_def format_int_def parse_nat_def)
qed

lemma format_nat_inject: "format_nat m = format_nat n \<longleftrightarrow> m = n"
  by (metis option.inject parse_digits_format_nat)

lemma format_nat_not_minus: "CHR ''-'' # s \<noteq> format_nat n"
  using format_nat_digits [of "CHR ''-''" n] by (metis digit_val_signs(1) list.set_intros(1))

lemma format_int_inject [simp]: "format_int i = format_int j \<longleftrightarrow> i = j"
  using format_nat_not_minus [of "format_nat (nat (- i))" "nat j"]
    format_nat_not_minus [of "format_nat (nat (- j))" "nat i", symmetric]
  by (cases "i < 0"; cases "j < 0") (auto simp: format_int_def format_nat_inject)

section \<open>Text helpers\<close>

text \<open>\<open>strings.ToUpper\<close> and \<open>strings.TrimSpace\<close> on ASCII text.\<close>

definition upper_char :: "char \<Rightarrow> char" where
  "upper_char c = (let k = (of_char c :: nat) in if 97 \<le> k \<and> k \<le> 122 then char_of (k - 32) else c)"

definition to_upper :: "string \<Rightarrow> string" where
  "to_upper s = map upper_char s"

definition lower_char :: "char \<Rightarrow> char" where
  "lower_char c = (let k = (of_char c :: nat) in if 65 \<le> k \<and> k \<le> 90 then char_of (k + 32) else c)"

definition to_lower :: "string \<Rightarrow> string" where
  "to_lower s = map lower_char s"

definition is_space :: "char \<Rightarrow> bool" where
  "is_space c \<longleftrightarrow> (of_char c :: nat) \<in> {9, 10, 11, 12, 13, 32}"

definition trim_space :: "string \<Rightarrow> string" where
  "trim_space s = rev (dropWhile is_space (rev (dropWhile is_space s)))"

text \<open>\<open>varchar(n)\<close> counts characters: bytes that do not continue a UTF-8 sequence.\<close>

definition utf8_length :: "string \<Rightarrow> nat" where
  "utf8_length s = length (filter (\<lambda>c. (of_char c :: nat) < 128 \<or> 192 \<le> (of_char c :: nat)) s)"

text \<open>\<open>strings.HasPrefix\<close>, \<open>strings.TrimPrefix\<close>, \<open>strings.HasSuffix\<close> and \<open>strings.TrimSuffix\<close>.\<close>

definition has_prefix :: "string \<Rightarrow> string \<Rightarrow> bool" where
  "has_prefix s p \<longleftrightarrow> take (length p) s = p"

definition trim_prefix :: "string \<Rightarrow> string \<Rightarrow> string" where
  "trim_prefix p s = (if has_prefix s p then drop (length p) s else s)"

definition has_suffix :: "string \<Rightarrow> string \<Rightarrow> bool" where
  "has_suffix suf s \<longleftrightarrow> length suf \<le> length s \<and> drop (length s - length suf) s = suf"

definition trim_suffix :: "string \<Rightarrow> string \<Rightarrow> string" where
  "trim_suffix suf s = (if has_suffix suf s then take (length s - length suf) s else s)"

lemma find_SomeD: "find P xs = Some x \<Longrightarrow> x \<in> set xs \<and> P x"
  by (induction xs) (auto split: if_splits)

lemma trim_space_Nil [simp]: "trim_space [] = []"
  by (simp add: trim_space_def)

lemma dropWhile_rev_dropWhile:
  "dropWhile P (rev (dropWhile P (rev xs))) = rev (dropWhile P (rev (dropWhile P xs)))"
proof (induction xs)
  case (Cons x xs)
  show ?case
  proof (cases "P x")
    case True
    have "dropWhile P (rev (dropWhile P (rev xs @ [x]))) = dropWhile P (rev (dropWhile P (rev xs)))"
    proof (cases "\<exists>y \<in> set xs. \<not> P y")
      case True
      then show ?thesis using \<open>P x\<close> by (auto simp: dropWhile_append1)
    next
      case False
      then have "dropWhile P (rev xs @ [x]) = []" "dropWhile P (rev xs) = []"
        using \<open>P x\<close> by (auto simp: dropWhile_eq_Nil_conv)
      then show ?thesis by (simp only:)
    qed
    then show ?thesis using True Cons.IH by simp
  next
    case False
    then have "dropWhile P (rev xs @ [x]) = dropWhile P (rev xs) @ [x]"
      by (induction xs rule: rev_induct) auto
    then show ?thesis using False by simp
  qed
qed simp

lemma trim_space_idem [simp]: "trim_space (trim_space s) = trim_space s"
  by (simp add: trim_space_def dropWhile_rev_dropWhile)

section \<open>Values of the RPC interface several services share\<close>

datatype payment_status =
    PaymentStatusUnknown | PaymentStatusInit | PaymentStatusSuccess | PaymentStatusFailed
  | PaymentStatusRefund

end
