(* ===== verification/OrderDomain.thy ===== *)
theory OrderDomain
  imports Prelude
begin

text \<open>
  The order aggregate of \<open>internal/order/domain\<close>: its data, the five status methods of
  \<open>order.go\<close>, the error values and business codes of \<open>errors.go\<close>, the status event of
  \<open>event.go\<close>, and \<open>applyOrderAction\<close>.  The locale \<open>lifecycle\<close> states what a status machine
  promises (every step climbs a rank) and is interpreted on the order machine here and on
  the payment machine in theory Payment.
\<close>

section \<open>Data\<close>

datatype order_status =
    OrderStatusUnknown | OrderStatusCreated | OrderStatusPaid | OrderStatusShipped
  | OrderStatusCompleted | OrderStatusCanceled | OrderStatusRefunded

datatype order_action =
    OrderActionUnknown | OrderActionPay | OrderActionShip | OrderActionComplete
  | OrderActionCancel | OrderActionRefund | OrderActionOther int

datatype order_error =
    ErrRecordNotFound | ErrInvalidUser | ErrEmptyOrderItems | ErrSeckillActivityRequired
  | ErrDuplicateOrder | ErrInvalidStatusTransition | ErrOrderStatusUnchanged
  | ErrInvalidOrderID | ErrInvalidOrderAction | ErrInvalidListQuery | ErrInfra

record OrderItem =
  it_product :: int
  it_sku :: int
  it_quantity :: int
  it_snapshot_price :: int
  it_snapshot_currency :: string
  it_price :: int

record Address =
  ad_street :: string
  ad_city :: string
  ad_state :: string
  ad_country :: string
  ad_zipcode :: string
  ad_phone :: string

record Amount =
  am_currency :: string
  am_total :: int

record Order =
  o_id :: int
  o_user :: int
  o_remark :: string
  o_addr :: Address
  o_status :: order_status
  o_kind :: string
  o_activity :: int
  o_created_at :: int
  o_expire_at :: int
  o_total :: Amount
  o_payable :: Amount
  o_discount :: Amount
  o_items :: "OrderItem list"

definition OrderKindDirectBuy :: string where "OrderKindDirectBuy = ''DIRECT_BUY''"
definition OrderKindCart :: string where "OrderKindCart = ''CART''"
definition OrderKindSeckill :: string where "OrderKindSeckill = ''SECKILL''"

section \<open>Business codes\<close>

definition BizStatusCreateOrderInvalidUser :: int where "BizStatusCreateOrderInvalidUser = 4001"
definition BizStatusCreateOrderEmptyItems :: int where "BizStatusCreateOrderEmptyItems = 4002"
definition BizStatusCreateOrderSeckillActivityRequired :: int where
  "BizStatusCreateOrderSeckillActivityRequired = 4003"
definition BizStatusGetOrderNotFound :: int where "BizStatusGetOrderNotFound = 4404"

definition IsCreateOrderBizStatus :: "int \<Rightarrow> bool" where
  "IsCreateOrderBizStatus code \<longleftrightarrow>
     code = BizStatusCreateOrderInvalidUser \<or> code = BizStatusCreateOrderEmptyItems
     \<or> code = BizStatusCreateOrderSeckillActivityRequired"

definition IsGetOrderNotFoundBizStatus :: "int \<Rightarrow> bool" where
  "IsGetOrderNotFoundBizStatus code \<longleftrightarrow> code = BizStatusGetOrderNotFound"

lemmas biz_codes = BizStatusCreateOrderInvalidUser_def BizStatusCreateOrderEmptyItems_def
  BizStatusCreateOrderSeckillActivityRequired_def BizStatusGetOrderNotFound_def
  IsCreateOrderBizStatus_def IsGetOrderNotFoundBizStatus_def

section \<open>Status methods\<close>

definition order_Pay :: "Order \<Rightarrow> order_error + Order" where
  "order_Pay ord =
     (if o_status ord = OrderStatusPaid then Inl ErrOrderStatusUnchanged
      else if o_status ord \<noteq> OrderStatusCreated then Inl ErrInvalidStatusTransition
      else Inr (ord\<lparr>o_status := OrderStatusPaid\<rparr>))"

definition order_Ship :: "Order \<Rightarrow> order_error + Order" where
  "order_Ship ord =
     (if o_status ord = OrderStatusShipped then Inl ErrOrderStatusUnchanged
      else if o_status ord \<noteq> OrderStatusPaid then Inl ErrInvalidStatusTransition
      else Inr (ord\<lparr>o_status := OrderStatusShipped\<rparr>))"

definition order_Complete :: "Order \<Rightarrow> order_error + Order" where
  "order_Complete ord =
     (if o_status ord = OrderStatusCompleted then Inl ErrOrderStatusUnchanged
      else if o_status ord \<noteq> OrderStatusShipped then Inl ErrInvalidStatusTransition
      else Inr (ord\<lparr>o_status := OrderStatusCompleted\<rparr>))"

definition order_Cancel :: "Order \<Rightarrow> order_error + Order" where
  "order_Cancel ord =
     (if o_status ord = OrderStatusCanceled then Inl ErrOrderStatusUnchanged
      else if o_status ord \<noteq> OrderStatusCreated then Inl ErrInvalidStatusTransition
      else Inr (ord\<lparr>o_status := OrderStatusCanceled\<rparr>))"

definition order_Refund :: "Order \<Rightarrow> order_error + Order" where
  "order_Refund ord =
     (if o_status ord = OrderStatusRefunded then Inl ErrOrderStatusUnchanged
      else if o_status ord \<noteq> OrderStatusPaid \<and> o_status ord \<noteq> OrderStatusShipped
        then Inl ErrInvalidStatusTransition
      else Inr (ord\<lparr>o_status := OrderStatusRefunded\<rparr>))"

definition applyOrderAction :: "Order \<Rightarrow> order_action \<Rightarrow> order_error + Order" where
  "applyOrderAction ord action =
     (case action of
        OrderActionPay \<Rightarrow> order_Pay ord
      | OrderActionShip \<Rightarrow> order_Ship ord
      | OrderActionComplete \<Rightarrow> order_Complete ord
      | OrderActionCancel \<Rightarrow> order_Cancel ord
      | OrderActionRefund \<Rightarrow> order_Refund ord
      | _ \<Rightarrow> Inl ErrInvalidStatusTransition)"

lemmas order_methods = order_Pay_def order_Ship_def order_Complete_def order_Cancel_def
  order_Refund_def

text \<open>The life cycle the methods implement, as the edges of a graph.\<close>

definition order_edges :: "(order_status \<times> order_action \<times> order_status) list" where
  "order_edges =
     [(OrderStatusCreated, OrderActionPay, OrderStatusPaid),
      (OrderStatusCreated, OrderActionCancel, OrderStatusCanceled),
      (OrderStatusPaid, OrderActionShip, OrderStatusShipped),
      (OrderStatusPaid, OrderActionRefund, OrderStatusRefunded),
      (OrderStatusShipped, OrderActionComplete, OrderStatusCompleted),
      (OrderStatusShipped, OrderActionRefund, OrderStatusRefunded)]"

definition legal_step :: "order_status \<Rightarrow> order_status \<Rightarrow> bool" where
  "legal_step s t \<longleftrightarrow> (\<exists>(a, b, c) \<in> set order_edges. a = s \<and> c = t)"

definition action_target :: "order_action \<Rightarrow> order_status option" where
  "action_target a =
     (case a of
        OrderActionPay \<Rightarrow> Some OrderStatusPaid
      | OrderActionShip \<Rightarrow> Some OrderStatusShipped
      | OrderActionComplete \<Rightarrow> Some OrderStatusCompleted
      | OrderActionCancel \<Rightarrow> Some OrderStatusCanceled
      | OrderActionRefund \<Rightarrow> Some OrderStatusRefunded
      | _ \<Rightarrow> None)"

lemma applyOrderAction_Inr_iff:
  "applyOrderAction ord a = Inr ord' \<longleftrightarrow>
     (\<exists>t. (o_status ord, a, t) \<in> set order_edges \<and> ord' = ord\<lparr>o_status := t\<rparr>)"
  by (cases a; cases "o_status ord")
    (auto simp: applyOrderAction_def order_methods order_edges_def)

lemma applyOrderAction_unchanged_iff:
  "applyOrderAction ord a = Inl ErrOrderStatusUnchanged \<longleftrightarrow> action_target a = Some (o_status ord)"
  by (cases a; cases "o_status ord")
    (auto simp: applyOrderAction_def order_methods action_target_def)

lemma applyOrderAction_error:
  "applyOrderAction ord a = Inl e \<Longrightarrow> e = ErrOrderStatusUnchanged \<or> e = ErrInvalidStatusTransition"
  by (cases a) (auto simp: applyOrderAction_def order_methods split: if_splits)

lemma applyOrderAction_legal:
  "applyOrderAction ord a = Inr ord' \<Longrightarrow> legal_step (o_status ord) (o_status ord')"
  by (auto simp: applyOrderAction_Inr_iff legal_step_def)

lemma legal_step_irrefl: "\<not> legal_step s s"
  by (auto simp: legal_step_def order_edges_def)

lemma legal_step_cases:
  "legal_step s t \<longleftrightarrow>
     s = OrderStatusCreated \<and> t \<in> {OrderStatusPaid, OrderStatusCanceled}
   \<or> s = OrderStatusPaid \<and> t \<in> {OrderStatusShipped, OrderStatusRefunded}
   \<or> s = OrderStatusShipped \<and> t \<in> {OrderStatusCompleted, OrderStatusRefunded}"
  by (auto simp: legal_step_def order_edges_def)

section \<open>Life cycles\<close>

locale lifecycle =
  fixes next_status :: "'s \<Rightarrow> 's \<Rightarrow> bool"
    and rank :: "'s \<Rightarrow> nat"
  assumes climbs: "next_status s t \<Longrightarrow> rank s < rank t"
begin

inductive path :: "'s \<Rightarrow> 's list \<Rightarrow> 's \<Rightarrow> bool" where
  path_nil: "path s [] s"
| path_snoc: "path s ts t \<Longrightarrow> next_status t u \<Longrightarrow> path s (ts @ [u]) u"

lemma path_rank: "path s ts t \<Longrightarrow> rank s + length ts \<le> rank t"
  by (induction rule: path.induct) (auto dest: climbs)

lemma path_bounds: "path s ts t \<Longrightarrow> u \<in> set ts \<Longrightarrow> rank s < rank u \<and> rank u \<le> rank t"
  by (induction rule: path.induct) (use path_rank climbs in force)+

lemma path_no_repeat: "path s ts t \<Longrightarrow> distinct (s # ts)"
proof (induction rule: path.induct)
  case (path_snoc s ts t u)
  have "u \<notin> set (s # ts)"
    using path_bounds [OF path_snoc(1)] climbs [OF path_snoc(2)] path_rank [OF path_snoc(1)]
    by force
  then show ?case using path_snoc by auto
qed simp

lemma path_terminal: "path s ts t \<Longrightarrow> \<forall>u. \<not> next_status s u \<Longrightarrow> ts = [] \<and> t = s"
  by (induction rule: path.induct) auto

lemma path_successively: "path s ts t \<Longrightarrow> successively next_status (s # ts) \<and> last (s # ts) = t"
proof (induction rule: path.induct)
  case (path_snoc s ts t u)
  then show ?case
    using successively_append_iff [of next_status "s # ts" "[u]"] by auto
qed simp

lemma path_last: "path s ts t \<Longrightarrow> t = last (s # ts)"
  by (induction rule: path.induct) auto

end

fun order_rank :: "order_status \<Rightarrow> nat" where
  "order_rank OrderStatusCreated = 0"
| "order_rank OrderStatusPaid = 1"
| "order_rank OrderStatusShipped = 2"
| "order_rank _ = 3"

interpretation order_life: lifecycle legal_step order_rank
  by unfold_locales (auto simp: legal_step_cases)

section \<open>Events\<close>

record OrderStatusUpdateEvent =
  ev_order :: int
  ev_user :: int
  ev_status :: order_status
  ev_kind :: string
  ev_products :: "int list"
  ev_skus :: "int list"

definition BuildOrderStatusUpdateEvent :: "Order \<Rightarrow> OrderStatusUpdateEvent" where
  "BuildOrderStatusUpdateEvent ord =
     (let event = \<lparr>ev_order = o_id ord, ev_user = 0, ev_status = o_status ord,
                   ev_kind = o_kind ord, ev_products = [], ev_skus = []\<rparr>
      in if o_status ord \<noteq> OrderStatusPaid \<or> o_kind ord \<noteq> OrderKindCart then event
         else event\<lparr>ev_user := o_user ord,
                    ev_products := map it_product (o_items ord),
                    ev_skus := map it_sku (o_items ord)\<rparr>)"

lemma event_order [simp]: "ev_order (BuildOrderStatusUpdateEvent ord) = o_id ord"
  and event_status [simp]: "ev_status (BuildOrderStatusUpdateEvent ord) = o_status ord"
  and event_kind [simp]: "ev_kind (BuildOrderStatusUpdateEvent ord) = o_kind ord"
  by (simp_all add: BuildOrderStatusUpdateEvent_def Let_def)

lemma event_cart_lines:
  "zip (ev_products (BuildOrderStatusUpdateEvent ord)) (ev_skus (BuildOrderStatusUpdateEvent ord))
   = (if o_status ord = OrderStatusPaid \<and> o_kind ord = OrderKindCart
      then map (\<lambda>i. (it_product i, it_sku i)) (o_items ord) else [])"
  by (simp add: BuildOrderStatusUpdateEvent_def Let_def zip_map_map zip_same_conv_map)

end
