(* ===== verification/Outbox.thy ===== *)
theory Outbox
  imports Prelude
begin

text \<open>
  The transactional outbox that the order and the payment service share in shape: a table of
  events with a status and a retry count, the producer's \<open>SendBatch\<close>
  (\<open>pkg/rocketmqx/producer.go\<close>), and the worker that publishes the pending rows page by page.
  The locale \<open>outbox_store\<close> states what a worker needs of a store; the worker lemmas are proved
  in it once, and the stores of both services interpret it.
\<close>

named_theorems outbox_simps "facts on outbox tables"

section \<open>The table\<close>

datatype event_status = EventStatusPending | EventStatusSent | EventStatusFailed

record 'p OutboxEventModel =
  ob_id :: int
  ob_type :: string
  ob_payload :: 'p
  ob_status :: event_status
  ob_retry :: nat

record 'p outbox =
  ob_rows :: "'p OutboxEventModel list"
  ob_next :: int

definition outbox_insert :: "string \<Rightarrow> 'p \<Rightarrow> 'p outbox \<Rightarrow> int \<times> 'p outbox" where
  "outbox_insert ty p ob =
     (ob_next ob,
      ob\<lparr>ob_rows := ob_rows ob @ [\<lparr>ob_id = ob_next ob, ob_type = ty, ob_payload = p,
                                    ob_status = EventStatusPending, ob_retry = 0\<rparr>],
         ob_next := ob_next ob + 1\<rparr>)"

fun outbox_insert_all :: "string \<Rightarrow> 'p list \<Rightarrow> 'p outbox \<Rightarrow> int list \<times> 'p outbox" where
  "outbox_insert_all ty [] ob = ([], ob)"
| "outbox_insert_all ty (p # ps) ob =
     (let r = outbox_insert ty p ob; q = outbox_insert_all ty ps (snd r) in (fst r # fst q, snd q))"

definition outbox_pending :: "'p outbox \<Rightarrow> 'p OutboxEventModel list" where
  "outbox_pending ob = filter (\<lambda>r. ob_status r = EventStatusPending) (ob_rows ob)"

definition outbox_page :: "nat \<Rightarrow> nat \<Rightarrow> 'p outbox \<Rightarrow> 'p OutboxEventModel list" where
  "outbox_page offset limit ob = take limit (drop offset (outbox_pending ob))"

definition outbox_set_status :: "int set \<Rightarrow> event_status \<Rightarrow> 'p outbox \<Rightarrow> 'p outbox" where
  "outbox_set_status ids st ob =
     ob\<lparr>ob_rows := update_where (\<lambda>r. ob_id r \<in> ids) (ob_status_update (\<lambda>_. st)) (ob_rows ob)\<rparr>"

definition outbox_has :: "int \<Rightarrow> 'p outbox \<Rightarrow> bool" where
  "outbox_has i ob \<longleftrightarrow> i \<in> set (map ob_id (ob_rows ob))"

definition outbox_bump :: "int \<Rightarrow> 'p outbox \<Rightarrow> 'p outbox" where
  "outbox_bump i ob = ob\<lparr>ob_rows := update_where (\<lambda>r. ob_id r = i) (ob_retry_update Suc) (ob_rows ob)\<rparr>"

definition outbox_retry :: "int \<Rightarrow> 'p outbox \<Rightarrow> nat" where
  "outbox_retry i ob = (case find_row ob_id i (ob_rows ob) of None \<Rightarrow> 0 | Some r \<Rightarrow> ob_retry r)"

definition outbox_wf :: "'p outbox \<Rightarrow> bool" where
  "outbox_wf ob \<longleftrightarrow> distinct (map ob_id (ob_rows ob)) \<and> (\<forall>r \<in> set (ob_rows ob). ob_id r < ob_next ob)"

definition outbox_pending_ids :: "'p outbox \<Rightarrow> int list" where
  "outbox_pending_ids ob = map ob_id (outbox_pending ob)"

lemma outbox_ids_keep [outbox_simps]:
  "map ob_id (ob_rows (outbox_set_status ids st ob)) = map ob_id (ob_rows ob)"
  "map ob_id (ob_rows (outbox_bump i ob)) = map ob_id (ob_rows ob)"
  by (simp_all add: outbox_set_status_def outbox_bump_def update_where_keys)

lemma outbox_next_keep [simp]:
  "ob_next (outbox_set_status ids st ob) = ob_next ob" "ob_next (outbox_bump i ob) = ob_next ob"
  by (simp_all add: outbox_set_status_def outbox_bump_def)

lemma outbox_wf_alt:
  "outbox_wf ob \<longleftrightarrow> distinct (map ob_id (ob_rows ob)) \<and> (\<forall>i \<in> set (map ob_id (ob_rows ob)). i < ob_next ob)"
  by (auto simp: outbox_wf_def)

lemma outbox_wf_keep [outbox_simps]:
  "outbox_wf (outbox_set_status ids st ob) = outbox_wf ob"
  "outbox_wf (outbox_bump i ob) = outbox_wf ob"
  by (simp_all only: outbox_wf_alt outbox_ids_keep outbox_next_keep)

lemma outbox_wf_insert: "outbox_wf ob \<Longrightarrow> outbox_wf (snd (outbox_insert ty p ob))"
  by (auto simp: outbox_wf_def outbox_insert_def)

lemma outbox_insert_all_rows:
  "ob_rows (snd (outbox_insert_all ty ps ob)) =
     ob_rows ob @ map (\<lambda>(i, p). \<lparr>ob_id = i, ob_type = ty, ob_payload = p,
                                ob_status = EventStatusPending, ob_retry = 0\<rparr>)
       (zip (fst (outbox_insert_all ty ps ob)) ps)"
  by (induction ps arbitrary: ob) (simp_all add: outbox_insert_def Let_def)

lemma outbox_insert_all_ids:
  "fst (outbox_insert_all ty ps ob) = map (\<lambda>k. ob_next ob + int k) [0..<length ps]"
proof (induction ps arbitrary: ob)
  case (Cons p ps)
  have "map (\<lambda>k. ob_next ob + 1 + int k) [0..<length ps]
      = map (\<lambda>k. ob_next ob + int k) [Suc 0..<Suc (length ps)]"
    by (simp only: map_Suc_upt [symmetric] list.map_comp) (simp add: comp_def algebra_simps)
  then show ?case using Cons [of "snd (outbox_insert ty p ob)"]
    by (simp add: Let_def outbox_insert_def upt_conv_Cons del: upt_Suc)
qed simp

lemma outbox_wf_insert_all: "outbox_wf ob \<Longrightarrow> outbox_wf (snd (outbox_insert_all ty ps ob))"
  by (induction ps arbitrary: ob) (simp_all add: Let_def outbox_wf_insert)

lemma outbox_insert_all_length [simp]: "length (fst (outbox_insert_all ty ps ob)) = length ps"
  by (simp add: outbox_insert_all_ids)

lemma outbox_pending_set_status [outbox_simps]:
  "st \<noteq> EventStatusPending \<Longrightarrow>
   outbox_pending_ids (outbox_set_status ids st ob) = filter (\<lambda>i. i \<notin> ids) (outbox_pending_ids ob)"
proof -
  assume st: "st \<noteq> EventStatusPending"
  have "map ob_id (filter (\<lambda>r. ob_status r = EventStatusPending)
          (update_where (\<lambda>r. ob_id r \<in> ids) (ob_status_update (\<lambda>_. st)) rows))
      = filter (\<lambda>i. i \<notin> ids) (map ob_id (filter (\<lambda>r. ob_status r = EventStatusPending) rows))" for rows
    using st by (induction rows) auto
  then show ?thesis by (simp add: outbox_pending_ids_def outbox_pending_def outbox_set_status_def)
qed

lemma outbox_pending_bump [outbox_simps]:
  "outbox_pending_ids (outbox_bump i ob) = outbox_pending_ids ob"
proof -
  have "map ob_id (filter (\<lambda>r. ob_status r = EventStatusPending)
          (update_where (\<lambda>r. ob_id r = i) (ob_retry_update Suc) rows))
      = map ob_id (filter (\<lambda>r. ob_status r = EventStatusPending) rows)" for rows :: "'a OutboxEventModel list"
    by (induction rows) auto
  then show ?thesis by (simp add: outbox_pending_ids_def outbox_pending_def outbox_bump_def)
qed

lemma outbox_page_ids: "map ob_id (outbox_page off lim ob) = take lim (drop off (outbox_pending_ids ob))"
  by (simp add: outbox_page_def outbox_pending_ids_def take_map drop_map)

section \<open>The producer\<close>

text \<open>\<open>ack i\<close> tells whether the broker accepts the \<open>i\<close>-th message.\<close>

definition SendBatch :: "(nat \<Rightarrow> bool) \<Rightarrow> 'm list \<Rightarrow> 'm list \<Rightarrow> bool list option \<times> 'm list" where
  "SendBatch ack msgs bus =
     (if msgs = [] then (None, bus)
      else
        (let errs = map (\<lambda>i. \<not> ack i) [0..<length msgs];
             bus' = bus @ map snd (filter (\<lambda>(i, m). ack i) (enumerate 0 msgs))
         in if list_all (\<lambda>e. \<not> e) errs then (None, bus') else (Some errs, bus')))"

lemma SendBatch_errs:
  "fst (SendBatch ack msgs bus) =
     (if \<forall>i < length msgs. ack i then None else Some (map (\<lambda>i. \<not> ack i) [0..<length msgs]))"
  by (auto simp: SendBatch_def Let_def list_all_iff)

lemma SendBatch_bus:
  "snd (SendBatch ack msgs bus) = bus @ map snd (filter (\<lambda>(i, m). ack i) (enumerate 0 msgs))"
  by (auto simp: SendBatch_def Let_def)

section \<open>The worker\<close>

record worker_env =
  we_list :: bool
  we_ack :: "nat \<Rightarrow> bool"
  we_inc :: "nat \<Rightarrow> bool"
  we_failed :: "nat \<Rightarrow> bool"
  we_sent :: bool

definition worker_failed_one ::
  "nat \<Rightarrow> (bool \<Rightarrow> int \<Rightarrow> 't \<Rightarrow> ('e + nat) \<times> 't) \<Rightarrow> (bool \<Rightarrow> int \<Rightarrow> 't \<Rightarrow> ('e + unit) \<times> 't)
   \<Rightarrow> worker_env \<Rightarrow> nat \<Rightarrow> int \<Rightarrow> 't \<Rightarrow> 't" where
  "worker_failed_one maxRetry increase_retry mark_failed env i eid t =
     (case increase_retry (we_inc env i) eid t of
        (Inl _, t') \<Rightarrow> t'
      | (Inr retry, t') \<Rightarrow>
          if retry > maxRetry then snd (mark_failed (we_failed env i) eid t') else t')"

fun worker_scan ::
  "nat \<Rightarrow> (bool \<Rightarrow> int \<Rightarrow> 't \<Rightarrow> ('e + nat) \<times> 't) \<Rightarrow> (bool \<Rightarrow> int \<Rightarrow> 't \<Rightarrow> ('e + unit) \<times> 't)
   \<Rightarrow> worker_env \<Rightarrow> nat \<Rightarrow> int list \<Rightarrow> bool list \<Rightarrow> 't \<Rightarrow> int list \<times> 't" where
  "worker_scan maxRetry inc mf env i (eid # ids) (err # errs) t =
     (if err
      then worker_scan maxRetry inc mf env (Suc i) ids errs
             (worker_failed_one maxRetry inc mf env i eid t)
      else (let q = worker_scan maxRetry inc mf env (Suc i) ids errs t in (eid # fst q, snd q)))"
| "worker_scan maxRetry inc mf env i _ _ t = ([], t)"

definition worker_processBatch ::
  "nat \<Rightarrow> (bool \<Rightarrow> int \<Rightarrow> 't \<Rightarrow> ('e + nat) \<times> 't) \<Rightarrow> (bool \<Rightarrow> int \<Rightarrow> 't \<Rightarrow> ('e + unit) \<times> 't)
   \<Rightarrow> (bool \<Rightarrow> int list \<Rightarrow> 't \<Rightarrow> ('e + unit) \<times> 't)
   \<Rightarrow> worker_env \<Rightarrow> (int \<times> 'ev) list \<Rightarrow> 't \<times> 'ev list \<Rightarrow> 't \<times> 'ev list" where
  "worker_processBatch maxRetry inc mf batch_sent env evs st =
     (let (t, bus) = st;
          (errs, bus') = SendBatch (we_ack env) (map snd evs) bus;
          (ok, t') = (case errs of
                        None \<Rightarrow> (map fst evs, t)
                      | Some es \<Rightarrow> worker_scan maxRetry inc mf env 0 (map fst evs) es t)
      in (if ok = [] then t' else snd (batch_sent (we_sent env) ok t'), bus'))"

text \<open>One page per round; the loop of \<open>Run\<close> with its \<open>offset += batchSize\<close>.  The fuel bounds the
  rounds; \<open>None\<close> is a run cut off by it.\<close>

fun worker_Run ::
  "nat \<Rightarrow> nat \<Rightarrow> (nat \<Rightarrow> nat \<Rightarrow> 't \<Rightarrow> (int \<times> 'ev) list)
   \<Rightarrow> (bool \<Rightarrow> int \<Rightarrow> 't \<Rightarrow> ('e + nat) \<times> 't) \<Rightarrow> (bool \<Rightarrow> int \<Rightarrow> 't \<Rightarrow> ('e + unit) \<times> 't)
   \<Rightarrow> (bool \<Rightarrow> int list \<Rightarrow> 't \<Rightarrow> ('e + unit) \<times> 't)
   \<Rightarrow> (nat \<Rightarrow> worker_env) \<Rightarrow> nat \<Rightarrow> nat \<Rightarrow> nat \<Rightarrow> 't \<times> 'ev list \<Rightarrow> (bool \<times> 't \<times> 'ev list) option" where
  "worker_Run batchSize maxRetry lp inc mf bs envs 0 rnd offset st = None"
| "worker_Run batchSize maxRetry lp inc mf bs envs (Suc fuel) rnd offset st =
     (if \<not> we_list (envs rnd) then Some (False, st)
      else
        (let evs = lp offset batchSize (fst st) in
         if evs = [] then Some (True, st)
         else
           (let st' = worker_processBatch maxRetry inc mf bs (envs rnd) evs st in
            if length evs < batchSize then Some (True, st')
            else worker_Run batchSize maxRetry lp inc mf bs envs fuel (Suc rnd) (offset + batchSize) st')))"

lemma worker_scan_keeps:
  assumes "\<And>ok i t. I t \<Longrightarrow> I (snd (inc ok i t))" "\<And>ok i t. I t \<Longrightarrow> I (snd (mf ok i t))" "I t"
  shows "I (snd (worker_scan m inc mf env i ids errs t))"
  using assms(3)
proof (induction ids arbitrary: i errs t)
  case (Cons eid ids)
  have one: "I (worker_failed_one m inc mf env i eid t)"
    using assms(1) [of t "we_inc env i" eid] assms(2) Cons.prems
    by (auto simp: worker_failed_one_def split: prod.splits sum.splits)
  show ?case using Cons one by (cases errs) (auto simp: Let_def)
qed simp

lemma worker_processBatch_keeps:
  assumes "\<And>ok i t. I t \<Longrightarrow> I (snd (inc ok i t))" "\<And>ok i t. I t \<Longrightarrow> I (snd (mf ok i t))"
    and "\<And>ok ids t. I t \<Longrightarrow> I (snd (bs ok ids t))" "I t"
  shows "I (fst (worker_processBatch m inc mf bs env evs (t, bus)))"
proof -
  have "I (snd (worker_scan m inc mf env 0 ids es t))" for ids es
    using worker_scan_keeps [of I inc mf t] assms by blast
  then have "worker_scan m inc mf env 0 ids es t = (x, t') \<Longrightarrow> I t'" for ids es x t'
    by (metis snd_conv)
  then show ?thesis using assms(3,4)
    by (auto simp: worker_processBatch_def Let_def split: prod.splits option.splits)
qed

lemma worker_Run_keeps:
  assumes "\<And>ok i t. I t \<Longrightarrow> I (snd (inc ok i t))" "\<And>ok i t. I t \<Longrightarrow> I (snd (mf ok i t))"
    and "\<And>ok ids t. I t \<Longrightarrow> I (snd (bs ok ids t))" "I (fst st)"
    and "worker_Run b m lp inc mf bs envs fuel rnd off st = Some (r, st')"
  shows "I (fst st')"
  using assms(4,5)
proof (induction fuel arbitrary: rnd off st)
  case (Suc fuel)
  obtain t bus where st: "st = (t, bus)" by fastforce
  have "I (fst (worker_processBatch m inc mf bs (envs rnd) (lp off b t) (t, bus)))"
    using worker_processBatch_keeps [of I inc mf bs] assms(1-3) Suc.prems(1) st by simp
  then show ?case using Suc.IH Suc.prems st by (auto simp: Let_def split: if_splits)
qed simp


section \<open>What a worker needs of its store\<close>

locale outbox_store =
  fixes pending :: "'t \<Rightarrow> int list"
    and list_pending :: "nat \<Rightarrow> nat \<Rightarrow> 't \<Rightarrow> (int \<times> 'ev) list"
    and increase_retry :: "bool \<Rightarrow> int \<Rightarrow> 't \<Rightarrow> ('e + nat) \<times> 't"
    and mark_failed :: "bool \<Rightarrow> int \<Rightarrow> 't \<Rightarrow> ('e + unit) \<times> 't"
    and batch_sent :: "bool \<Rightarrow> int list \<Rightarrow> 't \<Rightarrow> ('e + unit) \<times> 't"
  assumes list_pending_sub:
      "set (map fst (list_pending off lim t)) \<subseteq> set (take lim (drop off (pending t)))"
    and increase_retry_pending: "pending (snd (increase_retry ok i t)) = pending t"
    and mark_failed_pending:
      "pending (snd (mark_failed ok i t)) = pending t
       \<or> pending (snd (mark_failed ok i t)) = filter (\<lambda>j. j \<noteq> i) (pending t)"
    and batch_sent_pending:
      "pending (snd (batch_sent ok ids t)) = (if ok then filter (\<lambda>j. j \<notin> set ids) (pending t) else pending t)"
begin

lemma failed_one_pending:
  "\<exists>S \<subseteq> {eid}. pending (worker_failed_one m increase_retry mark_failed env i eid t)
     = filter (\<lambda>j. j \<notin> S) (pending t)"
proof -
  let ?t = "worker_failed_one m increase_retry mark_failed env i eid t"
  obtain r t' where r: "increase_retry (we_inc env i) eid t = (r, t')" by fastforce
  have p: "pending t' = pending t" using increase_retry_pending [of "we_inc env i" eid t] r by simp
  have "pending ?t = pending t \<or> pending ?t = filter (\<lambda>j. j \<noteq> eid) (pending t)"
    using mark_failed_pending [of "we_failed env i" eid t'] r p
    by (cases r) (auto simp: worker_failed_one_def)
  then show ?thesis
  proof
    assume "pending ?t = pending t"
    then show ?thesis by (intro exI [of _ "{}"]) simp
  next
    assume "pending ?t = filter (\<lambda>j. j \<noteq> eid) (pending t)"
    then show ?thesis by (intro exI [of _ "{eid}"]) simp
  qed
qed

lemma scan_pending:
  "\<exists>S \<subseteq> set ids. pending (snd (worker_scan m increase_retry mark_failed env i ids errs t))
     = filter (\<lambda>j. j \<notin> S) (pending t)"
  (is "\<exists>S \<subseteq> _. ?P ids errs t i S")
proof (induction ids arbitrary: errs t i)
  case Nil
  then show ?case by (intro exI [of _ "{}"]) simp
next
  case (Cons eid ids)
  show ?case
  proof (cases errs)
    case Nil
    then show ?thesis by (intro exI [of _ "{}"]) simp
  next
    case errs: (Cons err es)
    show ?thesis
    proof (cases err)
      case True
      let ?t = "worker_failed_one m increase_retry mark_failed env i eid t"
      obtain S1 where S1: "S1 \<subseteq> {eid}" "pending ?t = filter (\<lambda>j. j \<notin> S1) (pending t)"
        using failed_one_pending [of eid m env i t] by (elim exE conjE)
      obtain S2 where S2: "S2 \<subseteq> set ids" "?P ids es ?t (Suc i) S2"
        using Cons.IH [of "Suc i" es ?t] by (elim exE conjE)
      have "?P (eid # ids) errs t i (S1 \<union> S2)"
        using S1(2) S2(2) True errs by (simp add: conj_commute)
      moreover have "S1 \<union> S2 \<subseteq> set (eid # ids)" using S1(1) S2(1) by auto
      ultimately show ?thesis by blast
    next
      case False
      obtain S2 where S2: "S2 \<subseteq> set ids" "?P ids es t (Suc i) S2"
        using Cons.IH [of "Suc i" es t] by (elim exE conjE)
      have "?P (eid # ids) errs t i S2" using S2(2) False errs by (simp add: Let_def)
      moreover have "S2 \<subseteq> set (eid # ids)" using S2(1) by auto
      ultimately show ?thesis by blast
    qed
  qed
qed

lemma scan_ok:
  "length ids = length errs \<Longrightarrow>
   fst (worker_scan m increase_retry mark_failed env i ids errs t)
   = map fst (filter (\<lambda>p. \<not> snd p) (zip ids errs))"
  by (induction ids errs arbitrary: i t rule: list_induct2) (simp_all add: Let_def)

definition page_scan where
  "page_scan m env evs t =
     (if \<forall>i < length evs. we_ack env i then (map fst evs, t)
      else worker_scan m increase_retry mark_failed env 0 (map fst evs)
             (map (\<lambda>i. \<not> we_ack env i) [0..<length evs]) t)"

lemma process_eq:
  "worker_processBatch m increase_retry mark_failed batch_sent env evs (t, bus) =
     (if fst (page_scan m env evs t) = [] then snd (page_scan m env evs t)
      else snd (batch_sent (we_sent env) (fst (page_scan m env evs t)) (snd (page_scan m env evs t))),
      snd (SendBatch (we_ack env) (map snd evs) bus))"
  using SendBatch_errs [of "we_ack env" "map snd evs" bus]
  by (auto simp: worker_processBatch_def page_scan_def Let_def split: prod.splits option.splits if_splits)

lemma page_scan_ids: "set (fst (page_scan m env evs t)) \<subseteq> set (map fst evs)"
  by (auto simp: page_scan_def scan_ok dest: set_zip_leftD)

lemma page_scan_pending:
  "\<exists>S \<subseteq> set (map fst evs). pending (snd (page_scan m env evs t)) = filter (\<lambda>j. j \<notin> S) (pending t)"
proof (cases "\<forall>i < length evs. we_ack env i")
  case True
  then show ?thesis by (intro exI [of _ "{}"]) (simp add: page_scan_def)
next
  case False
  then show ?thesis using scan_pending [of "map fst evs" m env 0] unfolding page_scan_def if_not_P [OF False]
    by blast
qed

text \<open>A page of the worker touches no event outside it, and an event whose message the broker
  accepted is no longer pending once the batch is marked.\<close>

lemma process_pending:
  "\<exists>S \<subseteq> set (map fst evs).
     pending (fst (worker_processBatch m increase_retry mark_failed batch_sent env evs (t, bus)))
     = filter (\<lambda>j. j \<notin> S) (pending t)"
proof -
  obtain S where S: "S \<subseteq> set (map fst evs)"
    "pending (snd (page_scan m env evs t)) = filter (\<lambda>j. j \<notin> S) (pending t)"
    using page_scan_pending [of evs m env t] by (elim exE conjE)
  define ok where "ok = fst (page_scan m env evs t)"
  define t' where "t' = snd (page_scan m env evs t)"
  have eq: "pending (fst (worker_processBatch m increase_retry mark_failed batch_sent env evs (t, bus)))
      = (if ok = [] \<or> \<not> we_sent env then pending t' else filter (\<lambda>j. j \<notin> set ok) (pending t'))"
    by (simp add: process_eq ok_def t'_def batch_sent_pending)
  have S': "pending t' = filter (\<lambda>j. j \<notin> S) (pending t)" by (simp add: t'_def S(2))
  have ok: "set ok \<subseteq> set (map fst evs)" unfolding ok_def by (rule page_scan_ids)
  show ?thesis
  proof (cases "ok = [] \<or> \<not> we_sent env")
    case True
    then show ?thesis using S(1) by (intro exI [of _ S]) (simp add: eq S' del: de_Morgan_disj)
  next
    case False
    have f: "filter (\<lambda>j. j \<notin> set ok) (filter (\<lambda>j. j \<notin> S) xs) = filter (\<lambda>j. j \<notin> S \<union> set ok) xs" for xs
      by (simp add: conj_commute)
    show ?thesis using S(1) ok False
      by (intro exI [of _ "S \<union> set ok"]) (simp only: eq S' f if_False Un_least simp_thms)
  qed
qed

lemma process_all_acked:
  assumes "\<forall>i < length evs. we_ack env i" "we_sent env"
  shows "pending (fst (worker_processBatch m increase_retry mark_failed batch_sent env evs (t, bus)))
       = filter (\<lambda>i. i \<notin> set (map fst evs)) (pending t)"
    and "snd (worker_processBatch m increase_retry mark_failed batch_sent env evs (t, bus))
       = bus @ map snd evs"
proof -
  have f: "filter (\<lambda>(i, m). we_ack env i) (enumerate 0 (map snd evs)) = enumerate 0 (map snd evs)"
    using assms(1) by (auto simp: filter_id_conv in_set_enumerate_eq)
  show "snd (worker_processBatch m increase_retry mark_failed batch_sent env evs (t, bus))
       = bus @ map snd evs"
    by (simp add: process_eq SendBatch_bus f)
  show "pending (fst (worker_processBatch m increase_retry mark_failed batch_sent env evs (t, bus)))
       = filter (\<lambda>i. i \<notin> set (map fst evs)) (pending t)"
    using assms by (auto simp: process_eq page_scan_def batch_sent_pending)
qed

lemma process_length:
  "length (pending (fst (worker_processBatch m increase_retry mark_failed batch_sent env evs (t, bus))))
   \<le> length (pending t)"
  using process_pending [of evs m env t bus] by auto

lemma list_pending_empty: "length (pending t) \<le> off \<Longrightarrow> list_pending off lim t = []"
  using list_pending_sub [of off lim t] by auto

lemma run_terminates:
  assumes "0 < b" "length (pending t) \<le> fuel + off"
  shows "worker_Run b m list_pending increase_retry mark_failed batch_sent envs (Suc fuel) rnd off (t, bus) \<noteq> None"
  using assms
proof (induction fuel arbitrary: rnd off t bus)
  case 0
  then show ?case by (auto simp: list_pending_empty)
next
  case (Suc fuel)
  let ?evs = "list_pending off b t"
  obtain t' bus' where p: "worker_processBatch m increase_retry mark_failed batch_sent (envs rnd) ?evs (t, bus)
      = (t', bus')" by fastforce
  have l: "length (pending t') \<le> length (pending t)"
    using process_length [of m "envs rnd" ?evs t bus] p by simp
  have "length (pending t') \<le> fuel + (off + b)" using l Suc.prems by linarith
  then show ?case using Suc.IH [of t' "off + b"] Suc.prems(1) p by (auto simp: Let_def)
qed

end

locale exact_outbox_store = outbox_store +
  assumes list_pending_exact: "map fst (list_pending off lim t) = take lim (drop off (pending t))"
begin

lemma process_page_acked:
  assumes "distinct (pending t)" "\<forall>i < b. we_ack env i" "we_sent env"
  shows "pending (fst (worker_processBatch m increase_retry mark_failed batch_sent env (list_pending 0 b t) (t, bus)))
       = drop b (pending t)"
proof -
  let ?evs = "list_pending 0 b t"
  have m: "map fst ?evs = take b (pending t)" by (simp add: list_pending_exact)
  have l: "length ?evs \<le> b" using arg_cong [OF m, of length] by simp
  have "filter (\<lambda>i. i \<notin> set (take b xs)) xs = drop b xs" if "distinct xs" for xs :: "int list"
  proof -
    have d: "distinct (take b xs @ drop b xs)" using that by simp
    have "filter (\<lambda>i. i \<notin> set (take b xs)) (take b xs @ drop b xs) = drop b xs"
      using d by (simp only: filter_append distinct_append) (auto simp: filter_empty_conv filter_id_conv)
    then show ?thesis by simp
  qed
  then show ?thesis
    using process_all_acked(1) [of ?evs env m t bus] assms l by (simp add: m)
qed

text \<open>One run over a healthy broker and database publishes everything when it fits in one page; with
  more than one page and at most two, \<open>offset\<close> has moved past the rows that became pending-free,
  and the second page stays unpublished.\<close>

lemma run_healthy:
  assumes "distinct (pending t)" "0 < b" "length (pending t) \<le> 2 * b"
    and "\<forall>r. we_list (envs r) \<and> we_sent (envs r) \<and> (\<forall>i. we_ack (envs r) i)"
  shows "\<exists>t'. worker_Run b m list_pending increase_retry mark_failed batch_sent envs (Suc (Suc fuel)) 0 0 (t, bus)
         = Some (True, t', bus @ map snd (list_pending 0 b t))
       \<and> pending t' = drop b (pending t)"
proof -
  let ?evs = "list_pending 0 b t"
  obtain t' bus' where p: "worker_processBatch m increase_retry mark_failed batch_sent (envs 0) ?evs (t, bus)
      = (t', bus')" by fastforce
  have t': "pending t' = drop b (pending t)"
    using process_page_acked [of t b "envs 0" m bus] assms p by simp
  have bus': "bus' = bus @ map snd ?evs"
    using process_all_acked(2) [of ?evs "envs 0" m t bus] assms p by simp
  have nil: "list_pending b b t' = []"
    using list_pending_exact [of b b t'] t' assms(3) by simp
  show ?thesis
  proof (cases "?evs = []")
    case True
    have "pending t = []" using list_pending_exact [of 0 b t] True assms(2) by simp
    then show ?thesis using True assms by (intro exI [of _ t]) simp
  next
    case False
    then show ?thesis using p t' bus' nil assms
      by (intro exI [of _ t']) (simp add: Let_def)
  qed
qed

end

end
