(* ===== verification/Redis.thy ===== *)
theory Redis
  imports Prelude
begin

text \<open>
  Redis sorted sets as the list of their (member, score) pairs in Redis order: by score, then by
  member.  \<open>zadd\<close>, \<open>zrem\<close> and the range reads follow the commands; the two Lua scripts of
  \<open>internal/order/infra/cache/lua\<close> are built from them.
\<close>

type_synonym zset = "(string \<times> int) list"

definition zkey :: "string \<times> int \<Rightarrow> int \<times> string" where
  "zkey p = (snd p, fst p)"

definition zadd :: "string \<Rightarrow> int \<Rightarrow> zset \<Rightarrow> zset" where
  "zadd m sc z = insort_key zkey (m, sc) (filter (\<lambda>p. fst p \<noteq> m) z)"

definition zrem :: "string list \<Rightarrow> zset \<Rightarrow> zset" where
  "zrem ms z = filter (\<lambda>p. fst p \<notin> set ms) z"

definition zrangebyscore :: "int \<Rightarrow> zset \<Rightarrow> string list" where
  "zrangebyscore mx z = map fst (filter (\<lambda>p. snd p \<le> mx) z)"

text \<open>\<open>ZREVRANGE key 0 stop\<close>; a negative \<open>stop\<close> counts from the end.\<close>

definition zrevrange0 :: "int \<Rightarrow> zset \<Rightarrow> string list" where
  "zrevrange0 stop z =
     (let n = (if stop < 0 then int (length z) + stop + 1 else stop + 1)
      in map fst (take (nat n) (rev z)))"

definition zadd_with_limit :: "nat \<Rightarrow> string \<Rightarrow> int \<Rightarrow> zset \<Rightarrow> zset" where
  "zadd_with_limit lim m sc z =
     (let z' = zadd m sc z; count = length z'
      in if count > lim then drop (count - lim) z' else z')"

definition zclaim_by_score :: "int \<Rightarrow> nat \<Rightarrow> zset \<Rightarrow> string list \<times> zset" where
  "zclaim_by_score mx lim z =
     (let members = (if lim > 0 then take lim (zrangebyscore mx z) else zrangebyscore mx z)
      in if members = [] then ([], z) else (members, zrem members z))"

definition zset_wf :: "zset \<Rightarrow> bool" where
  "zset_wf z \<longleftrightarrow> sorted (map zkey z) \<and> distinct (map fst z)"

lemma zset_wf_Nil [simp]: "zset_wf []"
  by (simp add: zset_wf_def)

lemma sorted_map_filter_key: "sorted (map f xs) \<Longrightarrow> sorted (map f (filter P xs))"
  by (induction xs) auto

lemma distinct_fst_insort:
  "m \<notin> fst ` set z \<Longrightarrow> distinct (map fst z) \<Longrightarrow> distinct (map fst (insort_key zkey (m, sc) z))"
  by (induction z) (auto simp: set_insort_key)

lemma zset_wf_zadd [simp]: "zset_wf z \<Longrightarrow> zset_wf (zadd m sc z)"
proof -
  assume z: "zset_wf z"
  have "sorted (map zkey (zadd m sc z))"
    using z sorted_map_filter_key [of zkey z "\<lambda>p. fst p \<noteq> m"]
    by (simp add: zadd_def zset_wf_def sorted_insort_key)
  moreover have "distinct (map fst (zadd m sc z))" unfolding zadd_def
    using z by (intro distinct_fst_insort) (auto simp: zset_wf_def distinct_map_filter)
  ultimately show ?thesis by (simp add: zset_wf_def)
qed

lemma zset_wf_zrem [simp]: "zset_wf z \<Longrightarrow> zset_wf (zrem ms z)"
  by (simp add: zset_wf_def zrem_def sorted_map_filter_key distinct_map_filter)

lemma zset_wf_drop: "zset_wf z \<Longrightarrow> zset_wf (drop n z)"
  by (simp add: zset_wf_def drop_map [symmetric] sorted_wrt_drop)

lemma set_zadd: "set (zadd m sc z) = insert (m, sc) {p \<in> set z. fst p \<noteq> m}"
  by (auto simp: zadd_def set_insort_key)

lemma set_zrem: "set (zrem ms z) = {p \<in> set z. fst p \<notin> set ms}"
  by (auto simp: zrem_def)

lemma zadd_with_limit_wf: "zset_wf z \<Longrightarrow> zset_wf (zadd_with_limit lim m sc z)"
  by (simp add: zadd_with_limit_def Let_def zset_wf_drop)

lemma zadd_with_limit_length: "length (zadd_with_limit lim m sc z) \<le> lim"
  by (simp add: zadd_with_limit_def Let_def)

text \<open>The claim script removes exactly what it returns, and the members left behind score above
  the limit unless the batch was full.\<close>

lemma zclaim_members:
  "fst (zclaim_by_score mx lim z)
   = (if lim > 0 then take lim (zrangebyscore mx z) else zrangebyscore mx z)"
  by (auto simp: zclaim_by_score_def Let_def)

lemma zclaim_rest: "snd (zclaim_by_score mx lim z) = zrem (fst (zclaim_by_score mx lim z)) z"
proof -
  have "zrem [] z = z" by (simp add: zrem_def)
  then show ?thesis by (simp add: zclaim_by_score_def Let_def)
qed

lemma filter_notin_take:
  assumes "distinct (map fst z)"
  shows "map fst (filter (\<lambda>p. snd p \<le> mx)
           (filter (\<lambda>p. fst p \<notin> set (take n (map fst (filter (\<lambda>p. snd p \<le> mx) z)))) z))
       = drop n (map fst (filter (\<lambda>p. snd p \<le> mx) z))"
  using assms
proof (induction z arbitrary: n)
  case (Cons p z)
  show ?case
  proof (cases "snd p \<le> mx")
    case le: True
    show ?thesis
    proof (cases n)
      case 0
      then show ?thesis by simp
    next
      case (Suc k)
      let ?t = "take k (map fst (filter (\<lambda>p. snd p \<le> mx) z))"
      have "filter (\<lambda>q. fst q \<noteq> fst p \<and> fst q \<notin> set ?t) z = filter (\<lambda>q. fst q \<notin> set ?t) z"
        using Cons.prems by (intro filter_cong) (auto simp: image_iff)
      then show ?thesis using Cons le Suc by simp
    qed
  next
    case False
    then have "fst p \<notin> set (take n (map fst (filter (\<lambda>p. snd p \<le> mx) z)))"
      using Cons.prems by (auto dest!: in_set_takeD)
    then show ?thesis using False Cons by simp
  qed
qed simp

lemma zclaim_due:
  assumes "zset_wf z" "0 < lim"
  shows "zrangebyscore mx (snd (zclaim_by_score mx lim z)) = drop lim (zrangebyscore mx z)"
  using assms filter_notin_take [of z mx lim]
  by (simp add: zclaim_rest zclaim_members zrem_def zrangebyscore_def zset_wf_def)

end
