(* ===== verification/OrderRepo.thy ===== *)
theory OrderRepo
  imports OrderDomain Outbox Redis
begin

text \<open>
  The order service's storage: the tables of \<open>internal/order/infra/db\<close>, the Redis cache of
  \<open>infra/cache/redis.go\<close>, the order repository of \<open>infra/repository/order.go\<close> and the outbox
  repository of \<open>infra/repository/outbox.go\<close>.  A boolean argument \<open>ok\<close> of an operation is the
  outcome of its database or cache call: \<open>False\<close> is a returned infrastructure error.
\<close>

section \<open>Tables and state\<close>

record OrderModel =
  m_id :: int
  m_user :: int
  m_phone :: string
  m_remark :: string
  m_status :: order_status
  m_kind :: string
  m_activity :: int
  m_currency :: string
  m_total :: int
  m_payable_total :: int
  m_discount_total :: int
  m_street :: string
  m_city :: string
  m_state :: string
  m_country :: string
  m_zipcode :: string
  m_created_at :: int
  m_expired_at :: int
  m_items :: "OrderItem list"

record order_db =
  od_orders :: "OrderModel list"
  od_next :: int
  od_outbox :: "OrderStatusUpdateEvent outbox"

text \<open>A cached value is JSON text: of a row, of a domain order, or of a string holding JSON text.\<close>

datatype cached = JsonModel OrderModel | JsonOrder Order | JsonString cached

record order_svc =
  os_db :: order_db
  os_kv :: "int \<Rightarrow> cached option"
  os_lists :: "int \<Rightarrow> zset"
  os_delay :: zset
  os_bus :: "OrderStatusUpdateEvent list"

definition toOrderModel :: "Order \<Rightarrow> OrderModel" where
  "toOrderModel ord =
     \<lparr>m_id = o_id ord, m_user = o_user ord, m_phone = ad_phone (o_addr ord), m_remark = o_remark ord,
      m_status = o_status ord, m_kind = o_kind ord, m_activity = o_activity ord,
      m_currency = am_currency (o_payable ord), m_total = am_total (o_total ord),
      m_payable_total = am_total (o_payable ord), m_discount_total = am_total (o_discount ord),
      m_street = ad_street (o_addr ord), m_city = ad_city (o_addr ord), m_state = ad_state (o_addr ord),
      m_country = ad_country (o_addr ord), m_zipcode = ad_zipcode (o_addr ord),
      m_created_at = 0, m_expired_at = o_expire_at ord, m_items = o_items ord\<rparr>"

definition toDomainOrder :: "OrderModel \<Rightarrow> Order" where
  "toDomainOrder m =
     \<lparr>o_id = m_id m, o_user = m_user m, o_remark = m_remark m,
      o_addr = \<lparr>ad_street = m_street m, ad_city = m_city m, ad_state = m_state m,
                ad_country = m_country m, ad_zipcode = m_zipcode m, ad_phone = m_phone m\<rparr>,
      o_status = m_status m, o_kind = m_kind m, o_activity = m_activity m,
      o_created_at = m_created_at m, o_expire_at = m_expired_at m,
      o_total = \<lparr>am_currency = m_currency m, am_total = m_total m\<rparr>,
      o_payable = \<lparr>am_currency = m_currency m, am_total = m_payable_total m\<rparr>,
      o_discount = \<lparr>am_currency = m_currency m, am_total = m_discount_total m\<rparr>,
      o_items = m_items m\<rparr>"

lemma toDomainOrder_simps [simp]:
  "o_id (toDomainOrder m) = m_id m" "o_user (toDomainOrder m) = m_user m"
  "o_status (toDomainOrder m) = m_status m" "o_kind (toDomainOrder m) = m_kind m"
  "o_activity (toDomainOrder m) = m_activity m" "o_items (toDomainOrder m) = m_items m"
  by (simp_all add: toDomainOrder_def)

lemma toOrderModel_simps [simp]:
  "m_id (toOrderModel ord) = o_id ord" "m_user (toOrderModel ord) = o_user ord"
  "m_status (toOrderModel ord) = o_status ord" "m_kind (toOrderModel ord) = o_kind ord"
  by (simp_all add: toOrderModel_def)

section \<open>Cache\<close>

text \<open>\<open>Set\<close> marshals its argument; both callers pass text that is already JSON, so what is stored is
  a JSON string.\<close>

definition cache_Set :: "bool \<Rightarrow> int \<Rightarrow> cached \<Rightarrow> order_svc \<Rightarrow> order_svc" where
  "cache_Set ok key text s = (if ok then s\<lparr>os_kv := (os_kv s)(key := Some (JsonString text))\<rparr> else s)"

definition cache_Del :: "bool \<Rightarrow> int list \<Rightarrow> order_svc \<Rightarrow> order_svc" where
  "cache_Del ok ks s =
     (if ok then s\<lparr>os_kv := (\<lambda>k. if k \<in> set ks then None else os_kv s k)\<rparr> else s)"

definition cache_DelList :: "bool \<Rightarrow> int \<Rightarrow> order_svc \<Rightarrow> order_svc" where
  "cache_DelList ok uid s = (if ok then s\<lparr>os_lists := (os_lists s)(uid := [])\<rparr> else s)"

definition zeroAddress :: Address where
  "zeroAddress = \<lparr>ad_street = [], ad_city = [], ad_state = [], ad_country = [], ad_zipcode = [], ad_phone = []\<rparr>"

definition zeroAmount :: Amount where
  "zeroAmount = \<lparr>am_currency = [], am_total = 0\<rparr>"

text \<open>\<open>json.Unmarshal\<close> into a \<open>domain.Order\<close>: fields are matched by name, so a row's text fills only
  the fields the two structs share, and a JSON string does not decode at all.\<close>

fun unmarshal_order :: "cached \<Rightarrow> Order option" where
  "unmarshal_order (JsonOrder ord) = Some ord"
| "unmarshal_order (JsonModel m) =
     Some \<lparr>o_id = m_id m, o_user = m_user m, o_remark = m_remark m, o_addr = zeroAddress,
           o_status = m_status m, o_kind = m_kind m, o_activity = m_activity m,
           o_created_at = m_created_at m, o_expire_at = 0, o_total = zeroAmount,
           o_payable = zeroAmount, o_discount = zeroAmount, o_items = []\<rparr>"
| "unmarshal_order (JsonString t) = None"

section \<open>Order repository\<close>

definition pageLimit :: nat where "pageLimit = 10"

datatype db_error = DupEntry | DbOther

definition isDuplicate :: "db_error \<Rightarrow> bool" where
  "isDuplicate e \<longleftrightarrow> e = DupEntry"

text \<open>\<open>INSERT\<close> of an order: an id of 0 takes the next auto-increment value.\<close>

definition insert_order :: "bool \<Rightarrow> int \<Rightarrow> OrderModel \<Rightarrow> order_db \<Rightarrow> (db_error + OrderModel) \<times> order_db" where
  "insert_order ok now m d =
     (if \<not> ok then (Inl DbOther, d)
      else
        (let k = (if m_id m = 0 then od_next d else m_id m);
             row = m\<lparr>m_id := k, m_created_at := now\<rparr>
         in if k \<in> m_id ` set (od_orders d) then (Inl DupEntry, d)
            else (Inr row, d\<lparr>od_orders := od_orders d @ [row], od_next := max (od_next d) (k + 1)\<rparr>)))"

definition repo_Save :: "bool \<Rightarrow> int \<Rightarrow> Order \<Rightarrow> order_svc \<Rightarrow> (order_error + OrderModel) \<times> order_svc" where
  "repo_Save ok now ord s =
     (case insert_order ok now (toOrderModel ord) (os_db s) of
        (Inl e, d) \<Rightarrow> (Inl (if isDuplicate e then ErrDuplicateOrder else ErrInfra), s\<lparr>os_db := d\<rparr>)
      | (Inr row, d) \<Rightarrow> (Inr row, s\<lparr>os_db := d\<rparr>))"

text \<open>The goroutine \<open>Save\<close> starts.\<close>

definition cacheOrderAfterSave :: "bool \<Rightarrow> bool \<Rightarrow> OrderModel \<Rightarrow> order_svc \<Rightarrow> order_svc" where
  "cacheOrderAfterSave set_ok zadd_ok m s =
     (let s1 = cache_Set set_ok (m_id m) (JsonModel m) s
      in if zadd_ok
         then s1\<lparr>os_lists := (os_lists s1)(m_user m :=
                  zadd_with_limit pageLimit (format_int (m_id m)) (m_created_at m) (os_lists s1 (m_user m)))\<rparr>
         else s1)"

definition repo_FindByID :: "bool \<Rightarrow> int \<Rightarrow> order_svc \<Rightarrow> order_error + Order" where
  "repo_FindByID ok k s =
     (if \<not> ok then Inl ErrInfra
      else (case find_row m_id k (od_orders (os_db s)) of
              None \<Rightarrow> Inl ErrRecordNotFound
            | Some m \<Rightarrow> Inr (toDomainOrder m)))"

fun assemble_orders :: "(int \<Rightarrow> Order option) \<Rightarrow> int list \<Rightarrow> order_error + Order list" where
  "assemble_orders byID [] = Inr []"
| "assemble_orders byID (k # ks) =
     (case byID k of
        None \<Rightarrow> Inl ErrRecordNotFound
      | Some ord \<Rightarrow> (case assemble_orders byID ks of Inl e \<Rightarrow> Inl e | Inr ords \<Rightarrow> Inr (ord # ords)))"

definition repo_FindByIDs :: "bool \<Rightarrow> int list \<Rightarrow> order_svc \<Rightarrow> order_error + Order list" where
  "repo_FindByIDs ok ks s =
     (if ks = [] then Inr []
      else if \<not> ok then Inl ErrInfra
      else
        (let models = filter (\<lambda>m. m_id m \<in> set ks) (od_orders (os_db s));
             ordersByID = map_of (map (\<lambda>m. (m_id m, toDomainOrder m)) (rev models))
         in assemble_orders ordersByID ks))"

definition matchStatuses :: "order_status \<Rightarrow> order_status list" where
  "matchStatuses st = [st]"

definition set_order_status :: "(OrderModel \<Rightarrow> bool) \<Rightarrow> order_status \<Rightarrow> order_db \<Rightarrow> order_db" where
  "set_order_status P st d = d\<lparr>od_orders := update_where P (m_status_update (\<lambda>_. st)) (od_orders d)\<rparr>"

definition repo_UpdateStatus ::
  "bool \<Rightarrow> bool \<Rightarrow> int \<Rightarrow> order_status \<Rightarrow> order_status \<Rightarrow> order_svc \<Rightarrow> (order_error + unit) \<times> order_svc" where
  "repo_UpdateStatus ok del_ok k from_st to_st s =
     (if \<not> ok then (Inl ErrInfra, s)
      else
        (let P = (\<lambda>m. m_id m = k \<and> m_status m \<in> set (matchStatuses from_st))
         in if rows_affected P (od_orders (os_db s)) = 0 then (Inl ErrRecordNotFound, s)
            else (Inr (), cache_Del del_ok [k] (s\<lparr>os_db := set_order_status P to_st (os_db s)\<rparr>))))"

definition repo_BatchUpdateStatus ::
  "bool \<Rightarrow> bool \<Rightarrow> int list \<Rightarrow> order_status \<Rightarrow> order_status \<Rightarrow> order_svc \<Rightarrow> (order_error + unit) \<times> order_svc" where
  "repo_BatchUpdateStatus ok del_ok ks from_st to_st s =
     (if ks = [] then (Inr (), s)
      else if \<not> ok then (Inl ErrInfra, s)
      else
        (let P = (\<lambda>m. m_id m \<in> set ks \<and> m_status m = from_st);
             s' = s\<lparr>os_db := set_order_status P to_st (os_db s)\<rparr>
         in if rows_affected P (od_orders (os_db s)) \<noteq> length ks then (Inl ErrRecordNotFound, s')
            else (Inr (), cache_Del del_ok ks s')))"

subsection \<open>Listing\<close>

definition user_rows_desc :: "int \<Rightarrow> int \<Rightarrow> order_svc \<Rightarrow> OrderModel list" where
  "user_rows_desc uid cursor s =
     rev (sort_key m_id
       (filter (\<lambda>m. m_user m = uid \<and> (cursor > 0 \<longrightarrow> m_id m < cursor)) (od_orders (os_db s))))"

definition list_from_db :: "bool \<Rightarrow> int \<Rightarrow> int \<Rightarrow> nat \<Rightarrow> order_svc \<Rightarrow> order_error + (Order list \<times> int)" where
  "list_from_db ok uid cursor lim s =
     (if \<not> ok then Inl ErrInfra
      else
        (let models = take (lim + 1) (user_rows_desc uid cursor s);
             hasMore = length models > lim;
             page = map toDomainOrder (if hasMore then take lim models else models)
         in Inr (page, if hasMore then o_id (last page) else 0)))"

record list_env =
  le_zrange :: bool
  le_mget :: bool
  le_miss :: bool
  le_set :: "int \<Rightarrow> bool"
  le_del :: bool
  le_db :: bool

definition fill_misses :: "(int \<times> nat) list \<Rightarrow> OrderModel list \<Rightarrow> Order option list \<Rightarrow> Order option list" where
  "fill_misses missIndexes models ords =
     fold (\<lambda>m acc. case map_of (rev missIndexes) (m_id m) of
                     None \<Rightarrow> acc
                   | Some i \<Rightarrow> acc[i := Some (toDomainOrder m)]) models ords"

definition write_back :: "list_env \<Rightarrow> OrderModel list \<Rightarrow> order_svc \<Rightarrow> order_svc" where
  "write_back env models s =
     fold (\<lambda>m s. cache_Set (le_set env (m_id m)) (m_id m) (JsonOrder (toDomainOrder m)) s) models s"

definition list_from_cache ::
  "list_env \<Rightarrow> int \<Rightarrow> nat \<Rightarrow> int list \<Rightarrow> order_svc \<Rightarrow> (order_error + (Order list \<times> int)) \<times> order_svc" where
  "list_from_cache env uid lim orderIDs s =
     (let cachedOrders = map (\<lambda>k. Option.bind (os_kv s k) unmarshal_order) orderIDs;
          misses = filter (\<lambda>(i, k). cachedOrders ! i = None) (enumerate 0 orderIDs);
          missIDs = map snd misses;
          missIndexes = map (\<lambda>(i, k). (k, i)) misses;
          missModels = filter (\<lambda>m. m_id m \<in> set missIDs) (od_orders (os_db s))
      in if missIDs \<noteq> [] \<and> \<not> le_miss env then (Inl ErrInfra, s)
         else
           (let filled = (if missIDs = [] then cachedOrders else fill_misses missIndexes missModels cachedOrders);
                s1 = (if missIDs = [] then s else write_back env missModels s);
                validOrders = [ord. Some ord \<leftarrow> filled, o_id ord \<noteq> 0];
                s2 = (if length validOrders < length filled then cache_DelList (le_del env) uid s1 else s1)
            in (Inr (validOrders, if length validOrders < lim then 0 else o_id (last validOrders)), s2)))"

definition repo_ListByUserID ::
  "list_env \<Rightarrow> int \<Rightarrow> int \<Rightarrow> nat \<Rightarrow> order_svc \<Rightarrow> (order_error + (Order list \<times> int)) \<times> order_svc" where
  "repo_ListByUserID env uid cursor lim s =
     (let orderIDs = (if cursor = 0 \<and> lim \<le> pageLimit \<and> le_zrange env
                      then List.map_filter parse_int (zrevrange0 (int lim - 1) (os_lists s uid)) else [])
      in if orderIDs \<noteq> [] \<and> le_mget env then list_from_cache env uid lim orderIDs s
         else (list_from_db (le_db env) uid cursor lim s, s))"

definition repo_FindExpiredOrders :: "bool \<Rightarrow> int \<Rightarrow> nat \<Rightarrow> order_svc \<Rightarrow> order_error + Order list" where
  "repo_FindExpiredOrders ok now lim s =
     (if \<not> ok then Inl ErrInfra
      else
        (let models = filter (\<lambda>m. m_status m = OrderStatusCreated \<and> m_expired_at m < now) (od_orders (os_db s))
         in Inr (map toDomainOrder (if lim > 0 then take lim models else models))))"

section \<open>Outbox repository\<close>

text \<open>\<open>MarkSent\<close> and \<open>MarkFailed\<close> call \<open>Where(...).Update(...)\<close> without \<open>Model\<close> or \<open>Table\<close>.
  \<open>infers\<close> says whether GORM finds the table of such an update; GORM documents that it does not
  (it answers "Table not set, please set it like: db.Model(&user)").\<close>

definition orderOutbox_Add ::
  "bool \<Rightarrow> string \<Rightarrow> OrderStatusUpdateEvent \<Rightarrow> OrderStatusUpdateEvent outbox
   \<Rightarrow> (order_error + int) \<times> OrderStatusUpdateEvent outbox" where
  "orderOutbox_Add ok ty ev ob =
     (if \<not> ok then (Inl ErrInfra, ob)
      else (let r = outbox_insert ty ev ob in (Inr (fst r), snd r)))"

definition orderOutbox_BatchAdd ::
  "bool \<Rightarrow> string \<Rightarrow> OrderStatusUpdateEvent list \<Rightarrow> OrderStatusUpdateEvent outbox
   \<Rightarrow> (order_error + int list) \<times> OrderStatusUpdateEvent outbox" where
  "orderOutbox_BatchAdd ok ty evs ob =
     (if evs = [] then (Inr [], ob)
      else if \<not> ok then (Inl ErrInfra, ob)
      else (let r = outbox_insert_all ty evs ob in (Inr (fst r), snd r)))"

definition orderOutbox_ListPending ::
  "nat \<Rightarrow> nat \<Rightarrow> OrderStatusUpdateEvent outbox \<Rightarrow> (int \<times> OrderStatusUpdateEvent) list" where
  "orderOutbox_ListPending offset lim ob =
     map (\<lambda>r. (ob_id r, ob_payload r)) (outbox_page offset lim ob)"

definition orderOutbox_MarkSent ::
  "bool \<Rightarrow> bool \<Rightarrow> int \<Rightarrow> OrderStatusUpdateEvent outbox \<Rightarrow> (order_error + unit) \<times> OrderStatusUpdateEvent outbox" where
  "orderOutbox_MarkSent infers ok i ob =
     (if \<not> infers \<or> \<not> ok then (Inl ErrInfra, ob)
      else if \<not> outbox_has i ob then (Inl ErrRecordNotFound, ob)
      else (Inr (), outbox_set_status {i} EventStatusSent ob))"

definition orderOutbox_BatchMarkSent ::
  "bool \<Rightarrow> int list \<Rightarrow> OrderStatusUpdateEvent outbox \<Rightarrow> (order_error + unit) \<times> OrderStatusUpdateEvent outbox" where
  "orderOutbox_BatchMarkSent ok ids ob =
     (if ids = [] then (Inr (), ob)
      else if \<not> ok then (Inl ErrInfra, ob)
      else (Inr (), outbox_set_status (set ids) EventStatusSent ob))"

definition orderOutbox_MarkFailed ::
  "bool \<Rightarrow> bool \<Rightarrow> int \<Rightarrow> OrderStatusUpdateEvent outbox \<Rightarrow> (order_error + unit) \<times> OrderStatusUpdateEvent outbox" where
  "orderOutbox_MarkFailed infers ok i ob =
     (if \<not> infers \<or> \<not> ok then (Inl ErrInfra, ob)
      else if \<not> outbox_has i ob then (Inl ErrRecordNotFound, ob)
      else (Inr (), outbox_set_status {i} EventStatusFailed ob))"

definition orderOutbox_IncreaseRetry ::
  "bool \<Rightarrow> int \<Rightarrow> OrderStatusUpdateEvent outbox \<Rightarrow> (order_error + nat) \<times> OrderStatusUpdateEvent outbox" where
  "orderOutbox_IncreaseRetry ok i ob =
     (if \<not> ok then (Inl ErrInfra, ob)
      else if \<not> outbox_has i ob then (Inl ErrRecordNotFound, ob)
      else (let ob' = outbox_bump i ob in (Inr (outbox_retry i ob'), ob')))"

interpretation order_outbox: exact_outbox_store outbox_pending_ids orderOutbox_ListPending
    orderOutbox_IncreaseRetry "orderOutbox_MarkFailed infers" orderOutbox_BatchMarkSent for infers
proof
  fix off lim and t :: "OrderStatusUpdateEvent outbox"
  have e: "map fst (orderOutbox_ListPending off lim t) = map ob_id (outbox_page off lim t)"
    by (simp add: orderOutbox_ListPending_def comp_def)
  then show "map fst (orderOutbox_ListPending off lim t) = take lim (drop off (outbox_pending_ids t))"
    and "set (map fst (orderOutbox_ListPending off lim t)) \<subseteq> set (take lim (drop off (outbox_pending_ids t)))"
    by (simp_all only: outbox_page_ids order_refl)
next
  fix ok i and t :: "OrderStatusUpdateEvent outbox"
  show "outbox_pending_ids (snd (orderOutbox_IncreaseRetry ok i t)) = outbox_pending_ids t"
    by (simp add: orderOutbox_IncreaseRetry_def Let_def outbox_simps)
  show "outbox_pending_ids (snd (orderOutbox_MarkFailed infers ok i t)) = outbox_pending_ids t \<or>
    outbox_pending_ids (snd (orderOutbox_MarkFailed infers ok i t)) = filter (\<lambda>j. j \<noteq> i) (outbox_pending_ids t)"
    by (simp add: orderOutbox_MarkFailed_def outbox_simps)
next
  fix ok ids and t :: "OrderStatusUpdateEvent outbox"
  show "outbox_pending_ids (snd (orderOutbox_BatchMarkSent ok ids t)) =
    (if ok then filter (\<lambda>j. j \<notin> set ids) (outbox_pending_ids t) else outbox_pending_ids t)"
    by (simp add: orderOutbox_BatchMarkSent_def outbox_simps)
qed

section \<open>Facts on the repository\<close>

lemma toDomainOrder_toOrderModel:
  assumes "am_currency (o_total ord) = am_currency (o_payable ord)"
    and "am_currency (o_discount ord) = am_currency (o_payable ord)"
  shows "toDomainOrder (toOrderModel ord) = ord\<lparr>o_created_at := 0\<rparr>"
  using assms by (simp add: toDomainOrder_def toOrderModel_def)

lemma set_order_status_ids [simp]:
  "map m_id (od_orders (set_order_status P st d)) = map m_id (od_orders d)"
  by (simp add: set_order_status_def update_where_keys)

lemma set_order_status_rest [simp]:
  "od_outbox (set_order_status P st d) = od_outbox d" "od_next (set_order_status P st d) = od_next d"
  by (simp_all add: set_order_status_def)

lemma cache_ops_db [simp]:
  "os_db (cache_Set ok k v s) = os_db s" "os_db (cache_Del ok ks s) = os_db s"
  "os_db (cache_DelList ok uid s) = os_db s"
  by (simp_all add: cache_Set_def cache_Del_def cache_DelList_def)

lemma cacheOrderAfterSave_db [simp]: "os_db (cacheOrderAfterSave a b m s) = os_db s"
  by (simp add: cacheOrderAfterSave_def Let_def)

lemma assemble_orders_iff:
  "assemble_orders f ks = Inr ords \<longleftrightarrow> map f ks = map Some ords"
proof (induction ks arbitrary: ords)
  case (Cons k ks)
  show ?case
    using Cons.IH [of "tl ords"] by (cases ords) (auto split: option.splits sum.splits)
qed auto

lemma repo_FindByIDs_Inr:
  assumes "distinct (map m_id (od_orders (os_db s)))" "repo_FindByIDs ok ks s = Inr ords"
  shows "map o_id ords = ks"
    and "\<forall>ord \<in> set ords. \<exists>m \<in> set (od_orders (os_db s)). ord = toDomainOrder m"
proof -
  have "map o_id ords = ks \<and> (\<forall>ord \<in> set ords. \<exists>m \<in> set (od_orders (os_db s)). ord = toDomainOrder m)"
  proof (cases "ks = []")
    case True
    then show ?thesis using assms(2) by (simp add: repo_FindByIDs_def)
  next
    case False
    define F where "F = map_of (map (\<lambda>m. (m_id m, toDomainOrder m))
                 (rev (filter (\<lambda>m. m_id m \<in> set ks) (od_orders (os_db s)))))"
    have m: "map F ks = map Some ords"
      using assms(2) False by (simp add: repo_FindByIDs_def Let_def assemble_orders_iff F_def split: if_splits)
    have f: "F k = Some ord \<Longrightarrow> o_id ord = k \<and> (\<exists>m \<in> set (od_orders (os_db s)). ord = toDomainOrder m)" for k ord
      unfolding F_def by (drule map_of_SomeD) auto
    have "list_all2 (\<lambda>k ord. F k = Some ord) ks ords"
      using m by (simp add: list_all2_conv_all_nth list_eq_iff_nth_eq)
    then show ?thesis using f by (induction rule: list_all2_induct) auto
  qed
  then show "map o_id ords = ks"
    and "\<forall>ord \<in> set ords. \<exists>m \<in> set (od_orders (os_db s)). ord = toDomainOrder m" by blast+
qed

end
