(* ===== verification/OrderUsecase.thy ===== *)
theory OrderUsecase
  imports OrderRepo
begin

text \<open>
  The operations of the order service: the use cases of \<open>internal/order/usecase\<close>, the payment
  status consumer of \<open>infra/mq/payment_consumer.go\<close>, the delay queue of
  \<open>infra/delay_queue/redis_zset.go\<close> and the gRPC handler of \<open>transport/grpc/handler.go\<close>.  A use
  case that starts a goroutine returns the goroutine's arguments as a task, and the goroutine's
  body is an operation of its own, so that the two can be interleaved with anything else.
\<close>

section \<open>Creating an order\<close>

record CreateOrderCmd =
  cc_order :: int
  cc_user :: int
  cc_currency :: string
  cc_remark :: string
  cc_address :: Address
  cc_kind :: string
  cc_activity :: int
  cc_payable :: int
  cc_items :: "OrderItem list"

definition normalizeOrderKind :: "string \<Rightarrow> string" where
  "normalizeOrderKind k = (if k = [] then OrderKindDirectBuy else k)"

definition items_total :: "OrderItem list \<Rightarrow> int" where
  "items_total items =
     fold (\<lambda>item total. wrap64 (total + wrap64 (it_price item * it_quantity item))) items 0"

definition cmd_toDomainOrder :: "int \<Rightarrow> CreateOrderCmd \<Rightarrow> Order" where
  "cmd_toDomainOrder now cmd =
     (let total = items_total (cc_items cmd);
          payable = (if cc_payable cmd \<le> 0 then total else cc_payable cmd);
          d = wrap64 (total - payable);
          disc = (if d < 0 then 0 else d)
      in \<lparr>o_id = cc_order cmd, o_user = cc_user cmd, o_remark = cc_remark cmd,
          o_addr = cc_address cmd, o_status = OrderStatusCreated,
          o_kind = normalizeOrderKind (cc_kind cmd), o_activity = cc_activity cmd,
          o_created_at = 0, o_expire_at = now + 30 * 60 * 1000,
          o_total = \<lparr>am_currency = cc_currency cmd, am_total = total\<rparr>,
          o_payable = \<lparr>am_currency = cc_currency cmd, am_total = payable\<rparr>,
          o_discount = \<lparr>am_currency = cc_currency cmd, am_total = disc\<rparr>,
          o_items = cc_items cmd\<rparr>)"

definition sameCreateOrderIntent :: "Order \<Rightarrow> CreateOrderCmd \<Rightarrow> bool" where
  "sameCreateOrderIntent existing cmd \<longleftrightarrow>
     o_id existing = cc_order cmd \<and> o_user existing = cc_user cmd
     \<and> o_activity existing = cc_activity cmd \<and> o_kind existing = normalizeOrderKind (cc_kind cmd)"

record create_env =
  cr_save :: bool
  cr_find :: bool

text \<open>The task of a created order is the row to cache and the (order, time) to enqueue.\<close>

definition CreateOrder_Execute ::
  "create_env \<Rightarrow> int \<Rightarrow> CreateOrderCmd \<Rightarrow> order_svc
   \<Rightarrow> (order_error + int) \<times> (OrderModel \<times> int \<times> int) option \<times> order_svc" where
  "CreateOrder_Execute env now cmd s =
     (if cc_user cmd \<le> 0 then (Inl ErrInvalidUser, None, s)
      else if cc_items cmd = [] then (Inl ErrEmptyOrderItems, None, s)
      else if normalizeOrderKind (cc_kind cmd) = OrderKindSeckill \<and> cc_activity cmd \<le> 0
        then (Inl ErrSeckillActivityRequired, None, s)
      else
        (let ord = cmd_toDomainOrder now cmd in
         case repo_Save (cr_save env) now ord s of
           (Inr row, s') \<Rightarrow> (Inr (m_id row), Some (row, m_id row, o_expire_at ord), s')
         | (Inl e, s') \<Rightarrow>
             if e = ErrDuplicateOrder
             then (case repo_FindByID (cr_find env) (cc_order cmd) s' of
                     Inl _ \<Rightarrow> (Inl e, None, s')
                   | Inr existing \<Rightarrow>
                       if sameCreateOrderIntent existing cmd then (Inr (o_id existing), None, s')
                       else (Inl e, None, s'))
             else (Inl e, None, s')))"

section \<open>The delay queue\<close>

definition claimBatchSize :: nat where "claimBatchSize = 100"

definition delay_Enqueue :: "bool \<Rightarrow> int \<Rightarrow> int \<Rightarrow> order_svc \<Rightarrow> order_svc" where
  "delay_Enqueue ok oid at s = (if ok then s\<lparr>os_delay := zadd (format_int oid) at (os_delay s)\<rparr> else s)"

text \<open>\<open>DrainDue\<close> claims batches until one is short; \<open>oks r\<close> is the outcome of the \<open>r\<close>-th claim.
  Every full round removes members, so the length of the queue bounds the rounds.\<close>

function drain_due ::
  "nat \<Rightarrow> (nat \<Rightarrow> bool) \<Rightarrow> nat \<Rightarrow> int \<Rightarrow> int list \<Rightarrow> zset \<Rightarrow> (order_error + int list) \<times> zset" where
  "drain_due b oks rnd now acc z =
     (if \<not> oks rnd then (Inl ErrInfra, z)
      else
        (let (members, z') = zclaim_by_score now b z in
         if members = [] then (Inr acc, z')
         else
           (let acc' = acc @ List.map_filter parse_int members in
            if length members < b then (Inr acc', z')
            else drain_due b oks (Suc rnd) now acc' z')))"
  by pat_completeness auto

lemma zclaim_shrinks:
  assumes "zclaim_by_score mx lim z = (members, z')" "members \<noteq> []"
  shows "length z' < length z"
proof -
  have r: "z' = zrem members z" using zclaim_rest [of mx lim z] assms(1) by simp
  have "set members \<subseteq> set (zrangebyscore mx z)"
    using zclaim_members [of mx lim z] assms(1) by (auto dest: in_set_takeD split: if_splits)
  moreover obtain m ms where m: "members = m # ms" using assms(2) by (cases members) auto
  ultimately obtain p where p: "p \<in> set z" "fst p = m" by (auto simp: zrangebyscore_def)
  show ?thesis unfolding r zrem_def using p m by (intro length_filter_less [of p]) auto
qed

termination drain_due
  by (relation "measure (\<lambda>(b, oks, rnd, now, acc, z). length z)") (auto dest: zclaim_shrinks [OF sym])

declare drain_due.simps [simp del]

definition delay_DrainDue :: "(nat \<Rightarrow> bool) \<Rightarrow> int \<Rightarrow> order_svc \<Rightarrow> (order_error + int list) \<times> order_svc" where
  "delay_DrainDue oks now s =
     (let r = drain_due claimBatchSize oks 0 now [] (os_delay s) in (fst r, s\<lparr>os_delay := snd r\<rparr>))"

text \<open>The goroutines a created order starts, run to their end.\<close>

definition create_goroutines ::
  "bool \<Rightarrow> bool \<Rightarrow> bool \<Rightarrow> OrderModel \<times> int \<times> int \<Rightarrow> order_svc \<Rightarrow> order_svc" where
  "create_goroutines set_ok zadd_ok enq_ok task s =
     (case task of (row, oid, at) \<Rightarrow>
        delay_Enqueue enq_ok oid at (cacheOrderAfterSave set_ok zadd_ok row s))"

section \<open>Changing the status of one order\<close>

definition EventTypeOrderStatusChanged :: string where
  "EventTypeOrderStatusChanged = ''order.status.changed''"

abbreviation put_db :: "order_db \<Rightarrow> order_svc \<Rightarrow> order_svc" where
  "put_db d s \<equiv> s\<lparr>os_db := d\<rparr>"

definition set_outbox :: "OrderStatusUpdateEvent outbox \<Rightarrow> order_svc \<Rightarrow> order_svc" where
  "set_outbox ob s = s\<lparr>os_db := (os_db s)\<lparr>od_outbox := ob\<rparr>\<rparr>"

record change_env =
  xe_find :: bool
  xe_update :: bool
  xe_del :: bool
  xe_add :: bool

type_synonym status_plan = "order_status \<times> Order"

definition change_prepare ::
  "change_env \<Rightarrow> int \<Rightarrow> order_action \<Rightarrow> order_svc \<Rightarrow> order_error + status_plan option" where
  "change_prepare env oid action s =
     (if oid \<le> 0 then Inl ErrInvalidOrderID
      else if action = OrderActionUnknown then Inl ErrInvalidOrderAction
      else
        (case repo_FindByID (xe_find env) oid s of
           Inl e \<Rightarrow> Inl e
         | Inr fullOrder \<Rightarrow>
             (case applyOrderAction fullOrder action of
                Inl e \<Rightarrow> if e = ErrOrderStatusUnchanged then Inr None else Inl e
              | Inr changed \<Rightarrow>
                  if o_status fullOrder = o_status changed then Inr None
                  else Inr (Some (o_status fullOrder, changed)))))"

definition change_commit ::
  "change_env \<Rightarrow> status_plan \<Rightarrow> order_svc \<Rightarrow> (order_error + int) \<times> order_svc" where
  "change_commit env plan s =
     (case plan of (fromStatus, ord) \<Rightarrow>
        run_tx os_db put_db
          (\<lambda>s. case repo_UpdateStatus (xe_update env) (xe_del env) (o_id ord) fromStatus (o_status ord) s of
                 (Inl e, s1) \<Rightarrow> (Inl (if e = ErrRecordNotFound then ErrInvalidStatusTransition else e), s1)
               | (Inr _, s1) \<Rightarrow>
                   (case orderOutbox_Add (xe_add env) EventTypeOrderStatusChanged
                           (BuildOrderStatusUpdateEvent ord) (od_outbox (os_db s1)) of
                      (r, ob) \<Rightarrow> (r, set_outbox ob s1)))
          s)"

definition ChangeOrderStatus_Execute ::
  "change_env \<Rightarrow> int \<Rightarrow> order_action \<Rightarrow> order_svc
   \<Rightarrow> (order_error + bool) \<times> (int \<times> OrderStatusUpdateEvent) option \<times> order_svc" where
  "ChangeOrderStatus_Execute env oid action s =
     (case change_prepare env oid action s of
        Inl e \<Rightarrow> (Inl e, None, s)
      | Inr None \<Rightarrow> (Inr False, None, s)
      | Inr (Some plan) \<Rightarrow>
          (case change_commit env plan s of
             (Inl e, s') \<Rightarrow> (Inl e, None, s')
           | (Inr outboxID, s') \<Rightarrow>
               (Inr True, Some (outboxID, BuildOrderStatusUpdateEvent (snd plan)), s')))"

text \<open>The goroutine that sends the event and marks its outbox row.\<close>

definition status_publish ::
  "bool \<Rightarrow> bool \<Rightarrow> bool \<Rightarrow> int \<times> OrderStatusUpdateEvent \<Rightarrow> order_svc \<Rightarrow> order_svc" where
  "status_publish infers send_ok mark_ok task s =
     (if \<not> send_ok then s
      else
        (let s1 = s\<lparr>os_bus := os_bus s @ [snd task]\<rparr>
         in set_outbox (snd (orderOutbox_MarkSent infers mark_ok (fst task) (od_outbox (os_db s1)))) s1))"

section \<open>Cancelling a batch\<close>

record cancel_env =
  be_find :: bool
  be_update :: bool
  be_del :: bool
  be_add :: bool

type_synonym cancel_task = "int list \<times> int list \<times> OrderStatusUpdateEvent list"

definition BatchCancel_select :: "Order list \<Rightarrow> Order list" where
  "BatchCancel_select orders = filter (\<lambda>ord. o_status ord = OrderStatusCreated) orders"

definition BatchCancel_commit ::
  "cancel_env \<Rightarrow> Order list \<Rightarrow> order_svc \<Rightarrow> (order_error + cancel_task) \<times> order_svc" where
  "BatchCancel_commit env toCancel s =
     (let toCancelIDs = map o_id toCancel;
          events = map (\<lambda>ord. BuildOrderStatusUpdateEvent (ord\<lparr>o_status := OrderStatusCanceled\<rparr>)) toCancel
      in if toCancelIDs = [] then (Inr ([], [], events), s)
         else
           (case repo_BatchUpdateStatus (be_update env) (be_del env) toCancelIDs
                   OrderStatusCreated OrderStatusCanceled s of
              (Inl e, s1) \<Rightarrow> (Inl e, s1)
            | (Inr _, s1) \<Rightarrow>
                (case orderOutbox_BatchAdd (be_add env) EventTypeOrderStatusChanged events
                        (od_outbox (os_db s1)) of
                   (Inl e, ob) \<Rightarrow> (Inl e, set_outbox ob s1)
                 | (Inr outboxIDs, ob) \<Rightarrow> (Inr (toCancelIDs, outboxIDs, events), set_outbox ob s1))))"

definition BatchCancel_body ::
  "cancel_env \<Rightarrow> int list \<Rightarrow> order_svc \<Rightarrow> (order_error + cancel_task) \<times> order_svc" where
  "BatchCancel_body env orderIDs s =
     (case repo_FindByIDs (be_find env) orderIDs s of
        Inl e \<Rightarrow> (Inl e, s)
      | Inr orders \<Rightarrow> BatchCancel_commit env (BatchCancel_select orders) s)"

definition BatchCancel_Execute ::
  "cancel_env \<Rightarrow> int list \<Rightarrow> order_svc \<Rightarrow> (order_error + cancel_task option) \<times> order_svc" where
  "BatchCancel_Execute env orderIDs s =
     (if orderIDs = [] then (Inr None, s)
      else
        (case run_tx os_db put_db (BatchCancel_body env orderIDs) s of
           (Inl e, s') \<Rightarrow> (Inl e, s')
         | (Inr (cancelIDs, outboxIDs, events), s') \<Rightarrow>
             (Inr (if events = [] then None else Some (cancelIDs, outboxIDs, events)), s')))"

definition batchSendMessages :: "(nat \<Rightarrow> bool) \<Rightarrow> bool \<Rightarrow> cancel_task \<Rightarrow> order_svc \<Rightarrow> order_svc" where
  "batchSendMessages ack mark_ok task s =
     (case task of (orderIDs, outboxIDs, events) \<Rightarrow>
        (let (errs, bus) = SendBatch ack events (os_bus s);
             successOutboxIDs = (case errs of
                 None \<Rightarrow> outboxIDs
               | Some es \<Rightarrow> [i. (i, e) \<leftarrow> zip outboxIDs es, \<not> e]);
             s1 = s\<lparr>os_bus := bus\<rparr>
         in if successOutboxIDs = [] then s1
            else set_outbox (snd (orderOutbox_BatchMarkSent mark_ok successOutboxIDs (od_outbox (os_db s1)))) s1))"

section \<open>Reading\<close>

definition GetOrder_Execute :: "bool \<Rightarrow> int \<Rightarrow> order_svc \<Rightarrow> order_error + Order" where
  "GetOrder_Execute ok oid s =
     (if oid \<le> 0 then Inl ErrInvalidOrderID
      else (case repo_FindByID ok oid s of Inl e \<Rightarrow> Inl e | Inr ord \<Rightarrow> Inr ord))"

definition ListUserOrder_Execute ::
  "list_env \<Rightarrow> int \<Rightarrow> int \<Rightarrow> int \<Rightarrow> order_svc \<Rightarrow> (order_error + (Order list \<times> int)) \<times> order_svc" where
  "ListUserOrder_Execute env uid cursor lim s =
     (if uid \<le> 0 \<or> cursor < 0 \<or> lim \<le> 0 then (Inl ErrInvalidListQuery, s)
      else repo_ListByUserID env uid cursor (nat lim) s)"

section \<open>The payment status consumer\<close>

record PaymentStatusUpdateEvent =
  pe_trade :: string
  pe_order :: int
  pe_status :: payment_status
  pe_txn :: string

definition paymentStatusToOrderAction :: "payment_status \<Rightarrow> order_action \<times> bool" where
  "paymentStatusToOrderAction st =
     (case st of
        PaymentStatusSuccess \<Rightarrow> (OrderActionPay, True)
      | PaymentStatusRefund \<Rightarrow> (OrderActionRefund, True)
      | _ \<Rightarrow> (OrderActionUnknown, False))"

definition payment_Consume ::
  "change_env \<Rightarrow> PaymentStatusUpdateEvent \<Rightarrow> order_svc
   \<Rightarrow> (order_error + unit) \<times> (int \<times> OrderStatusUpdateEvent) option \<times> order_svc" where
  "payment_Consume env evt s =
     (case paymentStatusToOrderAction (pe_status evt) of
        (action, ok) \<Rightarrow>
          if \<not> ok then (Inr (), None, s)
          else
            (case ChangeOrderStatus_Execute env (pe_order evt) action s of
               (Inr _, task, s') \<Rightarrow> (Inr (), task, s')
             | (Inl e, task, s') \<Rightarrow>
                 if e = ErrInvalidStatusTransition then (Inr (), task, s') else (Inl e, task, s')))"

section \<open>The gRPC handler\<close>

datatype rpc_error = BizStatus int | RpcError order_error

record CreateOrderReq =
  rq_order :: int
  rq_user :: int
  rq_currency :: string
  rq_remark :: string
  rq_address :: "Address option"
  rq_kind :: string
  rq_activity :: int
  rq_payable :: int
  rq_items :: "OrderItem list"

definition toCreateOrderBizError :: "order_error \<Rightarrow> rpc_error" where
  "toCreateOrderBizError e =
     (case e of
        ErrInvalidUser \<Rightarrow> BizStatus BizStatusCreateOrderInvalidUser
      | ErrEmptyOrderItems \<Rightarrow> BizStatus BizStatusCreateOrderEmptyItems
      | ErrSeckillActivityRequired \<Rightarrow> BizStatus BizStatusCreateOrderSeckillActivityRequired
      | _ \<Rightarrow> RpcError e)"

definition handler_CreateOrder ::
  "create_env \<Rightarrow> int \<Rightarrow> CreateOrderReq \<Rightarrow> order_svc
   \<Rightarrow> (rpc_error + int) \<times> (OrderModel \<times> int \<times> int) option \<times> order_svc" where
  "handler_CreateOrder env now req s =
     (let cmd = \<lparr>cc_order = rq_order req, cc_user = rq_user req, cc_currency = rq_currency req,
                 cc_remark = rq_remark req,
                 cc_address = (case rq_address req of None \<Rightarrow> zeroAddress | Some a \<Rightarrow> a),
                 cc_kind = rq_kind req, cc_activity = rq_activity req,
                 cc_payable = rq_payable req, cc_items = rq_items req\<rparr>
      in case CreateOrder_Execute env now cmd s of
           (Inl e, task, s') \<Rightarrow> (Inl (toCreateOrderBizError e), task, s')
         | (Inr i, task, s') \<Rightarrow> (Inr i, task, s'))"

record ProtoOrder =
  po_id :: int
  po_user :: int
  po_status :: order_status
  po_items :: "OrderItem list"
  po_total_amount :: int
  po_currency :: string
  po_address :: Address
  po_remark :: string
  po_created_at :: int
  po_expire_at :: int
  po_kind :: string
  po_activity :: int

definition toProtoOrder :: "Order \<Rightarrow> ProtoOrder" where
  "toProtoOrder ord =
     \<lparr>po_id = o_id ord, po_user = o_user ord, po_status = o_status ord, po_items = o_items ord,
      po_total_amount = am_total (o_payable ord), po_currency = am_currency (o_payable ord),
      po_address = o_addr ord, po_remark = o_remark ord,
      po_created_at = o_created_at ord div 1000, po_expire_at = o_expire_at ord div 1000,
      po_kind = o_kind ord, po_activity = o_activity ord\<rparr>"

definition handler_GetOrder :: "bool \<Rightarrow> int \<Rightarrow> order_svc \<Rightarrow> rpc_error + ProtoOrder" where
  "handler_GetOrder ok oid s =
     (case GetOrder_Execute ok oid s of
        Inl e \<Rightarrow> Inl (if e = ErrRecordNotFound then BizStatus BizStatusGetOrderNotFound else RpcError e)
      | Inr ord \<Rightarrow> Inr (toProtoOrder ord))"

definition handler_ChangeOrderStatus ::
  "change_env \<Rightarrow> int \<Rightarrow> order_action \<Rightarrow> order_svc
   \<Rightarrow> (order_error + bool) \<times> (int \<times> OrderStatusUpdateEvent) option \<times> order_svc" where
  "handler_ChangeOrderStatus env oid action s = ChangeOrderStatus_Execute env oid action s"

definition handler_ListOrder ::
  "list_env \<Rightarrow> int \<Rightarrow> int \<Rightarrow> int \<Rightarrow> order_svc \<Rightarrow> (order_error + (ProtoOrder list \<times> int)) \<times> order_svc" where
  "handler_ListOrder env uid cursor lim s =
     (case ListUserOrder_Execute env uid cursor lim s of
        (Inl e, s') \<Rightarrow> (Inl e, s')
      | (Inr (orders, nextCursor), s') \<Rightarrow> (Inr (map toProtoOrder orders, nextCursor), s'))"

end
