(* ===== verification/OrderProps.thy ===== *)
theory OrderProps
  imports OrderUsecase
begin

text \<open>
  Correctness of the order service.  \<open>order_step\<close> interleaves every operation and goroutine, with
  the read phase of a status change or of a batch cancel taken at any earlier time; \<open>order_inv\<close>
  says that the outbox holds, for each order, exactly the path its status took.
\<close>

section \<open>The event log of an order\<close>

definition order_log :: "int \<Rightarrow> OrderStatusUpdateEvent outbox \<Rightarrow> order_status list" where
  "order_log k ob = map (\<lambda>r. ev_status (ob_payload r)) (filter (\<lambda>r. ev_order (ob_payload r) = k) (ob_rows ob))"

definition order_inv :: "order_svc \<Rightarrow> bool" where
  "order_inv s \<longleftrightarrow>
     distinct (map m_id (od_orders (os_db s)))
     \<and> outbox_wf (od_outbox (os_db s))
     \<and> (\<forall>r \<in> set (ob_rows (od_outbox (os_db s))). ev_order (ob_payload r) \<in> m_id ` set (od_orders (os_db s)))
     \<and> (\<forall>m \<in> set (od_orders (os_db s)).
          order_life.path OrderStatusCreated (order_log (m_id m) (od_outbox (os_db s))) (m_status m))"

lemma order_inv_db: "os_db s' = os_db s \<Longrightarrow> order_inv s' = order_inv s"
  by (simp add: order_inv_def)

lemma order_log_keep [simp]:
  "order_log k (outbox_set_status ids st ob) = order_log k ob"
  "order_log k (outbox_bump i ob) = order_log k ob"
proof -
  have "map (\<lambda>r. ev_status (ob_payload r)) (filter (\<lambda>r. ev_order (ob_payload r) = k) (update_where P f rows))
      = map (\<lambda>r. ev_status (ob_payload r)) (filter (\<lambda>r. ev_order (ob_payload r) = k) rows)"
    if "\<And>r. ob_payload (f r) = ob_payload r" for P f and rows :: "OrderStatusUpdateEvent OutboxEventModel list"
    by (induction rows) (auto simp: that)
  then show "order_log k (outbox_set_status ids st ob) = order_log k ob"
    and "order_log k (outbox_bump i ob) = order_log k ob"
    by (simp_all add: order_log_def outbox_set_status_def outbox_bump_def)
qed

lemma order_log_insert_all:
  "order_log k (snd (outbox_insert_all ty evs ob))
   = order_log k ob @ map ev_status (filter (\<lambda>e. ev_order e = k) evs)"
proof -
  have "map (\<lambda>r. ev_status (ob_payload r)) (filter (\<lambda>r. ev_order (ob_payload r) = k)
          (map (\<lambda>(i, p). \<lparr>ob_id = i, ob_type = ty, ob_payload = p, ob_status = EventStatusPending, ob_retry = 0\<rparr>)
            (zip is evs)))
      = map ev_status (filter (\<lambda>e. ev_order e = k) evs)" if "length is = length evs" for "is"
    using that by (induction "is" evs rule: list_induct2) auto
  then show ?thesis by (simp add: order_log_def outbox_insert_all_rows)
qed

lemma outbox_insert_as_all: "outbox_insert ty p ob = (fst (outbox_insert ty p ob), snd (outbox_insert_all ty [p] ob))"
  by (simp add: Let_def)

definition payload_orders :: "OrderStatusUpdateEvent outbox \<Rightarrow> int set" where
  "payload_orders ob = (\<lambda>r. ev_order (ob_payload r)) ` set (ob_rows ob)"

lemma payload_orders_keep [simp]:
  "payload_orders (outbox_set_status ids st ob) = payload_orders ob"
  "payload_orders (outbox_bump i ob) = payload_orders ob"
  by (simp_all add: payload_orders_def outbox_set_status_def outbox_bump_def update_where_image)

lemma payload_orders_insert_all:
  "payload_orders (snd (outbox_insert_all ty evs ob)) = payload_orders ob \<union> ev_order ` set evs"
proof -
  have "ev_order ` set evs = (\<lambda>(i, p). ev_order p) ` set (zip is evs)" if "length is = length evs" for "is"
    using that by (induction "is" evs rule: list_induct2) auto
  from this [of "fst (outbox_insert_all ty evs ob)"] show ?thesis
    by (auto simp: payload_orders_def outbox_insert_all_rows image_Un image_image split_def)
qed

definition db_inv :: "OrderModel list \<Rightarrow> OrderStatusUpdateEvent outbox \<Rightarrow> bool" where
  "db_inv rows ob \<longleftrightarrow>
     distinct (map m_id rows) \<and> outbox_wf ob \<and> payload_orders ob \<subseteq> m_id ` set rows
     \<and> (\<forall>m \<in> set rows. order_life.path OrderStatusCreated (order_log (m_id m) ob) (m_status m))"

lemma order_inv_alt: "order_inv s \<longleftrightarrow> db_inv (od_orders (os_db s)) (od_outbox (os_db s))"
  by (auto simp: order_inv_def db_inv_def payload_orders_def)

lemma db_inv_outbox_keep [simp]:
  "db_inv rows (outbox_set_status ids st ob) = db_inv rows ob"
  "db_inv rows (outbox_bump i ob) = db_inv rows ob"
  by (simp_all add: db_inv_def outbox_wf_keep)

section \<open>Status updates\<close>

lemma affected_all_distinct:
  assumes "distinct (map m_id rows)"
    and "rows_affected (\<lambda>m. m_id m \<in> set ks \<and> Q m) rows = length ks"
  shows "distinct ks"
proof -
  let ?f = "filter (\<lambda>m. m_id m \<in> set ks \<and> Q m) rows"
  have "length ?f = card (m_id ` set ?f)"
    using assms(1) distinct_card [of "map m_id ?f"] by (simp add: distinct_map_filter)
  also have "\<dots> \<le> card (set ks)" by (intro card_mono) auto
  finally have "length ks \<le> card (set ks)" using assms(2) by (simp add: rows_affected_def)
  then show ?thesis using card_length [of ks] by (intro card_distinct) simp
qed

lemma db_inv_transition:
  assumes inv: "db_inv rows ob"
    and all: "rows_affected (\<lambda>m. m_id m \<in> set (map ev_order evs) \<and> m_status m = st) rows = length evs"
    and evs: "\<forall>e \<in> set evs. ev_status e = to_st"
    and legal: "legal_step st to_st"
    and P: "\<And>m. P m \<longleftrightarrow> m_id m \<in> set (map ev_order evs) \<and> m_status m = st"
  shows "db_inv (update_where P (m_status_update (\<lambda>_. to_st)) rows) (snd (outbox_insert_all ty evs ob))"
proof -
  let ?ks = "map ev_order evs"
  have d: "distinct (map m_id rows)" using inv by (simp add: db_inv_def)
  have dk: "distinct ?ks" using affected_all_distinct [OF d, of ?ks "\<lambda>m. m_status m = st"] all by simp
  have hit: "\<forall>k \<in> set ?ks. \<exists>m \<in> set rows. m_id m = k \<and> m_status m = st"
    using rows_affected_keys(2) [OF d dk, of "\<lambda>m. m_status m = st"] all by simp
  have uniq: "m = m'" if "m \<in> set rows" "m' \<in> set rows" "m_id m = m_id m'" for m m'
    using d that by (auto simp: distinct_map inj_on_def)
  have log: "order_log k (snd (outbox_insert_all ty evs ob))
      = order_log k ob @ (if k \<in> set ?ks then [to_st] else [])" for k
  proof -
    have "map ev_status (filter (\<lambda>e. ev_order e = k) evs) = (if k \<in> set ?ks then [to_st] else [])"
    proof (cases "find_row ev_order k evs")
      case None
      then have "k \<notin> set ?ks" by (simp add: find_row_None_iff)
      then show ?thesis using filter_unique [OF dk, of k] None by simp
    next
      case (Some e)
      then have "e \<in> set evs" "ev_order e = k" by (auto dest: find_row_SomeD)
      then show ?thesis using filter_unique [OF dk, of k] Some evs by auto
    qed
    then show ?thesis by (simp add: order_log_insert_all)
  qed
  have path: "order_life.path OrderStatusCreated (order_log (m_id m) (snd (outbox_insert_all ty evs ob)))
        (if P m then to_st else m_status m)" if m: "m \<in> set rows" for m
  proof (cases "m_id m \<in> set ?ks")
    case True
    then obtain m' where "m' \<in> set rows" "m_id m' = m_id m" "m_status m' = st" using hit by auto
    then have "m_status m = st" using uniq m by auto
    then show ?thesis using True inv m legal P
      by (auto simp: log db_inv_def intro!: order_life.path.path_snoc)
  next
    case False
    then show ?thesis using inv m P by (simp add: log db_inv_def)
  qed
  show ?thesis unfolding db_inv_def
  proof (intro conjI ballI)
    show "distinct (map m_id (update_where P (m_status_update (\<lambda>_. to_st)) rows))"
      using d by (simp add: update_where_keys)
    show "outbox_wf (snd (outbox_insert_all ty evs ob))"
      using inv by (simp add: db_inv_def outbox_wf_insert_all)
    have "m_id ` set (update_where P (m_status_update (\<lambda>_. to_st)) rows) = m_id ` set rows"
      by (simp add: update_where_image)
    then show "payload_orders (snd (outbox_insert_all ty evs ob))
        \<subseteq> m_id ` set (update_where P (m_status_update (\<lambda>_. to_st)) rows)"
      using inv hit by (auto simp: db_inv_def payload_orders_insert_all image_iff) metis
  next
    fix m assume "m \<in> set (update_where P (m_status_update (\<lambda>_. to_st)) rows)"
    then obtain m0 where "m0 \<in> set rows" "m = (if P m0 then m0\<lparr>m_status := to_st\<rparr> else m0)"
      by (auto simp: update_where_set)
    then show "order_life.path OrderStatusCreated (order_log (m_id m) (snd (outbox_insert_all ty evs ob))) (m_status m)"
      using path [of m0] by (auto split: if_splits)
  qed
qed

section \<open>Operations keep the invariant\<close>

lemma run_tx_db_inv:
  assumes "order_inv s"
    and "\<And>x s'. body s = (Inr x, s') \<Longrightarrow> order_inv s'"
  shows "order_inv (snd (run_tx os_db put_db body s))"
proof (cases "body s")
  case (Pair r s')
  show ?thesis
  proof (cases r)
    case (Inl e)
    then show ?thesis using Pair assms(1) order_inv_db [of "put_db (os_db s) s'" s]
      by (simp add: run_tx_def)
  next
    case (Inr x)
    then show ?thesis using Pair assms(2) by (simp add: run_tx_def)
  qed
qed

lemma set_outbox_db [simp]:
  "od_orders (os_db (set_outbox ob s)) = od_orders (os_db s)"
  "od_outbox (os_db (set_outbox ob s)) = ob"
  by (simp_all add: set_outbox_def)

lemma set_outbox_bus [simp]: "os_bus (set_outbox ob s) = os_bus s"
  by (simp add: set_outbox_def)

lemma UpdateStatus_Inr:
  assumes "repo_UpdateStatus ok del_ok k st st' s = (Inr u, s')"
  shows "od_orders (os_db s') = update_where (\<lambda>m. m_id m = k \<and> m_status m = st) (m_status_update (\<lambda>_. st')) (od_orders (os_db s))"
    and "od_outbox (os_db s') = od_outbox (os_db s)"
    and "rows_affected (\<lambda>m. m_id m = k \<and> m_status m = st) (od_orders (os_db s)) \<noteq> 0"
  using assms by (auto simp: repo_UpdateStatus_def Let_def matchStatuses_def set_order_status_def split: if_splits)

lemma BatchUpdateStatus_Inr:
  assumes "repo_BatchUpdateStatus ok del_ok ks st st' s = (Inr u, s')" "ks \<noteq> []"
  shows "od_orders (os_db s') = update_where (\<lambda>m. m_id m \<in> set ks \<and> m_status m = st) (m_status_update (\<lambda>_. st')) (od_orders (os_db s))"
    and "od_outbox (os_db s') = od_outbox (os_db s)"
    and "rows_affected (\<lambda>m. m_id m \<in> set ks \<and> m_status m = st) (od_orders (os_db s)) = length ks"
  using assms by (auto simp: repo_BatchUpdateStatus_def Let_def set_order_status_def split: if_splits)

lemma change_commit_inv:
  assumes "order_inv s" "legal_step st (o_status ord)"
  shows "order_inv (snd (change_commit env (st, ord) s))"
  unfolding change_commit_def prod.case
proof (rule run_tx_db_inv [OF assms(1)])
  fix x s'
  assume b: "(case repo_UpdateStatus (xe_update env) (xe_del env) (o_id ord) st (o_status ord) s of
        (Inl e, s1) \<Rightarrow> (Inl (if e = ErrRecordNotFound then ErrInvalidStatusTransition else e), s1)
      | (Inr _, s1) \<Rightarrow>
          (case orderOutbox_Add (xe_add env) EventTypeOrderStatusChanged (BuildOrderStatusUpdateEvent ord)
                  (od_outbox (os_db s1)) of
             (r, ob) \<Rightarrow> (r, set_outbox ob s1))) = (Inr x, s')"
  let ?ev = "BuildOrderStatusUpdateEvent ord"
  obtain s1 where u: "repo_UpdateStatus (xe_update env) (xe_del env) (o_id ord) st (o_status ord) s = (Inr (), s1)"
    and s': "od_orders (os_db s') = od_orders (os_db s1)"
      "od_outbox (os_db s') = snd (outbox_insert_all EventTypeOrderStatusChanged [?ev] (od_outbox (os_db s1)))"
    using b by (auto simp: orderOutbox_Add_def Let_def split: prod.splits sum.splits if_splits)
  note U = UpdateStatus_Inr [OF u]
  have d: "distinct (map m_id (od_orders (os_db s)))" using assms(1) by (simp add: order_inv_def)
  have one: "rows_affected (\<lambda>m. m_id m = o_id ord \<and> m_status m = st) (od_orders (os_db s)) = 1"
    using U(3) rows_affected_key_le_1 [OF d, of "o_id ord" "\<lambda>m. m_status m = st"] by linarith
  show "order_inv s'"
    unfolding order_inv_alt s' U(1,2)
    using assms one by (intro db_inv_transition [where st = st]) (auto simp: order_inv_alt)
qed

lemma BatchCancel_commit_inv:
  assumes "order_inv s" "BatchCancel_commit env toCancel s = (Inr x, s')"
  shows "order_inv s'"
proof (cases "toCancel = []")
  case True
  then show ?thesis using assms by (simp add: BatchCancel_commit_def)
next
  case False
  let ?evs = "map (\<lambda>ord. BuildOrderStatusUpdateEvent (ord\<lparr>o_status := OrderStatusCanceled\<rparr>)) toCancel"
  obtain s1 where u: "repo_BatchUpdateStatus (be_update env) (be_del env) (map o_id toCancel)
        OrderStatusCreated OrderStatusCanceled s = (Inr (), s1)"
    and s': "od_orders (os_db s') = od_orders (os_db s1)"
      "od_outbox (os_db s') = snd (outbox_insert_all EventTypeOrderStatusChanged ?evs (od_outbox (os_db s1)))"
    using assms(2) False
    by (auto simp: BatchCancel_commit_def orderOutbox_BatchAdd_def Let_def split: prod.splits sum.splits if_splits)
  note U = BatchUpdateStatus_Inr [OF u]
  have ks: "map ev_order ?evs = map o_id toCancel" by simp
  show ?thesis
    unfolding order_inv_alt s' using False assms(1) U
    by (subst U(1)) (auto simp: U(2) order_inv_alt comp_def legal_step_cases
        intro!: db_inv_transition [where st = OrderStatusCreated])
qed

lemma CreateOrder_db:
  "od_outbox (os_db (snd (snd (CreateOrder_Execute env now cmd s)))) = od_outbox (os_db s)"
  "\<exists>new. od_orders (os_db (snd (snd (CreateOrder_Execute env now cmd s)))) = od_orders (os_db s) @ new
     \<and> (\<forall>m \<in> set new. m_status m = OrderStatusCreated \<and> m_id m \<notin> m_id ` set (od_orders (os_db s)))
     \<and> length new \<le> 1"
  by (auto simp: CreateOrder_Execute_def repo_Save_def insert_order_def Let_def cmd_toDomainOrder_def
      split: sum.splits prod.splits if_splits)

lemma CreateOrder_inv:
  assumes "order_inv s"
  shows "order_inv (snd (snd (CreateOrder_Execute env now cmd s)))"
proof -
  obtain new where new: "od_orders (os_db (snd (snd (CreateOrder_Execute env now cmd s)))) = od_orders (os_db s) @ new"
    "\<forall>m \<in> set new. m_status m = OrderStatusCreated \<and> m_id m \<notin> m_id ` set (od_orders (os_db s))"
    "length new \<le> 1"
    using CreateOrder_db(2) by blast
  have dn: "distinct (map m_id new)" using new(3) by (cases new) auto
  have nolog: "order_log k (od_outbox (os_db s)) = []" if "k \<notin> m_id ` set (od_orders (os_db s))" for k
    using assms that by (auto simp: order_inv_def order_log_def filter_empty_conv)
  have dis: "m_id x \<noteq> m_id y" if "x \<in> set (od_orders (os_db s))" "y \<in> set new" for x y
    using new(2) that by (metis image_eqI)
  show ?thesis using assms new dn nolog
    by (auto simp: order_inv_def CreateOrder_db(1) dest: dis intro: order_life.path.path_nil)
qed

lemma publish_inv: "order_inv s \<Longrightarrow> order_inv (status_publish infers a b task s)"
  by (simp add: status_publish_def Let_def order_inv_alt orderOutbox_MarkSent_def)

lemma batchSend_inv: "order_inv s \<Longrightarrow> order_inv (batchSendMessages ack ok task s)"
  by (cases task) (auto simp: batchSendMessages_def Let_def order_inv_alt orderOutbox_BatchMarkSent_def split: prod.splits)

end
