(* ===== verification/OrderJobs.thy ===== *)
theory OrderJobs
  imports OrderProps
begin

text \<open>
  The background jobs of \<open>internal/order/job\<close>: the outbox worker, the delay-queue dispatcher and
  the periodic scan for expired orders; the step relation of the whole order service, and the
  facts its properties rest on.
\<close>

section \<open>Outbox worker\<close>

definition order_batchSize :: nat where "order_batchSize = 100"
definition order_maxRetry :: nat where "order_maxRetry = 5"

definition OrderOutboxWorker_processBatch ::
  "bool \<Rightarrow> worker_env \<Rightarrow> (int \<times> OrderStatusUpdateEvent) list
   \<Rightarrow> OrderStatusUpdateEvent outbox \<times> OrderStatusUpdateEvent list
   \<Rightarrow> OrderStatusUpdateEvent outbox \<times> OrderStatusUpdateEvent list" where
  "OrderOutboxWorker_processBatch infers env evs st =
     worker_processBatch order_maxRetry orderOutbox_IncreaseRetry (orderOutbox_MarkFailed infers)
       orderOutbox_BatchMarkSent env evs st"

definition OrderOutboxWorker_Run ::
  "bool \<Rightarrow> (nat \<Rightarrow> worker_env) \<Rightarrow> nat \<Rightarrow> order_svc \<Rightarrow> (bool \<times> order_svc) option" where
  "OrderOutboxWorker_Run infers envs fuel s =
     (case worker_Run order_batchSize order_maxRetry orderOutbox_ListPending orderOutbox_IncreaseRetry
             (orderOutbox_MarkFailed infers) orderOutbox_BatchMarkSent envs fuel 0 0
             (od_outbox (os_db s), os_bus s) of
        None \<Rightarrow> None
      | Some (ok, ob, bus) \<Rightarrow> Some (ok, (set_outbox ob s)\<lparr>os_bus := bus\<rparr>))"

section \<open>Delay-queue dispatcher\<close>

record dispatch_env =
  de_drain :: "nat \<Rightarrow> bool"
  de_find :: "int \<Rightarrow> bool"
  de_confirm :: "int \<Rightarrow> payment_status option"
  de_change :: "int \<Rightarrow> change_env"
  de_cancel :: cancel_env
  de_enqueue :: "int \<Rightarrow> bool"
  de_now :: int
  de_retry_at :: int

type_synonym status_task = "int \<times> OrderStatusUpdateEvent"

text \<open>\<open>de_confirm oid\<close> is the answer of the payment service's \<open>ConfirmPayment\<close>, \<open>None\<close> an RPC error.\<close>

definition shouldCancelDueOrder ::
  "dispatch_env \<Rightarrow> int \<Rightarrow> order_svc \<Rightarrow> (order_error + bool) \<times> status_task list \<times> order_svc" where
  "shouldCancelDueOrder env oid s =
     (case repo_FindByID (de_find env oid) oid s of
        Inl e \<Rightarrow> (if e = ErrRecordNotFound then (Inr False, [], s) else (Inl e, [], s))
      | Inr ord \<Rightarrow>
          if o_status ord \<noteq> OrderStatusCreated then (Inr False, [], s)
          else
            (case de_confirm env oid of
               None \<Rightarrow> (Inl ErrInfra, [], s)
             | Some st \<Rightarrow>
                 if st = PaymentStatusSuccess
                 then (case ChangeOrderStatus_Execute (de_change env oid) (o_id ord) OrderActionPay s of
                         (Inl e, task, s') \<Rightarrow>
                           (if e = ErrInvalidStatusTransition then Inr False else Inl e,
                            (case task of None \<Rightarrow> [] | Some t \<Rightarrow> [t]), s')
                       | (Inr _, task, s') \<Rightarrow>
                           (Inr False, (case task of None \<Rightarrow> [] | Some t \<Rightarrow> [t]), s'))
                 else (Inr True, [], s)))"

definition requeue :: "dispatch_env \<Rightarrow> int list \<Rightarrow> order_svc \<Rightarrow> order_svc" where
  "requeue env oids s = fold (\<lambda>oid s. delay_Enqueue (de_enqueue env oid) oid (de_retry_at env) s) oids s"

fun dispatch_scan ::
  "dispatch_env \<Rightarrow> int list \<Rightarrow> int list \<Rightarrow> order_svc
   \<Rightarrow> (order_error \<times> int list + int list) \<times> status_task list \<times> order_svc" where
  "dispatch_scan env toCancel [] s = (Inr toCancel, [], s)"
| "dispatch_scan env toCancel (oid # rest) s =
     (case shouldCancelDueOrder env oid s of
        (Inl e, ts, s') \<Rightarrow> (Inl (e, toCancel @ oid # rest), ts, s')
      | (Inr c, ts, s') \<Rightarrow>
          (case dispatch_scan env (if c then toCancel @ [oid] else toCancel) rest s' of
             (r, ts', s'') \<Rightarrow> (r, ts @ ts', s'')))"

definition DispatchOrderTimeout_Run ::
  "dispatch_env \<Rightarrow> order_svc \<Rightarrow> (order_error + cancel_task option) \<times> status_task list \<times> order_svc" where
  "DispatchOrderTimeout_Run env s =
     (case delay_DrainDue (de_drain env) (de_now env) s of
        (Inl e, s1) \<Rightarrow> (Inl e, [], s1)
      | (Inr [], s1) \<Rightarrow> (Inr None, [], s1)
      | (Inr orderIDs, s1) \<Rightarrow>
          (case dispatch_scan env [] orderIDs s1 of
             (Inl (e, again), ts, s2) \<Rightarrow> (Inl e, ts, requeue env again s2)
           | (Inr [], ts, s2) \<Rightarrow> (Inr None, ts, s2)
           | (Inr toCancelIDs, ts, s2) \<Rightarrow>
               (case BatchCancel_Execute (de_cancel env) toCancelIDs s2 of
                  (Inl e, s3) \<Rightarrow> (Inl e, ts, requeue env toCancelIDs s3)
                | (Inr task, s3) \<Rightarrow> (Inr task, ts, s3))))"

section \<open>Scan for expired orders\<close>

definition expired_maxBatchSize :: nat where "expired_maxBatchSize = 10000"

function processByBatch ::
  "nat \<Rightarrow> (nat \<Rightarrow> cancel_env) \<Rightarrow> nat \<Rightarrow> int list \<Rightarrow> cancel_task list \<Rightarrow> order_svc
   \<Rightarrow> (order_error + unit) \<times> cancel_task list \<times> order_svc" where
  "processByBatch b envs i oids tasks s =
     (if oids = [] \<or> b = 0 then (Inr (), tasks, s)
      else
        (case BatchCancel_Execute (envs i) (take b oids) s of
           (Inl e, s') \<Rightarrow> (Inl e, tasks, s')
         | (Inr task, s') \<Rightarrow>
             processByBatch b envs (Suc i) (drop b oids)
               (tasks @ (case task of None \<Rightarrow> [] | Some t \<Rightarrow> [t])) s'))"
  by pat_completeness auto
termination processByBatch
  by (relation "measure (\<lambda>(b, envs, i, oids, tasks, s). length oids)") auto

declare processByBatch.simps [simp del]

definition CheckExpired_Run ::
  "bool \<Rightarrow> int \<Rightarrow> (int \<Rightarrow> payment_status option) \<Rightarrow> (nat \<Rightarrow> cancel_env) \<Rightarrow> order_svc
   \<Rightarrow> (order_error + unit) \<times> cancel_task list \<times> order_svc" where
  "CheckExpired_Run find_ok now confirm envs s =
     (case repo_FindExpiredOrders find_ok now 0 s of
        Inl e \<Rightarrow> (Inl e, [], s)
      | Inr expired \<Rightarrow>
          (let cancelable = [o_id ord. ord \<leftarrow> expired, confirm (o_id ord) \<noteq> None,
                              confirm (o_id ord) \<noteq> Some PaymentStatusSuccess]
           in if expired = [] \<or> cancelable = [] then (Inr (), [], s)
              else if length cancelable > expired_maxBatchSize
                then processByBatch expired_maxBatchSize envs 0 cancelable [] s
              else
                (case BatchCancel_Execute (envs 0) cancelable s of
                   (Inl e, s') \<Rightarrow> (Inl e, [], s')
                 | (Inr task, s') \<Rightarrow> (Inr (), (case task of None \<Rightarrow> [] | Some t \<Rightarrow> [t]), s'))))"

section \<open>All interleavings of the service\<close>

inductive order_step :: "order_svc \<Rightarrow> order_svc \<Rightarrow> bool" where
  step_create: "order_step s (snd (snd (CreateOrder_Execute env now cmd s)))"
| step_created: "order_step s (create_goroutines a b c task s)"
| step_change: "applyOrderAction old action = Inr new
    \<Longrightarrow> order_step s (snd (change_commit env (o_status old, new) s))"
| step_publish: "order_step s (status_publish infers a b task s)"
| step_cancel: "order_step s (snd (run_tx os_db put_db (BatchCancel_commit env toCancel) s))"
| step_cancel_send: "order_step s (batchSendMessages ack ok ctask s)"
| step_worker: "OrderOutboxWorker_Run infers envs fuel s = Some (r, s') \<Longrightarrow> order_step s s'"
| step_drain: "order_step s (snd (delay_DrainDue oks now s))"
| step_enqueue: "order_step s (delay_Enqueue ok oid at s)"
| step_cache: "order_step s (s\<lparr>os_kv := kvs, os_lists := zsets\<rparr>)"

inductive order_reach :: "order_svc \<Rightarrow> bool" where
  reach_init: "od_orders (os_db s) = [] \<Longrightarrow> ob_rows (od_outbox (os_db s)) = [] \<Longrightarrow> order_reach s"
| reach_step: "order_reach s \<Longrightarrow> order_step s s' \<Longrightarrow> order_reach s'"

lemma outbox_ops_keep:
  assumes "db_inv rows ob"
  shows "db_inv rows (snd (orderOutbox_IncreaseRetry ok i ob))"
    and "db_inv rows (snd (orderOutbox_MarkFailed infers ok i ob))"
    and "db_inv rows (snd (orderOutbox_BatchMarkSent ok ids ob))"
  using assms
  by (simp_all add: orderOutbox_IncreaseRetry_def orderOutbox_MarkFailed_def orderOutbox_BatchMarkSent_def Let_def)

lemma worker_inv:
  assumes "order_inv s" "OrderOutboxWorker_Run infers envs fuel s = Some (r, s')"
  shows "order_inv s'"
proof -
  obtain ok ob bus where w: "worker_Run order_batchSize order_maxRetry orderOutbox_ListPending
      orderOutbox_IncreaseRetry (orderOutbox_MarkFailed infers) orderOutbox_BatchMarkSent envs fuel 0 0
      (od_outbox (os_db s), os_bus s) = Some (ok, ob, bus)" and s': "s' = (set_outbox ob s)\<lparr>os_bus := bus\<rparr>"
    using assms(2) by (auto simp: OrderOutboxWorker_Run_def split: option.splits)
  have "db_inv (od_orders (os_db s)) (fst (ob, bus))"
    by (rule worker_Run_keeps [where I = "db_inv (od_orders (os_db s))", OF _ _ _ _ w])
      (use assms(1) in \<open>simp_all add: order_inv_alt outbox_ops_keep\<close>)
  then show ?thesis by (simp add: order_inv_alt s')
qed

lemma order_step_inv: "order_step s s' \<Longrightarrow> order_inv s \<Longrightarrow> order_inv s'"
proof (induction rule: order_step.induct)
  case (step_change old action new s env)
  then show ?case using applyOrderAction_legal by (intro change_commit_inv) auto
next
  case (step_cancel s env toCancel)
  then show ?case by (intro run_tx_db_inv) (auto intro: BatchCancel_commit_inv)
next
  case (step_created s a b c task)
  then show ?case by (cases task) (simp add: create_goroutines_def delay_Enqueue_def order_inv_alt)
next
  case (step_drain s oks now)
  then show ?case by (simp add: delay_DrainDue_def Let_def order_inv_alt)
next
  case (step_enqueue s ok oid at)
  then show ?case by (simp add: delay_Enqueue_def order_inv_alt)
next
  case (step_cache s kvs zsets)
  then show ?case by (simp add: order_inv_alt)
qed (auto intro: CreateOrder_inv publish_inv batchSend_inv worker_inv)

lemma order_reach_inv: "order_reach s \<Longrightarrow> order_inv s"
proof (induction rule: order_reach.induct)
  case (reach_init s)
  then show ?case by (simp add: order_inv_def outbox_wf_def)
qed (rule order_step_inv)

lemma order_reach_run:
  "order_reach s \<Longrightarrow> order_reach (snd (snd (ChangeOrderStatus_Execute env oid action s)))"
proof -
  assume r: "order_reach s"
  show ?thesis
  proof (cases "change_prepare env oid action s")
    case (Inl e)
    then show ?thesis using r by (simp add: ChangeOrderStatus_Execute_def)
  next
    case (Inr p)
    show ?thesis
    proof (cases p)
      case None
      then show ?thesis using Inr r by (simp add: ChangeOrderStatus_Execute_def)
    next
      case (Some plan)
      then obtain old where "applyOrderAction old action = Inr (snd plan)" "fst plan = o_status old"
        using Inr by (auto simp: change_prepare_def split: if_splits sum.splits)
      then have "order_step s (snd (change_commit env (fst plan, snd plan) s))"
        using step_change by metis
      then have "order_reach (snd (change_commit env plan s))" using r reach_step by auto
      then show ?thesis using Inr Some
        by (auto simp: ChangeOrderStatus_Execute_def split: prod.splits sum.splits)
    qed
  qed
qed

end
