(* ===== verification/OrderSpec.thy ===== *)
theory OrderSpec
  imports OrderJobs
begin

text \<open>
  The properties of the order service: the history of an order, the status change and batch
  cancel operations on every branch, idempotent creation, amounts, listing, the delay queue and
  its dispatcher, and the outbox worker.
\<close>

section \<open>Rows keep their identity\<close>

definition same_order :: "OrderModel \<Rightarrow> OrderModel \<Rightarrow> bool" where
  "same_order m m' \<longleftrightarrow> m_id m' = m_id m \<and> m_user m' = m_user m \<and> m_kind m' = m_kind m \<and> m_activity m' = m_activity m"

lemma same_order_refl [simp]: "same_order m m"
  by (simp add: same_order_def)

lemma same_order_trans: "same_order a b \<Longrightarrow> same_order b c \<Longrightarrow> same_order a c"
  by (simp add: same_order_def)

lemma same_order_update:
  assumes "m \<in> set rows"
  shows "\<exists>m' \<in> set (update_where P (m_status_update f) rows). same_order m m'"
proof -
  have "(if P m then m_status_update f m else m) \<in> set (update_where P (m_status_update f) rows)"
    using assms unfolding update_where_set by (rule imageI)
  then show ?thesis by (rule bexI [rotated]) (simp add: same_order_def)
qed

definition rows_kept :: "order_svc \<Rightarrow> order_svc \<Rightarrow> bool" where
  "rows_kept s s' \<longleftrightarrow> (\<forall>m \<in> set (od_orders (os_db s)). \<exists>m' \<in> set (od_orders (os_db s')). same_order m m')"

lemma rows_kept_same: "od_orders (os_db s') = od_orders (os_db s) \<Longrightarrow> rows_kept s s'"
  by (force simp: rows_kept_def intro: same_order_refl)

lemma rows_kept_update:
  "od_orders (os_db s') = update_where P (m_status_update f) (od_orders (os_db s)) \<Longrightarrow> rows_kept s s'"
  by (simp add: rows_kept_def same_order_update)

lemma rows_kept_trans: "rows_kept a b \<Longrightarrow> rows_kept b c \<Longrightarrow> rows_kept a c"
  unfolding rows_kept_def by (meson same_order_trans)

lemma change_commit_db:
  "os_db (snd (change_commit env plan s)) = os_db s
   \<or> (\<exists>x s1. fst (change_commit env plan s) = Inr x
        \<and> repo_UpdateStatus (xe_update env) (xe_del env) (o_id (snd plan)) (fst plan) (o_status (snd plan)) s = (Inr (), s1)
        \<and> os_db (snd (change_commit env plan s)) =
            (os_db s1)\<lparr>od_outbox := snd (outbox_insert EventTypeOrderStatusChanged (BuildOrderStatusUpdateEvent (snd plan)) (od_outbox (os_db s1)))\<rparr>)"
  by (auto simp: change_commit_def run_tx_def orderOutbox_Add_def set_outbox_def Let_def
      split: prod.splits sum.splits if_splits)

lemma change_commit_rows: "rows_kept s (snd (change_commit env plan s))"
  using change_commit_db [of env plan s]
proof (elim disjE exE conjE)
  assume "os_db (snd (change_commit env plan s)) = os_db s"
  then show ?thesis by (simp add: rows_kept_same)
next
  fix x s1
  assume u: "repo_UpdateStatus (xe_update env) (xe_del env) (o_id (snd plan)) (fst plan) (o_status (snd plan)) s = (Inr (), s1)"
    and d: "os_db (snd (change_commit env plan s)) = (os_db s1)\<lparr>od_outbox := snd (outbox_insert EventTypeOrderStatusChanged (BuildOrderStatusUpdateEvent (snd plan)) (od_outbox (os_db s1)))\<rparr>"
  show ?thesis using UpdateStatus_Inr(1) [OF u] d by (intro rows_kept_update) simp
qed

lemma BatchCancel_commit_Inr:
  assumes "BatchCancel_commit env toCancel s = (Inr x, s')" "toCancel \<noteq> []"
  shows "od_orders (os_db s') = update_where (\<lambda>m. m_id m \<in> o_id ` set toCancel \<and> m_status m = OrderStatusCreated)
           (m_status_update (\<lambda>_. OrderStatusCanceled)) (od_orders (os_db s))"
    and "od_outbox (os_db s') = snd (outbox_insert_all EventTypeOrderStatusChanged
           (map (\<lambda>ord. BuildOrderStatusUpdateEvent (ord\<lparr>o_status := OrderStatusCanceled\<rparr>)) toCancel) (od_outbox (os_db s)))"
    and "fst x = map o_id toCancel"
    and "snd (snd x) = map (\<lambda>ord. BuildOrderStatusUpdateEvent (ord\<lparr>o_status := OrderStatusCanceled\<rparr>)) toCancel"
    and "fst (snd x) = fst (outbox_insert_all EventTypeOrderStatusChanged
           (map (\<lambda>ord. BuildOrderStatusUpdateEvent (ord\<lparr>o_status := OrderStatusCanceled\<rparr>)) toCancel) (od_outbox (os_db s)))"
    and "rows_affected (\<lambda>m. m_id m \<in> o_id ` set toCancel \<and> m_status m = OrderStatusCreated) (od_orders (os_db s)) = length toCancel"
proof -
  let ?ks = "map o_id toCancel"
  obtain s1 ob where u: "repo_BatchUpdateStatus (be_update env) (be_del env) ?ks OrderStatusCreated OrderStatusCanceled s = (Inr (), s1)"
    and ob: "orderOutbox_BatchAdd (be_add env) EventTypeOrderStatusChanged
        (map (\<lambda>ord. BuildOrderStatusUpdateEvent (ord\<lparr>o_status := OrderStatusCanceled\<rparr>)) toCancel) (od_outbox (os_db s1)) = (Inr (fst (snd x)), ob)"
    and s': "s' = set_outbox ob s1" and x: "x = (?ks, fst (snd x), map (\<lambda>ord. BuildOrderStatusUpdateEvent (ord\<lparr>o_status := OrderStatusCanceled\<rparr>)) toCancel)"
    using assms by (auto simp: BatchCancel_commit_def Let_def split: prod.splits sum.splits if_splits)
  have ks: "?ks \<noteq> []" using assms(2) by simp
  note U = BatchUpdateStatus_Inr [OF u ks]
  show "od_orders (os_db s') = update_where (\<lambda>m. m_id m \<in> o_id ` set toCancel \<and> m_status m = OrderStatusCreated)
           (m_status_update (\<lambda>_. OrderStatusCanceled)) (od_orders (os_db s))"
    using U(1) s' by simp
  show "rows_affected (\<lambda>m. m_id m \<in> o_id ` set toCancel \<and> m_status m = OrderStatusCreated) (od_orders (os_db s)) = length toCancel"
    using U(3) by simp
  show "od_outbox (os_db s') = snd (outbox_insert_all EventTypeOrderStatusChanged
           (map (\<lambda>ord. BuildOrderStatusUpdateEvent (ord\<lparr>o_status := OrderStatusCanceled\<rparr>)) toCancel) (od_outbox (os_db s)))"
    and "fst (snd x) = fst (outbox_insert_all EventTypeOrderStatusChanged
           (map (\<lambda>ord. BuildOrderStatusUpdateEvent (ord\<lparr>o_status := OrderStatusCanceled\<rparr>)) toCancel) (od_outbox (os_db s)))"
    using ob s' U(2) assms(2) by (auto simp: orderOutbox_BatchAdd_def Let_def split: if_splits)
  show "fst x = ?ks" "snd (snd x) = map (\<lambda>ord. BuildOrderStatusUpdateEvent (ord\<lparr>o_status := OrderStatusCanceled\<rparr>)) toCancel"
    by (subst x, simp)+
qed

lemma run_tx_rows_kept:
  assumes "\<And>x s'. body s = (Inr x, s') \<Longrightarrow> rows_kept s s'"
  shows "rows_kept s (snd (run_tx os_db put_db body s))"
  using assms by (auto simp: run_tx_def rows_kept_def split: prod.splits sum.splits intro: same_order_refl)

lemma BatchCancel_rows: "BatchCancel_commit env toCancel s = (Inr x, s') \<Longrightarrow> rows_kept s s'"
  using BatchCancel_commit_Inr(1) [of env toCancel s x s'] rows_kept_update
  by (cases "toCancel = []") (auto simp: BatchCancel_commit_def intro: rows_kept_same)

lemma order_step_rows: "order_step s s' \<Longrightarrow> rows_kept s s'"
proof (induction rule: order_step.induct)
  case (step_create s env now cmd)
  then show ?case using CreateOrder_db(2) [of env now cmd s] by (force simp: rows_kept_def)
next
  case (step_cancel s env toCancel)
  then show ?case by (intro run_tx_rows_kept) (rule BatchCancel_rows)
next
  case (step_worker infers envs fuel s r s')
  then show ?case by (auto simp: OrderOutboxWorker_Run_def split: option.splits intro!: rows_kept_same)
next
  case (step_created s a b c task)
  then show ?case by (cases task) (simp add: create_goroutines_def delay_Enqueue_def rows_kept_same)
next
  case (step_cancel_send s ack ok ctask)
  then show ?case by (cases ctask) (auto simp: batchSendMessages_def Let_def intro!: rows_kept_same split: prod.splits)
qed (auto simp: change_commit_rows status_publish_def delay_DrainDue_def delay_Enqueue_def Let_def intro!: rows_kept_same)

lemma order_steps_rows: "order_step\<^sup>*\<^sup>* s s' \<Longrightarrow> rows_kept s s'"
  by (induction rule: rtranclp_induct) (auto simp: rows_kept_same intro: rows_kept_trans order_step_rows)

section \<open>Sample states\<close>

definition sample_item :: OrderItem where
  "sample_item = \<lparr>it_product = 7, it_sku = 70, it_quantity = 2, it_snapshot_price = 300,
     it_snapshot_currency = ''CNY'', it_price = 300\<rparr>"

definition sample_cmd :: CreateOrderCmd where
  "sample_cmd = \<lparr>cc_order = 1, cc_user = 5, cc_currency = ''CNY'', cc_remark = [], cc_address = zeroAddress,
     cc_kind = OrderKindCart, cc_activity = 0, cc_payable = 500, cc_items = [sample_item]\<rparr>"

definition empty_svc :: order_svc where
  "empty_svc = \<lparr>os_db = \<lparr>od_orders = [], od_next = 1, od_outbox = \<lparr>ob_rows = [], ob_next = 1\<rparr>\<rparr>,
     os_kv = (\<lambda>_. None), os_lists = (\<lambda>_. []), os_delay = [], os_bus = []\<rparr>"

definition create_ok :: create_env where "create_ok = \<lparr>cr_save = True, cr_find = True\<rparr>"
definition change_ok :: change_env where
  "change_ok = \<lparr>xe_find = True, xe_update = True, xe_del = True, xe_add = True\<rparr>"
definition cancel_ok :: cancel_env where
  "cancel_ok = \<lparr>be_find = True, be_update = True, be_del = True, be_add = True\<rparr>"

definition created_svc :: order_svc where
  "created_svc = snd (snd (CreateOrder_Execute create_ok 1000 sample_cmd empty_svc))"

definition paid_svc :: order_svc where
  "paid_svc = snd (snd (ChangeOrderStatus_Execute change_ok 1 OrderActionPay created_svc))"

lemmas sample_defs = sample_item_def sample_cmd_def empty_svc_def create_ok_def change_ok_def cancel_ok_def

lemma created_svc_eq:
  "created_svc = empty_svc\<lparr>os_db := \<lparr>od_orders =
     [(toOrderModel (cmd_toDomainOrder 1000 sample_cmd))\<lparr>m_created_at := 1000\<rparr>], od_next = 2,
     od_outbox = \<lparr>ob_rows = [], ob_next = 1\<rparr>\<rparr>\<rparr>"
  by (simp add: created_svc_def CreateOrder_Execute_def repo_Save_def insert_order_def sample_defs Let_def
      normalizeOrderKind_def OrderKindCart_def OrderKindSeckill_def cmd_toDomainOrder_def toOrderModel_def)

lemma empty_reach: "order_reach empty_svc"
  by (rule reach_init) (simp_all add: empty_svc_def)

lemma created_reach: "order_reach created_svc"
  unfolding created_svc_def by (rule reach_step [OF empty_reach step_create])

lemma paid_reach: "order_reach paid_svc"
  unfolding paid_svc_def by (rule order_reach_run [OF created_reach])

lemma created_row: "od_orders (os_db created_svc) =
    [(toOrderModel (cmd_toDomainOrder 1000 sample_cmd))\<lparr>m_created_at := 1000\<rparr>]"
  by (simp add: created_svc_eq)

lemma paid_rows: "map (\<lambda>m. (m_id m, m_status m)) (od_orders (os_db paid_svc)) = [(1, OrderStatusPaid)]"
  "order_log 1 (od_outbox (os_db paid_svc)) = [OrderStatusPaid]"
  by code_simp+

section \<open>Properties\<close>

lemma reach_log:
  assumes "order_reach s"
  shows "\<exists>t. order_life.path OrderStatusCreated (order_log k (od_outbox (os_db s))) t"
proof (cases "k \<in> m_id ` set (od_orders (os_db s))")
  case True
  then show ?thesis using order_reach_inv [OF assms] by (auto simp: order_inv_def)
next
  case False
  then have "order_log k (od_outbox (os_db s)) = []"
    using order_reach_inv [OF assms] by (auto simp: order_inv_def order_log_def filter_empty_conv)
  then show ?thesis using order_life.path.path_nil by auto
qed

lemma no_late_cancel:
  "successively legal_step (st # ts) \<Longrightarrow> st \<noteq> OrderStatusCreated \<Longrightarrow> OrderStatusCanceled \<notin> set ts"
  by (induction ts arbitrary: st) (auto simp: legal_step_cases)

lemma paid_xor_canceled:
  assumes "successively legal_step (OrderStatusCreated # ts)"
  shows "\<not> (OrderStatusPaid \<in> set ts \<and> OrderStatusCanceled \<in> set ts)"
proof (cases ts)
  case (Cons t us)
  have "us = []" if "t = OrderStatusCanceled"
    using assms Cons that by (cases us) (auto simp: legal_step_cases)
  then show ?thesis
    using assms Cons no_late_cancel [of t us] by (auto simp: legal_step_cases)
qed simp

text \<open>C1: in every interleaving of the order service's operations, goroutines and jobs, the events
  the outbox holds for an order are exactly the statuses the order went through: a path of legal
  transitions from CREATED that ends in the status of its row.\<close>

theorem order_history:
  assumes "order_reach s" and "m \<in> set (od_orders (os_db s))"
  shows "successively legal_step (OrderStatusCreated # order_log (m_id m) (od_outbox (os_db s)))
       \<and> last (OrderStatusCreated # order_log (m_id m) (od_outbox (os_db s))) = m_status m"
  using order_reach_inv [OF assms(1)] assms(2) by (intro order_life.path_successively) (auto simp: order_inv_def)

lemma order_history_witness:
  "order_reach paid_svc \<and> successively legal_step [OrderStatusCreated, OrderStatusPaid]"
proof -
  obtain m where m: "m \<in> set (od_orders (os_db paid_svc))" "m_id m = 1"
    using paid_rows(1) by (cases "od_orders (os_db paid_svc)") auto
  show ?thesis using order_history [OF paid_reach m(1)] m(2) paid_rows(2) paid_reach by simp
qed

text \<open>C4: an order is never both paid and cancelled, emits each status at most once, and at most three
  status events in its life.\<close>

theorem order_paid_or_canceled:
  assumes "order_reach s"
  shows "\<not> (OrderStatusPaid \<in> set (order_log k (od_outbox (os_db s)))
            \<and> OrderStatusCanceled \<in> set (order_log k (od_outbox (os_db s))))
       \<and> distinct (order_log k (od_outbox (os_db s)))
       \<and> length (order_log k (od_outbox (os_db s))) \<le> 3"
proof -
  obtain t where p: "order_life.path OrderStatusCreated (order_log k (od_outbox (os_db s))) t"
    using reach_log [OF assms] by blast
  have "length (order_log k (od_outbox (os_db s))) \<le> order_rank t"
    using order_life.path_rank [OF p] by simp
  moreover have "order_rank t \<le> 3" by (cases t) auto
  ultimately show ?thesis
    using paid_xor_canceled order_life.path_successively [OF p] order_life.path_no_repeat [OF p] by auto
qed

lemma order_paid_or_canceled_witness:
  "\<not> (OrderStatusPaid \<in> set (order_log 1 (od_outbox (os_db paid_svc)))
      \<and> OrderStatusCanceled \<in> set (order_log 1 (od_outbox (os_db paid_svc))))
   \<and> order_log 1 (od_outbox (os_db paid_svc)) = [OrderStatusPaid]"
  using order_paid_or_canceled [OF paid_reach, of 1] paid_rows(2) by simp

lemma change_prepare_found:
  assumes "0 < oid" "a \<noteq> OrderActionUnknown" "xe_find env" "find_row m_id oid (od_orders (os_db s)) = Some m"
  shows "change_prepare env oid a s =
     (case applyOrderAction (toDomainOrder m) a of
        Inl e \<Rightarrow> if e = ErrOrderStatusUnchanged then Inr None else Inl e
      | Inr changed \<Rightarrow> Inr (Some (m_status m, changed)))"
  using assms legal_step_irrefl
  by (auto simp: change_prepare_def repo_FindByID_def split: sum.splits dest: applyOrderAction_legal)

lemma change_commit_found:
  assumes "distinct (map m_id (od_orders (os_db s)))" "find_row m_id (o_id ord) (od_orders (os_db s)) = Some m"
    and "m_status m = st" "xe_update env" "xe_add env"
  shows "fst (change_commit env (st, ord) s) = Inr (ob_next (od_outbox (os_db s)))"
    and "od_orders (os_db (snd (change_commit env (st, ord) s)))
         = update_where (\<lambda>x. m_id x = o_id ord) (m_status_update (\<lambda>_. o_status ord)) (od_orders (os_db s))"
    and "od_outbox (os_db (snd (change_commit env (st, ord) s)))
         = snd (outbox_insert EventTypeOrderStatusChanged (BuildOrderStatusUpdateEvent ord) (od_outbox (os_db s)))"
proof -
  let ?rows = "od_orders (os_db s)"
  have m: "m \<in> set ?rows" "m_id m = o_id ord" using find_row_SomeD [OF assms(2)] by auto
  have "rows_affected (\<lambda>x. m_id x = o_id ord \<and> m_status x = st) ?rows \<noteq> 0"
    using m assms(3) by (auto simp: rows_affected_zero)
  then have u: "repo_UpdateStatus True (xe_del env) (o_id ord) st (o_status ord) s
      = (Inr (), cache_Del (xe_del env) [o_id ord] (s\<lparr>os_db := set_order_status
          (\<lambda>x. m_id x = o_id ord \<and> m_status x = st) (o_status ord) (os_db s)\<rparr>))"
    by (simp add: repo_UpdateStatus_def Let_def matchStatuses_def)
  show "fst (change_commit env (st, ord) s) = Inr (ob_next (od_outbox (os_db s)))"
    and "od_outbox (os_db (snd (change_commit env (st, ord) s)))
         = snd (outbox_insert EventTypeOrderStatusChanged (BuildOrderStatusUpdateEvent ord) (od_outbox (os_db s)))"
    using assms(4,5) u by (simp_all add: change_commit_def run_tx_def orderOutbox_Add_def outbox_insert_def Let_def)
  have "m_status x = st" if "x \<in> set ?rows" "m_id x = o_id ord" for x
    using that m assms(1,3) by (metis find_row_unique option.inject)
  then have "update_where (\<lambda>x. m_id x = o_id ord \<and> m_status x = st) f ?rows = update_where (\<lambda>x. m_id x = o_id ord) f ?rows" for f
    unfolding update_where_def by (intro map_cong) auto
  then show "od_orders (os_db (snd (change_commit env (st, ord) s)))
         = update_where (\<lambda>x. m_id x = o_id ord) (m_status_update (\<lambda>_. o_status ord)) ?rows"
    using assms(4,5) u by (simp add: change_commit_def run_tx_def orderOutbox_Add_def set_order_status_def Let_def)
qed

text \<open>On a healthy database, changing the status of an existing order takes exactly the edge of the
  life cycle that the action names: the row gets the target status and one pending event is added;
  an action whose target is the current status changes nothing and succeeds; every other action is
  refused as an invalid transition.\<close>

theorem change_status_spec:
  assumes "order_reach s" "find_row m_id oid (od_orders (os_db s)) = Some m" "0 < oid"
    and "a \<noteq> OrderActionUnknown" "xe_find env" "xe_update env" "xe_add env"
  shows "((m_status m, a, t) \<in> set order_edges \<longrightarrow>
            fst (ChangeOrderStatus_Execute env oid a s) = Inr True
          \<and> od_orders (os_db (snd (snd (ChangeOrderStatus_Execute env oid a s))))
            = update_where (\<lambda>x. m_id x = oid) (m_status_update (\<lambda>_. t)) (od_orders (os_db s))
          \<and> od_outbox (os_db (snd (snd (ChangeOrderStatus_Execute env oid a s))))
            = snd (outbox_insert EventTypeOrderStatusChanged
                (BuildOrderStatusUpdateEvent ((toDomainOrder m)\<lparr>o_status := t\<rparr>)) (od_outbox (os_db s))))
       \<and> (action_target a = Some (m_status m) \<longrightarrow>
            ChangeOrderStatus_Execute env oid a s = (Inr False, None, s))
       \<and> (action_target a \<noteq> Some (m_status m) \<and> (\<forall>u. (m_status m, a, u) \<notin> set order_edges) \<longrightarrow>
            ChangeOrderStatus_Execute env oid a s = (Inl ErrInvalidStatusTransition, None, s))"
proof (intro conjI impI)
  have inv: "distinct (map m_id (od_orders (os_db s)))" using order_reach_inv [OF assms(1)] by (simp add: order_inv_def)
  have mid: "m_id m = oid" using find_row_SomeD [OF assms(2)] by simp
  note prep = change_prepare_found [OF assms(3,4,5,2)]
  { assume e: "(m_status m, a, t) \<in> set order_edges"
    let ?ord = "(toDomainOrder m)\<lparr>o_status := t\<rparr>"
    have "applyOrderAction (toDomainOrder m) a = Inr ?ord"
      unfolding applyOrderAction_Inr_iff using e by auto
    then have p: "change_prepare env oid a s = Inr (Some (m_status m, ?ord))" by (simp add: prep)
    have f: "find_row m_id (o_id ?ord) (od_orders (os_db s)) = Some m" using assms(2) mid by simp
    note C = change_commit_found [OF inv f refl assms(6,7)]
    show "fst (ChangeOrderStatus_Execute env oid a s) = Inr True"
      and "od_orders (os_db (snd (snd (ChangeOrderStatus_Execute env oid a s))))
            = update_where (\<lambda>x. m_id x = oid) (m_status_update (\<lambda>_. t)) (od_orders (os_db s))"
      and "od_outbox (os_db (snd (snd (ChangeOrderStatus_Execute env oid a s))))
            = snd (outbox_insert EventTypeOrderStatusChanged (BuildOrderStatusUpdateEvent ?ord) (od_outbox (os_db s)))"
      using C mid by (auto simp: ChangeOrderStatus_Execute_def p split: prod.splits sum.splits) }
  show "ChangeOrderStatus_Execute env oid a s = (Inr False, None, s)" if "action_target a = Some (m_status m)"
    using that prep applyOrderAction_unchanged_iff [of "toDomainOrder m" a]
    by (simp add: ChangeOrderStatus_Execute_def)
  show "ChangeOrderStatus_Execute env oid a s = (Inl ErrInvalidStatusTransition, None, s)"
    if "action_target a \<noteq> Some (m_status m) \<and> (\<forall>u. (m_status m, a, u) \<notin> set order_edges)"
  proof (cases "applyOrderAction (toDomainOrder m) a")
    case (Inl e)
    then show ?thesis using that prep applyOrderAction_unchanged_iff [of "toDomainOrder m" a]
        applyOrderAction_error [OF Inl] by (auto simp: ChangeOrderStatus_Execute_def)
  next
    case (Inr x)
    then show ?thesis using that by (auto simp: applyOrderAction_Inr_iff)
  qed
qed

lemma created_find: "\<exists>m. find_row m_id 1 (od_orders (os_db created_svc)) = Some m \<and> m_status m = OrderStatusCreated"
  by (simp add: created_row toOrderModel_def cmd_toDomainOrder_def sample_cmd_def Let_def)

lemma change_status_spec_witness:
  "fst (ChangeOrderStatus_Execute change_ok 1 OrderActionPay created_svc) = Inr True
   \<and> ChangeOrderStatus_Execute change_ok 1 OrderActionShip created_svc
     = (Inl ErrInvalidStatusTransition, None, created_svc)"
proof -
  obtain m where m: "find_row m_id 1 (od_orders (os_db created_svc)) = Some m" "m_status m = OrderStatusCreated"
    using created_find by blast
  have env: "xe_find change_ok" "xe_update change_ok" "xe_add change_ok" by (simp_all add: change_ok_def)
  show ?thesis
    using change_status_spec [OF created_reach m(1) _ _ env, of OrderActionPay OrderStatusPaid]
      change_status_spec [OF created_reach m(1) _ _ env, of OrderActionShip OrderStatusShipped] m(2)
    by (simp add: order_edges_def action_target_def)
qed

text \<open>A status change that does not report a change leaves the database as it was and starts no
  goroutine: the row update and its outbox event are committed together or not at all.\<close>

theorem change_status_atomic:
  assumes "fst (ChangeOrderStatus_Execute env oid a s) \<noteq> Inr True"
  shows "os_db (snd (snd (ChangeOrderStatus_Execute env oid a s))) = os_db s
       \<and> fst (snd (ChangeOrderStatus_Execute env oid a s)) = None"
  using assms change_commit_db [of env _ s]
  by (auto simp: ChangeOrderStatus_Execute_def split: sum.splits option.splits prod.splits) (metis fst_conv snd_conv sum.distinct(1))+

lemma change_status_atomic_witness:
  "os_db (snd (snd (ChangeOrderStatus_Execute (change_ok\<lparr>xe_add := False\<rparr>) 1 OrderActionPay created_svc))) = os_db created_svc"
proof -
  have "fst (ChangeOrderStatus_Execute (change_ok\<lparr>xe_add := False\<rparr>) 1 OrderActionPay created_svc) = Inl ErrInfra"
    by code_simp
  then show ?thesis using change_status_atomic [of "change_ok\<lparr>xe_add := False\<rparr>" 1 OrderActionPay created_svc] by simp
qed

lemma BatchCancel_select_ids:
  assumes "distinct (map m_id (od_orders (os_db s)))" "repo_FindByIDs ok ids s = Inr ords" "m \<in> set (od_orders (os_db s))"
  shows "m_id m \<in> o_id ` set (BatchCancel_select ords) \<longleftrightarrow> m_id m \<in> set ids \<and> m_status m = OrderStatusCreated"
proof -
  note F = repo_FindByIDs_Inr [OF assms(1,2)]
  have same: "ord = toDomainOrder m" if "ord \<in> set ords" "o_id ord = m_id m" for ord
    using F(2) that assms(1,3) by (metis find_row_unique option.inject toDomainOrder_simps(1))
  have ids: "set ids = o_id ` set ords" using F(1) by (metis list.set_map)
  show ?thesis unfolding ids BatchCancel_select_def using same by force
qed

lemma log_canceled:
  assumes "distinct (map o_id toCancel)"
  shows "map ev_status (filter (\<lambda>e. ev_order e = k)
            (map (\<lambda>ord. BuildOrderStatusUpdateEvent (ord\<lparr>o_status := OrderStatusCanceled\<rparr>)) toCancel))
       = (if k \<in> o_id ` set toCancel then [OrderStatusCanceled] else [])"
proof -
  have "map ev_status (filter (\<lambda>e. ev_order e = k)
            (map (\<lambda>ord. BuildOrderStatusUpdateEvent (ord\<lparr>o_status := OrderStatusCanceled\<rparr>)) toCancel))
      = map (\<lambda>_. OrderStatusCanceled) (filter (\<lambda>ord. o_id ord = k) toCancel)"
    by (induction toCancel) auto
  then show ?thesis using filter_unique [OF assms, of k]
    by (auto simp: find_row_None_iff dest: find_row_SomeD split: option.splits)
qed

lemma BatchCancel_effect:
  assumes "order_inv s"
  shows "case BatchCancel_Execute env ids s of
           (Inl e, s') \<Rightarrow> os_db s' = os_db s
         | (Inr task, s') \<Rightarrow>
             od_orders (os_db s') = update_where (\<lambda>m. m_id m \<in> set ids \<and> m_status m = OrderStatusCreated)
               (m_status_update (\<lambda>_. OrderStatusCanceled)) (od_orders (os_db s))
             \<and> (\<forall>k. order_log k (od_outbox (os_db s')) = order_log k (od_outbox (os_db s))
                  @ (if \<exists>m \<in> set (od_orders (os_db s)). m_id m = k \<and> k \<in> set ids \<and> m_status m = OrderStatusCreated
                     then [OrderStatusCanceled] else []))"
proof (cases "fst (run_tx os_db put_db (BatchCancel_body env ids) s)")
  case (Inl e)
  have "os_db (snd (run_tx os_db put_db (BatchCancel_body env ids) s)) = os_db s"
    by (rule run_tx_error [OF _ Inl]) simp
  then show ?thesis using Inl
    by (auto simp: BatchCancel_Execute_def update_where_none split: prod.splits sum.splits)
next
  case (Inr x)
  let ?rows = "od_orders (os_db s)"
  have d: "distinct (map m_id ?rows)" using assms by (simp add: order_inv_def)
  obtain s' where b: "BatchCancel_body env ids s = (Inr x, s')"
    and r: "run_tx os_db put_db (BatchCancel_body env ids) s = (Inr x, s')"
    using run_tx_ok [OF Inr] Inr by (metis prod.collapse)
  obtain ords where f: "repo_FindByIDs (be_find env) ids s = Inr ords"
    and c: "BatchCancel_commit env (BatchCancel_select ords) s = (Inr x, s')"
    using b by (auto simp: BatchCancel_body_def split: sum.splits)
  let ?C = "BatchCancel_select ords"
  have sel: "m_id m \<in> o_id ` set ?C \<longleftrightarrow> m_id m \<in> set ids \<and> m_status m = OrderStatusCreated" if "m \<in> set ?rows" for m
    using BatchCancel_select_ids [OF d f that] .
  have goal: "od_orders (os_db s') = update_where (\<lambda>m. m_id m \<in> set ids \<and> m_status m = OrderStatusCreated)
               (m_status_update (\<lambda>_. OrderStatusCanceled)) ?rows
     \<and> (\<forall>k. order_log k (od_outbox (os_db s')) = order_log k (od_outbox (os_db s))
          @ (if \<exists>m \<in> set ?rows. m_id m = k \<and> k \<in> set ids \<and> m_status m = OrderStatusCreated
             then [OrderStatusCanceled] else []))"
  proof (cases "?C = []")
    case True
    then have "\<not> (m_id m \<in> set ids \<and> m_status m = OrderStatusCreated)" if "m \<in> set ?rows" for m
      using sel [OF that] by simp
    moreover have "s' = s" using c True by (simp add: BatchCancel_commit_def)
    ultimately show ?thesis by (auto simp: update_where_none)
  next
    case False
    note B = BatchCancel_commit_Inr [OF c False]
    have dc: "distinct (map o_id ?C)"
      using affected_all_distinct [OF d, of "map o_id ?C" "\<lambda>m. m_status m = OrderStatusCreated"] B(6) by simp
    have hit: "k \<in> o_id ` set ?C \<longleftrightarrow> (\<exists>m \<in> set ?rows. m_id m = k \<and> k \<in> set ids \<and> m_status m = OrderStatusCreated)" for k
    proof
      assume k: "k \<in> o_id ` set ?C"
      then obtain m where "m \<in> set ?rows" "m_id m = k"
        using rows_affected_keys(2) [OF d dc, of "\<lambda>m. m_status m = OrderStatusCreated"] B(6) by auto
      then show "\<exists>m \<in> set ?rows. m_id m = k \<and> k \<in> set ids \<and> m_status m = OrderStatusCreated"
        using sel k by auto
    qed (use sel in auto)
    have "od_orders (os_db s') = update_where (\<lambda>m. m_id m \<in> set ids \<and> m_status m = OrderStatusCreated)
               (m_status_update (\<lambda>_. OrderStatusCanceled)) ?rows"
      unfolding B(1) update_where_def using sel by (intro map_cong) auto
    then show ?thesis unfolding B(2) by (simp add: order_log_insert_all log_canceled [OF dc] hit)
  qed
  show ?thesis
  proof (cases "ids = []")
    case True
    then show ?thesis by (simp add: BatchCancel_Execute_def update_where_none)
  next
    case False
    then show ?thesis using r goal by (auto simp: BatchCancel_Execute_def split: prod.splits)
  qed
qed

text \<open>Cancelling a batch is all or nothing.  When it succeeds, exactly the orders of the batch that
  were CREATED become CANCELED, each with one CANCELED event; when it fails, for whatever reason,
  rows and outbox are as before.\<close>

theorem batch_cancel_spec:
  assumes "order_reach s"
  shows "case BatchCancel_Execute env ids s of
           (Inl e, s') \<Rightarrow> os_db s' = os_db s
         | (Inr task, s') \<Rightarrow>
             od_orders (os_db s') = update_where (\<lambda>m. m_id m \<in> set ids \<and> m_status m = OrderStatusCreated)
               (m_status_update (\<lambda>_. OrderStatusCanceled)) (od_orders (os_db s))
             \<and> (\<forall>k. order_log k (od_outbox (os_db s')) = order_log k (od_outbox (os_db s))
                  @ (if \<exists>m \<in> set (od_orders (os_db s)). m_id m = k \<and> k \<in> set ids \<and> m_status m = OrderStatusCreated
                     then [OrderStatusCanceled] else []))"
  by (rule BatchCancel_effect [OF order_reach_inv [OF assms]])

lemma batch_cancel_spec_witness:
  "case BatchCancel_Execute cancel_ok [1] created_svc of
     (Inl e, s') \<Rightarrow> False
   | (Inr task, s') \<Rightarrow> order_log 1 (od_outbox (os_db s')) = [OrderStatusCanceled]"
proof -
  have ok: "is_ok (fst (BatchCancel_Execute cancel_ok [1] created_svc))" by code_simp
  have log: "order_log 1 (od_outbox (os_db created_svc)) = []" by (simp add: created_svc_eq order_log_def)
  obtain m where "m \<in> set (od_orders (os_db created_svc))" "m_id m = 1" "m_status m = OrderStatusCreated"
    using created_find by (auto dest: find_row_SomeD)
  then show ?thesis using batch_cancel_spec [OF created_reach, where env = cancel_ok and ids = "[1]"] ok log
    by (auto split: prod.splits sum.splits)
qed

lemma CreateOrder_fresh:
  assumes "CreateOrder_Execute env now cmd s = (Inr k, Some task, s')" "cc_order cmd \<noteq> 0"
  shows "k = cc_order cmd"
    and "\<exists>m \<in> set (od_orders (os_db s')). m_id m = k \<and> m_user m = cc_user cmd
           \<and> m_kind m = normalizeOrderKind (cc_kind cmd) \<and> m_activity m = cc_activity cmd"
    and "cc_user cmd > 0" "cc_items cmd \<noteq> []"
    and "\<not> (normalizeOrderKind (cc_kind cmd) = OrderKindSeckill \<and> cc_activity cmd \<le> 0)"
  using assms
  by (auto simp: CreateOrder_Execute_def repo_Save_def insert_order_def Let_def cmd_toDomainOrder_def
      toOrderModel_def split: if_splits sum.splits prod.splits)

text \<open>C5: creation is idempotent.  Once a command with an order id has created its order, running the
  same command again, at any later time and after any other steps of the service, answers the same
  id, starts no goroutine and leaves the database alone.\<close>

theorem create_order_idempotent:
  assumes "order_reach s" "cc_order cmd \<noteq> 0"
    and "CreateOrder_Execute env now cmd s = (Inr k, Some task, s1)" "order_step\<^sup>*\<^sup>* s1 s2"
    and "cr_save env'" "cr_find env'"
  shows "CreateOrder_Execute env' now' cmd s2 = (Inr k, None, s2)"
proof -
  note F = CreateOrder_fresh [OF assms(3,2)]
  have r1: "order_reach s1" using reach_step [OF assms(1) step_create [of s env now cmd]] assms(3) by simp
  have "order_reach s2" using assms(4) r1 by (induction rule: rtranclp_induct) (auto intro: reach_step)
  then have d: "distinct (map m_id (od_orders (os_db s2)))" using order_reach_inv by (simp add: order_inv_def)
  obtain m where m: "m \<in> set (od_orders (os_db s2))" "m_id m = k" "m_user m = cc_user cmd"
    "m_kind m = normalizeOrderKind (cc_kind cmd)" "m_activity m = cc_activity cmd"
    using F(2) order_steps_rows [OF assms(4)] by (auto simp: rows_kept_def same_order_def)
  have f: "find_row m_id (cc_order cmd) (od_orders (os_db s2)) = Some m"
    using find_row_unique [OF d m(1)] m(2) F(1) by simp
  have mem: "cc_order cmd \<in> m_id ` set (od_orders (os_db s2))"
    using m(1,2) F(1) by (intro image_eqI [of _ _ m]) simp_all
  have dup: "repo_Save True now' (cmd_toDomainOrder now' cmd) s2 = (Inl ErrDuplicateOrder, s2)"
    using mem assms(2)
    by (auto simp: repo_Save_def insert_order_def Let_def toOrderModel_def cmd_toDomainOrder_def isDuplicate_def)
  have e: "o_status (cmd_toDomainOrder now' cmd) = OrderStatusCreated" by (simp add: cmd_toDomainOrder_def Let_def)
  show ?thesis using F(1,3,4,5) m assms(5,6) dup f
    by (auto simp: CreateOrder_Execute_def repo_FindByID_def sameCreateOrderIntent_def Let_def)
qed

lemma create_order_idempotent_witness:
  "CreateOrder_Execute create_ok 9000 sample_cmd paid_svc = (Inr 1, None, paid_svc)"
proof -
  have c: "CreateOrder_Execute create_ok 1000 sample_cmd empty_svc
      = (Inr 1, Some ((toOrderModel (cmd_toDomainOrder 1000 sample_cmd))\<lparr>m_created_at := 1000\<rparr>, 1, 1801000), created_svc)"
    by (simp add: created_svc_def CreateOrder_Execute_def repo_Save_def insert_order_def sample_defs Let_def
      normalizeOrderKind_def OrderKindCart_def OrderKindSeckill_def cmd_toDomainOrder_def toOrderModel_def)
  have plan: "change_prepare change_ok 1 OrderActionPay created_svc
      = Inr (Some (OrderStatusCreated, (cmd_toDomainOrder 1000 sample_cmd)\<lparr>o_status := OrderStatusPaid, o_created_at := 1000\<rparr>))"
    by code_simp
  have e: "paid_svc = snd (change_commit change_ok (OrderStatusCreated,
      (cmd_toDomainOrder 1000 sample_cmd)\<lparr>o_status := OrderStatusPaid, o_created_at := 1000\<rparr>) created_svc)"
    by (auto simp: paid_svc_def ChangeOrderStatus_Execute_def plan split: prod.splits sum.splits)
  have "applyOrderAction ((cmd_toDomainOrder 1000 sample_cmd)\<lparr>o_created_at := 1000\<rparr>) OrderActionPay
      = Inr ((cmd_toDomainOrder 1000 sample_cmd)\<lparr>o_status := OrderStatusPaid, o_created_at := 1000\<rparr>)"
    by (simp add: applyOrderAction_def order_Pay_def cmd_toDomainOrder_def Let_def)
  from step_change [OF this, of created_svc change_ok] have "order_step created_svc paid_svc"
    unfolding e by (simp add: cmd_toDomainOrder_def Let_def)
  then have "order_step\<^sup>*\<^sup>* created_svc paid_svc" by blast
  then show ?thesis
    by (intro create_order_idempotent [OF empty_reach _ c]) (simp_all add: sample_cmd_def create_ok_def)
qed

section \<open>Amounts\<close>

lemma items_total_fold:
  "fold (\<lambda>item total. wrap64 (total + wrap64 (it_price item * it_quantity item))) items (wrap64 acc)
   = wrap64 (acc + (\<Sum>i \<leftarrow> items. it_price i * it_quantity i))"
proof (induction items arbitrary: acc)
  case (Cons i items)
  have "wrap64 (wrap64 acc + wrap64 (it_price i * it_quantity i)) = wrap64 (acc + it_price i * it_quantity i)"
    by (simp add: wrap64_add_left wrap64_add_right)
  then show ?case using Cons [of "acc + it_price i * it_quantity i"] by (simp add: add.assoc)
qed simp

lemma items_total_sum: "items_total items = wrap64 (\<Sum>i \<leftarrow> items. it_price i * it_quantity i)"
  using items_total_fold [of items 0] by (simp add: items_total_def wrap64_def)

text \<open>The amounts of a new order.  The total is the sum of price times quantity, wrapped only at the
  end; with a positive payable amount of at most the total, payable and discount add up to the
  total; and a payable amount of zero is replaced by the full total with no discount.\<close>

theorem create_order_amounts:
  assumes "in64 (\<Sum>i \<leftarrow> cc_items cmd. it_price i * it_quantity i)"
  shows "am_total (o_total (cmd_toDomainOrder now cmd)) = (\<Sum>i \<leftarrow> cc_items cmd. it_price i * it_quantity i)
    \<and> (0 < cc_payable cmd \<and> cc_payable cmd \<le> (\<Sum>i \<leftarrow> cc_items cmd. it_price i * it_quantity i) \<longrightarrow>
         am_total (o_payable (cmd_toDomainOrder now cmd)) = cc_payable cmd
       \<and> am_total (o_payable (cmd_toDomainOrder now cmd)) + am_total (o_discount (cmd_toDomainOrder now cmd))
         = am_total (o_total (cmd_toDomainOrder now cmd)))
    \<and> (cc_payable cmd = 0 \<longrightarrow>
         am_total (o_payable (cmd_toDomainOrder now cmd)) = am_total (o_total (cmd_toDomainOrder now cmd))
       \<and> am_total (o_discount (cmd_toDomainOrder now cmd)) = 0)"
proof -
  define T where "T = (\<Sum>i \<leftarrow> cc_items cmd. it_price i * it_quantity i)"
  have t: "items_total (cc_items cmd) = T" using assms by (simp add: items_total_sum wrap64_id T_def)
  have w: "0 < p \<Longrightarrow> p \<le> T \<Longrightarrow> wrap64 (T - p) = T - p" for p
    using assms by (intro wrap64_id) (auto simp: in64_def T_def)
  show ?thesis unfolding T_def [symmetric] using w
    by (auto simp: cmd_toDomainOrder_def Let_def t)
qed

lemma create_order_amounts_witness:
  "am_total (o_payable (cmd_toDomainOrder 0 sample_cmd)) = 500
   \<and> am_total (o_discount (cmd_toDomainOrder 0 sample_cmd)) = 100"
  using create_order_amounts [of sample_cmd 0] by (simp add: sample_cmd_def sample_item_def in64_def)

section \<open>Listing\<close>

lemma user_rows_desc_filter:
  assumes "0 < c" "cursor > 0 \<longrightarrow> c \<le> cursor"
  shows "user_rows_desc uid c s = filter (\<lambda>m. m_id m < c) (user_rows_desc uid cursor s)"
proof -
  have "filter (\<lambda>m. m_user m = uid \<and> (0 < c \<longrightarrow> m_id m < c)) (od_orders (os_db s))
      = filter (\<lambda>m. m_id m < c) (filter (\<lambda>m. m_user m = uid \<and> (0 < cursor \<longrightarrow> m_id m < cursor)) (od_orders (os_db s)))"
    using assms by (auto intro!: filter_cong)
  then show ?thesis by (simp only: user_rows_desc_def filter_sort rev_filter [symmetric])
qed

lemma user_rows_desc_strict:
  assumes "distinct (map m_id (od_orders (os_db s)))"
  shows "sorted_wrt (\<lambda>a b. m_id b < m_id a) (user_rows_desc uid cursor s)"
proof -
  define xs where "xs = filter (\<lambda>m. m_user m = uid \<and> (cursor > 0 \<longrightarrow> m_id m < cursor)) (od_orders (os_db s))"
  have "distinct (map m_id (sort_key m_id xs))"
    using assms by (simp add: distinct_map inj_on_def xs_def distinct_map_filter)
  then have "sorted_wrt (<) (map m_id (sort_key m_id xs))"
    by (simp add: strict_sorted_iff)
  then show ?thesis by (simp add: user_rows_desc_def xs_def [symmetric] sorted_wrt_map sorted_wrt_rev)
qed

lemma desc_page_rest:
  assumes "sorted_wrt (\<lambda>a b. m_id b < m_id a) xs" "0 < lim" "lim \<le> length xs"
  shows "filter (\<lambda>m. m_id m < m_id (xs ! (lim - 1))) xs = drop lim xs"
proof -
  let ?c = "m_id (xs ! (lim - 1))"
  have lt: "m_id (xs ! j) < m_id (xs ! i)" if "i < j" "j < length xs" for i j
    using assms(1) that by (simp add: sorted_wrt_iff_nth_less)
  have 1: "filter (\<lambda>m. m_id m < ?c) (take lim xs) = []"
  proof -
    have "\<not> m_id (xs ! i) < ?c" if "i < lim" for i
    proof -
      have "i = lim - 1 \<or> i < lim - 1" using that by linarith
      moreover have "lim - 1 < length xs" using assms(2,3) by linarith
      ultimately show ?thesis using lt [of i "lim - 1"] by auto
    qed
    then show ?thesis by (auto simp: filter_empty_conv in_set_conv_nth)
  qed
  have 2: "filter (\<lambda>m. m_id m < ?c) (drop lim xs) = drop lim xs"
    using lt assms(2,3) by (auto simp: filter_id_conv in_set_conv_nth)
  show ?thesis using 1 2 filter_append [of "\<lambda>m. m_id m < ?c" "take lim xs" "drop lim xs"] by simp
qed

text \<open>Listing past the cached first page is exact keyset pagination: a page is the next \<open>lim\<close> orders of
  the user in descending id order, and the returned cursor is 0 exactly when nothing is left and
  otherwise resumes at precisely the orders the page did not show.\<close>

theorem list_orders_page:
  assumes "order_reach s" "\<forall>m \<in> set (od_orders (os_db s)). 0 < m_id m"
    and "0 < uid" "0 \<le> cursor" "0 < lim" "0 < cursor \<or> 10 < lim" "le_db env"
  shows "\<exists>page nxt. ListUserOrder_Execute env uid cursor (int lim) s = (Inr (page, nxt), s)
      \<and> page = map toDomainOrder (take lim (user_rows_desc uid cursor s))
      \<and> (nxt = 0 \<longleftrightarrow> length (user_rows_desc uid cursor s) \<le> lim)
      \<and> (nxt \<noteq> 0 \<longrightarrow> user_rows_desc uid nxt s = drop lim (user_rows_desc uid cursor s))"
proof -
  let ?xs = "user_rows_desc uid cursor s"
  let ?page = "map toDomainOrder (take lim ?xs)"
  let ?nxt = "if length ?xs > lim then o_id (last ?page) else 0"
  have d: "distinct (map m_id (od_orders (os_db s)))" using order_reach_inv [OF assms(1)] by (simp add: order_inv_def)
  have "length (take (lim + 1) ?xs) > lim \<longleftrightarrow> length ?xs > lim" by auto
  then have l: "ListUserOrder_Execute env uid cursor (int lim) s = (Inr (?page, ?nxt), s)"
    using assms(3-7)
    by (auto simp: ListUserOrder_Execute_def repo_ListByUserID_def list_from_db_def pageLimit_def Let_def min_def)
  have nxt: "user_rows_desc uid ?nxt s = drop lim ?xs \<and> ?nxt \<noteq> 0" if "length ?xs > lim"
  proof -
    have last: "?nxt = m_id (?xs ! (lim - 1))"
    proof -
      have "take lim ?xs \<noteq> []" using that assms(5) by auto
      then show ?thesis using that by (simp add: last_map last_conv_nth min_def)
    qed
    have mem: "?xs ! (lim - 1) \<in> set ?xs" using that by (intro nth_mem) simp
    then have "0 < ?nxt" using last assms(2) by (auto simp: user_rows_desc_def)
    moreover have "cursor > 0 \<longrightarrow> ?nxt \<le> cursor" using last mem by (auto simp: user_rows_desc_def)
    ultimately show ?thesis
      using user_rows_desc_filter [of ?nxt cursor uid s] desc_page_rest [OF user_rows_desc_strict [OF d] assms(5), of uid cursor]
        that last by simp
  qed
  show ?thesis using l nxt by (intro exI [of _ ?page] exI [of _ ?nxt]) auto
qed

definition list_ok :: list_env where
  "list_ok = \<lparr>le_zrange = True, le_mget = True, le_miss = True, le_set = (\<lambda>_. True), le_del = True, le_db = True\<rparr>"

lemma list_orders_page_witness:
  "\<exists>page nxt. ListUserOrder_Execute list_ok 5 2 10 created_svc = (Inr (page, nxt), created_svc)
     \<and> map o_id page = [1] \<and> nxt = 0"
proof -
  have "user_rows_desc 5 2 created_svc = od_orders (os_db created_svc)"
    by (simp add: user_rows_desc_def created_row toOrderModel_def cmd_toDomainOrder_def sample_cmd_def Let_def)
  moreover have "map m_id (od_orders (os_db created_svc)) = [1]" by (simp add: created_row toOrderModel_def cmd_toDomainOrder_def sample_cmd_def Let_def)
  moreover have "length (od_orders (os_db created_svc)) = 1" by (simp add: created_row)
  ultimately show ?thesis
    using list_orders_page [OF created_reach, of 5 2 10 list_ok]
    by (force simp: created_row toOrderModel_def cmd_toDomainOrder_def sample_cmd_def Let_def list_ok_def)
qed

lemma fill_misses_length [simp]: "length (fill_misses mi models ords) = length ords"
proof -
  have "length (fold (\<lambda>m acc. case map_of (rev mi) (m_id m) of None \<Rightarrow> acc
            | Some i \<Rightarrow> acc[i := Some (toDomainOrder m)]) models ords) = length ords" for ords
    by (induction models arbitrary: ords) (auto split: option.splits)
  then show ?thesis by (simp add: fill_misses_def)
qed

lemma fill_misses_nth:
  assumes "distinct (map m_id models)" "i < length ords" "\<And>k j. map_of (rev mi) k = Some j \<Longrightarrow> f j = k"
    and "map_of (rev mi) (f i) = Some i"
  shows "fill_misses mi models ords ! i =
     (case find_row m_id (f i) models of None \<Rightarrow> ords ! i | Some m \<Rightarrow> Some (toDomainOrder m))"
  using assms(1,2) unfolding fill_misses_def
proof (induction models arbitrary: ords)
  case (Cons m models)
  let ?ords = "case map_of (rev mi) (m_id m) of None \<Rightarrow> ords | Some j \<Rightarrow> ords[j := Some (toDomainOrder m)]"
  have l: "length ?ords = length ords" by (auto split: option.splits)
  have o: "?ords ! i = (if m_id m = f i then Some (toDomainOrder m) else ords ! i)"
  proof (cases "map_of (rev mi) (m_id m)")
    case None
    then show ?thesis using assms(4) by auto
  next
    case (Some j)
    then have "f j = m_id m" by (rule assms(3))
    moreover have "m_id m = f i \<Longrightarrow> j = i" using Some assms(4) by simp
    ultimately show ?thesis using Some Cons.prems(2) by (cases "j = i") auto
  qed
  have n: "m_id m = f i \<Longrightarrow> find_row m_id (f i) models = None"
    using Cons.prems(1) by (auto simp: find_row_None_iff)
  show ?case
    using Cons.IH [of ?ords] Cons.prems l o n by (auto split: option.splits)
qed simp

text \<open>\<open>Set\<close> quotes the text it is given, so no entry the service writes decodes again.\<close>

definition kv_quoted :: "order_svc \<Rightarrow> bool" where
  "kv_quoted s \<longleftrightarrow> (\<forall>k. Option.bind (os_kv s k) unmarshal_order = None)"

lemma kv_quoted_Set: "kv_quoted s \<Longrightarrow> kv_quoted (cache_Set ok k c s)"
  by (simp add: kv_quoted_def cache_Set_def)

lemma kv_quoted_Del: "kv_quoted s \<Longrightarrow> kv_quoted (cache_Del ok ks s)"
  by (simp add: kv_quoted_def cache_Del_def)

lemma write_back_db [simp]: "os_db (write_back env ms s) = os_db s"
  unfolding write_back_def by (induction ms arbitrary: s) simp_all

text \<open>With every cache entry undecodable the cached page is read from the rows whose ids the list cache
  holds, and from no others.\<close>

lemma list_from_cache_quoted:
  assumes "distinct (map m_id (od_orders (os_db s)))" "kv_quoted s" "le_miss env"
    and "distinct ids" "ids \<noteq> []" "\<forall>k \<in> set ids. k \<noteq> 0 \<and> k \<in> m_id ` set (od_orders (os_db s))"
  shows "fst (list_from_cache env uid lim ids s) =
     Inr (map (\<lambda>k. toDomainOrder (the (find_row m_id k (od_orders (os_db s))))) ids,
          if length ids < lim then 0 else last ids)"
proof -
  let ?rows = "od_orders (os_db s)"
  define cachedOrders where "cachedOrders = map (\<lambda>k. Option.bind (os_kv s k) unmarshal_order) ids"
  define misses where "misses = filter (\<lambda>(i, k). cachedOrders ! i = None) (enumerate 0 ids)"
  have c: "cachedOrders = map (\<lambda>_. None) ids" using assms(2) by (simp add: cachedOrders_def kv_quoted_def)
  have m: "misses = enumerate 0 ids"
    unfolding misses_def by (auto simp: filter_id_conv c in_set_enumerate_eq)
  define mi where "mi = map (\<lambda>(i, k). (k, i)) misses"
  have mi: "mi = zip ids [0..<length ids]"
    unfolding mi_def m enumerate_eq_zip by (simp add: zip_commute [of ids])
  have dmi: "distinct (map fst (rev mi))" using assms(4) by (simp add: mi rev_map [symmetric])
  have mof: "map_of (rev mi) k = Some j \<longleftrightarrow> j < length ids \<and> ids ! j = k" for k j
    using dmi by (auto simp: map_of_eq_Some_iff mi in_set_zip)
  define models where "models = filter (\<lambda>m. m_id m \<in> set ids) ?rows"
  have dm: "distinct (map m_id models)" using assms(1) by (simp add: models_def distinct_map_filter)
  have fr: "find_row m_id k models = find_row m_id k ?rows" if "k \<in> set ids" for k
    using that unfolding models_def by (rule find_row_filter)
  have filled: "fill_misses mi models cachedOrders = map (\<lambda>k. Some (toDomainOrder (the (find_row m_id k ?rows)))) ids"
  proof (rule nth_equalityI)
    fix i assume "i < length (fill_misses mi models cachedOrders)"
    then have i: "i < length ids" by (simp add: c)
    have k: "ids ! i \<in> set ids" using i by simp
    have "find_row m_id (ids ! i) models \<noteq> None"
      using assms(6) k fr [OF k] by (auto simp: find_row_None_iff)
    then show "fill_misses mi models cachedOrders ! i = map (\<lambda>k. Some (toDomainOrder (the (find_row m_id k ?rows)))) ids ! i"
      using fill_misses_nth [OF dm, of i cachedOrders mi "\<lambda>i. ids ! i"] i mof fr [OF k] by (auto simp: c)
  qed (simp add: c)
  have id: "o_id (toDomainOrder (the (find_row m_id k ?rows))) = k" if "k \<in> set ids" for k
    using assms(6) that by (cases "find_row m_id k ?rows") (auto simp: find_row_None_iff dest: find_row_SomeD)
  have miss: "map snd misses = ids" by (simp add: m)
  have valid: "[ord. Some ord \<leftarrow> map (\<lambda>k. Some (toDomainOrder (the (find_row m_id k ?rows)))) ks, o_id ord \<noteq> 0]
      = map (\<lambda>k. toDomainOrder (the (find_row m_id k ?rows))) ks" if "set ks \<subseteq> set ids" for ks
    using that id assms(6) by (induction ks) auto
  have last: "o_id (last (map (\<lambda>k. toDomainOrder (the (find_row m_id k ?rows))) ids)) = last ids"
    using assms(5) id [of "last ids"] by (simp add: last_map)
  show ?thesis
    unfolding list_from_cache_def cachedOrders_def [symmetric] Let_def misses_def [symmetric] mi_def [symmetric] miss
      models_def [symmetric]
    using assms(3,5) filled valid [of ids] last by simp
qed

text \<open>The first page of an order list (up to ten orders) is answered from the ids the list cache
  holds, however few: with fewer cached ids than the page size the answer stops there with cursor 0,
  also when the user has more orders in the database.\<close>

theorem list_first_page_from_cache:
  assumes "order_reach s" "kv_quoted s" "le_zrange env" "le_mget env" "le_miss env"
    and "0 < uid" "0 < lim" "lim \<le> 10" "os_lists s uid \<noteq> []" "distinct ids"
    and "map fst (take lim (rev (os_lists s uid))) = map format_int ids"
    and "\<forall>k \<in> set ids. in64 k \<and> k \<noteq> 0 \<and> k \<in> m_id ` set (od_orders (os_db s))"
  shows "fst (ListUserOrder_Execute env uid 0 (int lim) s) =
     Inr (map (\<lambda>k. toDomainOrder (the (find_row m_id k (od_orders (os_db s))))) ids,
          if length ids < lim then 0 else last ids)"
proof -
  have d: "distinct (map m_id (od_orders (os_db s)))" using order_reach_inv [OF assms(1)] by (simp add: order_inv_def)
  have z: "zrevrange0 (int lim - 1) (os_lists s uid) = map format_int ids"
    using assms(7,11) by (simp add: zrevrange0_def Let_def)
  have p: "List.map_filter parse_int (map format_int ks) = ks" if "\<forall>k \<in> set ks. in64 k" for ks
    using that by (induction ks) (auto simp: parse_format_int)
  have ne: "ids \<noteq> []"
  proof
    assume "ids = []"
    then have "take lim (rev (os_lists s uid)) = []" using assms(11) by simp
    then show False using assms(7,9) by simp
  qed
  have "List.map_filter parse_int (zrevrange0 (int lim - 1) (os_lists s uid)) = ids"
    using z p assms(12) by simp
  then have "repo_ListByUserID env uid 0 lim s = list_from_cache env uid lim ids s"
    using assms(3,4,8) ne by (simp add: repo_ListByUserID_def pageLimit_def)
  moreover have "fst (list_from_cache env uid lim ids s) =
     Inr (map (\<lambda>k. toDomainOrder (the (find_row m_id k (od_orders (os_db s))))) ids,
          if length ids < lim then 0 else last ids)"
    using assms(12) by (intro list_from_cache_quoted d assms(2,5,10) ne) blast
  ultimately show ?thesis using assms(6,7) by (simp add: ListUserOrder_Execute_def)
qed

definition two_orders_svc :: order_svc where
  "two_orders_svc =
     (snd (snd (CreateOrder_Execute create_ok 2000 (sample_cmd\<lparr>cc_order := 2\<rparr>) created_svc)))
       \<lparr>os_kv := (\<lambda>_. None), os_lists := (\<lambda>uid. if uid = 5 then [(format_int 2, 2000)] else [])\<rparr>"

lemma two_orders_reach: "order_reach two_orders_svc"
  unfolding two_orders_svc_def
  by (rule reach_step [OF reach_step [OF created_reach step_create] step_cache])

lemma two_orders_ids: "map m_id (od_orders (os_db two_orders_svc)) = [1, 2]"
  "map m_user (od_orders (os_db two_orders_svc)) = [5, 5]"
  by code_simp+

lemma list_first_page_from_cache_witness:
  "map m_user (od_orders (os_db two_orders_svc)) = [5, 5]
   \<and> (\<exists>ord. fst (ListUserOrder_Execute list_ok 5 0 10 two_orders_svc) = Inr ([ord], 0))"
proof -
  have ids: "2 \<in> m_id ` set (od_orders (os_db two_orders_svc))"
    using two_orders_ids(1) by (metis insertCI list.set_map list.simps(15))
  have z: "os_lists two_orders_svc 5 = [(format_int 2, 2000)]" by (simp add: two_orders_svc_def)
  have q: "kv_quoted two_orders_svc" by (simp add: kv_quoted_def two_orders_svc_def)
  have "fst (ListUserOrder_Execute list_ok 5 0 (int 10) two_orders_svc) =
     Inr (map (\<lambda>k. toDomainOrder (the (find_row m_id k (od_orders (os_db two_orders_svc))))) [2],
          if length [2 :: int] < 10 then 0 else last [2])"
    by (rule list_first_page_from_cache [OF two_orders_reach q])
      (use ids z in \<open>simp_all add: list_ok_def in64_def\<close>)
  then show ?thesis using two_orders_ids(2) by simp
qed

section \<open>The delay queue\<close>

lemma map_filter_append: "List.map_filter f (xs @ ys) = List.map_filter f xs @ List.map_filter f ys"
  by (simp add: List.map_filter_def)

lemma zrem_zrem: "zrem ys (zrem xs z) = zrem (xs @ ys) z"
  by (auto simp: zrem_def intro!: filter_cong)

lemma drain_due_ok:
  assumes "zset_wf z" "0 < b" "\<forall>r. oks r"
  shows "drain_due b oks rnd now acc z =
     (Inr (acc @ List.map_filter parse_int (zrangebyscore now z)), zrem (zrangebyscore now z) z)"
  using assms
proof (induction b oks rnd now acc z rule: drain_due.induct)
  case (1 b oks rnd now acc z)
  obtain ms z' where c: "zclaim_by_score now b z = (ms, z')" by fastforce
  have ms: "ms = take b (zrangebyscore now z)" using zclaim_members [of now b z] c 1(3) by simp
  have z': "z' = zrem ms z" using zclaim_rest [of now b z] c by simp
  have due: "zrangebyscore now z' = drop b (zrangebyscore now z)"
    using zclaim_due [of z b now] 1(2,3) c by simp
  show ?case
  proof (cases "ms = [] \<or> length ms < b")
    case True
    then have "ms = zrangebyscore now z" using ms 1(3) by (cases "zrangebyscore now z") auto
    then show ?thesis using True c z' 1(4) by (subst drain_due.simps) auto
  next
    case False
    have "drain_due b oks (Suc rnd) now (acc @ List.map_filter parse_int ms) z'
      = (Inr ((acc @ List.map_filter parse_int ms) @ List.map_filter parse_int (zrangebyscore now z')),
         zrem (zrangebyscore now z') z')"
      using False c 1(2,3,4) z' by (intro 1(1) [OF _ c [symmetric]]) auto
    moreover have "drain_due b oks rnd now acc z = drain_due b oks (Suc rnd) now (acc @ List.map_filter parse_int ms) z'"
      using False c 1(4) by (subst drain_due.simps) auto
    moreover have "ms @ zrangebyscore now z' = zrangebyscore now z" using ms due by simp
    ultimately show ?thesis using z' zrem_zrem [of "zrangebyscore now z'" ms z]
      by (simp add: map_filter_append [symmetric])
  qed
qed

text \<open>On a healthy Redis, draining returns every due order id, in due order, leaves exactly the
  members that are not yet due, and terminates however long the queue is.\<close>

theorem drain_due_complete:
  assumes "zset_wf (os_delay s)" "\<forall>r. oks r"
  shows "delay_DrainDue oks now s =
     (Inr (List.map_filter parse_int (map fst (filter (\<lambda>p. snd p \<le> now) (os_delay s)))),
      s\<lparr>os_delay := filter (\<lambda>p. now < snd p) (os_delay s)\<rparr>)"
proof -
  have d: "distinct (map fst (os_delay s))" using assms(1) by (simp add: zset_wf_def)
  have "zrem (zrangebyscore now (os_delay s)) (os_delay s) = filter (\<lambda>p. now < snd p) (os_delay s)"
    unfolding zrem_def zrangebyscore_def
    using d by (intro filter_cong refl) (auto simp: distinct_map inj_on_def, fastforce)
  then show ?thesis
    using drain_due_ok [OF assms(1) _ assms(2), of claimBatchSize 0 now "[]"]
    by (simp add: delay_DrainDue_def claimBatchSize_def zrangebyscore_def)
qed

lemma drain_due_complete_witness:
  "fst (delay_DrainDue (\<lambda>_. True) 10 (empty_svc\<lparr>os_delay := [(''7'', 5), (''x'', 6), (''8'', 20)]\<rparr>)) = Inr [7]"
proof -
  have w: "zset_wf (os_delay (empty_svc\<lparr>os_delay := [(''7'', 5), (''x'', 6), (''8'', 20)]\<rparr>))"
    by (simp add: zset_wf_def zkey_def)
  show ?thesis using drain_due_complete [OF w, of "\<lambda>_. True" 10]
    by (simp add: List.map_filter_def parse_int_def parse_nat_def digit_val_def in64_def Let_def)
qed

text \<open>An error in a later claim of the same drain loses what the earlier claims removed: the members
  are gone from the queue and are not returned.\<close>

theorem drain_due_error_loses:
  assumes "zset_wf (os_delay s)" "oks 0" "\<not> oks 1"
    and "100 \<le> length (zrangebyscore now (os_delay s))"
  shows "delay_DrainDue oks now s =
     (Inl ErrInfra, s\<lparr>os_delay := zrem (take 100 (zrangebyscore now (os_delay s))) (os_delay s)\<rparr>)"
proof -
  obtain ms z' where c: "zclaim_by_score now 100 (os_delay s) = (ms, z')" by fastforce
  have ms: "ms = take 100 (zrangebyscore now (os_delay s))"
    using zclaim_members [of now 100 "os_delay s"] c by simp
  have z': "z' = zrem ms (os_delay s)" using zclaim_rest [of now 100 "os_delay s"] c by simp
  have l: "length ms = 100" using ms assms(4) by simp
  then have ne: "ms \<noteq> []" by auto
  have "drain_due 100 oks (Suc 0) now (List.map_filter parse_int ms) z' = (Inl ErrInfra, z')"
    using assms(3) by (subst drain_due.simps) simp
  then have "drain_due 100 oks 0 now [] (os_delay s) = (Inl ErrInfra, z')"
    using assms(2) c l ne by (subst drain_due.simps) simp
  then show ?thesis by (simp add: delay_DrainDue_def claimBatchSize_def z' ms)
qed

definition long_queue :: zset where
  "long_queue = map (\<lambda>n. (replicate n (CHR ''1''), 0)) [0..<100]"

lemma drain_due_error_loses_witness:
  "fst (delay_DrainDue (\<lambda>r. r = 0) 5 (empty_svc\<lparr>os_delay := long_queue\<rparr>)) = Inl ErrInfra"
proof -
  have "sorted (map (\<lambda>n. (0 :: int, replicate n (CHR ''1''))) [0..<100])"
  proof (rule sorted_iff_nth_mono [THEN iffD2], intro allI impI)
    fix i j :: nat
    assume "i \<le> j" "j < length (map (\<lambda>n. (0 :: int, replicate n (CHR ''1''))) [0..<100])"
    moreover have "replicate i c \<le> replicate j c" if "i \<le> j" for c :: char
      using that
    proof (induction i arbitrary: j)
      case (Suc i)
      then obtain m where "j = Suc m" "i \<le> m" by (cases j) auto
      then show ?case using Suc by simp
    qed simp
    ultimately show "map (\<lambda>n. (0 :: int, replicate n (CHR ''1''))) [0..<100] ! i
        \<le> map (\<lambda>n. (0 :: int, replicate n (CHR ''1''))) [0..<100] ! j" by simp
  qed
  then have w: "zset_wf long_queue"
    by (simp add: zset_wf_def long_queue_def zkey_def comp_def distinct_map inj_on_def)
  have l: "length (zrangebyscore 5 long_queue) = 100"
    by (simp add: zrangebyscore_def long_queue_def filter_map comp_def)
  show ?thesis using drain_due_error_loses [of "empty_svc\<lparr>os_delay := long_queue\<rparr>" "\<lambda>r. r = 0" 5] w l by simp
qed

section \<open>The dispatcher\<close>

definition created_ids :: "order_svc \<Rightarrow> int set" where
  "created_ids s = m_id ` {m \<in> set (od_orders (os_db s)). m_status m = OrderStatusCreated}"

lemma created_ids_db: "od_orders (os_db s') = od_orders (os_db s) \<Longrightarrow> created_ids s' = created_ids s"
  by (simp add: created_ids_def)

lemma created_ids_commit:
  assumes "o_status (snd plan) \<noteq> OrderStatusCreated"
  shows "created_ids (snd (change_commit env plan s)) \<subseteq> created_ids s"
  using change_commit_db [of env plan s]
proof (elim disjE exE conjE)
  fix x s1
  assume u: "repo_UpdateStatus (xe_update env) (xe_del env) (o_id (snd plan)) (fst plan) (o_status (snd plan)) s = (Inr (), s1)"
    and d: "os_db (snd (change_commit env plan s)) = (os_db s1)\<lparr>od_outbox := snd (outbox_insert EventTypeOrderStatusChanged (BuildOrderStatusUpdateEvent (snd plan)) (od_outbox (os_db s1)))\<rparr>"
  show ?thesis using UpdateStatus_Inr(1) [OF u] d assms
    by (auto simp: created_ids_def update_where_set split: if_splits)
qed (simp add: created_ids_def)

lemma run_tx_delay:
  "(\<And>r s'. body s = (r, s') \<Longrightarrow> os_delay s' = os_delay s) \<Longrightarrow> os_delay (snd (run_tx os_db put_db body s)) = os_delay s"
  by (auto simp: run_tx_def split: prod.splits sum.splits)

lemma change_commit_delay [simp]: "os_delay (snd (change_commit env plan s)) = os_delay s"
  unfolding change_commit_def
  by (auto simp: repo_UpdateStatus_def set_outbox_def cache_Del_def Let_def
      intro!: run_tx_delay split: prod.splits sum.splits if_splits)

lemma BatchCancel_delay [simp]: "os_delay (snd (BatchCancel_Execute env ids s)) = os_delay s"
proof -
  have "os_delay (snd (run_tx os_db put_db (BatchCancel_body env ids) s)) = os_delay s"
    by (intro run_tx_delay) (auto simp: BatchCancel_body_def BatchCancel_commit_def repo_BatchUpdateStatus_def
        set_outbox_def cache_Del_def Let_def split: prod.splits sum.splits if_splits)
  then show ?thesis by (auto simp: BatchCancel_Execute_def split: prod.splits sum.splits)
qed

lemma ChangeOrderStatus_cases:
  "ChangeOrderStatus_Execute env oid a s = (r, task, s') \<Longrightarrow>
   s' = s \<or> (\<exists>plan. change_prepare env oid a s = Inr (Some plan) \<and> s' = snd (change_commit env plan s))"
  by (auto simp: ChangeOrderStatus_Execute_def split: prod.splits sum.splits option.splits)

lemma change_prepare_pay:
  "change_prepare env oid OrderActionPay s = Inr (Some plan) \<Longrightarrow> o_status (snd plan) = OrderStatusPaid"
  by (auto simp: change_prepare_def applyOrderAction_def order_Pay_def split: if_splits sum.splits)

lemma shouldCancel_keeps:
  assumes "shouldCancelDueOrder env oid s = (r, ts, s')" "order_inv s"
  shows "order_inv s'" "created_ids s' \<subseteq> created_ids s" "os_delay s' = os_delay s"
proof -
  have "s' = s \<or> (\<exists>e k plan. change_prepare e k OrderActionPay s = Inr (Some plan) \<and> s' = snd (change_commit e plan s))"
    using assms(1) by (auto simp: shouldCancelDueOrder_def split: sum.splits if_splits option.splits prod.splits
        dest!: ChangeOrderStatus_cases)
  then have "order_inv s' \<and> created_ids s' \<subseteq> created_ids s \<and> os_delay s' = os_delay s"
  proof (elim disjE exE conjE)
    fix e k plan
    assume p: "change_prepare e k OrderActionPay s = Inr (Some plan)" and s': "s' = snd (change_commit e plan s)"
    have "legal_step (fst plan) (o_status (snd plan))"
      using p applyOrderAction_legal by (auto simp: change_prepare_def split: if_splits sum.splits)
    then have "order_inv s'" using change_commit_inv [OF assms(2), of "fst plan" "snd plan"] s' by simp
    moreover have "created_ids s' \<subseteq> created_ids s"
      unfolding s' using change_prepare_pay [OF p] by (intro created_ids_commit) simp
    ultimately show ?thesis using s' by simp
  qed (use assms(2) in simp)
  then show "order_inv s'" "created_ids s' \<subseteq> created_ids s" "os_delay s' = os_delay s" by simp_all
qed

lemma created_find_row:
  assumes "order_inv s"
  shows "k \<in> created_ids s \<longleftrightarrow> (\<exists>m. find_row m_id k (od_orders (os_db s)) = Some m \<and> m_status m = OrderStatusCreated)"
  using assms find_row_iff [of m_id "od_orders (os_db s)" k] by (auto simp: order_inv_def created_ids_def)

lemma pay_clears_created:
  assumes "order_inv s" "ChangeOrderStatus_Execute env k OrderActionPay s = (r, task, s')"
    and "is_ok r \<or> r = Inl ErrInvalidStatusTransition"
  shows "k \<notin> created_ids s'"
proof
  assume k: "k \<in> created_ids s'"
  have sub: "created_ids s' \<subseteq> created_ids s"
    using ChangeOrderStatus_cases [OF assms(2)]
  proof (elim disjE exE conjE)
    fix plan
    assume p: "change_prepare env k OrderActionPay s = Inr (Some plan)" and s': "s' = snd (change_commit env plan s)"
    show ?thesis unfolding s' using change_prepare_pay [OF p] by (intro created_ids_commit) simp
  qed simp
  obtain m where m: "find_row m_id k (od_orders (os_db s)) = Some m" "m_status m = OrderStatusCreated"
    using k sub created_find_row [OF assms(1)] by auto
  have mid: "m_id m = k" using find_row_SomeD [OF m(1)] by simp
  have d: "distinct (map m_id (od_orders (os_db s)))" using assms(1) by (simp add: order_inv_def)
  let ?ord = "(toDomainOrder m)\<lparr>o_status := OrderStatusPaid\<rparr>"
  have prep: "change_prepare env k OrderActionPay s
      = (if k \<le> 0 then Inl ErrInvalidOrderID else if \<not> xe_find env then Inl ErrInfra
         else Inr (Some (OrderStatusCreated, ?ord)))"
    using m by (simp add: change_prepare_def repo_FindByID_def applyOrderAction_def order_Pay_def)
  have f: "find_row m_id (o_id ?ord) (od_orders (os_db s)) = Some m" using m(1) mid by simp
  note C = change_commit_found [OF d f m(2), where env = env]
  have ra: "rows_affected (\<lambda>x. m_id x = k \<and> m_status x = OrderStatusCreated) (od_orders (os_db s)) \<noteq> 0"
    using find_row_SomeD [OF m(1)] m(2) by (auto simp: rows_affected_zero)
  have "fst (change_commit env (OrderStatusCreated, ?ord) s) \<noteq> Inl ErrInvalidStatusTransition"
    using ra mid by (auto simp: change_commit_def run_tx_def repo_UpdateStatus_def matchStatuses_def orderOutbox_Add_def
        Let_def split: prod.splits sum.splits if_splits)
  then have ok: "0 < k" "xe_find env" "\<exists>x. fst (change_commit env (OrderStatusCreated, ?ord) s) = Inr x"
    and s': "s' = snd (change_commit env (OrderStatusCreated, ?ord) s)"
    using assms(2,3) prep
    by (auto simp: ChangeOrderStatus_Execute_def split: prod.splits sum.splits if_splits)
  have "xe_update env" "xe_add env"
    using ok(3) by (auto simp: change_commit_def run_tx_def repo_UpdateStatus_def orderOutbox_Add_def Let_def
        split: prod.splits sum.splits if_splits)
  then have rows: "od_orders (os_db s') = update_where (\<lambda>x. m_id x = k) (m_status_update (\<lambda>_. OrderStatusPaid)) (od_orders (os_db s))"
    using C(2) s' mid by simp
  obtain x where x: "x \<in> set (od_orders (os_db s'))" "m_id x = k" "m_status x = OrderStatusCreated"
    using k by (auto simp: created_ids_def)
  obtain y where "x = (if m_id y = k then m_status_update (\<lambda>_. OrderStatusPaid) y else y)"
    using x(1) unfolding rows update_where_set by blast
  then show False using x(2,3) by (cases "m_id y = k") simp_all
qed

lemma shouldCancel_False:
  assumes "shouldCancelDueOrder env k s = (Inr False, ts, s')" "order_inv s"
  shows "k \<notin> created_ids s'"
proof (cases "repo_FindByID (de_find env k) k s")
  case (Inl e)
  then show ?thesis using assms created_find_row [OF assms(2), of k]
    by (auto simp: shouldCancelDueOrder_def repo_FindByID_def split: if_splits option.splits)
next
  case (Inr ord)
  then obtain m where m: "find_row m_id k (od_orders (os_db s)) = Some m" "ord = toDomainOrder m"
    by (auto simp: repo_FindByID_def split: if_splits option.splits)
  have mid: "o_id ord = k" using m find_row_SomeD [OF m(1)] by simp
  show ?thesis
  proof (cases "o_status ord = OrderStatusCreated")
    case False
    then show ?thesis using assms(1) Inr m created_find_row [OF assms(2), of k]
      by (simp add: shouldCancelDueOrder_def)
  next
    case True
    obtain r task s2 where x: "ChangeOrderStatus_Execute (de_change env k) k OrderActionPay s = (r, task, s2)"
      by (metis prod_cases3)
    have "s' = s2" "is_ok r \<or> r = Inl ErrInvalidStatusTransition"
      using assms(1) Inr True x mid
      by (auto simp: shouldCancelDueOrder_def split: option.splits if_splits sum.splits)
    then show ?thesis using pay_clears_created [OF assms(2) x] by simp
  qed
qed

definition scan_left :: "(order_error \<times> int list + int list) \<Rightarrow> int list" where
  "scan_left r = (case r of Inl (e, again) \<Rightarrow> again | Inr c \<Rightarrow> c)"

lemma dispatch_scan_left:
  assumes "dispatch_scan env tc ids s = (r, ts, s')" "order_inv s"
  shows "order_inv s'" "created_ids s' \<subseteq> created_ids s" "os_delay s' = os_delay s"
    and "set tc \<subseteq> set (scan_left r)" "set ids \<inter> created_ids s' \<subseteq> set (scan_left r)"
  using assms
proof (induction ids arbitrary: tc s r ts s')
  case Nil
  { case 1 then show ?case by simp next
    case 2 then show ?case by simp next
    case 3 then show ?case by simp next
    case 4 then show ?case by (auto simp: scan_left_def) next
    case 5 then show ?case by simp }
next
  case (Cons k ids)
  have main: "order_inv s' \<and> created_ids s' \<subseteq> created_ids s \<and> os_delay s' = os_delay s
      \<and> set tc \<subseteq> set (scan_left r) \<and> set (k # ids) \<inter> created_ids s' \<subseteq> set (scan_left r)"
    if run: "dispatch_scan env tc (k # ids) s = (r, ts, s')" and inv: "order_inv s" for tc s r ts s'
  proof -
    obtain c ts1 s1 where sc: "shouldCancelDueOrder env k s = (c, ts1, s1)" by (metis prod_cases3)
    note K = shouldCancel_keeps [OF sc inv]
    show ?thesis
    proof (cases c)
      case (Inl e)
      then show ?thesis using run sc K by (auto simp: scan_left_def)
    next
      case (Inr b)
      let ?tc = "if b then tc @ [k] else tc"
      obtain r2 ts2 s2 where ds: "dispatch_scan env ?tc ids s1 = (r2, ts2, s2)" by (metis prod_cases3)
      have e: "r = r2" "s' = s2" using run sc Inr ds by auto
      note IH = Cons.IH [OF ds K(1)]
      have "k \<notin> created_ids s1" if "\<not> b" using shouldCancel_False [of env k s] sc Inr that inv by simp
      then have "k \<in> created_ids s2 \<Longrightarrow> k \<in> set (scan_left r)" using IH(2,4) e by (cases b) auto
      moreover have "set tc \<subseteq> set ?tc" by auto
      ultimately show ?thesis using IH K e by auto
    qed
  qed
  { case 1 show ?case using main [OF 1] by blast next
    case 2 show ?case using main [OF 2] by blast next
    case 3 show ?case using main [OF 3] by blast next
    case 4 show ?case using main [OF 4] by blast next
    case 5 show ?case using main [OF 5] by blast }
qed

lemma requeue_db [simp]: "os_db (requeue env ks s) = os_db s"
  unfolding requeue_def by (induction ks arbitrary: s) (simp_all add: delay_Enqueue_def)

lemma requeue_mem:
  assumes "\<forall>k. de_enqueue env k" "k \<in> set ks \<or> format_int k \<in> fst ` set (os_delay s)"
  shows "format_int k \<in> fst ` set (os_delay (requeue env ks s))"
  using assms(2) unfolding requeue_def
proof (induction ks arbitrary: s)
  case (Cons j ks)
  have "k = j \<or> format_int k \<in> fst ` set (os_delay s) \<Longrightarrow>
      format_int k \<in> fst ` set (os_delay (delay_Enqueue (de_enqueue env j) j (de_retry_at env) s))"
    using assms(1) by (cases "k = j") (auto simp: delay_Enqueue_def set_zadd image_iff)
  then show ?case using Cons by auto
qed simp

lemma DrainDue_db [simp]: "os_db (snd (delay_DrainDue oks now s)) = os_db s"
  by (simp add: delay_DrainDue_def Let_def)

lemma DrainDue_result:
  assumes "zset_wf (os_delay s)" "\<forall>r. oks r" "delay_DrainDue oks now s = (r, s1)"
  shows "r = Inr (List.map_filter parse_int (zrangebyscore now (os_delay s)))"
  using drain_due_ok [OF assms(1) _ assms(2), of claimBatchSize 0 now "[]"] assms(3)
  by (simp add: delay_DrainDue_def claimBatchSize_def)

lemma BatchCancel_clears:
  assumes "order_inv s" "BatchCancel_Execute env ids s = (r, s')"
  shows "created_ids s' \<subseteq> created_ids s" "is_ok r \<Longrightarrow> set ids \<inter> created_ids s' = {}"
  using BatchCancel_effect [OF assms(1), where env = env and ids = ids] assms(2)
  by (auto simp: created_ids_def update_where_set split: sum.splits if_splits)

text \<open>C6: the dispatcher forgets no order.  With Redis healthy, an order that was due in the delay queue
  and is still CREATED after a run is again in the queue, whichever lookups, payment confirmations,
  status changes or cancellations failed during the run.\<close>

theorem dispatch_no_loss:
  assumes "order_reach s" "zset_wf (os_delay s)" "\<forall>r. de_drain env r" "\<forall>k. de_enqueue env k"
    and "DispatchOrderTimeout_Run env s = (res, ts, s')"
    and "(format_int k, at) \<in> set (os_delay s)" "at \<le> de_now env" "in64 k"
    and "m \<in> set (od_orders (os_db s'))" "m_id m = k" "m_status m = OrderStatusCreated"
  shows "format_int k \<in> fst ` set (os_delay s')"
proof -
  have inv: "order_inv s" by (rule order_reach_inv [OF assms(1)])
  have k: "k \<in> created_ids s'" using assms(9-11) by (auto simp: created_ids_def)
  obtain r1 s1 where dr: "delay_DrainDue (de_drain env) (de_now env) s = (r1, s1)" by fastforce
  define due where "due = List.map_filter parse_int (zrangebyscore (de_now env) (os_delay s))"
  have r1: "r1 = Inr due" unfolding due_def by (rule DrainDue_result [OF assms(2,3) dr])
  have kd: "k \<in> set due"
  proof -
    have "format_int k \<in> set (zrangebyscore (de_now env) (os_delay s))"
      using assms(6,7) by (force simp: zrangebyscore_def)
    then show ?thesis using parse_format_int [OF assms(8)] by (force simp: due_def List.map_filter_def)
  qed
  have db1: "os_db s1 = os_db s" using DrainDue_db [of "de_drain env" "de_now env" s] dr by simp
  have inv1: "order_inv s1" using inv order_inv_db [OF db1] by simp
  obtain r2 ts2 s2 where ds: "dispatch_scan env [] due s1 = (r2, ts2, s2)" by (metis prod_cases3)
  note S = dispatch_scan_left [OF ds inv1]
  obtain d ds' where due: "due = d # ds'" using kd by (cases due) auto
  show ?thesis
  proof (cases r2)
    case (Inl p)
    obtain e again where p: "p = (e, again)" by fastforce
    have s': "s' = requeue env again s2" using assms(5) dr r1 due ds Inl p by (simp add: DispatchOrderTimeout_Run_def)
    have "k \<in> set again" using S(5) kd k s' Inl p created_ids_db [of s' s2] by (auto simp: scan_left_def)
    then show ?thesis unfolding s' using requeue_mem [OF assms(4)] by simp
  next
    case (Inr toC)
    show ?thesis
    proof (cases toC)
      case Nil
      then have "s' = s2" using assms(5) dr r1 due ds Inr by (simp add: DispatchOrderTimeout_Run_def)
      then show ?thesis using S(5) kd k Inr Nil by (auto simp: scan_left_def)
    next
      case (Cons c cs)
      obtain r3 s3 where bc: "BatchCancel_Execute (de_cancel env) toC s2 = (r3, s3)" by fastforce
      note B = BatchCancel_clears [OF S(1) bc]
      show ?thesis
      proof (cases r3)
        case (Inl e)
        have s': "s' = requeue env toC s3"
          using assms(5) dr r1 due ds Inr Cons bc Inl by (simp add: DispatchOrderTimeout_Run_def)
        have "k \<in> created_ids s3" using k s' created_ids_db [of s' s3] by simp
        then have "k \<in> set toC" using B(1) S(5) kd Inr by (auto simp: scan_left_def)
        then show ?thesis unfolding s' using requeue_mem [OF assms(4)] by simp
      next
        case inr3: (Inr t)
        have s': "s' = s3" using assms(5) dr r1 due ds Inr Cons bc inr3 by (simp add: DispatchOrderTimeout_Run_def)
        have "k \<in> created_ids s2" using k s' B(1) by auto
        then have "k \<in> set toC" using S(5) kd Inr by (auto simp: scan_left_def)
        then show ?thesis using B(2) inr3 k s' by auto
      qed
    qed
  qed
qed

definition dispatch_down :: dispatch_env where
  "dispatch_down = \<lparr>de_drain = (\<lambda>_. True), de_find = (\<lambda>_. True), de_confirm = (\<lambda>_. None),
     de_change = (\<lambda>_. change_ok), de_cancel = cancel_ok, de_enqueue = (\<lambda>_. True), de_now = 10, de_retry_at = 11\<rparr>"

lemma dispatch_no_loss_witness:
  "format_int 1 \<in> fst ` set (os_delay (snd (snd (DispatchOrderTimeout_Run dispatch_down
      (created_svc\<lparr>os_delay := [(format_int 1, 5)]\<rparr>)))))"
proof -
  let ?s = "created_svc\<lparr>os_delay := [(format_int 1, 5)]\<rparr>"
  obtain res ts s' where run: "DispatchOrderTimeout_Run dispatch_down ?s = (res, ts, s')" by (metis prod_cases3)
  have st: "order_step created_svc ?s"
    using step_enqueue [of created_svc True 1 5] by (simp add: delay_Enqueue_def zadd_def created_svc_eq empty_svc_def)
  have r: "order_reach ?s" by (rule reach_step [OF created_reach st])
  have w: "zset_wf (os_delay ?s)" by (simp add: zset_wf_def)
  have "od_orders (os_db (snd (snd (DispatchOrderTimeout_Run dispatch_down ?s)))) = od_orders (os_db created_svc)"
    by code_simp
  then have rows: "od_orders (os_db s') = od_orders (os_db created_svc)" using run by simp
  obtain m where m: "m \<in> set (od_orders (os_db s'))" "m_id m = 1" "m_status m = OrderStatusCreated"
    using created_find rows by (auto dest: find_row_SomeD)
  have "format_int 1 \<in> fst ` set (os_delay s')"
    by (rule dispatch_no_loss [where at = 5, OF r w _ _ run _ _ _ m]) (simp_all add: dispatch_down_def in64_def)
  then show ?thesis using run by simp
qed

section \<open>The outbox worker\<close>

lemma outbox_pending_distinct: "outbox_wf ob \<Longrightarrow> distinct (outbox_pending_ids ob)"
  by (simp add: outbox_wf_def outbox_pending_ids_def outbox_pending_def distinct_map_filter)

text \<open>With broker and database healthy and at most two pages of pending events, one run of the
  outbox worker publishes the first page, in order, and stops: the offset has moved past the rows
  that became pending-free, so every event of the second page is left for a later run.\<close>

theorem outbox_run_first_page:
  assumes "order_reach s" "length (outbox_pending_ids (od_outbox (os_db s))) \<le> 200"
    and "\<forall>r. we_list (envs r) \<and> we_sent (envs r) \<and> (\<forall>i. we_ack (envs r) i)"
  shows "\<exists>s'. OrderOutboxWorker_Run infers envs (Suc (Suc fuel)) s = Some (True, s')
      \<and> outbox_pending_ids (od_outbox (os_db s')) = drop 100 (outbox_pending_ids (od_outbox (os_db s)))
      \<and> os_bus s' = os_bus s @ map ob_payload (outbox_page 0 100 (od_outbox (os_db s)))"
proof -
  have d: "distinct (outbox_pending_ids (od_outbox (os_db s)))"
    using order_reach_inv [OF assms(1)] by (simp add: order_inv_def outbox_pending_distinct)
  have l: "length (outbox_pending_ids (od_outbox (os_db s))) \<le> 2 * order_batchSize"
    using assms(2) by (simp add: order_batchSize_def)
  have b: "0 < order_batchSize" by (simp add: order_batchSize_def)
  show ?thesis
    using order_outbox.run_healthy [OF d b l assms(3), of order_maxRetry infers fuel "os_bus s"]
    by (force simp: OrderOutboxWorker_Run_def order_batchSize_def orderOutbox_ListPending_def comp_def)
qed

definition worker_ok :: worker_env where
  "worker_ok = \<lparr>we_list = True, we_ack = (\<lambda>_. True), we_inc = (\<lambda>_. True), we_failed = (\<lambda>_. True), we_sent = True\<rparr>"

lemma outbox_run_first_page_witness:
  "\<exists>s'. OrderOutboxWorker_Run False (\<lambda>_. worker_ok) 2 paid_svc = Some (True, s')
     \<and> outbox_pending_ids (od_outbox (os_db s')) = []"
proof -
  have p: "outbox_pending_ids (od_outbox (os_db paid_svc)) = [1]" by code_simp
  show ?thesis
    using outbox_run_first_page [OF paid_reach, of "\<lambda>_. worker_ok" False 0] p
    by (auto simp: worker_ok_def numeral_2_eq_2)
qed

text \<open>C7: a run of the outbox worker ends, whatever the broker and the database answer: one round more
  than there are pending events is enough.\<close>

theorem outbox_run_terminates:
  "OrderOutboxWorker_Run infers envs (Suc (length (outbox_pending_ids (od_outbox (os_db s))))) s \<noteq> None"
proof -
  have "worker_Run order_batchSize order_maxRetry orderOutbox_ListPending orderOutbox_IncreaseRetry
          (orderOutbox_MarkFailed infers) orderOutbox_BatchMarkSent envs
          (Suc (length (outbox_pending_ids (od_outbox (os_db s))))) 0 0 (od_outbox (os_db s), os_bus s) \<noteq> None"
    by (rule order_outbox.run_terminates) (simp_all add: order_batchSize_def)
  then show ?thesis by (auto simp: OrderOutboxWorker_Run_def split: option.splits)
qed

lemma outbox_insert_pending:
  "outbox_pending_ids (snd (outbox_insert ty p ob)) = outbox_pending_ids ob @ [ob_next ob]"
  by (simp add: outbox_pending_ids_def outbox_pending_def outbox_insert_def)

lemma change_commit_Inr:
  assumes "change_commit env plan s = (Inr x, s')"
  shows "\<exists>s1. x = ob_next (od_outbox (os_db s1)) \<and> s' = set_outbox (snd (outbox_insert
     EventTypeOrderStatusChanged (BuildOrderStatusUpdateEvent (snd plan)) (od_outbox (os_db s1)))) s1"
proof -
  have f: "fst (outbox_insert ty p ob) = ob_next ob" for ty and p :: OrderStatusUpdateEvent and ob
    by (simp add: outbox_insert_def)
  show ?thesis using assms
    by (force simp: change_commit_def run_tx_def orderOutbox_Add_def Let_def f split: prod.splits sum.splits if_splits)
qed

text \<open>The goroutine of a status change publishes the event but, since the update in \<open>MarkSent\<close>
  names no table, cannot mark its row: the event is on the bus and its row still pending, so the
  worker will publish it again.\<close>

theorem publish_leaves_pending:
  assumes "ChangeOrderStatus_Execute env oid a s = (Inr True, Some task, s')"
  shows "os_bus (status_publish False True ok task s') = os_bus s' @ [snd task]
       \<and> fst task \<in> set (outbox_pending_ids (od_outbox (os_db (status_publish False True ok task s'))))"
proof -
  obtain plan x where c: "change_commit env plan s = (Inr x, s')" and t: "task = (x, BuildOrderStatusUpdateEvent (snd plan))"
    using assms by (auto simp: ChangeOrderStatus_Execute_def split: sum.splits option.splits prod.splits)
  obtain s1 where "x = ob_next (od_outbox (os_db s1))"
    "s' = set_outbox (snd (outbox_insert EventTypeOrderStatusChanged (BuildOrderStatusUpdateEvent (snd plan)) (od_outbox (os_db s1)))) s1"
    using change_commit_Inr [OF c] by blast
  then have "x \<in> set (outbox_pending_ids (od_outbox (os_db s')))" by (simp add: outbox_insert_pending)
  then show ?thesis using t by (simp add: status_publish_def orderOutbox_MarkSent_def Let_def)
qed

lemma publish_leaves_pending_witness:
  "\<exists>task. ChangeOrderStatus_Execute change_ok 1 OrderActionPay created_svc = (Inr True, Some task, paid_svc)
     \<and> fst task \<in> set (outbox_pending_ids (od_outbox (os_db (status_publish False True True task paid_svc))))"
proof -
  have "fst (ChangeOrderStatus_Execute change_ok 1 OrderActionPay created_svc) = Inr True" by code_simp
  moreover have "fst (snd (ChangeOrderStatus_Execute change_ok 1 OrderActionPay created_svc)) \<noteq> None" by code_simp
  ultimately obtain task where t: "ChangeOrderStatus_Execute change_ok 1 OrderActionPay created_svc = (Inr True, Some task, paid_svc)"
    unfolding paid_svc_def by (metis not_None_eq prod.collapse)
  show ?thesis using publish_leaves_pending [OF t, of True] t by auto
qed

end
