(* ===== verification/SeckillRepo.thy ===== *)
theory SeckillRepo
  imports Prelude
begin

text \<open>
  The storage of the flash-sale service: the three tables of \<open>internal/seckill/infra/db\<close> with the
  transactions of \<open>infra/repository/gorm.go\<close>, and the Redis keys with the three Lua scripts of
  \<open>infra/repository/lua\<close> and the calls of \<open>cache.go\<close>.  \<open>ok k\<close> is the outcome of the \<open>k\<close>-th
  statement of a transaction; every infrastructure error is \<open>SkErrInfra\<close>.
\<close>

section \<open>Data\<close>

datatype activity_status =
    ActivityStatusInit | ActivityStatusOnline | ActivityStatusOffline | ActivityStatusEnded
  | ActivityStatusOther string

datatype request_status =
    RequestStatusProcessing | RequestStatusOrderCreating | RequestStatusSuccess | RequestStatusFailed
  | RequestStatusOther string

datatype fail_reason =
    FailReasonNone | FailReasonOutOfStock | FailReasonCreateOrderFail | FailReasonDuplicate
  | FailReasonUserAlreadySucceeded | FailReasonActivityNotOpen | FailReasonOrderCanceled
  | FailReasonOrderRefunded | FailReasonOther string

datatype seckill_error =
    ErrActivityNotFound | ErrActivityNotStarted | ErrActivityEnded | ErrActivityOffline
  | ErrDuplicateSeckill | ErrOutOfStock | ErrRequestNotFound | SkErrUnexpectedStatus
  | SkErrConditionalUpdate | SkErrInvalidRequestNo | SkErrRolledBack | SkErrInfra

record SeckillActivity =
  sa_id :: int
  sa_name :: string
  sa_product :: int
  sa_sku :: int
  sa_price :: int
  sa_total :: int
  sa_available :: int
  sa_start :: int
  sa_end :: int
  sa_status :: activity_status
  sa_limit :: int
  sa_version :: int

record SeckillRequest =
  sr_no :: string
  sr_activity :: int
  sr_user :: int
  sr_status :: request_status
  sr_reason :: fail_reason

record SeckillQualification =
  sq_activity :: int
  sq_user :: int
  sq_no :: string

record Request =
  rq_no :: string
  rq_activity_id :: int
  rq_user_id :: int
  rq_status :: request_status
  rq_order_id :: int
  rq_reason :: fail_reason

record Result =
  rs_no :: string
  rs_status :: request_status
  rs_order :: int
  rs_reason :: fail_reason

record Event =
  ev_no :: string
  ev_activity :: int
  ev_user_id :: int
  ev_product :: int
  ev_sku :: int
  ev_price :: int

record seckill_db =
  sd_activities :: "SeckillActivity list"
  sd_next :: int
  sd_requests :: "SeckillRequest list"
  sd_quals :: "SeckillQualification list"

definition OrderIDFromRequestNo :: "string \<Rightarrow> int option" where
  "OrderIDFromRequestNo no = parse_int no"

definition toDomainRequest :: "SeckillRequest \<Rightarrow> Request" where
  "toDomainRequest m =
     (let orderID = (if sr_status m = RequestStatusSuccess
                     then (case OrderIDFromRequestNo (sr_no m) of Some v \<Rightarrow> v | None \<Rightarrow> 0) else 0)
      in \<lparr>rq_no = sr_no m, rq_activity_id = sr_activity m, rq_user_id = sr_user m,
          rq_status = sr_status m, rq_order_id = orderID, rq_reason = sr_reason m\<rparr>)"

section \<open>Activity repository\<close>

definition activity_Create :: "bool \<Rightarrow> SeckillActivity \<Rightarrow> seckill_db \<Rightarrow> (seckill_error + int) \<times> seckill_db" where
  "activity_Create ok a d =
     (if \<not> ok then (Inl SkErrInfra, d)
      else (Inr (sd_next d),
            d\<lparr>sd_activities := sd_activities d @ [a\<lparr>sa_id := sd_next d\<rparr>], sd_next := sd_next d + 1\<rparr>))"

definition activity_FindByID :: "bool \<Rightarrow> int \<Rightarrow> seckill_db \<Rightarrow> seckill_error + SeckillActivity" where
  "activity_FindByID ok k d =
     (if \<not> ok then Inl SkErrInfra
      else (case find_row sa_id k (sd_activities d) of None \<Rightarrow> Inl ErrActivityNotFound | Some a \<Rightarrow> Inr a))"

definition activity_UpdateStatus ::
  "bool \<Rightarrow> int \<Rightarrow> activity_status \<Rightarrow> seckill_db \<Rightarrow> (seckill_error + unit) \<times> seckill_db" where
  "activity_UpdateStatus ok k st d =
     (if \<not> ok then (Inl SkErrInfra, d)
      else if rows_affected (\<lambda>a. sa_id a = k) (sd_activities d) = 0 then (Inl ErrActivityNotFound, d)
      else (Inr (), d\<lparr>sd_activities := update_where (\<lambda>a. sa_id a = k) (sa_status_update (\<lambda>_. st)) (sd_activities d)\<rparr>))"

section \<open>Request repository\<close>

definition request_Create :: "bool \<Rightarrow> Request \<Rightarrow> seckill_db \<Rightarrow> (seckill_error + unit) \<times> seckill_db" where
  "request_Create ok r d =
     (if \<not> ok then (Inl SkErrInfra, d)
      else if rq_no r \<in> sr_no ` set (sd_requests d) then (Inl ErrDuplicateSeckill, d)
      else (Inr (), d\<lparr>sd_requests := sd_requests d @
              [\<lparr>sr_no = rq_no r, sr_activity = rq_activity_id r, sr_user = rq_user_id r,
                sr_status = rq_status r, sr_reason = rq_reason r\<rparr>]\<rparr>))"

definition request_FindByRequestNo :: "bool \<Rightarrow> string \<Rightarrow> seckill_db \<Rightarrow> seckill_error + Request" where
  "request_FindByRequestNo ok no d =
     (if \<not> ok then Inl SkErrInfra
      else (case find_row sr_no no (sd_requests d) of
              None \<Rightarrow> Inl ErrRequestNotFound
            | Some m \<Rightarrow> Inr (toDomainRequest m)))"

definition request_FindByActivityUser :: "bool \<Rightarrow> int \<Rightarrow> int \<Rightarrow> seckill_db \<Rightarrow> seckill_error + Request option" where
  "request_FindByActivityUser ok a u d =
     (if \<not> ok then Inl SkErrInfra
      else Inr (map_option toDomainRequest
             (find (\<lambda>m. sr_activity m = a \<and> sr_user m = u) (rev (sd_requests d)))))"

text \<open>\<open>UPDATE seckill_request SET status, fail_reason WHERE request_no AND ...\<close>, the two stock updates
  and the delete of a qualification.\<close>

definition set_request ::
  "string \<Rightarrow> (request_status \<Rightarrow> bool) \<Rightarrow> request_status \<Rightarrow> fail_reason \<Rightarrow> seckill_db \<Rightarrow> nat \<times> seckill_db" where
  "set_request no cond st reason d =
     (let P = (\<lambda>r. sr_no r = no \<and> cond (sr_status r))
      in (rows_affected P (sd_requests d),
          d\<lparr>sd_requests := update_where P (\<lambda>r. r\<lparr>sr_status := st, sr_reason := reason\<rparr>) (sd_requests d)\<rparr>))"

definition take_stock :: "int \<Rightarrow> int \<Rightarrow> seckill_db \<Rightarrow> nat \<times> seckill_db" where
  "take_stock now k d =
     (let P = (\<lambda>a. sa_id a = k \<and> sa_available a \<ge> 1 \<and> sa_status a = ActivityStatusOnline
                   \<and> sa_start a \<le> now \<and> sa_end a \<ge> now)
      in (rows_affected P (sd_activities d),
          d\<lparr>sd_activities := update_where P
              (\<lambda>a. a\<lparr>sa_available := sa_available a - 1, sa_version := sa_version a + 1\<rparr>) (sd_activities d)\<rparr>))"

definition give_stock :: "int \<Rightarrow> seckill_db \<Rightarrow> seckill_db" where
  "give_stock k d =
     d\<lparr>sd_activities := update_where (\<lambda>a. sa_id a = k)
         (\<lambda>a. a\<lparr>sa_available := sa_available a + 1, sa_version := sa_version a + 1\<rparr>) (sd_activities d)\<rparr>"

definition delete_qual :: "int \<Rightarrow> int \<Rightarrow> string \<Rightarrow> seckill_db \<Rightarrow> seckill_db" where
  "delete_qual a u no d =
     d\<lparr>sd_quals := filter (\<lambda>q. \<not> (sq_activity q = a \<and> sq_user q = u \<and> sq_no q = no)) (sd_quals d)\<rparr>"

abbreviation seckill_tx ::
  "(seckill_db \<Rightarrow> (seckill_error + 'a) \<times> seckill_db) \<Rightarrow> seckill_db \<Rightarrow> (seckill_error + 'a) \<times> seckill_db" where
  "seckill_tx \<equiv> run_tx (\<lambda>d. d) (\<lambda>d _. d)"

definition request_with :: "SeckillRequest \<Rightarrow> request_status \<Rightarrow> fail_reason \<Rightarrow> Request" where
  "request_with req st reason = toDomainRequest (req\<lparr>sr_status := st, sr_reason := reason\<rparr>)"

definition AdvanceProcessing_body ::
  "(nat \<Rightarrow> bool) \<Rightarrow> int \<Rightarrow> Event \<Rightarrow> seckill_db \<Rightarrow> (seckill_error + Request) \<times> seckill_db" where
  "AdvanceProcessing_body ok now evt d =
     (if \<not> ok 0 then (Inl SkErrInfra, d)
      else
        (case find_row sr_no (ev_no evt) (sd_requests d) of
           None \<Rightarrow> (Inl ErrRequestNotFound, d)
         | Some req \<Rightarrow>
             if sr_status req \<in> {RequestStatusOrderCreating, RequestStatusSuccess, RequestStatusFailed}
             then (Inr (toDomainRequest req), d)
             else if sr_status req \<noteq> RequestStatusProcessing then (Inl SkErrUnexpectedStatus, d)
             else if \<not> ok 1 then (Inl SkErrInfra, d)
             else if \<exists>q \<in> set (sd_quals d). sq_activity q = ev_activity evt \<and> sq_user q = ev_user_id evt
             then
               (let (n, d1) = set_request (ev_no evt) (\<lambda>st. st = RequestStatusProcessing)
                                RequestStatusFailed FailReasonUserAlreadySucceeded d
                in if \<not> ok 2 then (Inl SkErrInfra, d)
                   else (Inr (request_with req RequestStatusFailed FailReasonUserAlreadySucceeded), d1))
             else
               (let d1 = d\<lparr>sd_quals := sd_quals d @
                           [\<lparr>sq_activity = ev_activity evt, sq_user = ev_user_id evt, sq_no = ev_no evt\<rparr>]\<rparr>;
                    (n, d2) = take_stock now (ev_activity evt) d1
                in if \<not> ok 2 then (Inl SkErrInfra, d1)
                   else if n = 0
                   then
                     (let d3 = delete_qual (ev_activity evt) (ev_user_id evt) (ev_no evt) d2;
                          (n', d4) = set_request (ev_no evt) (\<lambda>st. st = RequestStatusProcessing)
                                       RequestStatusFailed FailReasonOutOfStock d3
                      in if \<not> ok 3 then (Inl SkErrInfra, d2)
                         else if \<not> ok 4 then (Inl SkErrInfra, d3)
                         else (Inr (request_with req RequestStatusFailed FailReasonOutOfStock), d4))
                   else
                     (let (n', d3) = set_request (ev_no evt) (\<lambda>st. st = RequestStatusProcessing)
                                       RequestStatusOrderCreating FailReasonNone d2
                      in if \<not> ok 3 then (Inl SkErrInfra, d2)
                         else if n' = 0 then (Inl SkErrConditionalUpdate, d3)
                         else (Inr (request_with req RequestStatusOrderCreating FailReasonNone), d3)))))"

definition AdvanceProcessing ::
  "(nat \<Rightarrow> bool) \<Rightarrow> int \<Rightarrow> Event \<Rightarrow> seckill_db \<Rightarrow> (seckill_error + Request) \<times> seckill_db" where
  "AdvanceProcessing ok now evt d = seckill_tx (AdvanceProcessing_body ok now evt) d"

definition CompleteOrderCreating_body ::
  "(nat \<Rightarrow> bool) \<Rightarrow> Event \<Rightarrow> seckill_db \<Rightarrow> (seckill_error + Request) \<times> seckill_db" where
  "CompleteOrderCreating_body ok evt d =
     (if \<not> ok 0 then (Inl SkErrInfra, d)
      else
        (case find_row sr_no (ev_no evt) (sd_requests d) of
           None \<Rightarrow> (Inl ErrRequestNotFound, d)
         | Some req \<Rightarrow>
             if sr_status req = RequestStatusSuccess then (Inr (toDomainRequest req), d)
             else if sr_status req \<noteq> RequestStatusOrderCreating then (Inl SkErrUnexpectedStatus, d)
             else
               (let (n, d1) = set_request (ev_no evt) (\<lambda>st. st = RequestStatusOrderCreating)
                                RequestStatusSuccess FailReasonNone d
                in if \<not> ok 1 then (Inl SkErrInfra, d)
                   else if n = 0 then (Inl SkErrConditionalUpdate, d1)
                   else (Inr (request_with req RequestStatusSuccess FailReasonNone), d1))))"

definition CompleteOrderCreating ::
  "(nat \<Rightarrow> bool) \<Rightarrow> Event \<Rightarrow> seckill_db \<Rightarrow> (seckill_error + Request) \<times> seckill_db" where
  "CompleteOrderCreating ok evt d = seckill_tx (CompleteOrderCreating_body ok evt) d"

definition RollbackOrderCreating_body ::
  "(nat \<Rightarrow> bool) \<Rightarrow> Event \<Rightarrow> fail_reason \<Rightarrow> seckill_db \<Rightarrow> (seckill_error + Request) \<times> seckill_db" where
  "RollbackOrderCreating_body ok evt reason d =
     (if \<not> ok 0 then (Inl SkErrInfra, d)
      else
        (case find_row sr_no (ev_no evt) (sd_requests d) of
           None \<Rightarrow> (Inl ErrRequestNotFound, d)
         | Some req \<Rightarrow>
             if sr_status req = RequestStatusFailed then (Inr (toDomainRequest req), d)
             else if sr_status req \<noteq> RequestStatusOrderCreating then (Inl SkErrUnexpectedStatus, d)
             else
               (let d1 = give_stock (ev_activity evt) d;
                    d2 = delete_qual (ev_activity evt) (ev_user_id evt) (ev_no evt) d1;
                    (n, d3) = set_request (ev_no evt) (\<lambda>st. st = RequestStatusOrderCreating)
                                RequestStatusFailed reason d2
                in if \<not> ok 1 then (Inl SkErrInfra, d)
                   else if \<not> ok 2 then (Inl SkErrInfra, d1)
                   else if \<not> ok 3 then (Inl SkErrInfra, d2)
                   else if n = 0 then (Inl SkErrConditionalUpdate, d3)
                   else (Inr (request_with req RequestStatusFailed reason), d3))))"

definition RollbackOrderCreating ::
  "(nat \<Rightarrow> bool) \<Rightarrow> Event \<Rightarrow> fail_reason \<Rightarrow> seckill_db \<Rightarrow> (seckill_error + Request) \<times> seckill_db" where
  "RollbackOrderCreating ok evt reason d = seckill_tx (RollbackOrderCreating_body ok evt reason) d"

text \<open>The second component of the result is the flag \<open>changed\<close>.\<close>

definition CloseByOrderResult_body ::
  "(nat \<Rightarrow> bool) \<Rightarrow> string \<Rightarrow> fail_reason \<Rightarrow> seckill_db \<Rightarrow> (seckill_error + (Request \<times> bool)) \<times> seckill_db" where
  "CloseByOrderResult_body ok no reason d =
     (if \<not> ok 0 then (Inl SkErrInfra, d)
      else
        (case find_row sr_no no (sd_requests d) of
           None \<Rightarrow> (Inl ErrRequestNotFound, d)
         | Some req \<Rightarrow>
             if sr_status req \<notin> {RequestStatusProcessing, RequestStatusOrderCreating, RequestStatusSuccess}
             then (Inr (toDomainRequest req, False), d)
             else
               (let held = sr_status req \<noteq> RequestStatusProcessing;
                    d1 = (if held then give_stock (sr_activity req) d else d);
                    d2 = (if held then delete_qual (sr_activity req) (sr_user req) (sr_no req) d1 else d1);
                    (n, d3) = set_request no (\<lambda>st. st \<noteq> RequestStatusFailed) RequestStatusFailed reason d2
                in if held \<and> \<not> ok 1 then (Inl SkErrInfra, d)
                   else if held \<and> \<not> ok 2 then (Inl SkErrInfra, d1)
                   else if \<not> ok 3 then (Inl SkErrInfra, d2)
                   else if n = 0 then (Inr (toDomainRequest req, False), d3)
                   else (Inr (request_with req RequestStatusFailed reason, True), d3))))"

definition CloseByOrderResult ::
  "(nat \<Rightarrow> bool) \<Rightarrow> string \<Rightarrow> fail_reason \<Rightarrow> seckill_db \<Rightarrow> (seckill_error + (Request \<times> bool)) \<times> seckill_db" where
  "CloseByOrderResult ok no reason d = seckill_tx (CloseByOrderResult_body ok no reason) d"

definition MarkFail :: "bool \<Rightarrow> string \<Rightarrow> fail_reason \<Rightarrow> seckill_db \<Rightarrow> (seckill_error + unit) \<times> seckill_db" where
  "MarkFail ok no reason d =
     (if \<not> ok then (Inl SkErrInfra, d)
      else (Inr (), snd (set_request no (\<lambda>_. True) RequestStatusFailed reason d)))"

section \<open>Redis\<close>

text \<open>\<open>rd_marker\<close> maps (activity, user) to the request number that holds the user's reservation.\<close>

record seckill_redis =
  rd_stock :: "int \<Rightarrow> int option"
  rd_marker :: "((int \<times> int) \<times> string) list"
  rd_status :: "string \<Rightarrow> request_status option"
  rd_data :: "string \<Rightarrow> Result option"
  rd_activity :: "int \<Rightarrow> SeckillActivity option"

definition AtomicReserve :: "int \<Rightarrow> int \<Rightarrow> string \<Rightarrow> seckill_redis \<Rightarrow> int \<times> seckill_redis" where
  "AtomicReserve a u no r =
     (if map_of (rd_marker r) (a, u) \<noteq> None then (2, r)
      else
        (case rd_stock r a of
           None \<Rightarrow> (1, r)
         | Some stock \<Rightarrow>
             if stock \<le> 0 then (1, r)
             else (0, r\<lparr>rd_stock := (rd_stock r)(a := Some (stock - 1)),
                        rd_marker := rd_marker r @ [((a, u), no)]\<rparr>)))"

definition set_result_keys :: "string \<Rightarrow> request_status \<Rightarrow> Result \<Rightarrow> seckill_redis \<Rightarrow> seckill_redis" where
  "set_result_keys no st res r =
     r\<lparr>rd_status := (rd_status r)(no := Some st), rd_data := (rd_data r)(no := Some res)\<rparr>"

definition Compensate :: "int \<Rightarrow> int \<Rightarrow> string \<Rightarrow> Result \<Rightarrow> seckill_redis \<Rightarrow> int \<times> seckill_redis" where
  "Compensate a u no res r =
     (if rd_status r no = Some (rs_status res) then (0, r)
      else
        (let r1 = (if map_of (rd_marker r) (a, u) = Some no
                   then r\<lparr>rd_stock := (rd_stock r)(a := Some ((case rd_stock r a of None \<Rightarrow> 0 | Some s \<Rightarrow> s) + 1)),
                          rd_marker := filter (\<lambda>p. fst p \<noteq> (a, u)) (rd_marker r)\<rparr>
                   else r)
         in (1, set_result_keys no (rs_status res) res r1)))"

definition ResolveTransaction :: "int \<Rightarrow> int \<Rightarrow> string \<Rightarrow> seckill_redis \<Rightarrow> int \<times> seckill_redis" where
  "ResolveTransaction a u no r =
     (case rd_status r no of
        Some st \<Rightarrow> (if st = RequestStatusFailed then 2 else 1, r)
      | None \<Rightarrow>
          (case map_of (rd_marker r) (a, u) of
             None \<Rightarrow> (1, r)
           | Some marker \<Rightarrow>
               if marker = no
               then (1, set_result_keys no RequestStatusProcessing
                          \<lparr>rs_no = no, rs_status = RequestStatusProcessing, rs_order = 0, rs_reason = FailReasonNone\<rparr> r)
               else (2, r)))"

definition SetResult :: "Result \<Rightarrow> seckill_redis \<Rightarrow> seckill_redis" where
  "SetResult res r = set_result_keys (rs_no res) (rs_status res) res r"

definition GetResult :: "string \<Rightarrow> seckill_redis \<Rightarrow> Result option" where
  "GetResult no r =
     (case rd_data r no of
        Some res \<Rightarrow> Some res
      | None \<Rightarrow> map_option (\<lambda>st. \<lparr>rs_no = no, rs_status = st, rs_order = 0, rs_reason = FailReasonNone\<rparr>) (rd_status r no))"

definition SetActivity :: "SeckillActivity \<Rightarrow> seckill_redis \<Rightarrow> seckill_redis" where
  "SetActivity a r = r\<lparr>rd_activity := (rd_activity r)(sa_id a := Some a)\<rparr>"

definition SetActivityStock :: "int \<Rightarrow> int \<Rightarrow> seckill_redis \<Rightarrow> seckill_redis" where
  "SetActivityStock a stock r = r\<lparr>rd_stock := (rd_stock r)(a := Some stock)\<rparr>"

end
