(* ===== verification/SeckillProps.thy ===== *)
theory SeckillProps
  imports SeckillRepo
begin

text \<open>
  The invariants of the flash-sale tables and of the Redis reservations, for every interleaving of
  the repository's transactions and of the Lua scripts.
\<close>

section \<open>The tables\<close>

definition holds_stock :: "request_status \<Rightarrow> bool" where
  "holds_stock st \<longleftrightarrow> st = RequestStatusOrderCreating \<or> st = RequestStatusSuccess"

definition qual_count :: "int \<Rightarrow> SeckillQualification list \<Rightarrow> nat" where
  "qual_count a quals = rows_affected (\<lambda>q. sq_activity q = a) quals"

definition qual_key :: "SeckillQualification \<Rightarrow> int \<times> int" where
  "qual_key q = (sq_activity q, sq_user q)"

text \<open>\<open>ev no\<close> is the event that carries request number \<open>no\<close>: numbers are generated once, and every
  message about a number is a copy of its event.\<close>

definition event_of :: "(string \<Rightarrow> Event) \<Rightarrow> bool" where
  "event_of ev \<longleftrightarrow> (\<forall>no. ev_no (ev no) = no)"

definition quals_ok :: "(string \<Rightarrow> Event) \<Rightarrow> int \<Rightarrow> SeckillQualification list \<Rightarrow> bool" where
  "quals_ok ev nxt quals \<longleftrightarrow> distinct (map qual_key quals)
     \<and> (\<forall>q \<in> set quals. qual_key q = (ev_activity (ev (sq_no q)), ev_user_id (ev (sq_no q))) \<and> sq_activity q < nxt)"

definition reqs_ok :: "(string \<Rightarrow> Event) \<Rightarrow> SeckillQualification list \<Rightarrow> SeckillRequest list \<Rightarrow> bool" where
  "reqs_ok ev quals reqs \<longleftrightarrow> distinct (map sr_no reqs)
     \<and> (\<forall>r \<in> set reqs. sr_activity r = ev_activity (ev (sr_no r)) \<and> sr_user r = ev_user_id (ev (sr_no r))
          \<and> (holds_stock (sr_status r) \<longrightarrow> sr_no r \<in> sq_no ` set quals))"

definition acts_ok :: "int \<Rightarrow> SeckillQualification list \<Rightarrow> SeckillActivity list \<Rightarrow> bool" where
  "acts_ok nxt quals acts \<longleftrightarrow> distinct (map sa_id acts)
     \<and> (\<forall>a \<in> set acts. sa_id a < nxt \<and> sa_available a + int (qual_count (sa_id a) quals) = sa_total a
          \<and> min 0 (sa_total a) \<le> sa_available a)"

definition seckill_inv :: "(string \<Rightarrow> Event) \<Rightarrow> seckill_db \<Rightarrow> bool" where
  "seckill_inv ev d \<longleftrightarrow> quals_ok ev (sd_next d) (sd_quals d) \<and> reqs_ok ev (sd_quals d) (sd_requests d)
     \<and> acts_ok (sd_next d) (sd_quals d) (sd_activities d)"

lemma seckill_tx_inv:
  assumes "seckill_inv ev d" "\<And>x d'. body d = (Inr x, d') \<Longrightarrow> seckill_inv ev d'"
  shows "seckill_inv ev (snd (seckill_tx body d))"
  using assms by (auto simp: run_tx_def split: prod.splits sum.splits)

lemma set_request_fields [simp]:
  "sd_quals (snd (set_request no c st re d)) = sd_quals d"
  "sd_activities (snd (set_request no c st re d)) = sd_activities d"
  "sd_next (snd (set_request no c st re d)) = sd_next d"
  by (simp_all add: set_request_def Let_def)

lemma reqs_ok_update:
  assumes "reqs_ok ev quals (sd_requests d)" "holds_stock st \<Longrightarrow> no \<in> sq_no ` set quals"
  shows "reqs_ok ev quals (sd_requests (snd (set_request no c st re d)))"
  using assms by (auto simp: reqs_ok_def set_request_def Let_def update_where_keys update_where_set)

lemma set_request_inv:
  assumes "seckill_inv ev d" "holds_stock st \<Longrightarrow> no \<in> sq_no ` set (sd_quals d)"
  shows "seckill_inv ev (snd (set_request no c st re d))"
  using assms reqs_ok_update [of ev "sd_quals d" d st no c re] by (simp add: seckill_inv_def)

lemma set_request_gone:
  assumes "distinct (map sr_no (sd_requests d))" "find_row sr_no no (sd_requests d) = Some req" "c (sr_status req)"
  shows "fst (set_request no c st re d) \<noteq> 0"
    and "find_row sr_no no (sd_requests (snd (set_request no c st re d))) = Some (req\<lparr>sr_status := st, sr_reason := re\<rparr>)"
  using assms find_row_SomeD [OF assms(2)]
  by (auto simp: set_request_def Let_def rows_affected_zero find_row_update)

text \<open>Dropping the qualification of a request and returning its stock.\<close>

lemma delete_qual_eq:
  assumes "quals_ok ev nxt quals" "q \<in> set quals" "event_of ev"
  shows "filter (\<lambda>x. \<not> (sq_activity x = sq_activity q \<and> sq_user x = sq_user q \<and> sq_no x = sq_no q)) quals
       = filter (\<lambda>x. qual_key x \<noteq> qual_key q) quals"
proof (intro filter_cong refl)
  fix x assume "x \<in> set quals"
  then have "qual_key x = qual_key q \<Longrightarrow> x = q"
    using assms(1,2) by (auto simp: quals_ok_def distinct_map inj_on_def)
  then show "\<not> (sq_activity x = sq_activity q \<and> sq_user x = sq_user q \<and> sq_no x = sq_no q) \<longleftrightarrow> qual_key x \<noteq> qual_key q"
    by (auto simp: qual_key_def)
qed

lemma release_inv:
  assumes inv: "seckill_inv ev d" and ev: "event_of ev"
    and req: "find_row sr_no no (sd_requests d) = Some req" "holds_stock (sr_status req)"
    and c: "c (sr_status req)" and st: "\<not> holds_stock st"
  shows "seckill_inv ev (snd (set_request no c st re
           (delete_qual (ev_activity (ev no)) (ev_user_id (ev no)) no (give_stock (ev_activity (ev no)) d))))"
proof -
  let ?a = "ev_activity (ev no)" and ?u = "ev_user_id (ev no)"
  have R: "req \<in> set (sd_requests d)" "sr_no req = no" using find_row_SomeD [OF req(1)] by auto
  have Q: "quals_ok ev (sd_next d) (sd_quals d)" using inv by (simp add: seckill_inv_def)
  obtain q where q: "q \<in> set (sd_quals d)" "sq_no q = no"
    using inv R req(2) by (auto simp: seckill_inv_def reqs_ok_def)
  have qk: "sq_activity q = ?a" "sq_user q = ?u" using Q q by (auto simp: quals_ok_def qual_key_def)
  define quals where "quals = filter (\<lambda>x. qual_key x \<noteq> qual_key q) (sd_quals d)"
  have del: "sd_quals (delete_qual ?a ?u no (give_stock ?a d)) = quals"
    using delete_qual_eq [OF Q q(1) ev] q(2) qk by (simp add: delete_qual_def give_stock_def quals_def)
  have cnt: "qual_count k (sd_quals d) = (if k = ?a then 1 else 0) + qual_count k quals" for k
    using rows_affected_remove1 [of qual_key "sd_quals d" q "\<lambda>x. sq_activity x = k"] Q q qk
    by (auto simp: qual_count_def quals_def quals_ok_def)
  have keep: "sq_no x \<in> sq_no ` set quals" if "x \<in> set (sd_quals d)" "sq_no x \<noteq> no" for x
  proof -
    have "qual_key x \<noteq> qual_key q"
      using that q Q by (auto simp: quals_ok_def distinct_map inj_on_def)
    then show ?thesis using that by (auto simp: quals_def)
  qed
  have 1: "quals_ok ev (sd_next d) quals" using Q by (auto simp: quals_ok_def quals_def distinct_map_filter)
  have 2: "acts_ok (sd_next d) quals (update_where (\<lambda>a. sa_id a = ?a)
      (\<lambda>a. a\<lparr>sa_available := sa_available a + 1, sa_version := sa_version a + 1\<rparr>) (sd_activities d))"
    using inv by (auto simp: acts_ok_def seckill_inv_def update_where_keys update_where_set cnt)
  have 3: "reqs_ok ev quals (sd_requests (snd (set_request no c st re (delete_qual ?a ?u no (give_stock ?a d)))))"
    unfolding reqs_ok_def
  proof (intro conjI ballI impI)
    have rq: "sd_requests (delete_qual ?a ?u no (give_stock ?a d)) = sd_requests d"
      by (simp add: delete_qual_def give_stock_def)
    show "distinct (map sr_no (sd_requests (snd (set_request no c st re (delete_qual ?a ?u no (give_stock ?a d))))))"
      using inv by (simp add: set_request_def rq Let_def update_where_keys seckill_inv_def reqs_ok_def)
    fix r assume "r \<in> set (sd_requests (snd (set_request no c st re (delete_qual ?a ?u no (give_stock ?a d)))))"
    then obtain r0 where r0: "r0 \<in> set (sd_requests d)"
      "r = (if sr_no r0 = no \<and> c (sr_status r0) then r0\<lparr>sr_status := st, sr_reason := re\<rparr> else r0)"
      by (auto simp: set_request_def rq Let_def update_where_def)
    show "sr_activity r = ev_activity (ev (sr_no r))" "sr_user r = ev_user_id (ev (sr_no r))"
      using r0 inv by (auto simp: seckill_inv_def reqs_ok_def)
    assume h: "holds_stock (sr_status r)"
    have "r0 = req" if "sr_no r0 = no"
      using that r0(1) R inv by (auto simp: seckill_inv_def reqs_ok_def distinct_map inj_on_def)
    then have "sr_no r0 \<noteq> no" using h r0(2) c st by (auto split: if_splits)
    then show "sr_no r \<in> sq_no ` set quals"
      using h r0 inv keep by (force simp: seckill_inv_def reqs_ok_def split: if_splits)
  qed
  show ?thesis using 1 2 3 del
    by (simp add: seckill_inv_def give_stock_def delete_qual_def)
qed

lemma held_has_qual:
  assumes "seckill_inv ev d" "find_row sr_no no (sd_requests d) = Some req" "holds_stock (sr_status req)"
  shows "no \<in> sq_no ` set (sd_quals d)"
proof -
  have "req \<in> set (sd_requests d)" "sr_no req = no" using find_row_SomeD [OF assms(2)] by auto
  then show ?thesis using assms(1,3) unfolding seckill_inv_def reqs_ok_def by blast
qed

lemma CompleteOrderCreating_inv:
  assumes "seckill_inv ev d"
  shows "seckill_inv ev (snd (CompleteOrderCreating ok evt d))"
  unfolding CompleteOrderCreating_def
proof (rule seckill_tx_inv [OF assms])
  fix x d'
  assume b: "CompleteOrderCreating_body ok evt d = (Inr x, d')"
  show "seckill_inv ev d'"
  proof (cases "find_row sr_no (ev_no evt) (sd_requests d)")
    case (Some req)
    have "holds_stock (sr_status req) \<Longrightarrow> ev_no evt \<in> sq_no ` set (sd_quals d)"
      using held_has_qual [OF assms Some] .
    then show ?thesis using b Some assms set_request_inv [OF assms, of RequestStatusSuccess "ev_no evt"]
      by (auto simp: CompleteOrderCreating_body_def Let_def holds_stock_def split: if_splits prod.splits) (metis snd_conv)+
  qed (use b in \<open>auto simp: CompleteOrderCreating_body_def split: if_splits\<close>)
qed

lemma RollbackOrderCreating_inv:
  assumes "seckill_inv ev d" "event_of ev"
  shows "seckill_inv ev (snd (RollbackOrderCreating ok (ev no) reason d))"
  unfolding RollbackOrderCreating_def
proof (rule seckill_tx_inv [OF assms(1)])
  fix x d'
  assume b: "RollbackOrderCreating_body ok (ev no) reason d = (Inr x, d')"
  have no: "ev_no (ev no) = no" using assms(2) by (simp add: event_of_def)
  show "seckill_inv ev d'"
  proof (cases "find_row sr_no no (sd_requests d)")
    case (Some req)
    show ?thesis
    proof (cases "sr_status req = RequestStatusOrderCreating")
      case True
      then have "seckill_inv ev (snd (set_request no (\<lambda>st. st = RequestStatusOrderCreating) RequestStatusFailed reason
           (delete_qual (ev_activity (ev no)) (ev_user_id (ev no)) no (give_stock (ev_activity (ev no)) d))))"
        by (intro release_inv [OF assms Some]) (auto simp: holds_stock_def)
      then show ?thesis using b Some True no
        by (auto simp: RollbackOrderCreating_body_def Let_def split: if_splits prod.splits)
    qed (use b Some no assms(1) in \<open>auto simp: RollbackOrderCreating_body_def split: if_splits\<close>)
  qed (use b no in \<open>auto simp: RollbackOrderCreating_body_def split: if_splits\<close>)
qed

lemma CloseByOrderResult_inv:
  assumes "seckill_inv ev d" "event_of ev"
  shows "seckill_inv ev (snd (CloseByOrderResult ok no reason d))"
  unfolding CloseByOrderResult_def
proof (rule seckill_tx_inv [OF assms(1)])
  fix x d'
  assume b: "CloseByOrderResult_body ok no reason d = (Inr x, d')"
  show "seckill_inv ev d'"
  proof (cases "find_row sr_no no (sd_requests d)")
    case (Some req)
    have R: "sr_activity req = ev_activity (ev no)" "sr_user req = ev_user_id (ev no)" "sr_no req = no"
      using find_row_SomeD [OF Some] assms(1) by (auto simp: seckill_inv_def reqs_ok_def)
    show ?thesis
    proof (cases "holds_stock (sr_status req)")
      case True
      then have "seckill_inv ev (snd (set_request no (\<lambda>st. st \<noteq> RequestStatusFailed) RequestStatusFailed reason
           (delete_qual (ev_activity (ev no)) (ev_user_id (ev no)) no (give_stock (ev_activity (ev no)) d))))"
        by (intro release_inv [OF assms Some]) (auto simp: holds_stock_def)
      then show ?thesis using b Some True R
        by (auto simp: CloseByOrderResult_body_def Let_def holds_stock_def split: if_splits prod.splits)
    next
      case False
      then show ?thesis using b Some assms(1) set_request_inv [OF assms(1), of RequestStatusFailed no "\<lambda>st. st \<noteq> RequestStatusFailed" reason]
        by (auto simp: CloseByOrderResult_body_def Let_def holds_stock_def split: if_splits prod.splits)
    qed
  qed (use b in \<open>auto simp: CloseByOrderResult_body_def split: if_splits\<close>)
qed

lemma MarkFail_inv: "seckill_inv ev d \<Longrightarrow> seckill_inv ev (snd (MarkFail ok no reason d))"
  using set_request_inv [of ev d RequestStatusFailed no] by (auto simp: MarkFail_def holds_stock_def)

lemma take_stock_inv:
  assumes "acts_ok nxt quals acts" "a < nxt"
    and "rows_affected (\<lambda>x. sa_id x = a \<and> sa_available x \<ge> 1 \<and> sa_status x = ActivityStatusOnline
           \<and> sa_start x \<le> now \<and> sa_end x \<ge> now) acts \<noteq> 0"
    and "\<And>k. qual_count k quals' = (if k = a then 1 else 0) + qual_count k quals"
  shows "acts_ok nxt quals' (update_where (\<lambda>x. sa_id x = a \<and> sa_available x \<ge> 1 \<and> sa_status x = ActivityStatusOnline
           \<and> sa_start x \<le> now \<and> sa_end x \<ge> now)
           (\<lambda>x. x\<lparr>sa_available := sa_available x - 1, sa_version := sa_version x + 1\<rparr>) acts)"
proof -
  let ?P = "\<lambda>x. sa_id x = a \<and> sa_available x \<ge> 1 \<and> sa_status x = ActivityStatusOnline \<and> sa_start x \<le> now \<and> sa_end x \<ge> now"
  let ?f = "\<lambda>x. x\<lparr>sa_available := sa_available x - 1, sa_version := sa_version x + 1\<rparr>"
  have d: "distinct (map sa_id acts)" using assms(1) by (simp add: acts_ok_def)
  obtain y where y: "y \<in> set acts" "?P y" using assms(3) by (auto simp: rows_affected_zero)
  have uniq: "?P x" if "x \<in> set acts" "sa_id x = a" for x
  proof -
    have "x = y" using that y d by (auto simp: distinct_map inj_on_def)
    then show ?thesis using y by simp
  qed
  show ?thesis unfolding acts_ok_def
  proof (intro conjI ballI)
    show "distinct (map sa_id (update_where ?P ?f acts))" using d by (simp add: update_where_keys)
    fix x assume "x \<in> set (update_where ?P ?f acts)"
    then obtain x0 where x0: "x0 \<in> set acts" "x = (if ?P x0 then ?f x0 else x0)"
      unfolding update_where_set by blast
    have A: "sa_id x0 < nxt" "sa_available x0 + int (qual_count (sa_id x0) quals) = sa_total x0"
      "min 0 (sa_total x0) \<le> sa_available x0" using assms(1) x0(1) by (auto simp: acts_ok_def)
    show "sa_id x < nxt" using x0(2) A by simp
    show "sa_available x + int (qual_count (sa_id x) quals') = sa_total x"
      using x0 A uniq [OF x0(1)] assms(4) [of "sa_id x0"] by (cases "sa_id x0 = a") auto
    show "min 0 (sa_total x) \<le> sa_available x" using x0(2) A by (cases "?P x0") auto
  qed
qed

lemma advance_reserve_inv:
  assumes inv: "seckill_inv ev d" and ev: "event_of ev" and req: "find_row sr_no no (sd_requests d) = Some req"
    and free: "\<not> (\<exists>q \<in> set (sd_quals d). sq_activity q = ev_activity (ev no) \<and> sq_user q = ev_user_id (ev no))"
    and d1: "d1 = d\<lparr>sd_quals := sd_quals d @ [\<lparr>sq_activity = ev_activity (ev no), sq_user = ev_user_id (ev no), sq_no = no\<rparr>]\<rparr>"
  shows "fst (take_stock now (ev_activity (ev no)) d1) \<noteq> 0 \<Longrightarrow>
      seckill_inv ev (snd (take_stock now (ev_activity (ev no)) d1)) \<and> no \<in> sq_no ` set (sd_quals (snd (take_stock now (ev_activity (ev no)) d1)))"
    and "fst (take_stock now (ev_activity (ev no)) d1) = 0 \<Longrightarrow>
      delete_qual (ev_activity (ev no)) (ev_user_id (ev no)) no (snd (take_stock now (ev_activity (ev no)) d1)) = d"
proof -
  let ?a = "ev_activity (ev no)" and ?u = "ev_user_id (ev no)"
  let ?P = "\<lambda>x. sa_id x = ?a \<and> sa_available x \<ge> 1 \<and> sa_status x = ActivityStatusOnline \<and> sa_start x \<le> now \<and> sa_end x \<ge> now"
  have Q: "quals_ok ev (sd_next d) (sd_quals d)" and A: "acts_ok (sd_next d) (sd_quals d) (sd_activities d)"
    and R: "reqs_ok ev (sd_quals d) (sd_requests d)" using inv by (auto simp: seckill_inv_def)
  { assume n: "fst (take_stock now ?a d1) \<noteq> 0"
    then have n': "rows_affected ?P (sd_activities d) \<noteq> 0" by (simp add: take_stock_def Let_def d1)
    then obtain y where "y \<in> set (sd_activities d)" "sa_id y = ?a" by (auto simp: rows_affected_zero)
    then have lt: "?a < sd_next d" using A by (auto simp: acts_ok_def)
    have "quals_ok ev (sd_next d) (sd_quals d1)"
      using Q free ev lt by (auto simp: quals_ok_def d1 qual_key_def event_of_def)
    moreover have "acts_ok (sd_next d) (sd_quals d1) (sd_activities (snd (take_stock now ?a d1)))"
      using take_stock_inv [OF A lt n', of "sd_quals d1"] by (simp add: d1 qual_count_def take_stock_def Let_def)
    moreover have "reqs_ok ev (sd_quals d1) (sd_requests d)" using R by (auto simp: reqs_ok_def d1)
    ultimately show "seckill_inv ev (snd (take_stock now ?a d1)) \<and> no \<in> sq_no ` set (sd_quals (snd (take_stock now ?a d1)))"
      by (simp add: seckill_inv_def take_stock_def Let_def d1) }
  { assume "fst (take_stock now ?a d1) = 0"
    then have "\<forall>x \<in> set (sd_activities d). \<not> ?P x" by (simp add: take_stock_def Let_def d1 rows_affected_zero)
    then have "snd (take_stock now ?a d1) = d1" by (simp add: take_stock_def Let_def d1 update_where_none)
    moreover have "filter (\<lambda>q. \<not> (sq_activity q = ?a \<and> sq_user q = ?u \<and> sq_no q = no)) (sd_quals d) = sd_quals d"
      using free by (auto simp: filter_id_conv)
    ultimately show "delete_qual ?a ?u no (snd (take_stock now ?a d1)) = d"
      by (simp add: delete_qual_def d1) }
qed

lemma AdvanceProcessing_inv:
  assumes "seckill_inv ev d" "event_of ev"
  shows "seckill_inv ev (snd (AdvanceProcessing ok now (ev no) d))"
  unfolding AdvanceProcessing_def
proof (rule seckill_tx_inv [OF assms(1)])
  fix x d'
  assume b: "AdvanceProcessing_body ok now (ev no) d = (Inr x, d')"
  have no: "ev_no (ev no) = no" using assms(2) by (simp add: event_of_def)
  let ?a = "ev_activity (ev no)" and ?u = "ev_user_id (ev no)"
  define d1 where "d1 = d\<lparr>sd_quals := sd_quals d @ [\<lparr>sq_activity = ?a, sq_user = ?u, sq_no = no\<rparr>]\<rparr>"
  define d2 where "d2 = snd (take_stock now ?a d1)"
  show "seckill_inv ev d'"
  proof (cases "find_row sr_no no (sd_requests d)")
    case (Some req)
    show ?thesis
    proof (cases "sr_status req = RequestStatusProcessing")
      case proc: True
      show ?thesis
      proof (cases "\<exists>q \<in> set (sd_quals d). sq_activity q = ?a \<and> sq_user q = ?u")
        case True
        have "seckill_inv ev (snd (set_request no (\<lambda>st. st = RequestStatusProcessing) RequestStatusFailed FailReasonUserAlreadySucceeded d))"
          by (rule set_request_inv [OF assms(1)]) (simp add: holds_stock_def)
        then show ?thesis using b Some proc True no
          by (auto simp: AdvanceProcessing_body_def Let_def split: if_splits prod.splits)
      next
        case False
        note R = advance_reserve_inv [OF assms Some False d1_def, of now]
        show ?thesis
        proof (cases "fst (take_stock now ?a d1) = 0")
          case True
          have "d' = snd (set_request no (\<lambda>st. st = RequestStatusProcessing) RequestStatusFailed FailReasonOutOfStock (delete_qual ?a ?u no d2))"
            using b Some proc False True no
            by (auto simp: AdvanceProcessing_body_def d1_def d2_def Let_def split: if_splits prod.splits)
          then show ?thesis using R(2) True set_request_inv [OF assms(1), of RequestStatusFailed no]
            by (simp add: d2_def holds_stock_def)
        next
          case n: False
          have "d' = snd (set_request no (\<lambda>st. st = RequestStatusProcessing) RequestStatusOrderCreating FailReasonNone d2)"
            using b Some proc False n no
            by (auto simp: AdvanceProcessing_body_def d1_def d2_def Let_def split: if_splits prod.splits)
          then show ?thesis using R(1) n by (simp add: d2_def set_request_inv)
        qed
      qed
    qed (use b Some no assms(1) in \<open>auto simp: AdvanceProcessing_body_def split: if_splits\<close>)
  qed (use b no in \<open>auto simp: AdvanceProcessing_body_def split: if_splits\<close>)
qed

lemma request_Create_inv:
  assumes "seckill_inv ev d" "rq_status r = RequestStatusProcessing"
    and "rq_activity_id r = ev_activity (ev (rq_no r))" "rq_user_id r = ev_user_id (ev (rq_no r))"
  shows "seckill_inv ev (snd (request_Create ok r d))"
  using assms by (auto simp: request_Create_def seckill_inv_def reqs_ok_def holds_stock_def)

lemma activity_Create_inv:
  assumes "seckill_inv ev d" "sa_available a = sa_total a"
  shows "seckill_inv ev (snd (activity_Create ok a d))"
proof -
  have z: "qual_count (sd_next d) (sd_quals d) = 0"
    using assms(1) by (auto simp: qual_count_def rows_affected_zero seckill_inv_def quals_ok_def)
  show ?thesis using assms z
    by (auto simp: activity_Create_def seckill_inv_def quals_ok_def acts_ok_def)
qed

lemma activity_UpdateStatus_inv:
  "seckill_inv ev d \<Longrightarrow> seckill_inv ev (snd (activity_UpdateStatus ok k st d))"
  by (auto simp: activity_UpdateStatus_def seckill_inv_def acts_ok_def update_where_keys update_where_set)

text \<open>Every interleaving of the transactions; the read phase of the dead-letter handler may be
  arbitrarily old, so \<open>MarkFail\<close> can come at any time.\<close>

inductive seckill_step :: "(string \<Rightarrow> Event) \<Rightarrow> seckill_db \<Rightarrow> seckill_db \<Rightarrow> bool" for ev where
  sk_activity: "sa_available a = sa_total a \<Longrightarrow> seckill_step ev d (snd (activity_Create ok a d))"
| sk_status: "seckill_step ev d (snd (activity_UpdateStatus ok' k st d))"
| sk_request: "r = \<lparr>rq_no = no, rq_activity_id = ev_activity (ev no), rq_user_id = ev_user_id (ev no),
      rq_status = RequestStatusProcessing, rq_order_id = 0, rq_reason = FailReasonNone\<rparr>
    \<Longrightarrow> seckill_step ev d (snd (request_Create ok' r d))"
| sk_advance: "seckill_step ev d (snd (AdvanceProcessing oks now (ev no) d))"
| sk_complete: "seckill_step ev d (snd (CompleteOrderCreating oks (ev no) d))"
| sk_rollback: "seckill_step ev d (snd (RollbackOrderCreating oks (ev no) reason d))"
| sk_close: "seckill_step ev d (snd (CloseByOrderResult oks no reason d))"
| sk_markfail: "seckill_step ev d (snd (MarkFail ok' no reason d))"

definition seckill_init :: seckill_db where
  "seckill_init = \<lparr>sd_activities = [], sd_next = 1, sd_requests = [], sd_quals = []\<rparr>"

lemma seckill_step_inv:
  "seckill_step ev d d' \<Longrightarrow> event_of ev \<Longrightarrow> seckill_inv ev d \<Longrightarrow> seckill_inv ev d'"
proof (induction rule: seckill_step.induct)
  case (sk_request r no d ok')
  then show ?case by (intro request_Create_inv) auto
qed (auto intro: activity_Create_inv activity_UpdateStatus_inv AdvanceProcessing_inv CompleteOrderCreating_inv
    RollbackOrderCreating_inv CloseByOrderResult_inv MarkFail_inv)

lemma seckill_steps_inv:
  "(seckill_step ev)\<^sup>*\<^sup>* d d' \<Longrightarrow> event_of ev \<Longrightarrow> seckill_inv ev d \<Longrightarrow> seckill_inv ev d'"
  by (induction rule: rtranclp_induct) (auto intro: seckill_step_inv)

lemma seckill_init_inv: "seckill_inv ev seckill_init"
  by (simp add: seckill_init_def seckill_inv_def quals_ok_def reqs_ok_def acts_ok_def)

section \<open>The reservations in Redis\<close>

definition marker_count :: "int \<Rightarrow> ((int \<times> int) \<times> string) list \<Rightarrow> nat" where
  "marker_count a ms = rows_affected (\<lambda>p. fst (fst p) = a) ms"

text \<open>A stock key and its markers against the quota the activity was opened with.\<close>

definition stock_line :: "int \<Rightarrow> int option \<Rightarrow> nat \<Rightarrow> bool" where
  "stock_line quota stock n \<longleftrightarrow> (case stock of None \<Rightarrow> n = 0 | Some s \<Rightarrow> 0 \<le> s \<and> s + int n = quota)"

inductive redis_step :: "seckill_redis \<Rightarrow> seckill_redis \<Rightarrow> bool" where
  rs_reserve: "redis_step r (snd (AtomicReserve a u no r))"
| rs_compensate: "redis_step r (snd (Compensate a u no res r))"
| rs_resolve: "redis_step r (snd (ResolveTransaction a u no r))"
| rs_result: "redis_step r (SetResult res r)"
| rs_activity: "redis_step r (SetActivity act r)"

definition redis_inv :: "(int \<Rightarrow> int) \<Rightarrow> seckill_redis \<Rightarrow> bool" where
  "redis_inv quota r \<longleftrightarrow> distinct (map fst (rd_marker r))
     \<and> (\<forall>a. stock_line (quota a) (rd_stock r a) (marker_count a (rd_marker r)))"

lemma redis_inv_same:
  "rd_stock r' = rd_stock r \<Longrightarrow> rd_marker r' = rd_marker r \<Longrightarrow> redis_inv quota r' = redis_inv quota r"
  by (simp add: redis_inv_def)

lemma set_result_keys_same [simp]:
  "rd_stock (set_result_keys no st res r) = rd_stock r" "rd_marker (set_result_keys no st res r) = rd_marker r"
  by (simp_all add: set_result_keys_def)

lemma redis_inv_result [simp]: "redis_inv quota (set_result_keys no st res r) = redis_inv quota r"
  by (rule redis_inv_same) simp_all

lemma AtomicReserve_inv:
  assumes "redis_inv quota r"
  shows "redis_inv quota (snd (AtomicReserve a u no r))"
proof (cases "\<exists>s. rd_stock r a = Some s \<and> 0 < s \<and> map_of (rd_marker r) (a, u) = None")
  case True
  then obtain s where s: "rd_stock r a = Some s" "0 < s" "map_of (rd_marker r) (a, u) = None" by blast
  then have r': "snd (AtomicReserve a u no r) = r\<lparr>rd_stock := (rd_stock r)(a := Some (s - 1)),
      rd_marker := rd_marker r @ [((a, u), no)]\<rparr>" by (simp add: AtomicReserve_def)
  have line: "stock_line (quota k) (rd_stock r k) (marker_count k (rd_marker r))" for k
    using assms by (simp add: redis_inv_def)
  have "stock_line (quota k) (((rd_stock r)(a := Some (s - 1))) k) (marker_count k (rd_marker r @ [((a, u), no)]))" for k
    using line [of k] s by (cases "k = a") (simp_all add: stock_line_def marker_count_def)
  moreover have "distinct (map fst (rd_marker r @ [((a, u), no)]))"
    using assms s(3) by (simp add: redis_inv_def map_of_eq_None_iff)
  ultimately show ?thesis unfolding r' by (simp add: redis_inv_def)
next
  case False
  have "snd (AtomicReserve a u no r) = r"
  proof (cases "rd_stock r a")
    case (Some s)
    then have "\<not> (0 < s \<and> map_of (rd_marker r) (a, u) = None)" using False by simp
    then show ?thesis using Some by (auto simp: AtomicReserve_def)
  qed (simp add: AtomicReserve_def)
  then show ?thesis using assms by simp
qed

lemma Compensate_inv:
  assumes "redis_inv quota r"
  shows "redis_inv quota (snd (Compensate a u no res r))"
proof (cases "rd_status r no = Some (rs_status res) \<or> map_of (rd_marker r) (a, u) \<noteq> Some no")
  case True
  then show ?thesis using assms by (auto simp: Compensate_def Let_def)
next
  case False
  then have mem: "((a, u), no) \<in> set (rd_marker r)" by (auto dest: map_of_SomeD)
  define ms where "ms = filter (\<lambda>p. fst p \<noteq> (a, u)) (rd_marker r)"
  have d: "distinct (map fst (rd_marker r))" using assms by (simp add: redis_inv_def)
  have cnt: "marker_count k (rd_marker r) = (if k = a then 1 else 0) + marker_count k ms" for k
    using rows_affected_remove1 [OF d mem, of "\<lambda>p. fst (fst p) = k"] by (auto simp: marker_count_def ms_def)
  have line: "stock_line (quota k) (rd_stock r k) (marker_count k (rd_marker r))" for k
    using assms by (simp add: redis_inv_def)
  obtain s where s: "rd_stock r a = Some s" using line [of a] cnt [of a] by (cases "rd_stock r a") (auto simp: stock_line_def)
  define r' where "r' = r\<lparr>rd_stock := (rd_stock r)(a := Some (s + 1)), rd_marker := ms\<rparr>"
  have "stock_line (quota k) (rd_stock r' k) (marker_count k (rd_marker r'))" for k
    using line [of k] cnt [of k] s by (cases "k = a") (simp_all add: stock_line_def r'_def)
  moreover have "distinct (map fst (rd_marker r'))" using d by (simp add: r'_def ms_def distinct_map_filter)
  ultimately have "redis_inv quota r'" by (simp add: redis_inv_def)
  moreover have "snd (Compensate a u no res r) = set_result_keys no (rs_status res) res r'"
    using False s by (simp add: Compensate_def Let_def r'_def ms_def)
  ultimately show ?thesis by simp
qed

lemma ResolveTransaction_inv: "redis_inv quota r \<Longrightarrow> redis_inv quota (snd (ResolveTransaction a u no r))"
  by (auto simp: ResolveTransaction_def split: option.splits)

lemma redis_step_inv: "redis_step r r' \<Longrightarrow> redis_inv quota r \<Longrightarrow> redis_inv quota r'"
proof (induction rule: redis_step.induct)
  case (rs_activity r act)
  then show ?case using redis_inv_same [of "SetActivity act r" r quota] by (simp add: SetActivity_def)
qed (auto simp: AtomicReserve_inv Compensate_inv ResolveTransaction_inv SetResult_def)

lemma redis_steps_inv: "redis_step\<^sup>*\<^sup>* r r' \<Longrightarrow> redis_inv quota r \<Longrightarrow> redis_inv quota r'"
  by (induction rule: rtranclp_induct) (auto intro: redis_step_inv)

end
