(* ===== verification/SeckillMQ.thy ===== *)
theory SeckillMQ
  imports SeckillRepo OrderUsecase
begin

text \<open>
  The message handling and the use cases of the flash-sale service: the processor, the consumers and
  the transactional producer of \<open>internal/seckill/infra/mq\<close>, the use cases of
  \<open>internal/seckill/usecase\<close>, the local sold-out marker and the gRPC handler.  The order service is
  reached through the client functions \<open>create\<close> and \<open>get\<close> over a state \<open>'o\<close> of its own; theory
  Spec2Isabelle instantiates them with the model of the order service.
\<close>

section \<open>State\<close>

datatype local_tx_state = CommitMessageState | RollbackMessageState | UnknowState

record transaction_decision =
  td_state :: local_tx_state
  td_result :: "Result option"
  td_expires :: int

record seckill_svc =
  ss_db :: seckill_db
  ss_redis :: seckill_redis
  ss_local :: "int \<Rightarrow> (SeckillActivity \<times> int) option"
  ss_soldout :: "int list"
  ss_decisions :: "(string \<times> transaction_decision) list"

section \<open>Sold-out marker\<close>

definition IsSoldOut :: "int \<Rightarrow> seckill_svc \<Rightarrow> bool" where
  "IsSoldOut a s \<longleftrightarrow> a \<in> set (ss_soldout s)"

definition MarkSoldOut :: "int \<Rightarrow> seckill_svc \<Rightarrow> seckill_svc" where
  "MarkSoldOut a s = s\<lparr>ss_soldout := List.insert a (ss_soldout s)\<rparr>"

definition ClearSoldOut :: "int \<Rightarrow> seckill_svc \<Rightarrow> seckill_svc" where
  "ClearSoldOut a s = s\<lparr>ss_soldout := removeAll a (ss_soldout s)\<rparr>"

section \<open>Cache calls\<close>

definition svc_SetResult :: "bool \<Rightarrow> Result \<Rightarrow> seckill_svc \<Rightarrow> (seckill_error + unit) \<times> seckill_svc" where
  "svc_SetResult ok res s =
     (if \<not> ok then (Inl SkErrInfra, s) else (Inr (), s\<lparr>ss_redis := SetResult res (ss_redis s)\<rparr>))"

definition activityTTL :: int where "activityTTL = 60 * 60 * 1000"

definition svc_SetActivity :: "bool \<Rightarrow> int \<Rightarrow> SeckillActivity \<Rightarrow> seckill_svc \<Rightarrow> (seckill_error + unit) \<times> seckill_svc" where
  "svc_SetActivity ok now a s =
     (if \<not> ok then (Inl SkErrInfra, s)
      else (Inr (), s\<lparr>ss_redis := SetActivity a (ss_redis s),
                       ss_local := (ss_local s)(sa_id a := Some (a, now + activityTTL))\<rparr>))"

definition svc_GetActivity ::
  "bool \<Rightarrow> int \<Rightarrow> int \<Rightarrow> seckill_svc \<Rightarrow> (seckill_error + SeckillActivity option) \<times> seckill_svc" where
  "svc_GetActivity ok now k s =
     (let redis = (\<lambda>s. if \<not> ok then (Inl SkErrInfra, s)
                       else (case rd_activity (ss_redis s) k of
                               None \<Rightarrow> (Inr None, s)
                             | Some a \<Rightarrow> (Inr (Some a), s\<lparr>ss_local := (ss_local s)(k := Some (a, now + activityTTL))\<rparr>)))
      in case ss_local s k of
           Some (a, expires) \<Rightarrow>
             if now < expires then (Inr (Some a), s)
             else redis (s\<lparr>ss_local := (ss_local s)(k := None)\<rparr>)
         | None \<Rightarrow> redis s)"

definition failed_result :: "string \<Rightarrow> fail_reason \<Rightarrow> Result" where
  "failed_result no reason = \<lparr>rs_no = no, rs_status = RequestStatusFailed, rs_order = 0, rs_reason = reason\<rparr>"

definition success_result :: "string \<Rightarrow> int \<Rightarrow> Result" where
  "success_result no oid = \<lparr>rs_no = no, rs_status = RequestStatusSuccess, rs_order = oid, rs_reason = FailReasonNone\<rparr>"

definition processing_result :: "string \<Rightarrow> Result" where
  "processing_result no = \<lparr>rs_no = no, rs_status = RequestStatusProcessing, rs_order = 0, rs_reason = FailReasonNone\<rparr>"

section \<open>The processor\<close>

record process_env =
  pv_find :: bool
  pv_create :: bool
  pv_find2 :: bool
  pv_now :: int
  pv_advance :: "nat \<Rightarrow> bool"
  pv_complete :: "nat \<Rightarrow> bool"
  pv_rollback :: "nat \<Rightarrow> bool"
  pv_mark :: bool
  pv_cache :: bool

type_synonym 'o create_client = "CreateOrderReq \<Rightarrow> 'o \<Rightarrow> (rpc_error + int) \<times> 'o"
type_synonym 'o get_client = "int \<Rightarrow> 'o \<Rightarrow> rpc_error + ProtoOrder option"

definition compensateAndClear ::
  "process_env \<Rightarrow> int \<Rightarrow> int \<Rightarrow> string \<Rightarrow> Result \<Rightarrow> seckill_svc \<Rightarrow> (seckill_error + unit) \<times> seckill_svc" where
  "compensateAndClear env a u no res s =
     (if \<not> pv_cache env then (Inl SkErrInfra, s)
      else (Inr (), ClearSoldOut a (s\<lparr>ss_redis := snd (Compensate a u no res (ss_redis s))\<rparr>)))"

definition ensureRequest ::
  "process_env \<Rightarrow> Event \<Rightarrow> seckill_svc \<Rightarrow> (seckill_error + Request) \<times> seckill_svc" where
  "ensureRequest env evt s =
     (case request_FindByRequestNo (pv_find env) (ev_no evt) (ss_db s) of
        Inr req \<Rightarrow> (Inr req, s)
      | Inl e \<Rightarrow>
          if e \<noteq> ErrRequestNotFound then (Inl e, s)
          else
            (let req = \<lparr>rq_no = ev_no evt, rq_activity_id = ev_activity evt, rq_user_id = ev_user_id evt,
                        rq_status = RequestStatusProcessing, rq_order_id = 0, rq_reason = FailReasonNone\<rparr>
             in case request_Create (pv_create env) req (ss_db s) of
                  (Inr _, d) \<Rightarrow> (Inr req, s\<lparr>ss_db := d\<rparr>)
                | (Inl e', d) \<Rightarrow>
                    if e' \<noteq> ErrDuplicateSeckill then (Inl e', s\<lparr>ss_db := d\<rparr>)
                    else (request_FindByRequestNo (pv_find2 env) (ev_no evt) d, s\<lparr>ss_db := d\<rparr>)))"

definition rollbackOrderCreating ::
  "process_env \<Rightarrow> Event \<Rightarrow> fail_reason \<Rightarrow> seckill_svc \<Rightarrow> (seckill_error + unit) \<times> seckill_svc" where
  "rollbackOrderCreating env evt reason s =
     (case RollbackOrderCreating (pv_rollback env) evt reason (ss_db s) of
        (Inl e, d) \<Rightarrow> (Inl e, s\<lparr>ss_db := d\<rparr>)
      | (Inr req, d) \<Rightarrow>
          compensateAndClear env (ev_activity evt) (ev_user_id evt) (ev_no evt)
            (failed_result (ev_no evt) (rq_reason req)) (s\<lparr>ss_db := d\<rparr>))"

definition orderIDOrRequestNo :: "Request \<Rightarrow> int" where
  "orderIDOrRequestNo req =
     (if rq_order_id req \<noteq> 0 then rq_order_id req
      else (case OrderIDFromRequestNo (rq_no req) of Some k \<Rightarrow> k | None \<Rightarrow> 0))"

definition isExplicitCreateOrderFailure :: "rpc_error \<Rightarrow> bool" where
  "isExplicitCreateOrderFailure e = (case e of BizStatus code \<Rightarrow> IsCreateOrderBizStatus code | RpcError _ \<Rightarrow> False)"

definition isOrderNotFound :: "rpc_error \<Rightarrow> bool" where
  "isOrderNotFound e = (case e of BizStatus code \<Rightarrow> IsGetOrderNotFoundBizStatus code | RpcError _ \<Rightarrow> False)"

definition seckill_order_req :: "int \<Rightarrow> Event \<Rightarrow> CreateOrderReq" where
  "seckill_order_req oid evt =
     \<lparr>rq_order = oid, rq_user = ev_user_id evt, rq_currency = ''CNY'', rq_remark = [], rq_address = None,
      rq_kind = OrderKindSeckill, rq_activity = ev_activity evt, rq_payable = 0,
      rq_items = [\<lparr>it_product = ev_product evt, it_sku = ev_sku evt, it_quantity = 1,
                   it_snapshot_price = ev_price evt, it_snapshot_currency = ''CNY'', it_price = ev_price evt\<rparr>]\<rparr>"

text \<open>Completing an order is shared by the two callers below: the transaction, then the cached result.\<close>

definition completeAndPublish ::
  "process_env \<Rightarrow> Event \<Rightarrow> seckill_svc \<Rightarrow> (seckill_error + unit) \<times> seckill_svc" where
  "completeAndPublish env evt s =
     (case CompleteOrderCreating (pv_complete env) evt (ss_db s) of
        (Inl e, d) \<Rightarrow> (Inl e, s\<lparr>ss_db := d\<rparr>)
      | (Inr req, d) \<Rightarrow>
          svc_SetResult (pv_cache env) (success_result (ev_no evt) (orderIDOrRequestNo req)) (s\<lparr>ss_db := d\<rparr>))"

definition processOrderCreating ::
  "process_env \<Rightarrow> 'o create_client \<Rightarrow> Event \<Rightarrow> seckill_svc \<times> 'o \<Rightarrow> (seckill_error + unit) \<times> seckill_svc \<times> 'o" where
  "processOrderCreating env create evt st =
     (case st of (s, orders) \<Rightarrow>
        (case OrderIDFromRequestNo (ev_no evt) of
           None \<Rightarrow> (Inl SkErrInvalidRequestNo, s, orders)
         | Some orderID \<Rightarrow>
             (case create (seckill_order_req orderID evt) orders of
                (Inl e, orders') \<Rightarrow>
                  if isExplicitCreateOrderFailure e
                  then (case rollbackOrderCreating env evt FailReasonCreateOrderFail s of (r, s') \<Rightarrow> (r, s', orders'))
                  else (Inl SkErrInfra, s, orders')
              | (Inr _, orders') \<Rightarrow>
                  (case completeAndPublish env evt s of (r, s') \<Rightarrow> (r, s', orders')))))"

definition processProcessing ::
  "process_env \<Rightarrow> 'o create_client \<Rightarrow> Event \<Rightarrow> seckill_svc \<times> 'o \<Rightarrow> (seckill_error + unit) \<times> seckill_svc \<times> 'o" where
  "processProcessing env create evt st =
     (case st of (s, orders) \<Rightarrow>
        (case AdvanceProcessing (pv_advance env) (pv_now env) evt (ss_db s) of
           (Inl e, d) \<Rightarrow> (Inl e, s\<lparr>ss_db := d\<rparr>, orders)
         | (Inr req, d) \<Rightarrow>
             (let s1 = s\<lparr>ss_db := d\<rparr> in
              case rq_status req of
                RequestStatusOrderCreating \<Rightarrow> processOrderCreating env create evt (s1, orders)
              | RequestStatusFailed \<Rightarrow>
                  (case compensateAndClear env (ev_activity evt) (ev_user_id evt) (ev_no evt)
                          (failed_result (ev_no evt) (rq_reason req)) s1 of (r, s2) \<Rightarrow> (r, s2, orders))
              | RequestStatusSuccess \<Rightarrow>
                  (case svc_SetResult (pv_cache env) (success_result (ev_no evt) (rq_order_id req)) s1 of
                     (r, s2) \<Rightarrow> (r, s2, orders))
              | _ \<Rightarrow> (Inl SkErrUnexpectedStatus, s1, orders))))"

definition Process ::
  "process_env \<Rightarrow> 'o create_client \<Rightarrow> Event \<Rightarrow> seckill_svc \<times> 'o \<Rightarrow> (seckill_error + unit) \<times> seckill_svc \<times> 'o" where
  "Process env create evt st =
     (case st of (s, orders) \<Rightarrow>
        (case ensureRequest env evt s of
           (Inl e, s1) \<Rightarrow> (Inl e, s1, orders)
         | (Inr req, s1) \<Rightarrow>
             (case rq_status req of
                RequestStatusProcessing \<Rightarrow> processProcessing env create evt (s1, orders)
              | RequestStatusOrderCreating \<Rightarrow> processOrderCreating env create evt (s1, orders)
              | RequestStatusSuccess \<Rightarrow>
                  (case svc_SetResult (pv_cache env) (success_result (ev_no evt) (rq_order_id req)) s1 of
                     (r, s2) \<Rightarrow> (r, s2, orders))
              | RequestStatusFailed \<Rightarrow>
                  (case compensateAndClear env (ev_activity evt) (ev_user_id evt) (ev_no evt)
                          (failed_result (ev_no evt) (rq_reason req)) s1 of (r, s2) \<Rightarrow> (r, s2, orders))
              | RequestStatusOther _ \<Rightarrow> (Inl SkErrUnexpectedStatus, s1, orders))))"

section \<open>Dead letters\<close>

record DeadLetterEvent =
  dl_event :: Event
  dl_reason :: "fail_reason option"

definition deadLetterReason :: "DeadLetterEvent \<Rightarrow> fail_reason" where
  "deadLetterReason dead = (case dl_reason dead of Some r \<Rightarrow> r | None \<Rightarrow> FailReasonCreateOrderFail)"

definition lookupOrder :: "'o get_client \<Rightarrow> Event \<Rightarrow> 'o \<Rightarrow> seckill_error + int option" where
  "lookupOrder get evt orders =
     (case OrderIDFromRequestNo (ev_no evt) of
        None \<Rightarrow> Inl SkErrInvalidRequestNo
      | Some orderID \<Rightarrow>
          (case get orderID orders of
             Inl e \<Rightarrow> if isOrderNotFound e then Inr None else Inl SkErrInfra
           | Inr None \<Rightarrow> Inr None
           | Inr (Some ord) \<Rightarrow>
               if po_user ord \<noteq> ev_user_id evt \<or> po_activity ord \<noteq> ev_activity evt \<or> po_kind ord \<noteq> OrderKindSeckill
               then Inr None else Inr (Some (po_id ord))))"

text \<open>The handler reads the request first and acts on what it read; \<open>DeadLetter_act\<close> is the second phase.\<close>

definition DeadLetter_act ::
  "process_env \<Rightarrow> 'o get_client \<Rightarrow> DeadLetterEvent \<Rightarrow> Request \<Rightarrow> seckill_svc \<Rightarrow> 'o \<Rightarrow> (seckill_error + unit) \<times> seckill_svc" where
  "DeadLetter_act env get dead req s orders =
     (let evt = dl_event dead; reason = deadLetterReason dead in
      case rq_status req of
        RequestStatusSuccess \<Rightarrow> svc_SetResult (pv_cache env) (success_result (ev_no evt) (rq_order_id req)) s
      | RequestStatusFailed \<Rightarrow>
          compensateAndClear env (ev_activity evt) (ev_user_id evt) (ev_no evt)
            (failed_result (ev_no evt) (rq_reason req)) s
      | RequestStatusProcessing \<Rightarrow>
          (case MarkFail (pv_mark env) (ev_no evt) reason (ss_db s) of
             (Inl e, d) \<Rightarrow> (Inl e, s\<lparr>ss_db := d\<rparr>)
           | (Inr _, d) \<Rightarrow>
               compensateAndClear env (ev_activity evt) (ev_user_id evt) (ev_no evt)
                 (failed_result (ev_no evt) reason) (s\<lparr>ss_db := d\<rparr>))
      | RequestStatusOrderCreating \<Rightarrow>
          (case lookupOrder get evt orders of
             Inl e \<Rightarrow> (Inl e, s)
           | Inr (Some _) \<Rightarrow> completeAndPublish env evt s
           | Inr None \<Rightarrow> rollbackOrderCreating env evt reason s)
      | RequestStatusOther _ \<Rightarrow> (Inl SkErrUnexpectedStatus, s))"

definition ProcessDeadLetter ::
  "process_env \<Rightarrow> 'o get_client \<Rightarrow> DeadLetterEvent \<Rightarrow> seckill_svc \<Rightarrow> 'o \<Rightarrow> (seckill_error + unit) \<times> seckill_svc" where
  "ProcessDeadLetter env get dead s orders =
     (let evt = dl_event dead in
      case request_FindByRequestNo (pv_find env) (ev_no evt) (ss_db s) of
        Inl e \<Rightarrow>
          if e = ErrRequestNotFound
          then compensateAndClear env (ev_activity evt) (ev_user_id evt) (ev_no evt)
                 (failed_result (ev_no evt) (deadLetterReason dead)) s
          else (Inl e, s)
      | Inr req \<Rightarrow> DeadLetter_act env get dead req s orders)"

section \<open>Order status consumer\<close>

definition failReasonForOrderStatus :: "order_status \<Rightarrow> fail_reason" where
  "failReasonForOrderStatus st =
     (if st = OrderStatusRefunded then FailReasonOrderRefunded else FailReasonOrderCanceled)"

definition onOrderClosed ::
  "process_env \<Rightarrow> OrderStatusUpdateEvent \<Rightarrow> seckill_svc \<Rightarrow> (seckill_error + unit) \<times> seckill_svc" where
  "onOrderClosed env evt s =
     (let requestNo = format_int (ev_order evt) in
      case CloseByOrderResult (pv_rollback env) requestNo (failReasonForOrderStatus (ev_status evt)) (ss_db s) of
        (Inl e, d) \<Rightarrow> (if e = ErrRequestNotFound then Inr () else Inl e, s\<lparr>ss_db := d\<rparr>)
      | (Inr (req, changed), d) \<Rightarrow>
          if \<not> changed then (Inr (), s\<lparr>ss_db := d\<rparr>)
          else compensateAndClear env (rq_activity_id req) (rq_user_id req) (rq_no req)
                 (failed_result (rq_no req) (rq_reason req)) (s\<lparr>ss_db := d\<rparr>))"

definition seckill_order_kind :: "string \<Rightarrow> bool" where
  "seckill_order_kind k \<longleftrightarrow> (let kind = to_upper (trim_space k) in kind = [] \<or> kind = ''SECKILL'')"

definition orderStatus_consume ::
  "process_env \<Rightarrow> OrderStatusUpdateEvent \<Rightarrow> seckill_svc \<Rightarrow> (seckill_error + unit) \<times> seckill_svc" where
  "orderStatus_consume env evt s =
     (if \<not> seckill_order_kind (ev_kind evt) then (Inr (), s)
      else
        (case ev_status evt of
           OrderStatusCanceled \<Rightarrow> onOrderClosed env evt s
         | OrderStatusRefunded \<Rightarrow> onOrderClosed env evt s
         | _ \<Rightarrow> (Inr (), s)))"

section \<open>Push consumers\<close>

text \<open>The loop the three consumers share: a message that does not decode is skipped, the first failure
  asks for redelivery of the whole batch (\<open>False\<close>).\<close>

fun push_consume :: "('m \<Rightarrow> 's \<Rightarrow> (seckill_error + unit) \<times> 's) \<Rightarrow> 'm option list \<Rightarrow> 's \<Rightarrow> bool \<times> 's" where
  "push_consume h [] s = (True, s)"
| "push_consume h (None # ms) s = push_consume h ms s"
| "push_consume h (Some m # ms) s =
     (case h m s of (Inl _, s') \<Rightarrow> (False, s') | (Inr _, s') \<Rightarrow> push_consume h ms s')"

definition SeckillConsumer_consumeMessages ::
  "process_env \<Rightarrow> 'o create_client \<Rightarrow> Event option list \<Rightarrow> seckill_svc \<times> 'o \<Rightarrow> bool \<times> seckill_svc \<times> 'o" where
  "SeckillConsumer_consumeMessages env create msgs st = push_consume (Process env create) msgs st"

definition DeadLetterConsumer_consumeMessages ::
  "process_env \<Rightarrow> 'o get_client \<Rightarrow> 'o \<Rightarrow> Event option list \<Rightarrow> seckill_svc \<Rightarrow> bool \<times> seckill_svc" where
  "DeadLetterConsumer_consumeMessages env get orders msgs s =
     push_consume (\<lambda>evt s. ProcessDeadLetter env get \<lparr>dl_event = evt, dl_reason = None\<rparr> s orders) msgs s"

definition OrderStatusConsumer_consumeMessages ::
  "process_env \<Rightarrow> OrderStatusUpdateEvent option list \<Rightarrow> seckill_svc \<Rightarrow> bool \<times> seckill_svc" where
  "OrderStatusConsumer_consumeMessages env msgs s = push_consume (orderStatus_consume env) msgs s"

section \<open>The transactional producer\<close>

definition transactionDecisionTTL :: int where "transactionDecisionTTL = 10 * 60 * 1000"

definition cleanupExpired :: "int \<Rightarrow> seckill_svc \<Rightarrow> seckill_svc" where
  "cleanupExpired now s = s\<lparr>ss_decisions := filter (\<lambda>(no, d). \<not> (td_expires d < now)) (ss_decisions s)\<rparr>"

definition lookupDecision :: "int \<Rightarrow> string \<Rightarrow> seckill_svc \<Rightarrow> transaction_decision option \<times> seckill_svc" where
  "lookupDecision now no s =
     (let s' = cleanupExpired now s in (map_of (ss_decisions s') no, s'))"

definition recordRollbackResult :: "int \<Rightarrow> string \<Rightarrow> Result \<Rightarrow> seckill_svc \<Rightarrow> seckill_svc" where
  "recordRollbackResult now no res s =
     (let s' = cleanupExpired now s;
          d = \<lparr>td_state = RollbackMessageState, td_result = Some res, td_expires = now + transactionDecisionTTL\<rparr>
      in s'\<lparr>ss_decisions := (no, d) # filter (\<lambda>p. fst p \<noteq> no) (ss_decisions s')\<rparr>)"

definition rollbackResult :: "int \<Rightarrow> string \<Rightarrow> seckill_svc \<Rightarrow> Result option \<times> seckill_svc" where
  "rollbackResult now no s =
     (case lookupDecision now no s of
        (Some d, s') \<Rightarrow> (if td_state d = RollbackMessageState then td_result d else None, s')
      | (None, s') \<Rightarrow> (None, s'))"

definition errorForFailReason :: "fail_reason \<Rightarrow> seckill_error" where
  "errorForFailReason r =
     (case r of FailReasonOutOfStock \<Rightarrow> ErrOutOfStock | FailReasonDuplicate \<Rightarrow> ErrDuplicateSeckill | _ \<Rightarrow> SkErrRolledBack)"

definition decodeTransactionMessage :: "Event option \<Rightarrow> string \<Rightarrow> (Event \<times> int) option" where
  "decodeTransactionMessage body ttl =
     (case body of
        None \<Rightarrow> None
      | Some evt \<Rightarrow> (case parse_int ttl of None \<Rightarrow> None | Some n \<Rightarrow> if n \<le> 0 then None else Some (evt, n)))"

text \<open>The list is the results a goroutine will write to the cache.\<close>

definition ExecuteLocalTransaction ::
  "bool \<Rightarrow> int \<Rightarrow> Event option \<Rightarrow> string \<Rightarrow> seckill_svc \<Rightarrow> local_tx_state \<times> Result list \<times> seckill_svc" where
  "ExecuteLocalTransaction ok now body ttl s =
     (case decodeTransactionMessage body ttl of
        None \<Rightarrow> (RollbackMessageState, [], s)
      | Some (evt, _) \<Rightarrow>
          if \<not> ok then (UnknowState, [], s)
          else
            (let (code, r) = AtomicReserve (ev_activity evt) (ev_user_id evt) (ev_no evt) (ss_redis s);
                 s1 = s\<lparr>ss_redis := r\<rparr>
             in if code = 0 then (CommitMessageState, [], s1)
                else if code = 1 then
                  (let res = failed_result (ev_no evt) FailReasonOutOfStock
                   in (RollbackMessageState, [res], recordRollbackResult now (ev_no evt) res (MarkSoldOut (ev_activity evt) s1)))
                else if code = 2 then
                  (let res = failed_result (ev_no evt) FailReasonDuplicate
                   in (RollbackMessageState, [res], recordRollbackResult now (ev_no evt) res s1))
                else (UnknowState, [], s1)))"

definition CheckLocalTransaction ::
  "bool \<Rightarrow> int \<Rightarrow> Event option \<Rightarrow> string \<Rightarrow> seckill_svc \<Rightarrow> local_tx_state \<times> seckill_svc" where
  "CheckLocalTransaction ok now body ttl s =
     (case decodeTransactionMessage body ttl of
        None \<Rightarrow> (RollbackMessageState, s)
      | Some (evt, _) \<Rightarrow>
          (case lookupDecision now (ev_no evt) s of
             (Some d, s1) \<Rightarrow> (td_state d, s1)
           | (None, s1) \<Rightarrow>
               if \<not> ok then (UnknowState, s1)
               else
                 (let (code, r) = ResolveTransaction (ev_activity evt) (ev_user_id evt) (ev_no evt) (ss_redis s1)
                  in (if code = 1 then CommitMessageState else if code = 2 then RollbackMessageState else UnknowState,
                      s1\<lparr>ss_redis := r\<rparr>))))"

text \<open>\<open>SendMessageInTransaction\<close> sends a half message and, when the broker has stored it (\<open>send_ok\<close>), runs
  the listener and answers its state.\<close>

definition Producer_Submit ::
  "bool \<Rightarrow> bool \<Rightarrow> int \<Rightarrow> Event \<Rightarrow> int \<Rightarrow> seckill_svc
   \<Rightarrow> Result option \<times> seckill_error option \<times> Result list \<times> seckill_svc" where
  "Producer_Submit send_ok reserve_ok now evt ttl s =
     (if \<not> send_ok then (None, Some SkErrInfra, [], s)
      else
        (case ExecuteLocalTransaction reserve_ok now (Some evt) (format_int ttl) s of
           (RollbackMessageState, tasks, s1) \<Rightarrow>
             (case rollbackResult now (ev_no evt) s1 of
                (Some rollback, s2) \<Rightarrow> (Some rollback, Some (errorForFailReason (rs_reason rollback)), tasks, s2)
              | (None, s2) \<Rightarrow> (Some (failed_result (ev_no evt) FailReasonNone), Some SkErrRolledBack, tasks, s2))
         | (_, tasks, s1) \<Rightarrow> (Some (processing_result (ev_no evt)), None, tasks, s1)))"

section \<open>Use cases\<close>

record submit_env =
  sb_cache :: bool
  sb_db :: bool
  sb_set :: bool
  sb_send :: bool
  sb_reserve :: bool
  sb_now :: int

definition userMarkerTTL :: "int \<Rightarrow> int \<Rightarrow> int" where
  "userMarkerTTL now endTime =
     (let day = 24 * 60 * 60 * 1000; ttl = endTime - now + day
      in (if ttl < day then day else ttl) div 1000)"

definition Submit_Execute ::
  "submit_env \<Rightarrow> string \<Rightarrow> int \<Rightarrow> int \<Rightarrow> seckill_svc
   \<Rightarrow> Result option \<times> seckill_error option \<times> Result list \<times> seckill_svc" where
  "Submit_Execute env requestNo activityID userID s =
     (let now = sb_now env;
          closed = (\<lambda>e s. (Some \<lparr>rs_no = [], rs_status = RequestStatusFailed, rs_order = 0,
                                  rs_reason = FailReasonActivityNotOpen\<rparr>, Some e, [], s));
          go = (\<lambda>a s.
            if sa_status a \<noteq> ActivityStatusOnline then closed ErrActivityOffline s
            else if now < sa_start a then closed ErrActivityNotStarted s
            else if now > sa_end a then closed ErrActivityEnded s
            else if IsSoldOut (sa_id a) s
            then (Some \<lparr>rs_no = [], rs_status = RequestStatusFailed, rs_order = 0,
                        rs_reason = FailReasonOutOfStock\<rparr>, Some ErrOutOfStock, [], s)
            else
              (let evt = \<lparr>ev_no = requestNo, ev_activity = sa_id a, ev_user_id = userID,
                          ev_product = sa_product a, ev_sku = sa_sku a, ev_price = sa_price a\<rparr>
               in case Producer_Submit (sb_send env) (sb_reserve env) now evt (userMarkerTTL now (sa_end a)) s of
                    (result, err, tasks, s') \<Rightarrow>
                      (let tasks' = (case result of
                              Some r \<Rightarrow> if rs_status r = RequestStatusProcessing \<and> rs_no r \<noteq> []
                                        then tasks @ [processing_result (rs_no r)] else tasks
                            | None \<Rightarrow> tasks)
                       in (result, err, tasks', s'))))
      in case svc_GetActivity (sb_cache env) now activityID s of
           (Inl e, s1) \<Rightarrow> (None, Some e, [], s1)
         | (Inr (Some a), s1) \<Rightarrow> go a s1
         | (Inr None, s1) \<Rightarrow>
             (case activity_FindByID (sb_db env) activityID (ss_db s1) of
                Inl e \<Rightarrow> (None, Some e, [], s1)
              | Inr a \<Rightarrow> go a (snd (svc_SetActivity (sb_set env) now a s1))))"

definition CreateActivity_Execute ::
  "bool \<Rightarrow> bool \<Rightarrow> bool \<Rightarrow> int \<Rightarrow> SeckillActivity \<Rightarrow> seckill_svc \<Rightarrow> (seckill_error + int) \<times> seckill_svc" where
  "CreateActivity_Execute ok set_ok stock_ok now cmd s =
     (let a = cmd\<lparr>sa_available := sa_total cmd,
                  sa_status := (if sa_status cmd = ActivityStatusOther [] then ActivityStatusInit else sa_status cmd),
                  sa_limit := (if sa_limit cmd = 0 then 1 else sa_limit cmd), sa_version := 0\<rparr>
      in case activity_Create ok a (ss_db s) of
           (Inl e, d) \<Rightarrow> (Inl e, s\<lparr>ss_db := d\<rparr>)
         | (Inr k, d) \<Rightarrow>
             (let s1 = ClearSoldOut k (s\<lparr>ss_db := d\<rparr>);
                  s2 = snd (svc_SetActivity set_ok now (a\<lparr>sa_id := k\<rparr>) s1);
                  s3 = (if stock_ok then s2\<lparr>ss_redis := SetActivityStock k (sa_available a) (ss_redis s2)\<rparr> else s2)
              in (Inr k, s3)))"

definition UpdateActivityStatus_Execute ::
  "bool \<Rightarrow> bool \<Rightarrow> bool \<Rightarrow> int \<Rightarrow> int \<Rightarrow> activity_status \<Rightarrow> seckill_svc \<Rightarrow> (seckill_error + unit) \<times> seckill_svc" where
  "UpdateActivityStatus_Execute ok find_ok set_ok now k st s =
     (case activity_UpdateStatus ok k st (ss_db s) of
        (Inl e, d) \<Rightarrow> (Inl e, s\<lparr>ss_db := d\<rparr>)
      | (Inr _, d) \<Rightarrow>
          (case activity_FindByID find_ok k d of
             Inl e \<Rightarrow> (Inl e, s\<lparr>ss_db := d\<rparr>)
           | Inr a \<Rightarrow> svc_SetActivity set_ok now a (ClearSoldOut k (s\<lparr>ss_db := d\<rparr>))))"

definition GetActivity_Execute ::
  "bool \<Rightarrow> bool \<Rightarrow> bool \<Rightarrow> int \<Rightarrow> int \<Rightarrow> seckill_svc \<Rightarrow> (seckill_error + SeckillActivity) \<times> seckill_svc" where
  "GetActivity_Execute cache_ok db_ok set_ok now k s =
     (case svc_GetActivity cache_ok now k s of
        (Inl e, s1) \<Rightarrow> (Inl e, s1)
      | (Inr (Some a), s1) \<Rightarrow> (Inr a, s1)
      | (Inr None, s1) \<Rightarrow>
          (case activity_FindByID db_ok k (ss_db s1) of
             Inl e \<Rightarrow> (Inl e, s1)
           | Inr a \<Rightarrow> (Inr a, snd (svc_SetActivity set_ok now a s1))))"

definition result_of_request :: "Request \<Rightarrow> Result" where
  "result_of_request r = \<lparr>rs_no = rq_no r, rs_status = rq_status r, rs_order = rq_order_id r, rs_reason = rq_reason r\<rparr>"

definition GetResult_Execute ::
  "bool \<Rightarrow> bool \<Rightarrow> bool \<Rightarrow> string \<Rightarrow> seckill_svc \<Rightarrow> (seckill_error + Result) \<times> seckill_svc" where
  "GetResult_Execute cache_ok db_ok set_ok no s =
     (if \<not> cache_ok then (Inl SkErrInfra, s)
      else
        (case GetResult no (ss_redis s) of
           Some res \<Rightarrow> (Inr res, s)
         | None \<Rightarrow>
             (case request_FindByRequestNo db_ok no (ss_db s) of
                Inl e \<Rightarrow> (Inl e, s)
              | Inr r \<Rightarrow> (Inr (result_of_request r), snd (svc_SetResult set_ok (result_of_request r) s)))))"

definition GetResult_ExecuteForUser ::
  "bool \<Rightarrow> bool \<Rightarrow> bool \<Rightarrow> string \<Rightarrow> int \<Rightarrow> seckill_svc \<Rightarrow> (seckill_error + Result) \<times> seckill_svc" where
  "GetResult_ExecuteForUser db_ok cache_ok set_ok no uid s =
     (case request_FindByRequestNo db_ok no (ss_db s) of
        Inl e \<Rightarrow> (Inl e, s)
      | Inr r \<Rightarrow>
          if rq_user_id r \<noteq> uid then (Inl ErrRequestNotFound, s)
          else if \<not> cache_ok then (Inl SkErrInfra, s)
          else
            (case GetResult no (ss_redis s) of
               Some res \<Rightarrow> (Inr res, s)
             | None \<Rightarrow> (Inr (result_of_request r), snd (svc_SetResult set_ok (result_of_request r) s))))"

section \<open>gRPC handler\<close>

definition handler_SubmitSeckill ::
  "submit_env \<Rightarrow> string \<Rightarrow> int \<Rightarrow> int \<Rightarrow> seckill_svc
   \<Rightarrow> (seckill_error + (string \<times> request_status \<times> fail_reason)) \<times> Result list \<times> seckill_svc" where
  "handler_SubmitSeckill env no aid uid s =
     (case Submit_Execute env no aid uid s of
        (None, Some e, tasks, s') \<Rightarrow> (Inl e, tasks, s')
      | (Some r, _, tasks, s') \<Rightarrow> (Inr (rs_no r, rs_status r, rs_reason r), tasks, s')
      | (None, None, tasks, s') \<Rightarrow> (Inl SkErrInfra, tasks, s'))"

definition handler_GetSeckillResult ::
  "bool \<Rightarrow> bool \<Rightarrow> bool \<Rightarrow> string \<Rightarrow> seckill_svc
   \<Rightarrow> (seckill_error + (string \<times> request_status \<times> int \<times> fail_reason)) \<times> seckill_svc" where
  "handler_GetSeckillResult cache_ok db_ok set_ok no s =
     (case GetResult_Execute cache_ok db_ok set_ok no s of
        (Inl e, s') \<Rightarrow> (Inl e, s')
      | (Inr r, s') \<Rightarrow> (Inr (rs_no r, rs_status r, rs_order r, rs_reason r), s'))"

end
