(* ===== verification/SeckillFlow.thy ===== *)
theory SeckillFlow
  imports SeckillProps SeckillMQ
begin

text \<open>
  Facts on the message handlers of the flash-sale service: what each transaction leaves in the row of
  a request when it commits, what reaches the result keys, and the composition of both in the
  processor and the order status consumer.
\<close>

section \<open>The row of a request\<close>

definition row_status :: "string \<Rightarrow> request_status \<Rightarrow> seckill_db \<Rightarrow> bool" where
  "row_status no st d \<longleftrightarrow> (\<exists>r. find_row sr_no no (sd_requests d) = Some r \<and> sr_status r = st)"

definition redis_status :: "string \<Rightarrow> request_status \<Rightarrow> seckill_svc \<Rightarrow> bool" where
  "redis_status no st s \<longleftrightarrow> rd_status (ss_redis s) no = Some st"

lemma row_status_unique: "row_status no st d \<Longrightarrow> row_status no st' d \<Longrightarrow> st = st'"
  by (auto simp: row_status_def)

lemma set_request_row:
  assumes "find_row sr_no no (sd_requests d) = Some req" "c (sr_status req)"
  shows "row_status no st (snd (set_request no c st re d))"
  using assms find_row_SomeD [OF assms(1)]
  by (auto simp: row_status_def set_request_def Let_def find_row_update)

lemma set_request_row_eq:
  assumes "set_request no c st re d = (n, d')" "find_row sr_no no rs = Some req" "sd_requests d = rs" "c (sr_status req)"
  shows "row_status no st d'"
  using set_request_row [of no d req c st re] assms by simp

lemma row_status_find: "find_row sr_no no (sd_requests d) = Some r \<Longrightarrow> row_status no st d \<longleftrightarrow> sr_status r = st"
  by (auto simp: row_status_def)

lemma take_stock_requests: "take_stock now a d = (n, d') \<Longrightarrow> sd_requests d' = sd_requests d"
  by (auto simp: take_stock_def Let_def)

lemma delete_give_requests [simp]:
  "sd_requests (delete_qual a u no d) = sd_requests d" "sd_requests (give_stock a d) = sd_requests d"
  "sd_requests (snd (take_stock now a d)) = sd_requests d"
  by (simp_all add: delete_qual_def give_stock_def take_stock_def Let_def)

lemma toDomainRequest_fields [simp]:
  "rq_status (toDomainRequest m) = sr_status m" "rq_no (toDomainRequest m) = sr_no m"
  "rq_activity_id (toDomainRequest m) = sr_activity m" "rq_user_id (toDomainRequest m) = sr_user m"
  "rq_reason (toDomainRequest m) = sr_reason m"
  by (simp_all add: toDomainRequest_def Let_def)

lemma request_with_status [simp]: "rq_status (request_with m st re) = st"
  by (simp add: request_with_def)

lemma AdvanceProcessing_ok:
  assumes "AdvanceProcessing ok now evt d = (Inr req, d')"
  shows "row_status (ev_no evt) (rq_status req) d' \<and> rq_status req \<in> {RequestStatusOrderCreating, RequestStatusSuccess, RequestStatusFailed}"
  using assms
  by (auto simp: AdvanceProcessing_def AdvanceProcessing_body_def run_tx_def Let_def row_status_find
      elim!: set_request_row_eq dest!: take_stock_requests
      split: if_splits option.splits prod.splits sum.splits)

lemma CompleteOrderCreating_ok:
  assumes "CompleteOrderCreating ok evt d = (Inr req, d')"
  shows "row_status (ev_no evt) RequestStatusSuccess d'"
  using assms
  by (auto simp: CompleteOrderCreating_def CompleteOrderCreating_body_def run_tx_def Let_def row_status_find
      elim!: set_request_row_eq split: if_splits option.splits prod.splits sum.splits)

lemma RollbackOrderCreating_ok:
  assumes "RollbackOrderCreating ok evt re d = (Inr req, d')"
  shows "row_status (ev_no evt) RequestStatusFailed d'"
  using assms
  by (auto simp: RollbackOrderCreating_def RollbackOrderCreating_body_def run_tx_def Let_def row_status_find
      elim!: set_request_row_eq split: if_splits option.splits prod.splits sum.splits)

section \<open>The result keys\<close>

lemma svc_SetResult_ok:
  "svc_SetResult ok res s = (Inr u, s') \<Longrightarrow> ss_db s' = ss_db s \<and> redis_status (rs_no res) (rs_status res) s'"
  by (auto simp: svc_SetResult_def redis_status_def SetResult_def set_result_keys_def split: if_splits)

lemma compensateAndClear_ok:
  "compensateAndClear env a u no res s = (Inr x, s') \<Longrightarrow> ss_db s' = ss_db s \<and> redis_status no (rs_status res) s'"
  by (auto simp: compensateAndClear_def redis_status_def Compensate_def set_result_keys_def Let_def ClearSoldOut_def
      split: if_splits)

lemma result_fields [simp]:
  "rs_status (failed_result no re) = RequestStatusFailed" "rs_no (failed_result no re) = no"
  "rs_status (success_result no k) = RequestStatusSuccess" "rs_no (success_result no k) = no"
  by (simp_all add: failed_result_def success_result_def)

definition settled :: "string \<Rightarrow> seckill_svc \<Rightarrow> bool" where
  "settled no s \<longleftrightarrow> (\<exists>st \<in> {RequestStatusSuccess, RequestStatusFailed}. row_status no st (ss_db s) \<and> redis_status no st s)"

lemma settled_compensate:
  "compensateAndClear env a u no (failed_result no re) s = (Inr x, s') \<Longrightarrow> row_status no RequestStatusFailed (ss_db s) \<Longrightarrow> settled no s'"
  using compensateAndClear_ok [of env a u no "failed_result no re" s x s'] by (simp add: settled_def)

lemma settled_result:
  "svc_SetResult ok (success_result no k) s = (Inr x, s') \<Longrightarrow> row_status no RequestStatusSuccess (ss_db s) \<Longrightarrow> settled no s'"
  using svc_SetResult_ok [of ok "success_result no k" s x s'] by (simp add: settled_def)

lemma completeAndPublish_settled:
  "completeAndPublish env evt s = (Inr x, s') \<Longrightarrow> settled (ev_no evt) s'"
  by (auto simp: completeAndPublish_def split: prod.splits sum.splits
      intro!: settled_result dest: CompleteOrderCreating_ok)

lemma rollbackOrderCreating_settled:
  "rollbackOrderCreating env evt re s = (Inr x, s') \<Longrightarrow> settled (ev_no evt) s'"
  by (auto simp: rollbackOrderCreating_def split: prod.splits sum.splits
      intro!: settled_compensate dest: RollbackOrderCreating_ok)

lemma processOrderCreating_settled:
  "processOrderCreating env create evt (s, os) = (Inr x, s', os') \<Longrightarrow> settled (ev_no evt) s'"
  by (auto simp: processOrderCreating_def split: prod.splits sum.splits option.splits if_splits
      intro: completeAndPublish_settled rollbackOrderCreating_settled)

lemma processProcessing_settled:
  assumes "processProcessing env create evt (s, os) = (Inr x, s', os')"
  shows "settled (ev_no evt) s'"
  using assms
  by (auto simp: processProcessing_def Let_def split: prod.splits sum.splits request_status.splits
      intro: processOrderCreating_settled settled_compensate settled_result dest!: AdvanceProcessing_ok)

lemma ensureRequest_ok:
  assumes "ensureRequest env evt s = (Inr req, s')"
  shows "row_status (ev_no evt) (rq_status req) (ss_db s')"
  using assms
  by (auto simp: ensureRequest_def Let_def request_FindByRequestNo_def request_Create_def row_status_def
      find_row_append split: prod.splits sum.splits option.splits if_splits
      dest!: find_row_SomeD)

section \<open>Handlers that return\<close>

definition all_ok :: "process_env \<Rightarrow> bool" where
  "all_ok env \<longleftrightarrow> pv_find env \<and> pv_create env \<and> pv_find2 env \<and> pv_mark env \<and> pv_cache env
     \<and> (\<forall>k. pv_advance env k) \<and> (\<forall>k. pv_complete env k) \<and> (\<forall>k. pv_rollback env k)"

lemma set_request_hit:
  assumes "set_request no c st re d = (n, d')" "find_row sr_no no rs = Some req" "sd_requests d = rs" "c (sr_status req)"
  shows "0 < n"
  using assms find_row_SomeD [OF assms(2)] by (auto simp: set_request_def Let_def rows_affected_zero neq0_conv [symmetric] simp del: neq0_conv)

lemma AdvanceProcessing_returns:
  assumes "\<And>k. ok k" "find_row sr_no (ev_no evt) (sd_requests d) = Some r" "\<And>x. sr_status r \<noteq> RequestStatusOther x"
  shows "is_ok (fst (AdvanceProcessing ok now evt d))"
proof (cases "sr_status r = RequestStatusProcessing")
  case True
  then show ?thesis using assms(1,2)
    by (auto simp: AdvanceProcessing_def run_tx_result AdvanceProcessing_body_def Let_def
        split: prod.splits dest!: take_stock_requests dest: set_request_hit)
next
  case False
  then show ?thesis using assms
    by (cases "sr_status r") (auto simp: AdvanceProcessing_def run_tx_result AdvanceProcessing_body_def)
qed

lemma CompleteOrderCreating_returns:
  assumes "\<And>k. ok k" "row_status (ev_no evt) RequestStatusOrderCreating d"
  shows "is_ok (fst (CompleteOrderCreating ok evt d))"
  using assms by (auto simp: CompleteOrderCreating_def run_tx_result CompleteOrderCreating_body_def row_status_def Let_def
        split: prod.splits dest: set_request_hit)

lemma RollbackOrderCreating_returns:
  assumes "\<And>k. ok k" "row_status (ev_no evt) RequestStatusOrderCreating d"
  shows "is_ok (fst (RollbackOrderCreating ok evt re d))"
proof -
  obtain r where r: "find_row sr_no (ev_no evt) (sd_requests d) = Some r" "sr_status r = RequestStatusOrderCreating"
    using assms(2) by (auto simp: row_status_def)
  have "set_request (ev_no evt) (\<lambda>st. st = RequestStatusOrderCreating) RequestStatusFailed re
      (delete_qual (ev_activity evt) (ev_user_id evt) (ev_no evt) (give_stock (ev_activity evt) d)) = (n, d') \<Longrightarrow> n \<noteq> 0" for n d'
    using set_request_hit [OF _ r(1)] r(2) by auto
  then show ?thesis using assms(1) r
    by (auto simp: RollbackOrderCreating_def run_tx_result RollbackOrderCreating_body_def Let_def split: prod.splits)
qed

lemma is_okE: "is_ok r \<Longrightarrow> (\<And>x. r = Inr x \<Longrightarrow> P) \<Longrightarrow> P"
  by (cases r) auto

lemma processOrderCreating_returns:
  assumes "all_ok env" "OrderIDFromRequestNo (ev_no evt) = Some oid"
    and "\<And>e os'. create (seckill_order_req oid evt) os = (Inl e, os') \<Longrightarrow> isExplicitCreateOrderFailure e"
    and "row_status (ev_no evt) RequestStatusOrderCreating (ss_db s)"
  shows "is_ok (fst (processOrderCreating env create evt (s, os)))"
proof (cases "create (seckill_order_req oid evt) os")
  case (Pair r os')
  show ?thesis
  proof (cases r)
    case (Inl e)
    have "is_ok (fst (RollbackOrderCreating (pv_rollback env) evt FailReasonCreateOrderFail (ss_db s)))"
      by (rule RollbackOrderCreating_returns) (use assms in \<open>auto simp: all_ok_def\<close>)
    then show ?thesis using Inl Pair assms
      by (auto elim!: is_okE simp: processOrderCreating_def rollbackOrderCreating_def compensateAndClear_def all_ok_def
          split: prod.splits)
  next
    case (Inr k)
    have "is_ok (fst (CompleteOrderCreating (pv_complete env) evt (ss_db s)))"
      by (rule CompleteOrderCreating_returns) (use assms in \<open>auto simp: all_ok_def\<close>)
    then show ?thesis using Inr Pair assms
      by (auto elim!: is_okE simp: processOrderCreating_def completeAndPublish_def svc_SetResult_def all_ok_def
          split: prod.splits)
  qed
qed

lemma processProcessing_returns:
  assumes "all_ok env" "OrderIDFromRequestNo (ev_no evt) = Some oid"
    and "\<And>e os'. create (seckill_order_req oid evt) os = (Inl e, os') \<Longrightarrow> isExplicitCreateOrderFailure e"
    and "row_status (ev_no evt) RequestStatusProcessing (ss_db s)"
  shows "is_ok (fst (processProcessing env create evt (s, os)))"
proof -
  have "is_ok (fst (AdvanceProcessing (pv_advance env) (pv_now env) evt (ss_db s)))"
    using assms(1,4) by (auto simp: row_status_def all_ok_def intro!: AdvanceProcessing_returns)
  then obtain req d where a: "AdvanceProcessing (pv_advance env) (pv_now env) evt (ss_db s) = (Inr req, d)"
    by (elim is_okE) (metis prod.collapse)
  have r: "row_status (ev_no evt) (rq_status req) d" "rq_status req \<in> {RequestStatusOrderCreating, RequestStatusSuccess, RequestStatusFailed}"
    using AdvanceProcessing_ok [OF a] by auto
  have oc: "rq_status req = RequestStatusOrderCreating \<Longrightarrow> is_ok (fst (processOrderCreating env create evt (s\<lparr>ss_db := d\<rparr>, os)))"
    by (rule processOrderCreating_returns [OF assms(1,2)]) (use assms(3) r in auto)
  show ?thesis using assms(1) r(2) oc
    by (auto simp: processProcessing_def a svc_SetResult_def compensateAndClear_def all_ok_def)
qed

lemma ensureRequest_returns:
  assumes "all_ok env" "\<And>r x. find_row sr_no (ev_no evt) (sd_requests (ss_db s)) = Some r \<Longrightarrow> sr_status r \<noteq> RequestStatusOther x"
  shows "\<exists>req s1. ensureRequest env evt s = (Inr req, s1) \<and> (\<forall>x. rq_status req \<noteq> RequestStatusOther x)"
proof (cases "find_row sr_no (ev_no evt) (sd_requests (ss_db s))")
  case None
  then have "ev_no evt \<notin> sr_no ` set (sd_requests (ss_db s))" by (simp add: find_row_None_iff)
  then show ?thesis using assms None
    by (auto simp: ensureRequest_def request_FindByRequestNo_def request_Create_def all_ok_def)
next
  case (Some r)
  then show ?thesis using assms by (auto simp: ensureRequest_def request_FindByRequestNo_def all_ok_def)
qed

end
