(* ===== verification/SeckillSpec.thy ===== *)
theory SeckillSpec
  imports SeckillFlow
begin

text \<open>
  The properties of the flash-sale service: no activity sells more than its stock and no user twice,
  in every interleaving; Redis reservations are conserved; what a submission, a delivery, a dead
  letter and an order closure do on every branch.
\<close>

section \<open>Stock and users\<close>

lemma held_count_le:
  assumes "seckill_inv ev d"
  shows "rows_affected (\<lambda>r. sr_activity r = a \<and> holds_stock (sr_status r)) (sd_requests d) \<le> qual_count a (sd_quals d)"
proof -
  let ?rs = "filter (\<lambda>r. sr_activity r = a \<and> holds_stock (sr_status r)) (sd_requests d)"
  let ?qs = "filter (\<lambda>q. sq_activity q = a) (sd_quals d)"
  have d: "distinct (map sr_no ?rs)" using assms by (simp add: seckill_inv_def reqs_ok_def distinct_map_filter)
  have sub: "sr_no ` set ?rs \<subseteq> sq_no ` set ?qs"
  proof
    fix no assume "no \<in> sr_no ` set ?rs"
    then obtain r where r: "r \<in> set (sd_requests d)" "sr_no r = no" "sr_activity r = a" "holds_stock (sr_status r)" by auto
    then obtain q where "q \<in> set (sd_quals d)" "sq_no q = no"
      using assms by (auto simp: seckill_inv_def reqs_ok_def)
    moreover from this have "sq_activity q = a"
      using assms r by (auto simp: seckill_inv_def reqs_ok_def quals_ok_def qual_key_def)
    ultimately show "no \<in> sq_no ` set ?qs" by auto
  qed
  have "length ?rs = card (sr_no ` set ?rs)" using distinct_card [OF d] by simp
  also have "\<dots> \<le> card (sq_no ` set ?qs)" by (intro card_mono sub) simp
  also have "\<dots> \<le> length ?qs" using card_image_le [of "set ?qs" sq_no] card_length [of ?qs] by simp
  finally show ?thesis by (simp add: rows_affected_def qual_count_def)
qed

text \<open>C8: no flash sale oversells.  Whatever transactions interleave, each activity's available stock is its
  total minus the qualifications issued, at least as many qualifications exist as requests that got
  or are getting an order, and the available stock never drops below zero.\<close>

theorem seckill_no_oversell:
  assumes "event_of ev" "(seckill_step ev)\<^sup>*\<^sup>* seckill_init d" "a \<in> set (sd_activities d)"
  shows "sa_available a + int (qual_count (sa_id a) (sd_quals d)) = sa_total a
    \<and> rows_affected (\<lambda>r. sr_activity r = sa_id a \<and> holds_stock (sr_status r)) (sd_requests d)
        \<le> qual_count (sa_id a) (sd_quals d)
    \<and> (0 \<le> sa_total a \<longrightarrow> 0 \<le> sa_available a)"
proof -
  have inv: "seckill_inv ev d" by (rule seckill_steps_inv [OF assms(2,1) seckill_init_inv])
  then show ?thesis using assms(3) held_count_le [OF inv, of "sa_id a"]
    by (auto simp: seckill_inv_def acts_ok_def)
qed

definition sample_activity :: SeckillActivity where
  "sample_activity = \<lparr>sa_id = 1, sa_name = ''a'', sa_product = 7, sa_sku = 70, sa_price = 99, sa_total = 1,
     sa_available = 1, sa_start = 0, sa_end = 1000, sa_status = ActivityStatusOnline, sa_limit = 1, sa_version = 0\<rparr>"

definition sample_event :: "string \<Rightarrow> Event" where
  "sample_event no = \<lparr>ev_no = no, ev_activity = 1, ev_user_id = (if no = ''11'' then 5 else 6),
     ev_product = 7, ev_sku = 70, ev_price = 99\<rparr>"

definition sample_req :: "string \<Rightarrow> Request" where
  "sample_req no = \<lparr>rq_no = no, rq_activity_id = 1, rq_user_id = (if no = ''11'' then 5 else 6),
     rq_status = RequestStatusProcessing, rq_order_id = 0, rq_reason = FailReasonNone\<rparr>"

definition sd1 :: seckill_db where "sd1 = snd (activity_Create True sample_activity seckill_init)"
definition sd2 :: seckill_db where "sd2 = snd (request_Create True (sample_req ''11'') sd1)"
definition sd3 :: seckill_db where "sd3 = snd (AdvanceProcessing (\<lambda>_. True) 10 (sample_event ''11'') sd2)"

lemma sample_event_of: "event_of sample_event"
  by (simp add: event_of_def sample_event_def)

lemma sd_steps: "(seckill_step sample_event)\<^sup>*\<^sup>* seckill_init sd2" "(seckill_step sample_event)\<^sup>*\<^sup>* seckill_init sd3"
proof -
  have 1: "seckill_step sample_event seckill_init sd1"
    unfolding sd1_def by (rule sk_activity) (simp add: sample_activity_def)
  have 2: "seckill_step sample_event sd1 sd2"
    unfolding sd2_def by (rule sk_request [where no = "''11''"]) (simp add: sample_req_def sample_event_def)
  have 3: "seckill_step sample_event sd2 sd3" unfolding sd3_def by (rule sk_advance)
  show "(seckill_step sample_event)\<^sup>*\<^sup>* seckill_init sd2" using 1 2 by auto
  then show "(seckill_step sample_event)\<^sup>*\<^sup>* seckill_init sd3" using 3 by auto
qed

lemma sd2_eq: "sd2 = \<lparr>sd_activities = [sample_activity], sd_next = 2,
    sd_requests = [\<lparr>sr_no = ''11'', sr_activity = 1, sr_user = 5, sr_status = RequestStatusProcessing, sr_reason = FailReasonNone\<rparr>],
    sd_quals = []\<rparr>"
  by (simp add: sd2_def sd1_def activity_Create_def request_Create_def sample_req_def seckill_init_def sample_activity_def)

lemma sd3_eq: "sd3 = \<lparr>sd_activities = [sample_activity\<lparr>sa_available := 0, sa_version := 1\<rparr>], sd_next = 2,
    sd_requests = [\<lparr>sr_no = ''11'', sr_activity = 1, sr_user = 5, sr_status = RequestStatusOrderCreating, sr_reason = FailReasonNone\<rparr>],
    sd_quals = [\<lparr>sq_activity = 1, sq_user = 5, sq_no = ''11''\<rparr>]\<rparr>"
  by (simp add: sd3_def sd2_eq AdvanceProcessing_def AdvanceProcessing_body_def run_tx_def sample_event_def
      take_stock_def set_request_def sample_activity_def Let_def)

lemma seckill_no_oversell_witness:
  "(seckill_step sample_event)\<^sup>*\<^sup>* seckill_init sd3
   \<and> rows_affected (\<lambda>r. sr_activity r = 1 \<and> holds_stock (sr_status r)) (sd_requests sd3) \<le> 1"
proof -
  let ?a = "sample_activity\<lparr>sa_available := 0, sa_version := 1\<rparr>"
  have a: "?a \<in> set (sd_activities sd3)" by (simp add: sd3_eq)
  have q: "qual_count 1 (sd_quals sd3) = 1" by (simp add: sd3_eq qual_count_def)
  have i: "sa_id ?a = 1" by (simp add: sample_activity_def)
  show ?thesis using seckill_no_oversell [OF sample_event_of sd_steps(2) a] sd_steps(2) q i by simp
qed

lemma held_in:
  "seckill_inv ev d \<Longrightarrow> r \<in> set (sd_requests d) \<Longrightarrow> holds_stock (sr_status r) \<Longrightarrow> sr_no r \<in> sq_no ` set (sd_quals d)"
  unfolding seckill_inv_def reqs_ok_def by blast

text \<open>C9: no user gets two orders of one activity: of the requests of one user for one activity, at most
  one is creating an order or has one.\<close>

theorem seckill_one_per_user:
  assumes "event_of ev" "(seckill_step ev)\<^sup>*\<^sup>* seckill_init d"
    and "r1 \<in> set (sd_requests d)" "r2 \<in> set (sd_requests d)"
    and "sr_activity r1 = sr_activity r2" "sr_user r1 = sr_user r2"
    and "holds_stock (sr_status r1)" "holds_stock (sr_status r2)"
  shows "r1 = r2"
proof -
  have inv: "seckill_inv ev d" by (rule seckill_steps_inv [OF assms(2,1) seckill_init_inv])
  obtain q1 q2 where q: "q1 \<in> set (sd_quals d)" "sq_no q1 = sr_no r1" "q2 \<in> set (sd_quals d)" "sq_no q2 = sr_no r2"
    using held_in [OF inv assms(3,7)] held_in [OF inv assms(4,8)] by (metis imageE)
  have "qual_key q1 = qual_key q2"
    using inv assms(3-6) q by (auto simp: seckill_inv_def reqs_ok_def quals_ok_def)
  then have "q1 = q2" using inv q by (auto simp: seckill_inv_def quals_ok_def distinct_map inj_on_def)
  then have "sr_no r1 = sr_no r2" using q by simp
  then show ?thesis using inv assms(3,4) by (auto simp: seckill_inv_def reqs_ok_def distinct_map inj_on_def)
qed

lemma seckill_one_per_user_witness:
  "\<exists>r \<in> set (sd_requests sd3). holds_stock (sr_status r) \<and> (\<forall>r' \<in> set (sd_requests sd3). r' = r)"
proof -
  let ?r = "\<lparr>sr_no = ''11'', sr_activity = 1, sr_user = 5, sr_status = RequestStatusOrderCreating, sr_reason = FailReasonNone\<rparr>"
  have r: "?r \<in> set (sd_requests sd3)" by (simp add: sd3_eq)
  have all: "r' = ?r" if "r' \<in> set (sd_requests sd3)" for r'
    using that by (intro seckill_one_per_user [OF sample_event_of sd_steps(2) that r]) (auto simp: sd3_eq holds_stock_def)
  show ?thesis
  proof (rule bexI [OF _ r], intro conjI ballI)
    show "holds_stock (sr_status ?r)" by (simp add: holds_stock_def)
  qed (rule all)
qed

text \<open>C10: the Redis reservations are conserved.  Through any run of the three scripts and the result writes
  the stock key plus the user markers of an activity stay equal to the quota the sale was opened with,
  and the stock key never goes negative: no compensation, however often repeated, returns stock that
  was not reserved.\<close>

theorem redis_reservations_conserved:
  assumes "redis_step\<^sup>*\<^sup>* r r'" "distinct (map fst (rd_marker r))"
    and "\<forall>k. stock_line (quota k) (rd_stock r k) (marker_count k (rd_marker r))" "rd_stock r' a = Some s"
  shows "0 \<le> s \<and> s + int (marker_count a (rd_marker r')) = quota a"
proof -
  have "redis_inv quota r'" using redis_steps_inv [OF assms(1), of quota] assms(2,3) by (simp add: redis_inv_def)
  then have "stock_line (quota a) (rd_stock r' a) (marker_count a (rd_marker r'))" by (simp add: redis_inv_def)
  then show ?thesis using assms(4) by (simp add: stock_line_def)
qed

definition open_redis :: seckill_redis where
  "open_redis = \<lparr>rd_stock = (\<lambda>k. if k = 1 then Some 1 else None), rd_marker = [], rd_status = (\<lambda>_. None),
     rd_data = (\<lambda>_. None), rd_activity = (\<lambda>_. None)\<rparr>"

definition reserved_redis :: seckill_redis where
  "reserved_redis = snd (AtomicReserve 1 5 ''11'' open_redis)"

lemma redis_reservations_conserved_witness:
  "rd_stock reserved_redis 1 = Some 0 \<and> marker_count 1 (rd_marker reserved_redis) = 1"
proof -
  have s: "rd_stock reserved_redis 1 = Some 0" by (simp add: reserved_redis_def open_redis_def AtomicReserve_def)
  have st: "redis_step\<^sup>*\<^sup>* open_redis reserved_redis" unfolding reserved_redis_def using rs_reserve by blast
  show ?thesis
    using redis_reservations_conserved [OF st _ _ s, of "\<lambda>k. if k = 1 then 1 else 0"] s
    by (simp add: open_redis_def stock_line_def marker_count_def)
qed

section \<open>Submission\<close>

text \<open>With Redis answering, a submission is accepted exactly when the user holds no marker and stock is
  left; it then takes one unit and marks the user with its request number.  Otherwise it is refused
  with the matching reason and takes nothing.\<close>

theorem submit_reserves:
  assumes "0 < ttl" "in64 ttl" "a = ev_activity evt" "u = ev_user_id evt"
    and "Producer_Submit True True now evt ttl s = (Some res, err, tasks, s')"
  shows "(map_of (rd_marker (ss_redis s)) (a, u) = None \<and> (\<exists>n > 0. rd_stock (ss_redis s) a = Some n) \<longrightarrow>
            res = processing_result (ev_no evt) \<and> err = None
          \<and> rd_stock (ss_redis s') a = map_option (\<lambda>n. n - 1) (rd_stock (ss_redis s) a)
          \<and> map_of (rd_marker (ss_redis s')) (a, u) = Some (ev_no evt))
       \<and> (map_of (rd_marker (ss_redis s)) (a, u) \<noteq> None \<longrightarrow>
            res = failed_result (ev_no evt) FailReasonDuplicate \<and> err = Some ErrDuplicateSeckill
          \<and> ss_redis s' = ss_redis s)
       \<and> (map_of (rd_marker (ss_redis s)) (a, u) = None \<and> \<not> (\<exists>n > 0. rd_stock (ss_redis s) a = Some n) \<longrightarrow>
            res = failed_result (ev_no evt) FailReasonOutOfStock \<and> err = Some ErrOutOfStock
          \<and> ss_redis s' = ss_redis s \<and> IsSoldOut a s')"
proof -
  have dec: "decodeTransactionMessage (Some evt) (format_int ttl) = Some (evt, ttl)"
    using assms(1,2) by (simp add: decodeTransactionMessage_def parse_format_int)
  have rb: "rollbackResult now no (recordRollbackResult now no r t)
      = (Some r, cleanupExpired now (recordRollbackResult now no r t))" for no r and t :: seckill_svc
    by (simp add: rollbackResult_def lookupDecision_def recordRollbackResult_def cleanupExpired_def
        transactionDecisionTTL_def Let_def)
  have keep: "ss_redis (cleanupExpired now t) = ss_redis t" "ss_soldout (cleanupExpired now t) = ss_soldout t"
    "ss_redis (recordRollbackResult now no r t) = ss_redis t" "ss_soldout (recordRollbackResult now no r t) = ss_soldout t"
    "ss_redis (MarkSoldOut k t) = ss_redis t" for no r k and t :: seckill_svc
    by (simp_all add: cleanupExpired_def recordRollbackResult_def MarkSoldOut_def Let_def)
  consider (dup) v where "map_of (rd_marker (ss_redis s)) (a, u) = Some v"
    | (out) "map_of (rd_marker (ss_redis s)) (a, u) = None" "\<not> (\<exists>n > 0. rd_stock (ss_redis s) a = Some n)"
    | (ok) n where "map_of (rd_marker (ss_redis s)) (a, u) = None" "rd_stock (ss_redis s) a = Some n" "0 < n"
    by (cases "map_of (rd_marker (ss_redis s)) (a, u)") auto
  then show ?thesis
  proof cases
    case dup
    let ?res = "failed_result (ev_no evt) FailReasonDuplicate"
    let ?t = "recordRollbackResult now (ev_no evt) ?res s"
    have "AtomicReserve a u (ev_no evt) (ss_redis s) = (2, ss_redis s)" using dup by (simp add: AtomicReserve_def)
    then have "Producer_Submit True True now evt ttl s
        = (Some ?res, Some ErrDuplicateSeckill, [?res], cleanupExpired now ?t)"
      using assms(3,4) by (simp add: Producer_Submit_def ExecuteLocalTransaction_def dec rb Let_def errorForFailReason_def failed_result_def)
    then have "res = ?res" "err = Some ErrDuplicateSeckill" "s' = cleanupExpired now ?t" using assms(5) by auto
    then show ?thesis using dup keep by simp
  next
    case out
    let ?res = "failed_result (ev_no evt) FailReasonOutOfStock"
    let ?t = "recordRollbackResult now (ev_no evt) ?res (MarkSoldOut a s)"
    have "AtomicReserve a u (ev_no evt) (ss_redis s) = (1, ss_redis s)"
      using out by (cases "rd_stock (ss_redis s) a") (auto simp: AtomicReserve_def not_less)
    then have "Producer_Submit True True now evt ttl s
        = (Some ?res, Some ErrOutOfStock, [?res], cleanupExpired now ?t)"
      using assms(3,4) by (simp add: Producer_Submit_def ExecuteLocalTransaction_def dec rb Let_def errorForFailReason_def failed_result_def)
    then have "res = ?res" "err = Some ErrOutOfStock" "s' = cleanupExpired now ?t" using assms(5) by auto
    moreover have "IsSoldOut a (cleanupExpired now ?t)" by (simp add: IsSoldOut_def keep) (simp add: MarkSoldOut_def)
    ultimately show ?thesis using out keep by simp
  next
    case ok
    let ?r = "(ss_redis s)\<lparr>rd_stock := (rd_stock (ss_redis s))(a := Some (n - 1)),
        rd_marker := rd_marker (ss_redis s) @ [((a, u), ev_no evt)]\<rparr>"
    have "AtomicReserve a u (ev_no evt) (ss_redis s) = (0, ?r)" using ok by (simp add: AtomicReserve_def)
    then have "Producer_Submit True True now evt ttl s = (Some (processing_result (ev_no evt)), None, [], s\<lparr>ss_redis := ?r\<rparr>)"
      using assms(3,4) by (simp add: Producer_Submit_def ExecuteLocalTransaction_def dec Let_def)
    then have "res = processing_result (ev_no evt)" "err = None" "s' = s\<lparr>ss_redis := ?r\<rparr>" using assms(5) by auto
    then show ?thesis using ok by (simp add: map_add_def)
  qed
qed

definition open_svc :: seckill_svc where
  "open_svc = \<lparr>ss_db = sd1, ss_redis = open_redis, ss_local = (\<lambda>_. None), ss_soldout = [], ss_decisions = []\<rparr>"

lemma submit_reserves_witness:
  "\<exists>s'. Producer_Submit True True 10 (sample_event ''11'') 86400 open_svc
     = (Some (processing_result ''11''), None, [], s') \<and> map_of (rd_marker (ss_redis s')) (1, 5) = Some ''11''"
proof -
  let ?r = "open_redis\<lparr>rd_stock := (rd_stock open_redis)(1 := Some 0), rd_marker := [((1, 5), ''11'')]\<rparr>"
  have dec: "decodeTransactionMessage (Some (sample_event ''11'')) (format_int 86400) = Some (sample_event ''11'', 86400)"
    by (simp add: decodeTransactionMessage_def parse_format_int in64_def)
  have ev: "ev_activity (sample_event ''11'') = 1" "ev_user_id (sample_event ''11'') = 5" "ev_no (sample_event ''11'') = ''11''"
    by (simp_all add: sample_event_def)
  have res: "AtomicReserve 1 5 ''11'' (ss_redis open_svc) = (0, ?r)"
    by (simp add: AtomicReserve_def open_svc_def open_redis_def)
  have p: "Producer_Submit True True 10 (sample_event ''11'') 86400 open_svc
      = (Some (processing_result ''11''), None, [], open_svc\<lparr>ss_redis := ?r\<rparr>)"
    by (simp add: Producer_Submit_def ExecuteLocalTransaction_def dec ev res)
  have pre: "map_of (rd_marker (ss_redis open_svc)) (1, 5) = None" "\<exists>n > 0. rd_stock (ss_redis open_svc) 1 = Some n"
    by (simp_all add: open_svc_def open_redis_def)
  show ?thesis
    using submit_reserves [OF _ _ ev(1) [symmetric] ev(2) [symmetric] p] pre p ev by (auto simp: in64_def)
qed

section \<open>Delivery of a submission\<close>

text \<open>An acknowledged delivery is a settled request.  Whatever fails on the way and whatever the order
  service answers, when the processor returns no error the request row is SUCCESS or FAILED and the
  result key the client polls holds that very status; any other outcome asks for redelivery.\<close>

theorem process_ack_settled:
  assumes "Process env create evt (s, orders) = (Inr x, s', orders')"
  shows "\<exists>st \<in> {RequestStatusSuccess, RequestStatusFailed}.
           row_status (ev_no evt) st (ss_db s') \<and> redis_status (ev_no evt) st s'"
proof -
  obtain req s1 where e: "ensureRequest env evt s = (Inr req, s1)"
    using assms by (auto simp: Process_def split: prod.splits sum.splits)
  have "settled (ev_no evt) s'" using assms ensureRequest_ok [OF e]
    by (auto simp: Process_def e split: request_status.splits prod.splits
        intro: processProcessing_settled processOrderCreating_settled settled_compensate settled_result)
  then show ?thesis by (simp add: settled_def)
qed

definition good_env :: process_env where
  "good_env = \<lparr>pv_find = True, pv_create = True, pv_find2 = True, pv_now = 10, pv_advance = (\<lambda>_. True),
     pv_complete = (\<lambda>_. True), pv_rollback = (\<lambda>_. True), pv_mark = True, pv_cache = True\<rparr>"

definition counting_client :: "nat create_client" where
  "counting_client req n = (if n = 0 then (Inr (rq_order req), 1) else (Inl (BizStatus 409001), n))"

lemma process_ack_settled_witness:
  "\<exists>s' n'. Process good_env counting_client (sample_event ''11'') (open_svc, 0) = (Inr (), s', n')
     \<and> row_status ''11'' RequestStatusSuccess (ss_db s') \<and> redis_status ''11'' RequestStatusSuccess s'"
proof -
  let ?p = "Process good_env counting_client (sample_event ''11'') (open_svc, 0)"
  have ok: "fst ?p = Inr ()" by code_simp
  have row: "map sr_status (sd_requests (ss_db (fst (snd ?p)))) = [RequestStatusSuccess]"
    "map sr_no (sd_requests (ss_db (fst (snd ?p)))) = [''11'']" by code_simp+
  obtain s' n' where p: "?p = (Inr (), s', n')" using ok by (metis prod.collapse)
  have "\<exists>st \<in> {RequestStatusSuccess, RequestStatusFailed}. row_status ''11'' st (ss_db s') \<and> redis_status ''11'' st s'"
    using process_ack_settled [OF p] by (simp add: sample_event_def)
  moreover have "row_status ''11'' RequestStatusSuccess (ss_db s')"
    using row p by (auto simp: row_status_def)
  ultimately show ?thesis using p row_status_unique by blast
qed

text \<open>With the stores answering, every delivery is settled: if the request number is a number and the
  order service either creates the order or refuses it with one of its business codes, the processor
  returns no error, so the message is never redelivered for ever.\<close>

theorem process_settles:
  assumes "all_ok env" "OrderIDFromRequestNo (ev_no evt) = Some oid"
    and "\<And>os e os'. create (seckill_order_req oid evt) os = (Inl e, os') \<Longrightarrow> isExplicitCreateOrderFailure e"
    and "\<And>r x. find_row sr_no (ev_no evt) (sd_requests (ss_db s)) = Some r \<Longrightarrow> sr_status r \<noteq> RequestStatusOther x"
  shows "\<exists>s' orders'. Process env create evt (s, orders) = (Inr (), s', orders')"
proof -
  obtain req s1 where e: "ensureRequest env evt s = (Inr req, s1)" and o: "\<forall>x. rq_status req \<noteq> RequestStatusOther x"
    using ensureRequest_returns [of env evt s] assms(1,4) by metis
  note row = ensureRequest_ok [OF e]
  have "is_ok (fst (Process env create evt (s, orders)))"
    using row o assms(1) processOrderCreating_returns [OF assms(1,2,3), where s = s1]
      processProcessing_returns [OF assms(1,2,3), where s = s1]
    by (cases "rq_status req") (auto simp: Process_def e svc_SetResult_def compensateAndClear_def all_ok_def)
  then show ?thesis by (elim is_okE) (metis (full_types) old.unit.exhaust prod.collapse)
qed

definition refusing_client :: "nat create_client" where
  "refusing_client req n = (if n = 0 then (Inl (BizStatus BizStatusCreateOrderEmptyItems), 1) else (Inr (rq_order req), n))"

lemma process_settles_witness:
  "\<exists>s' n'. Process good_env refusing_client (sample_event ''11'') (open_svc, 0) = (Inr (), s', n')"
proof (rule process_settles)
  show "all_ok good_env" by (simp add: all_ok_def good_env_def)
  show "OrderIDFromRequestNo (ev_no (sample_event ''11'')) = Some 11"
    by (simp add: sample_event_def OrderIDFromRequestNo_def parse_int_def parse_nat_def digit_val_def in64_def)
  show "isExplicitCreateOrderFailure e" if "refusing_client (seckill_order_req 11 (sample_event ''11'')) os = (Inl e, os')" for os e os'
    using that by (auto simp: refusing_client_def isExplicitCreateOrderFailure_def IsCreateOrderBizStatus_def split: if_splits)
qed (simp add: open_svc_def sd1_def activity_Create_def seckill_init_def)

text \<open>Redelivery is harmless.  Once a request is SUCCESS or FAILED, processing its message again, under any
  faults and with any order service, changes neither the tables nor the orders.\<close>

theorem process_redelivery:
  assumes "row_status (ev_no evt) st (ss_db s)" "st \<in> {RequestStatusSuccess, RequestStatusFailed}"
  shows "\<exists>r s'. Process env create evt (s, orders) = (r, s', orders) \<and> ss_db s' = ss_db s"
proof -
  obtain m where m: "find_row sr_no (ev_no evt) (sd_requests (ss_db s)) = Some m" "sr_status m = st"
    using assms(1) by (auto simp: row_status_def)
  have "ensureRequest env evt s = (if pv_find env then Inr (toDomainRequest m) else Inl SkErrInfra, s)"
    by (simp add: ensureRequest_def request_FindByRequestNo_def m)
  moreover have "ss_db (snd (svc_SetResult ok res t)) = ss_db t" for ok res and t :: seckill_svc
    by (simp add: svc_SetResult_def)
  moreover have "ss_db (snd (compensateAndClear env a u no res t)) = ss_db t" for a u no res and t :: seckill_svc
    by (simp add: compensateAndClear_def ClearSoldOut_def)
  ultimately show ?thesis using assms(2) m(2) by (auto simp: Process_def split: prod.splits) (metis snd_conv)+
qed

definition settled_svc :: seckill_svc where
  "settled_svc = fst (snd (Process good_env counting_client (sample_event ''11'') (open_svc, 0)))"

lemma process_redelivery_witness:
  "\<exists>r s'. Process good_env counting_client (sample_event ''11'') (settled_svc, 1) = (r, s', 1) \<and> ss_db s' = ss_db settled_svc"
proof (rule process_redelivery)
  have "sd_requests (ss_db settled_svc) = [\<lparr>sr_no = ''11'', sr_activity = 1, sr_user = 5, sr_status = RequestStatusSuccess, sr_reason = FailReasonNone\<rparr>]"
    by code_simp
  then show "row_status (ev_no (sample_event ''11'')) RequestStatusSuccess (ss_db settled_svc)"
    by (simp add: row_status_def sample_event_def)
qed simp

section \<open>Order closure and dead letters\<close>

text \<open>Cancelling or refunding a seckill order gives its unit and its user back exactly once: the request
  becomes FAILED with the matching reason, the stock grows by one and the qualification goes, and a
  second delivery of the event changes no table.\<close>

theorem order_closed_releases:
  assumes "find_row sr_no no (sd_requests (ss_db s)) = Some req" "holds_stock (sr_status req)"
    and "no = format_int (ev_order evt)" "\<And>k. pv_rollback env k" "\<And>k. pv_rollback env' k" "pv_cache env"
  shows "\<exists>s'. onOrderClosed env evt s = (Inr (), s')
     \<and> find_row sr_no no (sd_requests (ss_db s'))
         = Some (req\<lparr>sr_status := RequestStatusFailed, sr_reason := failReasonForOrderStatus (ev_status evt)\<rparr>)
     \<and> sd_activities (ss_db s') = sd_activities (give_stock (sr_activity req) (ss_db s))
     \<and> sd_quals (ss_db s') = sd_quals (delete_qual (sr_activity req) (sr_user req) no (ss_db s))
     \<and> onOrderClosed env' evt s' = (Inr (), s')"
proof -
  let ?re = "failReasonForOrderStatus (ev_status evt)"
  let ?d2 = "delete_qual (sr_activity req) (sr_user req) no (give_stock (sr_activity req) (ss_db s))"
  let ?P = "\<lambda>r. sr_no r = no \<and> sr_status r \<noteq> RequestStatusFailed"
  let ?d3 = "?d2\<lparr>sd_requests := update_where ?P (\<lambda>r. r\<lparr>sr_status := RequestStatusFailed, sr_reason := ?re\<rparr>) (sd_requests (ss_db s))\<rparr>"
  have no: "sr_no req = no" and mem: "req \<in> set (sd_requests (ss_db s))" using find_row_SomeD [OF assms(1)] by auto
  have hit: "rows_affected ?P (sd_requests (ss_db s)) \<noteq> 0"
    using mem no assms(2) by (auto simp: rows_affected_zero holds_stock_def)
  have row: "find_row sr_no no (sd_requests ?d3) = Some (req\<lparr>sr_status := RequestStatusFailed, sr_reason := ?re\<rparr>)"
    using assms(1,2) no by (auto simp: find_row_update holds_stock_def)
  have "CloseByOrderResult (pv_rollback env) no ?re (ss_db s) = (Inr (request_with req RequestStatusFailed ?re, True), ?d3)"
    using assms(1,2,4) hit no
    by (auto simp: CloseByOrderResult_def CloseByOrderResult_body_def run_tx_def set_request_def Let_def holds_stock_def)
  then obtain s' where s': "onOrderClosed env evt s = (Inr (), s')" "ss_db s' = ?d3"
    using assms(3,6) by (auto simp: onOrderClosed_def compensateAndClear_def ClearSoldOut_def)
  have again: "onOrderClosed env' evt s' = (Inr (), s'\<lparr>ss_db := ss_db s'\<rparr>)"
    using row [folded s'(2)] assms(3,5)
    by (simp add: onOrderClosed_def CloseByOrderResult_def CloseByOrderResult_body_def run_tx_def Let_def)
  show ?thesis
  proof (intro exI conjI)
    show "sd_activities (ss_db s') = sd_activities (give_stock (sr_activity req) (ss_db s))"
      by (simp add: s'(2) delete_qual_def)
    show "sd_quals (ss_db s') = sd_quals (delete_qual (sr_activity req) (sr_user req) no (ss_db s))"
      by (simp add: s'(2) delete_qual_def give_stock_def)
  qed (use s' row again in simp_all)
qed

definition close_event :: OrderStatusUpdateEvent where
  "close_event = \<lparr>ev_order = 11, ev_user = 5, ev_status = OrderStatusCanceled, ev_kind = ''SECKILL'', ev_products = [], ev_skus = []\<rparr>"

lemma settled_row: "sd_requests (ss_db settled_svc)
    = [\<lparr>sr_no = ''11'', sr_activity = 1, sr_user = 5, sr_status = RequestStatusSuccess, sr_reason = FailReasonNone\<rparr>]"
  by code_simp

lemma format_11: "format_int 11 = ''11''"
  by code_simp

lemma order_closed_releases_witness:
  "\<exists>s'. onOrderClosed good_env close_event settled_svc = (Inr (), s') \<and> sd_quals (ss_db s') = []"
proof -
  let ?r = "\<lparr>sr_no = ''11'', sr_activity = 1, sr_user = 5, sr_status = RequestStatusSuccess, sr_reason = FailReasonNone\<rparr>"
  have q: "sd_quals (delete_qual 1 5 ''11'' (ss_db settled_svc)) = []" by code_simp
  have "\<exists>s'. onOrderClosed good_env close_event settled_svc = (Inr (), s')
     \<and> find_row sr_no ''11'' (sd_requests (ss_db s'))
         = Some (?r\<lparr>sr_status := RequestStatusFailed, sr_reason := failReasonForOrderStatus (ev_status close_event)\<rparr>)
     \<and> sd_activities (ss_db s') = sd_activities (give_stock (sr_activity ?r) (ss_db settled_svc))
     \<and> sd_quals (ss_db s') = sd_quals (delete_qual (sr_activity ?r) (sr_user ?r) ''11'' (ss_db settled_svc))
     \<and> onOrderClosed good_env close_event s' = (Inr (), s')"
    by (rule order_closed_releases) (simp_all add: settled_row holds_stock_def close_event_def format_11 good_env_def)
  then show ?thesis using q by auto
qed

text \<open>The compensation of a closed order can be lost.  When the table transaction commits and Redis then
  fails, the consumer asks for redelivery, but the redelivered event finds the request FAILED and
  never touches Redis again, whatever answers it: the user marker and the taken unit stay.\<close>

theorem order_closed_compensation_lost:
  assumes "find_row sr_no no (sd_requests (ss_db s)) = Some req" "holds_stock (sr_status req)"
    and "no = format_int (ev_order evt)" "\<And>k. pv_rollback env k" "\<not> pv_cache env"
  shows "\<exists>s'. onOrderClosed env evt s = (Inl SkErrInfra, s')
     \<and> row_status no RequestStatusFailed (ss_db s') \<and> ss_redis s' = ss_redis s
     \<and> (\<forall>env'. \<exists>r. onOrderClosed env' evt s' = (r, s'))"
proof -
  let ?re = "failReasonForOrderStatus (ev_status evt)"
  let ?c = "CloseByOrderResult (pv_rollback env) no ?re (ss_db s)"
  have no: "sr_no req = no" and mem: "req \<in> set (sd_requests (ss_db s))" using find_row_SomeD [OF assms(1)] by auto
  have hit: "rows_affected (\<lambda>r. sr_no r = no \<and> sr_status r \<noteq> RequestStatusFailed) (sd_requests (ss_db s)) \<noteq> 0"
    using mem no assms(2) by (auto simp: rows_affected_zero holds_stock_def)
  have c: "fst ?c = Inr (request_with req RequestStatusFailed ?re, True)"
    and row: "row_status no RequestStatusFailed (snd ?c)"
    using assms(1,2,4) hit no
    by (auto simp: CloseByOrderResult_def CloseByOrderResult_body_def run_tx_def set_request_def Let_def holds_stock_def
        row_status_def find_row_update)
  then obtain d where c: "?c = (Inr (request_with req RequestStatusFailed ?re, True), d)"
    and row: "row_status no RequestStatusFailed d" by (metis prod.collapse)
  let ?s' = "s\<lparr>ss_db := d\<rparr>"
  have o: "onOrderClosed env evt s = (Inl SkErrInfra, ?s')"
    using c assms(3,5) by (simp add: onOrderClosed_def compensateAndClear_def Let_def)
  have again: "onOrderClosed env' evt ?s' = (if pv_rollback env' 0 then Inr () else Inl SkErrInfra, ?s')" for env'
    using row assms(3)
    by (auto simp: row_status_def onOrderClosed_def CloseByOrderResult_def CloseByOrderResult_body_def run_tx_def Let_def)
  show ?thesis using o row again by (intro exI [of _ ?s']) auto
qed

lemma order_closed_compensation_lost_witness:
  "\<exists>s'. onOrderClosed (good_env\<lparr>pv_cache := False\<rparr>) close_event settled_svc = (Inl SkErrInfra, s')
     \<and> rd_marker (ss_redis s') = rd_marker (ss_redis settled_svc) \<and> onOrderClosed good_env close_event s' = (Inr (), s')"
proof -
  let ?r = "\<lparr>sr_no = ''11'', sr_activity = 1, sr_user = 5, sr_status = RequestStatusSuccess, sr_reason = FailReasonNone\<rparr>"
  have f: "find_row sr_no ''11'' (sd_requests (ss_db settled_svc)) = Some ?r" "holds_stock (sr_status ?r)"
    "''11'' = format_int (ev_order close_event)" "pv_rollback (good_env\<lparr>pv_cache := False\<rparr>) k"
    "\<not> pv_cache (good_env\<lparr>pv_cache := False\<rparr>)" for k
    by (simp_all add: settled_row holds_stock_def close_event_def format_11 good_env_def)
  obtain s' where s': "onOrderClosed (good_env\<lparr>pv_cache := False\<rparr>) close_event settled_svc = (Inl SkErrInfra, s')"
      "row_status ''11'' RequestStatusFailed (ss_db s')" "ss_redis s' = ss_redis settled_svc"
      "\<forall>env'. \<exists>r. onOrderClosed env' close_event s' = (r, s')"
    using order_closed_compensation_lost [OF f(1) f(2) f(3) f(4) f(5)] by metis
  then obtain r where "onOrderClosed good_env close_event s' = (r, s')" by blast
  moreover have "fst (onOrderClosed good_env close_event s') = Inr ()"
    using s'(2) by (auto simp: row_status_def onOrderClosed_def CloseByOrderResult_def CloseByOrderResult_body_def run_tx_def
        close_event_def format_11 good_env_def)
  ultimately show ?thesis using s' by auto
qed

text \<open>The dead-letter handler is not atomic.  If it read the request as PROCESSING and the request got its
  order before the unconditional update ran, the request ends FAILED while its unit stays taken and
  its qualification stays, and neither a cancellation nor a rollback of the order gives them back.\<close>

theorem dead_letter_stale_read:
  assumes "rq_status req = RequestStatusProcessing" "pv_mark env" "pv_cache env"
    and "find_row sr_no no (sd_requests (ss_db s)) = Some m" "holds_stock (sr_status m)"
    and "ev_no (dl_event dead) = no" "DeadLetter_act env get dead req s orders = (r, s')"
  shows "r = Inr () \<and> row_status no RequestStatusFailed (ss_db s')
     \<and> sd_quals (ss_db s') = sd_quals (ss_db s) \<and> sd_activities (ss_db s') = sd_activities (ss_db s)
     \<and> (\<forall>ok re. snd (CloseByOrderResult ok no re (ss_db s')) = ss_db s'
                \<and> snd (RollbackOrderCreating ok (dl_event dead) re (ss_db s')) = ss_db s')"
proof -
  have act: "r = Inr ()" "ss_db s' = snd (set_request no (\<lambda>_. True) RequestStatusFailed (deadLetterReason dead) (ss_db s))"
    using assms(1,2,3,6,7) by (auto simp: DeadLetter_act_def MarkFail_def compensateAndClear_def ClearSoldOut_def Let_def)
  have row: "row_status no RequestStatusFailed (ss_db s')"
    unfolding act(2) by (rule set_request_row [OF assms(4)]) simp
  then obtain m' where m': "find_row sr_no no (sd_requests (ss_db s')) = Some m'" "sr_status m' = RequestStatusFailed"
    by (auto simp: row_status_def)
  have "snd (CloseByOrderResult ok no re (ss_db s')) = ss_db s'
      \<and> snd (RollbackOrderCreating ok (dl_event dead) re (ss_db s')) = ss_db s'" for ok re
    using m' assms(6) by (auto simp: CloseByOrderResult_def CloseByOrderResult_body_def RollbackOrderCreating_def
        RollbackOrderCreating_body_def run_tx_def)
  then show ?thesis using act row by simp
qed

lemma dead_letter_stale_read_witness:
  "\<exists>s'. DeadLetter_act good_env (\<lambda>_ _. Inr None) \<lparr>dl_event = sample_event ''11'', dl_reason = None\<rparr> (sample_req ''11'') settled_svc (0 :: nat) = (Inr (), s')
     \<and> row_status ''11'' RequestStatusFailed (ss_db s') \<and> sd_quals (ss_db s') = sd_quals (ss_db settled_svc)"
proof -
  let ?m = "\<lparr>sr_no = ''11'', sr_activity = 1, sr_user = 5, sr_status = RequestStatusSuccess, sr_reason = FailReasonNone\<rparr>"
  obtain r s' where a: "DeadLetter_act good_env (\<lambda>_ _. Inr None) \<lparr>dl_event = sample_event ''11'', dl_reason = None\<rparr> (sample_req ''11'') settled_svc (0 :: nat) = (r, s')"
    by (metis prod.collapse)
  show ?thesis
    using dead_letter_stale_read [OF _ _ _ _ _ _ a, of "''11''" ?m] a
    by (auto simp: sample_req_def good_env_def settled_row holds_stock_def sample_event_def)
qed

end
