(* ===== verification/SeckillOrders.thy ===== *)
theory SeckillOrders
  imports OrderSpec SeckillFlow
begin

text \<open>
  The flash-sale service on top of the order service.  The client functions are the order service's
  own gRPC handlers; \<open>joint_step\<close> interleaves every transaction of the two services, and the ghost set
  of a state holds the request numbers whose order a handler has seen created or found.
\<close>

section \<open>The client\<close>

definition order_client :: "create_env \<Rightarrow> int \<Rightarrow> order_svc create_client" where
  "order_client env now req os = (case handler_CreateOrder env now req os of (r, task, os') \<Rightarrow> (r, os'))"

definition order_get :: "bool \<Rightarrow> order_svc get_client" where
  "order_get ok k os = (case handler_GetOrder ok k os of Inl e \<Rightarrow> Inl e | Inr p \<Rightarrow> Inr (Some p))"

definition order_for :: "Event \<Rightarrow> order_svc \<Rightarrow> bool" where
  "order_for evt os \<longleftrightarrow> (\<exists>m \<in> set (od_orders (os_db os)). OrderIDFromRequestNo (ev_no evt) = Some (m_id m)
     \<and> m_user m = ev_user_id evt \<and> m_activity m = ev_activity evt \<and> m_kind m = OrderKindSeckill)"

lemma order_for_kept: "rows_kept os os' \<Longrightarrow> order_for evt os \<Longrightarrow> order_for evt os'"
  unfolding order_for_def rows_kept_def same_order_def by metis

lemma CreateOrder_intent:
  assumes "CreateOrder_Execute env now cmd s = (Inr k, task, s')" "cc_order cmd \<noteq> 0"
  shows "\<exists>m \<in> set (od_orders (os_db s')). m_id m = cc_order cmd \<and> m_user m = cc_user cmd
           \<and> m_kind m = normalizeOrderKind (cc_kind cmd) \<and> m_activity m = cc_activity cmd"
proof (cases task)
  case (Some t)
  then show ?thesis using CreateOrder_fresh(1,2) [of env now cmd s k t s'] assms by auto
next
  case None
  then obtain existing b where "repo_FindByID b (cc_order cmd) s' = Inr existing" "sameCreateOrderIntent existing cmd"
    using assms(1) by (auto simp: CreateOrder_Execute_def Let_def split: if_splits sum.splits prod.splits)
  then show ?thesis
    by (auto simp: repo_FindByID_def sameCreateOrderIntent_def split: if_splits option.splits dest!: find_row_SomeD)
qed

lemma order_client_step: "order_client env now req os = (r, os') \<Longrightarrow> order_step os os'"
  unfolding order_client_def handler_CreateOrder_def Let_def
  using step_create [of os env now] by (auto split: prod.splits sum.splits) (metis snd_conv)+

lemma order_client_ok:
  assumes "order_client env now (seckill_order_req oid evt) os = (Inr k, os')"
    and "OrderIDFromRequestNo (ev_no evt) = Some oid" "oid \<noteq> 0"
  shows "order_for evt os'"
proof -
  let ?cmd = "\<lparr>cc_order = oid, cc_user = ev_user_id evt, cc_currency = ''CNY'', cc_remark = [], cc_address = zeroAddress,
    cc_kind = OrderKindSeckill, cc_activity = ev_activity evt, cc_payable = 0,
    cc_items = rq_items (seckill_order_req oid evt)\<rparr>"
  obtain task where c: "CreateOrder_Execute env now ?cmd os = (Inr k, task, os')"
    using assms(1) by (auto simp: order_client_def handler_CreateOrder_def seckill_order_req_def Let_def
        split: prod.splits sum.splits)
  have "normalizeOrderKind OrderKindSeckill = OrderKindSeckill" by (simp add: normalizeOrderKind_def OrderKindSeckill_def)
  then show ?thesis using CreateOrder_intent [OF c] assms(2,3) by (auto simp: order_for_def)
qed

lemma lookup_found:
  assumes "lookupOrder (order_get ok) evt os = Inr (Some k)"
  shows "order_for evt os"
  using assms
  by (auto simp: lookupOrder_def order_get_def handler_GetOrder_def GetOrder_Execute_def repo_FindByID_def
      toProtoOrder_def order_for_def split: option.splits sum.splits if_splits dest!: find_row_SomeD)

section \<open>The two services together\<close>

inductive joint_step ::
  "(string \<Rightarrow> Event) \<Rightarrow> seckill_db \<times> order_svc \<times> string set \<Rightarrow> seckill_db \<times> order_svc \<times> string set \<Rightarrow> bool" for ev where
  js_order: "order_step os os' \<Longrightarrow> joint_step ev (d, os, C) (d, os', C)"
| js_create: "OrderIDFromRequestNo no = Some oid \<Longrightarrow> oid \<noteq> 0
    \<Longrightarrow> order_client env now (seckill_order_req oid (ev no)) os = (r, os')
    \<Longrightarrow> joint_step ev (d, os, C) (d, os', if is_ok r then insert no C else C)"
| js_lookup: "lookupOrder (order_get ok) (ev no) os = Inr (Some k) \<Longrightarrow> joint_step ev (d, os, C) (d, os, insert no C)"
| js_complete: "no \<in> C \<Longrightarrow> joint_step ev (d, os, C) (snd (CompleteOrderCreating oks (ev no) d), os, C)"
| js_activity: "sa_available a = sa_total a \<Longrightarrow> joint_step ev (d, os, C) (snd (activity_Create ok a d), os, C)"
| js_status: "joint_step ev (d, os, C) (snd (activity_UpdateStatus ok' k' st d), os, C)"
| js_request: "r = \<lparr>rq_no = no, rq_activity_id = ev_activity (ev no), rq_user_id = ev_user_id (ev no),
      rq_status = RequestStatusProcessing, rq_order_id = 0, rq_reason = FailReasonNone\<rparr>
    \<Longrightarrow> joint_step ev (d, os, C) (snd (request_Create ok' r d), os, C)"
| js_advance: "joint_step ev (d, os, C) (snd (AdvanceProcessing oks now (ev no) d), os, C)"
| js_rollback: "joint_step ev (d, os, C) (snd (RollbackOrderCreating oks (ev no) reason d), os, C)"
| js_close: "joint_step ev (d, os, C) (snd (CloseByOrderResult oks no reason d), os, C)"
| js_mark: "joint_step ev (d, os, C) (snd (MarkFail ok' no reason d), os, C)"

definition success_nos :: "seckill_db \<Rightarrow> string set" where
  "success_nos d = sr_no ` {r \<in> set (sd_requests d). sr_status r = RequestStatusSuccess}"

lemma success_nos_same: "sd_requests d' = sd_requests d \<Longrightarrow> success_nos d' = success_nos d"
  by (simp add: success_nos_def)

lemma success_nos_set:
  "success_nos (snd (set_request no c st re d)) \<subseteq> (if st = RequestStatusSuccess then insert no (success_nos d) else success_nos d)"
  by (auto simp: success_nos_def set_request_def Let_def update_where_set split: if_splits)

lemma success_nos_set_eq:
  assumes "set_request no c st re d = (n, d')" "sd_requests d = rs" "no' \<in> success_nos d'"
  shows "no' \<in> sr_no ` {r \<in> set rs. sr_status r = RequestStatusSuccess} \<or> (st = RequestStatusSuccess \<and> no' = no)"
  using success_nos_set [of no c st re d] assms by (auto simp: success_nos_def split: if_splits)

lemma success_tx:
  assumes "\<And>x d'. body d = (Inr x, d') \<Longrightarrow> success_nos d' \<subseteq> S" "success_nos d \<subseteq> S"
  shows "success_nos (snd (seckill_tx body d)) \<subseteq> S"
  using assms by (auto simp: run_tx_def split: prod.splits sum.splits)

lemma success_advance: "success_nos (snd (AdvanceProcessing ok now evt d)) \<subseteq> success_nos d"
  unfolding AdvanceProcessing_def
proof (rule success_tx)
  fix x d' assume b: "AdvanceProcessing_body ok now evt d = (Inr x, d')"
  show "success_nos d' \<subseteq> success_nos d"
  proof
    fix no assume no: "no \<in> success_nos d'"
    show "no \<in> success_nos d"
      using b no unfolding success_nos_def [of d]
      by (auto simp: AdvanceProcessing_body_def Let_def split: if_splits option.splits prod.splits
          dest!: success_nos_set_eq [OF _ _ no, OF _ refl] take_stock_requests)
        (auto simp: success_nos_def)
  qed
qed simp

lemma success_rollback: "success_nos (snd (RollbackOrderCreating ok evt re d)) \<subseteq> success_nos d"
  unfolding RollbackOrderCreating_def
proof (rule success_tx)
  fix x d' assume b: "RollbackOrderCreating_body ok evt re d = (Inr x, d')"
  show "success_nos d' \<subseteq> success_nos d"
  proof
    fix no assume no: "no \<in> success_nos d'"
    show "no \<in> success_nos d"
      using b no unfolding success_nos_def [of d]
      by (auto simp: RollbackOrderCreating_body_def Let_def split: if_splits option.splits prod.splits
          dest!: success_nos_set_eq [OF _ _ no, OF _ refl])
        (auto simp: success_nos_def)
  qed
qed simp

lemma success_close: "success_nos (snd (CloseByOrderResult ok k re d)) \<subseteq> success_nos d"
  unfolding CloseByOrderResult_def
proof (rule success_tx)
  fix x d' assume b: "CloseByOrderResult_body ok k re d = (Inr x, d')"
  show "success_nos d' \<subseteq> success_nos d"
  proof
    fix no assume no: "no \<in> success_nos d'"
    show "no \<in> success_nos d"
      using b no unfolding success_nos_def [of d]
      by (auto simp: CloseByOrderResult_body_def Let_def split: if_splits option.splits prod.splits
          dest!: success_nos_set_eq [OF _ _ no, OF _ refl])
        (auto simp: success_nos_def)
  qed
qed simp

lemma success_complete: "success_nos (snd (CompleteOrderCreating ok evt d)) \<subseteq> insert (ev_no evt) (success_nos d)"
  unfolding CompleteOrderCreating_def
proof (rule success_tx)
  fix x d' assume b: "CompleteOrderCreating_body ok evt d = (Inr x, d')"
  show "success_nos d' \<subseteq> insert (ev_no evt) (success_nos d)"
  proof
    fix no assume no: "no \<in> success_nos d'"
    show "no \<in> insert (ev_no evt) (success_nos d)"
      using b no unfolding success_nos_def [of d]
      by (auto simp: CompleteOrderCreating_body_def Let_def split: if_splits option.splits prod.splits
          dest!: success_nos_set_eq [OF _ _ no, OF _ refl])
        (auto simp: success_nos_def)
  qed
qed auto

lemma success_mark: "success_nos (snd (MarkFail ok no re d)) \<subseteq> success_nos d"
  using success_nos_set [of no "\<lambda>_. True" RequestStatusFailed re d] by (simp add: MarkFail_def)

lemma success_create: "rq_status r = RequestStatusProcessing \<Longrightarrow> success_nos (snd (request_Create ok r d)) \<subseteq> success_nos d"
  by (auto simp: request_Create_def success_nos_def)

definition joint_inv :: "(string \<Rightarrow> Event) \<Rightarrow> seckill_db \<times> order_svc \<times> string set \<Rightarrow> bool" where
  "joint_inv ev st \<longleftrightarrow> (case st of (d, os, C) \<Rightarrow>
     seckill_inv ev d \<and> (\<forall>no \<in> C \<union> success_nos d. order_for (ev no) os))"

lemma joint_inv_db:
  assumes "joint_inv ev (d, os, C)" "seckill_step ev d d'" "event_of ev" "success_nos d' \<subseteq> C \<union> success_nos d"
  shows "joint_inv ev (d', os, C)"
  using assms seckill_step_inv [OF assms(2,3)] by (auto simp: joint_inv_def)

lemma joint_step_inv: "joint_step ev st st' \<Longrightarrow> event_of ev \<Longrightarrow> joint_inv ev st \<Longrightarrow> joint_inv ev st'"
proof (induction rule: joint_step.induct)
  case (js_order os os' d C)
  then show ?case by (auto simp: joint_inv_def intro: order_for_kept order_step_rows)
next
  case (js_create no oid env now os r os' d C)
  have k: "rows_kept os os'" by (rule order_step_rows [OF order_client_step [OF js_create.hyps(3)]])
  have "order_for (ev no) os'" if "is_ok r"
    using that js_create order_client_ok [of env now oid "ev no" os _ os'] by (cases r) (auto simp: event_of_def)
  then show ?case using js_create.prems k by (auto simp: joint_inv_def intro: order_for_kept)
next
  case (js_lookup ok no os k d C)
  then show ?case using lookup_found by (auto simp: joint_inv_def)
next
  case (js_complete no C d os oks)
  then show ?case using success_complete [of oks "ev no" d]
    by (intro joint_inv_db [OF js_complete.prems(2) sk_complete js_complete.prems(1)]) (auto simp: event_of_def)
next
  case (js_activity a d os C ok)
  then show ?case
    by (intro joint_inv_db [OF js_activity.prems(2) sk_activity js_activity.prems(1)]) (auto simp: activity_Create_def success_nos_def)
next
  case (js_status d os C ok' k' st)
  then show ?case
    by (intro joint_inv_db [OF js_status.prems(2) sk_status js_status.prems(1)]) (auto simp: activity_UpdateStatus_def success_nos_def)
next
  case (js_request r no d os C ok')
  then show ?case using success_create [of r ok' d]
    by (intro joint_inv_db [OF js_request.prems(2) sk_request js_request.prems(1)]) auto
next
  case (js_advance d os C oks now no)
  then show ?case using success_advance [of oks now "ev no" d]
    by (intro joint_inv_db [OF js_advance.prems(2) sk_advance js_advance.prems(1)]) auto
next
  case (js_rollback d os C oks no reason)
  then show ?case using success_rollback [of oks "ev no" reason d]
    by (intro joint_inv_db [OF js_rollback.prems(2) sk_rollback js_rollback.prems(1)]) auto
next
  case (js_close d os C oks no reason)
  then show ?case using success_close [of oks no reason d]
    by (intro joint_inv_db [OF js_close.prems(2) sk_close js_close.prems(1)]) auto
next
  case (js_mark d os C ok' no reason)
  then show ?case using success_mark [of ok' no reason d]
    by (intro joint_inv_db [OF js_mark.prems(2) sk_markfail js_mark.prems(1)]) auto
qed

lemma joint_steps_inv: "(joint_step ev)\<^sup>*\<^sup>* st st' \<Longrightarrow> event_of ev \<Longrightarrow> joint_inv ev st \<Longrightarrow> joint_inv ev st'"
  by (induction rule: rtranclp_induct) (auto intro: joint_step_inv)

section \<open>The handlers as runs of joint steps\<close>

abbreviation joint_run where
  "joint_run ev d os C d' os' \<equiv> \<exists>C'. C \<subseteq> C' \<and> (joint_step ev)\<^sup>*\<^sup>* (d, os, C) (d', os', C')"

lemma joint_run_refl: "joint_run ev d os C d os"
  by blast

lemma joint_run_step: "joint_step ev (d, os, C) (d', os', C') \<Longrightarrow> C \<subseteq> C' \<Longrightarrow> joint_run ev d os C d' os'"
  by blast

lemma joint_run_trans:
  assumes "joint_run ev d os C d1 os1" "\<And>C1. C \<subseteq> C1 \<Longrightarrow> joint_run ev d1 os1 C1 d2 os2"
  shows "joint_run ev d os C d2 os2"
proof -
  obtain C1 where 1: "C \<subseteq> C1" "(joint_step ev)\<^sup>*\<^sup>* (d, os, C) (d1, os1, C1)" using assms(1) by blast
  then obtain C2 where 2: "C1 \<subseteq> C2" "(joint_step ev)\<^sup>*\<^sup>* (d1, os1, C1) (d2, os2, C2)" using assms(2) [OF 1(1)] by blast
  have "(joint_step ev)\<^sup>*\<^sup>* (d, os, C) (d2, os2, C2)" using 1(2) 2(2) by (rule rtranclp_trans)
  then show ?thesis using 1(1) 2(1) by blast
qed

lemma db_keep [simp]:
  "ss_db (snd (svc_SetResult ok res s)) = ss_db s" "ss_db (snd (compensateAndClear env a u no res s)) = ss_db s"
  by (simp_all add: svc_SetResult_def compensateAndClear_def ClearSoldOut_def)

lemma db_keep_eq:
  "svc_SetResult ok res s = (r, s') \<Longrightarrow> ss_db s' = ss_db s"
  "compensateAndClear env a u no res s = (r, s') \<Longrightarrow> ss_db s' = ss_db s"
  using db_keep by (metis snd_conv)+

lemma ensureRequest_run:
  assumes "event_of ev"
  shows "joint_run ev (ss_db s) os C (ss_db (snd (ensureRequest env (ev no) s))) os"
proof -
  let ?r = "\<lparr>rq_no = no, rq_activity_id = ev_activity (ev no), rq_user_id = ev_user_id (ev no),
      rq_status = RequestStatusProcessing, rq_order_id = 0, rq_reason = FailReasonNone\<rparr>"
  have "ss_db (snd (ensureRequest env (ev no) s)) \<in> {ss_db s, snd (request_Create (pv_create env) ?r (ss_db s))}"
    using assms by (auto simp: ensureRequest_def event_of_def Let_def split: sum.splits prod.splits)
  moreover have "joint_run ev (ss_db s) os C (snd (request_Create (pv_create env) ?r (ss_db s))) os"
    by (rule joint_run_step [OF js_request [OF refl]]) simp
  ultimately show ?thesis using joint_run_refl [of C ev "ss_db s" os] by auto
qed

lemma rollback_db: "ss_db (snd (rollbackOrderCreating env evt re s)) = snd (RollbackOrderCreating (pv_rollback env) evt re (ss_db s))"
  by (auto simp: rollbackOrderCreating_def split: prod.splits sum.splits)

lemma complete_db: "ss_db (snd (completeAndPublish env evt s)) = snd (CompleteOrderCreating (pv_complete env) evt (ss_db s))"
  by (auto simp: completeAndPublish_def split: prod.splits sum.splits)

lemma rollback_run: "joint_run ev (ss_db s) os C (ss_db (snd (rollbackOrderCreating env (ev no) re s))) os"
  unfolding rollback_db by (rule joint_run_step [OF js_rollback]) simp

lemma complete_run: "no \<in> C \<Longrightarrow> joint_run ev (ss_db s) os C (ss_db (snd (completeAndPublish env (ev no) s))) os"
  unfolding complete_db by (rule joint_run_step [OF js_complete]) simp_all

lemma processOrderCreating_run:
  assumes "event_of ev" "OrderIDFromRequestNo no \<noteq> Some 0"
    and "processOrderCreating env (order_client cenv now) (ev no) (s, os) = (r, s', os')"
  shows "joint_run ev (ss_db s) os C (ss_db s') os'"
proof (cases "OrderIDFromRequestNo no")
  case None
  then show ?thesis using assms joint_run_refl by (auto simp: processOrderCreating_def event_of_def)
next
  case (Some oid)
  obtain q where c: "order_client cenv now (seckill_order_req oid (ev no)) os = (q, os')"
    using assms Some by (auto simp: processOrderCreating_def event_of_def split: prod.splits sum.splits if_splits)
  have st: "joint_step ev (ss_db s, os, C) (ss_db s, os', if is_ok q then insert no C else C)"
    by (rule js_create [where no = no and oid = oid and ev = ev, OF Some _ c]) (use assms(2) Some in auto)
  have 1: "ss_db s' \<in> {ss_db s, ss_db (snd (rollbackOrderCreating env (ev no) FailReasonCreateOrderFail s))}" if "q = Inl e" for e
    using assms Some c that by (auto simp: processOrderCreating_def event_of_def split: prod.splits if_splits)
  have 2: "ss_db s' = ss_db (snd (completeAndPublish env (ev no) s))" if "q = Inr k" for k
    using assms Some c that by (auto simp: processOrderCreating_def event_of_def split: prod.splits)
  show ?thesis
  proof (cases q)
    case (Inl e)
    show ?thesis
    proof (rule joint_run_trans)
      show "joint_run ev (ss_db s) os C (ss_db s) os'" using st Inl by auto
      show "joint_run ev (ss_db s) os' C1 (ss_db s') os'" for C1
        using 1 [OF Inl] rollback_run [of C1 ev s os' env no FailReasonCreateOrderFail] joint_run_refl [of C1 ev "ss_db s" os'] by auto
    qed
  next
    case (Inr k)
    have 3: "joint_run ev (ss_db s) os' (insert no C) (ss_db s') os'"
      using 2 [OF Inr] complete_run [of no "insert no C" ev s os' env] by auto
    then obtain C' where "insert no C \<subseteq> C'" "(joint_step ev)\<^sup>*\<^sup>* (ss_db s, os', insert no C) (ss_db s', os', C')" by blast
    then show ?thesis using st Inr by (intro exI [of _ C']) (auto intro: converse_rtranclp_into_rtranclp)
  qed
qed

lemma processProcessing_run:
  assumes "event_of ev" "OrderIDFromRequestNo no \<noteq> Some 0"
    and "processProcessing env (order_client cenv now) (ev no) (s, os) = (r, s', os')"
  shows "joint_run ev (ss_db s) os C (ss_db s') os'"
proof (rule joint_run_trans)
  let ?d = "snd (AdvanceProcessing (pv_advance env) (pv_now env) (ev no) (ss_db s))"
  show "joint_run ev (ss_db s) os C ?d os" by (rule joint_run_step [OF js_advance]) simp
  have o: "processOrderCreating env (order_client cenv now) (ev no) (s\<lparr>ss_db := ?d\<rparr>, os) = (r, s', os')
      \<or> (ss_db s' = ?d \<and> os' = os)"
    using assms(3) by (auto simp: processProcessing_def Let_def dest!: db_keep_eq
        split: prod.splits sum.splits request_status.splits)
  show "joint_run ev ?d os C1 (ss_db s') os'" for C1
    using o processOrderCreating_run [OF assms(1,2), of env cenv now "s\<lparr>ss_db := ?d\<rparr>" os r s' os' C1]
      joint_run_refl [of C1 ev ?d os] by auto
qed

lemma Process_run:
  assumes "event_of ev" "OrderIDFromRequestNo no \<noteq> Some 0"
    and "Process env (order_client cenv now) (ev no) (s, os) = (r, s', os')"
  shows "joint_run ev (ss_db s) os C (ss_db s') os'"
proof (rule joint_run_trans)
  let ?s1 = "snd (ensureRequest env (ev no) s)"
  show "joint_run ev (ss_db s) os C (ss_db ?s1) os" by (rule ensureRequest_run [OF assms(1)])
  have o: "processOrderCreating env (order_client cenv now) (ev no) (?s1, os) = (r, s', os')
      \<or> processProcessing env (order_client cenv now) (ev no) (?s1, os) = (r, s', os')
      \<or> (ss_db s' = ss_db ?s1 \<and> os' = os)"
    using assms(3) by (auto simp: Process_def dest!: db_keep_eq split: prod.splits sum.splits request_status.splits)
  show "joint_run ev (ss_db ?s1) os C1 (ss_db s') os'" for C1
    using o processOrderCreating_run [OF assms(1,2), of env cenv now ?s1 os r s' os' C1]
      processProcessing_run [OF assms(1,2), of env cenv now ?s1 os r s' os' C1]
      joint_run_refl [of C1 ev "ss_db ?s1" os] by auto
qed

lemma DeadLetter_act_run:
  assumes "dl_event dead = ev no" "ev_no (ev no) = no"
  shows "joint_run ev (ss_db s) os C (ss_db (snd (DeadLetter_act env (order_get ok) dead req s os))) os"
proof -
  have mark: "joint_run ev (ss_db s) os C (snd (MarkFail b no' re (ss_db s))) os" for b no' re
    by (rule joint_run_step [OF js_mark]) simp
  have fin: "joint_run ev (ss_db s) os C (ss_db (snd (completeAndPublish env (ev no) s))) os"
    if l: "lookupOrder (order_get ok) (ev no) os = Inr (Some k)" for k
  proof -
    have "(joint_step ev)\<^sup>*\<^sup>* (ss_db s, os, C) (ss_db (snd (completeAndPublish env (ev no) s)), os, insert no C)"
      unfolding complete_db using js_lookup [where ev = ev and no = no, OF l] js_complete [of no "insert no C"] by (meson insertI1 r_into_rtranclp rtranclp.rtrancl_into_rtrancl)
    then show ?thesis by blast
  qed
  have "ss_db (snd (DeadLetter_act env (order_get ok) dead req s os)) \<in> {ss_db s,
      snd (MarkFail (pv_mark env) no (deadLetterReason dead) (ss_db s)),
      ss_db (snd (rollbackOrderCreating env (ev no) (deadLetterReason dead) s))}
    \<or> (\<exists>k. lookupOrder (order_get ok) (ev no) os = Inr (Some k)
        \<and> ss_db (snd (DeadLetter_act env (order_get ok) dead req s os)) = ss_db (snd (completeAndPublish env (ev no) s)))"
    using assms by (auto simp: DeadLetter_act_def Let_def split: request_status.splits sum.splits option.splits prod.splits)
  then show ?thesis using mark fin rollback_run [of C ev s os env no] joint_run_refl [of C ev "ss_db s" os] by auto
qed

lemma onOrderClosed_run: "joint_run ev (ss_db s) os C (ss_db (snd (onOrderClosed env evt s))) os"
proof -
  have "ss_db (snd (onOrderClosed env evt s))
      = snd (CloseByOrderResult (pv_rollback env) (format_int (ev_order evt)) (failReasonForOrderStatus (ev_status evt)) (ss_db s))"
    by (auto simp: onOrderClosed_def Let_def split: prod.splits sum.splits)
  then show ?thesis using joint_run_step [OF js_close] by (metis order_refl)
qed

end
