(* ===== verification/Payment.thy ===== *)
theory Payment
  imports OrderUsecase
begin

text \<open>
  The payment service (\<open>internal/payment\<close>): the payment status machine of \<open>domain/payment.go\<close>, the
  payment table and its outbox (\<open>infra/repository\<close>), and the use cases that apply what the payment
  provider reports.  The provider and the link builder are parameters; \<open>ok\<close> arguments are outcomes of
  database calls.
\<close>

section \<open>Domain\<close>

record Payment =
  p_amt :: Amount
  p_no :: string
  p_desc :: string
  p_status :: payment_status
  p_txn :: string

record PaymentTransition =
  pt_payment :: Payment
  pt_changed :: bool
  pt_persist :: bool

datatype payment_error =
    ErrPaymentNotFound | ErrPaymentAlreadyExists | ErrPaymentAlreadyPaid | ErrPaymentAmountChanged
  | ErrPaymentStatusRace | ErrPaymentTxnIDRequired | ErrPagePayNotEnabled | ErrOrderNotPayable
  | ErrInvalidNotifyData | PyErrTradeState | PyErrTradeNo | PyErrOrderID | PyErrConfig | PyErrAmount | PyErrInfra

definition nextPaymentStatus :: "payment_status \<Rightarrow> payment_status \<Rightarrow> payment_status \<times> bool" where
  "nextPaymentStatus current incoming =
     (case current of
        PaymentStatusSuccess \<Rightarrow>
          if incoming = PaymentStatusRefund then (PaymentStatusRefund, True) else (current, False)
      | PaymentStatusRefund \<Rightarrow> (current, False)
      | PaymentStatusFailed \<Rightarrow>
          if incoming = PaymentStatusSuccess then (PaymentStatusSuccess, True) else (current, False)
      | _ \<Rightarrow> (incoming, True))"

definition ApplyProviderResult :: "Payment \<Rightarrow> Payment \<Rightarrow> PaymentTransition" where
  "ApplyProviderResult p incoming =
     (let next = (if p_txn incoming \<noteq> [] \<and> p_txn p = [] then p\<lparr>p_txn := p_txn incoming\<rparr> else p)
      in if p_status incoming = PaymentStatusUnknown \<or> p_status incoming = PaymentStatusInit
         then \<lparr>pt_payment = next, pt_changed = False, pt_persist = (p_txn next \<noteq> p_txn p)\<rparr>
         else
           (let (st, changed) = nextPaymentStatus (p_status p) (p_status incoming)
            in \<lparr>pt_payment = next\<lparr>p_status := st\<rparr>, pt_changed = changed,
                pt_persist = (changed \<or> p_txn next \<noteq> p_txn p)\<rparr>))"

section \<open>Tables\<close>

record PaymentModel =
  pm_id :: int
  pm_updated :: int
  pm_status :: payment_status
  pm_amt :: int
  pm_currency :: string
  pm_desc :: string
  pm_no :: string
  pm_txn :: "string option"

text \<open>The payload of an outbox row is the event its text decodes to, \<open>None\<close> when it does not decode.\<close>

type_synonym payment_outbox = "PaymentStatusUpdateEvent option outbox"

record payment_db =
  pd_rows :: "PaymentModel list"
  pd_next :: int
  pd_outbox :: payment_outbox

record payment_svc =
  ps_db :: payment_db
  ps_bus :: "PaymentStatusUpdateEvent list"

definition toDomainPayment :: "PaymentModel \<Rightarrow> Payment" where
  "toDomainPayment m =
     \<lparr>p_amt = \<lparr>am_currency = pm_currency m, am_total = pm_amt m\<rparr>, p_no = pm_no m, p_desc = pm_desc m,
      p_status = pm_status m, p_txn = (case pm_txn m of None \<Rightarrow> [] | Some t \<Rightarrow> t)\<rparr>"

definition toDBPayment :: "Payment \<Rightarrow> PaymentModel" where
  "toDBPayment p =
     \<lparr>pm_id = 0, pm_updated = 0, pm_status = p_status p, pm_amt = am_total (p_amt p),
      pm_currency = am_currency (p_amt p), pm_desc = p_desc p, pm_no = p_no p,
      pm_txn = (if p_txn p \<noteq> [] then Some (p_txn p) else None)\<rparr>"

text \<open>The unique indexes on the trade number and on the provider's transaction id.\<close>

definition txn_taken :: "string \<Rightarrow> string \<Rightarrow> PaymentModel list \<Rightarrow> bool" where
  "txn_taken no txn rows \<longleftrightarrow> (\<exists>m \<in> set rows. pm_no m \<noteq> no \<and> pm_txn m = Some txn)"

text \<open>The column \<open>status\<close> has \<open>default:1\<close>: GORM leaves a zero status to the default, \<open>PaymentStatusInit\<close>.\<close>

definition AddPayment :: "bool \<Rightarrow> int \<Rightarrow> Payment \<Rightarrow> payment_db \<Rightarrow> (payment_error + unit) \<times> payment_db" where
  "AddPayment ok now p d =
     (let m = toDBPayment p;
          st = (if pm_status m = PaymentStatusUnknown then PaymentStatusInit else pm_status m);
          row = m\<lparr>pm_id := pd_next d, pm_updated := now, pm_status := st\<rparr>
      in if \<not> ok then (Inl PyErrInfra, d)
         else if pm_no row \<in> pm_no ` set (pd_rows d)
               \<or> (case pm_txn row of None \<Rightarrow> False | Some t \<Rightarrow> txn_taken (pm_no row) t (pd_rows d))
         then (Inl ErrPaymentAlreadyExists, d)
         else (Inr (), d\<lparr>pd_rows := pd_rows d @ [row], pd_next := pd_next d + 1\<rparr>))"

definition GetPayment :: "bool \<Rightarrow> string \<Rightarrow> payment_db \<Rightarrow> payment_error + Payment" where
  "GetPayment ok no d =
     (if \<not> ok then Inl PyErrInfra
      else (case find_row pm_no no (pd_rows d) of
              None \<Rightarrow> Inl ErrPaymentNotFound
            | Some m \<Rightarrow> Inr (toDomainPayment m)))"

definition repo_ApplyProviderResult ::
  "bool \<Rightarrow> bool \<Rightarrow> int \<Rightarrow> Payment \<Rightarrow> payment_db \<Rightarrow> (payment_error + (Payment \<times> bool)) \<times> payment_db" where
  "repo_ApplyProviderResult find_ok upd_ok now p d =
     (if \<not> find_ok then (Inl PyErrInfra, d)
      else
        (case find_row pm_no (p_no p) (pd_rows d) of
           None \<Rightarrow> (Inl ErrPaymentNotFound, d)
         | Some current \<Rightarrow>
             (let currentPayment = toDomainPayment current;
                  transition = ApplyProviderResult currentPayment p;
                  next = pt_payment transition
              in if \<not> pt_persist transition then (Inr (currentPayment, False), d)
                 else
                   (let settxn = (p_txn next \<noteq> [] \<and> p_txn next \<noteq> p_txn currentPayment);
                        P = (\<lambda>m. pm_no m = p_no p \<and> pm_status m = pm_status current);
                        f = (\<lambda>m. m\<lparr>pm_status := p_status next,
                                    pm_txn := (if settxn then Some (p_txn next) else pm_txn m),
                                    pm_updated := now\<rparr>)
                    in if \<not> upd_ok then (Inl PyErrInfra, d)
                       else if settxn \<and> txn_taken (p_no p) (p_txn next) (pd_rows d) then (Inl PyErrInfra, d)
                       else if rows_affected P (pd_rows d) = 0 then (Inl ErrPaymentStatusRace, d)
                       else (Inr (next, pt_changed transition),
                             d\<lparr>pd_rows := update_where P f (pd_rows d)\<rparr>)))))"

definition UpdatePayment ::
  "bool \<Rightarrow> bool \<Rightarrow> int \<Rightarrow> Payment \<Rightarrow> payment_db \<Rightarrow> (payment_error + unit) \<times> payment_db" where
  "UpdatePayment find_ok upd_ok now p d =
     (case repo_ApplyProviderResult find_ok upd_ok now p d of
        (Inl e, d') \<Rightarrow> (Inl e, d') | (Inr _, d') \<Rightarrow> (Inr (), d'))"

definition FindExpiredPayment :: "bool \<Rightarrow> nat \<Rightarrow> int \<Rightarrow> payment_db \<Rightarrow> payment_error + Payment list" where
  "FindExpiredPayment ok lim t d =
     (if \<not> ok then Inl PyErrInfra
      else
        (let rows = sort_key (\<lambda>m. (pm_updated m, pm_id m))
                      (filter (\<lambda>m. pm_status m = PaymentStatusInit \<and> pm_updated m < t) (pd_rows d))
         in Inr (map toDomainPayment (if lim > 0 then take lim rows else rows))))"

section \<open>The outbox\<close>

definition EventTypePaymentStatusChanged :: string where
  "EventTypePaymentStatusChanged = ''payment.status.changed''"

definition paymentOutbox_Add ::
  "bool \<Rightarrow> string \<Rightarrow> PaymentStatusUpdateEvent \<Rightarrow> payment_outbox \<Rightarrow> (payment_error + int) \<times> payment_outbox" where
  "paymentOutbox_Add ok ty ev ob =
     (if \<not> ok then (Inl PyErrInfra, ob)
      else (let r = outbox_insert ty (Some ev) ob in (Inr (fst r), snd r)))"

definition paymentOutbox_ListPending ::
  "nat \<Rightarrow> nat \<Rightarrow> payment_outbox \<Rightarrow> (int \<times> PaymentStatusUpdateEvent) list" where
  "paymentOutbox_ListPending offset lim ob =
     List.map_filter (\<lambda>r. map_option (Pair (ob_id r)) (ob_payload r)) (outbox_page offset lim ob)"

definition paymentOutbox_MarkSent ::
  "bool \<Rightarrow> int \<Rightarrow> payment_outbox \<Rightarrow> (payment_error + unit) \<times> payment_outbox" where
  "paymentOutbox_MarkSent ok i ob =
     (if \<not> ok then (Inl PyErrInfra, ob)
      else if \<not> outbox_has i ob then (Inl ErrPaymentNotFound, ob)
      else (Inr (), outbox_set_status {i} EventStatusSent ob))"

definition paymentOutbox_BatchMarkSent ::
  "bool \<Rightarrow> int list \<Rightarrow> payment_outbox \<Rightarrow> (payment_error + unit) \<times> payment_outbox" where
  "paymentOutbox_BatchMarkSent ok ids ob =
     (if ids = [] then (Inr (), ob)
      else if \<not> ok then (Inl PyErrInfra, ob)
      else (Inr (), outbox_set_status (set ids) EventStatusSent ob))"

definition paymentOutbox_MarkFailed ::
  "bool \<Rightarrow> int \<Rightarrow> payment_outbox \<Rightarrow> (payment_error + unit) \<times> payment_outbox" where
  "paymentOutbox_MarkFailed ok i ob =
     (if \<not> ok then (Inl PyErrInfra, ob)
      else if \<not> outbox_has i ob then (Inl ErrPaymentNotFound, ob)
      else (Inr (), outbox_set_status {i} EventStatusFailed ob))"

definition paymentOutbox_IncreaseRetry ::
  "bool \<Rightarrow> int \<Rightarrow> payment_outbox \<Rightarrow> (payment_error + nat) \<times> payment_outbox" where
  "paymentOutbox_IncreaseRetry ok i ob =
     (if \<not> ok then (Inl PyErrInfra, ob)
      else if \<not> outbox_has i ob then (Inl ErrPaymentNotFound, ob)
      else (let ob' = outbox_bump i ob in (Inr (outbox_retry i ob'), ob')))"

interpretation payment_outbox: outbox_store outbox_pending_ids paymentOutbox_ListPending
    paymentOutbox_IncreaseRetry paymentOutbox_MarkFailed paymentOutbox_BatchMarkSent
proof
  fix off lim and t :: payment_outbox
  have "set (map fst (paymentOutbox_ListPending off lim t)) \<subseteq> set (map ob_id (outbox_page off lim t))"
    by (auto simp: paymentOutbox_ListPending_def List.map_filter_def)
  then show "set (map fst (paymentOutbox_ListPending off lim t)) \<subseteq> set (take lim (drop off (outbox_pending_ids t)))"
    by (simp only: outbox_page_ids)
next
  fix ok i and t :: payment_outbox
  show "outbox_pending_ids (snd (paymentOutbox_IncreaseRetry ok i t)) = outbox_pending_ids t"
    by (simp add: paymentOutbox_IncreaseRetry_def Let_def outbox_simps)
  show "outbox_pending_ids (snd (paymentOutbox_MarkFailed ok i t)) = outbox_pending_ids t \<or>
    outbox_pending_ids (snd (paymentOutbox_MarkFailed ok i t)) = filter (\<lambda>j. j \<noteq> i) (outbox_pending_ids t)"
    by (simp add: paymentOutbox_MarkFailed_def outbox_simps)
next
  fix ok ids and t :: payment_outbox
  show "outbox_pending_ids (snd (paymentOutbox_BatchMarkSent ok ids t)) =
    (if ok then filter (\<lambda>j. j \<notin> set ids) (outbox_pending_ids t) else outbox_pending_ids t)"
    by (simp add: paymentOutbox_BatchMarkSent_def outbox_simps)
qed

definition payment_batchSize :: nat where "payment_batchSize = 100"
definition payment_maxRetry :: nat where "payment_maxRetry = 5"

definition PaymentOutboxWorker_Run ::
  "(nat \<Rightarrow> worker_env) \<Rightarrow> nat \<Rightarrow> payment_svc \<Rightarrow> (bool \<times> payment_svc) option" where
  "PaymentOutboxWorker_Run envs fuel s =
     (case worker_Run payment_batchSize payment_maxRetry paymentOutbox_ListPending paymentOutbox_IncreaseRetry
             paymentOutbox_MarkFailed paymentOutbox_BatchMarkSent envs fuel 0 0
             (pd_outbox (ps_db s), ps_bus s) of
        None \<Rightarrow> None
      | Some (ok, ob, bus) \<Rightarrow> Some (ok, s\<lparr>ps_db := (ps_db s)\<lparr>pd_outbox := ob\<rparr>, ps_bus := bus\<rparr>))"

end
