(* ===== verification/PaymentUsecase.thy ===== *)
theory PaymentUsecase
  imports Payment
begin

text \<open>
  The use cases of \<open>internal/payment/usecase\<close>: prepaying, the provider callbacks, the Alipay page and
  notification, confirming and the job that asks the provider about old payments.
\<close>

section \<open>Payment records\<close>

definition ensurePaymentRecord ::
  "bool \<Rightarrow> bool \<Rightarrow> int \<Rightarrow> Payment \<Rightarrow> payment_db \<Rightarrow> (payment_error + unit) \<times> payment_db" where
  "ensurePaymentRecord add_ok get_ok now pmt d =
     (case AddPayment add_ok now pmt d of
        (Inr _, d') \<Rightarrow> (Inr (), d')
      | (Inl e, d') \<Rightarrow>
          if e \<noteq> ErrPaymentAlreadyExists then (Inl e, d')
          else
            (case GetPayment get_ok (p_no pmt) d' of
               Inl e' \<Rightarrow> (Inl e', d')
             | Inr existing \<Rightarrow>
                 if p_status existing = PaymentStatusSuccess then (Inl ErrPaymentAlreadyPaid, d')
                 else if am_total (p_amt existing) \<noteq> am_total (p_amt pmt)
                       \<or> am_currency (p_amt existing) \<noteq> am_currency (p_amt pmt)
                 then (Inl ErrPaymentAmountChanged, d')
                 else (Inr (), d')))"

record PrePaymentCmd =
  pp_amt :: Amount
  pp_no :: string
  pp_desc :: string

text \<open>\<open>prepay\<close> is the provider: the code URL for a trade number, a description and an amount.\<close>

definition NativePrePayment_Execute ::
  "(string \<Rightarrow> string \<Rightarrow> Amount \<Rightarrow> string option) \<Rightarrow> bool \<Rightarrow> bool \<Rightarrow> int \<Rightarrow> PrePaymentCmd \<Rightarrow> payment_db
   \<Rightarrow> (payment_error + string) \<times> payment_db" where
  "NativePrePayment_Execute prepay add_ok get_ok now cmd d =
     (let pmt = \<lparr>p_amt = pp_amt cmd, p_no = pp_no cmd, p_desc = pp_desc cmd,
                 p_status = PaymentStatusUnknown, p_txn = []\<rparr>
      in case ensurePaymentRecord add_ok get_ok now pmt d of
           (Inl e, d') \<Rightarrow> (Inl e, d')
         | (Inr _, d') \<Rightarrow>
             (case prepay (p_no pmt) (p_desc pmt) (p_amt pmt) of
                None \<Rightarrow> (Inl PyErrInfra, d')
              | Some url \<Rightarrow> (Inr url, d')))"

section \<open>Provider callbacks\<close>

record CallbackCmd =
  cb_state :: string
  cb_txn :: string
  cb_no :: string

definition nativeCBTypeToStatus :: "string \<Rightarrow> payment_status option" where
  "nativeCBTypeToStatus = map_of
     [(''SUCCESS'', PaymentStatusSuccess), (''PAYERROR'', PaymentStatusFailed),
      (''NOTPAY'', PaymentStatusInit), (''USERPAYING'', PaymentStatusInit),
      (''CLOSED'', PaymentStatusFailed), (''REVOKED'', PaymentStatusFailed),
      (''REFUND'', PaymentStatusRefund), (''WAIT_BUYER_PAY'', PaymentStatusInit),
      (''TRADE_SUCCESS'', PaymentStatusSuccess), (''TRADE_FINISHED'', PaymentStatusSuccess),
      (''TRADE_CLOSED'', PaymentStatusFailed)]"

record callback_env =
  cv_find :: bool
  cv_update :: bool
  cv_add :: bool
  cv_now :: int

definition callback_tx ::
  "callback_env \<Rightarrow> payment_status \<Rightarrow> string \<Rightarrow> string \<Rightarrow> int \<Rightarrow> payment_db \<Rightarrow> (payment_error + unit) \<times> payment_db" where
  "callback_tx env status txn no orderID d =
     run_tx (\<lambda>d. d) (\<lambda>d _. d)
       (\<lambda>d. case repo_ApplyProviderResult (cv_find env) (cv_update env) (cv_now env)
                    \<lparr>p_amt = zeroAmount, p_no = no, p_desc = [], p_status = status, p_txn = txn\<rparr> d of
              (Inl e, d1) \<Rightarrow> (Inl e, d1)
            | (Inr (pmt, changed), d1) \<Rightarrow>
                if \<not> changed then (Inr (), d1)
                else
                  (case paymentOutbox_Add (cv_add env) EventTypePaymentStatusChanged
                          \<lparr>pe_trade = p_no pmt, pe_order = orderID, pe_status = p_status pmt, pe_txn = p_txn pmt\<rparr>
                          (pd_outbox d1) of
                     (Inl e, ob) \<Rightarrow> (Inl e, d1\<lparr>pd_outbox := ob\<rparr>)
                   | (Inr _, ob) \<Rightarrow> (Inr (), d1\<lparr>pd_outbox := ob\<rparr>))) d"

definition UpdatePaymentByTxn ::
  "callback_env \<Rightarrow> CallbackCmd \<Rightarrow> payment_db \<Rightarrow> (payment_error + unit) \<times> payment_db" where
  "UpdatePaymentByTxn env cmd d =
     (let state = trim_space (cb_state cmd); txn = trim_space (cb_txn cmd); no = trim_space (cb_no cmd)
      in case nativeCBTypeToStatus state of
           None \<Rightarrow> (Inl PyErrTradeState, d)
         | Some status \<Rightarrow>
             if status = PaymentStatusSuccess \<and> txn = [] then (Inl ErrPaymentTxnIDRequired, d)
             else
               (case parse_int no of
                  None \<Rightarrow> (Inl PyErrTradeNo, d)
                | Some orderID \<Rightarrow> callback_tx env status txn no orderID d))"

definition PayCallback_Execute ::
  "callback_env \<Rightarrow> CallbackCmd \<Rightarrow> payment_db \<Rightarrow> (payment_error + unit) \<times> payment_db" where
  "PayCallback_Execute env cmd d = UpdatePaymentByTxn env cmd d"

text \<open>\<open>query\<close> is the provider's answer about a trade number.\<close>

definition SyncOrderInfo ::
  "(string \<Rightarrow> CallbackCmd option) \<Rightarrow> callback_env \<Rightarrow> string \<Rightarrow> payment_db \<Rightarrow> (payment_error + unit) \<times> payment_db" where
  "SyncOrderInfo query env no d =
     (case query no of
        None \<Rightarrow> (Inl PyErrInfra, d)
      | Some resp \<Rightarrow> UpdatePaymentByTxn env resp d)"

definition ConfirmPayment_Execute ::
  "bool \<Rightarrow> bool \<Rightarrow> (string \<Rightarrow> CallbackCmd option) \<Rightarrow> callback_env \<Rightarrow> string \<Rightarrow> payment_db
   \<Rightarrow> (payment_error + Payment) \<times> payment_db" where
  "ConfirmPayment_Execute get_ok get2_ok query env no d =
     (case GetPayment get_ok no d of
        Inl e \<Rightarrow> (Inl e, d)
      | Inr pmt \<Rightarrow>
          (case p_status pmt of
             PaymentStatusSuccess \<Rightarrow> (Inr pmt, d)
           | PaymentStatusInit \<Rightarrow>
               (case SyncOrderInfo query env no d of
                  (Inl e, d') \<Rightarrow> (Inl e, d')
                | (Inr _, d') \<Rightarrow> (GetPayment get2_ok no d', d'))
           | _ \<Rightarrow> (Inr pmt, d)))"

definition GetPayment_Execute :: "bool \<Rightarrow> string \<Rightarrow> payment_db \<Rightarrow> payment_error + Payment" where
  "GetPayment_Execute ok no d = (if no = [] then Inl PyErrTradeNo else GetPayment ok no d)"

section \<open>gRPC handler\<close>

definition handler_NativePrepay ::
  "(string \<Rightarrow> string \<Rightarrow> Amount \<Rightarrow> string option) \<Rightarrow> bool \<Rightarrow> bool \<Rightarrow> int \<Rightarrow> string \<Rightarrow> string \<Rightarrow> int \<Rightarrow> string \<Rightarrow> payment_db
   \<Rightarrow> (payment_error + string) \<times> payment_db" where
  "handler_NativePrepay prepay add_ok get_ok now no desc cents currency d =
     NativePrePayment_Execute prepay add_ok get_ok now
       \<lparr>pp_amt = \<lparr>am_currency = currency, am_total = cents\<rparr>, pp_no = no, pp_desc = desc\<rparr> d"

definition handler_GetPayment :: "bool \<Rightarrow> string \<Rightarrow> payment_db \<Rightarrow> payment_error + payment_status" where
  "handler_GetPayment ok no d =
     (if no = [] then Inl PyErrTradeNo
      else (case GetPayment_Execute ok no d of Inl e \<Rightarrow> Inl e | Inr p \<Rightarrow> Inr (p_status p)))"

definition handler_ConfirmPayment ::
  "bool \<Rightarrow> bool \<Rightarrow> (string \<Rightarrow> CallbackCmd option) \<Rightarrow> callback_env \<Rightarrow> string \<Rightarrow> payment_db
   \<Rightarrow> (payment_error + (payment_status \<times> string)) \<times> payment_db" where
  "handler_ConfirmPayment get_ok get2_ok query env no d =
     (if no = [] then (Inl PyErrTradeNo, d)
      else (case ConfirmPayment_Execute get_ok get2_ok query env no d of
              (Inl e, d') \<Rightarrow> (Inl e, d')
            | (Inr p, d') \<Rightarrow> (Inr (p_status p, p_txn p), d')))"

section \<open>The sync job\<close>

definition sync_limit :: nat where "sync_limit = 100"

text \<open>One page per round.  The clock stops the loop: the fuel is the number of rounds before the
  deadline, and \<open>stop\<close> the number of rows of the last round handled in time.\<close>

definition sync_page ::
  "(string \<Rightarrow> CallbackCmd option) \<Rightarrow> callback_env \<Rightarrow> Payment list \<Rightarrow> payment_db \<Rightarrow> payment_db" where
  "sync_page query env pmts d = fold (\<lambda>p d. snd (SyncOrderInfo query env (p_no p) d)) pmts d"

fun SyncPaymentOrder_Run ::
  "(string \<Rightarrow> CallbackCmd option) \<Rightarrow> (nat \<Rightarrow> bool) \<Rightarrow> (nat \<Rightarrow> callback_env) \<Rightarrow> int \<Rightarrow> nat \<Rightarrow> nat \<Rightarrow> nat
   \<Rightarrow> payment_db \<Rightarrow> bool \<times> payment_db" where
  "SyncPaymentOrder_Run query list_ok envs threshold stop rnd 0 d = (True, d)"
| "SyncPaymentOrder_Run query list_ok envs threshold stop rnd (Suc fuel) d =
     (case FindExpiredPayment (list_ok rnd) sync_limit threshold d of
        Inl e \<Rightarrow> (False, d)
      | Inr pmts \<Rightarrow>
          if pmts = [] then (True, d)
          else if fuel = 0 then (True, sync_page query (envs rnd) (take stop pmts) d)
          else SyncPaymentOrder_Run query list_ok envs threshold stop (Suc rnd) fuel
                 (sync_page query (envs rnd) pmts d))"

end
