(* ===== verification/PaymentProps.thy ===== *)
theory PaymentProps
  imports PaymentUsecase
begin

text \<open>
  The invariant of the payment service: the outbox holds, for each payment, exactly the path its
  status took, through any interleaving of record creation, provider callbacks and worker runs.
\<close>

section \<open>The status machine\<close>

definition legal_pay :: "payment_status \<Rightarrow> payment_status \<Rightarrow> bool" where
  "legal_pay s t \<longleftrightarrow> nextPaymentStatus s t = (t, True) \<and> t \<noteq> PaymentStatusUnknown \<and> t \<noteq> PaymentStatusInit"

fun pay_rank :: "payment_status \<Rightarrow> nat" where
  "pay_rank PaymentStatusFailed = 1"
| "pay_rank PaymentStatusSuccess = 2"
| "pay_rank PaymentStatusRefund = 3"
| "pay_rank _ = 0"

lemma legal_pay_cases:
  "legal_pay s t \<longleftrightarrow> (s \<in> {PaymentStatusUnknown, PaymentStatusInit} \<and> t \<in> {PaymentStatusSuccess, PaymentStatusFailed, PaymentStatusRefund})
     \<or> (s = PaymentStatusFailed \<and> t = PaymentStatusSuccess) \<or> (s = PaymentStatusSuccess \<and> t = PaymentStatusRefund)"
  by (cases s; cases t) (auto simp: legal_pay_def nextPaymentStatus_def)

interpretation pay_life: lifecycle legal_pay pay_rank
  by unfold_locales (auto simp: legal_pay_cases)

lemma ApplyProviderResult_step:
  "pt_changed (ApplyProviderResult p q) \<Longrightarrow> legal_pay (p_status p) (p_status (pt_payment (ApplyProviderResult p q)))"
  by (cases "p_status p"; cases "p_status q")
    (auto simp: ApplyProviderResult_def Let_def nextPaymentStatus_def legal_pay_def split: if_splits)

lemma ApplyProviderResult_same:
  "\<not> pt_changed (ApplyProviderResult p q) \<Longrightarrow> p_status (pt_payment (ApplyProviderResult p q)) = p_status p"
  by (cases "p_status p"; cases "p_status q")
    (auto simp: ApplyProviderResult_def Let_def nextPaymentStatus_def split: if_splits)

lemma ApplyProviderResult_fields [simp]:
  "p_no (pt_payment (ApplyProviderResult p q)) = p_no p" "p_amt (pt_payment (ApplyProviderResult p q)) = p_amt p"
  by (simp_all add: ApplyProviderResult_def Let_def split: prod.splits)

lemma ApplyProviderResult_txn:
  "p_txn (pt_payment (ApplyProviderResult p q)) = (if p_txn p = [] then p_txn q else p_txn p)"
  by (auto simp: ApplyProviderResult_def Let_def split: prod.splits)

section \<open>The event log of a payment\<close>

definition pay_events :: "payment_outbox \<Rightarrow> PaymentStatusUpdateEvent list" where
  "pay_events ob = List.map_filter ob_payload (ob_rows ob)"

definition payment_log :: "string \<Rightarrow> payment_outbox \<Rightarrow> payment_status list" where
  "payment_log no ob = map pe_status (filter (\<lambda>e. pe_trade e = no) (pay_events ob))"

lemma pay_events_update [simp]:
  "(\<And>r. ob_payload (f r) = ob_payload r) \<Longrightarrow>
   List.map_filter ob_payload (update_where P f rows) = List.map_filter ob_payload rows"
  by (induction rows) (auto simp: List.map_filter_simps split: option.splits)

lemma pay_events_keep [simp]:
  "pay_events (outbox_set_status ids st ob) = pay_events ob" "pay_events (outbox_bump i ob) = pay_events ob"
  by (simp_all add: pay_events_def outbox_set_status_def outbox_bump_def)

lemma pay_events_insert [simp]:
  "pay_events (snd (outbox_insert ty (Some ev) ob)) = pay_events ob @ [ev]"
  by (simp add: pay_events_def outbox_insert_def List.map_filter_def)

definition pay_inv :: "PaymentModel list \<Rightarrow> payment_outbox \<Rightarrow> bool" where
  "pay_inv rows ob \<longleftrightarrow>
     distinct (map pm_no rows)
     \<and> pe_trade ` set (pay_events ob) \<subseteq> pm_no ` set rows
     \<and> (\<forall>m \<in> set rows. pay_life.path PaymentStatusInit (payment_log (pm_no m) ob) (pm_status m))"

definition pay_svc_inv :: "payment_svc \<Rightarrow> bool" where
  "pay_svc_inv s \<longleftrightarrow> pay_inv (pd_rows (ps_db s)) (pd_outbox (ps_db s))"

lemma pay_inv_keep [simp]:
  "pay_inv rows (outbox_set_status ids st ob) = pay_inv rows ob" "pay_inv rows (outbox_bump i ob) = pay_inv rows ob"
  by (simp_all add: pay_inv_def payment_log_def)

lemma AddPayment_inv:
  assumes "pay_inv (pd_rows d) (pd_outbox d)" "p_status p = PaymentStatusUnknown"
  shows "pay_inv (pd_rows (snd (AddPayment ok now p d))) (pd_outbox (snd (AddPayment ok now p d)))"
proof -
  have "payment_log no (pd_outbox d) = []" if "no \<notin> pm_no ` set (pd_rows d)" for no
    using assms(1) that by (auto simp: pay_inv_def payment_log_def filter_empty_conv)
  then show ?thesis using assms
    by (auto simp: AddPayment_def Let_def pay_inv_def toDBPayment_def intro: pay_life.path.path_nil)
qed

text \<open>What a successful application leaves: the one row of the trade number, updated.\<close>

lemma repo_Apply_cases:
  assumes "repo_ApplyProviderResult f u now p d = (Inr (pmt, changed), d')"
  obtains m where "find_row pm_no (p_no p) (pd_rows d) = Some m" "pd_outbox d' = pd_outbox d"
    "d' = d" "changed = False" "pmt = toDomainPayment m"
  | m tr settxn where "find_row pm_no (p_no p) (pd_rows d) = Some m" "tr = ApplyProviderResult (toDomainPayment m) p"
    "pd_outbox d' = pd_outbox d" "pmt = pt_payment tr" "changed = pt_changed tr"
    "settxn = (p_txn pmt \<noteq> [] \<and> p_txn pmt \<noteq> p_txn (toDomainPayment m))"
    "pd_rows d' = update_where (\<lambda>r. pm_no r = p_no p \<and> pm_status r = pm_status m)
        (\<lambda>r. r\<lparr>pm_status := p_status pmt, pm_txn := (if settxn then Some (p_txn pmt) else pm_txn r), pm_updated := now\<rparr>)
        (pd_rows d)"
proof -
  obtain m where m: "find_row pm_no (p_no p) (pd_rows d) = Some m"
    using assms by (auto simp: repo_ApplyProviderResult_def split: if_splits option.splits)
  define tr where "tr = ApplyProviderResult (toDomainPayment m) p"
  define settxn where "settxn = (p_txn (pt_payment tr) \<noteq> [] \<and> p_txn (pt_payment tr) \<noteq> p_txn (toDomainPayment m))"
  show ?thesis
  proof (cases "pt_persist tr")
    case False
    then show ?thesis using assms m that(1) [of m]
      by (auto simp: repo_ApplyProviderResult_def Let_def tr_def split: if_splits)
  next
    case True
    have e: "repo_ApplyProviderResult f u now p d =
        (if \<not> f then (Inl PyErrInfra, d) else if \<not> u then (Inl PyErrInfra, d)
         else if settxn \<and> txn_taken (p_no p) (p_txn (pt_payment tr)) (pd_rows d) then (Inl PyErrInfra, d)
         else if rows_affected (\<lambda>r. pm_no r = p_no p \<and> pm_status r = pm_status m) (pd_rows d) = 0 then (Inl ErrPaymentStatusRace, d)
         else (Inr (pt_payment tr, pt_changed tr), d\<lparr>pd_rows := update_where (\<lambda>r. pm_no r = p_no p \<and> pm_status r = pm_status m)
           (\<lambda>r. r\<lparr>pm_status := p_status (pt_payment tr), pm_txn := (if settxn then Some (p_txn (pt_payment tr)) else pm_txn r), pm_updated := now\<rparr>)
           (pd_rows d)\<rparr>))"
      unfolding tr_def settxn_def using m True [unfolded tr_def] by (simp add: repo_ApplyProviderResult_def Let_def)
    have "d' = d\<lparr>pd_rows := update_where (\<lambda>r. pm_no r = p_no p \<and> pm_status r = pm_status m)
        (\<lambda>r. r\<lparr>pm_status := p_status pmt, pm_txn := (if settxn then Some (p_txn pmt) else pm_txn r), pm_updated := now\<rparr>)
        (pd_rows d)\<rparr> \<and> pmt = pt_payment tr \<and> changed = pt_changed tr"
      using assms unfolding e by (auto split: if_split_asm)
    then show ?thesis using m that(2) [of m tr settxn] by (simp add: tr_def settxn_def)
  qed
qed

lemma toDomainPayment_fields [simp]:
  "p_no (toDomainPayment m) = pm_no m" "p_status (toDomainPayment m) = pm_status m"
  by (simp_all add: toDomainPayment_def)

lemma update_unique:
  assumes "distinct (map pm_no rows)" "m \<in> set rows" "pm_no m = no" "r' \<in> set (update_where (\<lambda>r. pm_no r = no \<and> pm_status r = pm_status m) g rows)"
  shows "r' = g m \<or> (r' \<in> set rows \<and> pm_no r' \<noteq> no)"
proof -
  obtain r where r: "r \<in> set rows" "r' = (if pm_no r = no \<and> pm_status r = pm_status m then g r else r)"
    using assms(4) by (auto simp: update_where_set)
  show ?thesis
  proof (cases "pm_no r = no")
    case True
    then have "r = m" using assms(1-3) r(1) by (auto simp: distinct_map inj_on_def)
    then show ?thesis using r True by simp
  qed (use r in auto)
qed

lemma callback_tx_inv:
  assumes "pay_inv (pd_rows d) (pd_outbox d)"
  shows "pay_inv (pd_rows (snd (callback_tx env status txn no oid d))) (pd_outbox (snd (callback_tx env status txn no oid d)))"
proof -
  let ?p = "\<lparr>p_amt = zeroAmount, p_no = no, p_desc = [], p_status = status, p_txn = txn\<rparr>"
  let ?c = "snd (callback_tx env status txn no oid d)"
  let ?ev = "\<lambda>pmt. \<lparr>pe_trade = p_no pmt, pe_order = oid, pe_status = p_status pmt, pe_txn = p_txn pmt\<rparr>"
  have "?c = d \<or> (\<exists>pmt d1. repo_ApplyProviderResult (cv_find env) (cv_update env) (cv_now env) ?p d = (Inr (pmt, False), d1) \<and> ?c = d1)
      \<or> (\<exists>pmt d1. repo_ApplyProviderResult (cv_find env) (cv_update env) (cv_now env) ?p d = (Inr (pmt, True), d1)
           \<and> ?c = d1\<lparr>pd_outbox := snd (outbox_insert EventTypePaymentStatusChanged (Some (?ev pmt)) (pd_outbox d1))\<rparr>)"
    by (auto simp: callback_tx_def run_tx_def paymentOutbox_Add_def Let_def split: prod.splits sum.splits if_splits)
  then show ?thesis
  proof (elim disjE exE conjE)
    fix pmt d1
    assume a: "repo_ApplyProviderResult (cv_find env) (cv_update env) (cv_now env) ?p d = (Inr (pmt, False), d1)" and c: "?c = d1"
    show ?thesis using a
    proof (cases rule: repo_Apply_cases)
      case (2 m tr settxn)
      have m: "m \<in> set (pd_rows d)" "pm_no m = no" using find_row_SomeD [OF 2(1)] by auto
      have st: "p_status pmt = pm_status m" using 2 ApplyProviderResult_same [of "toDomainPayment m" ?p] by simp
      let ?g = "\<lambda>r. r\<lparr>pm_status := p_status pmt, pm_txn := (if settxn then Some (p_txn pmt) else pm_txn r), pm_updated := cv_now env\<rparr>"
      have rows: "pd_rows ?c = update_where (\<lambda>r. pm_no r = no \<and> pm_status r = pm_status m) ?g (pd_rows d)" using c 2 by simp
      have d: "distinct (map pm_no (pd_rows d))" using assms by (simp add: pay_inv_def)
      have "pay_life.path PaymentStatusInit (payment_log (pm_no r) (pd_outbox d)) (pm_status r)" if "r \<in> set (pd_rows ?c)" for r
        using update_unique [OF d m that [unfolded rows]] assms m st by (auto simp: pay_inv_def)
      moreover have "map pm_no (pd_rows ?c) = map pm_no (pd_rows d)" "pm_no ` set (pd_rows ?c) = pm_no ` set (pd_rows d)"
        unfolding rows by (simp_all add: update_where_keys update_where_image)
      moreover have "pd_outbox ?c = pd_outbox d" using c 2 by simp
      ultimately show ?thesis using assms d by (simp add: pay_inv_def)
    qed (use assms c in simp)
  next
    fix pmt d1
    assume a: "repo_ApplyProviderResult (cv_find env) (cv_update env) (cv_now env) ?p d = (Inr (pmt, True), d1)"
      and c: "?c = d1\<lparr>pd_outbox := snd (outbox_insert EventTypePaymentStatusChanged (Some (?ev pmt)) (pd_outbox d1))\<rparr>"
    show ?thesis using a
    proof (cases rule: repo_Apply_cases)
      case (2 m tr settxn)
      have m: "m \<in> set (pd_rows d)" "pm_no m = no" using find_row_SomeD [OF 2(1)] by auto
      have l: "legal_pay (pm_status m) (p_status pmt)" "p_no pmt = no"
        using 2 m ApplyProviderResult_step [of "toDomainPayment m" ?p] by simp_all
      let ?g = "\<lambda>r. r\<lparr>pm_status := p_status pmt, pm_txn := (if settxn then Some (p_txn pmt) else pm_txn r), pm_updated := cv_now env\<rparr>"
      have log: "payment_log k (pd_outbox ?c) = payment_log k (pd_outbox d) @ (if k = no then [p_status pmt] else [])" for k
        by (simp add: c 2(3) payment_log_def l)
      have rows: "pd_rows ?c = update_where (\<lambda>r. pm_no r = no \<and> pm_status r = pm_status m) ?g (pd_rows d)" using c 2 by simp
      have d: "distinct (map pm_no (pd_rows d))" using assms by (simp add: pay_inv_def)
      have "pay_life.path PaymentStatusInit (payment_log (pm_no r) (pd_outbox ?c)) (pm_status r)" if "r \<in> set (pd_rows ?c)" for r
        using update_unique [OF d m that [unfolded rows]] assms m l
        by (auto simp: log pay_inv_def intro!: pay_life.path.path_snoc)
      moreover have "pe_trade ` set (pay_events (pd_outbox ?c)) \<subseteq> pm_no ` set (pd_rows ?c)"
        using assms m by (auto simp: c 2(3) 2(7) update_where_image pay_inv_def l)
      ultimately show ?thesis using d by (simp add: pay_inv_def rows update_where_keys)
    qed simp
  qed (use assms in simp)
qed

section \<open>All interleavings\<close>

definition put_pay :: "payment_db \<Rightarrow> payment_svc \<Rightarrow> payment_svc" where
  "put_pay d s = s\<lparr>ps_db := d\<rparr>"

inductive payment_step :: "payment_svc \<Rightarrow> payment_svc \<Rightarrow> bool" where
  py_add: "p_status p = PaymentStatusUnknown \<Longrightarrow> p_txn p = []
    \<Longrightarrow> payment_step s (put_pay (snd (AddPayment ok now p (ps_db s))) s)"
| py_callback: "payment_step s (put_pay (snd (callback_tx env status txn no oid (ps_db s))) s)"
| py_worker: "PaymentOutboxWorker_Run envs fuel s = Some (r, s') \<Longrightarrow> payment_step s s'"
| py_sent: "payment_step s (put_pay ((ps_db s)\<lparr>pd_outbox := snd (paymentOutbox_MarkSent ok i (pd_outbox (ps_db s)))\<rparr>) s)"

inductive payment_reach :: "payment_svc \<Rightarrow> bool" where
  py_init: "pd_rows (ps_db s) = [] \<Longrightarrow> ob_rows (pd_outbox (ps_db s)) = [] \<Longrightarrow> payment_reach s"
| py_step: "payment_reach s \<Longrightarrow> payment_step s s' \<Longrightarrow> payment_reach s'"

lemma pay_outbox_ops [simp]:
  "pay_inv rows (snd (paymentOutbox_IncreaseRetry ok i ob)) = pay_inv rows ob"
  "pay_inv rows (snd (paymentOutbox_MarkFailed ok i ob)) = pay_inv rows ob"
  "pay_inv rows (snd (paymentOutbox_MarkSent ok i ob)) = pay_inv rows ob"
  "pay_inv rows (snd (paymentOutbox_BatchMarkSent ok ids ob)) = pay_inv rows ob"
  by (simp_all add: paymentOutbox_IncreaseRetry_def paymentOutbox_MarkFailed_def paymentOutbox_MarkSent_def
      paymentOutbox_BatchMarkSent_def Let_def)

lemma payment_worker_rows:
  assumes "PaymentOutboxWorker_Run envs fuel s = Some (r, s')"
  shows "pd_rows (ps_db s') = pd_rows (ps_db s)"
  using assms by (auto simp: PaymentOutboxWorker_Run_def split: option.splits)

lemma payment_worker_inv:
  assumes "pay_svc_inv s" "PaymentOutboxWorker_Run envs fuel s = Some (r, s')"
  shows "pay_svc_inv s'"
proof -
  obtain ok ob bus where w: "worker_Run payment_batchSize payment_maxRetry paymentOutbox_ListPending paymentOutbox_IncreaseRetry
      paymentOutbox_MarkFailed paymentOutbox_BatchMarkSent envs fuel 0 0 (pd_outbox (ps_db s), ps_bus s) = Some (ok, ob, bus)"
    and s': "s' = s\<lparr>ps_db := (ps_db s)\<lparr>pd_outbox := ob\<rparr>, ps_bus := bus\<rparr>"
    using assms(2) by (auto simp: PaymentOutboxWorker_Run_def split: option.splits)
  have "pay_inv (pd_rows (ps_db s)) (fst (ob, bus))"
    by (rule worker_Run_keeps [where I = "pay_inv (pd_rows (ps_db s))", OF _ _ _ _ w])
      (use assms(1) in \<open>simp_all add: pay_svc_inv_def\<close>)
  then show ?thesis by (simp add: pay_svc_inv_def s')
qed

lemma payment_step_inv: "payment_step s s' \<Longrightarrow> pay_svc_inv s \<Longrightarrow> pay_svc_inv s'"
proof (induction rule: payment_step.induct)
  case (py_worker envs fuel s r s')
  then show ?case by (auto intro: payment_worker_inv)
qed (auto simp: pay_svc_inv_def put_pay_def intro: AddPayment_inv callback_tx_inv)

lemma payment_reach_inv: "payment_reach s \<Longrightarrow> pay_svc_inv s"
proof (induction rule: payment_reach.induct)
  case (py_init s)
  then show ?case by (simp add: pay_svc_inv_def pay_inv_def pay_events_def List.map_filter_def)
qed (rule payment_step_inv)

section \<open>Rows over time\<close>

definition pay_succ :: "PaymentModel \<Rightarrow> PaymentModel \<Rightarrow> bool" where
  "pay_succ m m' \<longleftrightarrow> pm_no m' = pm_no m \<and> pm_amt m' = pm_amt m \<and> pm_currency m' = pm_currency m
     \<and> (pm_txn m \<notin> {None, Some []} \<longrightarrow> pm_txn m' = pm_txn m)
     \<and> (\<exists>ts. pay_life.path (pm_status m) ts (pm_status m'))"

definition pay_kept :: "payment_svc \<Rightarrow> payment_svc \<Rightarrow> bool" where
  "pay_kept s s' \<longleftrightarrow> (\<forall>m \<in> set (pd_rows (ps_db s)). \<exists>m' \<in> set (pd_rows (ps_db s')). pay_succ m m')"

lemma pay_succ_refl [simp]: "pay_succ m m"
  by (auto simp: pay_succ_def intro: pay_life.path.path_nil)

lemma pay_path_trans:
  "pay_life.path b us c \<Longrightarrow> pay_life.path a ts b \<Longrightarrow> \<exists>vs. pay_life.path a vs c"
  by (induction rule: pay_life.path.induct) (auto intro: pay_life.path.path_snoc)

lemma pay_succ_trans: "pay_succ a b \<Longrightarrow> pay_succ b c \<Longrightarrow> pay_succ a c"
  using pay_path_trans by (fastforce simp: pay_succ_def)

lemma pay_kept_trans: "pay_kept a b \<Longrightarrow> pay_kept b c \<Longrightarrow> pay_kept a c"
  unfolding pay_kept_def by (meson pay_succ_trans)

lemma pay_kept_rows: "pd_rows (ps_db s') = pd_rows (ps_db s) \<Longrightarrow> pay_kept s s'"
  by (auto simp: pay_kept_def intro!: bexI)

lemma callback_kept:
  assumes "distinct (map pm_no (pd_rows (ps_db s)))"
  shows "pay_kept s (put_pay (snd (callback_tx env status txn no oid (ps_db s))) s)"
proof -
  let ?d = "ps_db s"
  let ?p = "\<lparr>p_amt = zeroAmount, p_no = no, p_desc = [], p_status = status, p_txn = txn\<rparr>"
  let ?c = "snd (callback_tx env status txn no oid ?d)"
  have "pd_rows ?c = pd_rows ?d \<or> (\<exists>pmt b d1. repo_ApplyProviderResult (cv_find env) (cv_update env) (cv_now env) ?p ?d = (Inr (pmt, b), d1) \<and> pd_rows ?c = pd_rows d1)"
    by (auto simp: callback_tx_def run_tx_def split: prod.splits sum.splits if_splits)
  then show ?thesis
  proof (elim disjE exE conjE)
    fix pmt b d1
    assume a: "repo_ApplyProviderResult (cv_find env) (cv_update env) (cv_now env) ?p ?d = (Inr (pmt, b), d1)" and c: "pd_rows ?c = pd_rows d1"
    show ?thesis using a
    proof (cases rule: repo_Apply_cases)
      case (2 m tr settxn)
      let ?g = "\<lambda>r. r\<lparr>pm_status := p_status pmt, pm_txn := (if settxn then Some (p_txn pmt) else pm_txn r), pm_updated := cv_now env\<rparr>"
      have m: "pm_no m = no" "m \<in> set (pd_rows ?d)" using find_row_SomeD [OF 2(1)] by auto
      have txn: "settxn \<Longrightarrow> pm_txn m \<in> {None, Some []}"
        using ApplyProviderResult_txn [of "toDomainPayment m" ?p] 2(2,4,6)
        by (auto simp: toDomainPayment_def split: if_splits option.splits)
      have st: "\<exists>ts. pay_life.path (pm_status m) ts (p_status pmt)"
      proof (cases "pt_changed tr")
        case True
        then have "legal_pay (pm_status m) (p_status pmt)" using 2 ApplyProviderResult_step [of "toDomainPayment m" ?p] by simp
        then show ?thesis using pay_life.path.path_snoc [OF pay_life.path.path_nil] by blast
      next
        case False
        then show ?thesis using 2 ApplyProviderResult_same [of "toDomainPayment m" ?p] pay_life.path.path_nil by auto
      qed
      show ?thesis unfolding pay_kept_def
      proof
        fix x assume x: "x \<in> set (pd_rows ?d)"
        let ?x = "if pm_no x = no \<and> pm_status x = pm_status m then ?g x else x"
        have mem: "?x \<in> set (pd_rows ?c)" using x 2(7) c by (force simp: update_where_set)
        show "\<exists>m' \<in> set (pd_rows (ps_db (put_pay ?c s))). pay_succ x m'"
        proof (cases "pm_no x = no \<and> pm_status x = pm_status m")
          case True
          then have "x = m" using assms x m by (auto simp: distinct_map inj_on_def)
          then show ?thesis using mem st txn m by (intro bexI [of _ ?x]) (auto simp: put_pay_def pay_succ_def)
        next
          case False
          then show ?thesis using mem by (intro bexI [of _ ?x]) (auto simp: put_pay_def)
        qed
      qed
    qed (simp add: c pay_kept_rows put_pay_def)
  qed (simp add: pay_kept_rows put_pay_def)
qed

lemma payment_step_kept: "payment_step s s' \<Longrightarrow> pay_svc_inv s \<Longrightarrow> pay_kept s s'"
proof (induction rule: payment_step.induct)
  case (py_add p s ok now)
  have "\<exists>new. pd_rows (snd (AddPayment ok now p (ps_db s))) = pd_rows (ps_db s) @ new"
    by (auto simp: AddPayment_def Let_def)
  then show ?case by (auto simp: pay_kept_def put_pay_def intro!: bexI)
next
  case (py_callback s env status txn no oid)
  then show ?case by (intro callback_kept) (simp add: pay_svc_inv_def pay_inv_def)
next
  case (py_worker envs fuel s r s')
  then show ?case by (intro pay_kept_rows) (rule payment_worker_rows)
qed (simp add: pay_kept_rows put_pay_def)

lemma payment_steps_kept:
  assumes "payment_step\<^sup>*\<^sup>* s s'" "payment_reach s"
  shows "pay_kept s s' \<and> payment_reach s'"
  using assms(1)
proof (induction rule: rtranclp_induct)
  case base
  then show ?case using assms(2) by (simp add: pay_kept_rows)
next
  case (step t u)
  then show ?case using payment_step_kept payment_reach_inv pay_kept_trans py_step by blast
qed

lemma pay_path_final:
  "pay_life.path a ts b \<Longrightarrow> (a = PaymentStatusRefund \<longrightarrow> b = PaymentStatusRefund)
     \<and> (a = PaymentStatusSuccess \<longrightarrow> b \<in> {PaymentStatusSuccess, PaymentStatusRefund})"
  by (induction rule: pay_life.path.induct) (auto simp: legal_pay_cases)

end
