(* ===== verification/PaymentSpec.thy ===== *)
theory PaymentSpec
  imports PaymentProps
begin

text \<open>
  The properties of the payment service: the event log of a payment is the path of its status, what is
  settled stays settled, what a provider callback does on every branch, and how far the sync job reaches.
\<close>

text \<open>C11: the outbox of the payment service tells each payment's story: in every reachable state the events of a
  trade number are, in order, the statuses it went through from INIT, each step legal and none
  repeated, and the last one is the status in the table.\<close>

theorem payment_history:
  assumes "payment_reach s" "m \<in> set (pd_rows (ps_db s))"
  shows "successively legal_pay (PaymentStatusInit # payment_log (pm_no m) (pd_outbox (ps_db s)))
     \<and> last (PaymentStatusInit # payment_log (pm_no m) (pd_outbox (ps_db s))) = pm_status m
     \<and> distinct (payment_log (pm_no m) (pd_outbox (ps_db s)))"
proof -
  have p: "pay_life.path PaymentStatusInit (payment_log (pm_no m) (pd_outbox (ps_db s))) (pm_status m)"
    using payment_reach_inv [OF assms(1)] assms(2) by (simp add: pay_svc_inv_def pay_inv_def)
  show ?thesis using pay_life.path_successively [OF p] pay_life.path_no_repeat [OF p] by simp
qed

definition pay_empty :: payment_svc where
  "pay_empty = \<lparr>ps_db = \<lparr>pd_rows = [], pd_next = 1, pd_outbox = \<lparr>ob_rows = [], ob_next = 1\<rparr>\<rparr>, ps_bus = []\<rparr>"

definition sample_payment :: Payment where
  "sample_payment = \<lparr>p_amt = \<lparr>am_currency = ''CNY'', am_total = 9900\<rparr>, p_no = ''11'', p_desc = ''order'',
     p_status = PaymentStatusUnknown, p_txn = []\<rparr>"

definition cb_ok :: callback_env where
  "cb_ok = \<lparr>cv_find = True, cv_update = True, cv_add = True, cv_now = 50\<rparr>"

definition pay_added :: payment_svc where
  "pay_added = put_pay (snd (AddPayment True 10 sample_payment (ps_db pay_empty))) pay_empty"

definition pay_done :: payment_svc where
  "pay_done = put_pay (snd (callback_tx cb_ok PaymentStatusSuccess ''T1'' ''11'' 11 (ps_db pay_added))) pay_added"

lemma pay_reach_samples: "payment_reach pay_added" "payment_step pay_added pay_done"
proof -
  have "payment_reach pay_empty" by (rule py_init) (simp_all add: pay_empty_def)
  then show "payment_reach pay_added"
    unfolding pay_added_def by (rule py_step [OF _ py_add]) (simp_all add: sample_payment_def)
  show "payment_step pay_added pay_done" unfolding pay_done_def by (rule py_callback)
qed

lemma pay_added_rows: "pd_rows (ps_db pay_added) = [\<lparr>pm_id = 1, pm_updated = 10, pm_status = PaymentStatusInit, pm_amt = 9900,
    pm_currency = ''CNY'', pm_desc = ''order'', pm_no = ''11'', pm_txn = None\<rparr>]"
  by (simp add: pay_added_def pay_empty_def put_pay_def AddPayment_def toDBPayment_def sample_payment_def Let_def)

lemma pay_done_rows: "pd_rows (ps_db pay_done) = [\<lparr>pm_id = 1, pm_updated = 50, pm_status = PaymentStatusSuccess, pm_amt = 9900,
    pm_currency = ''CNY'', pm_desc = ''order'', pm_no = ''11'', pm_txn = Some ''T1''\<rparr>]"
  by code_simp

lemma payment_history_witness:
  "payment_reach pay_done \<and> last (PaymentStatusInit # payment_log ''11'' (pd_outbox (ps_db pay_done))) = PaymentStatusSuccess"
proof -
  have r: "payment_reach pay_done" using py_step [OF pay_reach_samples] .
  show ?thesis using r payment_history [OF r, of "hd (pd_rows (ps_db pay_done))"] by (simp add: pay_done_rows)
qed

text \<open>C12: what the provider settled stays settled.  Whatever happens later, a payment keeps its amount, its currency
  and its first transaction id; SUCCESS can only become REFUND, and REFUND stays.\<close>

theorem payment_settled_final:
  assumes "payment_reach s" "payment_step\<^sup>*\<^sup>* s s'" "m \<in> set (pd_rows (ps_db s))"
  shows "\<exists>m' \<in> set (pd_rows (ps_db s')). pm_no m' = pm_no m \<and> pm_amt m' = pm_amt m \<and> pm_currency m' = pm_currency m
     \<and> (pm_txn m \<notin> {None, Some []} \<longrightarrow> pm_txn m' = pm_txn m)
     \<and> (pm_status m = PaymentStatusSuccess \<longrightarrow> pm_status m' \<in> {PaymentStatusSuccess, PaymentStatusRefund})
     \<and> (pm_status m = PaymentStatusRefund \<longrightarrow> pm_status m' = PaymentStatusRefund)"
  using payment_steps_kept [OF assms(2,1)] assms(3) pay_path_final unfolding pay_kept_def pay_succ_def by (metis insertE)

lemma payment_settled_final_witness:
  "\<exists>m' \<in> set (pd_rows (ps_db (put_pay (snd (callback_tx cb_ok PaymentStatusFailed ''T2'' ''11'' 11 (ps_db pay_done))) pay_done))).
     pm_txn m' = Some ''T1'' \<and> pm_status m' \<in> {PaymentStatusSuccess, PaymentStatusRefund}"
proof -
  have r: "payment_reach pay_done" using py_step [OF pay_reach_samples] .
  have st: "payment_step\<^sup>*\<^sup>* pay_done (put_pay (snd (callback_tx cb_ok PaymentStatusFailed ''T2'' ''11'' 11 (ps_db pay_done))) pay_done)"
    using py_callback by blast
  show ?thesis using payment_settled_final [OF r st, of "hd (pd_rows (ps_db pay_done))"] by (auto simp: pay_done_rows)
qed

section \<open>Callbacks\<close>

lemma Apply_idle:
  assumes "status \<in> {PaymentStatusUnknown, PaymentStatusInit}"
  shows "snd (repo_ApplyProviderResult f u now \<lparr>p_amt = a, p_no = no, p_desc = [], p_status = status, p_txn = []\<rparr> d) = d
    \<and> (\<forall>x. fst (repo_ApplyProviderResult f u now \<lparr>p_amt = a, p_no = no, p_desc = [], p_status = status, p_txn = []\<rparr> d) = Inr x \<longrightarrow> \<not> snd x)"
  using assms by (auto simp: repo_ApplyProviderResult_def ApplyProviderResult_def Let_def split: option.splits)

lemma callback_idle:
  assumes "status \<in> {PaymentStatusUnknown, PaymentStatusInit}"
  shows "snd (callback_tx env status [] no oid d) = d"
  using Apply_idle [OF assms, of "cv_find env" "cv_update env" "cv_now env" zeroAmount no d]
  by (auto simp: callback_tx_def run_tx_def split: prod.splits sum.splits)

text \<open>A provider report does exactly what the status machine allows.  With the database answering, a legal
  change is stored together with one pending event for the order, carrying the first transaction id ever
  reported; anything else leaves status and outbox alone and is acknowledged.\<close>

theorem callback_spec:
  assumes "cv_find env" "cv_update env" "cv_add env" "distinct (map pm_no (pd_rows d))"
    and "nativeCBTypeToStatus (trim_space (cb_state cmd)) = Some status" "trim_space (cb_no cmd) = no" "parse_int no = Some oid"
    and "find_row pm_no no (pd_rows d) = Some m" "trim_space (cb_txn cmd) = txn" "status = PaymentStatusSuccess \<longrightarrow> txn \<noteq> []"
    and "\<not> txn_taken no txn (pd_rows d)" "old = p_txn (toDomainPayment m)" "new = (if old = [] then txn else old)"
  shows "\<exists>d' m'. PayCallback_Execute env cmd d = (Inr (), d') \<and> find_row pm_no no (pd_rows d') = Some m'
     \<and> p_txn (toDomainPayment m') = new
     \<and> (legal_pay (pm_status m) status \<longrightarrow> pm_status m' = status
          \<and> pay_events (pd_outbox d') = pay_events (pd_outbox d) @ [\<lparr>pe_trade = no, pe_order = oid, pe_status = status, pe_txn = new\<rparr>])
     \<and> (\<not> legal_pay (pm_status m) status \<longrightarrow> pm_status m' = pm_status m \<and> pd_outbox d' = pd_outbox d)"
proof -
  let ?p = "\<lparr>p_amt = zeroAmount, p_no = no, p_desc = [], p_status = status, p_txn = txn\<rparr>"
  let ?tr = "ApplyProviderResult (toDomainPayment m) ?p"
  have no: "pm_no m = no" and mem: "m \<in> set (pd_rows d)" using find_row_SomeD [OF assms(8)] by auto
  have st: "status \<noteq> PaymentStatusUnknown"
    using map_of_SomeD [OF assms(5) [unfolded nativeCBTypeToStatus_def]] by auto
  have tr: "pt_changed ?tr \<longleftrightarrow> legal_pay (pm_status m) status"
    "p_status (pt_payment ?tr) = (if legal_pay (pm_status m) status then status else pm_status m)"
    "p_txn (pt_payment ?tr) = new" "p_no (pt_payment ?tr) = no"
    using st no assms(12,13)
    by (cases "pm_status m"; cases status; auto simp: ApplyProviderResult_def Let_def nextPaymentStatus_def legal_pay_def)+
  have persist: "pt_persist ?tr \<longleftrightarrow> pt_changed ?tr \<or> new \<noteq> old"
    using tr(3) assms(12) by (auto simp: ApplyProviderResult_def Let_def split: prod.splits)
  have exec: "PayCallback_Execute env cmd d = callback_tx env status txn no oid d"
    using assms(5-7,9,10) by (auto simp: PayCallback_Execute_def UpdatePaymentByTxn_def Let_def)
  show ?thesis
  proof (cases "pt_persist ?tr")
    case False
    then have a: "repo_ApplyProviderResult True True (cv_now env) ?p d = (Inr (toDomainPayment m, False), d)"
      using assms(8) by (simp add: repo_ApplyProviderResult_def Let_def)
    have nl: "\<not> legal_pay (pm_status m) status" "new = old" using False persist tr(1) by auto
    have "callback_tx env status txn no oid d = (Inr (), d)" using assms(1,2) a by (simp add: callback_tx_def run_tx_def)
    then show ?thesis using exec nl assms(8,12) by auto
  next
    case True
    let ?settxn = "new \<noteq> [] \<and> new \<noteq> old"
    let ?P = "\<lambda>r. pm_no r = no \<and> pm_status r = pm_status m"
    let ?f = "\<lambda>r. r\<lparr>pm_status := p_status (pt_payment ?tr), pm_txn := (if ?settxn then Some new else pm_txn r), pm_updated := cv_now env\<rparr>"
    let ?d1 = "d\<lparr>pd_rows := update_where ?P ?f (pd_rows d)\<rparr>"
    have free: "\<not> (?settxn \<and> txn_taken no new (pd_rows d))" using assms(11,13) by auto
    have hit: "rows_affected ?P (pd_rows d) \<noteq> 0" using mem no by (auto simp: rows_affected_zero)
    have a: "repo_ApplyProviderResult True True (cv_now env) ?p d = (Inr (pt_payment ?tr, pt_changed ?tr), ?d1)"
      using assms(8) True free hit by (simp add: repo_ApplyProviderResult_def Let_def tr(3) assms(12) [symmetric] cong: if_cong)
    have row: "find_row pm_no no (pd_rows ?d1) = Some (?f m)" using assms(8) no by (simp add: find_row_update)
    have txn: "p_txn (toDomainPayment (?f m)) = new" using assms(12,13) by (auto simp: toDomainPayment_def)
    show ?thesis
    proof (cases "legal_pay (pm_status m) status")
      case True
      let ?ev = "\<lparr>pe_trade = no, pe_order = oid, pe_status = status, pe_txn = new\<rparr>"
      let ?d2 = "?d1\<lparr>pd_outbox := snd (outbox_insert EventTypePaymentStatusChanged (Some ?ev) (pd_outbox d))\<rparr>"
      have "callback_tx env status txn no oid d = (Inr (), ?d2)"
        using assms(1-3) a True tr by (simp add: callback_tx_def run_tx_def paymentOutbox_Add_def Let_def)
      then show ?thesis using exec True tr(2) row txn by (intro exI [of _ ?d2] exI [of _ "?f m"]) simp
    next
      case False
      have "callback_tx env status txn no oid d = (Inr (), ?d1)"
        using assms(1,2) a False tr(1) by (simp add: callback_tx_def run_tx_def)
      then show ?thesis using exec False tr(2) row txn by (intro exI [of _ ?d1] exI [of _ "?f m"]) simp
    qed
  qed
qed

lemma number_text_11: "parse_int ''11'' = Some 11"
  by (simp add: parse_int_def parse_nat_def digit_val_def in64_def)

lemma callback_spec_witness:
  "\<exists>d' m'. PayCallback_Execute cb_ok \<lparr>cb_state = ''SUCCESS'', cb_txn = '' T1'', cb_no = ''11''\<rparr> (ps_db pay_added) = (Inr (), d')
     \<and> find_row pm_no ''11'' (pd_rows d') = Some m' \<and> pm_status m' = PaymentStatusSuccess"
proof -
  let ?m = "\<lparr>pm_id = 1, pm_updated = 10, pm_status = PaymentStatusInit, pm_amt = 9900,
    pm_currency = ''CNY'', pm_desc = ''order'', pm_no = ''11'', pm_txn = None\<rparr>"
  have t: "trim_space ''SUCCESS'' = ''SUCCESS''" "trim_space '' T1'' = ''T1''" "trim_space ''11'' = ''11''"
    "nativeCBTypeToStatus ''SUCCESS'' = Some PaymentStatusSuccess" by code_simp+
  have l: "legal_pay PaymentStatusInit PaymentStatusSuccess" by (simp add: legal_pay_cases)
  show ?thesis
    using callback_spec [of cb_ok "ps_db pay_added" "\<lparr>cb_state = ''SUCCESS'', cb_txn = '' T1'', cb_no = ''11''\<rparr>"
        PaymentStatusSuccess "''11''" 11 ?m "''T1''" "[]" "''T1''"] l
    by (auto simp: cb_ok_def pay_added_rows t number_text_11 txn_taken_def toDomainPayment_def)
qed

section \<open>The sync job\<close>

lemma fold_unchanged: "(\<And>x. x \<in> set xs \<Longrightarrow> f x d = d) \<Longrightarrow> fold f xs d = d"
  by (induction xs) auto

text \<open>The sync job can starve.  While the provider still reports the hundred oldest unpaid payments as unpaid
  (or does not answer about them), a run of any length asks about these over and over and changes
  nothing, whatever the provider knows of the payments behind them.\<close>

theorem sync_job_starves:
  assumes "FindExpiredPayment True sync_limit threshold d = Inr pmts"
    and "\<forall>p \<in> set pmts. \<forall>resp. query (p_no p) = Some resp \<longrightarrow>
           nativeCBTypeToStatus (trim_space (cb_state resp)) = Some PaymentStatusInit \<and> trim_space (cb_txn resp) = []"
  shows "snd (SyncPaymentOrder_Run query list_ok envs threshold stop rnd fuel d) = d"
proof -
  have one: "snd (SyncOrderInfo query env (p_no p) d) = d" if "p \<in> set pmts" for p env
    using assms(2) that callback_idle [of PaymentStatusInit env]
    by (auto simp: SyncOrderInfo_def UpdatePaymentByTxn_def Let_def split: option.splits)
  have page: "sync_page query env ps d = d" if "set ps \<subseteq> set pmts" for ps env
    unfolding sync_page_def using that by (intro fold_unchanged one) auto
  have lst: "FindExpiredPayment b sync_limit threshold d = (if b then Inr pmts else Inl PyErrInfra)" for b
    using assms(1) by (simp add: FindExpiredPayment_def)
  show ?thesis
  proof (induction fuel arbitrary: rnd)
    case (Suc fuel)
    have "set (take stop pmts) \<subseteq> set pmts" by (rule set_take_subset)
    then show ?case using Suc page by (simp add: lst)
  qed simp
qed

definition unpaid_answer :: "string \<Rightarrow> CallbackCmd option" where
  "unpaid_answer no = Some \<lparr>cb_state = (if no = ''11'' then ''NOTPAY'' else ''SUCCESS''), cb_txn = (if no = ''11'' then [] else ''T9''), cb_no = no\<rparr>"

lemma sync_job_starves_witness:
  "snd (SyncPaymentOrder_Run unpaid_answer (\<lambda>_. True) (\<lambda>_. cb_ok) 100 0 0 5 (ps_db pay_added)) = ps_db pay_added"
proof (rule sync_job_starves)
  show "FindExpiredPayment True sync_limit 100 (ps_db pay_added) = Inr (map toDomainPayment (pd_rows (ps_db pay_added)))"
    by (simp add: FindExpiredPayment_def pay_added_rows sync_limit_def)
  have "nativeCBTypeToStatus (trim_space ''NOTPAY'') = Some PaymentStatusInit" "trim_space [] = []" by code_simp+
  then show "\<forall>p \<in> set (map toDomainPayment (pd_rows (ps_db pay_added))). \<forall>resp. unpaid_answer (p_no p) = Some resp \<longrightarrow>
      nativeCBTypeToStatus (trim_space (cb_state resp)) = Some PaymentStatusInit \<and> trim_space (cb_txn resp) = []"
    by (auto simp: pay_added_rows unpaid_answer_def)
qed

end
