(* ===== verification/GoFloat.thy ===== *)
theory GoFloat
  imports Prelude Complex_Main
begin

text \<open>
  Go's \<open>float64\<close> as far as the payment service uses it: \<open>strconv.ParseFloat\<close> on plain decimal texts,
  multiplication and addition rounded to nearest (ties to even), and the conversion to \<open>int64\<close>.  A finite
  \<open>float64\<close> is its rational value.
\<close>

section \<open>Rounding\<close>

fun log2_nat :: "nat \<Rightarrow> nat" where
  "log2_nat n = (if n < 2 then 0 else Suc (log2_nat (n div 2)))"

declare log2_nat.simps [simp del]

lemma log2_nat_bounds: "0 < n \<Longrightarrow> 2 ^ log2_nat n \<le> n \<and> n < 2 ^ Suc (log2_nat n)"
proof (induction n rule: log2_nat.induct)
  case (1 n)
  show ?case
  proof (cases "n < 2")
    case True
    then show ?thesis using 1 by (subst (1 2) log2_nat.simps) auto
  next
    case False
    then have "2 ^ log2_nat (n div 2) \<le> n div 2 \<and> n div 2 < 2 ^ Suc (log2_nat (n div 2))" using 1 by auto
    then show ?thesis using False by (subst (1 2) log2_nat.simps) auto
  qed
qed

text \<open>The exponent of the leading bit of a positive rational.\<close>

definition log2_rat :: "rat \<Rightarrow> int" where
  "log2_rat x =
     (case quotient_of x of
        (n, d) \<Rightarrow> (let k = int (log2_nat (nat n)) - int (log2_nat (nat d)) in if 2 powi k \<le> x then k else k - 1))"

definition round_half_even :: "rat \<Rightarrow> int" where
  "round_half_even x =
     (let f = \<lfloor>x\<rfloor>; r = x - of_int f
      in if r < 1 / 2 then f else if r > 1 / 2 then f + 1 else if even f then f else f + 1)"

definition fl :: "rat \<Rightarrow> rat" where
  "fl x = (if x = 0 then 0
           else let e = max (log2_rat \<bar>x\<bar> - 52) (- 1074) in of_int (round_half_even (x / 2 powi e)) * 2 powi e)"

definition go_int64 :: "rat \<Rightarrow> int" where
  "go_int64 x = (let t = (if 0 \<le> x then \<lfloor>x\<rfloor> else \<lceil>x\<rceil>) in if in64 t then t else - (2 ^ 63))"

lemma log2_rat_le:
  assumes "0 < x"
  shows "2 powi log2_rat x \<le> x"
proof -
  obtain n d where q: "quotient_of x = (n, d)" by fastforce
  have d: "0 < d" "x = of_int n / of_int d" using quotient_of_denom_pos [OF q] quotient_of_div [OF q] by auto
  then have n: "0 < n" using assms by (simp add: zero_less_divide_iff)
  let ?a = "log2_nat (nat n)" and ?b = "log2_nat (nat d)"
  have a: "(2 :: rat) ^ ?a \<le> of_int n"
  proof -
    have "2 ^ ?a \<le> nat n" using log2_nat_bounds [of "nat n"] n by simp
    then have "rat_of_nat (2 ^ ?a) \<le> rat_of_nat (nat n)" by (rule of_nat_mono)
    then show ?thesis using n by simp
  qed
  have b: "of_int d \<le> (2 :: rat) ^ Suc ?b"
  proof -
    have "nat d \<le> 2 ^ Suc ?b" using log2_nat_bounds [of "nat d"] d by simp
    then have "rat_of_nat (nat d) \<le> rat_of_nat (2 ^ Suc ?b)" by (rule of_nat_mono)
    then show ?thesis using d(1) by simp
  qed
  have "(2 :: rat) powi (int ?a - int ?b - 1) = 2 ^ ?a / 2 ^ Suc ?b"
    by (simp add: power_int_diff)
  also have "\<dots> \<le> of_int n / of_int d" using a b n d(1) by (intro frac_le) auto
  finally have "(2 :: rat) powi (int ?a - int ?b - 1) \<le> x" using d(2) by simp
  then show ?thesis by (simp add: log2_rat_def q Let_def)
qed

lemma round_half_even_error: "\<bar>of_int (round_half_even x) - x\<bar> \<le> 1 / 2"
proof -
  define f where "f = \<lfloor>x\<rfloor>"
  have f: "of_int f \<le> x" "x < of_int f + 1" unfolding f_def by linarith+
  have "round_half_even x = f \<and> x - of_int f \<le> 1 / 2 \<or> round_half_even x = f + 1 \<and> 1 / 2 \<le> x - of_int f"
    by (simp add: round_half_even_def Let_def f_def)
  then show ?thesis
  proof (elim disjE conjE)
    assume "round_half_even x = f" "x - of_int f \<le> 1 / 2"
    then show ?thesis using f by (simp add: abs_le_iff)
  next
    assume "round_half_even x = f + 1" "1 / 2 \<le> x - of_int f"
    then show ?thesis using f by (simp add: abs_le_iff)
  qed
qed

lemma fl_0 [simp]: "fl 0 = 0"
  by (simp add: fl_def)

text \<open>The relative error of a rounding, away from the subnormal range.\<close>

lemma fl_error:
  assumes "2 powi (- 1022) \<le> x"
  shows "\<bar>fl x - x\<bar> \<le> x / 2 ^ 53"
proof -
  have "(0 :: rat) < 2 powi (- 1022)" by (rule zero_less_power_int) simp
  then have x: "0 < x" using assms by (rule order_less_le_trans)
  define e where "e = max (log2_rat x - 52) (- 1074)"
  define p where "p = (2 powi e :: rat)"
  have p: "0 < p" by (simp add: p_def)
  have up: "p \<le> x / 2 ^ 52"
  proof -
    have "(2 :: rat) powi e = 2 powi ((e + 52) - 52)" by simp
    also have "\<dots> = 2 powi (e + 52) / 2 powi 52" by (rule power_int_diff) simp
    finally have "p = 2 powi (e + 52) / 2 ^ 52" by (simp add: p_def)
    moreover have "2 powi (e + 52) \<le> x"
    proof (cases "log2_rat x - 52 \<ge> - 1074")
      case True
      then have "e + 52 = log2_rat x" by (simp add: e_def)
      then show ?thesis using log2_rat_le [OF x] by simp
    next
      case False
      then have e: "e + 52 = - 1022" by (simp add: e_def)
      show ?thesis unfolding e by (rule assms)
    qed
    ultimately show ?thesis by (simp add: divide_right_mono)
  qed
  have "fl x = of_int (round_half_even (x / p)) * p"
    using x by (simp add: fl_def Let_def p_def e_def)
  then have "fl x - x = (of_int (round_half_even (x / p)) - x / p) * p"
    using p by (simp add: left_diff_distrib)
  then have "\<bar>fl x - x\<bar> = \<bar>of_int (round_half_even (x / p)) - x / p\<bar> * p"
    using p by (simp add: abs_mult)
  also have "\<dots> \<le> 1 / 2 * p" using round_half_even_error p by (intro mult_right_mono) simp_all
  also have "\<dots> \<le> 1 / 2 * (x / 2 ^ 52)" using up by simp
  also have "\<dots> = x / 2 ^ 53" by simp
  finally show ?thesis .
qed

end
