(* ===== verification/Alipay.thy ===== *)
theory Alipay
  imports GoFloat PaymentUsecase
begin

text \<open>
  The Alipay side of the payment service: amounts as yuan texts (\<open>infra/alipay/money.go\<close> and the copies
  in the use cases), the page-pay link, the asynchronous notification and the return page.
\<close>

section \<open>Amounts\<close>

definition go_rem :: "int \<Rightarrow> int \<Rightarrow> int" where
  "go_rem n d = n - d * go_div n d"

text \<open>\<open>%02d\<close>.\<close>

definition pad2 :: "int \<Rightarrow> string" where
  "pad2 r = (if 0 \<le> r \<and> r < 10 then CHR ''0'' # format_int r else format_int r)"

definition centsToYuan :: "int \<Rightarrow> string" where
  "centsToYuan cents =
     (let neg = cents < 0; t = (if neg then wrap64 (- cents) else cents)
      in (if neg then ''-'' else []) @ format_int (go_div t 100) @ ''.'' @ pad2 (go_rem t 100))"

definition parse_decimal :: "string \<Rightarrow> rat option" where
  "parse_decimal s =
     (let neg = (s \<noteq> [] \<and> hd s = CHR ''-'');
          body = (if s \<noteq> [] \<and> (hd s = CHR ''-'' \<or> hd s = CHR ''+'') then tl s else s);
          ints = takeWhile (\<lambda>c. c \<noteq> CHR ''.'') body;
          frac = drop (length ints + 1) body
      in if ints @ frac = [] then None
         else map_option (\<lambda>n. (if neg then - 1 else 1) * (of_nat n / 10 ^ length frac)) (parse_digits 0 (ints @ frac)))"

text \<open>\<open>other\<close> is the value of the texts that are no plain decimals (exponents, hexadecimal digits,
  infinities); a value out of the range of \<open>float64\<close> is an error.\<close>

definition ParseFloat :: "(string \<Rightarrow> rat option) \<Rightarrow> string \<Rightarrow> rat option" where
  "ParseFloat other s =
     (case parse_decimal s of
        Some q \<Rightarrow> if \<bar>fl q\<bar> \<ge> 2 ^ 1024 then None else Some (fl q)
      | None \<Rightarrow> other s)"

definition float_cents :: "rat \<Rightarrow> int" where
  "float_cents f = go_int64 (fl (fl (f * 100) + 1 / 2))"

definition yuanStringToCents :: "(string \<Rightarrow> rat option) \<Rightarrow> string \<Rightarrow> int option" where
  "yuanStringToCents other amount =
     (let a = trim_space amount in if a = [] then None else map_option float_cents (ParseFloat other a))"

definition yuanToCents :: "(string \<Rightarrow> rat option) \<Rightarrow> string \<Rightarrow> int" where
  "yuanToCents other amount =
     (let a = trim_space amount
      in if a = [] then 0 else (case ParseFloat other a of None \<Rightarrow> 0 | Some f \<Rightarrow> float_cents f))"

lemma powi_tiny: "2 powi (- 1022) \<le> (1 / 256 :: rat)"
proof -
  have "(2 :: rat) powi (- 1022) \<le> 2 powi (- 8)" by (rule power_int_increasing) auto
  also have "(2 :: rat) powi (- 8) = 1 / 256" by (simp add: power_int_minus)
  finally show ?thesis .
qed

lemma fl_close:
  assumes "1 / 256 \<le> x" "x \<le> of_int m + 1" "m < 2 ^ 45"
  shows "\<bar>fl x - x\<bar> \<le> 1 / 256"
proof -
  have "x \<le> 2 ^ 45"
  proof -
    have "of_int (m + 1) \<le> (of_int (2 ^ 45) :: rat)" using assms(3) by (subst of_int_le_iff) simp
    then show ?thesis using assms(2) by simp
  qed
  then have "x / 2 ^ 53 \<le> 1 / 256" by simp
  moreover have "\<bar>fl x - x\<bar> \<le> x / 2 ^ 53" using fl_error order_trans [OF powi_tiny assms(1)] by blast
  ultimately show ?thesis by (rule order_trans [rotated])
qed

lemma float_cents_exact:
  assumes "0 \<le> c" "c < 2 ^ 45"
  shows "float_cents (fl (of_int c / 100)) = c"
proof -
  let ?x = "of_int c / 100 :: rat"
  let ?g = "fl (fl ?x * 100)" and ?h = "fl (fl (fl ?x * 100) + 1 / 2)"
  have g: "\<bar>?g - of_int c\<bar> \<le> 1 / 64 \<and> 0 \<le> ?g"
  proof (cases "c = 0")
    case False
    then have c: "(1 :: rat) \<le> of_int c" using assms(1) by simp
    have x: "1 / 256 \<le> ?x" using c by simp
    have "(of_int c :: rat) \<le> 2 ^ 45" using assms(2) by (metis less_imp_le of_int_le_iff of_int_numeral of_int_power)
    then have "?x / 2 ^ 53 \<le> 1 / 25600" by simp
    moreover have "\<bar>fl ?x - ?x\<bar> \<le> ?x / 2 ^ 53" using fl_error order_trans [OF powi_tiny x] by blast
    ultimately have e: "\<bar>fl ?x - ?x\<bar> \<le> 1 / 25600" by (rule order_trans [rotated])
    have "fl ?x * 100 - of_int c = (fl ?x - ?x) * 100" by simp
    then have "\<bar>fl ?x * 100 - of_int c\<bar> = \<bar>fl ?x - ?x\<bar> * 100" by (simp only: abs_mult)
    then have "\<bar>fl ?x * 100 - of_int c\<bar> \<le> 1 / 256" using e by simp
    then have 1: "of_int c - 1 / 256 \<le> fl ?x * 100" "fl ?x * 100 \<le> of_int c + 1 / 256" by linarith+
    have "1 / 256 \<le> fl ?x * 100" "fl ?x * 100 \<le> of_int c + 1" using 1 c by linarith+
    then have "\<bar>?g - fl ?x * 100\<bar> \<le> 1 / 256" using assms(2) by (rule fl_close)
    then show ?thesis using 1 c by linarith
  qed simp
  have "1 / 256 \<le> ?g + 1 / 2" "?g + 1 / 2 \<le> of_int c + 1" using g by linarith+
  then have "\<bar>?h - (?g + 1 / 2)\<bar> \<le> 1 / 256" using assms(2) by (rule fl_close)
  then have h: "of_int c \<le> ?h" "?h < of_int c + 1" using g by linarith+
  then have fh: "\<lfloor>?h\<rfloor> = c" by (simp add: floor_eq_iff)
  have "0 \<le> ?h" using h(1) assms(1) by (meson of_int_0_le_iff order_trans)
  then show ?thesis using fh assms by (simp add: float_cents_def go_int64_def in64_def)
qed

lemma trim_space_id: "(\<And>c. c \<in> set s \<Longrightarrow> \<not> is_space c) \<Longrightarrow> trim_space s = s"
proof -
  assume s: "\<And>c. c \<in> set s \<Longrightarrow> \<not> is_space c"
  have "dropWhile is_space t = t" if "set t \<subseteq> set s" for t using s that by (cases t) auto
  then show ?thesis by (simp add: trim_space_def)
qed

lemma digit_not_special: "digit_val c \<noteq> None \<Longrightarrow> \<not> is_space c \<and> c \<noteq> CHR ''.'' \<and> c \<noteq> CHR ''-'' \<and> c \<noteq> CHR ''+''"
  by (auto simp: digit_val_def is_space_def Let_def split: if_splits)

lemma pad2_digits:
  assumes "0 \<le> r" "r < 100"
  shows "pad2 r = [digit_char (nat r div 10), digit_char (nat r mod 10)]"
proof (cases "r < 10")
  case True
  then have "format_int r = [digit_char (nat r)]" using assms by (simp add: format_int_def format_nat.simps [of "nat r"])
  moreover have "CHR ''0'' = digit_char 0" by code_simp
  ultimately show ?thesis using True assms by (simp add: pad2_def)
next
  case False
  have "nat r div 10 < 10" using assms by simp
  then have "format_nat (nat r div 10) = [digit_char (nat r div 10)]" by (simp add: format_nat.simps [of "nat r div 10"])
  then show ?thesis using False assms by (simp add: pad2_def format_int_def format_nat.simps [of "nat r"])
qed

lemma centsToYuan_text:
  assumes "0 \<le> c"
  shows "centsToYuan c = format_nat (nat c div 100) @ ''.'' @ [digit_char (nat c mod 100 div 10), digit_char (nat c mod 100 mod 10)]"
proof -
  have d: "go_div c 100 = c div 100" "go_rem c 100 = c mod 100"
    using assms by (simp_all add: go_rem_def go_div_nonneg minus_mult_div_eq_mod)
  have n: "nat (c mod 100) = nat c mod 100" "nat (c div 100) = nat c div 100"
    using assms by (simp_all add: nat_mod_distrib nat_div_distrib)
  have f: "format_int (c div 100) = format_nat (nat c div 100)" using assms n by (simp add: format_int_def)
  have p: "pad2 (c mod 100) = [digit_char (nat c mod 100 div 10), digit_char (nat c mod 100 mod 10)]"
    using pad2_digits [of "c mod 100"] n by simp
  show ?thesis using assms by (simp add: centsToYuan_def Let_def d f p)
qed

lemma takeWhile_dot: "(\<And>x. x \<in> set xs \<Longrightarrow> x \<noteq> y) \<Longrightarrow> takeWhile (\<lambda>c. c \<noteq> y) (xs @ y # ys) = xs"
  by (induction xs) auto

lemma digits_join: "10 * (10 * (n div 100) + n mod 100 div 10) + n mod 100 mod 10 = (n :: nat)"
proof -
  have "10 * b + d = m \<Longrightarrow> 100 * a + m = n \<Longrightarrow> 10 * (10 * a + b) + d = n" for a b d m :: nat by simp
  from this [OF mult_div_mod_eq mult_div_mod_eq] show ?thesis .
qed

lemma parse_centsToYuan:
  assumes "0 \<le> c"
  shows "parse_decimal (centsToYuan c) = Some (of_int c / 100)" and "trim_space (centsToYuan c) = centsToYuan c"
    and "centsToYuan c \<noteq> []"
proof -
  let ?n = "nat c div 100" and ?d1 = "nat c mod 100 div 10" and ?d2 = "nat c mod 100 mod 10"
  let ?ds = "[digit_char ?d1, digit_char ?d2]"
  note t = centsToYuan_text [OF assms]
  have lt: "?d1 < 10" "?d2 < 10" by auto
  have dig: "x \<in> set (format_nat ?n) \<union> set ?ds \<Longrightarrow> digit_val x \<noteq> None" for x
    using format_nat_digits lt by auto
  obtain x xs where hd: "format_nat ?n = x # xs" by (cases "format_nat ?n") auto
  have x: "x \<noteq> CHR ''-''" "x \<noteq> CHR ''+''" using digit_not_special [OF dig [of x]] hd by simp_all
  have tw: "takeWhile (\<lambda>c. c \<noteq> CHR ''.'') (centsToYuan c) = format_nat ?n"
  proof -
    have "y \<noteq> CHR ''.''" if "y \<in> set (format_nat ?n)" for y
      using digit_not_special [OF dig [of y]] that by simp
    then show ?thesis unfolding t using takeWhile_dot [of "format_nat ?n" "CHR ''.''" ?ds] by simp
  qed
  have fr: "drop (length (format_nat ?n) + 1) (centsToYuan c) = ?ds" by (simp add: t)
  have "10 * (10 * ?n + ?d1) + ?d2 = nat c" by (rule digits_join)
  then have pd: "parse_digits 0 (format_nat ?n @ ?ds) = Some (nat c)"
    using lt by (simp add: parse_digits_append parse_digits_format_nat)
  have body: "(if centsToYuan c \<noteq> [] \<and> (hd (centsToYuan c) = CHR ''-'' \<or> hd (centsToYuan c) = CHR ''+'') then tl (centsToYuan c) else centsToYuan c) = centsToYuan c"
    and neg: "\<not> (centsToYuan c \<noteq> [] \<and> hd (centsToYuan c) = CHR ''-'')"
    using x by (simp_all add: t hd)
  show "parse_decimal (centsToYuan c) = Some (of_int c / 100)"
    unfolding parse_decimal_def Let_def body tw fr pd using neg assms by auto
  show "trim_space (centsToYuan c) = centsToYuan c"
  proof (rule trim_space_id)
    fix y assume "y \<in> set (centsToYuan c)"
    then have "y = CHR ''.'' \<or> y \<in> set (format_nat ?n) \<union> set ?ds" unfolding t by auto
    then show "\<not> is_space y"
    proof
      assume "y = CHR ''.''"
      then show ?thesis by (simp add: is_space_def)
    next
      assume "y \<in> set (format_nat ?n) \<union> set ?ds"
      then show ?thesis using digit_not_special [OF dig] by blast
    qed
  qed
  show "centsToYuan c \<noteq> []" by (simp add: t)
qed

lemma yuan_roundtrip:
  assumes "0 \<le> c" "c < 2 ^ 45"
  shows "yuanStringToCents other (centsToYuan c) = Some c"
proof -
  let ?q = "of_int c / 100 :: rat"
  have "\<bar>fl ?q\<bar> < 2 ^ 1024"
  proof (cases "c = 0")
    case False
    then have "1 / 256 \<le> ?q" "?q \<le> of_int c + 1" using assms(1) by simp_all
    then have "\<bar>fl ?q - ?q\<bar> \<le> 1 / 256" using fl_close [of ?q c] assms(2) by simp
    moreover have "(of_int c :: rat) \<le> 35184372088832" using assms(2) by simp
    moreover have "0 \<le> ?q" using assms(1) by simp
    ultimately have "\<bar>fl ?q\<bar> \<le> 70368744177664" by linarith
    then have "\<bar>fl ?q\<bar> \<le> 2 ^ 46" by simp
    also have "(2 :: rat) ^ 46 < 2 ^ 1024" by (rule power_strict_increasing) simp_all
    finally show ?thesis .
  qed simp
  then show ?thesis using parse_centsToYuan [OF assms(1)] float_cents_exact [OF assms]
    by (simp add: yuanStringToCents_def ParseFloat_def)
qed

section \<open>Use cases\<close>

record AlipayWebConfig =
  aw_app :: string
  aw_pid :: string
  aw_notify :: string
  aw_return :: string

definition config_Normalize :: "AlipayWebConfig \<Rightarrow> AlipayWebConfig" where
  "config_Normalize c =
     \<lparr>aw_app = trim_space (aw_app c), aw_pid = trim_space (aw_pid c),
      aw_notify = trim_space (aw_notify c), aw_return = trim_space (aw_return c)\<rparr>"

definition defaultCurrency :: "string \<Rightarrow> string" where
  "defaultCurrency c = (let t = trim_space c in if t = [] then ''CNY'' else t)"

text \<open>The text between is UTF-8 for the two characters of "order".\<close>

definition order_word :: string where
  "order_word = [CHR 0xE8, CHR 0xAE, CHR 0xA2, CHR 0xE5, CHR 0x8D, CHR 0x95]"

definition buildPagePaySubject :: "int \<Rightarrow> string \<Rightarrow> string" where
  "buildPagePaySubject oid kind =
     (let k = trim_space kind
      in if k = [] then ''DouyinMall '' @ order_word @ '' '' @ format_int oid
         else ''DouyinMall '' @ k @ '' '' @ order_word @ '' '' @ format_int oid)"

record PagePayRequest =
  pr_no :: string
  pr_subject :: string
  pr_amount :: string
  pr_seller :: string
  pr_notify :: string
  pr_return :: string

record AlipayPagePayResult =
  ar_order :: int
  ar_no :: string
  ar_url :: string
  ar_amount :: string
  ar_subject :: string

text \<open>\<open>get\<close> is the order service, \<open>page\<close> the link builder (absent when page pay is off).\<close>

definition AlipayPagePay_Execute ::
  "(int \<Rightarrow> ProtoOrder option option) \<Rightarrow> (PagePayRequest \<Rightarrow> string option) option \<Rightarrow> AlipayWebConfig
   \<Rightarrow> bool \<Rightarrow> bool \<Rightarrow> int \<Rightarrow> int \<Rightarrow> payment_db \<Rightarrow> (payment_error + AlipayPagePayResult) \<times> payment_db" where
  "AlipayPagePay_Execute get page cfg add_ok get_ok now orderID d =
     (if orderID \<le> 0 then (Inl PyErrOrderID, d)
      else
        (case page of
           None \<Rightarrow> (Inl ErrPagePayNotEnabled, d)
         | Some build \<Rightarrow>
             if aw_notify cfg = [] \<or> aw_return cfg = [] then (Inl PyErrConfig, d)
             else
               (case get orderID of
                  None \<Rightarrow> (Inl PyErrInfra, d)
                | Some None \<Rightarrow> (Inl ErrOrderNotPayable, d)
                | Some (Some ord) \<Rightarrow>
                    if po_status ord = OrderStatusPaid then (Inl ErrPaymentAlreadyPaid, d)
                    else if po_status ord \<noteq> OrderStatusCreated then (Inl ErrOrderNotPayable, d)
                    else if po_total_amount ord \<le> 0 then (Inl PyErrAmount, d)
                    else
                      (let outTradeNo = format_int (po_id ord);
                           subject = buildPagePaySubject (po_id ord) (po_kind ord);
                           pmt = \<lparr>p_amt = \<lparr>am_currency = defaultCurrency (po_currency ord), am_total = po_total_amount ord\<rparr>,
                                  p_no = outTradeNo, p_desc = subject, p_status = PaymentStatusUnknown, p_txn = []\<rparr>;
                           totalAmount = centsToYuan (po_total_amount ord)
                       in case ensurePaymentRecord add_ok get_ok now pmt d of
                            (Inl e, d') \<Rightarrow> (Inl e, d')
                          | (Inr _, d') \<Rightarrow>
                              (case build \<lparr>pr_no = outTradeNo, pr_subject = subject, pr_amount = totalAmount,
                                           pr_seller = aw_pid cfg, pr_notify = aw_notify cfg, pr_return = aw_return cfg\<rparr> of
                                 None \<Rightarrow> (Inl PyErrInfra, d')
                               | Some url \<Rightarrow>
                                   (Inr \<lparr>ar_order = po_id ord, ar_no = outTradeNo, ar_url = url,
                                         ar_amount = totalAmount, ar_subject = subject\<rparr>, d'))))))"

record AlipayNotifyCmd =
  an_app :: string
  an_seller :: string
  an_no :: string
  an_trade :: string
  an_status :: string
  an_amount :: string

definition isSupportedTradeStatus :: "string \<Rightarrow> bool" where
  "isSupportedTradeStatus st \<longleftrightarrow> st \<in> {''WAIT_BUYER_PAY'', ''TRADE_SUCCESS'', ''TRADE_FINISHED'', ''TRADE_CLOSED''}"

definition isSuccessTradeStatus :: "string \<Rightarrow> bool" where
  "isSuccessTradeStatus st \<longleftrightarrow> st = ''TRADE_SUCCESS'' \<or> st = ''TRADE_FINISHED''"

definition AlipayNotify_Execute ::
  "(string \<Rightarrow> rat option) \<Rightarrow> AlipayWebConfig \<Rightarrow> bool \<Rightarrow> callback_env \<Rightarrow> AlipayNotifyCmd \<Rightarrow> payment_db
   \<Rightarrow> (payment_error + unit) \<times> payment_db" where
  "AlipayNotify_Execute other cfg get_ok env cmd d =
     (let app = trim_space (an_app cmd); seller = trim_space (an_seller cmd); no = trim_space (an_no cmd);
          trade = trim_space (an_trade cmd); st = trim_space (an_status cmd); amt = trim_space (an_amount cmd)
      in if app = [] \<or> no = [] \<or> st = [] \<or> amt = [] then (Inl ErrInvalidNotifyData, d)
         else if aw_app cfg = [] \<or> app \<noteq> aw_app cfg then (Inl ErrInvalidNotifyData, d)
         else if aw_pid cfg \<noteq> [] \<and> seller \<noteq> [] \<and> seller \<noteq> aw_pid cfg then (Inl ErrInvalidNotifyData, d)
         else if \<not> isSupportedTradeStatus st then (Inl ErrInvalidNotifyData, d)
         else
           (case GetPayment get_ok no d of
              Inl e \<Rightarrow> (Inl e, d)
            | Inr pmt \<Rightarrow>
                (case yuanStringToCents other amt of
                   None \<Rightarrow> (Inl ErrInvalidNotifyData, d)
                 | Some amount \<Rightarrow>
                     if amount \<noteq> am_total (p_amt pmt) then (Inl ErrPaymentAmountChanged, d)
                     else if p_status pmt = PaymentStatusSuccess then (Inr (), d)
                     else if isSuccessTradeStatus st \<and> trade = [] then (Inl ErrPaymentTxnIDRequired, d)
                     else PayCallback_Execute env \<lparr>cb_state = st, cb_txn = trade, cb_no = no\<rparr> d)))"

record AlipayReturnPageResult =
  rp_order :: int
  rp_no :: string
  rp_status :: "order_status option"

definition AlipayReturnPage_Execute ::
  "(int \<Rightarrow> ProtoOrder option option) option \<Rightarrow> int \<Rightarrow> string \<Rightarrow> payment_error + AlipayReturnPageResult" where
  "AlipayReturnPage_Execute client orderID outTradeNo =
     (let no = trim_space outTradeNo;
          oid = (if orderID \<le> 0 \<and> no \<noteq> [] then (case parse_int no of None \<Rightarrow> orderID | Some k \<Rightarrow> k) else orderID);
          result = \<lparr>rp_order = oid, rp_no = no, rp_status = None\<rparr>
      in if oid \<le> 0 then Inr result
         else
           (case client of
              None \<Rightarrow> Inr result
            | Some get \<Rightarrow>
                (case get oid of
                   None \<Rightarrow> Inl PyErrInfra
                 | Some None \<Rightarrow> Inr result
                 | Some (Some ord) \<Rightarrow>
                     Inr (result\<lparr>rp_status := Some (po_status ord),
                                 rp_no := (if no = [] then format_int (po_id ord) else no)\<rparr>))))"

end
