(* ===== verification/AlipaySpec.thy ===== *)
theory AlipaySpec
  imports Alipay PaymentSpec
begin

text \<open>
  The properties of the Alipay use cases: the amount printed into a payment link is the amount its
  notification is checked against, and a notification changes nothing unless every check holds.
\<close>

lemma ensure_record:
  assumes "ensurePaymentRecord add_ok get_ok now pmt d = (Inr x, d')"
  shows "\<exists>m. find_row pm_no (p_no pmt) (pd_rows d') = Some m \<and> pm_amt m = am_total (p_amt pmt)"
proof (cases "AddPayment add_ok now pmt d")
  case (Pair r d1)
  show ?thesis
  proof (cases r)
    case (Inr u)
    then have "p_no pmt \<notin> pm_no ` set (pd_rows d)"
      "\<exists>row. pd_rows d1 = pd_rows d @ [row] \<and> pm_no row = p_no pmt \<and> pm_amt row = am_total (p_amt pmt)"
      using Pair by (auto simp: AddPayment_def Let_def toDBPayment_def split: if_splits)
    moreover have "d' = d1" using assms Pair Inr by (simp add: ensurePaymentRecord_def)
    moreover from calculation(1) have "find_row pm_no (p_no pmt) (pd_rows d) = None" by (simp add: find_row_None_iff)
    ultimately show ?thesis by (auto simp: find_row_append)
  next
    case (Inl e)
    then show ?thesis using assms Pair
      by (auto simp: ensurePaymentRecord_def GetPayment_def toDomainPayment_def split: if_splits sum.splits option.splits)
  qed
qed

text \<open>C13: an Alipay link asks for the amount its notification will be checked against.  When page pay answers a
  link for an order of less than 2^45 cents, the stored payment holds the order's amount, and the yuan
  text in the link, read back through \<open>float64\<close> as the notification does, is exactly that amount.\<close>

theorem alipay_amount_roundtrip:
  assumes "AlipayPagePay_Execute get page cfg add_ok get_ok now orderID d = (Inr res, d')"
    and "get orderID = Some (Some ord)" "po_total_amount ord < 2 ^ 45"
  shows "\<exists>m. find_row pm_no (ar_no res) (pd_rows d') = Some m \<and> pm_amt m = po_total_amount ord
     \<and> yuanStringToCents other (ar_amount res) = Some (pm_amt m)"
proof -
  let ?pmt = "\<lparr>p_amt = \<lparr>am_currency = defaultCurrency (po_currency ord), am_total = po_total_amount ord\<rparr>,
    p_no = format_int (po_id ord), p_desc = buildPagePaySubject (po_id ord) (po_kind ord),
    p_status = PaymentStatusUnknown, p_txn = []\<rparr>"
  obtain u where e: "ensurePaymentRecord add_ok get_ok now ?pmt d = (Inr u, d')"
    and r: "ar_no res = format_int (po_id ord)" "ar_amount res = centsToYuan (po_total_amount ord)" "0 < po_total_amount ord"
    using assms(1,2) by (auto simp: AlipayPagePay_Execute_def Let_def split: if_splits option.splits sum.splits prod.splits)
  show ?thesis using ensure_record [OF e] yuan_roundtrip [of "po_total_amount ord" other] assms(3) r by auto
qed

definition sample_proto :: ProtoOrder where
  "sample_proto = \<lparr>po_id = 11, po_user = 5, po_status = OrderStatusCreated, po_items = [], po_total_amount = 9990, po_currency = ''CNY'',
     po_address = zeroAddress, po_remark = [], po_created_at = 0, po_expire_at = 0, po_kind = [], po_activity = 0\<rparr>"

definition sample_cfg :: AlipayWebConfig where
  "sample_cfg = \<lparr>aw_app = ''a1'', aw_pid = ''p1'', aw_notify = ''n'', aw_return = ''r''\<rparr>"

lemma alipay_amount_roundtrip_witness:
  "\<exists>res d'. AlipayPagePay_Execute (\<lambda>_. Some (Some sample_proto)) (Some (\<lambda>r. Some (pr_amount r))) sample_cfg True True 7 11 (ps_db pay_empty)
     = (Inr res, d') \<and> yuanStringToCents (\<lambda>_. None) (ar_amount res) = Some 9990"
proof -
  obtain res d' where p: "AlipayPagePay_Execute (\<lambda>_. Some (Some sample_proto)) (Some (\<lambda>r. Some (pr_amount r))) sample_cfg True True 7 11 (ps_db pay_empty)
     = (Inr res, d')"
    by (simp add: AlipayPagePay_Execute_def sample_proto_def sample_cfg_def ensurePaymentRecord_def AddPayment_def pay_empty_def
        toDBPayment_def Let_def)
  show ?thesis
    using alipay_amount_roundtrip [OF p, of sample_proto "\<lambda>_. None"] p by (auto simp: sample_proto_def)
qed

text \<open>Only a notification that passes every check can touch a payment: its application id is the configured
  one, its seller is not another's, its status is supported, and its amount is exactly the stored amount of
  an unpaid payment; then its effect is that of the provider callback.\<close>

theorem alipay_notify_guards:
  assumes "AlipayNotify_Execute other cfg get_ok env cmd d = (r, d')" "d' \<noteq> d"
  shows "trim_space (an_app cmd) = aw_app cfg \<and> aw_app cfg \<noteq> []
     \<and> (aw_pid cfg = [] \<or> trim_space (an_seller cmd) \<in> {[], aw_pid cfg})
     \<and> isSupportedTradeStatus (trim_space (an_status cmd))
     \<and> (\<exists>m. find_row pm_no (trim_space (an_no cmd)) (pd_rows d) = Some m \<and> pm_status m \<noteq> PaymentStatusSuccess
          \<and> yuanStringToCents other (trim_space (an_amount cmd)) = Some (pm_amt m))
     \<and> (isSuccessTradeStatus (trim_space (an_status cmd)) \<longrightarrow> trim_space (an_trade cmd) \<noteq> [])
     \<and> (r, d') = PayCallback_Execute env \<lparr>cb_state = trim_space (an_status cmd), cb_txn = trim_space (an_trade cmd),
                    cb_no = trim_space (an_no cmd)\<rparr> d"
  using assms by (auto simp: AlipayNotify_Execute_def GetPayment_def toDomainPayment_def Let_def
      split: if_splits option.splits sum.splits)

definition sample_notify :: AlipayNotifyCmd where
  "sample_notify = \<lparr>an_app = ''a1'', an_seller = ''p1'', an_no = ''11'', an_trade = ''T1'', an_status = ''TRADE_SUCCESS'', an_amount = ''99.00''\<rparr>"

lemma sample_cents: "yuanStringToCents (\<lambda>_. None) ''99.00'' = Some 9900"
proof -
  have "centsToYuan 9900 = ''99.00''" by code_simp
  then show ?thesis using yuan_roundtrip [of 9900 "\<lambda>_. None"] by simp
qed

lemma alipay_notify_guards_witness:
  "\<exists>r d'. AlipayNotify_Execute (\<lambda>_. None) sample_cfg True cb_ok sample_notify (ps_db pay_added) = (r, d') \<and> d' \<noteq> ps_db pay_added
     \<and> yuanStringToCents (\<lambda>_. None) ''99.00'' = Some 9900"
proof -
  have t: "trim_space ''a1'' = ''a1''" "trim_space ''p1'' = ''p1''" "trim_space ''11'' = ''11''" "trim_space ''T1'' = ''T1''"
    "trim_space ''TRADE_SUCCESS'' = ''TRADE_SUCCESS''" "trim_space ''99.00'' = ''99.00''" by code_simp+
  have cb: "PayCallback_Execute cb_ok \<lparr>cb_state = ''TRADE_SUCCESS'', cb_txn = ''T1'', cb_no = ''11''\<rparr> (ps_db pay_added) = (Inr (), ps_db pay_done)"
  proof -
    have "nativeCBTypeToStatus ''TRADE_SUCCESS'' = Some PaymentStatusSuccess" by code_simp
    moreover have "fst (callback_tx cb_ok PaymentStatusSuccess ''T1'' ''11'' 11 (ps_db pay_added)) = Inr ()" by code_simp
    ultimately show ?thesis
      by (simp add: PayCallback_Execute_def UpdatePaymentByTxn_def t number_text_11 pay_done_def put_pay_def prod_eq_iff)
  qed
  have e: "AlipayNotify_Execute (\<lambda>_. None) sample_cfg True cb_ok sample_notify (ps_db pay_added) = (Inr (), ps_db pay_done)"
    using cb by (simp add: AlipayNotify_Execute_def sample_notify_def sample_cfg_def t Let_def isSupportedTradeStatus_def
        GetPayment_def pay_added_rows toDomainPayment_def sample_cents)
  have ne: "ps_db pay_done \<noteq> ps_db pay_added"
  proof
    assume "ps_db pay_done = ps_db pay_added"
    then have "pd_rows (ps_db pay_done) = pd_rows (ps_db pay_added)" by simp
    then show False by (simp add: pay_done_rows pay_added_rows)
  qed
  have "yuanStringToCents (\<lambda>_. None) (trim_space (an_amount sample_notify)) = Some 9900"
    using alipay_notify_guards [OF e ne] by (auto simp: pay_added_rows sample_notify_def t)
  then show ?thesis using e ne by (auto simp: sample_notify_def t)
qed

end
