(* ===== verification/Inventory.thy ===== *)
theory Inventory
  imports OrderDomain
begin

text \<open>
  The inventory service (\<open>internal/inventory\<close>): the stock table and the operation ledger of
  \<open>infra/repository/gorm.go\<close>, the use cases, the order-event consumer and the gRPC handler.  \<open>ok k\<close> is
  the outcome of the \<open>k\<close>-th statement of a transaction.  Quantities are Go \<open>int32\<close>; stock is a MySQL
  \<open>BIGINT\<close>.
\<close>

section \<open>Data\<close>

record Inventory =
  iv_product :: int
  iv_stock :: int
  iv_sold :: int

record InventoryOperation =
  io_op :: string
  io_product :: int
  io_type :: string
  io_reason :: string
  io_quantity :: int

record StockChange =
  sc_product :: int
  sc_quantity :: int

record inventory_db =
  id_rows :: "Inventory list"
  id_ops :: "InventoryOperation list"
  id_cache :: "int \<Rightarrow> int"

datatype inventory_error =
    ErrDuplicateOperation | ErrInsufficientStock | IvErrNotFound | IvErrEmptyOp | IvErrEmptyItems | IvErrReason | IvErrInfra

section \<open>Repository\<close>

definition GetInventory :: "bool \<Rightarrow> int list \<Rightarrow> inventory_db \<Rightarrow> inventory_error + (int \<times> int) list" where
  "GetInventory ok ids d =
     (if \<not> ok then Inl IvErrInfra
      else Inr (map (\<lambda>r. (iv_product r, iv_stock r)) (filter (\<lambda>r. iv_product r \<in> set ids) (id_rows d))))"

text \<open>One \<open>INSERT\<close> of all items; the unique index is on the pair of operation and product.\<close>

definition insert_ops :: "bool \<Rightarrow> InventoryOperation list \<Rightarrow> inventory_db \<Rightarrow> (inventory_error + unit) \<times> inventory_db" where
  "insert_ops ok items d =
     (if \<not> ok \<or> items = [] then (Inl IvErrInfra, d)
      else if distinct (map (\<lambda>r. (io_op r, io_product r)) items)
              \<and> (\<forall>r \<in> set items. (io_op r, io_product r) \<notin> (\<lambda>r. (io_op r, io_product r)) ` set (id_ops d))
      then (Inr (), d\<lparr>id_ops := id_ops d @ items\<rparr>)
      else (Inl ErrDuplicateOperation, d))"

definition change_ops :: "string \<Rightarrow> string \<Rightarrow> string \<Rightarrow> StockChange list \<Rightarrow> InventoryOperation list" where
  "change_ops operationID type reason changes =
     map (\<lambda>c. \<lparr>io_op = operationID, io_product = sc_product c, io_type = type, io_reason = reason,
               io_quantity = sc_quantity c\<rparr>) changes"

text \<open>\<open>UPDATE inventory SET stock = stock + q, sold = sold + s WHERE product_id = p AND stock >= low\<close>.\<close>

definition add_stock :: "int \<Rightarrow> int option \<Rightarrow> int \<Rightarrow> int \<Rightarrow> inventory_db \<Rightarrow> nat \<times> inventory_db" where
  "add_stock p low q s d =
     (let P = (\<lambda>r. iv_product r = p \<and> (case low of None \<Rightarrow> True | Some l \<Rightarrow> l \<le> iv_stock r))
      in (rows_affected P (id_rows d),
          d\<lparr>id_rows := update_where P (\<lambda>r. r\<lparr>iv_stock := iv_stock r + q, iv_sold := iv_sold r + s\<rparr>) (id_rows d)\<rparr>))"

fun commit_changes :: "(nat \<Rightarrow> bool) \<Rightarrow> nat \<Rightarrow> StockChange list \<Rightarrow> inventory_db \<Rightarrow> (inventory_error + unit) \<times> inventory_db" where
  "commit_changes ok k [] d = (Inr (), d)"
| "commit_changes ok k (c # cs) d =
     (let absQuantity = wrap32 (- sc_quantity c) in
      if \<not> ok k then (Inl IvErrInfra, d)
      else
        (case add_stock (sc_product c) (Some absQuantity) (sc_quantity c) absQuantity d of
           (0, d') \<Rightarrow> (Inl ErrInsufficientStock, d')
         | (n, d') \<Rightarrow> commit_changes ok (Suc k) cs d'))"

abbreviation inventory_tx ::
  "(inventory_db \<Rightarrow> (inventory_error + 'a) \<times> inventory_db) \<Rightarrow> inventory_db \<Rightarrow> (inventory_error + 'a) \<times> inventory_db" where
  "inventory_tx \<equiv> run_tx (\<lambda>d. d) (\<lambda>d _. d)"

definition CommitStock_body ::
  "(nat \<Rightarrow> bool) \<Rightarrow> string \<Rightarrow> StockChange list \<Rightarrow> inventory_db \<Rightarrow> (inventory_error + unit) \<times> inventory_db" where
  "CommitStock_body ok operationID changes d =
     (case insert_ops (ok 0) (change_ops operationID ''commit'' [] changes) d of
        (Inl e, d1) \<Rightarrow> (Inl e, d1)
      | (Inr _, d1) \<Rightarrow> commit_changes ok 1 changes d1)"

definition CommitStock ::
  "(nat \<Rightarrow> bool) \<Rightarrow> string \<Rightarrow> StockChange list \<Rightarrow> inventory_db \<Rightarrow> (inventory_error + unit) \<times> inventory_db" where
  "CommitStock ok operationID changes d = inventory_tx (CommitStock_body ok operationID changes) d"

definition commitOperationID :: "string \<Rightarrow> string" where
  "commitOperationID operationID =
     (if has_suffix ''refund'' operationID then trim_suffix ''refund'' operationID @ ''commit'' else operationID)"

definition commit_records :: "string \<Rightarrow> inventory_db \<Rightarrow> InventoryOperation list" where
  "commit_records operationID d =
     filter (\<lambda>r. io_op r = operationID \<and> io_type r \<in> {''commit'', ''commit_direct''}) (id_ops d)"

fun restore_items :: "(nat \<Rightarrow> bool) \<Rightarrow> nat \<Rightarrow> InventoryOperation list \<Rightarrow> inventory_db \<Rightarrow> (inventory_error + unit) \<times> inventory_db" where
  "restore_items ok k [] d = (Inr (), d)"
| "restore_items ok k (r # rs) d =
     (if \<not> ok k then (Inl IvErrInfra, d)
      else restore_items ok (Suc k) rs (snd (add_stock (io_product r) None (io_quantity r) (- io_quantity r) d)))"

definition refund_items :: "string \<Rightarrow> InventoryOperation list \<Rightarrow> InventoryOperation list" where
  "refund_items operationID recs =
     map (\<lambda>r. \<lparr>io_op = operationID, io_product = io_product r, io_type = ''refund'', io_reason = [],
               io_quantity = wrap32 (- io_quantity r)\<rparr>) recs"

definition RefundStock ::
  "bool \<Rightarrow> (nat \<Rightarrow> bool) \<Rightarrow> string \<Rightarrow> inventory_db \<Rightarrow> (inventory_error + unit) \<times> inventory_db" where
  "RefundStock find_ok ok operationID d =
     (if \<not> find_ok then (Inl IvErrInfra, d)
      else
        (let recs = commit_records (commitOperationID operationID) d;
             items = refund_items operationID recs
         in if recs = [] then (Inr (), d)
            else
              inventory_tx (\<lambda>d. case insert_ops (ok 0) items d of
                                  (Inl e, d1) \<Rightarrow> (Inl e, d1)
                                | (Inr _, d1) \<Rightarrow> restore_items ok 1 items d1) d))"

text \<open>Statement \<open>2 k\<close> is the update of the \<open>k\<close>-th change and \<open>2 k + 1\<close> its \<open>Create\<close>.  No row of another
  transaction appears between the two here, so the duplicate-key retry of the \<open>Create\<close> is not reached.\<close>

fun adjust_changes :: "(nat \<Rightarrow> bool) \<Rightarrow> nat \<Rightarrow> StockChange list \<Rightarrow> inventory_db \<Rightarrow> (inventory_error + unit) \<times> inventory_db" where
  "adjust_changes ok k [] d = (Inr (), d)"
| "adjust_changes ok k (c # cs) d =
     (if \<not> ok (2 * k) then (Inl IvErrInfra, d)
      else
        (case add_stock (sc_product c) None (sc_quantity c) 0 d of
           (n, d1) \<Rightarrow>
             if n = 0 then
               (if sc_quantity c \<le> 0 then (Inl IvErrNotFound, d1)
                else if \<not> ok (2 * k + 1) then (Inl IvErrInfra, d1)
                else adjust_changes ok (Suc k) cs
                       (d1\<lparr>id_rows := id_rows d1 @ [\<lparr>iv_product = sc_product c, iv_stock = sc_quantity c, iv_sold = 0\<rparr>]\<rparr>))
             else adjust_changes ok (Suc k) cs d1))"

text \<open>After the commit the Redis counter of each product follows; a failed increment is only logged.\<close>

fun cache_incr :: "(nat \<Rightarrow> bool) \<Rightarrow> nat \<Rightarrow> StockChange list \<Rightarrow> (int \<Rightarrow> int) \<Rightarrow> (int \<Rightarrow> int)" where
  "cache_incr ok k [] c = c"
| "cache_incr ok k (x # xs) c =
     cache_incr ok (Suc k) xs (if ok k then c(sc_product x := c (sc_product x) + sc_quantity x) else c)"

definition AdjustStock_body ::
  "(nat \<Rightarrow> bool) \<Rightarrow> string \<Rightarrow> string \<Rightarrow> StockChange list \<Rightarrow> inventory_db \<Rightarrow> (inventory_error + unit) \<times> inventory_db" where
  "AdjustStock_body ok operationID reason changes d =
     (case insert_ops (ok 0) (change_ops operationID ''adjust'' reason changes) d of
        (Inl e, d1) \<Rightarrow> (Inl e, d1)
      | (Inr _, d1) \<Rightarrow> adjust_changes ok 1 changes d1)"

definition AdjustStock ::
  "(nat \<Rightarrow> bool) \<Rightarrow> (nat \<Rightarrow> bool) \<Rightarrow> string \<Rightarrow> string \<Rightarrow> StockChange list \<Rightarrow> inventory_db
   \<Rightarrow> (inventory_error + unit) \<times> inventory_db" where
  "AdjustStock ok cache_ok operationID reason changes d =
     (case inventory_tx (AdjustStock_body ok operationID reason changes) d of
        (Inl e, d1) \<Rightarrow> (Inl e, d1)
      | (Inr _, d1) \<Rightarrow> (Inr (), d1\<lparr>id_cache := cache_incr cache_ok 0 changes (id_cache d1)\<rparr>))"

section \<open>Use cases\<close>

definition CommitStock_Execute ::
  "(nat \<Rightarrow> bool) \<Rightarrow> string \<Rightarrow> StockChange list option \<Rightarrow> inventory_db \<Rightarrow> (inventory_error + unit) \<times> inventory_db" where
  "CommitStock_Execute ok operationID changes d =
     (if operationID = [] then (Inl IvErrEmptyOp, d)
      else (case changes of None \<Rightarrow> (Inl IvErrEmptyItems, d) | Some cs \<Rightarrow> CommitStock ok operationID cs d))"

definition RefundStock_Execute ::
  "bool \<Rightarrow> (nat \<Rightarrow> bool) \<Rightarrow> string \<Rightarrow> inventory_db \<Rightarrow> (inventory_error + unit) \<times> inventory_db" where
  "RefundStock_Execute find_ok ok operationID d =
     (if operationID = [] then (Inl IvErrEmptyOp, d) else RefundStock find_ok ok operationID d)"

definition GetInventory_Execute :: "bool \<Rightarrow> int list \<Rightarrow> inventory_db \<Rightarrow> inventory_error + (int \<times> int) list" where
  "GetInventory_Execute ok ids d = GetInventory ok (filter (\<lambda>v. v > 0) ids) d"

section \<open>Order events\<close>

definition maxRetries :: nat where "maxRetries = 3"

definition buildOrderOperationID :: "int \<Rightarrow> string \<Rightarrow> string" where
  "buildOrderOperationID orderID action = ''order_'' @ format_int orderID @ ''_'' @ action"

text \<open>The attempts of one event; \<open>finds\<close> and \<open>oks\<close> give the outcomes of each attempt.\<close>

fun executeWithRetry ::
  "nat \<Rightarrow> nat \<Rightarrow> (nat \<Rightarrow> inventory_db \<Rightarrow> (inventory_error + unit) \<times> inventory_db) \<Rightarrow> inventory_error
   \<Rightarrow> inventory_db \<Rightarrow> (inventory_error + unit) \<times> inventory_db" where
  "executeWithRetry 0 attempt fn lastErr d = (Inl lastErr, d)"
| "executeWithRetry (Suc left) attempt fn lastErr d =
     (case fn attempt d of
        (Inr _, d') \<Rightarrow> (Inr (), d')
      | (Inl e, d') \<Rightarrow>
          if e \<in> {ErrDuplicateOperation, ErrInsufficientStock} then (Inl e, d')
          else executeWithRetry left (Suc attempt) fn e d')"

definition handle_release ::
  "(nat \<Rightarrow> bool) \<Rightarrow> (nat \<Rightarrow> nat \<Rightarrow> bool) \<Rightarrow> OrderStatusUpdateEvent \<Rightarrow> inventory_db \<Rightarrow> inventory_db" where
  "handle_release finds oks evt d =
     snd (executeWithRetry maxRetries 0
            (\<lambda>attempt. RefundStock_Execute (finds attempt) (oks attempt) (buildOrderOperationID (ev_order evt) ''refund''))
            IvErrInfra d)"

definition normalize_kind :: "string \<Rightarrow> string" where
  "normalize_kind k = to_upper (trim_space k)"

text \<open>The handler always returns nil: the message is acknowledged.\<close>

definition inventory_Consume ::
  "(nat \<Rightarrow> bool) \<Rightarrow> (nat \<Rightarrow> nat \<Rightarrow> bool) \<Rightarrow> OrderStatusUpdateEvent \<Rightarrow> inventory_db \<Rightarrow> bool \<times> inventory_db" where
  "inventory_Consume finds oks evt d =
     (let kind = normalize_kind (ev_kind evt)
      in if kind = ''SECKILL'' then (True, d)
         else if kind \<in> {[], ''DIRECT_BUY'', ''CART''} then
           (True, (case ev_status evt of
                     OrderStatusCanceled \<Rightarrow> handle_release finds oks evt d
                   | OrderStatusRefunded \<Rightarrow> handle_release finds oks evt d
                   | _ \<Rightarrow> d))
         else (True, d))"

section \<open>gRPC handler\<close>

text \<open>The answer is a transport error, or a status code (0 is success) with the error its message is made
  from: none for \<open>success\<close>, the duplicate for \<open>success (idempotent)\<close>.\<close>

type_synonym op_answer = "inventory_error + (int \<times> inventory_error option)"

definition op_resp :: "(inventory_error + unit) \<Rightarrow> int \<times> inventory_error option" where
  "op_resp r = (case r of Inr _ \<Rightarrow> (0, None) | Inl e \<Rightarrow> if e = ErrDuplicateOperation then (0, Some e) else (- 1, Some e))"

definition handler_GetInventory :: "bool \<Rightarrow> int \<Rightarrow> inventory_db \<Rightarrow> inventory_error + (int \<times> int \<times> int)" where
  "handler_GetInventory ok p d =
     (if p \<le> 0 then Inl IvErrNotFound
      else (case GetInventory ok [p] d of
              Inl e \<Rightarrow> Inl e
            | Inr [] \<Rightarrow> Inl IvErrNotFound
            | Inr (r # _) \<Rightarrow> Inr (fst r, snd r, 0)))"

definition handler_BatchGetInventory :: "bool \<Rightarrow> int list \<Rightarrow> inventory_db \<Rightarrow> inventory_error + (int \<times> int \<times> int) list" where
  "handler_BatchGetInventory ok ids d =
     (if ids = [] then Inr []
      else (case GetInventory ok ids d of Inl e \<Rightarrow> Inl e | Inr rs \<Rightarrow> Inr (map (\<lambda>r. (fst r, snd r, 0)) rs)))"

definition handler_CommitStock ::
  "(nat \<Rightarrow> bool) \<Rightarrow> string \<Rightarrow> StockChange list \<Rightarrow> inventory_db \<Rightarrow> op_answer \<times> inventory_db" where
  "handler_CommitStock ok operationID items d =
     (if operationID = [] then (Inl IvErrEmptyOp, d)
      else if items = [] then (Inl IvErrEmptyItems, d)
      else
        (let changes = map (\<lambda>c. c\<lparr>sc_quantity := wrap32 (- sc_quantity c)\<rparr>) items
         in case CommitStock_Execute ok operationID (Some changes) d of (r, d') \<Rightarrow> (Inr (op_resp r), d')))"

definition handler_RefundStock ::
  "bool \<Rightarrow> (nat \<Rightarrow> bool) \<Rightarrow> string \<Rightarrow> inventory_db \<Rightarrow> op_answer \<times> inventory_db" where
  "handler_RefundStock find_ok ok operationID d =
     (if operationID = [] then (Inl IvErrEmptyOp, d)
      else (case RefundStock_Execute find_ok ok operationID d of (r, d') \<Rightarrow> (Inr (op_resp r), d')))"

definition handler_AdjustStock ::
  "(nat \<Rightarrow> bool) \<Rightarrow> (nat \<Rightarrow> bool) \<Rightarrow> int \<Rightarrow> string \<Rightarrow> StockChange list \<Rightarrow> inventory_db \<Rightarrow> op_answer \<times> inventory_db" where
  "handler_AdjustStock ok cache_ok nano reason items d =
     (if reason = [] then (Inl IvErrReason, d)
      else if items = [] then (Inl IvErrEmptyItems, d)
      else
        (case AdjustStock ok cache_ok (''adjust_'' @ format_int nano @ ''_'' @ reason) reason items d of
           (r, d') \<Rightarrow> (Inr (case r of Inr _ \<Rightarrow> (0, None) | Inl e \<Rightarrow> (- 1, Some e)), d')))"

end
