(* ===== verification/InventoryProps.thy ===== *)
theory InventoryProps
  imports Inventory
begin

text \<open>
  The ledger of the inventory service: the stock and the sold count of a product are the sums of the
  quantities its operations recorded, whatever operations ran and whichever of them failed.
\<close>

section \<open>Sums over the ledger\<close>

definition stock_sum :: "int \<Rightarrow> InventoryOperation list \<Rightarrow> int" where
  "stock_sum p ops = sum_list (map io_quantity (filter (\<lambda>r. io_product r = p) ops))"

definition sold_delta :: "InventoryOperation \<Rightarrow> int" where
  "sold_delta r = (if io_type r = ''commit'' then wrap32 (- io_quantity r)
                   else if io_type r = ''refund'' then - io_quantity r else 0)"

definition sold_sum :: "int \<Rightarrow> InventoryOperation list \<Rightarrow> int" where
  "sold_sum p ops = sum_list (map sold_delta (filter (\<lambda>r. io_product r = p) ops))"

lemma sums_simps [simp]:
  "stock_sum p [] = 0" "sold_sum p [] = 0"
  "stock_sum p (xs @ ys) = stock_sum p xs + stock_sum p ys" "sold_sum p (xs @ ys) = sold_sum p xs + sold_sum p ys"
  "stock_sum p (r # rs) = (if io_product r = p then io_quantity r else 0) + stock_sum p rs"
  "sold_sum p (r # rs) = (if io_product r = p then sold_delta r else 0) + sold_sum p rs"
  by (simp_all add: stock_sum_def sold_sum_def)

lemma sums_none: "(\<And>r. r \<in> set ops \<Longrightarrow> io_product r \<noteq> p) \<Longrightarrow> stock_sum p ops = 0 \<and> sold_sum p ops = 0"
  by (induction ops) auto

definition rows_ok :: "Inventory list \<Rightarrow> InventoryOperation list \<Rightarrow> bool" where
  "rows_ok rows ops \<longleftrightarrow> distinct (map iv_product rows) \<and> io_product ` set ops \<subseteq> iv_product ` set rows
     \<and> (\<forall>r \<in> set rows. iv_stock r = stock_sum (iv_product r) ops \<and> iv_sold r = sold_sum (iv_product r) ops)"

definition op_key :: "InventoryOperation \<Rightarrow> string \<times> int" where
  "op_key r = (io_op r, io_product r)"

definition inventory_inv :: "inventory_db \<Rightarrow> bool" where
  "inventory_inv d \<longleftrightarrow> rows_ok (id_rows d) (id_ops d) \<and> distinct (map op_key (id_ops d))"

text \<open>The effect of the operations \<open>its\<close> on the stock table.\<close>

definition book :: "InventoryOperation list \<Rightarrow> Inventory list \<Rightarrow> Inventory list" where
  "book its rows = map (\<lambda>r. r\<lparr>iv_stock := iv_stock r + stock_sum (iv_product r) its,
                                iv_sold := iv_sold r + sold_sum (iv_product r) its\<rparr>) rows"

lemma book_Nil [simp]: "book [] rows = rows"
  by (simp add: book_def)

lemma book_append: "book (xs @ ys) rows = book ys (book xs rows)"
  by (simp add: book_def)

lemma book_Cons: "book (r # rs) rows = book rs (book [r] rows)"
  using book_append [of "[r]" rs] by simp

lemma book_products [simp]: "map iv_product (book its rows) = map iv_product rows"
  "iv_product ` set (book its rows) = iv_product ` set rows"
  by (simp_all add: book_def image_image)

lemma book_ok:
  "\<lbrakk>rows_ok rows ops; io_product ` set its \<subseteq> iv_product ` set rows\<rbrakk> \<Longrightarrow> rows_ok (book its rows) (ops @ its)"
  by (auto simp: rows_ok_def) (auto simp: book_def)

lemma add_stock_frame [simp]: "id_ops (snd (add_stock p low q s d)) = id_ops d"
  "id_cache (snd (add_stock p low q s d)) = id_cache d"
  "iv_product ` set (id_rows (snd (add_stock p low q s d))) = iv_product ` set (id_rows d)"
  by (simp_all add: add_stock_def Let_def update_where_image)

lemma add_stock_count:
  "fst (add_stock p low q s d) = 0 \<longleftrightarrow> \<not> (\<exists>r \<in> set (id_rows d). iv_product r = p \<and> (case low of None \<Rightarrow> True | Some l \<Rightarrow> l \<le> iv_stock r))"
  by (auto simp: add_stock_def Let_def rows_affected_zero)

lemma add_stock_book:
  assumes "distinct (map iv_product (id_rows d))" "fst (add_stock p low q s d) \<noteq> 0 \<or> low = None"
    and "io_product r = p" "io_quantity r = q" "sold_delta r = s"
  shows "id_rows (snd (add_stock p low q s d)) = book [r] (id_rows d)"
proof -
  have "(case low of None \<Rightarrow> True | Some l \<Rightarrow> l \<le> iv_stock x)" if x: "x \<in> set (id_rows d)" "iv_product x = p" for x
  proof (cases low)
    case (Some l)
    then obtain y where y: "y \<in> set (id_rows d)" "iv_product y = p" "l \<le> iv_stock y"
      using assms(2) by (auto simp: add_stock_count)
    then have "y = x" using assms(1) x by (auto simp: distinct_map inj_on_def)
    then show ?thesis using Some y by simp
  qed simp
  then show ?thesis
    using assms(3-5) by (auto simp: add_stock_def Let_def update_where_def book_def)
qed

lemma commit_changes_book:
  assumes "distinct (map iv_product (id_rows d))" "commit_changes ok k cs d = (Inr u, d')"
  shows "id_rows d' = book (change_ops oid ''commit'' re cs) (id_rows d) \<and> id_ops d' = id_ops d \<and> id_cache d' = id_cache d
     \<and> sc_product ` set cs \<subseteq> iv_product ` set (id_rows d)"
  using assms
proof (induction cs arbitrary: k d)
  case (Cons c cs)
  let ?abs = "wrap32 (- sc_quantity c)"
  let ?r = "\<lparr>io_op = oid, io_product = sc_product c, io_type = ''commit'', io_reason = re, io_quantity = sc_quantity c\<rparr>"
  let ?a = "add_stock (sc_product c) (Some ?abs) (sc_quantity c) ?abs d"
  obtain n d1 where a: "?a = (n, d1)" by fastforce
  then have n: "n \<noteq> 0" and rest: "commit_changes ok (Suc k) cs d1 = (Inr u, d')"
    using Cons.prems(2) by (auto simp: Let_def split: if_splits nat.splits)
  have d1: "id_rows d1 = book [?r] (id_rows d)" "id_ops d1 = id_ops d" "id_cache d1 = id_cache d"
    using add_stock_book [OF Cons.prems(1), of "sc_product c" "Some ?abs" "sc_quantity c" ?abs ?r] a n
      add_stock_frame [of "sc_product c" "Some ?abs" "sc_quantity c" ?abs d]
    by (simp_all add: sold_delta_def)
  have "sc_product c \<in> iv_product ` set (id_rows d)"
    using add_stock_count [of "sc_product c" "Some ?abs" "sc_quantity c" ?abs d] a n by force
  moreover have "distinct (map iv_product (id_rows d1))" using d1 Cons.prems(1) by simp
  ultimately show ?case
    using Cons.IH [OF _ rest] by (simp add: d1 change_ops_def book_Cons [symmetric])
qed (simp add: change_ops_def)

lemma commit_changes_iff:
  assumes "\<And>j. ok j" "distinct (map sc_product cs)"
  shows "(\<exists>u. fst (commit_changes ok k cs d) = Inr u) \<longleftrightarrow>
     (\<forall>c \<in> set cs. \<exists>r \<in> set (id_rows d). iv_product r = sc_product c \<and> wrap32 (- sc_quantity c) \<le> iv_stock r)"
  using assms(2)
proof (induction cs arbitrary: k d)
  case (Cons c cs)
  let ?abs = "wrap32 (- sc_quantity c)"
  let ?a = "add_stock (sc_product c) (Some ?abs) (sc_quantity c) ?abs d"
  obtain n d1 where a: "?a = (n, d1)" by fastforce
  have n: "n = 0 \<longleftrightarrow> \<not> (\<exists>r \<in> set (id_rows d). iv_product r = sc_product c \<and> ?abs \<le> iv_stock r)"
    using add_stock_count [of "sc_product c" "Some ?abs" "sc_quantity c" ?abs d] a by simp
  have d1: "id_rows d1 = update_where (\<lambda>r. iv_product r = sc_product c \<and> ?abs \<le> iv_stock r)
      (\<lambda>r. r\<lparr>iv_stock := iv_stock r + sc_quantity c, iv_sold := iv_sold r + ?abs\<rparr>) (id_rows d)"
    using a by (auto simp: add_stock_def Let_def)
  have other: "(\<exists>r \<in> set (id_rows d1). iv_product r = p \<and> l \<le> iv_stock r) \<longleftrightarrow> (\<exists>r \<in> set (id_rows d). iv_product r = p \<and> l \<le> iv_stock r)"
    if "p \<noteq> sc_product c" for p l
    using that by (auto simp: d1 update_where_set)
  show ?case
  proof (cases n)
    case 0
    then show ?thesis using a n assms(1) by (simp add: Let_def)
  next
    case (Suc m)
    have "sc_product c \<notin> sc_product ` set cs" using Cons.prems by simp
    then have "sc_product c' \<noteq> sc_product c" if "c' \<in> set cs" for c' using that by (metis imageI)
    then show ?thesis using a n Suc assms(1) Cons.IH [of "Suc k" d1] Cons.prems other by (simp add: Let_def)
  qed
qed simp

lemma restore_items_book:
  assumes "distinct (map iv_product (id_rows d))" "restore_items ok k rs d = (Inr u, d')" "\<forall>r \<in> set rs. io_type r = ''refund''"
  shows "id_rows d' = book rs (id_rows d) \<and> id_ops d' = id_ops d \<and> id_cache d' = id_cache d"
  using assms
proof (induction rs arbitrary: k d)
  case (Cons r rs)
  let ?d1 = "snd (add_stock (io_product r) None (io_quantity r) (- io_quantity r) d)"
  have rest: "restore_items ok (Suc k) rs ?d1 = (Inr u, d')" using Cons.prems(2) by (auto split: if_splits)
  have d1: "id_rows ?d1 = book [r] (id_rows d)"
    using Cons.prems(1,3) by (intro add_stock_book) (simp_all add: sold_delta_def)
  then show ?case using Cons.IH [OF _ rest] Cons.prems(1,3) by (simp add: book_Cons [symmetric])
qed simp

lemma restore_items_ok_returns: "(\<And>j. ok j) \<Longrightarrow> fst (restore_items ok k rs d) = Inr ()"
  by (induction rs arbitrary: k d) auto

lemma adjust_changes_ok:
  assumes "rows_ok (id_rows d) ops" "adjust_changes ok k cs d = (Inr u, d')"
  shows "rows_ok (id_rows d') (ops @ change_ops oid ''adjust'' re cs) \<and> id_ops d' = id_ops d"
  using assms
proof (induction cs arbitrary: ops k d)
  case (Cons c cs)
  let ?r = "\<lparr>io_op = oid, io_product = sc_product c, io_type = ''adjust'', io_reason = re, io_quantity = sc_quantity c\<rparr>"
  let ?new = "\<lparr>iv_product = sc_product c, iv_stock = sc_quantity c, iv_sold = 0\<rparr>"
  obtain n d1 where a: "add_stock (sc_product c) None (sc_quantity c) 0 d = (n, d1)" by fastforce
  show ?case
  proof (cases "n = 0")
    case False
    then have rest: "adjust_changes ok (Suc k) cs d1 = (Inr u, d')" using Cons.prems(2) a by (auto split: if_splits)
    have prod: "sc_product c \<in> iv_product ` set (id_rows d)"
      using add_stock_count [of "sc_product c" None "sc_quantity c" 0 d] a False by force
    have "id_rows d1 = book [?r] (id_rows d)" "id_ops d1 = id_ops d"
      using add_stock_book [of d "sc_product c" None "sc_quantity c" 0 ?r] Cons.prems(1) a
        add_stock_frame(1) [of "sc_product c" None "sc_quantity c" 0 d] by (simp_all add: sold_delta_def rows_ok_def)
    then have "rows_ok (id_rows d1) (ops @ [?r])" "id_ops d1 = id_ops d"
      using book_ok [OF Cons.prems(1), of "[?r]"] prod by simp_all
    then show ?thesis using Cons.IH [of d1 "ops @ [?r]" "Suc k"] rest by (simp add: change_ops_def)
  next
    case True
    let ?d2 = "d1\<lparr>id_rows := id_rows d1 @ [?new]\<rparr>"
    have rest: "adjust_changes ok (Suc k) cs ?d2 = (Inr u, d')" using Cons.prems(2) a True by (auto split: if_splits)
    have none: "sc_product c \<notin> iv_product ` set (id_rows d)" and rows: "id_rows d1 = id_rows d" "id_ops d1 = id_ops d"
      using a True by (auto simp: add_stock_def Let_def rows_affected_zero update_where_none)
    have "stock_sum (sc_product c) ops = 0 \<and> sold_sum (sc_product c) ops = 0"
    proof (rule sums_none)
      fix r assume "r \<in> set ops"
      then have "io_product r \<in> iv_product ` set (id_rows d)" using Cons.prems(1) by (auto simp: rows_ok_def)
      then show "io_product r \<noteq> sc_product c" using none by metis
    qed
    then have "rows_ok (id_rows ?d2) (ops @ [?r])"
      using Cons.prems(1) none by (auto simp: rows_ok_def rows sold_delta_def)
    then show ?thesis using Cons.IH [of ?d2 "ops @ [?r]" "Suc k"] rest rows by (simp add: change_ops_def)
  qed
qed (simp add: change_ops_def)

lemma insert_ops_ok:
  assumes "insert_ops ok items d = (Inr u, d')"
  shows "d' = d\<lparr>id_ops := id_ops d @ items\<rparr>" and "items \<noteq> []"
    and "distinct (map op_key (id_ops d)) \<Longrightarrow> distinct (map op_key (id_ops d @ items))"
proof -
  have *: "d' = d\<lparr>id_ops := id_ops d @ items\<rparr>" "items \<noteq> []" "distinct (map op_key items)"
    "op_key ` set items \<inter> op_key ` set (id_ops d) = {}"
    using assms by (auto simp: insert_ops_def op_key_def [abs_def] split: if_splits)
  show "d' = d\<lparr>id_ops := id_ops d @ items\<rparr>" "items \<noteq> []" by (fact *)+
  show "distinct (map op_key (id_ops d)) \<Longrightarrow> distinct (map op_key (id_ops d @ items))"
    using * by (simp add: Int_commute)
qed

section \<open>The operations\<close>

lemma insert_ops_error: "insert_ops ok items d = (Inl e, d') \<Longrightarrow> d' = d"
  by (auto simp: insert_ops_def split: if_splits)

lemma change_ops_products [simp]: "io_product ` set (change_ops oid ty re cs) = sc_product ` set cs"
  by (simp add: change_ops_def image_image)

lemma CommitStock_error: "CommitStock ok op cs d = (Inl e, d') \<Longrightarrow> d' = d"
  by (auto simp: CommitStock_def run_tx_def split: prod.splits sum.splits)

lemma CommitStock_success:
  assumes "inventory_inv d" "CommitStock ok op cs d = (Inr u, d')"
  shows "d' = d\<lparr>id_rows := book (change_ops op ''commit'' [] cs) (id_rows d), id_ops := id_ops d @ change_ops op ''commit'' [] cs\<rparr>"
    and "sc_product ` set cs \<subseteq> iv_product ` set (id_rows d)" and "cs \<noteq> []"
    and "distinct (map op_key (id_ops d @ change_ops op ''commit'' [] cs))"
proof -
  let ?its = "change_ops op ''commit'' [] cs"
  obtain v d1 where i: "insert_ops (ok 0) ?its d = (Inr v, d1)" and c: "commit_changes ok 1 cs d1 = (Inr u, d')"
    using assms(2) by (auto simp: CommitStock_def CommitStock_body_def run_tx_def split: prod.splits sum.splits)
  note i1 = insert_ops_ok [OF i]
  have "distinct (map iv_product (id_rows d1))" using assms(1) i1(1) by (simp add: inventory_inv_def rows_ok_def)
  from commit_changes_book [OF this c, of op "[]"] i1(1)
  show "d' = d\<lparr>id_rows := book ?its (id_rows d), id_ops := id_ops d @ ?its\<rparr>" "sc_product ` set cs \<subseteq> iv_product ` set (id_rows d)"
    by simp_all
  show "cs \<noteq> []" using i1(2) by (auto simp: change_ops_def)
  show "distinct (map op_key (id_ops d @ ?its))" using i1(3) assms(1) by (simp add: inventory_inv_def)
qed

lemma book_inv:
  assumes "inventory_inv d" "io_product ` set its \<subseteq> iv_product ` set (id_rows d)" "distinct (map op_key (id_ops d @ its))"
  shows "inventory_inv (d\<lparr>id_rows := book its (id_rows d), id_ops := id_ops d @ its\<rparr>)"
  using assms book_ok unfolding inventory_inv_def by simp

lemma CommitStock_inv:
  assumes "inventory_inv d" "CommitStock ok op cs d = (r, d')"
  shows "inventory_inv d'"
proof (cases r)
  case (Inl e)
  then show ?thesis using assms CommitStock_error by blast
next
  case (Inr u)
  note s = CommitStock_success [OF assms(1) assms(2) [unfolded Inr]]
  show ?thesis unfolding s(1) by (rule book_inv [OF assms(1)]) (use s in simp_all)
qed

lemma RefundStock_error: "RefundStock f ok op d = (Inl e, d') \<Longrightarrow> d' = d"
  by (auto simp: RefundStock_def run_tx_def Let_def split: prod.splits sum.splits if_splits)

abbreviation refund_of :: "string \<Rightarrow> inventory_db \<Rightarrow> InventoryOperation list" where
  "refund_of op d \<equiv> refund_items op (commit_records (commitOperationID op) d)"

lemma refund_items_facts [simp]:
  "\<forall>r \<in> set (refund_items op recs). io_type r = ''refund''" "io_product ` set (refund_items op recs) = io_product ` set recs"
  "refund_items op recs = [] \<longleftrightarrow> recs = []"
  by (simp_all add: refund_items_def image_image)

lemma RefundStock_success:
  assumes "inventory_inv d" "RefundStock f ok op d = (Inr u, d')"
  shows "d' = d\<lparr>id_rows := book (refund_of op d) (id_rows d), id_ops := id_ops d @ refund_of op d\<rparr>"
    and "io_product ` set (refund_of op d) \<subseteq> iv_product ` set (id_rows d)"
    and "distinct (map op_key (id_ops d @ refund_of op d))"
proof -
  let ?recs = "commit_records (commitOperationID op) d" and ?its = "refund_of op d"
  have "set ?recs \<subseteq> set (id_ops d)" by (auto simp: commit_records_def)
  then show "io_product ` set ?its \<subseteq> iv_product ` set (id_rows d)"
    using assms(1) by (auto simp: inventory_inv_def rows_ok_def)
  have "d' = d\<lparr>id_rows := book ?its (id_rows d), id_ops := id_ops d @ ?its\<rparr> \<and> distinct (map op_key (id_ops d @ ?its))"
  proof (cases "?recs = []")
    case True
    then show ?thesis using assms by (auto simp: RefundStock_def inventory_inv_def refund_items_def split: if_splits)
  next
    case False
    then obtain v d1 where i: "insert_ops (ok 0) ?its d = (Inr v, d1)" and c: "restore_items ok 1 ?its d1 = (Inr u, d')"
      using assms(2) by (auto simp: RefundStock_def Let_def run_tx_def split: prod.splits sum.splits if_splits)
    note i1 = insert_ops_ok [OF i]
    have dr: "distinct (map iv_product (id_rows d1))" using assms(1) i1(1) by (simp add: inventory_inv_def rows_ok_def)
    show ?thesis using restore_items_book [OF dr c refund_items_facts(1)] i1(1,3) assms(1) by (simp add: inventory_inv_def)
  qed
  then show "d' = d\<lparr>id_rows := book ?its (id_rows d), id_ops := id_ops d @ ?its\<rparr>" "distinct (map op_key (id_ops d @ ?its))"
    by simp_all
qed

lemma RefundStock_inv:
  assumes "inventory_inv d" "RefundStock f ok op d = (r, d')"
  shows "inventory_inv d'"
proof (cases r)
  case (Inl e)
  then show ?thesis using assms RefundStock_error by blast
next
  case (Inr u)
  note s = RefundStock_success [OF assms(1) assms(2) [unfolded Inr]]
  show ?thesis unfolding s(1) by (rule book_inv [OF assms(1)]) (use s in simp_all)
qed

lemma AdjustStock_result:
  assumes "AdjustStock ok cok op re cs d = (r, d')"
  obtains (failed) e where "r = Inl e" "d' = d"
  | (done_) u d2 where "r = Inr ()" "AdjustStock_body ok op re cs d = (Inr u, d2)"
      "d' = d2\<lparr>id_cache := cache_incr cok 0 cs (id_cache d2)\<rparr>"
proof -
  obtain x d2 where b: "AdjustStock_body ok op re cs d = (x, d2)" by fastforce
  show thesis using assms b failed done_ unfolding AdjustStock_def run_tx_def by (cases x) auto
qed

lemma AdjustStock_inv:
  assumes "inventory_inv d" "AdjustStock ok cok op re cs d = (r, d')"
  shows "inventory_inv d'"
proof (cases rule: AdjustStock_result [OF assms(2), case_names failed done_])
  case (failed e)
  then show ?thesis using assms by simp
next
  case (done_ u d2)
  let ?its = "change_ops op ''adjust'' re cs"
  obtain y d1 where i: "insert_ops (ok 0) ?its d = (y, d1)" by fastforce
  then obtain v where y: "y = Inr v" and c: "adjust_changes ok 1 cs d1 = (Inr u, d2)"
    using done_(2) unfolding AdjustStock_body_def i by (cases y) simp_all
  note i1 = insert_ops_ok [OF i [unfolded y]]
  have "rows_ok (id_rows d1) (id_ops d)" using assms(1) i1(1) by (simp add: inventory_inv_def)
  from adjust_changes_ok [OF this c, of op re] i1(1,3) assms(1) done_(3)
  show ?thesis by (simp add: inventory_inv_def)
qed

text \<open>Every transition of the service, whatever fails.\<close>

inductive inventory_step :: "inventory_db \<Rightarrow> inventory_db \<Rightarrow> bool" where
  is_commit: "handler_CommitStock ok op items d = (r, d') \<Longrightarrow> inventory_step d d'"
| is_refund: "handler_RefundStock f ok op d = (r, d') \<Longrightarrow> inventory_step d d'"
| is_adjust: "handler_AdjustStock ok cok nano re items d = (r, d') \<Longrightarrow> inventory_step d d'"
| is_event: "inventory_Consume finds oks evt d = (a, d') \<Longrightarrow> inventory_step d d'"

inductive inventory_reach :: "inventory_db \<Rightarrow> bool" where
  ir_init: "\<lbrakk>id_rows d = []; id_ops d = []\<rbrakk> \<Longrightarrow> inventory_reach d"
| ir_step: "\<lbrakk>inventory_reach d; inventory_step d d'\<rbrakk> \<Longrightarrow> inventory_reach d'"

lemma executeWithRetry_inv:
  assumes "\<And>k d r d'. inventory_inv d \<Longrightarrow> fn k d = (r, d') \<Longrightarrow> inventory_inv d'"
  shows "inventory_inv d \<Longrightarrow> inventory_inv (snd (executeWithRetry n k fn e d))"
proof (induction n arbitrary: k e d)
  case (Suc n)
  obtain r d1 where 1: "fn k d = (r, d1)" by fastforce
  then have "inventory_inv d1" using assms Suc.prems by blast
  then show ?case using 1 Suc.IH by (simp split: sum.split)
qed simp

lemma RefundStock_Execute_inv: "\<lbrakk>inventory_inv d; RefundStock_Execute f ok op d = (r, d')\<rbrakk> \<Longrightarrow> inventory_inv d'"
  using RefundStock_inv by (auto simp: RefundStock_Execute_def split: if_splits)

lemma handle_release_inv: "inventory_inv d \<Longrightarrow> inventory_inv (handle_release finds oks evt d)"
  unfolding handle_release_def by (rule executeWithRetry_inv) (use RefundStock_Execute_inv in blast)+

lemma inventory_step_inv: "\<lbrakk>inventory_step d d'; inventory_inv d\<rbrakk> \<Longrightarrow> inventory_inv d'"
proof (induction rule: inventory_step.induct)
  case (is_commit ok op items d r d')
  then show ?case using CommitStock_inv
    by (auto simp: handler_CommitStock_def CommitStock_Execute_def Let_def split: if_splits prod.splits)
next
  case (is_refund f ok op d r d')
  then show ?case using RefundStock_Execute_inv by (auto simp: handler_RefundStock_def split: if_splits prod.splits)
next
  case (is_adjust ok cok nano re items d r d')
  obtain q d1 where a: "AdjustStock ok cok (''adjust_'' @ format_int nano @ ''_'' @ re) re items d = (q, d1)" by fastforce
  then have "d' = d \<or> d' = d1" using is_adjust unfolding handler_AdjustStock_def a by (simp split: if_splits)
  then show ?case using AdjustStock_inv [OF is_adjust(2) a] is_adjust(2) by metis
next
  case (is_event finds oks evt d a d')
  then show ?case using handle_release_inv
    by (auto simp: inventory_Consume_def Let_def split: if_splits order_status.splits)
qed

lemma inventory_reach_inv: "inventory_reach d \<Longrightarrow> inventory_inv d"
proof (induction rule: inventory_reach.induct)
  case (ir_init d)
  then show ?case by (simp add: inventory_inv_def rows_ok_def)
qed (blast intro: inventory_step_inv)

end
