(* ===== verification/InventorySpec.thy ===== *)
theory InventorySpec
  imports InventoryProps
begin

text \<open>
  The properties of the inventory service: the stock table is the sum of its ledger, what a reservation
  does on every branch, a refund is the inverse of its commit and happens once, and what a closed order
  gives back.
\<close>

section \<open>Reservations\<close>

definition reserved :: "int \<Rightarrow> StockChange list \<Rightarrow> int" where
  "reserved p cs = sum_list (map sc_quantity (filter (\<lambda>c. sc_product c = p) cs))"

definition negated :: "StockChange list \<Rightarrow> StockChange list" where
  "negated cs = map (\<lambda>c. c\<lparr>sc_quantity := wrap32 (- sc_quantity c)\<rparr>) cs"

lemma negated_products [simp]: "map sc_product (negated cs) = map sc_product cs" "sc_product ` set (negated cs) = sc_product ` set cs"
  by (simp_all add: negated_def image_image comp_def)

lemma wrap32_neg: "\<lbrakk>0 < q; q < 2 ^ 31\<rbrakk> \<Longrightarrow> wrap32 (- q) = - q"
  by (intro wrap32_id) (simp add: in32_def)

lemma wrap32_pos: "\<lbrakk>0 < q; q < 2 ^ 31\<rbrakk> \<Longrightarrow> wrap32 q = q"
  by (intro wrap32_id) (simp add: in32_def)

definition quantities_ok :: "StockChange list \<Rightarrow> bool" where
  "quantities_ok cs \<longleftrightarrow> (\<forall>c \<in> set cs. 0 < sc_quantity c \<and> sc_quantity c < 2 ^ 31)"

lemma commit_sums:
  assumes "quantities_ok cs"
  shows "stock_sum p (change_ops op ''commit'' re (negated cs)) = - reserved p cs"
    and "sold_sum p (change_ops op ''commit'' re (negated cs)) = reserved p cs"
  using assms
  by (induction cs) (auto simp: change_ops_def negated_def reserved_def sold_delta_def quantities_ok_def wrap32_neg wrap32_pos)

definition plain_commit :: "InventoryOperation \<Rightarrow> bool" where
  "plain_commit r \<longleftrightarrow> io_type r = ''commit'' \<and> - (2 ^ 31) < io_quantity r \<and> io_quantity r < 2 ^ 31"

lemma plain_commit_deltas:
  assumes "plain_commit r"
  shows "wrap32 (- io_quantity r) = - io_quantity r" "sold_delta r = - io_quantity r"
proof -
  show "wrap32 (- io_quantity r) = - io_quantity r"
    by (rule wrap32_id) (use assms in \<open>auto simp: plain_commit_def in32_def\<close>)
  then show "sold_delta r = - io_quantity r" using assms by (simp add: sold_delta_def plain_commit_def)
qed

lemma refund_sums:
  "\<forall>r \<in> set recs. plain_commit r \<Longrightarrow> stock_sum p (refund_items op recs) = - stock_sum p recs"
  "\<forall>r \<in> set recs. plain_commit r \<Longrightarrow> sold_sum p (refund_items op recs) = - sold_sum p recs"
  by (induction recs) (simp_all add: refund_items_def plain_commit_deltas, simp_all add: sold_delta_def)

lemma reserved_Nil [simp]: "reserved p [] = 0"
  by (simp add: reserved_def)

lemma reserved_Cons [simp]: "reserved p (c # cs) = (if sc_product c = p then sc_quantity c else 0) + reserved p cs"
  by (simp add: reserved_def)

lemma reserved_none: "p \<notin> sc_product ` set cs \<Longrightarrow> reserved p cs = 0"
  by (induction cs) auto

lemma reserved_distinct:
  "\<lbrakk>distinct (map sc_product cs); c \<in> set cs\<rbrakk> \<Longrightarrow> reserved (sc_product c) cs = sc_quantity c"
  by (induction cs) (auto simp: reserved_none image_iff)

lemma insert_change_ops:
  assumes "cs \<noteq> []"
  shows "insert_ops True (change_ops op ty re cs) d =
    (if distinct (map sc_product cs) \<and> \<not> (\<exists>r \<in> set (id_ops d). io_op r = op \<and> io_product r \<in> sc_product ` set cs)
     then (Inr (), d\<lparr>id_ops := id_ops d @ change_ops op ty re cs\<rparr>) else (Inl ErrDuplicateOperation, d))"
proof -
  have "map (\<lambda>r. (io_op r, io_product r)) (change_ops op ty re cs) = map (Pair op) (map sc_product cs)"
    by (simp add: change_ops_def)
  then have 1: "distinct (map (\<lambda>r. (io_op r, io_product r)) (change_ops op ty re cs)) \<longleftrightarrow> distinct (map sc_product cs)"
    by (simp only: distinct_map [of "Pair op"]) (simp add: inj_on_def)
  have 2: "(\<forall>r \<in> set (change_ops op ty re cs). (io_op r, io_product r) \<notin> (\<lambda>r. (io_op r, io_product r)) ` set (id_ops d))
     \<longleftrightarrow> \<not> (\<exists>r \<in> set (id_ops d). io_op r = op \<and> io_product r \<in> sc_product ` set cs)"
    by (simp add: change_ops_def image_iff) metis
  have "change_ops op ty re cs \<noteq> []" using assms by (simp add: change_ops_def)
  then show ?thesis unfolding insert_ops_def 1 2 by simp
qed

lemma commit_changes_error: "\<lbrakk>fst (commit_changes ok k cs d) = Inl e; \<And>j. ok j\<rbrakk> \<Longrightarrow> e = ErrInsufficientStock"
  by (induction cs arbitrary: k d) (auto simp: Let_def split: if_splits prod.splits nat.splits)

lemma commit_changes_error2: "fst (commit_changes ok k cs d) \<noteq> Inl ErrDuplicateOperation"
  by (induction cs arbitrary: k d) (auto simp: Let_def split: prod.splits nat.splits)

definition has_stock :: "StockChange list \<Rightarrow> inventory_db \<Rightarrow> bool" where
  "has_stock cs d \<longleftrightarrow> (\<forall>c \<in> set cs. \<exists>r \<in> set (id_rows d). iv_product r = sc_product c \<and> sc_quantity c \<le> iv_stock r)"

lemma commit_changes_any: "commit_changes ok k cs d = (Inr u, d') \<Longrightarrow> commit_changes (\<lambda>_. True) k cs d = (Inr u, d')"
  by (induction cs arbitrary: k d) (auto simp: Let_def split: if_splits prod.splits nat.splits)

lemma commit_changes_stock:
  assumes "commit_changes ok k (negated cs) d = (Inr u, d')" "distinct (map sc_product cs)" "quantities_ok cs"
  shows "has_stock cs d"
proof -
  have "\<forall>c \<in> set (negated cs). \<exists>r \<in> set (id_rows d). iv_product r = sc_product c \<and> wrap32 (- sc_quantity c) \<le> iv_stock r"
    using commit_changes_iff [of "\<lambda>_. True" "negated cs" k d] commit_changes_any [OF assms(1)] assms(2) by simp
  then show ?thesis using assms(3)
    by (auto simp: has_stock_def negated_def quantities_ok_def wrap32_neg wrap32_pos)
qed

lemma CommitStock_stock:
  assumes "CommitStock ok op (negated cs) d = (Inr u, d')" "distinct (map sc_product cs)" "quantities_ok cs"
  shows "has_stock cs d"
proof -
  obtain v d1 where i: "insert_ops (ok 0) (change_ops op ''commit'' [] (negated cs)) d = (Inr v, d1)"
    and c: "commit_changes ok 1 (negated cs) d1 = (Inr u, d')"
    using assms(1) by (auto simp: CommitStock_def CommitStock_body_def run_tx_def split: prod.splits sum.splits)
  show ?thesis using commit_changes_stock [OF c assms(2,3)] insert_ops_ok(1) [OF i] by (simp add: has_stock_def)
qed

definition already_used :: "string \<Rightarrow> StockChange list \<Rightarrow> inventory_db \<Rightarrow> bool" where
  "already_used op cs d \<longleftrightarrow> (\<exists>r \<in> set (id_ops d). io_op r = op \<and> io_product r \<in> sc_product ` set cs)"

definition after_commit :: "string \<Rightarrow> StockChange list \<Rightarrow> inventory_db \<Rightarrow> inventory_db" where
  "after_commit op cs d =
     d\<lparr>id_rows := map (\<lambda>r. r\<lparr>iv_stock := iv_stock r - reserved (iv_product r) cs,
                               iv_sold := iv_sold r + reserved (iv_product r) cs\<rparr>) (id_rows d),
       id_ops := id_ops d @ change_ops op ''commit'' [] (negated cs)\<rparr>"

lemma CommitStock_negated:
  assumes "inventory_inv d" "cs \<noteq> []" "\<And>j. ok j" "quantities_ok cs"
  shows "CommitStock ok op (negated cs) d =
    (if \<not> distinct (map sc_product cs) \<or> already_used op cs d then (Inl ErrDuplicateOperation, d)
     else if has_stock cs d then (Inr (), after_commit op cs d) else (Inl ErrInsufficientStock, d))"
proof -
  let ?its = "change_ops op ''commit'' [] (negated cs)"
  let ?d1 = "d\<lparr>id_ops := id_ops d @ ?its\<rparr>"
  have ne: "negated cs \<noteq> []" using assms(2) by (simp add: negated_def)
  have ins: "insert_ops (ok 0) ?its d =
      (if distinct (map sc_product cs) \<and> \<not> already_used op cs d then (Inr (), ?d1) else (Inl ErrDuplicateOperation, d))"
    using insert_change_ops [OF ne, of op "''commit''" "[]" d] assms(3) [of 0] by (simp add: already_used_def)
  show ?thesis
  proof (cases "distinct (map sc_product cs) \<and> \<not> already_used op cs d")
    case False
    then show ?thesis using ins by (auto simp: CommitStock_def CommitStock_body_def run_tx_def)
  next
    case True
    have "(\<exists>r \<in> set (id_rows d). iv_product r = sc_product c \<and> wrap32 (- sc_quantity (c\<lparr>sc_quantity := wrap32 (- sc_quantity c)\<rparr>)) \<le> iv_stock r)
        \<longleftrightarrow> (\<exists>r \<in> set (id_rows d). iv_product r = sc_product c \<and> sc_quantity c \<le> iv_stock r)" if "c \<in> set cs" for c
      using that assms(4) by (simp add: quantities_ok_def wrap32_neg wrap32_pos)
    then have iff: "(\<exists>u. fst (commit_changes ok 1 (negated cs) ?d1) = Inr u) \<longleftrightarrow> has_stock cs d"
      using commit_changes_iff [of ok "negated cs" 1 ?d1, OF assms(3)] True by (simp add: has_stock_def negated_def comp_def)
    have body: "CommitStock_body ok op (negated cs) d = commit_changes ok 1 (negated cs) ?d1"
      using ins True by (simp add: CommitStock_body_def)
    show ?thesis
    proof (cases "has_stock cs d")
      case hs: True
      then obtain u d' where c: "commit_changes ok 1 (negated cs) ?d1 = (Inr u, d')" using iff by (metis prod.collapse)
      then have "CommitStock ok op (negated cs) d = (Inr u, d')" using body by (simp add: CommitStock_def run_tx_def)
      moreover have "d' = after_commit op cs d"
        using CommitStock_success(1) [OF assms(1) calculation] assms(4) by (simp add: after_commit_def book_def commit_sums)
      ultimately show ?thesis using True hs by simp
    next
      case hs: False
      obtain x d' where x: "commit_changes ok 1 (negated cs) ?d1 = (x, d')" by fastforce
      then obtain e where e: "x = Inl e" using hs iff by (cases x) auto
      have "e = ErrInsufficientStock" using commit_changes_error [of ok 1 "negated cs" ?d1 e] assms(3) x e by simp
      then show ?thesis using True hs body x e by (simp add: CommitStock_def run_tx_def)
    qed
  qed
qed


text \<open>C14: the ledger of the inventory service accounts for its stock: in every reachable state the stock of
  a product is the sum of the quantities recorded for it and its sold count the sum of what was
  committed less what was refunded, whatever failed on the way, and no operation counts a product twice.\<close>

theorem inventory_ledger:
  assumes "inventory_reach d" "r \<in> set (id_rows d)"
  shows "iv_stock r = sum_list (map io_quantity (filter (\<lambda>x. io_product x = iv_product r) (id_ops d)))
     \<and> iv_sold r = sum_list (map sold_delta (filter (\<lambda>x. io_product x = iv_product r) (id_ops d)))
     \<and> distinct (map (\<lambda>x. (io_op x, io_product x)) (id_ops d))"
  using inventory_reach_inv [OF assms(1)] assms(2)
  by (simp add: inventory_inv_def rows_ok_def stock_sum_def sold_sum_def op_key_def [abs_def])

definition stocked :: inventory_db where
  "stocked = snd (handler_AdjustStock (\<lambda>_. True) (\<lambda>_. True) 7 ''init'' [\<lparr>sc_product = 1, sc_quantity = 5\<rparr>, \<lparr>sc_product = 2, sc_quantity = 3\<rparr>]
      \<lparr>id_rows = [], id_ops = [], id_cache = (\<lambda>_. 0)\<rparr>)"

definition cart_items :: "StockChange list" where
  "cart_items = [\<lparr>sc_product = 1, sc_quantity = 2\<rparr>, \<lparr>sc_product = 2, sc_quantity = 3\<rparr>]"

lemma stocked_reach: "inventory_reach stocked"
proof -
  let ?d0 = "\<lparr>id_rows = [], id_ops = [], id_cache = (\<lambda>_. 0)\<rparr>"
  have "inventory_reach ?d0" by (rule ir_init) simp_all
  then show ?thesis unfolding stocked_def by (rule ir_step [OF _ is_adjust]) (rule prod.collapse [symmetric])
qed

lemma stocked_value:
  "id_rows stocked = [\<lparr>iv_product = 1, iv_stock = 5, iv_sold = 0\<rparr>, \<lparr>iv_product = 2, iv_stock = 3, iv_sold = 0\<rparr>]"
  "map io_quantity (id_ops stocked) = [5, 3]"
  "map io_product (id_ops stocked) = [1, 2]"
  "map (take 7 \<circ> io_op) (id_ops stocked) = [''adjust_'', ''adjust_'']"
  by code_simp+

lemma inventory_ledger_witness:
  "\<exists>r. inventory_reach stocked \<and> r \<in> set (id_rows stocked) \<and> iv_stock r = 5 \<and> distinct (map (\<lambda>x. (io_op x, io_product x)) (id_ops stocked))"
proof -
  have r: "\<lparr>iv_product = 1, iv_stock = 5, iv_sold = 0\<rparr> \<in> set (id_rows stocked)" by (simp add: stocked_value)
  from inventory_ledger [OF stocked_reach r] show ?thesis using r stocked_reach by force
qed

text \<open>What a reservation does on every branch: with the database up, a request for positive quantities
  is answered as done without a change when it names a product twice or its operation id has already
  been used for one of the products; it is refused without a change when a product lacks stock; and
  otherwise every product loses exactly what was asked for, the ledger gains one line per product, and
  no stock becomes negative.\<close>

theorem commit_stock_spec:
  assumes "inventory_reach d" "op \<noteq> []" "items \<noteq> []" "\<And>j. ok j" "quantities_ok items"
  shows "handler_CommitStock ok op items d =
    (if \<not> distinct (map sc_product items) \<or> already_used op items d then (Inr (0, Some ErrDuplicateOperation), d)
     else if has_stock items d then (Inr (0, None), after_commit op items d) else (Inr (- 1, Some ErrInsufficientStock), d))
   \<and> ((\<forall>r \<in> set (id_rows d). 0 \<le> iv_stock r) \<longrightarrow> (\<forall>r \<in> set (id_rows (snd (handler_CommitStock ok op items d))). 0 \<le> iv_stock r))"
proof -
  note inv = inventory_reach_inv [OF assms(1)]
  have eq: "handler_CommitStock ok op items d =
    (if \<not> distinct (map sc_product items) \<or> already_used op items d then (Inr (0, Some ErrDuplicateOperation), d)
     else if has_stock items d then (Inr (0, None), after_commit op items d) else (Inr (- 1, Some ErrInsufficientStock), d))"
    using CommitStock_negated [OF inv assms(3) assms(4) assms(5), where op = op] assms(2,3)
    by (simp add: handler_CommitStock_def CommitStock_Execute_def negated_def op_resp_def)
  have "0 \<le> iv_stock r - reserved (iv_product r) items"
    if a: "distinct (map sc_product items)" "has_stock items d" "r \<in> set (id_rows d)" "0 \<le> iv_stock r" for r
  proof (cases "iv_product r \<in> sc_product ` set items")
    case True
    then obtain c where c: "c \<in> set items" "iv_product r = sc_product c" by blast
    then obtain y where y: "y \<in> set (id_rows d)" "iv_product y = sc_product c" "sc_quantity c \<le> iv_stock y"
      using a(2) by (auto simp: has_stock_def)
    then have "y = r" using inv a(3) c by (auto simp: inventory_inv_def rows_ok_def distinct_map inj_on_def)
    then show ?thesis using y c reserved_distinct [OF a(1) c(1)] by simp
  qed (use a in \<open>simp add: reserved_none\<close>)
  then show ?thesis unfolding eq by (auto simp: after_commit_def)
qed

lemma commit_stock_spec_witness:
  "handler_CommitStock (\<lambda>_. True) ''order_9_commit'' cart_items stocked = (Inr (0, None), after_commit ''order_9_commit'' cart_items stocked)"
proof -
  have q: "quantities_ok cart_items" "cart_items \<noteq> []" "distinct (map sc_product cart_items)" by (simp_all add: quantities_ok_def cart_items_def)
  have u: "\<not> already_used ''order_9_commit'' cart_items stocked" "has_stock cart_items stocked" by code_simp+
  show ?thesis using commit_stock_spec [OF stocked_reach _ q(2) _ q(1), where op = "''order_9_commit''" and ok = "\<lambda>_. True"] q(3) u by simp
qed


section \<open>Refunds\<close>

lemma commitOperationID_refund [simp]: "commitOperationID (b @ ''refund'') = b @ ''commit''"
  by (simp add: commitOperationID_def has_suffix_def trim_suffix_def)

definition refunded :: "string \<Rightarrow> inventory_db \<Rightarrow> bool" where
  "refunded op d \<longleftrightarrow> (\<exists>r \<in> set (id_ops d). io_op r = op \<and> io_product r \<in> io_product ` set (commit_records (commitOperationID op) d))"

definition after_refund :: "string \<Rightarrow> inventory_db \<Rightarrow> inventory_db" where
  "after_refund op d = d\<lparr>id_rows := book (refund_of op d) (id_rows d), id_ops := id_ops d @ refund_of op d\<rparr>"

lemma insert_refund:
  assumes "inventory_inv d" "commit_records (commitOperationID op) d \<noteq> []"
  shows "insert_ops True (refund_of op d) d =
    (if refunded op d then (Inl ErrDuplicateOperation, d) else (Inr (), d\<lparr>id_ops := id_ops d @ refund_of op d\<rparr>))"
proof -
  let ?recs = "commit_records (commitOperationID op) d"
  have "distinct (map op_key ?recs)"
    using assms(1) by (simp add: inventory_inv_def commit_records_def distinct_map_filter)
  then have "distinct (map io_product ?recs)"
    by (auto simp: distinct_map inj_on_def op_key_def commit_records_def)
  moreover have "map (\<lambda>r. (io_op r, io_product r)) (refund_of op d) = map (Pair op) (map io_product ?recs)"
    by (simp add: refund_items_def)
  ultimately have 1: "distinct (map (\<lambda>r. (io_op r, io_product r)) (refund_of op d))"
    by (simp only: distinct_map [of "Pair op"]) (simp add: inj_on_def)
  have 2: "(\<forall>r \<in> set (refund_of op d). (io_op r, io_product r) \<notin> (\<lambda>r. (io_op r, io_product r)) ` set (id_ops d)) \<longleftrightarrow> \<not> refunded op d"
    by (simp add: refund_items_def image_iff refunded_def) metis
  show ?thesis using assms(2) unfolding insert_ops_def 2 by (simp add: 1)
qed

lemma restore_items_infra: "fst (restore_items ok k rs d) = Inl e \<Longrightarrow> e = IvErrInfra"
  by (induction rs arbitrary: k d) (auto split: if_splits)

lemma RefundStock_refunded:
  assumes "inventory_inv d" "refunded op d"
  shows "snd (RefundStock f ok op d) = d" and "\<lbrakk>f; ok 0\<rbrakk> \<Longrightarrow> RefundStock f ok op d = (Inl ErrDuplicateOperation, d)"
proof -
  have ne: "commit_records (commitOperationID op) d \<noteq> []" using assms(2) by (auto simp: refunded_def)
  have ins: "\<exists>e. insert_ops (ok 0) (refund_of op d) d = (Inl e, d)"
    using insert_refund [OF assms(1) ne] assms(2) by (cases "ok 0") (simp_all add: insert_ops_def)
  then show "snd (RefundStock f ok op d) = d" by (auto simp: RefundStock_def run_tx_def Let_def)
  show "\<lbrakk>f; ok 0\<rbrakk> \<Longrightarrow> RefundStock f ok op d = (Inl ErrDuplicateOperation, d)"
    using insert_refund [OF assms(1) ne] assms(2) ne by (simp add: RefundStock_def run_tx_def Let_def)
qed

lemma RefundStock_fresh:
  assumes "inventory_inv d" "\<not> refunded op d"
  shows "RefundStock f ok op d = (Inl IvErrInfra, d) \<or> RefundStock f ok op d = (Inr (), after_refund op d)"
    and "\<lbrakk>f; \<And>j. ok j\<rbrakk> \<Longrightarrow> RefundStock f ok op d = (Inr (), after_refund op d)"
proof -
  obtain r d' where r: "RefundStock f ok op d = (r, d')" by fastforce
  have r': "d' = (case r of Inl _ \<Rightarrow> d | Inr _ \<Rightarrow> after_refund op d)"
    using RefundStock_error [of f ok op d] RefundStock_success(1) [OF assms(1), of f ok op] r
    by (cases r) (auto simp: after_refund_def)
  have body: "commit_records (commitOperationID op) d = [] \<Longrightarrow> f \<Longrightarrow> r = Inr ()"
    "commit_records (commitOperationID op) d \<noteq> [] \<Longrightarrow> f \<Longrightarrow> ok 0 \<Longrightarrow>
       r = fst (restore_items ok 1 (refund_of op d) (d\<lparr>id_ops := id_ops d @ refund_of op d\<rparr>))"
    "commit_records (commitOperationID op) d \<noteq> [] \<Longrightarrow> \<not> ok 0 \<Longrightarrow> r = Inl IvErrInfra" "\<not> f \<Longrightarrow> r = Inl IvErrInfra"
    using r insert_refund [OF assms(1)] assms(2)
    by (auto simp: RefundStock_def run_tx_def Let_def insert_ops_def split: prod.splits sum.splits if_splits)
  have "r = Inl IvErrInfra \<or> r = Inr ()"
  proof (cases r)
    case (Inl e)
    then show ?thesis using body restore_items_infra [of ok 1 "refund_of op d" "d\<lparr>id_ops := id_ops d @ refund_of op d\<rparr>" e] by metis
  qed simp
  then show "RefundStock f ok op d = (Inl IvErrInfra, d) \<or> RefundStock f ok op d = (Inr (), after_refund op d)"
    using r r' by auto
  show "RefundStock f ok op d = (Inr (), after_refund op d)" if "f" "\<And>j. ok j"
    using body(1,2) restore_items_ok_returns [of ok 1] that r r' by (metis sum.case(2))
qed


lemma after_commit_book:
  "quantities_ok cs \<Longrightarrow> after_commit op cs d = d\<lparr>id_rows := book (change_ops op ''commit'' [] (negated cs)) (id_rows d),
     id_ops := id_ops d @ change_ops op ''commit'' [] (negated cs)\<rparr>"
  by (simp add: after_commit_def book_def commit_sums)

lemma commit_then_refund:
  assumes "quantities_ok cs" "\<forall>r \<in> set (id_ops d). io_op r \<noteq> b @ ''commit'' \<and> io_op r \<noteq> b @ ''refund''"
  defines "d1 \<equiv> after_commit (b @ ''commit'') cs d"
  shows "\<not> refunded (b @ ''refund'') d1" and "id_rows (after_refund (b @ ''refund'') d1) = id_rows d"
    and "cs \<noteq> [] \<Longrightarrow> refunded (b @ ''refund'') (after_refund (b @ ''refund'') d1)"
proof -
  let ?its = "change_ops (b @ ''commit'') ''commit'' [] (negated cs)"
  have d1: "id_ops d1 = id_ops d @ ?its" "id_rows d1 = book ?its (id_rows d)"
    by (simp_all add: d1_def after_commit_book [OF assms(1)])
  have "filter (\<lambda>r. io_op r = b @ ''commit'' \<and> io_type r \<in> {''commit'', ''commit_direct''}) (id_ops d) = []"
    "filter (\<lambda>r. io_op r = b @ ''commit'' \<and> io_type r \<in> {''commit'', ''commit_direct''}) ?its = ?its"
    using assms(2) by (auto simp: filter_empty_conv filter_id_conv change_ops_def)
  then have recs: "commit_records (b @ ''commit'') d1 = ?its" by (simp only: commit_records_def d1 filter_append append_Nil)
  show "\<not> refunded (b @ ''refund'') d1"
    using assms(2) by (auto simp: refunded_def d1 change_ops_def)
  have plain: "\<forall>r \<in> set ?its. plain_commit r"
    using assms(1) by (auto simp: change_ops_def negated_def plain_commit_def quantities_ok_def wrap32_neg)
  show "id_rows (after_refund (b @ ''refund'') d1) = id_rows d"
    by (simp add: after_refund_def recs d1 refund_sums [OF plain] book_def) (rule map_idI, simp)
  show "refunded (b @ ''refund'') (after_refund (b @ ''refund'') d1)" if ne: "cs \<noteq> []"
  proof -
    obtain c where c: "c \<in> set cs" using ne by (cases cs) auto
    let ?r = "\<lparr>io_op = b @ ''refund'', io_product = sc_product c, io_type = ''refund'', io_reason = [], io_quantity = wrap32 (- wrap32 (- sc_quantity c))\<rparr>"
    have "?r \<in> set (refund_of (b @ ''refund'') d1)"
      using c by (simp add: recs) (force simp: refund_items_def change_ops_def negated_def image_iff)
    moreover have "set ?its \<subseteq> set (commit_records (b @ ''commit'') (after_refund (b @ ''refund'') d1))"
      by (auto simp: commit_records_def after_refund_def d1 change_ops_def)
    moreover have "sc_product c \<in> io_product ` set ?its" using c by simp
    ultimately have "sc_product c \<in> io_product ` set (commit_records (b @ ''commit'') (after_refund (b @ ''refund'') d1))"
      and "?r \<in> set (id_ops (after_refund (b @ ''refund'') d1))" by (blast, simp add: after_refund_def)
    then show ?thesis unfolding refunded_def commitOperationID_refund by (intro bexI [of _ ?r]) simp_all
  qed
qed



section \<open>Closed orders\<close>

lemma executeWithRetry_recovers:
  assumes "\<And>k. fn k d = (Inl IvErrInfra, d) \<or> fn k d = (Inr (), d')"
  shows "\<lbrakk>k < n; fn (a + k) d = (Inr (), d')\<rbrakk> \<Longrightarrow> executeWithRetry n a fn e d = (Inr (), d')"
proof (induction n arbitrary: a k e)
  case (Suc n)
  show ?case
  proof (cases "fn a d = (Inr (), d')")
    case False
    then have "fn a d = (Inl IvErrInfra, d)" using assms by metis
    moreover obtain j where "k = Suc j" using False Suc.prems by (cases k) auto
    ultimately show ?thesis using Suc by simp
  qed simp
qed simp

lemma executeWithRetry_unchanged:
  assumes "\<And>k. k < a + n \<Longrightarrow> snd (fn k d) = d"
  shows "snd (executeWithRetry n a fn e d) = d"
  using assms
proof (induction n arbitrary: a e)
  case (Suc n)
  obtain r where "fn a d = (r, d)" using Suc.prems [of a] by (cases "fn a d") simp
  then show ?case using Suc.IH [of "Suc a"] Suc.prems by (simp split: sum.split)
qed simp

text \<open>What a cancelled or refunded order gives back: the order-event consumer acknowledges the event in
  every case; one clean attempt among its three restores exactly what the order had committed; if the
  order is already refunded nothing changes; and when the database answers none of the three attempts
  the stock stays reserved, with the event gone.\<close>

theorem order_release_spec:
  assumes "inventory_reach d" "ev_status evt = OrderStatusCanceled \<or> ev_status evt = OrderStatusRefunded"
    and "normalize_kind (ev_kind evt) \<in> {[], ''DIRECT_BUY'', ''CART''}"
    and "r = buildOrderOperationID (ev_order evt) ''refund''"
  shows "fst (inventory_Consume finds oks evt d) = True
    \<and> ((\<exists>k < 3. finds k \<and> (\<forall>j. oks k j)) \<and> \<not> refunded r d \<longrightarrow> snd (inventory_Consume finds oks evt d) = after_refund r d)
    \<and> (refunded r d \<longrightarrow> snd (inventory_Consume finds oks evt d) = d)
    \<and> ((\<forall>k < 3. \<not> finds k) \<longrightarrow> snd (inventory_Consume finds oks evt d) = d)"
proof -
  note inv = inventory_reach_inv [OF assms(1)]
  let ?fn = "\<lambda>a. RefundStock_Execute (finds a) (oks a) r"
  have r: "r \<noteq> []" by (simp add: assms(4) buildOrderOperationID_def)
  have c: "inventory_Consume finds oks evt d = (True, snd (executeWithRetry 3 0 ?fn IvErrInfra d))"
    using assms(2-4) by (auto simp: inventory_Consume_def handle_release_def maxRetries_def Let_def)
  have "snd (inventory_Consume finds oks evt d) = after_refund r d" if "k < 3" "finds k" "\<And>j. oks k j" "\<not> refunded r d" for k
  proof -
    have "?fn a d = (Inl IvErrInfra, d) \<or> ?fn a d = (Inr (), after_refund r d)" for a
      using RefundStock_fresh(1) [OF inv that(4)] r by (simp add: RefundStock_Execute_def)
    moreover have "?fn (0 + k) d = (Inr (), after_refund r d)"
      using RefundStock_fresh(2) [OF inv that(4)] that(2,3) r by (simp add: RefundStock_Execute_def)
    ultimately show ?thesis using executeWithRetry_recovers [of ?fn d "after_refund r d" k 3 0] that(1) c by simp
  qed
  moreover have "snd (inventory_Consume finds oks evt d) = d" if "refunded r d"
    unfolding c snd_conv by (rule executeWithRetry_unchanged)
      (use RefundStock_refunded(1) [OF inv that] r in \<open>simp add: RefundStock_Execute_def\<close>)
  moreover have "snd (inventory_Consume finds oks evt d) = d" if "\<And>k. k < 3 \<Longrightarrow> \<not> finds k"
    unfolding c snd_conv by (rule executeWithRetry_unchanged) (use that r in \<open>simp add: RefundStock_Execute_def RefundStock_def\<close>)
  ultimately show ?thesis using c by auto
qed

definition cancel_event :: OrderStatusUpdateEvent where
  "cancel_event = \<lparr>ev_order = 9, ev_user = 1, ev_status = OrderStatusCanceled, ev_kind = ''CART'', ev_products = [], ev_skus = []\<rparr>"

lemma order_release_spec_witness:
  "snd (inventory_Consume (\<lambda>k. k = 2) (\<lambda>_ _. True) cancel_event (after_commit ''order_9_commit'' cart_items stocked))
     = after_refund ''order_9_refund'' (after_commit ''order_9_commit'' cart_items stocked)"
proof -
  let ?d = "after_commit ''order_9_commit'' cart_items stocked"
  have u: "\<not> already_used ''order_9_commit'' cart_items stocked" "has_stock cart_items stocked" by code_simp+
  have q: "quantities_ok cart_items" "cart_items \<noteq> []" "distinct (map sc_product cart_items)" by (simp_all add: quantities_ok_def cart_items_def)
  have "CommitStock (\<lambda>_. True) ''order_9_commit'' (negated cart_items) stocked = (Inr (), ?d)"
    using CommitStock_negated [OF inventory_reach_inv [OF stocked_reach] q(2) _ q(1), where ok = "\<lambda>_. True" and op = "''order_9_commit''"] q u by simp
  then have "handler_CommitStock (\<lambda>_. True) ''order_9_commit'' cart_items stocked = (Inr (0, None), ?d)"
    using q by (simp add: handler_CommitStock_def CommitStock_Execute_def negated_def op_resp_def)
  then have reach: "inventory_reach ?d" by (rule ir_step [OF stocked_reach is_commit])
  have nr: "\<not> refunded ''order_9_refund'' ?d" by code_simp
  have id: "''order_9_refund'' = buildOrderOperationID (ev_order cancel_event) ''refund''" by code_simp
  have k: "ev_status cancel_event = OrderStatusCanceled \<or> ev_status cancel_event = OrderStatusRefunded"
    "normalize_kind (ev_kind cancel_event) \<in> {[], ''DIRECT_BUY'', ''CART''}" by code_simp+
  show ?thesis using order_release_spec [OF reach k id, of "\<lambda>k. k = 2" "\<lambda>_ _. True"] nr by auto
qed

end
