(* ===== verification/Coupon.thy ===== *)
theory Coupon
  imports OrderDomain
begin

text \<open>
  The coupon service (\<open>internal/coupon\<close>): the domain types of \<open>domain/coupon.go\<close>, the three tables of
  \<open>infra/db/model.go\<close> with their repositories, the use cases, the order-event consumer, the expiry job and
  the gRPC handler.  Times are Unix seconds, \<open>now\<close> is the clock of the call; each \<open>bool\<close> argument is the
  outcome of one database statement.  A list query without \<open>ORDER BY\<close> answers in primary-key order.
\<close>

section \<open>Domain\<close>

datatype CouponScope = CouponScopeUnknown | CouponScopeAll | CouponScopeMerchant | CouponScopeCategory | CouponScopeProduct

datatype CouponType = CouponTypeUnspecified | CouponTypeAmount | CouponTypePercent | CouponTypeFixed

datatype CouponStatus =
    UserCouponStatusUnspecified | UserCouponStatusUnused | UserCouponStatusLocked | UserCouponStatusUsed | UserCouponStatusExpired

datatype coupon_error =
    ErrCouponNotAvailable | ErrCouponNotLocked | ErrThresholdNotMet | ErrOrderNotApplicable | ErrOperationNotFound
  | ErrCouponLimitExceeded | ErrCouponTemplateNotFound | ErrCouponCannotIssue
  | CpErrNoTemplate | CpErrInvalidInput | CpErrInfra

record CouponTemplate =
  t_id :: int
  t_name :: string
  t_type :: CouponType
  t_threshold :: int
  t_discount :: int
  t_max_discount :: int
  t_scope :: CouponScope
  t_merchants :: "int list"
  t_categories :: "int list"
  t_products :: "int list"
  t_valid_days :: int
  t_valid_start :: int
  t_valid_end :: int
  t_total :: int
  t_issued :: int
  t_per_user :: int
  t_enabled :: bool

definition CanIssue :: "CouponTemplate \<Rightarrow> bool" where
  "CanIssue t = (if \<not> t_enabled t then False else if t_total t > 0 \<and> t_issued t \<ge> t_total t then False else True)"

definition CalculateValidTime :: "int \<Rightarrow> CouponTemplate \<Rightarrow> int \<times> int" where
  "CalculateValidTime now t =
     (if t_valid_days t > 0 then (now, wrap64 (now + wrap64 (t_valid_days t * 86400)))
      else (t_valid_start t, t_valid_end t))"

record Coupon =
  c_id :: int
  c_user :: int
  c_template_id :: int
  c_template :: "CouponTemplate option"
  c_status :: CouponStatus
  c_order :: int
  c_start :: int
  c_end :: int
  c_created :: int
  c_used :: "int option"

definition coupon_Reserve :: "int \<Rightarrow> Coupon \<Rightarrow> coupon_error + Coupon" where
  "coupon_Reserve orderID c =
     (if c_status c \<noteq> UserCouponStatusUnused then Inl ErrCouponNotAvailable
      else Inr (c\<lparr>c_status := UserCouponStatusLocked, c_order := orderID\<rparr>))"

definition coupon_Commit :: "Coupon \<Rightarrow> coupon_error + Coupon" where
  "coupon_Commit c =
     (if c_status c \<noteq> UserCouponStatusLocked then Inl ErrCouponNotLocked
      else Inr (c\<lparr>c_status := UserCouponStatusUsed\<rparr>))"

definition coupon_Release :: "Coupon \<Rightarrow> coupon_error + Coupon" where
  "coupon_Release c =
     (if c_status c \<noteq> UserCouponStatusLocked then Inl ErrCouponNotLocked
      else Inr (c\<lparr>c_status := UserCouponStatusUnused, c_order := 0\<rparr>))"

record CouponOrderItem =
  ci_product :: int
  ci_merchant :: int
  ci_category :: int
  ci_subtotal :: int

text \<open>The Go loops that add up with wrap-around.\<close>

definition sum64 :: "int list \<Rightarrow> int" where
  "sum64 xs = fold (\<lambda>x total. wrap64 (total + x)) xs 0"

definition sumByIDs :: "CouponOrderItem list \<Rightarrow> int list \<Rightarrow> (CouponOrderItem \<Rightarrow> int) \<Rightarrow> int" where
  "sumByIDs items ids getID =
     (if ids = [] then 0 else sum64 (map ci_subtotal (filter (\<lambda>i. getID i \<in> set ids) items)))"

definition CalculateApplicableAmount :: "CouponTemplate \<Rightarrow> CouponOrderItem list \<Rightarrow> int" where
  "CalculateApplicableAmount t items =
     (case t_scope t of
        CouponScopeAll \<Rightarrow> sum64 (map ci_subtotal items)
      | CouponScopeMerchant \<Rightarrow> sumByIDs items (t_merchants t) ci_merchant
      | CouponScopeCategory \<Rightarrow> sumByIDs items (t_categories t) ci_category
      | CouponScopeProduct \<Rightarrow> sumByIDs items (t_products t) ci_product
      | CouponScopeUnknown \<Rightarrow> 0)"

definition IsApplicableToOrder :: "CouponTemplate \<Rightarrow> CouponOrderItem list \<Rightarrow> bool \<times> coupon_error option" where
  "IsApplicableToOrder t items =
     (let applicableAmount = CalculateApplicableAmount t items
      in if applicableAmount = 0 then (False, Some ErrOrderNotApplicable)
         else if applicableAmount < t_threshold t then (False, Some ErrThresholdNotMet)
         else (True, None))"

record CouponOperation =
  co_operation :: string
  co_coupon :: int
  co_order :: "int option"
  co_type :: string
  co_created :: int

section \<open>Tables\<close>

record CouponModel =
  cm_id :: int
  cm_user :: int
  cm_order :: "int option"
  cm_template :: int
  cm_status :: CouponStatus
  cm_from :: int
  cm_to :: int
  cm_used :: "int option"
  cm_created :: int

text \<open>A JSON column: empty text or \<open>null\<close>, text from which \<open>json.Unmarshal\<close> leaves the given ids in the slice, or
  text it cannot read at all.\<close>

datatype json_ids = JsonNone | JsonIds "int list" | JsonBad

fun unmarshal_ids :: "json_ids \<Rightarrow> int list" where
  "unmarshal_ids (JsonIds xs) = xs"
| "unmarshal_ids _ = []"

record CouponTemplateModel =
  tm_id :: int
  tm_name :: string
  tm_type :: CouponType
  tm_discount :: int
  tm_min_amount :: "int option"
  tm_max_discount :: "int option"
  tm_products :: json_ids
  tm_categories :: json_ids
  tm_valid_start :: "int option"
  tm_valid_end :: "int option"
  tm_valid_days :: "int option"
  tm_total :: int
  tm_issued :: int
  tm_per_user :: int
  tm_status :: int
  tm_merchant :: "int option"

record coupon_db =
  cd_coupons :: "CouponModel list"
  cd_next :: int
  cd_templates :: "CouponTemplateModel list"
  cd_ops :: "CouponOperation list"

definition opt_int :: "int option \<Rightarrow> int" where
  "opt_int v = (case v of None \<Rightarrow> 0 | Some x \<Rightarrow> x)"

definition templateEntityToDomain :: "CouponTemplateModel \<Rightarrow> CouponTemplate" where
  "templateEntityToDomain m =
     (let by_days = (case tm_valid_days m of Some n \<Rightarrow> n > 0 | None \<Rightarrow> False);
          t = \<lparr>t_id = tm_id m, t_name = tm_name m, t_type = tm_type m, t_threshold = opt_int (tm_min_amount m),
               t_discount = tm_discount m, t_max_discount = opt_int (tm_max_discount m),
               t_scope = CouponScopeAll, t_merchants = [], t_categories = [], t_products = [],
               t_valid_days = (if by_days then opt_int (tm_valid_days m) else 0),
               t_valid_start = (if by_days then 0 else opt_int (tm_valid_start m)),
               t_valid_end = (if by_days then 0 else opt_int (tm_valid_end m)),
               t_total = tm_total m, t_issued = tm_issued m, t_per_user = tm_per_user m, t_enabled = (tm_status m = 1)\<rparr>
      in if (case tm_merchant m of Some x \<Rightarrow> x > 0 | None \<Rightarrow> False)
         then t\<lparr>t_scope := CouponScopeMerchant, t_merchants := [opt_int (tm_merchant m)]\<rparr>
         else if unmarshal_ids (tm_products m) \<noteq> []
         then t\<lparr>t_scope := CouponScopeProduct, t_products := unmarshal_ids (tm_products m)\<rparr>
         else if unmarshal_ids (tm_categories m) \<noteq> []
         then t\<lparr>t_scope := CouponScopeCategory, t_categories := unmarshal_ids (tm_categories m)\<rparr>
         else t)"

text \<open>\<open>Preload\<close> leaves a zero template behind when the row is missing.\<close>

definition entityToDomain :: "coupon_db \<Rightarrow> CouponModel \<Rightarrow> Coupon" where
  "entityToDomain d m =
     \<lparr>c_id = cm_id m, c_user = cm_user m, c_template_id = cm_template m,
      c_template = (case find_row tm_id (cm_template m) (cd_templates d) of
                      None \<Rightarrow> None | Some t \<Rightarrow> if tm_id t \<noteq> 0 then Some (templateEntityToDomain t) else None),
      c_status = cm_status m, c_order = opt_int (cm_order m), c_start = cm_from m, c_end = cm_to m,
      c_created = cm_created m, c_used = cm_used m\<rparr>"

definition domainToEntity :: "Coupon \<Rightarrow> CouponModel" where
  "domainToEntity c =
     \<lparr>cm_id = c_id c, cm_user = c_user c, cm_order = (if c_order c \<noteq> 0 then Some (c_order c) else None),
      cm_template = c_template_id c, cm_status = c_status c, cm_from = c_start c, cm_to = c_end c,
      cm_used = c_used c, cm_created = c_created c\<rparr>"

section \<open>Repositories\<close>

text \<open>\<open>Create\<close> assigns the next id and the creation time.\<close>

definition repo_Issue :: "bool \<Rightarrow> int \<Rightarrow> Coupon \<Rightarrow> coupon_db \<Rightarrow> (coupon_error + int) \<times> coupon_db" where
  "repo_Issue ok now c d =
     (if \<not> ok then (Inl CpErrInfra, d)
      else (Inr (cd_next d),
            d\<lparr>cd_coupons := cd_coupons d @ [(domainToEntity c)\<lparr>cm_id := cd_next d, cm_created := now\<rparr>],
              cd_next := cd_next d + 1\<rparr>))"

text \<open>GORM writes \<open>LIMIT\<close> for a limit that is not negative and \<open>OFFSET\<close> for a positive offset; an offset
  without a limit is a MySQL syntax error.\<close>

definition gorm_page :: "int \<Rightarrow> int \<Rightarrow> 'a list \<Rightarrow> 'a list option" where
  "gorm_page offset limit xs =
     (if limit < 0 \<and> offset > 0 then None
      else Some ((if limit < 0 then id else take (nat limit)) (if offset > 0 then drop (nat offset) xs else xs)))"

definition coupon_ListByUserID ::
  "bool \<Rightarrow> bool \<Rightarrow> int \<Rightarrow> CouponStatus \<Rightarrow> int \<Rightarrow> int \<Rightarrow> coupon_db \<Rightarrow> coupon_error + (Coupon list \<times> int)" where
  "coupon_ListByUserID ok ok2 userID status page pageSize d =
     (let rows = filter (\<lambda>m. cm_user m = userID \<and> cm_status m = status) (cd_coupons d)
      in if \<not> ok then Inl CpErrInfra
         else (case gorm_page (wrap64 (wrap64 (page - 1) * pageSize)) pageSize rows of
                 None \<Rightarrow> Inl CpErrInfra
               | Some models \<Rightarrow>
                   if \<not> ok2 then Inl CpErrInfra
                   else Inr (map (entityToDomain d) models, wrap32 (int (length rows)))))"

definition coupon_valid :: "int \<Rightarrow> int \<Rightarrow> CouponModel \<Rightarrow> bool" where
  "coupon_valid userID now m \<longleftrightarrow>
     cm_user m = userID \<and> cm_status m = UserCouponStatusUnused \<and> cm_from m \<le> now \<and> cm_to m > now"

definition ListAvailableByUserID :: "bool \<Rightarrow> int \<Rightarrow> int \<Rightarrow> coupon_db \<Rightarrow> coupon_error + Coupon list" where
  "ListAvailableByUserID ok now userID d =
     (if \<not> ok then Inl CpErrInfra
      else Inr (map (entityToDomain d) (filter (coupon_valid userID now) (cd_coupons d))))"

definition GetAvailableByIDs :: "bool \<Rightarrow> int \<Rightarrow> int \<Rightarrow> int list \<Rightarrow> coupon_db \<Rightarrow> coupon_error + Coupon list" where
  "GetAvailableByIDs ok now userID couponIDs d =
     (if couponIDs = [] then Inr []
      else if \<not> ok then Inl CpErrInfra
      else Inr (map (entityToDomain d) (filter (\<lambda>m. cm_id m \<in> set couponIDs \<and> coupon_valid userID now m) (cd_coupons d))))"

definition CountByUserAndTemplate :: "bool \<Rightarrow> int \<Rightarrow> int \<Rightarrow> coupon_db \<Rightarrow> coupon_error + int" where
  "CountByUserAndTemplate ok userID templateID d =
     (if \<not> ok then Inl CpErrInfra
      else Inr (wrap32 (int (rows_affected (\<lambda>m. cm_user m = userID \<and> cm_template m = templateID) (cd_coupons d)))))"

definition BatchReserve_body :: "bool \<Rightarrow> int list \<Rightarrow> int \<Rightarrow> coupon_db \<Rightarrow> (coupon_error + unit) \<times> coupon_db" where
  "BatchReserve_body ok couponIDs orderID d =
     (let P = (\<lambda>m. cm_id m \<in> set couponIDs \<and> cm_status m = UserCouponStatusUnused);
          n = rows_affected P (cd_coupons d);
          d' = d\<lparr>cd_coupons := update_where P (\<lambda>m. m\<lparr>cm_status := UserCouponStatusLocked, cm_order := Some orderID\<rparr>) (cd_coupons d)\<rparr>
      in if \<not> ok then (Inl CpErrInfra, d)
         else if n \<noteq> length couponIDs then (Inl ErrCouponNotAvailable, d')
         else (Inr (), d'))"

definition BatchReserve :: "bool \<Rightarrow> int list \<Rightarrow> int \<Rightarrow> coupon_db \<Rightarrow> (coupon_error + unit) \<times> coupon_db" where
  "BatchReserve ok couponIDs orderID d =
     (if couponIDs = [] then (Inr (), d) else run_tx (\<lambda>d. d) (\<lambda>d _. d) (BatchReserve_body ok couponIDs orderID) d)"

definition status_updates :: "int \<Rightarrow> CouponStatus \<Rightarrow> CouponModel \<Rightarrow> CouponModel" where
  "status_updates now toStatus m =
     (let m' = m\<lparr>cm_status := toStatus\<rparr>
      in case toStatus of
           UserCouponStatusUsed \<Rightarrow> m'\<lparr>cm_used := Some now\<rparr>
         | UserCouponStatusUnused \<Rightarrow> m'\<lparr>cm_order := None, cm_used := None\<rparr>
         | _ \<Rightarrow> m')"

definition UpdateStatusByOrderID ::
  "bool \<Rightarrow> int \<Rightarrow> int \<Rightarrow> CouponStatus \<Rightarrow> CouponStatus \<Rightarrow> coupon_db \<Rightarrow> (coupon_error + unit) \<times> coupon_db" where
  "UpdateStatusByOrderID ok now orderID fromStatus toStatus d =
     (if \<not> ok then (Inl CpErrInfra, d)
      else (Inr (), d\<lparr>cd_coupons := update_where (\<lambda>m. cm_order m = Some orderID \<and> cm_status m = fromStatus)
                                      (status_updates now toStatus) (cd_coupons d)\<rparr>))"

definition MarkExpiredCoupons :: "bool \<Rightarrow> int \<Rightarrow> coupon_db \<Rightarrow> (coupon_error + nat) \<times> coupon_db" where
  "MarkExpiredCoupons ok now d =
     (let P = (\<lambda>m. cm_status m = UserCouponStatusUnused \<and> cm_to m < now)
      in if \<not> ok then (Inl CpErrInfra, d)
         else (Inr (rows_affected P (cd_coupons d)),
               d\<lparr>cd_coupons := update_where P (\<lambda>m. m\<lparr>cm_status := UserCouponStatusExpired\<rparr>) (cd_coupons d)\<rparr>))"

text \<open>The operation table: a unique \<open>varchar(64)\<close> key; a longer one is refused by MySQL.\<close>

definition operation_Create :: "bool \<Rightarrow> int \<Rightarrow> string \<Rightarrow> int \<Rightarrow> int \<Rightarrow> string \<Rightarrow> coupon_db \<Rightarrow> (coupon_error + unit) \<times> coupon_db" where
  "operation_Create ok now operationID couponID orderID type d =
     (if \<not> ok \<or> length operationID > 64 \<or> operationID \<in> co_operation ` set (cd_ops d) then (Inl CpErrInfra, d)
      else (Inr (), d\<lparr>cd_ops := cd_ops d @ [\<lparr>co_operation = operationID, co_coupon = couponID,
              co_order = (if orderID \<noteq> 0 then Some orderID else None), co_type = type, co_created = now\<rparr>]\<rparr>))"

definition GetByOperationID :: "bool \<Rightarrow> string \<Rightarrow> coupon_db \<Rightarrow> coupon_error + CouponOperation" where
  "GetByOperationID ok operationID d =
     (if \<not> ok then Inl CpErrInfra
      else (case find_row co_operation operationID (cd_ops d) of None \<Rightarrow> Inl ErrOperationNotFound | Some x \<Rightarrow> Inr x))"

definition template_GetByID :: "bool \<Rightarrow> int \<Rightarrow> coupon_db \<Rightarrow> coupon_error + CouponTemplate" where
  "template_GetByID ok i d =
     (if \<not> ok then Inl CpErrInfra
      else (case find_row tm_id i (cd_templates d) of None \<Rightarrow> Inl ErrCouponTemplateNotFound | Some m \<Rightarrow> Inr (templateEntityToDomain m)))"

definition IncrIssuedCount :: "bool \<Rightarrow> int \<Rightarrow> coupon_db \<Rightarrow> (coupon_error + unit) \<times> coupon_db" where
  "IncrIssuedCount ok i d =
     (if \<not> ok then (Inl CpErrInfra, d)
      else (Inr (), d\<lparr>cd_templates := update_where (\<lambda>m. tm_id m = i) (\<lambda>m. m\<lparr>tm_issued := tm_issued m + 1\<rparr>) (cd_templates d)\<rparr>))"

end
