(* ===== verification/CouponUsecase.thy ===== *)
theory CouponUsecase
  imports Coupon
begin

text \<open>
  The use cases of the coupon service (\<open>usecase/\<close>), its order-event consumer, the expiry job and the
  gRPC handler.
\<close>

section \<open>Issuing\<close>

record issue_env =
  ie_find_op :: bool
  ie_template :: bool
  ie_count :: bool
  ie_issue :: bool
  ie_op :: bool
  ie_incr :: bool
  ie_now :: int

definition IssueCoupon_Execute ::
  "issue_env \<Rightarrow> int \<Rightarrow> int \<Rightarrow> string \<Rightarrow> coupon_db \<Rightarrow> (coupon_error + int) \<times> coupon_db" where
  "IssueCoupon_Execute env userID templateID operationID d =
     (if userID \<le> 0 \<or> templateID \<le> 0 \<or> operationID = [] then (Inl CpErrInvalidInput, d)
      else
        (case GetByOperationID (ie_find_op env) operationID d of
           Inr oper \<Rightarrow> (Inr (co_coupon oper), d)
         | Inl e \<Rightarrow>
             if e \<noteq> ErrOperationNotFound then (Inl e, d)
             else
               (case template_GetByID (ie_template env) templateID d of
                  Inl e \<Rightarrow> (Inl e, d)
                | Inr t \<Rightarrow>
                    if \<not> CanIssue t then (Inl ErrCouponCannotIssue, d)
                    else
                      (case CountByUserAndTemplate (ie_count env) userID templateID d of
                         Inl e \<Rightarrow> (Inl e, d)
                       | Inr count \<Rightarrow>
                           if count \<ge> t_per_user t then (Inl ErrCouponLimitExceeded, d)
                           else
                             (let (validFrom, validTo) = CalculateValidTime (ie_now env) t;
                                  c = \<lparr>c_id = 0, c_user = userID, c_template_id = templateID, c_template = Some t,
                                       c_status = UserCouponStatusUnused, c_order = 0, c_start = validFrom,
                                       c_end = validTo, c_created = 0, c_used = None\<rparr>
                              in case repo_Issue (ie_issue env) (ie_now env) c d of
                                   (Inl e, d1) \<Rightarrow> (Inl e, d1)
                                 | (Inr couponID, d1) \<Rightarrow>
                                     (case operation_Create (ie_op env) (ie_now env) operationID couponID 0 ''ISSUE'' d1 of
                                        (Inl e, d2) \<Rightarrow> (Inl e, d2)
                                      | (Inr _, d2) \<Rightarrow>
                                          (case IncrIssuedCount (ie_incr env) templateID d2 of
                                             (Inl e, d3) \<Rightarrow> (Inl e, d3)
                                           | (Inr _, d3) \<Rightarrow> (Inr couponID, d3))))))))"

section \<open>Reserving\<close>

fun normalize_ids :: "int list \<Rightarrow> int set \<Rightarrow> int list \<Rightarrow> int list option" where
  "normalize_ids [] seen result = Some result"
| "normalize_ids (i # ids) seen result =
     (if i \<le> 0 then None
      else if i \<in> seen then normalize_ids ids seen result
      else normalize_ids ids (insert i seen) (result @ [i]))"

definition normalizeCouponIDs :: "int list \<Rightarrow> int list option" where
  "normalizeCouponIDs ids = normalize_ids ids {} []"

datatype coupon_reason = CouponNotAvailable | CouponStatusChanged

record ReserveCouponOutput =
  ro_success :: bool
  ro_count :: nat
  ro_failures :: "(int \<times> coupon_reason) list"

definition reserve_failures :: "int list \<Rightarrow> Coupon list \<Rightarrow> (int \<times> coupon_reason) list" where
  "reserve_failures couponIDs availableCoupons =
     map (\<lambda>i. (i, CouponNotAvailable)) (filter (\<lambda>i. i \<notin> c_id ` set availableCoupons) couponIDs)"

definition ReserveCoupon_Execute ::
  "bool \<Rightarrow> bool \<Rightarrow> int \<Rightarrow> int \<Rightarrow> int list \<Rightarrow> int \<Rightarrow> coupon_db \<Rightarrow> (coupon_error + ReserveCouponOutput) \<times> coupon_db" where
  "ReserveCoupon_Execute ok_get ok_upd now userID ids orderID d =
     (if userID \<le> 0 \<or> orderID \<le> 0 then (Inl CpErrInvalidInput, d)
      else
        (case normalizeCouponIDs ids of
           None \<Rightarrow> (Inl CpErrInvalidInput, d)
         | Some couponIDs \<Rightarrow>
             if couponIDs = [] then (Inl CpErrInvalidInput, d)
             else
               (case GetAvailableByIDs ok_get now userID couponIDs d of
                  Inl e \<Rightarrow> (Inl e, d)
                | Inr availableCoupons \<Rightarrow>
                    (let failures = reserve_failures couponIDs availableCoupons
                     in if failures \<noteq> [] then (Inr \<lparr>ro_success = False, ro_count = 0, ro_failures = failures\<rparr>, d)
                        else
                          (case BatchReserve ok_upd couponIDs orderID d of
                             (Inr _, d') \<Rightarrow> (Inr \<lparr>ro_success = True, ro_count = length couponIDs, ro_failures = []\<rparr>, d')
                           | (Inl e, d') \<Rightarrow>
                               if e = ErrCouponNotAvailable
                               then (Inr \<lparr>ro_success = False, ro_count = 0,
                                          ro_failures = map (\<lambda>i. (i, CouponStatusChanged)) couponIDs\<rparr>, d')
                               else (Inl e, d'))))))"

section \<open>Settling\<close>

definition CommitCoupon_Execute :: "bool \<Rightarrow> int \<Rightarrow> int \<Rightarrow> coupon_db \<Rightarrow> (coupon_error + unit) \<times> coupon_db" where
  "CommitCoupon_Execute ok now orderID d =
     (if orderID \<le> 0 then (Inl CpErrInvalidInput, d)
      else UpdateStatusByOrderID ok now orderID UserCouponStatusLocked UserCouponStatusUsed d)"

definition ReleaseCoupon_Execute :: "bool \<Rightarrow> int \<Rightarrow> int \<Rightarrow> coupon_db \<Rightarrow> (coupon_error + unit) \<times> coupon_db" where
  "ReleaseCoupon_Execute ok now orderID d =
     (if orderID \<le> 0 then (Inl CpErrInvalidInput, d)
      else UpdateStatusByOrderID ok now orderID UserCouponStatusLocked UserCouponStatusUnused d)"

definition RefundCoupon_Execute :: "bool \<Rightarrow> int \<Rightarrow> int \<Rightarrow> coupon_db \<Rightarrow> (coupon_error + unit) \<times> coupon_db" where
  "RefundCoupon_Execute ok now orderID d =
     (if orderID \<le> 0 then (Inl CpErrInvalidInput, d)
      else UpdateStatusByOrderID ok now orderID UserCouponStatusUsed UserCouponStatusUnused d)"

section \<open>Queries\<close>

record EvaluatedCoupon =
  ec_coupon :: Coupon
  ec_usable :: bool
  ec_reason :: "coupon_error option"

definition evaluateCoupon :: "Coupon \<Rightarrow> CouponOrderItem list \<Rightarrow> bool \<times> coupon_error option" where
  "evaluateCoupon c items =
     (case c_template c of None \<Rightarrow> (False, Some CpErrNoTemplate) | Some tpl \<Rightarrow> IsApplicableToOrder tpl items)"

definition EvaluateOrderCoupons_Execute ::
  "bool \<Rightarrow> int \<Rightarrow> int \<Rightarrow> CouponOrderItem list \<Rightarrow> coupon_db \<Rightarrow> coupon_error + EvaluatedCoupon list" where
  "EvaluateOrderCoupons_Execute ok now userID items d =
     (if items = [] \<or> userID < 0 then Inl CpErrInvalidInput
      else (case ListAvailableByUserID ok now userID d of
              Inl e \<Rightarrow> Inl e
            | Inr coupons \<Rightarrow>
                Inr (map (\<lambda>c. case evaluateCoupon c items of (usable, reason) \<Rightarrow>
                            \<lparr>ec_coupon = c, ec_usable = usable, ec_reason = reason\<rparr>) coupons)))"

definition ListUserCoupons_Execute ::
  "bool \<Rightarrow> bool \<Rightarrow> int \<Rightarrow> CouponStatus \<Rightarrow> int \<Rightarrow> int \<Rightarrow> coupon_db \<Rightarrow> coupon_error + (Coupon list \<times> int)" where
  "ListUserCoupons_Execute ok ok2 userID status page pageSize d =
     (if userID \<le> 0 then Inl CpErrInvalidInput else coupon_ListByUserID ok ok2 userID status page pageSize d)"

section \<open>Order events and the expiry job\<close>

text \<open>An error makes the handler fail, and the message is delivered again.\<close>

definition coupon_Consume :: "bool \<Rightarrow> int \<Rightarrow> OrderStatusUpdateEvent \<Rightarrow> coupon_db \<Rightarrow> (coupon_error + unit) \<times> coupon_db" where
  "coupon_Consume ok now evt d =
     (case ev_status evt of
        OrderStatusPaid \<Rightarrow> CommitCoupon_Execute ok now (ev_order evt) d
      | OrderStatusCanceled \<Rightarrow> ReleaseCoupon_Execute ok now (ev_order evt) d
      | OrderStatusRefunded \<Rightarrow> RefundCoupon_Execute ok now (ev_order evt) d
      | _ \<Rightarrow> (Inr (), d))"

definition ExpireCouponJob_Run :: "bool \<Rightarrow> int \<Rightarrow> coupon_db \<Rightarrow> (coupon_error + unit) \<times> coupon_db" where
  "ExpireCouponJob_Run ok now d =
     (case MarkExpiredCoupons ok now d of (Inl e, d') \<Rightarrow> (Inl e, d') | (Inr _, d') \<Rightarrow> (Inr (), d'))"

section \<open>gRPC handler\<close>

record ProtoTemplate =
  pt_id :: int
  pt_name :: string
  pt_type :: CouponType
  pt_threshold :: int
  pt_discount :: int
  pt_max_discount :: int
  pt_valid_days :: int
  pt_total :: int
  pt_issued :: int
  pt_per_user :: int
  pt_products :: "int list"
  pt_categories :: "int list"
  pt_enabled :: bool

record ProtoCoupon =
  pc_id :: int
  pc_user :: int
  pc_template_id :: int
  pc_status :: CouponStatus
  pc_start :: int
  pc_end :: int
  pc_created :: int
  pc_locked_order :: int
  pc_used_order :: int
  pc_used_at :: int
  pc_template :: "ProtoTemplate option"

definition coupon_domainToProto :: "Coupon \<Rightarrow> ProtoCoupon" where
  "coupon_domainToProto c =
     \<lparr>pc_id = c_id c, pc_user = c_user c, pc_template_id = c_template_id c, pc_status = c_status c,
      pc_start = c_start c, pc_end = c_end c, pc_created = c_created c,
      pc_locked_order = (if c_order c \<noteq> 0 then c_order c else 0),
      pc_used_order = (if c_order c \<noteq> 0 then c_order c else 0),
      pc_used_at = opt_int (c_used c),
      pc_template = map_option (\<lambda>t. \<lparr>pt_id = t_id t, pt_name = t_name t, pt_type = t_type t, pt_threshold = t_threshold t,
          pt_discount = t_discount t, pt_max_discount = t_max_discount t, pt_valid_days = t_valid_days t,
          pt_total = t_total t, pt_issued = t_issued t, pt_per_user = t_per_user t, pt_products = t_products t,
          pt_categories = t_categories t, pt_enabled = t_enabled t\<rparr>) (c_template c)\<rparr>"

definition handler_ListUserCoupons ::
  "bool \<Rightarrow> bool \<Rightarrow> int \<Rightarrow> CouponStatus \<Rightarrow> int \<Rightarrow> int \<Rightarrow> coupon_db \<Rightarrow> coupon_error + (ProtoCoupon list \<times> int)" where
  "handler_ListUserCoupons ok ok2 userID status page pageSize d =
     (case ListUserCoupons_Execute ok ok2 userID status page pageSize d of
        Inl e \<Rightarrow> Inl e
      | Inr (cs, n) \<Rightarrow> Inr (map coupon_domainToProto cs, n))"

text \<open>A line of a checkout request: product, category, unit price and \<open>int32\<close> quantity.\<close>

record ProtoCouponItem =
  pi_product :: int
  pi_category :: int
  pi_price :: int
  pi_quantity :: int

definition handler_ListAvailableCoupons ::
  "bool \<Rightarrow> int \<Rightarrow> int \<Rightarrow> ProtoCouponItem list \<Rightarrow> coupon_db \<Rightarrow> coupon_error + ProtoCoupon list" where
  "handler_ListAvailableCoupons ok now userID req_items d =
     (let items = map (\<lambda>i. \<lparr>ci_product = pi_product i, ci_merchant = 0, ci_category = pi_category i,
                            ci_subtotal = wrap64 (pi_price i * pi_quantity i)\<rparr>) req_items
      in case EvaluateOrderCoupons_Execute ok now userID items d of
           Inl e \<Rightarrow> Inl e
         | Inr es \<Rightarrow> Inr (map (coupon_domainToProto \<circ> ec_coupon) (filter ec_usable es)))"

text \<open>The answer of \<open>ReserveCoupon\<close>: success and failures; an error becomes an answer without either.\<close>

definition handler_ReserveCoupon ::
  "bool \<Rightarrow> bool \<Rightarrow> int \<Rightarrow> int \<Rightarrow> int list \<Rightarrow> int \<Rightarrow> coupon_db \<Rightarrow> (bool \<times> (int \<times> coupon_reason) list) \<times> coupon_db" where
  "handler_ReserveCoupon ok_get ok_upd now userID ids orderID d =
     (case ReserveCoupon_Execute ok_get ok_upd now userID ids orderID d of
        (Inl _, d') \<Rightarrow> ((False, []), d')
      | (Inr out, d') \<Rightarrow> ((ro_success out, ro_failures out), d'))"

definition handler_CommitCoupon :: "bool \<Rightarrow> int \<Rightarrow> int \<Rightarrow> coupon_db \<Rightarrow> (coupon_error + bool) \<times> coupon_db" where
  "handler_CommitCoupon ok now orderID d =
     (case CommitCoupon_Execute ok now orderID d of (Inl e, d') \<Rightarrow> (Inl e, d') | (Inr _, d') \<Rightarrow> (Inr True, d'))"

definition handler_ReleaseCoupon :: "bool \<Rightarrow> int \<Rightarrow> int \<Rightarrow> coupon_db \<Rightarrow> (coupon_error + bool) \<times> coupon_db" where
  "handler_ReleaseCoupon ok now orderID d =
     (case ReleaseCoupon_Execute ok now orderID d of (Inl e, d') \<Rightarrow> (Inl e, d') | (Inr _, d') \<Rightarrow> (Inr True, d'))"

definition handler_RefundCoupon :: "bool \<Rightarrow> int \<Rightarrow> int \<Rightarrow> coupon_db \<Rightarrow> (coupon_error + bool) \<times> coupon_db" where
  "handler_RefundCoupon ok now orderID d =
     (case RefundCoupon_Execute ok now orderID d of (Inl e, d') \<Rightarrow> (Inl e, d') | (Inr _, d') \<Rightarrow> (Inr True, d'))"

text \<open>The answer of \<open>IssueCoupon\<close>: the error, or the coupon id.\<close>

definition handler_IssueCoupon ::
  "issue_env \<Rightarrow> int \<Rightarrow> int \<Rightarrow> string \<Rightarrow> coupon_db \<Rightarrow> (bool \<times> int) \<times> coupon_db" where
  "handler_IssueCoupon env userID templateID operationID d =
     (case IssueCoupon_Execute env userID templateID operationID d of
        (Inl _, d') \<Rightarrow> ((False, 0), d')
      | (Inr couponID, d') \<Rightarrow> ((True, couponID), d'))"

end
