(* ===== verification/CouponProps.thy ===== *)
theory CouponProps
  imports CouponUsecase
begin

text \<open>
  The invariant of the coupon tables: what each status says about the order and the use of a coupon, and
  the per-user limit of every template.
\<close>

section \<open>Coupon ids of a request\<close>

lemma normalize_ids_spec:
  assumes "distinct result" "seen = set result"
  shows "(normalize_ids ids seen result = None \<longleftrightarrow> (\<exists>i \<in> set ids. i \<le> 0))
     \<and> (\<forall>r. normalize_ids ids seen result = Some r \<longrightarrow> distinct r \<and> set r = set result \<union> set ids)"
  using assms
proof (induction ids arbitrary: seen result)
  case (Cons i ids)
  show ?case
  proof (cases "i \<le> 0 \<or> i \<in> seen")
    case True
    have IH: "(normalize_ids ids seen result = None \<longleftrightarrow> (\<exists>i \<in> set ids. i \<le> 0))"
      "\<forall>r. normalize_ids ids seen result = Some r \<longrightarrow> distinct r \<and> set r = set result \<union> set ids"
      using Cons.IH [OF Cons.prems] by blast+
    have "i \<in> seen \<Longrightarrow> set result \<union> set (i # ids) = set result \<union> set ids" unfolding Cons.prems(2) by auto
    then show ?thesis using True IH by (cases "i \<le> 0") auto
  next
    case False
    have p: "distinct (result @ [i])" "insert i seen = set (result @ [i])" using False Cons.prems by simp_all
    from False Cons.IH [OF p] show ?thesis by simp
  qed
qed simp

lemma normalizeCouponIDs_None: "normalizeCouponIDs ids = None \<longleftrightarrow> (\<exists>i \<in> set ids. i \<le> 0)"
  using normalize_ids_spec [of "[]" "{}" ids] by (simp add: normalizeCouponIDs_def)

lemma normalizeCouponIDs_Some: "normalizeCouponIDs ids = Some r \<Longrightarrow> distinct r \<and> set r = set ids"
  using normalize_ids_spec [of "[]" "{}" ids] by (simp add: normalizeCouponIDs_def)

section \<open>The invariant\<close>

definition coupon_shape :: "CouponModel \<Rightarrow> bool" where
  "coupon_shape m \<longleftrightarrow>
     (case cm_status m of
        UserCouponStatusUnspecified \<Rightarrow> False
      | UserCouponStatusUnused \<Rightarrow> cm_order m = None \<and> cm_used m = None
      | UserCouponStatusLocked \<Rightarrow> cm_order m \<noteq> None \<and> cm_used m = None
      | UserCouponStatusUsed \<Rightarrow> cm_order m \<noteq> None \<and> cm_used m \<noteq> None
      | UserCouponStatusExpired \<Rightarrow> cm_order m = None \<and> cm_used m = None)"

definition held :: "int \<Rightarrow> int \<Rightarrow> CouponModel list \<Rightarrow> nat" where
  "held u t rows = rows_affected (\<lambda>m. cm_user m = u \<and> cm_template m = t) rows"

definition limits :: "CouponTemplateModel list \<Rightarrow> (int \<times> int) list" where
  "limits ts = map (\<lambda>t. (tm_id t, tm_per_user t)) ts"

definition coupon_inv :: "coupon_db \<Rightarrow> bool" where
  "coupon_inv d \<longleftrightarrow> distinct (map cm_id (cd_coupons d)) \<and> (\<forall>m \<in> set (cd_coupons d). cm_id m < cd_next d)
     \<and> (\<forall>m \<in> set (cd_coupons d). coupon_shape m)
     \<and> distinct (map tm_id (cd_templates d)) \<and> (\<forall>t \<in> set (cd_templates d). in32 (tm_per_user t))
     \<and> (\<forall>m \<in> set (cd_coupons d). cm_template m \<in> tm_id ` set (cd_templates d))
     \<and> (\<forall>t \<in> set (cd_templates d). \<forall>u. int (held u (tm_id t) (cd_coupons d)) \<le> max 0 (tm_per_user t))"

text \<open>What a step does to the coupons: every row keeps its identity, or one is added.\<close>

definition coupon_ident :: "CouponModel \<Rightarrow> int \<times> int \<times> int" where
  "coupon_ident m = (cm_id m, cm_user m, cm_template m)"

lemma held_ident: "map coupon_ident rows' = map coupon_ident rows \<Longrightarrow> held u t rows' = held u t rows"
proof -
  have "rows_affected (\<lambda>m. cm_user m = u \<and> cm_template m = t) rs
      = length (filter (\<lambda>(i, v, w). v = u \<and> w = t) (map coupon_ident rs))" for rs
    by (induction rs) (simp_all add: coupon_ident_def)
  then show "map coupon_ident rows' = map coupon_ident rows \<Longrightarrow> held u t rows' = held u t rows"
    by (simp only: held_def)
qed

lemma ident_projections:
  assumes "map coupon_ident rows' = map coupon_ident rows"
  shows "map cm_id rows' = map cm_id rows" "cm_id ` set rows' = cm_id ` set rows" "cm_template ` set rows' = cm_template ` set rows"
proof -
  have "map fst (map coupon_ident rows') = map fst (map coupon_ident rows)"
    "map (snd \<circ> snd) (map coupon_ident rows') = map (snd \<circ> snd) (map coupon_ident rows)" using assms by simp_all
  then have i: "map cm_id rows' = map cm_id rows" and t: "map cm_template rows' = map cm_template rows"
    by (simp_all add: coupon_ident_def comp_def)
  show "map cm_id rows' = map cm_id rows" by (fact i)
  show "cm_id ` set rows' = cm_id ` set rows" "cm_template ` set rows' = cm_template ` set rows"
    using i t by (metis set_map)+
qed

lemma coupon_inv_same_rows:
  assumes "coupon_inv d" "map coupon_ident (cd_coupons d') = map coupon_ident (cd_coupons d)" "cd_next d' = cd_next d"
    "cd_templates d' = cd_templates d" "\<And>m. m \<in> set (cd_coupons d') \<Longrightarrow> coupon_shape m"
  shows "coupon_inv d'"
proof -
  note p = ident_projections [OF assms(2)]
  have "cm_id m < cd_next d" "cm_template m \<in> tm_id ` set (cd_templates d)" if "m \<in> set (cd_coupons d')" for m
  proof -
    have "cm_id m \<in> cm_id ` set (cd_coupons d)" "cm_template m \<in> cm_template ` set (cd_coupons d)" using that p(2,3) by blast+
    then show "cm_id m < cd_next d" "cm_template m \<in> tm_id ` set (cd_templates d)" using assms(1) by (auto simp: coupon_inv_def)
  qed
  then show ?thesis using assms p(1) held_ident [OF assms(2)] by (simp add: coupon_inv_def)
qed

lemma update_coupons_inv:
  assumes "coupon_inv d" "\<And>m. coupon_ident (f m) = coupon_ident m"
    "\<And>m. \<lbrakk>m \<in> set (cd_coupons d); P m\<rbrakk> \<Longrightarrow> coupon_shape (f m)"
  shows "coupon_inv (d\<lparr>cd_coupons := update_where P f (cd_coupons d)\<rparr>)"
proof (rule coupon_inv_same_rows [OF assms(1)])
  show "coupon_shape m" if "m \<in> set (cd_coupons (d\<lparr>cd_coupons := update_where P f (cd_coupons d)\<rparr>))" for m
    using that assms(1,3) by (auto simp: update_where_set coupon_inv_def)
qed (simp_all add: update_where_keys assms(2))

lemma status_updates_ident [simp]: "coupon_ident (status_updates now s m) = coupon_ident m"
  by (cases s) (simp_all add: status_updates_def coupon_ident_def)

lemma UpdateStatusByOrderID_inv:
  assumes "coupon_inv d" "UpdateStatusByOrderID ok now o' s s' d = (r, d')"
    "(s, s') \<in> {(UserCouponStatusLocked, UserCouponStatusUsed), (UserCouponStatusLocked, UserCouponStatusUnused),
                (UserCouponStatusUsed, UserCouponStatusUnused)}"
  shows "coupon_inv d'"
proof (cases ok)
  case True
  have "coupon_inv (d\<lparr>cd_coupons := update_where (\<lambda>m. cm_order m = Some o' \<and> cm_status m = s) (status_updates now s') (cd_coupons d)\<rparr>)"
    by (rule update_coupons_inv [OF assms(1) status_updates_ident])
      (use assms(1,3) in \<open>auto simp: status_updates_def coupon_shape_def coupon_inv_def\<close>)
  then show ?thesis using assms(2) True by (auto simp: UpdateStatusByOrderID_def)
qed (use assms(1,2) in \<open>auto simp: UpdateStatusByOrderID_def\<close>)

lemma BatchReserve_cases:
  assumes "BatchReserve ok ids o' d = (r, d')"
  obtains (failed) e where "r = Inl e" "d' = d"
  | (empty) "r = Inr ()" "ids = []" "d' = d"
  | (locked) "r = Inr ()" "ids \<noteq> []" "ok"
      "rows_affected (\<lambda>m. cm_id m \<in> set ids \<and> cm_status m = UserCouponStatusUnused) (cd_coupons d) = length ids"
      "d' = d\<lparr>cd_coupons := update_where (\<lambda>m. cm_id m \<in> set ids \<and> cm_status m = UserCouponStatusUnused)
                (\<lambda>m. m\<lparr>cm_status := UserCouponStatusLocked, cm_order := Some o'\<rparr>) (cd_coupons d)\<rparr>"
proof (cases "ids = []")
  case True
  then show thesis using assms empty by (simp add: BatchReserve_def)
next
  case False
  obtain x d1 where b: "BatchReserve_body ok ids o' d = (x, d1)" by fastforce
  have r: "(r, d') = (case x of Inl e \<Rightarrow> (Inl e, d) | Inr u \<Rightarrow> (Inr u, d1))"
    using assms False b by (simp add: BatchReserve_def run_tx_def)
  show thesis
  proof (cases x)
    case (Inl e)
    then show thesis using r failed by simp
  next
    case (Inr u)
    then show thesis using r b False locked by (simp add: BatchReserve_body_def Let_def split: if_splits)
  qed
qed

lemma BatchReserve_inv:
  assumes "coupon_inv d" "BatchReserve ok ids o' d = (r, d')"
  shows "coupon_inv d'"
proof (cases rule: BatchReserve_cases [OF assms(2), case_names failed empty locked])
  case locked
  show ?thesis unfolding locked(5)
    by (rule update_coupons_inv [OF assms(1)]) (use assms(1) in \<open>auto simp: coupon_ident_def coupon_shape_def coupon_inv_def\<close>)
qed (use assms(1) in simp_all)

lemma MarkExpiredCoupons_inv:
  assumes "coupon_inv d" "MarkExpiredCoupons ok now d = (r, d')"
  shows "coupon_inv d'"
proof (cases ok)
  case True
  have "coupon_inv (d\<lparr>cd_coupons := update_where (\<lambda>m. cm_status m = UserCouponStatusUnused \<and> cm_to m < now)
      (\<lambda>m. m\<lparr>cm_status := UserCouponStatusExpired\<rparr>) (cd_coupons d)\<rparr>)"
    by (rule update_coupons_inv [OF assms(1)]) (use assms(1) in \<open>auto simp: coupon_ident_def coupon_shape_def coupon_inv_def\<close>)
  then show ?thesis using assms(2) True by (auto simp: MarkExpiredCoupons_def Let_def)
qed (use assms in \<open>auto simp: MarkExpiredCoupons_def\<close>)

section \<open>Issuing\<close>

definition issued_row :: "int \<Rightarrow> int \<Rightarrow> int \<Rightarrow> CouponTemplate \<Rightarrow> coupon_db \<Rightarrow> CouponModel" where
  "issued_row now u tid t d =
     \<lparr>cm_id = cd_next d, cm_user = u, cm_order = None, cm_template = tid, cm_status = UserCouponStatusUnused,
      cm_from = fst (CalculateValidTime now t), cm_to = snd (CalculateValidTime now t), cm_used = None, cm_created = now\<rparr>"

text \<open>Either nothing changes, or a coupon is added below the limit; which of the later writes also
  happened is left open.\<close>

lemma Issue_cases:
  assumes "IssueCoupon_Execute env u tid op d = (r, d')"
  obtains (same) "d' = d"
  | (added) t where "find_row tm_id tid (cd_templates d) = Some t" "wrap32 (int (held u tid (cd_coupons d))) < tm_per_user t"
      "cd_coupons d' = cd_coupons d @ [issued_row (ie_now env) u tid (templateEntityToDomain t) d]" "cd_next d' = cd_next d + 1"
      "limits (cd_templates d') = limits (cd_templates d)" "find_row co_operation op (cd_ops d) = None"
proof (cases "d' = d")
  case False
  have per: "t_per_user (templateEntityToDomain t) = tm_per_user t" for t
    by (simp add: templateEntityToDomain_def Let_def)
  from False assms have in_ok: "\<not> (u \<le> 0 \<or> tid \<le> 0 \<or> op = [])" by (auto simp: IssueCoupon_Execute_def)
  obtain e where g: "GetByOperationID (ie_find_op env) op d = Inl ErrOperationNotFound"
    using False assms in_ok unfolding IssueCoupon_Execute_def
    by (cases "GetByOperationID (ie_find_op env) op d") (auto split: if_splits)
  then have op: "find_row co_operation op (cd_ops d) = None"
    by (auto simp: GetByOperationID_def split: if_splits option.splits)
  obtain t where t: "find_row tm_id tid (cd_templates d) = Some t" "template_GetByID (ie_template env) tid d = Inr (templateEntityToDomain t)"
    using False assms in_ok g unfolding IssueCoupon_Execute_def template_GetByID_def by (auto split: if_splits option.splits)
  have c: "CanIssue (templateEntityToDomain t)" using False assms in_ok g t unfolding IssueCoupon_Execute_def by (auto split: if_splits)
  obtain n where n: "CountByUserAndTemplate (ie_count env) u tid d = Inr n" "\<not> n \<ge> tm_per_user t"
    using False assms in_ok g t c unfolding IssueCoupon_Execute_def
    by (cases "CountByUserAndTemplate (ie_count env) u tid d") (auto simp: per split: if_splits)
  then have n': "n = wrap32 (int (held u tid (cd_coupons d)))" by (auto simp: CountByUserAndTemplate_def held_def split: if_splits)
  obtain vf vt where v: "CalculateValidTime (ie_now env) (templateEntityToDomain t) = (vf, vt)" by fastforce
  define cp where "cp = \<lparr>c_id = 0, c_user = u, c_template_id = tid, c_template = Some (templateEntityToDomain t),
      c_status = UserCouponStatusUnused, c_order = 0, c_start = vf, c_end = vt, c_created = 0, c_used = None\<rparr>"
  obtain x d1 where i: "repo_Issue (ie_issue env) (ie_now env) cp d = (x, d1)" by fastforce
  have rest: "(r, d') = (case (x, d1) of (Inl e, d1) \<Rightarrow> (Inl e, d1)
       | (Inr couponID, d1) \<Rightarrow>
           (case operation_Create (ie_op env) (ie_now env) op couponID 0 ''ISSUE'' d1 of
              (Inl e, d2) \<Rightarrow> (Inl e, d2)
            | (Inr _, d2) \<Rightarrow> (case IncrIssuedCount (ie_incr env) tid d2 of
                 (Inl e, d3) \<Rightarrow> (Inl e, d3) | (Inr _, d3) \<Rightarrow> (Inr couponID, d3))))"
    using assms in_ok g t(2) c n unfolding IssueCoupon_Execute_def
    by (simp add: per v flip: cp_def) (simp add: i)
  have d1: "d1 = d\<lparr>cd_coupons := cd_coupons d @ [issued_row (ie_now env) u tid (templateEntityToDomain t) d], cd_next := cd_next d + 1\<rparr>" "is_ok x"
    using False i rest by (auto simp: repo_Issue_def cp_def domainToEntity_def issued_row_def v split: if_splits)
  then obtain y where x: "x = Inr y" by (cases x) auto
  obtain z d2 where o2: "operation_Create (ie_op env) (ie_now env) op y 0 ''ISSUE'' d1 = (z, d2)" by fastforce
  have d2: "cd_coupons d2 = cd_coupons d1" "cd_next d2 = cd_next d1" "cd_templates d2 = cd_templates d1"
    using o2 by (auto simp: operation_Create_def split: if_splits)
  obtain w d3 where o3: "IncrIssuedCount (ie_incr env) tid d2 = (w, d3)" by fastforce
  have d3: "cd_coupons d3 = cd_coupons d2" "cd_next d3 = cd_next d2" "limits (cd_templates d3) = limits (cd_templates d2)"
    using o3 by (auto simp: IncrIssuedCount_def limits_def update_where_keys split: if_splits)
  have "d' = d2 \<or> d' = d3" using rest o2 o3 x by (cases z; cases w) auto
  then show thesis using added [OF t(1)] op n(2) n' d1(1) d2 d3 by auto
qed (rule same)

lemma limits_facts:
  assumes "limits ts' = limits ts"
  shows "map tm_id ts' = map tm_id ts" "tm_id ` set ts' = tm_id ` set ts"
    "(\<forall>t \<in> set ts'. Q (tm_id t) (tm_per_user t)) \<longleftrightarrow> (\<forall>t \<in> set ts. Q (tm_id t) (tm_per_user t))"
proof -
  have "map fst (limits ts') = map fst (limits ts)" using assms by simp
  then show "map tm_id ts' = map tm_id ts" by (simp add: limits_def comp_def)
  then show "tm_id ` set ts' = tm_id ` set ts" by (metis set_map)
  have "(\<forall>t \<in> set ts. Q (tm_id t) (tm_per_user t)) \<longleftrightarrow> (\<forall>x \<in> set (limits ts). Q (fst x) (snd x))" for ts
    by (simp add: limits_def)
  then show "(\<forall>t \<in> set ts'. Q (tm_id t) (tm_per_user t)) \<longleftrightarrow> (\<forall>t \<in> set ts. Q (tm_id t) (tm_per_user t))"
    using assms by simp
qed

lemma Issue_inv:
  assumes "coupon_inv d" "IssueCoupon_Execute env u tid op d = (r, d')"
  shows "coupon_inv d'"
proof (cases rule: Issue_cases [OF assms(2), case_names same added])
  case (added t)
  let ?m = "issued_row (ie_now env) u tid (templateEntityToDomain t) d"
  have tin: "t \<in> set (cd_templates d)" "tm_id t = tid" using find_row_SomeD [OF added(1)] by auto
  have lim: "int (held u tid (cd_coupons d)) \<le> max 0 (tm_per_user t)" "in32 (tm_per_user t)"
    using assms(1) tin by (auto simp: coupon_inv_def)
  then have "wrap32 (int (held u tid (cd_coupons d))) = int (held u tid (cd_coupons d))"
    by (intro wrap32_id) (auto simp: in32_def max_def split: if_splits)
  then have below: "int (held u tid (cd_coupons d)) < tm_per_user t" using added(2) by simp
  have h: "held v w (cd_coupons d') = held v w (cd_coupons d) + (if v = u \<and> w = tid then 1 else 0)" for v w
    by (simp add: added(3) held_def issued_row_def)
  have "int (held v (tm_id t') (cd_coupons d')) \<le> max 0 (tm_per_user t')" if "t' \<in> set (cd_templates d)" for t' v
  proof (cases "v = u \<and> tm_id t' = tid")
    case True
    then have "t' = t" using that tin assms(1) by (auto simp: coupon_inv_def distinct_map inj_on_def)
    then show ?thesis using True h below by simp
  qed (use that assms(1) h in \<open>auto simp: coupon_inv_def\<close>)
  then have "\<forall>t' \<in> set (cd_templates d'). \<forall>v. int (held v (tm_id t') (cd_coupons d')) \<le> max 0 (tm_per_user t')"
    using limits_facts(3) [OF added(5), of "\<lambda>i p. \<forall>v. int (held v i (cd_coupons d')) \<le> max 0 p"] by blast
  moreover have "\<forall>t' \<in> set (cd_templates d'). in32 (tm_per_user t')"
    using limits_facts(3) [OF added(5), of "\<lambda>i p. in32 p"] assms(1) by (simp add: coupon_inv_def)
  moreover have "cd_next d \<notin> cm_id ` set (cd_coupons d)" using assms(1) by (auto simp: coupon_inv_def)
  moreover have "coupon_shape ?m" "cm_template ?m = tid" "cm_id ?m = cd_next d" by (simp_all add: issued_row_def coupon_shape_def)
  ultimately show ?thesis
    using assms(1) limits_facts(1,2) [OF added(5)] tin unfolding coupon_inv_def by (auto simp: added(3,4))
qed (use assms(1) in simp)

section \<open>Transitions\<close>

inductive coupon_step :: "coupon_db \<Rightarrow> coupon_db \<Rightarrow> bool" where
  cs_issue: "handler_IssueCoupon env u tid op d = (r, d') \<Longrightarrow> coupon_step d d'"
| cs_reserve: "handler_ReserveCoupon g ok now u ids o' d = (r2, d') \<Longrightarrow> coupon_step d d'"
| cs_commit: "handler_CommitCoupon ok now o' d = (r3, d') \<Longrightarrow> coupon_step d d'"
| cs_release: "handler_ReleaseCoupon ok now o' d = (r4, d') \<Longrightarrow> coupon_step d d'"
| cs_refund: "handler_RefundCoupon ok now o' d = (r5, d') \<Longrightarrow> coupon_step d d'"
| cs_event: "coupon_Consume ok now evt d = (r6, d') \<Longrightarrow> coupon_step d d'"
| cs_expire: "ExpireCouponJob_Run ok now d = (r7, d') \<Longrightarrow> coupon_step d d'"

text \<open>The service starts with templates, whose ids are distinct, and no coupons.\<close>

inductive coupon_reach :: "coupon_db \<Rightarrow> bool" where
  cr_init: "\<lbrakk>cd_coupons d = []; distinct (map tm_id (cd_templates d)); \<forall>t \<in> set (cd_templates d). in32 (tm_per_user t)\<rbrakk>
     \<Longrightarrow> coupon_reach d"
| cr_step: "\<lbrakk>coupon_reach d; coupon_step d d'\<rbrakk> \<Longrightarrow> coupon_reach d'"

lemma settle_inv:
  "\<lbrakk>coupon_inv d; CommitCoupon_Execute ok now o' d = (r, d')\<rbrakk> \<Longrightarrow> coupon_inv d'"
  "\<lbrakk>coupon_inv d; ReleaseCoupon_Execute ok now o' d = (r, d')\<rbrakk> \<Longrightarrow> coupon_inv d'"
  "\<lbrakk>coupon_inv d; RefundCoupon_Execute ok now o' d = (r, d')\<rbrakk> \<Longrightarrow> coupon_inv d'"
  using UpdateStatusByOrderID_inv
  by (auto simp: CommitCoupon_Execute_def ReleaseCoupon_Execute_def RefundCoupon_Execute_def split: if_splits)

lemma Reserve_inv:
  assumes "coupon_inv d" "ReserveCoupon_Execute g ok now u ids o' d = (r, d')"
  shows "coupon_inv d'"
proof -
  show ?thesis
  proof (cases "normalizeCouponIDs ids")
    case (Some cs)
    obtain x d1 where b: "BatchReserve ok cs o' d = (x, d1)" by fastforce
    have "d' = d \<or> d' = d1" using assms(2) unfolding ReserveCoupon_Execute_def Some b Let_def
      by (cases "GetAvailableByIDs g now u cs d"; cases x) (auto simp: b split: if_splits)
    then show ?thesis using assms(1) BatchReserve_inv [OF assms(1) b] by blast
  qed (use assms in \<open>auto simp: ReserveCoupon_Execute_def split: if_splits\<close>)
qed

lemma coupon_step_inv: "\<lbrakk>coupon_step d d'; coupon_inv d\<rbrakk> \<Longrightarrow> coupon_inv d'"
proof (induction rule: coupon_step.induct)
  case (cs_issue env u tid op d r d')
  then show ?case using Issue_inv
    by (cases "IssueCoupon_Execute env u tid op d") (auto simp: handler_IssueCoupon_def split: sum.splits)
next
  case (cs_reserve g ok now u ids o' d r2 d')
  then show ?case using Reserve_inv
    by (cases "ReserveCoupon_Execute g ok now u ids o' d") (auto simp: handler_ReserveCoupon_def split: sum.splits)
next
  case (cs_expire ok now d r7 d')
  then show ?case using MarkExpiredCoupons_inv by (auto simp: ExpireCouponJob_Run_def split: prod.splits sum.splits)
next
  case (cs_event ok now evt d r6 d')
  note e = cs_event(1) [unfolded coupon_Consume_def]
  show ?case
    by (cases "ev_status evt") (use e settle_inv [OF cs_event(2)] cs_event(2) in \<open>simp_all\<close>)
next
  case (cs_commit ok now o' d r3 d')
  then show ?case using settle_inv(1)
    by (cases "CommitCoupon_Execute ok now o' d") (auto simp: handler_CommitCoupon_def split: sum.splits)
next
  case (cs_release ok now o' d r4 d')
  then show ?case using settle_inv(2)
    by (cases "ReleaseCoupon_Execute ok now o' d") (auto simp: handler_ReleaseCoupon_def split: sum.splits)
next
  case (cs_refund ok now o' d r5 d')
  then show ?case using settle_inv(3)
    by (cases "RefundCoupon_Execute ok now o' d") (auto simp: handler_RefundCoupon_def split: sum.splits)
qed

lemma coupon_reach_inv: "coupon_reach d \<Longrightarrow> coupon_inv d"
proof (induction rule: coupon_reach.induct)
  case (cr_init d)
  then show ?case by (simp add: coupon_inv_def held_def)
qed (blast intro: coupon_step_inv)

end
