(* ===== verification/CouponSpec.thy ===== *)
theory CouponSpec
  imports CouponProps
begin

text \<open>
  The properties of the coupon service: the life cycle of a coupon and the per-user limit, what a
  reservation does, its inverses, what the order of the events does to a coupon, issuing under retries,
  and the agreement of the bulk statements with the methods of the domain type.
\<close>

section \<open>Life cycle\<close>


definition spring_template :: CouponTemplateModel where
  "spring_template = \<lparr>tm_id = 3, tm_name = ''spring'', tm_type = CouponTypeAmount, tm_discount = 500, tm_min_amount = Some 3000,
     tm_max_discount = None, tm_products = JsonNone, tm_categories = JsonNone, tm_valid_start = None, tm_valid_end = None,
     tm_valid_days = Some 7, tm_total = 100, tm_issued = 0, tm_per_user = 2, tm_status = 1, tm_merchant = None\<rparr>"

definition coupons0 :: coupon_db where
  "coupons0 = \<lparr>cd_coupons = [], cd_next = 1, cd_templates = [spring_template], cd_ops = []\<rparr>"

definition env_ok :: issue_env where
  "env_ok = \<lparr>ie_find_op = True, ie_template = True, ie_count = True, ie_issue = True, ie_op = True, ie_incr = True, ie_now = 1000\<rparr>"

definition coupons1 :: coupon_db where
  "coupons1 = snd (handler_IssueCoupon env_ok 7 3 ''op-1'' coupons0)"

definition coupon1 :: CouponModel where
  "coupon1 = \<lparr>cm_id = 1, cm_user = 7, cm_order = None, cm_template = 3, cm_status = UserCouponStatusUnused, cm_from = 1000,
     cm_to = 605800, cm_used = None, cm_created = 1000\<rparr>"

lemma coupons0_reach: "coupon_reach coupons0"
  by (rule cr_init) (simp_all add: coupons0_def spring_template_def in32_def)

lemma coupons1_reach: "coupon_reach coupons1"
  unfolding coupons1_def by (rule cr_step [OF coupons0_reach cs_issue]) (rule prod.collapse [symmetric])

lemma coupons1_value: "cd_coupons coupons1 = [coupon1]"
  by code_simp


section \<open>Reservations\<close>

definition locked_for :: "int \<Rightarrow> int list \<Rightarrow> coupon_db \<Rightarrow> coupon_db" where
  "locked_for o' ids d =
     d\<lparr>cd_coupons := update_where (\<lambda>m. cm_id m \<in> set ids)
        (\<lambda>m. m\<lparr>cm_status := UserCouponStatusLocked, cm_order := Some o'\<rparr>) (cd_coupons d)\<rparr>"

definition all_valid :: "int \<Rightarrow> int \<Rightarrow> int list \<Rightarrow> coupon_db \<Rightarrow> bool" where
  "all_valid u now ids d \<longleftrightarrow> (\<forall>i \<in> set ids. \<exists>m \<in> set (cd_coupons d). cm_id m = i \<and> coupon_valid u now m)"

lemma entityToDomain_id [simp]: "c_id (entityToDomain d m) = cm_id m"
  by (simp add: entityToDomain_def)

lemma reserve_failures_spec:
  assumes "set cs = set ids" "availableCoupons = map (entityToDomain d) (filter (\<lambda>m. cm_id m \<in> set cs \<and> coupon_valid u now m) (cd_coupons d))"
  shows "fst ` set (reserve_failures cs availableCoupons)
      = {i \<in> set ids. \<not> (\<exists>m \<in> set (cd_coupons d). cm_id m = i \<and> coupon_valid u now m)}"
    and "reserve_failures cs availableCoupons = [] \<longleftrightarrow> all_valid u now ids d"
  using assms(1) unfolding assms(2) reserve_failures_def all_valid_def
  by (auto simp: image_iff filter_empty_conv)

lemma unused_when_valid:
  assumes "coupon_inv d" "all_valid u now ids d"
  shows "update_where (\<lambda>m. cm_id m \<in> set ids \<and> cm_status m = UserCouponStatusUnused) f (cd_coupons d)
       = update_where (\<lambda>m. cm_id m \<in> set ids) f (cd_coupons d)"
proof -
  have "cm_status m = UserCouponStatusUnused" if m: "m \<in> set (cd_coupons d)" "cm_id m \<in> set ids" for m
  proof -
    obtain y where y: "y \<in> set (cd_coupons d)" "cm_id y = cm_id m" "coupon_valid u now y"
      using assms(2) m(2) unfolding all_valid_def by blast
    then have "y = m" using assms(1) m(1) by (auto simp: coupon_inv_def distinct_map inj_on_def)
    then show ?thesis using y(3) by (simp add: coupon_valid_def)
  qed
  then show ?thesis unfolding update_where_def by (intro map_cong) auto
qed

lemma BatchReserve_valid:
  assumes "coupon_inv d" "distinct cs" "cs \<noteq> []" "all_valid u now cs d"
  shows "BatchReserve True cs o' d = (Inr (), locked_for o' cs d)"
proof -
  let ?P = "\<lambda>m. cm_status m = UserCouponStatusUnused"
  have "\<forall>k \<in> set cs. \<exists>r \<in> set (cd_coupons d). cm_id r = k \<and> ?P r"
    using assms(4) unfolding all_valid_def coupon_valid_def by blast
  then have "rows_affected (\<lambda>m. cm_id m \<in> set cs \<and> ?P m) (cd_coupons d) = length cs"
    using rows_affected_keys(2) [of cm_id "cd_coupons d" cs ?P] assms(1,2) by (simp add: coupon_inv_def)
  then show ?thesis
    using assms(3) unused_when_valid [OF assms(1,4)] by (simp add: BatchReserve_def BatchReserve_body_def run_tx_def Let_def locked_for_def)
qed

text \<open>What a reservation does with the database up: it succeeds exactly for a non-empty list of positive
  ids that are all unused, currently valid coupons of the user, and then locks precisely these for the
  order, however often an id is repeated; in every other case nothing changes, and a well-formed request
  is told exactly which of its coupons are not available.\<close>

theorem reserve_coupon_spec:
  assumes "coupon_reach d" "0 < u" "0 < o'"
  shows "(ids \<noteq> [] \<and> (\<forall>i \<in> set ids. 0 < i) \<and> all_valid u now ids d \<longrightarrow>
      handler_ReserveCoupon True True now u ids o' d = ((True, []), locked_for o' ids d))
   \<and> (\<not> (ids \<noteq> [] \<and> (\<forall>i \<in> set ids. 0 < i) \<and> all_valid u now ids d) \<longrightarrow>
      (\<exists>fs. handler_ReserveCoupon True True now u ids o' d = ((False, fs), d)))
   \<and> (ids \<noteq> [] \<and> (\<forall>i \<in> set ids. 0 < i) \<longrightarrow>
      fst ` set (snd (fst (handler_ReserveCoupon True True now u ids o' d)))
        = {i \<in> set ids. \<not> (\<exists>m \<in> set (cd_coupons d). cm_id m = i \<and> coupon_valid u now m)})"
proof (cases "\<exists>i \<in> set ids. i \<le> 0")
  case True
  then have "normalizeCouponIDs ids = None" by (simp add: normalizeCouponIDs_None)
  then have "handler_ReserveCoupon True True now u ids o' d = ((False, []), d)"
    using assms by (simp add: handler_ReserveCoupon_def ReserveCoupon_Execute_def)
  moreover have "\<not> (\<forall>i \<in> set ids. 0 < i)" using True by (meson not_le)
  ultimately show ?thesis by blast
next
  case False
  then obtain cs where n: "normalizeCouponIDs ids = Some cs" using normalizeCouponIDs_None by blast
  then have cs: "distinct cs" "set cs = set ids" using normalizeCouponIDs_Some by blast+
  have inv: "coupon_inv d" by (rule coupon_reach_inv [OF assms(1)])
  show ?thesis
  proof (cases "cs = []")
    case True
    then have "ids = []" using cs by simp
    then show ?thesis using n True by (simp add: handler_ReserveCoupon_def ReserveCoupon_Execute_def)
  next
    case ne: False
    then have ids: "ids \<noteq> []" using cs by auto
    have pos: "\<forall>i \<in> set ids. 0 < i" using False by auto
    define av where "av = map (entityToDomain d) (filter (\<lambda>m. cm_id m \<in> set cs \<and> coupon_valid u now m) (cd_coupons d))"
    note rf = reserve_failures_spec [OF cs(2) av_def]
    have g: "GetAvailableByIDs True now u cs d = Inr av" using ne by (simp add: GetAvailableByIDs_def av_def)
    have h: "handler_ReserveCoupon True True now u ids o' d =
      (if reserve_failures cs av \<noteq> [] then ((False, reserve_failures cs av), d)
       else case BatchReserve True cs o' d of (Inr _, d') \<Rightarrow> ((True, []), d')
            | (Inl e, d') \<Rightarrow> if e = ErrCouponNotAvailable then ((False, map (\<lambda>i. (i, CouponStatusChanged)) cs), d') else ((False, []), d'))"
      using assms(2,3) n ne g by (simp add: handler_ReserveCoupon_def ReserveCoupon_Execute_def Let_def split: prod.split sum.split)
    show ?thesis
    proof (cases "all_valid u now ids d")
      case True
      then have "all_valid u now cs d" using cs(2) by (simp add: all_valid_def)
      then have "BatchReserve True cs o' d = (Inr (), locked_for o' ids d)"
        using BatchReserve_valid [OF inv cs(1) ne] cs(2) by (simp add: locked_for_def)
      then show ?thesis using h rf True ids pos by (simp add: all_valid_def)
    next
      case nv: False
      then show ?thesis using h rf by simp
    qed
  qed
qed

lemma reserve_coupon_spec_witness:
  "handler_ReserveCoupon True True 2000 7 [1, 1] 55 coupons1 = ((True, []), locked_for 55 [1, 1] coupons1)"
proof -
  have "all_valid 7 2000 [1, 1] coupons1" by code_simp
  then show ?thesis using reserve_coupon_spec [OF coupons1_reach, of 7 55 "[1, 1]" 2000] by simp
qed


section \<open>Settling\<close>

lemma locked_rows:
  assumes "m \<in> set (cd_coupons d)" "\<forall>m \<in> set (cd_coupons d). cm_order m \<noteq> Some o'"
  shows "cm_order (if cm_id m \<in> set ids then m\<lparr>cm_status := UserCouponStatusLocked, cm_order := Some o'\<rparr> else m) = Some o'
     \<longleftrightarrow> cm_id m \<in> set ids"
  using assms by auto

lemma settle_restores:
  assumes "\<And>m. m \<in> set (cd_coupons d) \<Longrightarrow> g (if cm_id m \<in> set ids then f m else m) = m"
  shows "map g (update_where (\<lambda>m. cm_id m \<in> set ids) f (cd_coupons d)) = cd_coupons d"
  using assms unfolding update_where_def map_map comp_def by (rule map_idI)

lemma update_where_map: "update_where P f rows = map (\<lambda>m. if P m then f m else m) rows"
  by (simp add: update_where_def)

lemma valid_unused:
  assumes "coupon_inv d" "all_valid u now ids d" "m \<in> set (cd_coupons d)" "cm_id m \<in> set ids"
  shows "cm_status m = UserCouponStatusUnused \<and> cm_order m = None \<and> cm_used m = None"
proof -
  obtain y where y: "y \<in> set (cd_coupons d)" "cm_id y = cm_id m" "coupon_valid u now y"
    using assms(2,4) unfolding all_valid_def by blast
  then have "y = m" using assms(1,3) by (auto simp: coupon_inv_def distinct_map inj_on_def)
  then have "cm_status m = UserCouponStatusUnused" using y(3) by (simp add: coupon_valid_def)
  then show ?thesis using assms(1,3) by (auto simp: coupon_inv_def coupon_shape_def)
qed

lemma release_restores:
  assumes "coupon_inv d" "0 < o'" "all_valid u now ids d" "\<forall>m \<in> set (cd_coupons d). cm_order m \<noteq> Some o'"
  shows "snd (handler_ReleaseCoupon True t o' (locked_for o' ids d)) = d"
proof -
  have "cd_coupons (snd (handler_ReleaseCoupon True t o' (locked_for o' ids d))) = cd_coupons d"
    using assms(2,4) valid_unused [OF assms(1,3)]
    by (auto simp: handler_ReleaseCoupon_def ReleaseCoupon_Execute_def UpdateStatusByOrderID_def locked_for_def update_where_map
        status_updates_def comp_def intro!: map_idI)
  then show ?thesis
    using assms(2) by (simp add: handler_ReleaseCoupon_def ReleaseCoupon_Execute_def UpdateStatusByOrderID_def locked_for_def)
qed

lemma release_nothing:
  assumes "\<forall>m \<in> set (cd_coupons d). cm_order m \<noteq> Some o'"
  shows "snd (handler_ReleaseCoupon ok t o' d) = d"
  using assms by (simp add: handler_ReleaseCoupon_def ReleaseCoupon_Execute_def UpdateStatusByOrderID_def update_where_none)

text \<open>A reservation can be undone exactly: for an order no coupon refers to yet, releasing after a
  successful reservation gives back the table as it was, and so do a commit followed by a refund, with
  the coupons used in between.\<close>

theorem coupon_reserve_roundtrip:
  assumes "coupon_reach d" "0 < o'" "all_valid u now ids d" "\<forall>m \<in> set (cd_coupons d). cm_order m \<noteq> Some o'"
  shows "snd (handler_ReleaseCoupon True t1 o' (locked_for o' ids d)) = d
     \<and> snd (handler_RefundCoupon True t2 o' (snd (handler_CommitCoupon True t1 o' (locked_for o' ids d)))) = d
     \<and> (\<forall>m \<in> set (cd_coupons (snd (handler_CommitCoupon True t1 o' (locked_for o' ids d)))).
          cm_id m \<in> set ids \<longrightarrow> cm_status m = UserCouponStatusUsed)"
proof -
  have inv: "coupon_inv d" by (rule coupon_reach_inv [OF assms(1)])
  note un = valid_unused [OF inv assms(3)]
  have com: "cd_coupons (snd (handler_CommitCoupon True t1 o' (locked_for o' ids d)))
      = update_where (\<lambda>m. cm_id m \<in> set ids) (\<lambda>m. m\<lparr>cm_status := UserCouponStatusUsed, cm_order := Some o', cm_used := Some t1\<rparr>) (cd_coupons d)"
    using assms(2) un assms(4)
    by (auto simp: handler_CommitCoupon_def CommitCoupon_Execute_def UpdateStatusByOrderID_def locked_for_def update_where_map
        status_updates_def comp_def)
  have ref: "cd_coupons (snd (handler_RefundCoupon True t2 o' (snd (handler_CommitCoupon True t1 o' (locked_for o' ids d))))) = cd_coupons d"
    using assms(2) un assms(4)
    by (auto simp: handler_RefundCoupon_def RefundCoupon_Execute_def UpdateStatusByOrderID_def com update_where_map
        status_updates_def comp_def intro!: map_idI)
  have "snd (handler_ReleaseCoupon True t1 o' (locked_for o' ids d)) = d"
    by (rule release_restores [OF inv assms(2-4)])
  moreover have "snd (handler_RefundCoupon True t2 o' (snd (handler_CommitCoupon True t1 o' (locked_for o' ids d)))) = d"
    using ref assms(2) by (simp add: handler_RefundCoupon_def RefundCoupon_Execute_def handler_CommitCoupon_def
        CommitCoupon_Execute_def UpdateStatusByOrderID_def locked_for_def)
  ultimately show ?thesis unfolding com by (auto simp: update_where_set)
qed

lemma coupon_reserve_roundtrip_witness:
  "snd (handler_ReleaseCoupon True 2001 55 (locked_for 55 [1] coupons1)) = coupons1"
proof -
  have "all_valid 7 2000 [1] coupons1" "\<forall>m \<in> set (cd_coupons coupons1). cm_order m \<noteq> Some 55" by code_simp+
  then show ?thesis using coupon_reserve_roundtrip [OF coupons1_reach, of 55 7 2000 "[1]"] by simp
qed

text \<open>The order of the events decides whether a coupon comes back: for the coupons an order has locked,
  the paid event followed by the refunded one frees them, but the refunded event delivered first finds
  nothing to do, and the paid event after it leaves them used, although the order was refunded; no later
  release or expiry of the order changes that.\<close>

theorem coupon_events_order:
  assumes "0 < o'" "m \<in> set (cd_coupons d)" "cm_status m = UserCouponStatusLocked" "cm_order m = Some o'"
    and "ev_order paid = o'" "ev_status paid = OrderStatusPaid" "ev_order refund = o'" "ev_status refund = OrderStatusRefunded"
    and "ev_order cancel = o'" "ev_status cancel = OrderStatusCanceled"
  shows "m\<lparr>cm_status := UserCouponStatusUnused, cm_order := None, cm_used := None\<rparr>
       \<in> set (cd_coupons (snd (coupon_Consume True t2 refund (snd (coupon_Consume True t1 paid d)))))
     \<and> m\<lparr>cm_status := UserCouponStatusUsed, cm_used := Some t1\<rparr>
       \<in> set (cd_coupons (snd (ExpireCouponJob_Run True t4 (snd (coupon_Consume True t3 cancel
            (snd (coupon_Consume True t1 paid (snd (coupon_Consume True t2 refund d)))))))))"
proof -
  define C where "C st t d = snd (UpdateStatusByOrderID True t o' (fst st) (snd st) d)" for st :: "CouponStatus \<times> CouponStatus" and t d
  have step: "(if cm_order m = Some o' \<and> cm_status m = fst st then status_updates t (snd st) m else m) \<in> set (cd_coupons (C st t d))"
    if "m \<in> set (cd_coupons d)" for m st t d
    using that unfolding C_def UpdateStatusByOrderID_def by (auto simp: update_where_set)
  have ev: "snd (coupon_Consume True t paid d) = C (UserCouponStatusLocked, UserCouponStatusUsed) t d"
    "snd (coupon_Consume True t refund d) = C (UserCouponStatusUsed, UserCouponStatusUnused) t d"
    "snd (coupon_Consume True t cancel d) = C (UserCouponStatusLocked, UserCouponStatusUnused) t d" for t d
    using assms(1,5-10) by (simp_all add: C_def coupon_Consume_def CommitCoupon_Execute_def RefundCoupon_Execute_def ReleaseCoupon_Execute_def)
  let ?u = "m\<lparr>cm_status := UserCouponStatusUsed, cm_used := Some t1\<rparr>"
  have "?u \<in> set (cd_coupons (C (UserCouponStatusLocked, UserCouponStatusUsed) t1 d))"
    using step [OF assms(2), of "(UserCouponStatusLocked, UserCouponStatusUsed)" t1] assms(3,4) by (simp add: status_updates_def)
  from step [OF this, of "(UserCouponStatusUsed, UserCouponStatusUnused)" t2]
  have 1: "m\<lparr>cm_status := UserCouponStatusUnused, cm_order := None, cm_used := None\<rparr>
       \<in> set (cd_coupons (snd (coupon_Consume True t2 refund (snd (coupon_Consume True t1 paid d)))))"
    using assms(4) by (simp add: status_updates_def ev)
  let ?d1 = "C (UserCouponStatusUsed, UserCouponStatusUnused) t2 d"
  have "m \<in> set (cd_coupons ?d1)" using step [OF assms(2), of "(UserCouponStatusUsed, UserCouponStatusUnused)" t2] assms(3) by simp
  from step [OF this, of "(UserCouponStatusLocked, UserCouponStatusUsed)" t1]
  have "?u \<in> set (cd_coupons (C (UserCouponStatusLocked, UserCouponStatusUsed) t1 ?d1))"
    using assms(3,4) by (simp add: status_updates_def)
  from step [OF this, of "(UserCouponStatusLocked, UserCouponStatusUnused)" t3]
  have "?u \<in> set (cd_coupons (C (UserCouponStatusLocked, UserCouponStatusUnused) t3 (C (UserCouponStatusLocked, UserCouponStatusUsed) t1 ?d1)))"
    by simp
  then have "?u \<in> set (cd_coupons (snd (ExpireCouponJob_Run True t4
      (C (UserCouponStatusLocked, UserCouponStatusUnused) t3 (C (UserCouponStatusLocked, UserCouponStatusUsed) t1 ?d1)))))"
    by (force simp: ExpireCouponJob_Run_def MarkExpiredCoupons_def update_where_set Let_def)
  then show ?thesis using 1 ev by simp
qed

definition order_event :: "order_status \<Rightarrow> OrderStatusUpdateEvent" where
  "order_event st = \<lparr>ev_order = 55, ev_user = 7, ev_status = st, ev_kind = ''CART'', ev_products = [], ev_skus = []\<rparr>"

lemma coupon_events_order_witness:
  "coupon1\<lparr>cm_order := Some 55, cm_status := UserCouponStatusUsed, cm_used := Some 3000\<rparr>
     \<in> set (cd_coupons (snd (ExpireCouponJob_Run True 700000 (snd (coupon_Consume True 4000 (order_event OrderStatusCanceled)
          (snd (coupon_Consume True 3000 (order_event OrderStatusPaid) (snd (coupon_Consume True 2500 (order_event OrderStatusRefunded)
            (snd (handler_ReserveCoupon True True 2000 7 [1] 55 coupons1)))))))))))"
proof -
  let ?d = "snd (handler_ReserveCoupon True True 2000 7 [1] 55 coupons1)"
  let ?m = "coupon1\<lparr>cm_status := UserCouponStatusLocked, cm_order := Some 55\<rparr>"
  have "cd_coupons ?d = [?m]" by code_simp
  then have m: "?m \<in> set (cd_coupons ?d)" by simp
  show ?thesis
    using coupon_events_order [OF _ m, of 55 "order_event OrderStatusPaid" "order_event OrderStatusRefunded"
        "order_event OrderStatusCanceled" 2500 3000 700000 4000] by (simp add: order_event_def)
qed


section \<open>Issuing under retries\<close>

definition can_take :: "int \<Rightarrow> int \<Rightarrow> coupon_db \<Rightarrow> nat \<Rightarrow> bool" where
  "can_take u tid d n \<longleftrightarrow>
     (\<exists>t \<in> set (cd_templates d). tm_id t = tid \<and> tm_status t = 1 \<and> (tm_total t \<le> 0 \<or> tm_issued t < tm_total t)
        \<and> int (held u tid (cd_coupons d) + n) \<le> tm_per_user t)"

definition up_env :: "issue_env \<Rightarrow> bool" where
  "up_env env \<longleftrightarrow> ie_find_op env \<and> ie_template env \<and> ie_count env \<and> ie_issue env \<and> ie_incr env"

lemma issue_runs:
  assumes "coupon_inv d" "0 < u" "0 < tid" "op \<noteq> []" "length op \<le> 64" "find_row co_operation op (cd_ops d) = None"
    "can_take u tid d (Suc n)" "up_env env"
  defines "c \<equiv> \<lambda>t. issued_row (ie_now env) u tid (templateEntityToDomain t) d"
  shows "\<exists>t. let d1 = d\<lparr>cd_coupons := cd_coupons d @ [c t], cd_next := cd_next d + 1\<rparr> in
      IssueCoupon_Execute env u tid op d =
       (if ie_op env
        then (Inr (cd_next d), d1\<lparr>cd_ops := cd_ops d @ [\<lparr>co_operation = op, co_coupon = cd_next d, co_order = None, co_type = ''ISSUE'', co_created = ie_now env\<rparr>],
               cd_templates := update_where (\<lambda>m. tm_id m = tid) (\<lambda>m. m\<lparr>tm_issued := tm_issued m + 1\<rparr>) (cd_templates d)\<rparr>)
        else (Inl CpErrInfra, d1)) \<and> can_take u tid d1 n"
proof -
  obtain t where t: "t \<in> set (cd_templates d)" "tm_id t = tid" "tm_status t = 1" "tm_total t \<le> 0 \<or> tm_issued t < tm_total t"
    "int (held u tid (cd_coupons d) + Suc n) \<le> tm_per_user t" using assms(7) by (auto simp: can_take_def)
  have f: "find_row tm_id tid (cd_templates d) = Some t"
    using assms(1) t(1,2) find_row_unique [of tm_id "cd_templates d" t] by (simp add: coupon_inv_def)
  have ci: "CanIssue (templateEntityToDomain t)" using t(3,4) by (auto simp: CanIssue_def templateEntityToDomain_def Let_def)
  have per: "t_per_user (templateEntityToDomain t) = tm_per_user t" by (simp add: templateEntityToDomain_def Let_def)
  have "in32 (tm_per_user t)" using assms(1) t(1) by (simp add: coupon_inv_def)
  then have cnt: "CountByUserAndTemplate True u tid d = Inr (int (held u tid (cd_coupons d)))"
    unfolding CountByUserAndTemplate_def held_def [symmetric] using t(5) by (auto simp: in32_def intro!: wrap32_id)
  obtain vf vt where v: "CalculateValidTime (ie_now env) (templateEntityToDomain t) = (vf, vt)" by fastforce
  have nop: "op \<notin> co_operation ` set (cd_ops d)" using assms(6) by (simp add: find_row_None_iff)
  let ?d1 = "d\<lparr>cd_coupons := cd_coupons d @ [c t], cd_next := cd_next d + 1\<rparr>"
  have ct: "can_take u tid ?d1 n" unfolding can_take_def
    by (rule bexI [of _ t]) (use t in \<open>simp_all add: held_def c_def issued_row_def\<close>)
  have "IssueCoupon_Execute env u tid op d =
       (if ie_op env
        then (Inr (cd_next d), ?d1\<lparr>cd_ops := cd_ops d @ [\<lparr>co_operation = op, co_coupon = cd_next d, co_order = None, co_type = ''ISSUE'', co_created = ie_now env\<rparr>],
               cd_templates := update_where (\<lambda>m. tm_id m = tid) (\<lambda>m. m\<lparr>tm_issued := tm_issued m + 1\<rparr>) (cd_templates d)\<rparr>)
        else (Inl CpErrInfra, ?d1))"
    using assms(2-5,8) f ci cnt t(5) nop
    by (simp add: IssueCoupon_Execute_def GetByOperationID_def assms(6) template_GetByID_def up_env_def per v Let_def repo_Issue_def
        operation_Create_def IncrIssuedCount_def domainToEntity_def c_def issued_row_def)
  then show ?thesis using ct unfolding Let_def by blast
qed

lemma issue_found:
  "\<lbrakk>0 < u; 0 < tid; op \<noteq> []; find_row co_operation op (cd_ops d) = Some x; ie_find_op env\<rbrakk>
   \<Longrightarrow> handler_IssueCoupon env u tid op d = ((True, co_coupon x), d)"
  by (simp add: handler_IssueCoupon_def IssueCoupon_Execute_def GetByOperationID_def)

text \<open>Issuing is idempotent only from the operation record on: when the record cannot be written after
  the coupon, the caller is told that the issue failed although the coupon exists; the retry under the
  same operation id issues a second one as long as the user may hold two more; and every call after that
  answers with the second coupon and changes nothing.\<close>

theorem issue_retry:
  assumes "coupon_reach d" "0 < u" "0 < tid" "op \<noteq> []" "length op \<le> 64" "find_row co_operation op (cd_ops d) = None"
    "can_take u tid d 2" "up_env env1" "\<not> ie_op env1" "up_env env2" "ie_op env2" "ie_find_op env3"
  defines "d1 \<equiv> snd (handler_IssueCoupon env1 u tid op d)"
  defines "d2 \<equiv> snd (handler_IssueCoupon env2 u tid op d1)"
  shows "fst (handler_IssueCoupon env1 u tid op d) = (False, 0)
     \<and> held u tid (cd_coupons d1) = held u tid (cd_coupons d) + 1
     \<and> fst (handler_IssueCoupon env2 u tid op d1) = (True, cd_next d + 1)
     \<and> held u tid (cd_coupons d2) = held u tid (cd_coupons d) + 2
     \<and> handler_IssueCoupon env3 u tid op d2 = ((True, cd_next d + 1), d2)"
proof -
  have inv: "coupon_inv d" by (rule coupon_reach_inv [OF assms(1)])
  from issue_runs [OF inv assms(2-6), where n = 1 and env = env1] assms(7-9)
  obtain t1 where r1: "IssueCoupon_Execute env1 u tid op d =
      (Inl CpErrInfra, d\<lparr>cd_coupons := cd_coupons d @ [issued_row (ie_now env1) u tid (templateEntityToDomain t1) d], cd_next := cd_next d + 1\<rparr>)"
    and c1: "can_take u tid (d\<lparr>cd_coupons := cd_coupons d @ [issued_row (ie_now env1) u tid (templateEntityToDomain t1) d], cd_next := cd_next d + 1\<rparr>) 1"
    by (auto simp: Let_def numeral_2_eq_2)
  have d1: "d1 = d\<lparr>cd_coupons := cd_coupons d @ [issued_row (ie_now env1) u tid (templateEntityToDomain t1) d], cd_next := cd_next d + 1\<rparr>"
    by (simp add: d1_def handler_IssueCoupon_def r1)
  have inv1: "coupon_inv d1" using Issue_inv [OF inv r1] d1 by simp
  have op1: "find_row co_operation op (cd_ops d1) = None" using assms(6) by (simp add: d1)
  from issue_runs [OF inv1 assms(2-5) op1, where n = 0 and env = env2] assms(10,11) c1
  obtain t2 where r2: "IssueCoupon_Execute env2 u tid op d1 = (Inr (cd_next d1),
      d1\<lparr>cd_coupons := cd_coupons d1 @ [issued_row (ie_now env2) u tid (templateEntityToDomain t2) d1], cd_next := cd_next d1 + 1,
         cd_ops := cd_ops d1 @ [\<lparr>co_operation = op, co_coupon = cd_next d1, co_order = None, co_type = ''ISSUE'', co_created = ie_now env2\<rparr>],
         cd_templates := update_where (\<lambda>m. tm_id m = tid) (\<lambda>m. m\<lparr>tm_issued := tm_issued m + 1\<rparr>) (cd_templates d1)\<rparr>)"
    by (auto simp: Let_def d1)
  have d2: "cd_coupons d2 = cd_coupons d1 @ [issued_row (ie_now env2) u tid (templateEntityToDomain t2) d1]"
    "cd_ops d2 = cd_ops d1 @ [\<lparr>co_operation = op, co_coupon = cd_next d1, co_order = None, co_type = ''ISSUE'', co_created = ie_now env2\<rparr>]"
    by (simp_all add: d2_def handler_IssueCoupon_def r2)
  have h: "held u tid (cd_coupons d1) = held u tid (cd_coupons d) + 1" "held u tid (cd_coupons d2) = held u tid (cd_coupons d1) + 1"
    by (simp_all add: d2(1), simp_all add: d1 held_def issued_row_def)
  have f: "find_row co_operation op (cd_ops d2) = Some \<lparr>co_operation = op, co_coupon = cd_next d1, co_order = None, co_type = ''ISSUE'', co_created = ie_now env2\<rparr>"
    using op1 by (simp add: d2(2) find_row_append)
  show ?thesis using issue_found [OF assms(2-4) f assms(12)] h r1 r2 by (simp add: handler_IssueCoupon_def d1)
qed

lemma issue_retry_witness:
  "fst (handler_IssueCoupon (env_ok\<lparr>ie_op := False\<rparr>) 7 3 ''op-1'' coupons0) = (False, 0)
   \<and> fst (handler_IssueCoupon env_ok 7 3 ''op-1'' (snd (handler_IssueCoupon (env_ok\<lparr>ie_op := False\<rparr>) 7 3 ''op-1'' coupons0))) = (True, 2)"
proof -
  have c: "can_take 7 3 coupons0 2" "find_row co_operation ''op-1'' (cd_ops coupons0) = None" by code_simp+
  show ?thesis
    using issue_retry [OF coupons0_reach _ _ _ _ c(2,1), of "env_ok\<lparr>ie_op := False\<rparr>" env_ok env_ok]
    by (simp add: up_env_def env_ok_def coupons0_def)
qed

section \<open>The bulk statements and the domain methods\<close>

lemma find_updated:
  assumes "distinct (map cm_id rows)" "m \<in> set rows" "\<And>r. cm_id (f r) = cm_id r"
  shows "find_row cm_id (cm_id m) (update_where P f rows) = Some (if P m then f m else m)"
  using assms by (simp add: find_row_update find_row_unique)

text \<open>The bulk \<open>UPDATE\<close> statements agree with the methods of the domain type, row by row: on every coupon
  of an order the release statement does what \<open>Release\<close> does and leaves the row alone where \<open>Release\<close>
  refuses, the commit statement does what \<open>Commit\<close> does and stamps the use time, and reserving one coupon
  does what \<open>Reserve\<close> does.\<close>

theorem coupon_rows_follow_domain:
  assumes "coupon_reach d" "m \<in> set (cd_coupons d)" "o' \<noteq> 0"
  shows "(cm_order m = Some o' \<longrightarrow>
       map_option (entityToDomain d) (find_row cm_id (cm_id m) (cd_coupons (snd (UpdateStatusByOrderID True now o' UserCouponStatusLocked UserCouponStatusUnused d))))
         = Some (case coupon_Release (entityToDomain d m) of Inr c \<Rightarrow> c | Inl _ \<Rightarrow> entityToDomain d m))
     \<and> (cm_order m = Some o' \<longrightarrow>
       map_option (entityToDomain d) (find_row cm_id (cm_id m) (cd_coupons (snd (UpdateStatusByOrderID True now o' UserCouponStatusLocked UserCouponStatusUsed d))))
         = Some (case coupon_Commit (entityToDomain d m) of Inr c \<Rightarrow> c\<lparr>c_used := Some now\<rparr> | Inl _ \<Rightarrow> entityToDomain d m))
     \<and> map_option (entityToDomain d) (find_row cm_id (cm_id m) (cd_coupons (snd (BatchReserve True [cm_id m] o' d))))
         = Some (case coupon_Reserve o' (entityToDomain d m) of Inr c \<Rightarrow> c | Inl _ \<Rightarrow> entityToDomain d m)"
proof -
  have inv: "coupon_inv d" by (rule coupon_reach_inv [OF assms(1)])
  then have dist: "distinct (map cm_id (cd_coupons d))" and shape: "coupon_shape m" using assms(2) by (auto simp: coupon_inv_def)
  have upd: "find_row cm_id (cm_id m) (cd_coupons (snd (UpdateStatusByOrderID True now o' s s' d)))
      = Some (if cm_order m = Some o' \<and> cm_status m = s then status_updates now s' m else m)" for s s'
    using find_updated [OF dist assms(2), of "status_updates now s'"]
    by (cases s') (simp_all add: UpdateStatusByOrderID_def status_updates_def)
  have one: "rows_affected (\<lambda>x. cm_id x \<in> set [cm_id m] \<and> cm_status x = UserCouponStatusUnused) (cd_coupons d) = length [cm_id m]
      \<longleftrightarrow> cm_status m = UserCouponStatusUnused"
    using rows_affected_keys(2) [OF dist, of "[cm_id m]" "\<lambda>x. cm_status x = UserCouponStatusUnused"] assms(2) dist
    by (auto simp: distinct_map inj_on_def)
  have res: "find_row cm_id (cm_id m) (cd_coupons (snd (BatchReserve True [cm_id m] o' d)))
      = Some (if cm_status m = UserCouponStatusUnused then m\<lparr>cm_status := UserCouponStatusLocked, cm_order := Some o'\<rparr> else m)"
  proof (cases "cm_status m = UserCouponStatusUnused")
    case True
    then show ?thesis
      using one find_updated [OF dist assms(2), of "\<lambda>m. m\<lparr>cm_status := UserCouponStatusLocked, cm_order := Some o'\<rparr>"]
      by (simp add: BatchReserve_def BatchReserve_body_def run_tx_def Let_def)
  next
    case False
    then show ?thesis using one find_row_unique [OF dist assms(2)] by (simp add: BatchReserve_def BatchReserve_body_def run_tx_def Let_def)
  qed
  show ?thesis unfolding upd res using shape assms(3)
    by (auto simp: coupon_Release_def coupon_Commit_def coupon_Reserve_def entityToDomain_def status_updates_def opt_int_def coupon_shape_def)
qed

lemma coupon_rows_follow_domain_witness:
  "map_option (entityToDomain coupons1) (find_row cm_id 1 (cd_coupons (snd (BatchReserve True [1] 55 coupons1))))
     = Some ((entityToDomain coupons1 coupon1)\<lparr>c_status := UserCouponStatusLocked, c_order := 55\<rparr>)"
proof -
  have m: "coupon1 \<in> set (cd_coupons coupons1)" by (simp add: coupons1_value)
  show ?thesis using coupon_rows_follow_domain [OF coupons1_reach m, of 55 0]
    by (simp add: coupon1_def coupon_Reserve_def entityToDomain_def)
qed

end
