(* ===== verification/Checkout.thy ===== *)
theory Checkout
  imports OrderUsecase Inventory CouponUsecase
begin

text \<open>
  The checkout service (\<open>internal/checkout\<close>): prices and order lines of \<open>domain/checkout.go\<close> and
  \<open>usecase/adapters.go\<close>, and the use cases that orchestrate the product, inventory, coupon, order and
  payment services.  The clients are a record of functions over a world \<open>'w\<close>; a call that changes state
  returns the new world, and \<open>Inl ()\<close> is a transport error.  Go strings are byte strings.
\<close>

section \<open>Domain\<close>

record CheckoutItem =
  ki_product :: int
  ki_sku :: int
  ki_quantity :: int

record CouponOption =
  op_coupon :: int
  op_name :: string
  op_discount :: int
  op_per_line :: "int \<rightharpoonup> int"
  op_usable :: bool

record CheckoutAddress =
  ka_receiver :: string
  ka_phone :: string
  ka_province :: string
  ka_city :: string
  ka_district :: string
  ka_street :: string
  ka_zipcode :: string

record OrderLine =
  ol_product :: int
  ol_sku :: int
  ol_name :: string
  ol_picture :: string
  ol_price :: int
  ol_currency :: string
  ol_quantity :: int
  ol_subtotal :: int
  ol_available :: bool
  ol_reason :: string

record PriceDetail =
  pr_product :: int
  pr_discount :: int
  pr_total :: int

record UnavailableItem =
  ui_product :: int
  ui_sku :: int
  ui_name :: string
  ui_reason :: string

datatype checkout_error =
    CkErrUser | ErrInvalidInput | CkErrProductID | CkErrSkuID | CkErrQuantity | CkErrAddress | CkErrPaymentMethod
  | CkErrExpected | CkErrSeckill | CkErrOrderKind | CkErrQuotes | CkErrCoupons | UnavailableItemsError "UnavailableItem list"
  | ErrPriceChanged | CkErrCommitRpc | CkErrInsufficientStock string | CkErrCommit string | CkErrReserve
  | CouponUnavailableError "(int \<times> coupon_reason) list" | ErrOrderCreateFailed | CkErrQueryOrder
  | ErrOrderForbidden | ErrOrderNotPayable | ErrOrderExpired | ErrPaymentCreateFailed

definition CalculatePrice :: "OrderLine list \<Rightarrow> int \<Rightarrow> PriceDetail" where
  "CalculatePrice lines couponDiscount =
     (let productAmount = sum64 (map ol_subtotal (filter ol_available lines));
          t = wrap64 (productAmount - couponDiscount)
      in \<lparr>pr_product = productAmount, pr_discount = couponDiscount, pr_total = (if t < 0 then 0 else t)\<rparr>)"

definition ValidatePriceChange :: "int \<Rightarrow> int \<Rightarrow> checkout_error + unit" where
  "ValidatePriceChange expected actual = (if actual > expected then Inl ErrPriceChanged else Inr ())"

section \<open>Adapters\<close>

text \<open>Answers of the product service; a list may hold nil entries, and a later entry of a key wins.\<close>

record ProductQuote =
  qu_product :: int
  qu_sku :: int
  qu_price :: int
  qu_currency :: string
  qu_in_stock :: bool

record ProtoProduct =
  pd_id :: int
  pd_sku :: int
  pd_name :: string
  pd_picture :: string
  pd_price :: int
  pd_currency :: string
  pd_in_stock :: bool

definition last_by_key :: "('q \<Rightarrow> int \<times> int) \<Rightarrow> 'q option list \<Rightarrow> int \<times> int \<Rightarrow> 'q option" where
  "last_by_key key qs k = find (\<lambda>q. key q = k) (rev (List.map_filter id qs))"

definition not_found_line :: "CheckoutItem \<Rightarrow> OrderLine" where
  "not_found_line item =
     \<lparr>ol_product = ki_product item, ol_sku = ki_sku item, ol_name = [], ol_picture = [], ol_price = 0, ol_currency = [],
      ol_quantity = ki_quantity item, ol_subtotal = 0, ol_available = False, ol_reason = ''product not found''\<rparr>"

definition product_line :: "ProtoProduct \<Rightarrow> CheckoutItem \<Rightarrow> OrderLine" where
  "product_line p item =
     \<lparr>ol_product = pd_id p, ol_sku = ki_sku item, ol_name = pd_name p, ol_picture = pd_picture p, ol_price = pd_price p,
      ol_currency = pd_currency p, ol_quantity = ki_quantity item, ol_subtotal = wrap64 (pd_price p * ki_quantity item),
      ol_available = pd_in_stock p, ol_reason = (if pd_in_stock p then [] else ''product out of stock'')\<rparr>"

definition buildOrderLines :: "CheckoutItem list \<Rightarrow> ProtoProduct option list \<Rightarrow> OrderLine list \<times> OrderLine list" where
  "buildOrderLines items protoProducts =
     fold (\<lambda>item (available, unavailable).
             case last_by_key (\<lambda>p. (pd_id p, pd_sku p)) protoProducts (ki_product item, ki_sku item) of
               None \<Rightarrow> (available, unavailable @ [not_found_line item])
             | Some p \<Rightarrow>
                 if \<not> pd_in_stock p then (available, unavailable @ [product_line p item])
                 else (available @ [product_line p item], unavailable))
       items ([], [])"

definition quote_line :: "ProductQuote \<Rightarrow> CheckoutItem \<Rightarrow> OrderLine" where
  "quote_line q item =
     \<lparr>ol_product = qu_product q, ol_sku = qu_sku q, ol_name = [], ol_picture = [], ol_price = qu_price q,
      ol_currency = qu_currency q, ol_quantity = ki_quantity item, ol_subtotal = wrap64 (qu_price q * ki_quantity item),
      ol_available = qu_in_stock q, ol_reason = (if qu_in_stock q then [] else ''product out of stock'')\<rparr>"

definition buildOrderLinesFromQuotes ::
  "CheckoutItem list \<Rightarrow> ProductQuote option list \<Rightarrow> OrderLine list \<times> OrderLine list" where
  "buildOrderLinesFromQuotes items protoQuotes =
     fold (\<lambda>item (available, unavailable).
             case last_by_key (\<lambda>q. (qu_product q, qu_sku q)) protoQuotes (ki_product item, ki_sku item) of
               None \<Rightarrow> (available, unavailable @ [not_found_line item])
             | Some q \<Rightarrow>
                 if \<not> qu_in_stock q then (available, unavailable @ [quote_line q item])
                 else (available @ [quote_line q item], unavailable))
       items ([], [])"

definition toCouponOrderItems :: "OrderLine list \<Rightarrow> ProtoCouponItem list" where
  "toCouponOrderItems lines =
     map (\<lambda>l. \<lparr>pi_product = ol_product l, pi_category = 0, pi_price = ol_price l, pi_quantity = wrap32 (ol_quantity l)\<rparr>)
       (filter ol_available lines)"

definition calculateCouponDiscount :: "ProtoTemplate \<Rightarrow> int \<Rightarrow> int" where
  "calculateCouponDiscount tmpl productTotal =
     (case pt_type tmpl of
        CouponTypeAmount \<Rightarrow> if productTotal \<ge> pt_threshold tmpl then pt_discount tmpl else 0
      | CouponTypeFixed \<Rightarrow> pt_discount tmpl
      | CouponTypePercent \<Rightarrow>
          (let discount = go_div (wrap64 (productTotal * wrap64 (100 - pt_discount tmpl))) 100
           in if pt_max_discount tmpl > 0 \<and> discount > pt_max_discount tmpl then pt_max_discount tmpl else discount)
      | CouponTypeUnspecified \<Rightarrow> 0)"

text \<open>One line of the allocation loop: the map, the sum allocated, and the largest subtotal with its product.\<close>

definition allocate_line ::
  "int \<Rightarrow> int \<Rightarrow> OrderLine \<Rightarrow> (int \<rightharpoonup> int) \<times> int \<times> int \<times> int \<Rightarrow> (int \<rightharpoonup> int) \<times> int \<times> int \<times> int" where
  "allocate_line totalDiscount productTotal l st =
     (case st of (result, allocated, maxSubtotal, maxProductID) \<Rightarrow>
        if \<not> ol_available l then st
        else
          (let lineDiscount = wrap64 (go_div (wrap64 (totalDiscount * ol_subtotal l)) productTotal)
           in (result(ol_product l \<mapsto> lineDiscount), wrap64 (allocated + lineDiscount),
               (if ol_subtotal l > maxSubtotal then ol_subtotal l else maxSubtotal),
               (if ol_subtotal l > maxSubtotal then ol_product l else maxProductID))))"

definition allocateDiscountToLines :: "OrderLine list \<Rightarrow> int \<Rightarrow> int \<Rightarrow> (int \<rightharpoonup> int)" where
  "allocateDiscountToLines lines totalDiscount productTotal =
     (if totalDiscount = 0 \<or> productTotal = 0 then Map.empty
      else
        (case fold (allocate_line totalDiscount productTotal) lines (Map.empty, 0, - 1, 0) of
           (result, allocated, _, maxProductID) \<Rightarrow>
             (let remainder = wrap64 (totalDiscount - allocated)
              in if remainder > 0 \<and> maxProductID \<noteq> 0
                 then result(maxProductID \<mapsto> wrap64 (opt_int (result maxProductID) + remainder))
                 else result)))"

definition toCouponOptions :: "ProtoCoupon list \<Rightarrow> OrderLine list \<Rightarrow> CouponOption list" where
  "toCouponOptions coupons lines =
     (let productTotal = sum64 (map ol_subtotal (filter ol_available lines))
      in map (\<lambda>c. case pc_template c of
                    None \<Rightarrow> \<lparr>op_coupon = pc_id c, op_name = [], op_discount = 0, op_per_line = Map.empty, op_usable = True\<rparr>
                  | Some t \<Rightarrow>
                      (let totalDiscount = calculateCouponDiscount t productTotal
                       in \<lparr>op_coupon = pc_id c, op_name = pt_name t, op_discount = totalDiscount,
                           op_per_line = allocateDiscountToLines lines totalDiscount productTotal, op_usable = True\<rparr>))
           coupons)"

text \<open>Quantities are truncated to \<open>int32\<close>, and the lines of one product are added up.\<close>

definition add_stock_item :: "CheckoutItem \<Rightarrow> StockChange list \<Rightarrow> StockChange list" where
  "add_stock_item item result =
     (if ki_product item \<in> sc_product ` set result
      then map (\<lambda>s. if sc_product s = ki_product item then s\<lparr>sc_quantity := wrap32 (sc_quantity s + wrap32 (ki_quantity item))\<rparr> else s) result
      else result @ [\<lparr>sc_product = ki_product item, sc_quantity = wrap32 (ki_quantity item)\<rparr>])"

definition toInventoryStockItems :: "CheckoutItem list \<Rightarrow> StockChange list" where
  "toInventoryStockItems items = fold add_stock_item items []"

definition toOrderAddress :: "CheckoutAddress \<Rightarrow> Address" where
  "toOrderAddress addr =
     \<lparr>ad_street = ka_street addr, ad_city = ka_city addr, ad_state = ka_province addr, ad_country = [],
      ad_zipcode = ka_zipcode addr, ad_phone = ka_phone addr\<rparr>"

definition toOrderItems :: "OrderLine list \<Rightarrow> string \<Rightarrow> OrderItem list" where
  "toOrderItems lines currency =
     map (\<lambda>l. \<lparr>it_product = ol_product l, it_sku = ol_sku l, it_quantity = ol_quantity l, it_snapshot_price = ol_price l,
               it_snapshot_currency = (if ol_currency l = [] then currency else ol_currency l), it_price = ol_price l\<rparr>)
       (filter ol_available lines)"

definition extractProductQueries :: "CheckoutItem list \<Rightarrow> (int \<times> int) list" where
  "extractProductQueries items = map (\<lambda>i. (ki_product i, ki_sku i)) items"

fun validateCheckoutItems :: "CheckoutItem list \<Rightarrow> checkout_error + unit" where
  "validateCheckoutItems [] = Inr ()"
| "validateCheckoutItems (item # items) =
     (if ki_product item \<le> 0 then Inl CkErrProductID
      else if ki_sku item \<le> 0 then Inl CkErrSkuID
      else if ki_quantity item \<le> 0 then Inl CkErrQuantity
      else validateCheckoutItems items)"

definition sumSelectedCouponDiscount :: "CouponOption list \<Rightarrow> int list \<Rightarrow> int" where
  "sumSelectedCouponDiscount coupons selectedIDs =
     sum64 (map op_discount (filter (\<lambda>c. op_coupon c \<in> set selectedIDs \<and> op_usable c) coupons))"

definition operationID :: "int \<Rightarrow> string \<Rightarrow> string" where
  "operationID orderID action = ''order_'' @ format_int orderID @ ''_'' @ action"

section \<open>Clients\<close>

record 'w checkout_clients =
  cl_products :: "(int \<times> int) list \<Rightarrow> 'w \<Rightarrow> unit + ProtoProduct option list"
  cl_quotes :: "(int \<times> int) list \<Rightarrow> 'w \<Rightarrow> unit + ProductQuote option list"
  cl_coupons :: "int \<Rightarrow> ProtoCouponItem list \<Rightarrow> 'w \<Rightarrow> unit + ProtoCoupon list"
  cl_commit_stock :: "string \<Rightarrow> StockChange list \<Rightarrow> 'w \<Rightarrow> (unit + (int \<times> string) option) \<times> 'w"
  cl_refund_stock :: "string \<Rightarrow> 'w \<Rightarrow> (unit + (int \<times> string) option) \<times> 'w"
  cl_reserve :: "int \<Rightarrow> int list \<Rightarrow> int \<Rightarrow> ProtoCouponItem list \<Rightarrow> 'w \<Rightarrow> (unit + bool \<times> (int \<times> coupon_reason) list) \<times> 'w"
  cl_release :: "int \<Rightarrow> 'w \<Rightarrow> (unit + bool) \<times> 'w"
  cl_create :: "CreateOrderReq \<Rightarrow> 'w \<Rightarrow> (unit + int) \<times> 'w"
  cl_get_order :: "int \<Rightarrow> 'w \<Rightarrow> unit + ProtoOrder option"
  cl_change :: "int \<Rightarrow> order_action \<Rightarrow> 'w \<Rightarrow> (unit + bool) \<times> 'w"
  cl_prepay :: "Amount \<Rightarrow> string \<Rightarrow> string \<Rightarrow> 'w \<Rightarrow> (unit + string) \<times> 'w"

section \<open>Placing an order\<close>

record PlaceOrderInput =
  pl_user :: int
  pl_items :: "CheckoutItem list"
  pl_coupons :: "int list"
  pl_address :: CheckoutAddress
  pl_method :: string
  pl_currency :: string
  pl_kind :: string
  pl_remark :: string
  pl_expected :: int

record PlaceOrderOutput =
  pu_order :: int
  pu_url :: string
  pu_total :: int

definition place_validate :: "PlaceOrderInput \<Rightarrow> checkout_error + unit" where
  "place_validate input =
     (if pl_user input \<le> 0 then Inl CkErrUser
      else if pl_items input = [] then Inl ErrInvalidInput
      else
        (case validateCheckoutItems (pl_items input) of
           Inl e \<Rightarrow> Inl e
         | Inr _ \<Rightarrow>
             if ka_receiver (pl_address input) = [] \<or> ka_phone (pl_address input) = [] then Inl CkErrAddress
             else if pl_method input = [] then Inl CkErrPaymentMethod
             else if pl_expected input \<le> 0 then Inl CkErrExpected
             else Inr ()))"

definition restoreCommittedStock :: "'w checkout_clients \<Rightarrow> int \<Rightarrow> 'w \<Rightarrow> 'w" where
  "restoreCommittedStock cl orderID w = snd (cl_refund_stock cl (operationID orderID ''refund'') w)"

definition releaseReservedCoupons :: "'w checkout_clients \<Rightarrow> int \<Rightarrow> 'w \<Rightarrow> 'w" where
  "releaseReservedCoupons cl orderID w = snd (cl_release cl orderID w)"

definition checkout_normalizeOrderKind :: "string \<Rightarrow> checkout_error + string" where
  "checkout_normalizeOrderKind k =
     (let n = to_upper (trim_space k)
      in if n = [] \<or> n = ''DIRECT_BUY'' then Inr ''DIRECT_BUY''
         else if n = ''CART'' then Inr ''CART''
         else if n = ''SECKILL'' then Inl CkErrSeckill
         else Inl CkErrOrderKind)"

definition str_contains :: "string \<Rightarrow> string \<Rightarrow> bool" where
  "str_contains sub s \<longleftrightarrow> list_ex (\<lambda>n. take (length sub) (drop n s) = sub) [0..<Suc (length s)]"

text \<open>The bytes of the message of the inventory service's \<open>ErrInsufficientStock\<close>.\<close>

definition insufficient_text :: string where
  "insufficient_text = [CHR 0xE5, CHR 0xBA, CHR 0x93, CHR 0xE5, CHR 0xAD, CHR 0x98, CHR 0xE4, CHR 0xB8, CHR 0x8D, CHR 0xE8, CHR 0xB6, CHR 0xB3]"

definition isInsufficientStockMessage :: "string \<Rightarrow> bool" where
  "isInsufficientStockMessage msg \<longleftrightarrow>
     str_contains ''insufficient stock'' (map lower_char (trim_space msg)) \<or> str_contains insufficient_text msg"

definition classifyCommitStockResult :: "(unit + (int \<times> string) option) \<Rightarrow> checkout_error + unit" where
  "classifyCommitStockResult r =
     (case r of
        Inl _ \<Rightarrow> Inl CkErrCommitRpc
      | Inr None \<Rightarrow> Inr ()
      | Inr (Some (code, m)) \<Rightarrow>
          if code = 0 then Inr ()
          else
            (let msg = trim_space m
             in if isInsufficientStockMessage msg then Inl (CkErrInsufficientStock msg)
                else Inl (CkErrCommit (if msg = [] then ''unknown inventory failure'' else msg))))"

text \<open>Up to the first call that changes anything: the lines and the price of the order.\<close>

definition place_quote :: "'w checkout_clients \<Rightarrow> PlaceOrderInput \<Rightarrow> 'w \<Rightarrow> checkout_error + (OrderLine list \<times> PriceDetail)" where
  "place_quote cl input w =
     (case cl_quotes cl (extractProductQueries (pl_items input)) w of
        Inl _ \<Rightarrow> Inl CkErrQuotes
      | Inr quotes \<Rightarrow>
          (case buildOrderLinesFromQuotes (pl_items input) quotes of (lines, unavailable) \<Rightarrow>
             if unavailable \<noteq> []
             then Inl (UnavailableItemsError (map (\<lambda>l. \<lparr>ui_product = ol_product l, ui_sku = ol_sku l, ui_name = ol_name l, ui_reason = ol_reason l\<rparr>) unavailable))
             else
               (case (if pl_coupons input = [] then Inr 0
                      else case cl_coupons cl (pl_user input) (toCouponOrderItems lines) w of
                             Inl _ \<Rightarrow> Inl CkErrCoupons
                           | Inr coupons \<Rightarrow> Inr (sumSelectedCouponDiscount (toCouponOptions coupons lines) (pl_coupons input))) of
                  Inl e \<Rightarrow> Inl e
                | Inr couponDiscount \<Rightarrow>
                    (let price = CalculatePrice lines couponDiscount
                     in case ValidatePriceChange (pl_expected input) (pr_total price) of
                          Inl e \<Rightarrow> Inl e
                        | Inr _ \<Rightarrow> Inr (lines, price)))))"

definition place_reserve ::
  "'w checkout_clients \<Rightarrow> PlaceOrderInput \<Rightarrow> int \<Rightarrow> OrderLine list \<Rightarrow> 'w \<Rightarrow> (checkout_error + unit) \<times> 'w" where
  "place_reserve cl input orderID lines w =
     (if pl_coupons input = [] then (Inr (), w)
      else
        (case cl_reserve cl (pl_user input) (pl_coupons input) orderID (toCouponOrderItems lines) w of
           (Inl _, w1) \<Rightarrow> (Inl CkErrReserve, releaseReservedCoupons cl orderID (restoreCommittedStock cl orderID w1))
         | (Inr (success, failures), w1) \<Rightarrow>
             if \<not> success then (Inl (CouponUnavailableError failures), restoreCommittedStock cl orderID w1)
             else (Inr (), w1)))"

definition place_order_req :: "PlaceOrderInput \<Rightarrow> string \<Rightarrow> int \<Rightarrow> OrderLine list \<Rightarrow> PriceDetail \<Rightarrow> CreateOrderReq" where
  "place_order_req input orderKind orderID lines price =
     \<lparr>rq_order = orderID, rq_user = pl_user input, rq_currency = pl_currency input, rq_remark = pl_remark input,
      rq_address = Some (toOrderAddress (pl_address input)), rq_kind = orderKind, rq_activity = 0,
      rq_payable = pr_total price, rq_items = toOrderItems lines (pl_currency input)\<rparr>"

definition place_create ::
  "'w checkout_clients \<Rightarrow> PlaceOrderInput \<Rightarrow> string \<Rightarrow> int \<Rightarrow> OrderLine list \<Rightarrow> PriceDetail \<Rightarrow> 'w
   \<Rightarrow> (checkout_error + PlaceOrderOutput) \<times> 'w" where
  "place_create cl input orderKind orderID lines price w =
     (case cl_create cl (place_order_req input orderKind orderID lines price) w of
        (Inl _, w1) \<Rightarrow> (Inl ErrOrderCreateFailed, releaseReservedCoupons cl orderID (restoreCommittedStock cl orderID w1))
      | (Inr _, w1) \<Rightarrow>
          (case cl_prepay cl \<lparr>am_currency = pl_currency input, am_total = pr_total price\<rparr> (format_int orderID)
                  (''order '' @ format_int orderID) w1 of
             (Inl _, w2) \<Rightarrow> (Inr \<lparr>pu_order = orderID, pu_url = [], pu_total = pr_total price\<rparr>, w2)
           | (Inr url, w2) \<Rightarrow> (Inr \<lparr>pu_order = orderID, pu_url = url, pu_total = pr_total price\<rparr>, w2)))"

definition PlaceOrder_Execute ::
  "'w checkout_clients \<Rightarrow> int \<Rightarrow> PlaceOrderInput \<Rightarrow> 'w \<Rightarrow> (checkout_error + PlaceOrderOutput) \<times> 'w" where
  "PlaceOrder_Execute cl orderID input w =
     (case place_validate input of
        Inl e \<Rightarrow> (Inl e, w)
      | Inr _ \<Rightarrow>
          (case checkout_normalizeOrderKind (pl_kind input) of
             Inl e \<Rightarrow> (Inl e, w)
           | Inr orderKind \<Rightarrow>
               (case place_quote cl input w of
                  Inl e \<Rightarrow> (Inl e, w)
                | Inr (lines, price) \<Rightarrow>
                    (case cl_commit_stock cl (operationID orderID ''commit'') (toInventoryStockItems (pl_items input)) w of
                       (r, w1) \<Rightarrow>
                         (case classifyCommitStockResult r of
                            Inl e \<Rightarrow> (Inl e, w1)
                          | Inr _ \<Rightarrow>
                              (case place_reserve cl input orderID lines w1 of
                                 (Inl e, w2) \<Rightarrow> (Inl e, w2)
                               | (Inr _, w2) \<Rightarrow> place_create cl input orderKind orderID lines price w2))))))"

section \<open>Paying and previewing\<close>

record PayOrderOutput =
  py_order :: int
  py_url :: string
  py_total :: int
  py_expire :: int

definition PayOrder_Execute ::
  "'w checkout_clients \<Rightarrow> int \<Rightarrow> int \<Rightarrow> int \<Rightarrow> 'w \<Rightarrow> (checkout_error + PayOrderOutput) \<times> 'w" where
  "PayOrder_Execute cl now userID orderID w =
     (if userID \<le> 0 \<or> orderID \<le> 0 then (Inl ErrInvalidInput, w)
      else
        (case cl_get_order cl orderID w of
           Inl _ \<Rightarrow> (Inl CkErrQueryOrder, w)
         | Inr None \<Rightarrow> (Inl ErrOrderCreateFailed, w)
         | Inr (Some ord) \<Rightarrow>
             if po_user ord \<noteq> userID then (Inl ErrOrderForbidden, w)
             else if po_status ord \<noteq> OrderStatusCreated then (Inl ErrOrderNotPayable, w)
             else if po_expire_at ord > 0 \<and> po_expire_at ord \<le> now
               then (Inl ErrOrderExpired, snd (cl_change cl orderID OrderActionCancel w))
             else
               (case cl_prepay cl \<lparr>am_currency = po_currency ord, am_total = po_total_amount ord\<rparr> (format_int orderID)
                       (''order '' @ format_int orderID @ '' payment'') w of
                  (Inl _, w') \<Rightarrow> (Inl ErrPaymentCreateFailed, w')
                | (Inr url, w') \<Rightarrow>
                    (Inr \<lparr>py_order = orderID, py_url = url, py_total = po_total_amount ord, py_expire = po_expire_at ord\<rparr>, w'))))"

definition PreviewOrder_Execute ::
  "'w checkout_clients \<Rightarrow> int \<Rightarrow> CheckoutItem list \<Rightarrow> 'w \<Rightarrow> checkout_error + (OrderLine list \<times> CouponOption list)" where
  "PreviewOrder_Execute cl userID items w =
     (if userID \<le> 0 then Inl CkErrUser
      else if items = [] then Inl ErrInvalidInput
      else
        (case validateCheckoutItems items of
           Inl e \<Rightarrow> Inl e
         | Inr _ \<Rightarrow>
             (case cl_products cl (extractProductQueries items) w of
                Inl _ \<Rightarrow> Inl CkErrQuotes
              | Inr products \<Rightarrow>
                  (case buildOrderLines items products of (available, unavailable) \<Rightarrow>
                     (case cl_coupons cl userID (toCouponOrderItems available) w of
                        Inl _ \<Rightarrow> Inl CkErrCoupons
                      | Inr coupons \<Rightarrow> Inr (available @ unavailable, toCouponOptions coupons available))))))"

section \<open>gRPC handler\<close>

text \<open>Requests carry pointers: a nil item reads as zeros, and a nil address as an empty one.\<close>

definition toCheckoutItems :: "CheckoutItem option list \<Rightarrow> CheckoutItem list" where
  "toCheckoutItems items =
     map (\<lambda>it. case it of None \<Rightarrow> \<lparr>ki_product = 0, ki_sku = 0, ki_quantity = 0\<rparr> | Some i \<Rightarrow> i) items"

definition toAddress :: "CheckoutAddress option \<Rightarrow> CheckoutAddress" where
  "toAddress a =
     (case a of
        None \<Rightarrow> \<lparr>ka_receiver = [], ka_phone = [], ka_province = [], ka_city = [], ka_district = [], ka_street = [], ka_zipcode = []\<rparr>
      | Some x \<Rightarrow> x)"

definition handler_PreviewOrder ::
  "'w checkout_clients \<Rightarrow> int \<Rightarrow> CheckoutItem option list \<Rightarrow> 'w \<Rightarrow> checkout_error + (OrderLine list \<times> CouponOption list)" where
  "handler_PreviewOrder cl userID items w = PreviewOrder_Execute cl userID (toCheckoutItems items) w"

record PlaceOrderReq =
  qr_user :: int
  qr_items :: "CheckoutItem option list"
  qr_coupons :: "int list"
  qr_address :: "CheckoutAddress option"
  qr_method :: string
  qr_currency :: string
  qr_kind :: string
  qr_remark :: string
  qr_expected :: int

definition handler_PlaceOrder ::
  "'w checkout_clients \<Rightarrow> int \<Rightarrow> int \<Rightarrow> PlaceOrderReq \<Rightarrow> 'w \<Rightarrow> (checkout_error + (PlaceOrderOutput \<times> int)) \<times> 'w" where
  "handler_PlaceOrder cl now orderID req w =
     (case PlaceOrder_Execute cl orderID
             \<lparr>pl_user = qr_user req, pl_items = toCheckoutItems (qr_items req), pl_coupons = qr_coupons req,
              pl_address = toAddress (qr_address req), pl_method = qr_method req, pl_currency = qr_currency req,
              pl_kind = qr_kind req, pl_remark = qr_remark req, pl_expected = qr_expected req\<rparr> w of
        (Inl e, w') \<Rightarrow> (Inl e, w')
      | (Inr out, w') \<Rightarrow> (Inr (out, now + 30 * 60), w'))"

definition handler_PayOrder ::
  "'w checkout_clients \<Rightarrow> int \<Rightarrow> int \<Rightarrow> int \<Rightarrow> 'w \<Rightarrow> (checkout_error + PayOrderOutput) \<times> 'w" where
  "handler_PayOrder cl now userID orderID w = PayOrder_Execute cl now userID orderID w"

end
