(* ===== verification/CheckoutPrice.thy ===== *)
theory CheckoutPrice
  imports Checkout
begin

text \<open>
  Prices at checkout: sums without overflow, the allocation of a coupon's discount to the lines of an
  order, and what the truncation of quantities does to a reservation.
\<close>

section \<open>Sums\<close>

lemma sum64_shift:
  assumes "\<forall>x \<in> set xs. 0 \<le> x" "0 \<le> a" "a + sum_list xs < 2 ^ 63"
  shows "fold (\<lambda>x total. wrap64 (total + x)) xs a = a + sum_list xs"
  using assms
proof (induction xs arbitrary: a)
  case (Cons x xs)
  have n: "0 \<le> sum_list xs" using Cons.prems(1) by (intro sum_list_nonneg) auto
  have "wrap64 (a + x) = a + x"
    by (rule wrap64_id) (use Cons.prems n in \<open>auto simp: in64_def\<close>)
  then show ?case using Cons.IH [of "a + x"] Cons.prems by (simp add: add.assoc)
qed simp

lemma sum64_exact: "\<lbrakk>\<forall>x \<in> set xs. 0 \<le> x; sum_list xs < 2 ^ 63\<rbrakk> \<Longrightarrow> sum64 xs = sum_list xs"
  using sum64_shift [of xs 0] by (simp add: sum64_def)

section \<open>Allocating a discount\<close>

text \<open>Lines as the use cases pass them: all available, subtotals not negative, and the products \<open>D * s\<close> of
  the loop within 64 bits.\<close>

definition allocatable :: "OrderLine list \<Rightarrow> int \<Rightarrow> int \<Rightarrow> bool" where
  "allocatable lines D T \<longleftrightarrow> 0 < D \<and> 0 < T \<and> T = sum_list (map ol_subtotal lines) \<and> D < 2 ^ 63
     \<and> (\<forall>l \<in> set lines. ol_available l \<and> 0 \<le> ol_subtotal l \<and> D * ol_subtotal l < 2 ^ 63 \<and> ol_product l \<noteq> 0)"

definition share :: "int \<Rightarrow> int \<Rightarrow> OrderLine \<Rightarrow> int" where
  "share D T l = D * ol_subtotal l div T"

lemma share_bounds:
  assumes "allocatable lines D T" "l \<in> set lines"
  shows "0 \<le> share D T l" "share D T l * T \<le> D * ol_subtotal l"
    "wrap64 (go_div (wrap64 (D * ol_subtotal l)) T) = share D T l"
proof -
  have a: "0 < D" "0 < T" "0 \<le> ol_subtotal l" "D * ol_subtotal l < 2 ^ 63" using assms by (auto simp: allocatable_def)
  have p: "0 \<le> D * ol_subtotal l" using a by simp
  show s: "0 \<le> share D T l" using a p by (simp add: share_def pos_imp_zdiv_nonneg_iff)
  show m: "share D T l * T \<le> D * ol_subtotal l" using a(2) div_mult_mod_eq [of "D * ol_subtotal l" T] pos_mod_sign [of T "D * ol_subtotal l"]
    unfolding share_def by linarith
  have "share D T l \<le> share D T l * T" using s a(2) mult_left_mono [of 1 T "share D T l"] by simp
  then have "in64 (share D T l)" using s m a(4) by (simp add: in64_def)
  moreover have "wrap64 (D * ol_subtotal l) = D * ol_subtotal l" using p a(4) by (intro wrap64_id) (simp add: in64_def)
  ultimately show "wrap64 (go_div (wrap64 (D * ol_subtotal l)) T) = share D T l"
    using p a(2) by (simp add: go_div_nonneg share_def [symmetric] wrap64_id)
qed

lemma shares_le:
  assumes "allocatable lines D T" "set ls \<subseteq> set lines"
  shows "sum_list (map (share D T) ls) * T \<le> D * sum_list (map ol_subtotal ls)" "0 \<le> sum_list (map (share D T) ls)"
  using assms(2) share_bounds [OF assms(1)] by (induction ls) (auto simp: distrib_left distrib_right add_mono)


lemma shares_gap:
  assumes "allocatable lines D T" "set ls \<subseteq> set lines" "ls \<noteq> []"
  shows "D * sum_list (map ol_subtotal ls) < sum_list (map (share D T) ls) * T + int (length ls) * T"
  using assms(3,2)
proof (induction ls rule: list_nonempty_induct)
  case (single l)
  have "0 < T" using assms(1) by (simp add: allocatable_def)
  then have "D * ol_subtotal l < share D T l * T + T"
    using div_mult_mod_eq [of "D * ol_subtotal l" T] pos_mod_bound [of T "D * ol_subtotal l"] unfolding share_def by linarith
  then show ?case by simp
next
  case (cons l ls)
  have "0 < T" using assms(1) by (simp add: allocatable_def)
  then have "D * ol_subtotal l < share D T l * T + T"
    using div_mult_mod_eq [of "D * ol_subtotal l" T] pos_mod_bound [of T "D * ol_subtotal l"] unfolding share_def by linarith
  then show ?case using cons.IH cons.prems by (simp add: distrib_left distrib_right)
qed

lemma shares_total:
  assumes "allocatable lines D T" "lines = ls @ rest"
  shows "sum_list (map (share D T) ls) \<le> D"
proof -
  have "0 \<le> sum_list (map ol_subtotal rest)" using assms by (intro sum_list_nonneg) (auto simp: allocatable_def)
  then have "sum_list (map ol_subtotal ls) \<le> T" using assms by (simp add: allocatable_def)
  then have "D * sum_list (map ol_subtotal ls) \<le> D * T" using assms(1) by (intro mult_left_mono) (auto simp: allocatable_def)
  then have "sum_list (map (share D T) ls) * T \<le> D * T" using shares_le(1) [OF assms(1), of ls] assms(2) by simp
  then show ?thesis using assms(1) by (simp add: allocatable_def)
qed

lemma allocate_fold:
  assumes "allocatable lines D T" "lines = ls @ rest" "distinct (map ol_product ls)"
  shows "\<exists>result mx q. fold (allocate_line D T) ls (Map.empty, 0, - 1, 0) = (result, sum_list (map (share D T) ls), mx, q)
     \<and> dom result = ol_product ` set ls \<and> (\<forall>l \<in> set ls. result (ol_product l) = Some (share D T l))
     \<and> (ls = [] \<and> mx = - 1 \<or> ls \<noteq> [] \<and> q \<in> ol_product ` set ls)"
  using assms(2,3)
proof (induction ls arbitrary: rest rule: rev_induct)
  case (snoc l ls)
  have p: "lines = ls @ (l # rest)" "distinct (map ol_product ls)" using snoc.prems by simp_all
  from snoc.IH [OF p] obtain result mx q
    where f: "fold (allocate_line D T) ls (Map.empty, 0, - 1, 0) = (result, sum_list (map (share D T) ls), mx, q)"
    and r: "dom result = ol_product ` set ls" "\<forall>l \<in> set ls. result (ol_product l) = Some (share D T l)"
    and q: "ls = [] \<and> mx = - 1 \<or> ls \<noteq> [] \<and> q \<in> ol_product ` set ls" by blast
  have l: "l \<in> set lines" "ol_available l" "0 \<le> ol_subtotal l" using snoc.prems(1) assms(1) by (auto simp: allocatable_def)
  have "sum_list (map (share D T) (ls @ [l])) \<le> D" by (rule shares_total [OF assms(1) snoc.prems(1)])
  moreover have "0 \<le> sum_list (map (share D T) (ls @ [l]))" using snoc.prems(1) by (intro shares_le(2) [OF assms(1)]) auto
  ultimately have w: "wrap64 (sum_list (map (share D T) ls) + share D T l) = sum_list (map (share D T) ls) + share D T l"
    using assms(1) by (intro wrap64_id) (auto simp: in64_def allocatable_def)
  have step: "fold (allocate_line D T) (ls @ [l]) (Map.empty, 0, - 1, 0)
      = (result(ol_product l \<mapsto> share D T l), sum_list (map (share D T) (ls @ [l])),
         (if ol_subtotal l > mx then ol_subtotal l else mx), (if ol_subtotal l > mx then ol_product l else q))"
    using l share_bounds(3) [OF assms(1) l(1)] w by (simp add: f allocate_line_def Let_def)
  show ?case unfolding step using r q l snoc.prems(2) by (auto simp: image_iff)
qed simp

lemma allocate_result:
  assumes "allocatable lines D T" "distinct (map ol_product lines)"
  defines "R \<equiv> D - sum_list (map (share D T) lines)"
  shows "\<exists>q. (0 < R \<longrightarrow> q \<in> ol_product ` set lines) \<and> 0 \<le> R \<and> R < int (length lines)
     \<and> dom (allocateDiscountToLines lines D T) = ol_product ` set lines
     \<and> (\<forall>l \<in> set lines. allocateDiscountToLines lines D T (ol_product l)
            = Some (share D T l + (if 0 < R \<and> ol_product l = q then R else 0)))"
proof -
  obtain result mx q where f: "fold (allocate_line D T) lines (Map.empty, 0, - 1, 0) = (result, sum_list (map (share D T) lines), mx, q)"
    and r: "dom result = ol_product ` set lines" "\<forall>l \<in> set lines. result (ol_product l) = Some (share D T l)"
    and q: "lines = [] \<and> mx = - 1 \<or> lines \<noteq> [] \<and> q \<in> ol_product ` set lines"
    using allocate_fold [OF assms(1) _ assms(2), of "[]"] by auto
  have DT: "0 < D" "0 < T" "D < 2 ^ 63" "T = sum_list (map ol_subtotal lines)" using assms(1) by (simp_all add: allocatable_def)
  have ne: "lines \<noteq> []" using DT by auto
  then have q0: "q \<in> ol_product ` set lines" "q \<noteq> 0" using q assms(1) by (auto simp: allocatable_def)
  have R0: "0 \<le> R" using shares_total [OF assms(1), of lines "[]"] by (simp add: R_def)
  have "0 \<le> sum_list (map (share D T) lines)" by (rule shares_le(2) [OF assms(1)]) simp
  then have RD: "R \<le> D" by (simp add: R_def)
  have w: "wrap64 R = R" by (rule wrap64_id) (use R0 RD DT(3) in \<open>simp add: in64_def\<close>)
  have "D * T < sum_list (map (share D T) lines) * T + int (length lines) * T"
    using shares_gap [OF assms(1) _ ne] DT(4) by simp
  then have "R * T < int (length lines) * T" by (simp add: R_def left_diff_distrib)
  then have Rn: "R < int (length lines)" using DT(2) by simp
  have al: "allocateDiscountToLines lines D T = (if 0 < R then result(q \<mapsto> wrap64 (opt_int (result q) + R)) else result)"
    using DT(1,2) q0(2) w by (simp add: allocateDiscountToLines_def f Let_def R_def [symmetric])
  have add: "wrap64 (opt_int (result (ol_product l)) + R) = share D T l + R" if "l \<in> set lines" for l
  proof -
    have "share D T l \<le> sum_list (map (share D T) lines)"
      using that share_bounds(1) [OF assms(1)] by (intro member_le_sum_list) auto
    then have "share D T l + R \<le> D" by (simp add: R_def)
    then show ?thesis using r(2) that share_bounds(1) [OF assms(1) that] R0 DT(3) by (simp add: opt_int_def in64_def wrap64_id)
  qed
  have "\<forall>l \<in> set lines. allocateDiscountToLines lines D T (ol_product l) = Some (share D T l + (if 0 < R \<and> ol_product l = q then R else 0))"
    using r(2) add by (auto simp: al)
  moreover have "dom (allocateDiscountToLines lines D T) = ol_product ` set lines" using r(1) q0(1) by (auto simp: al)
  ultimately show ?thesis using q0(1) R0 Rn by blast
qed

lemma sum_with_remainder:
  assumes "distinct (map ol_product lines)" "q \<in> ol_product ` set lines"
  shows "sum_list (map (\<lambda>l. g l + (if ol_product l = q then R else 0)) lines) = sum_list (map g lines) + (R :: int)"
proof -
  have z: "sum_list (map (\<lambda>l. if ol_product l = q then R else 0) ls) = (if q \<in> ol_product ` set ls then R else 0)"
    if "distinct (map ol_product ls)" for ls
    using that by (induction ls) auto
  show ?thesis using z [OF assms(1)] assms(2) by (simp add: sum_list_addf)
qed


definition sample_lines :: "OrderLine list" where
  "sample_lines = [\<lparr>ol_product = 1, ol_sku = 10, ol_name = [], ol_picture = [], ol_price = 1000, ol_currency = ''CNY'',
       ol_quantity = 1, ol_subtotal = 1000, ol_available = True, ol_reason = []\<rparr>,
     \<lparr>ol_product = 2, ol_sku = 20, ol_name = [], ol_picture = [], ol_price = 1000, ol_currency = ''CNY'',
       ol_quantity = 2, ol_subtotal = 2000, ol_available = True, ol_reason = []\<rparr>]"


end
