(* ===== verification/CheckoutSaga.thy ===== *)
theory CheckoutSaga
  imports CheckoutPrice
begin

text \<open>
  The compensation of a failed order as a contract: what \<open>PlaceOrder\<close> relies on from the inventory and the
  coupon client, and what follows for the use case.  \<open>inv\<close> and \<open>cpn\<close> are the states of the two services in
  a world, \<open>view\<close> the part of the inventory the compensation restores, and \<open>ready\<close> and \<open>unreferenced\<close> say
  that an order id is fresh in them.
\<close>

locale place_saga =
  fixes cl :: "'w checkout_clients"
    and inv :: "'w \<Rightarrow> 'i" and view :: "'i \<Rightarrow> 's" and cpn :: "'w \<Rightarrow> 'c"
    and ready :: "int \<Rightarrow> StockChange list \<Rightarrow> 'i \<Rightarrow> bool" and unreferenced :: "int \<Rightarrow> 'c \<Rightarrow> bool"
  assumes commit_frame: "cpn (snd (cl_commit_stock cl op its w)) = cpn w"
    and refund_frame: "cpn (snd (cl_refund_stock cl op w)) = cpn w"
    and reserve_frame: "inv (snd (cl_reserve cl u ids oid cits w)) = inv w"
    and release_frame: "inv (snd (cl_release cl oid w)) = inv w"
    and create_frame: "inv (snd (cl_create cl req w)) = inv w" "cpn (snd (cl_create cl req w)) = cpn w"
    and refused: "\<lbrakk>ready oid its (inv w); cl_commit_stock cl (operationID oid ''commit'') its w = (r, w1);
        classifyCommitStockResult r = Inl e; e \<noteq> CkErrCommitRpc\<rbrakk> \<Longrightarrow> view (inv w1) = view (inv w)"
    and undone: "\<lbrakk>ready oid its (inv w); cl_commit_stock cl (operationID oid ''commit'') its w = (r, w1);
        classifyCommitStockResult r = Inr v; inv w2 = inv w1\<rbrakk>
        \<Longrightarrow> view (inv (snd (cl_refund_stock cl (operationID oid ''refund'') w2))) = view (inv w)"
    and reserve_refused: "\<lbrakk>unreferenced oid (cpn w); cl_reserve cl u ids oid cits w = (Inr (False, fs), w1)\<rbrakk> \<Longrightarrow> cpn w1 = cpn w"
    and released: "\<lbrakk>unreferenced oid (cpn w); cl_reserve cl u ids oid cits w = (q, w1); q = Inl () \<or> (\<exists>fs. q = Inr (True, fs));
        cpn w2 = cpn w1\<rbrakk> \<Longrightarrow> cpn (snd (cl_release cl oid w2)) = cpn w"
    and release_none: "unreferenced oid (cpn w) \<Longrightarrow> cpn (snd (cl_release cl oid w)) = cpn w"
begin

lemma compensation:
  assumes "ready oid its (inv w)" "cl_commit_stock cl (operationID oid ''commit'') its w = (r, w1)"
    "classifyCommitStockResult r = Inr v" "inv w2 = inv w1"
  shows "view (inv (restoreCommittedStock cl oid w2)) = view (inv w)" "cpn (restoreCommittedStock cl oid w2) = cpn w2"
    "view (inv (releaseReservedCoupons cl oid (restoreCommittedStock cl oid w2))) = view (inv w)"
  using undone [OF assms] by (simp_all add: restoreCommittedStock_def releaseReservedCoupons_def refund_frame release_frame)

text \<open>A failed reservation of coupons undoes everything; a successful one leaves the coupons to be released.\<close>

lemma reserve_step:
  assumes "ready oid its (inv w)" "unreferenced oid (cpn w)"
    "cl_commit_stock cl (operationID oid ''commit'') its w = (r, w1)" "classifyCommitStockResult r = Inr v"
    "place_reserve cl input oid lines w1 = (q, w2)"
  shows "q = Inl e \<Longrightarrow> e \<noteq> CkErrCommitRpc \<and> view (inv w2) = view (inv w) \<and> cpn w2 = cpn w"
    and "q = Inr u \<Longrightarrow> inv w2 = inv w1 \<and> (\<forall>w3. cpn w3 = cpn w2 \<longrightarrow> cpn (snd (cl_release cl oid w3)) = cpn w)"
proof -
  have c1: "cpn w1 = cpn w" using commit_frame [of "operationID oid ''commit''" its w] assms(3) by simp
  have un: "unreferenced oid (cpn w1)" using assms(2) c1 by simp
  obtain x w' where x: "cl_reserve cl (pl_user input) (pl_coupons input) oid (toCouponOrderItems lines) w1 = (x, w')" by fastforce
  have i': "inv w' = inv w1" using reserve_frame [of "pl_user input" "pl_coupons input" oid "toCouponOrderItems lines" w1] x by simp
  note comp = compensation [OF assms(1,3,4) i']
  show "e \<noteq> CkErrCommitRpc \<and> view (inv w2) = view (inv w) \<and> cpn w2 = cpn w" if q: "q = Inl e"
  proof (cases x)
    case (Inl y)
    then have "w2 = releaseReservedCoupons cl oid (restoreCommittedStock cl oid w')" "e = CkErrReserve"
      using assms(5) x q by (auto simp: place_reserve_def split: if_splits)
    then show ?thesis using comp released [OF un x _ comp(2)] Inl c1 by (simp add: releaseReservedCoupons_def)
  next
    case (Inr y)
    obtain success fs where y: "y = (success, fs)" by fastforce
    have "\<not> success" "w2 = restoreCommittedStock cl oid w'" "e = CouponUnavailableError fs"
      using assms(5) x q Inr y by (auto simp: place_reserve_def split: if_splits)
    then show ?thesis using comp reserve_refused [OF un, of "pl_user input" "pl_coupons input" "toCouponOrderItems lines" fs w'] x Inr y c1 by simp
  qed
  show "inv w2 = inv w1 \<and> (\<forall>w3. cpn w3 = cpn w2 \<longrightarrow> cpn (snd (cl_release cl oid w3)) = cpn w)" if q: "q = Inr u"
  proof (cases "pl_coupons input = []")
    case True
    then have "w2 = w1" using assms(5) by (simp add: place_reserve_def)
    then show ?thesis using release_none assms(2) c1 by auto
  next
    case False
    then obtain fs where "x = Inr (True, fs)" "w2 = w'"
      using assms(5) x q by (auto simp: place_reserve_def split: sum.splits if_splits)
    then show ?thesis using i' released [OF un x] c1 by auto
  qed
qed

lemma place_compensated:
  assumes "ready oid (toInventoryStockItems (pl_items input)) (inv w)" "unreferenced oid (cpn w)"
    "PlaceOrder_Execute cl oid input w = (Inl e, w')" "e \<noteq> CkErrCommitRpc"
  shows "view (inv w') = view (inv w) \<and> cpn w' = cpn w"
proof (cases "w' = w")
  case False
  let ?its = "toInventoryStockItems (pl_items input)"
  obtain k where k: "checkout_normalizeOrderKind (pl_kind input) = Inr k"
    using assms(3) False by (auto simp: PlaceOrder_Execute_def split: sum.splits)
  obtain lines price where lp: "place_quote cl input w = Inr (lines, price)"
    using assms(3) False k by (auto simp: PlaceOrder_Execute_def split: sum.splits prod.splits)
  obtain r w1 where c: "cl_commit_stock cl (operationID oid ''commit'') ?its w = (r, w1)" by fastforce
  have rest: "(Inl e, w') = (case classifyCommitStockResult r of
      Inl e \<Rightarrow> (Inl e, w1)
    | Inr _ \<Rightarrow> (case place_reserve cl input oid lines w1 of
        (Inl e, w2) \<Rightarrow> (Inl e, w2) | (Inr _, w2) \<Rightarrow> place_create cl input k oid lines price w2))"
    using assms(3) False k lp c by (simp add: PlaceOrder_Execute_def split: sum.splits)
  show ?thesis
  proof (cases "classifyCommitStockResult r")
    case (Inl e')
    then show ?thesis using rest refused [OF assms(1) c] assms(4) commit_frame [of "operationID oid ''commit''" ?its w] c by simp
  next
    case (Inr v)
    obtain q w2 where q: "place_reserve cl input oid lines w1 = (q, w2)" by fastforce
    note rs = reserve_step [OF assms(1,2) c Inr q]
    show ?thesis
    proof (cases q)
      case (Inl e')
      then show ?thesis using rest Inr q rs(1) by simp
    next
      case (Inr u)
      then have pc: "place_create cl input k oid lines price w2 = (Inl e, w')"
        using rest \<open>classifyCommitStockResult r = Inr v\<close> q by simp
      obtain y w3 where y: "cl_create cl (place_order_req input k oid lines price) w2 = (y, w3)" by fastforce
      have fr: "inv w3 = inv w1" "cpn w3 = cpn w2"
        using create_frame [of "place_order_req input k oid lines price" w2] y rs(2) [OF Inr] by simp_all
      have w': "w' = releaseReservedCoupons cl oid (restoreCommittedStock cl oid w3)"
        using pc y by (auto simp: place_create_def split: sum.splits prod.splits)
      note comp = compensation [OF assms(1) c \<open>classifyCommitStockResult r = Inr v\<close> fr(1)]
      show ?thesis using comp rs(2) [OF Inr] fr(2) w' by (simp add: releaseReservedCoupons_def)
    qed
  qed
qed simp

end

end
