(* ===== verification/CheckoutWorld.thy ===== *)
theory CheckoutWorld
  imports CheckoutSaga InventorySpec CouponSpec OrderSpec PaymentUsecase
begin

text \<open>
  The clients of the checkout service, over the models of the services they call: a world is the four
  databases, and \<open>calls\<close> says which of the RPCs of one request are lost on the way, before or after the
  service has run, and which statements of the services fail.
\<close>

section \<open>The world\<close>

record world =
  cw_inv :: inventory_db
  cw_cpn :: coupon_db
  cw_ord :: order_svc
  cw_pay :: payment_db

datatype fault = Delivered | RequestLost | ReplyLost

record calls =
  fc_commit :: fault
  fc_commit_ok :: "nat \<Rightarrow> bool"
  fc_refund :: fault
  fc_find :: bool
  fc_refund_ok :: "nat \<Rightarrow> bool"
  fc_reserve :: fault
  fc_get :: bool
  fc_upd :: bool
  fc_release :: fault
  fc_release_ok :: bool
  fc_create :: fault
  fc_create_env :: create_env
  fc_change_env :: change_env
  fc_prepay :: fault
  fc_now :: int
  fc_text :: string

text \<open>What lies outside: the product service's answers and the payment provider.\<close>

record outside =
  out_products :: "(int \<times> int) list \<Rightarrow> ProtoProduct option list"
  out_quotes :: "(int \<times> int) list \<Rightarrow> ProductQuote option list"
  out_provider :: "string \<Rightarrow> string \<Rightarrow> Amount \<Rightarrow> string option"

definition deliver :: "fault \<Rightarrow> (unit + 'r) \<times> 'w \<Rightarrow> 'w \<Rightarrow> (unit + 'r) \<times> 'w" where
  "deliver f res w = (case f of Delivered \<Rightarrow> res | RequestLost \<Rightarrow> (Inl (), w) | ReplyLost \<Rightarrow> (Inl (), snd res))"

lemma deliver_simps [simp]: "deliver Delivered res w = res" "deliver RequestLost res w = (Inl (), w)"
  "deliver ReplyLost res w = (Inl (), snd res)"
  by (simp_all add: deliver_def)

lemma deliver_state: "snd (deliver f res w) = w \<or> snd (deliver f res w) = snd res"
  by (cases f) simp_all

lemma deliver_answer: "fst (deliver f res w) = Inl () \<or> deliver f res w = res"
  by (cases f) simp_all

section \<open>The clients\<close>

definition stock_text :: "string \<Rightarrow> inventory_error option \<Rightarrow> string" where
  "stock_text text m =
     (case m of None \<Rightarrow> ''success''
      | Some e \<Rightarrow> if e = ErrDuplicateOperation then ''success (idempotent)''
                 else if e = ErrInsufficientStock then insufficient_text else text)"

definition stock_reply :: "string \<Rightarrow> op_answer \<Rightarrow> unit + (int \<times> string) option" where
  "stock_reply text a = (case a of Inl _ \<Rightarrow> Inl () | Inr (code, m) \<Rightarrow> Inr (Some (code, stock_text text m)))"

definition put_inv :: "inventory_db \<Rightarrow> world \<Rightarrow> world" where "put_inv d w = w\<lparr>cw_inv := d\<rparr>"
definition put_cpn :: "coupon_db \<Rightarrow> world \<Rightarrow> world" where "put_cpn d w = w\<lparr>cw_cpn := d\<rparr>"
definition put_ord :: "order_svc \<Rightarrow> world \<Rightarrow> world" where "put_ord s w = w\<lparr>cw_ord := s\<rparr>"
definition put_pay :: "payment_db \<Rightarrow> world \<Rightarrow> world" where "put_pay d w = w\<lparr>cw_pay := d\<rparr>"

lemma put_world [simp]:
  "cw_inv (put_inv d w) = d" "cw_cpn (put_inv d w) = cw_cpn w" "cw_ord (put_inv d w) = cw_ord w" "cw_pay (put_inv d w) = cw_pay w"
  "cw_inv (put_cpn c w) = cw_inv w" "cw_cpn (put_cpn c w) = c" "cw_ord (put_cpn c w) = cw_ord w" "cw_pay (put_cpn c w) = cw_pay w"
  "cw_inv (put_ord s w) = cw_inv w" "cw_cpn (put_ord s w) = cw_cpn w" "cw_ord (put_ord s w) = s" "cw_pay (put_ord s w) = cw_pay w"
  "cw_inv (put_pay p w) = cw_inv w" "cw_cpn (put_pay p w) = cw_cpn w" "cw_ord (put_pay p w) = cw_ord w" "cw_pay (put_pay p w) = p"
  by (simp_all add: put_inv_def put_cpn_def put_ord_def put_pay_def)

definition forget_error :: "('e + 'a) \<Rightarrow> unit + 'a" where
  "forget_error r = (case r of Inl _ \<Rightarrow> Inl () | Inr x \<Rightarrow> Inr x)"

lemma forget_error_simps [simp]: "forget_error (Inl e) = Inl ()" "forget_error (Inr x) = Inr x"
  by (simp_all add: forget_error_def)

definition call_commit :: "calls \<Rightarrow> string \<Rightarrow> StockChange list \<Rightarrow> world \<Rightarrow> (unit + (int \<times> string) option) \<times> world" where
  "call_commit p op its w =
     deliver (fc_commit p)
       (case handler_CommitStock (fc_commit_ok p) op its (cw_inv w) of (a, d) \<Rightarrow> (stock_reply (fc_text p) a, put_inv d w)) w"

definition call_refund :: "calls \<Rightarrow> string \<Rightarrow> world \<Rightarrow> (unit + (int \<times> string) option) \<times> world" where
  "call_refund p op w =
     deliver (fc_refund p)
       (case handler_RefundStock (fc_find p) (fc_refund_ok p) op (cw_inv w) of (a, d) \<Rightarrow> (stock_reply (fc_text p) a, put_inv d w)) w"

definition call_reserve ::
  "calls \<Rightarrow> int \<Rightarrow> int list \<Rightarrow> int \<Rightarrow> ProtoCouponItem list \<Rightarrow> world \<Rightarrow> (unit + bool \<times> (int \<times> coupon_reason) list) \<times> world" where
  "call_reserve p u ids oid its w =
     deliver (fc_reserve p)
       (case handler_ReserveCoupon (fc_get p) (fc_upd p) (fc_now p) u ids oid (cw_cpn w) of (a, d) \<Rightarrow> (Inr a, put_cpn d w)) w"

definition call_release :: "calls \<Rightarrow> int \<Rightarrow> world \<Rightarrow> (unit + bool) \<times> world" where
  "call_release p oid w =
     deliver (fc_release p)
       (case handler_ReleaseCoupon (fc_release_ok p) (fc_now p) oid (cw_cpn w) of (a, d) \<Rightarrow> (forget_error a, put_cpn d w)) w"

definition call_create :: "calls \<Rightarrow> CreateOrderReq \<Rightarrow> world \<Rightarrow> (unit + int) \<times> world" where
  "call_create p req w =
     deliver (fc_create p)
       (case handler_CreateOrder (fc_create_env p) (fc_now p * 1000) req (cw_ord w) of (a, task, s) \<Rightarrow> (forget_error a, put_ord s w)) w"

definition call_change :: "calls \<Rightarrow> int \<Rightarrow> order_action \<Rightarrow> world \<Rightarrow> (unit + bool) \<times> world" where
  "call_change p oid action w =
     (case handler_ChangeOrderStatus (fc_change_env p) oid action (cw_ord w) of (a, task, s) \<Rightarrow> (forget_error a, put_ord s w))"

definition call_prepay :: "outside \<Rightarrow> calls \<Rightarrow> Amount \<Rightarrow> string \<Rightarrow> string \<Rightarrow> world \<Rightarrow> (unit + string) \<times> world" where
  "call_prepay out p amt no desc w =
     deliver (fc_prepay p)
       (case handler_NativePrepay (out_provider out) True True (fc_now p) no desc (am_total amt) (am_currency amt) (cw_pay w) of
          (a, d) \<Rightarrow> (forget_error a, put_pay d w)) w"

definition world_clients :: "outside \<Rightarrow> calls \<Rightarrow> world checkout_clients" where
  "world_clients out p =
     \<lparr>cl_products = (\<lambda>ks w. Inr (out_products out ks)),
      cl_quotes = (\<lambda>ks w. Inr (out_quotes out ks)),
      cl_coupons = (\<lambda>u its w. forget_error (handler_ListAvailableCoupons True (fc_now p) u its (cw_cpn w))),
      cl_commit_stock = call_commit p, cl_refund_stock = call_refund p, cl_reserve = call_reserve p, cl_release = call_release p,
      cl_create = call_create p,
      cl_get_order = (\<lambda>oid w. case handler_GetOrder True oid (cw_ord w) of Inl _ \<Rightarrow> Inl () | Inr ord \<Rightarrow> Inr (Some ord)),
      cl_change = call_change p, cl_prepay = call_prepay out p\<rparr>"

text \<open>A request whose compensating calls get through.\<close>

definition sound :: "calls \<Rightarrow> calls" where
  "sound p = p\<lparr>fc_refund := Delivered, fc_find := True, fc_refund_ok := (\<lambda>_. True), fc_release := Delivered, fc_release_ok := True\<rparr>"

definition stock_ready :: "int \<Rightarrow> StockChange list \<Rightarrow> inventory_db \<Rightarrow> bool" where
  "stock_ready oid its d \<longleftrightarrow> inventory_inv d \<and> its \<noteq> [] \<and> quantities_ok its \<and> distinct (map sc_product its)
     \<and> (\<forall>r \<in> set (id_ops d). io_op r \<noteq> operationID oid ''commit'' \<and> io_op r \<noteq> operationID oid ''refund'')"

definition coupons_ready :: "int \<Rightarrow> coupon_db \<Rightarrow> bool" where
  "coupons_ready oid d \<longleftrightarrow> coupon_inv d \<and> 0 < oid \<and> (\<forall>m \<in> set (cd_coupons d). cm_order m \<noteq> Some oid)"

section \<open>The contract holds\<close>

lemma operationID_split: "operationID oid a = (''order_'' @ format_int oid @ ''_'') @ a"
  by (simp add: operationID_def)

lemma handler_commit_ready:
  assumes "stock_ready oid its d"
  shows "handler_CommitStock ok (operationID oid ''commit'') its d = (Inr (0, None), after_commit (operationID oid ''commit'') its d)
       \<and> has_stock its d
    \<or> (\<exists>e. e \<noteq> ErrDuplicateOperation \<and> handler_CommitStock ok (operationID oid ''commit'') its d = (Inr (- 1, Some e), d))"
proof -
  let ?op = "operationID oid ''commit''"
  obtain r d' where c: "CommitStock ok ?op (negated its) d = (r, d')" by fastforce
  have h: "handler_CommitStock ok ?op its d = (Inr (op_resp r), d')"
    using assms c by (simp add: handler_CommitStock_def CommitStock_Execute_def negated_def stock_ready_def operationID_def)
  show ?thesis
  proof (cases r)
    case (Inl e)
    have "e \<noteq> ErrDuplicateOperation"
    proof
      assume "e = ErrDuplicateOperation"
      then have "fst (CommitStock_body ok ?op (negated its) d) = Inl ErrDuplicateOperation"
        using c Inl run_tx_result [of "\<lambda>d. d" "\<lambda>d _. d" "CommitStock_body ok ?op (negated its)" d] by (simp add: CommitStock_def)
      moreover have "insert_ops (ok 0) (change_ops ?op ''commit'' [] (negated its)) d \<noteq> (Inl ErrDuplicateOperation, d)"
        using insert_change_ops [of "negated its" ?op "''commit''" "[]" d] assms
        by (cases "ok 0") (auto simp: stock_ready_def negated_def insert_ops_def comp_def)
      ultimately show False
        using commit_changes_error2 insert_ops_error [of "ok 0" "change_ops ?op ''commit'' [] (negated its)" d]
        by (auto simp: CommitStock_body_def split: prod.splits sum.splits)
    qed
    then show ?thesis using h Inl CommitStock_error [of ok ?op "negated its" d e d'] c by (simp add: op_resp_def)
  next
    case (Inr u)
    then have "d' = after_commit ?op its d"
      using CommitStock_success(1) [of d ok ?op "negated its" u d'] c assms after_commit_book [of its ?op d] by (simp add: stock_ready_def)
    moreover have "has_stock its d" using CommitStock_stock [of ok ?op its d u d'] c Inr assms by (simp add: stock_ready_def)
    ultimately show ?thesis using h Inr by (simp add: op_resp_def)
  qed
qed


lemma trim_id: "\<lbrakk>s \<noteq> []; \<not> is_space (hd s); \<not> is_space (last s)\<rbrakk> \<Longrightarrow> trim_space s = s"
proof -
  assume a: "s \<noteq> []" "\<not> is_space (hd s)" "\<not> is_space (last s)"
  have d: "\<lbrakk>t \<noteq> []; \<not> is_space (hd t)\<rbrakk> \<Longrightarrow> dropWhile is_space t = t" for t by (cases t) simp_all
  show ?thesis using a by (simp add: trim_space_def d hd_rev)
qed

lemma classify_reply:
  assumes "handler_CommitStock ok op its d = (a, d')" "call_commit p op its w = (r, w1)" "d = cw_inv w" "ok = fc_commit_ok p"
  shows "classifyCommitStockResult r = Inr u \<Longrightarrow> w1 = put_inv d' w \<and> (\<exists>m. a = Inr (0, m))"
    and "classifyCommitStockResult r = Inl e \<Longrightarrow> e \<noteq> CkErrCommitRpc \<Longrightarrow> w1 = put_inv d' w \<and> (\<exists>c m. a = Inr (c, m) \<and> c \<noteq> 0)"
proof -
  have r: "r = Inl () \<or> (r, w1) = (stock_reply (fc_text p) a, put_inv d' w)"
    using assms(1,2) unfolding call_commit_def assms(3,4) by (cases "fc_commit p") auto
  show "w1 = put_inv d' w \<and> (\<exists>m. a = Inr (0, m))" if "classifyCommitStockResult r = Inr u"
    using r that by (auto simp: classifyCommitStockResult_def stock_reply_def Let_def split: sum.splits prod.splits if_splits option.splits)
  show "w1 = put_inv d' w \<and> (\<exists>c m. a = Inr (c, m) \<and> c \<noteq> 0)" if "classifyCommitStockResult r = Inl e" "e \<noteq> CkErrCommitRpc"
    using r that by (auto simp: classifyCommitStockResult_def stock_reply_def Let_def split: sum.splits prod.splits if_splits option.splits)
qed

lemma refund_after_commit:
  assumes "stock_ready oid its d" "inventory_inv (after_commit (operationID oid ''commit'') its d)"
  shows "id_rows (snd (handler_RefundStock True (\<lambda>_. True) (operationID oid ''refund'') (after_commit (operationID oid ''commit'') its d))) = id_rows d"
proof -
  let ?b = "''order_'' @ format_int oid @ ''_''"
  let ?d1 = "after_commit (?b @ ''commit'') its d"
  have q: "quantities_ok its" and f: "\<forall>r \<in> set (id_ops d). io_op r \<noteq> ?b @ ''commit'' \<and> io_op r \<noteq> ?b @ ''refund''"
    using assms(1) by (auto simp: stock_ready_def operationID_def)
  have i: "inventory_inv ?d1" using assms(2) unfolding operationID_split .
  note cr = commit_then_refund [OF q f]
  have "RefundStock True (\<lambda>_. True) (?b @ ''refund'') ?d1 = (Inr (), after_refund (?b @ ''refund'') ?d1)"
    by (rule RefundStock_fresh(2) [OF i cr(1)]) simp_all
  then have "snd (handler_RefundStock True (\<lambda>_. True) (?b @ ''refund'') ?d1) = after_refund (?b @ ''refund'') ?d1"
    by (simp add: handler_RefundStock_def RefundStock_Execute_def)
  then show ?thesis using cr(2) unfolding operationID_split by simp
qed

text \<open>A reservation that was answered with success has locked valid coupons.\<close>

lemma reserve_outcome:
  assumes "handler_ReserveCoupon g upd now u ids oid d = ((ok, fs), d')" "coupon_inv d"
  shows "\<not> ok \<Longrightarrow> d' = d" and "ok \<Longrightarrow> \<exists>cs. normalizeCouponIDs ids = Some cs \<and> d' = locked_for oid cs d \<and> all_valid u now cs d \<and> 0 < oid"
proof -
  have "(\<not> ok \<and> d' = d) \<or> (ok \<and> (\<exists>cs. normalizeCouponIDs ids = Some cs \<and> d' = locked_for oid cs d \<and> all_valid u now cs d \<and> 0 < oid))"
  proof (cases "u \<le> 0 \<or> oid \<le> 0")
    case True
    then show ?thesis using assms(1) by (auto simp: handler_ReserveCoupon_def ReserveCoupon_Execute_def)
  next
    case pos: False
    show ?thesis
    proof (cases "normalizeCouponIDs ids")
      case None
      then show ?thesis using assms(1) pos by (simp add: handler_ReserveCoupon_def ReserveCoupon_Execute_def)
    next
      case (Some cs)
      show ?thesis
      proof (cases "cs = [] \<or> \<not> g")
        case True
        then show ?thesis using assms(1) pos Some by (auto simp: handler_ReserveCoupon_def ReserveCoupon_Execute_def GetAvailableByIDs_def split: if_splits)
      next
        case False
        define av where "av = map (entityToDomain d) (filter (\<lambda>m. cm_id m \<in> set cs \<and> coupon_valid u now m) (cd_coupons d))"
        have g: "GetAvailableByIDs g now u cs d = Inr av" using False by (simp add: GetAvailableByIDs_def av_def)
        have rf: "reserve_failures cs av = [] \<longleftrightarrow> all_valid u now cs d" by (rule reserve_failures_spec(2) [OF refl av_def])
        obtain x d1 where b: "BatchReserve upd cs oid d = (x, d1)" by fastforce
        have h: "((ok, fs), d') = (if reserve_failures cs av \<noteq> [] then ((False, reserve_failures cs av), d)
            else case x of Inr _ \<Rightarrow> ((True, []), d1)
                 | Inl e \<Rightarrow> if e = ErrCouponNotAvailable then ((False, map (\<lambda>i. (i, CouponStatusChanged)) cs), d1) else ((False, []), d1))"
          using assms(1) pos Some False g b by (cases x) (simp_all add: handler_ReserveCoupon_def ReserveCoupon_Execute_def Let_def split: if_splits)
        show ?thesis
        proof (cases "all_valid u now cs d")
          case False
          then show ?thesis using h rf by simp
        next
          case True
          have dist: "distinct cs" using normalizeCouponIDs_Some [OF Some] by simp
          show ?thesis
          proof (cases upd)
            case upd: True
            have "(x, d1) = (Inr (), locked_for oid cs d)"
              using BatchReserve_valid [OF assms(2) dist _ True, of oid] b upd \<open>\<not> (cs = [] \<or> \<not> g)\<close> by simp
            then show ?thesis using h rf True Some pos by simp
          next
            case nu: False
            then have "x = Inl CpErrInfra" "d1 = d"
              using b \<open>\<not> (cs = [] \<or> \<not> g)\<close> by (simp_all add: BatchReserve_def BatchReserve_body_def run_tx_def)
            then show ?thesis using h rf True by simp
          qed
        qed
      qed
    qed
  qed
  then show "\<not> ok \<Longrightarrow> d' = d" "ok \<Longrightarrow> \<exists>cs. normalizeCouponIDs ids = Some cs \<and> d' = locked_for oid cs d \<and> all_valid u now cs d \<and> 0 < oid"
    by blast+
qed

lemma client_selectors [simp]:
  "cl_commit_stock (world_clients out p) = call_commit p" "cl_refund_stock (world_clients out p) = call_refund p"
  "cl_reserve (world_clients out p) = call_reserve p" "cl_release (world_clients out p) = call_release p"
  "cl_create (world_clients out p) = call_create p" "cl_prepay (world_clients out p) = call_prepay out p"
  by (simp_all add: world_clients_def)

lemma sound_simps [simp]: "fc_commit (sound p) = fc_commit p" "fc_commit_ok (sound p) = fc_commit_ok p" "fc_refund (sound p) = Delivered"
  "fc_find (sound p)" "fc_refund_ok (sound p) = (\<lambda>_. True)" "fc_reserve (sound p) = fc_reserve p" "fc_get (sound p) = fc_get p"
  "fc_upd (sound p) = fc_upd p" "fc_release (sound p) = Delivered" "fc_release_ok (sound p)" "fc_now (sound p) = fc_now p"
  "fc_text (sound p) = fc_text p" "fc_create (sound p) = fc_create p" "fc_create_env (sound p) = fc_create_env p"
  by (simp_all add: sound_def)

lemma call_frames:
  "cw_cpn (snd (call_commit p op its w)) = cw_cpn w" "cw_cpn (snd (call_refund p op w)) = cw_cpn w"
  "cw_inv (snd (call_reserve p u ids oid cits w)) = cw_inv w" "cw_inv (snd (call_release p oid w)) = cw_inv w"
  "cw_inv (snd (call_create p req w)) = cw_inv w" "cw_cpn (snd (call_create p req w)) = cw_cpn w"
  "cw_ord (snd (call_commit p op its w)) = cw_ord w" "cw_ord (snd (call_reserve p u ids oid cits w)) = cw_ord w"
  by (auto simp: call_commit_def call_refund_def call_reserve_def call_release_def call_create_def deliver_def split: fault.split prod.split)

lemma call_reserve_outcome:
  assumes "coupons_ready oid (cw_cpn w)" "call_reserve p u ids oid cits w = (q, w1)"
  shows "cw_cpn w1 = cw_cpn w \<or> (\<exists>cs now. cw_cpn w1 = locked_for oid cs (cw_cpn w) \<and> all_valid u now cs (cw_cpn w))"
    and "q = Inr (False, fs) \<Longrightarrow> cw_cpn w1 = cw_cpn w"
    and "q = Inr (True, fs) \<Longrightarrow> \<exists>cs. normalizeCouponIDs ids = Some cs \<and> cw_cpn w1 = locked_for oid cs (cw_cpn w) \<and> all_valid u (fc_now p) cs (cw_cpn w)"
proof -
  have inv: "coupon_inv (cw_cpn w)" using assms(1) by (simp add: coupons_ready_def)
  obtain ok gs d where h: "handler_ReserveCoupon (fc_get p) (fc_upd p) (fc_now p) u ids oid (cw_cpn w) = ((ok, gs), d)" by (metis prod.collapse)
  note o = reserve_outcome [OF h inv]
  have c: "(q, w1) = deliver (fc_reserve p) (Inr (ok, gs), put_cpn d w) w" using assms(2) by (simp add: call_reserve_def h)
  show "cw_cpn w1 = cw_cpn w \<or> (\<exists>cs now. cw_cpn w1 = locked_for oid cs (cw_cpn w) \<and> all_valid u now cs (cw_cpn w))"
    using c o by (cases "fc_reserve p"; cases ok) auto
  show "q = Inr (False, fs) \<Longrightarrow> cw_cpn w1 = cw_cpn w" using c o by (cases "fc_reserve p") auto
  show "q = Inr (True, fs) \<Longrightarrow> \<exists>cs. normalizeCouponIDs ids = Some cs \<and> cw_cpn w1 = locked_for oid cs (cw_cpn w) \<and> all_valid u (fc_now p) cs (cw_cpn w)"
    using c o by (cases "fc_reserve p") auto
qed

lemma call_release_restores:
  assumes "coupons_ready oid d" "cw_cpn w2 = d \<or> (\<exists>cs u now. cw_cpn w2 = locked_for oid cs d \<and> all_valid u now cs d)"
  shows "cw_cpn (snd (call_release (sound p) oid w2)) = d"
proof -
  have r: "coupon_inv d" "0 < oid" "\<forall>m \<in> set (cd_coupons d). cm_order m \<noteq> Some oid" using assms(1) by (simp_all add: coupons_ready_def)
  have "snd (handler_ReleaseCoupon True (fc_now p) oid (cw_cpn w2)) = d"
    using assms(2) release_nothing [OF r(3)] release_restores [OF r(1,2) _ r(3)] by metis
  then show ?thesis by (simp add: call_release_def split: prod.split) (metis snd_conv)
qed

interpretation saga: place_saga "world_clients out (sound p)" cw_inv id_rows cw_cpn stock_ready coupons_ready for out p
proof (unfold_locales, goal_cases)
  case (7 oid its w r w1 e)
  obtain a d' where h: "handler_CommitStock (fc_commit_ok p) (operationID oid ''commit'') its (cw_inv w) = (a, d')" by fastforce
  have c: "call_commit (sound p) (operationID oid ''commit'') its w = (r, w1)" using 7(2) by simp
  have "w1 = put_inv d' w \<and> (\<exists>c m. a = Inr (c, m) \<and> c \<noteq> 0)"
    using classify_reply(2) [OF h c] 7(3,4) by simp
  then show ?case using handler_commit_ready [OF 7(1), of "fc_commit_ok p"] h by auto
next
  case (8 oid its w r w1 v w2)
  obtain a d' where h: "handler_CommitStock (fc_commit_ok p) (operationID oid ''commit'') its (cw_inv w) = (a, d')" by fastforce
  have c: "call_commit (sound p) (operationID oid ''commit'') its w = (r, w1)" using 8(2) by simp
  have w1: "w1 = put_inv d' w" "\<exists>m. a = Inr (0, m)" using classify_reply(1) [OF h c] 8(3) by simp_all
  then have d': "d' = after_commit (operationID oid ''commit'') its (cw_inv w)"
    using handler_commit_ready [OF 8(1), of "fc_commit_ok p"] h by auto
  have "inventory_inv d'"
    using inventory_step_inv [OF is_commit [OF h]] 8(1) by (simp add: stock_ready_def)
  then have "id_rows (snd (handler_RefundStock True (\<lambda>_. True) (operationID oid ''refund'') d')) = id_rows (cw_inv w)"
    using refund_after_commit [OF 8(1)] d' by simp
  moreover have "cw_inv w2 = d'" using 8(4) w1 by simp
  ultimately show ?case by (simp add: call_refund_def split: prod.split) (metis snd_conv)
next
  case (9 oid w u ids cits fs w1)
  then show ?case using call_reserve_outcome(2) by simp
next
  case (10 oid w u ids cits q w1 w2)
  then have "call_reserve (sound p) u ids oid cits w = (q, w1)" by simp
  from call_reserve_outcome(1) [OF 10(1) this]
  have "cw_cpn w2 = cw_cpn w \<or> (\<exists>cs u now. cw_cpn w2 = locked_for oid cs (cw_cpn w) \<and> all_valid u now cs (cw_cpn w))"
    unfolding 10(4) by blast
  from call_release_restores [OF 10(1) this] show ?case by simp
next
  case (11 oid w)
  then show ?case using call_release_restores by simp
qed (simp_all add: call_frames)

end
