(* ===== verification/CheckoutSpec.thy ===== *)
theory CheckoutSpec
  imports CheckoutWorld
begin

text \<open>
  The properties of the checkout service over the models of the services it calls: what a failed order
  leaves behind, what a successful one has done in the inventory, the coupon and the order service, the
  replies whose loss it does not survive, and where its arithmetic and that of its services part.
\<close>

section \<open>The stock request\<close>

lemma add_stock_item_map:
  "map sc_product (add_stock_item i acc) =
     (if ki_product i \<in> sc_product ` set acc then map sc_product acc else map sc_product acc @ [ki_product i])"
proof -
  have "map sc_product (map (\<lambda>s. if sc_product s = k then s\<lparr>sc_quantity := f s\<rparr> else s) acc) = map sc_product acc" for k f
    by simp
  then show ?thesis by (simp add: add_stock_item_def del: map_map)
qed

lemma add_stock_item_products: "sc_product ` set (add_stock_item i acc) = insert (ki_product i) (sc_product ` set acc)"
  using arg_cong [OF add_stock_item_map, of set i acc] by (auto split: if_splits)

lemma add_stock_item_distinct: "distinct (map sc_product acc) \<Longrightarrow> distinct (map sc_product (add_stock_item i acc))"
  by (simp add: add_stock_item_map)

lemma toInventoryStockItems_facts:
  "distinct (map sc_product (toInventoryStockItems items))" "sc_product ` set (toInventoryStockItems items) = ki_product ` set items"
proof -
  have "distinct (map sc_product acc) \<Longrightarrow> distinct (map sc_product (fold add_stock_item items acc))
      \<and> sc_product ` set (fold add_stock_item items acc) = sc_product ` set acc \<union> ki_product ` set items" for acc
    by (induction items arbitrary: acc) (auto simp: add_stock_item_distinct add_stock_item_products)
  from this [of "[]"] show "distinct (map sc_product (toInventoryStockItems items))"
    "sc_product ` set (toInventoryStockItems items) = ki_product ` set items"
    by (simp_all add: toInventoryStockItems_def)
qed

definition ordered :: "int \<Rightarrow> CheckoutItem list \<Rightarrow> int" where
  "ordered p items = sum_list (map ki_quantity (filter (\<lambda>i. ki_product i = p) items))"

lemma wrap32_add: "wrap32 (wrap32 x + wrap32 y) = wrap32 (x + y)"
  by (simp add: wrap32_word)

text \<open>What is requested of a product is the sum of its lines modulo the 32-bit range.\<close>

lemma toInventoryStockItems_quantity:
  assumes "c \<in> set (toInventoryStockItems items)"
  shows "sc_quantity c = wrap32 (ordered (sc_product c) items)"
proof -
  have "\<forall>c \<in> set (fold add_stock_item items acc). sc_quantity c = wrap32 (a (sc_product c) + ordered (sc_product c) items)"
    if "\<forall>c \<in> set acc. sc_quantity c = wrap32 (a (sc_product c))" "\<forall>p. p \<notin> sc_product ` set acc \<longrightarrow> a p = 0" for acc a
    using that
  proof (induction items arbitrary: acc a)
    case Nil
    then show ?case by (simp add: ordered_def)
  next
    case (Cons i items)
    let ?a = "a(ki_product i := a (ki_product i) + ki_quantity i)"
    have "\<forall>c \<in> set (add_stock_item i acc). sc_quantity c = wrap32 (?a (sc_product c))"
    proof
      fix c assume c: "c \<in> set (add_stock_item i acc)"
      show "sc_quantity c = wrap32 (?a (sc_product c))"
      proof (cases "ki_product i \<in> sc_product ` set acc")
        case True
        then obtain s where s: "s \<in> set acc"
          "c = (if sc_product s = ki_product i then s\<lparr>sc_quantity := wrap32 (sc_quantity s + wrap32 (ki_quantity i))\<rparr> else s)"
          using c by (auto simp: add_stock_item_def)
        have "sc_quantity s = wrap32 (a (sc_product s))" using Cons.prems(1) s(1) by blast
        then show ?thesis using s(2) wrap32_add by simp
      next
        case False
        then have "c \<in> set acc \<or> c = \<lparr>sc_product = ki_product i, sc_quantity = wrap32 (ki_quantity i)\<rparr>" "a (ki_product i) = 0"
          using c Cons.prems(2) by (auto simp: add_stock_item_def)
        then show ?thesis using Cons.prems(1) False by (auto simp: image_iff)
      qed
    qed
    moreover have "\<forall>p. p \<notin> sc_product ` set (add_stock_item i acc) \<longrightarrow> ?a p = 0"
      using Cons.prems(2) by (simp add: add_stock_item_products)
    ultimately have "\<forall>c \<in> set (fold add_stock_item items (add_stock_item i acc)). sc_quantity c = wrap32 (?a (sc_product c) + ordered (sc_product c) items)"
      by (rule Cons.IH)
    then show ?case by (auto simp: ordered_def add.assoc)
  qed
  from this [of "[]" "\<lambda>_. 0"] show ?thesis using assms by (simp add: toInventoryStockItems_def)
qed


section \<open>Failed and placed orders\<close>

definition fresh_order :: "int \<Rightarrow> world \<Rightarrow> bool" where
  "fresh_order oid w \<longleftrightarrow> 0 < oid
     \<and> (\<forall>r \<in> set (id_ops (cw_inv w)). io_op r \<noteq> operationID oid ''commit'' \<and> io_op r \<noteq> operationID oid ''refund'')
     \<and> (\<forall>m \<in> set (cd_coupons (cw_cpn w)). cm_order m \<noteq> Some oid)
     \<and> oid \<notin> m_id ` set (od_orders (os_db (cw_ord w)))"

lemma place_valid_items: "place_validate input = Inr u \<Longrightarrow> pl_items input \<noteq> []"
  by (auto simp: place_validate_def split: if_splits)

lemma world_ready:
  assumes "inventory_reach (cw_inv w)" "coupon_reach (cw_cpn w)" "fresh_order oid w"
    "quantities_ok (toInventoryStockItems (pl_items input))" "pl_items input \<noteq> []"
  shows "stock_ready oid (toInventoryStockItems (pl_items input)) (cw_inv w)" "coupons_ready oid (cw_cpn w)"
proof -
  have "toInventoryStockItems (pl_items input) \<noteq> []" using toInventoryStockItems_facts(2) [of "pl_items input"] assms(5) by fastforce
  then show "stock_ready oid (toInventoryStockItems (pl_items input)) (cw_inv w)" "coupons_ready oid (cw_cpn w)"
    using assms inventory_reach_inv coupon_reach_inv toInventoryStockItems_facts(1)
    by (auto simp: stock_ready_def coupons_ready_def fresh_order_def)
qed


lemma place_order_done:
  assumes "PlaceOrder_Execute cl oid input w = (Inr res, w')"
  obtains k lines price r w1 v u w2 i w3 url where "place_validate input = Inr ()" "checkout_normalizeOrderKind (pl_kind input) = Inr k"
    "place_quote cl input w = Inr (lines, price)"
    "cl_commit_stock cl (operationID oid ''commit'') (toInventoryStockItems (pl_items input)) w = (r, w1)"
    "classifyCommitStockResult r = Inr v" "place_reserve cl input oid lines w1 = (Inr u, w2)"
    "cl_create cl (place_order_req input k oid lines price) w2 = (Inr i, w3)"
    "w' = snd (cl_prepay cl \<lparr>am_currency = pl_currency input, am_total = pr_total price\<rparr> (format_int oid) (''order '' @ format_int oid) w3)"
    "res = \<lparr>pu_order = oid, pu_url = url, pu_total = pr_total price\<rparr>"
proof -
  obtain k where k: "place_validate input = Inr ()" "checkout_normalizeOrderKind (pl_kind input) = Inr k"
    using assms by (auto simp: PlaceOrder_Execute_def split: sum.splits)
  obtain lines price where lp: "place_quote cl input w = Inr (lines, price)"
    using assms k by (auto simp: PlaceOrder_Execute_def split: sum.splits prod.splits)
  obtain r w1 where c: "cl_commit_stock cl (operationID oid ''commit'') (toInventoryStockItems (pl_items input)) w = (r, w1)" by fastforce
  obtain v where v: "classifyCommitStockResult r = Inr v"
    using assms k lp c by (cases "classifyCommitStockResult r") (simp_all add: PlaceOrder_Execute_def)
  obtain q w2 where q: "place_reserve cl input oid lines w1 = (q, w2)" by fastforce
  then obtain u where u: "q = Inr u" using assms k lp c v by (cases q) (simp_all add: PlaceOrder_Execute_def)
  have pc: "place_create cl input k oid lines price w2 = (Inr res, w')"
    using assms k lp c v q u by (simp add: PlaceOrder_Execute_def)
  obtain y w3 where y: "cl_create cl (place_order_req input k oid lines price) w2 = (y, w3)" by fastforce
  then obtain i where i: "y = Inr i" using pc by (cases y) (simp_all add: place_create_def)
  obtain z w4 where z: "cl_prepay cl \<lparr>am_currency = pl_currency input, am_total = pr_total price\<rparr> (format_int oid)
      (''order '' @ format_int oid) w3 = (z, w4)" by fastforce
  obtain url where "w' = w4" "res = \<lparr>pu_order = oid, pu_url = url, pu_total = pr_total price\<rparr>"
    using pc y i z by (cases z) (auto simp: place_create_def)
  then show thesis using that k lp c v q u y i z by simp
qed

lemma create_fresh_row:
  assumes "handler_CreateOrder env now req s = (Inr i, task, s')" "rq_order req \<notin> m_id ` set (od_orders (os_db s))" "rq_order req \<noteq> 0"
  shows "\<exists>row. od_orders (os_db s') = od_orders (os_db s) @ [row] \<and> m_id row = rq_order req \<and> m_user row = rq_user req
     \<and> m_status row = OrderStatusCreated \<and> m_items row = rq_items req
     \<and> m_payable_total row = (if rq_payable req \<le> 0 then items_total (rq_items req) else rq_payable req)"
proof -
  define cmd where "cmd = \<lparr>cc_order = rq_order req, cc_user = rq_user req, cc_currency = rq_currency req,
      cc_remark = rq_remark req, cc_address = (case rq_address req of None \<Rightarrow> zeroAddress | Some a \<Rightarrow> a),
      cc_kind = rq_kind req, cc_activity = rq_activity req, cc_payable = rq_payable req, cc_items = rq_items req\<rparr>"
  obtain x t s1 where c: "CreateOrder_Execute env now cmd s = (x, t, s1)" by (metis prod.collapse)
  have x: "x = Inr i" "s1 = s'" using assms(1) c by (cases x; simp add: handler_CreateOrder_def flip: cmd_def)+
  obtain y s2 where sv: "repo_Save (cr_save env) now (cmd_toDomainOrder now cmd) s = (y, s2)" by fastforce
  have id: "o_id (cmd_toDomainOrder now cmd) = rq_order req" by (simp add: cmd_toDomainOrder_def cmd_def Let_def)
  have "cc_order cmd = rq_order req" by (simp add: cmd_def)
  then have "y \<noteq> Inl ErrDuplicateOrder"
    using sv assms(2,3) id by (auto simp: repo_Save_def insert_order_def toOrderModel_def Let_def isDuplicate_def split: if_splits)
  then obtain row where row: "y = Inr row" "s' = s2"
    using c x sv by (cases y) (auto simp: CreateOrder_Execute_def Let_def split: if_splits)
  then show ?thesis using sv assms(3)
    by (auto simp: repo_Save_def insert_order_def toOrderModel_def cmd_toDomainOrder_def cmd_def Let_def split: if_splits)
qed


lemma call_prepay_frame [simp]: "cw_inv (snd (call_prepay out p amt no desc w)) = cw_inv w"
  "cw_cpn (snd (call_prepay out p amt no desc w)) = cw_cpn w" "cw_ord (snd (call_prepay out p amt no desc w)) = cw_ord w"
  by (auto simp: call_prepay_def deliver_def split: fault.split prod.split)

lemma commit_answered:
  assumes "call_commit p (operationID oid ''commit'') its w = (r, w1)" "classifyCommitStockResult r = Inr v" "stock_ready oid its (cw_inv w)"
  shows "w1 = put_inv (after_commit (operationID oid ''commit'') its (cw_inv w)) w" "has_stock its (cw_inv w)"
proof -
  obtain a d' where h: "handler_CommitStock (fc_commit_ok p) (operationID oid ''commit'') its (cw_inv w) = (a, d')" by fastforce
  have "w1 = put_inv d' w" "\<exists>m. a = Inr (0, m)" using classify_reply(1) [OF h assms(1) refl refl assms(2)] by simp_all
  then show "w1 = put_inv (after_commit (operationID oid ''commit'') its (cw_inv w)) w" "has_stock its (cw_inv w)"
    using handler_commit_ready [OF assms(3), of "fc_commit_ok p"] h by auto
qed

lemma reserve_answered:
  assumes "place_reserve (world_clients out p) input oid lines w1 = (Inr u, w2)" "coupons_ready oid (cw_cpn w1)"
  shows "cw_inv w2 = cw_inv w1" "cw_ord w2 = cw_ord w1"
    "\<forall>i \<in> set (pl_coupons input). \<exists>m \<in> set (cd_coupons (cw_cpn w2)).
       cm_id m = i \<and> cm_user m = pl_user input \<and> cm_status m = UserCouponStatusLocked \<and> cm_order m = Some oid"
proof -
  have "cw_inv w2 = cw_inv w1 \<and> cw_ord w2 = cw_ord w1 \<and> (\<forall>i \<in> set (pl_coupons input). \<exists>m \<in> set (cd_coupons (cw_cpn w2)).
       cm_id m = i \<and> cm_user m = pl_user input \<and> cm_status m = UserCouponStatusLocked \<and> cm_order m = Some oid)"
  proof (cases "pl_coupons input = []")
    case True
    then show ?thesis using assms(1) by (simp add: place_reserve_def)
  next
    case False
    obtain q x where q: "call_reserve p (pl_user input) (pl_coupons input) oid (toCouponOrderItems lines) w1 = (q, x)" by fastforce
    then obtain fs where fs: "q = Inr (True, fs)" "x = w2"
      using assms(1) False by (auto simp: place_reserve_def split: sum.splits if_splits)
    obtain cs where cs: "normalizeCouponIDs (pl_coupons input) = Some cs" "cw_cpn w2 = locked_for oid cs (cw_cpn w1)"
      "all_valid (pl_user input) (fc_now p) cs (cw_cpn w1)"
      using call_reserve_outcome(3) [OF assms(2) q fs(1)] fs(2) by auto
    have "\<exists>m \<in> set (cd_coupons (cw_cpn w2)). cm_id m = i \<and> cm_user m = pl_user input \<and> cm_status m = UserCouponStatusLocked \<and> cm_order m = Some oid"
      if i: "i \<in> set (pl_coupons input)" for i
    proof -
      have ic: "i \<in> set cs" using normalizeCouponIDs_Some [OF cs(1)] i by simp
      then obtain m where m: "m \<in> set (cd_coupons (cw_cpn w1))" "cm_id m = i" "cm_user m = pl_user input"
        using cs(3) by (auto simp: all_valid_def coupon_valid_def)
      then show ?thesis using ic unfolding cs(2) locked_for_def
        by (intro bexI [of _ "m\<lparr>cm_status := UserCouponStatusLocked, cm_order := Some oid\<rparr>"])
          (auto simp: update_where_set image_iff intro!: bexI [of _ m])
    qed
    then show ?thesis
      using call_frames(3) [of p "pl_user input" "pl_coupons input" oid "toCouponOrderItems lines" w1]
        call_frames(8) [of p "pl_user input" "pl_coupons input" oid "toCouponOrderItems lines" w1] q fs(2) by simp
  qed
  then show "cw_inv w2 = cw_inv w1" "cw_ord w2 = cw_ord w1"
    "\<forall>i \<in> set (pl_coupons input). \<exists>m \<in> set (cd_coupons (cw_cpn w2)).
       cm_id m = i \<and> cm_user m = pl_user input \<and> cm_status m = UserCouponStatusLocked \<and> cm_order m = Some oid" by blast+
qed

lemma quote_bounds:
  "place_quote cl input w = Inr (lines, price) \<Longrightarrow> pr_total price \<le> pl_expected input"
  by (auto simp: place_quote_def ValidatePriceChange_def Let_def split: sum.splits prod.splits if_splits)



section \<open>A sample world\<close>

definition sample_world :: world where
  "sample_world = \<lparr>cw_inv = stocked, cw_cpn = coupons1, cw_ord = empty_svc,
     cw_pay = \<lparr>pd_rows = [], pd_next = 1, pd_outbox = \<lparr>ob_rows = [], ob_next = 1\<rparr>\<rparr>\<rparr>"

definition sample_calls :: calls where
  "sample_calls = \<lparr>fc_commit = Delivered, fc_commit_ok = (\<lambda>_. True), fc_refund = Delivered, fc_find = True, fc_refund_ok = (\<lambda>_. True),
     fc_reserve = Delivered, fc_get = True, fc_upd = True, fc_release = Delivered, fc_release_ok = True, fc_create = Delivered,
     fc_create_env = \<lparr>cr_save = True, cr_find = True\<rparr>,
     fc_change_env = \<lparr>xe_find = True, xe_update = True, xe_del = True, xe_add = True\<rparr>, fc_prepay = Delivered, fc_now = 2000, fc_text = ''db''\<rparr>"

definition sample_outside :: outside where
  "sample_outside = \<lparr>out_products = (\<lambda>_. []),
     out_quotes = (\<lambda>ks. map (\<lambda>k. Some \<lparr>qu_product = fst k, qu_sku = snd k, qu_price = 1000, qu_currency = ''CNY'', qu_in_stock = True\<rparr>) ks),
     out_provider = (\<lambda>_ _ _. Some ''weixin://pay'')\<rparr>"

definition sample_input :: PlaceOrderInput where
  "sample_input = \<lparr>pl_user = 7, pl_items = [\<lparr>ki_product = 1, ki_sku = 10, ki_quantity = 2\<rparr>, \<lparr>ki_product = 2, ki_sku = 20, ki_quantity = 1\<rparr>,
       \<lparr>ki_product = 1, ki_sku = 11, ki_quantity = 1\<rparr>],
     pl_coupons = [1], pl_address = \<lparr>ka_receiver = ''Li'', ka_phone = ''138'', ka_province = [], ka_city = [], ka_district = [], ka_street = [], ka_zipcode = []\<rparr>,
     pl_method = ''wechat'', pl_currency = ''CNY'', pl_kind = ''cart'', pl_remark = [], pl_expected = 4000\<rparr>"

lemma sample_ready:
  "inventory_reach (cw_inv sample_world)" "coupon_reach (cw_cpn sample_world)" "fresh_order 55 sample_world"
  "quantities_ok (toInventoryStockItems (pl_items sample_input))"
proof -
  show "inventory_reach (cw_inv sample_world)" "coupon_reach (cw_cpn sample_world)"
    by (simp_all add: sample_world_def stocked_reach coupons1_reach)
  show "fresh_order 55 sample_world" "quantities_ok (toInventoryStockItems (pl_items sample_input))" by code_simp+
qed

lemma sample_results:
  "map_sum id pu_total (fst (PlaceOrder_Execute (world_clients sample_outside (sound sample_calls)) 55 sample_input sample_world)) = Inr 3500"
  "fst (PlaceOrder_Execute (world_clients sample_outside (sound (sample_calls\<lparr>fc_create := RequestLost\<rparr>))) 55 sample_input sample_world)
     = Inl ErrOrderCreateFailed"
  by code_simp+




section \<open>Lost replies\<close>

lemma query_selectors:
  "cl_quotes (world_clients out p) = (\<lambda>ks w. Inr (out_quotes out ks))"
  "cl_coupons (world_clients out p) = (\<lambda>u its w. forget_error (handler_ListAvailableCoupons True (fc_now p) u its (cw_cpn w)))"
  by (simp_all add: world_clients_def)

lemma place_quote_cong:
  assumes "fc_now p = fc_now p'"
  shows "place_quote (world_clients out p) input w = place_quote (world_clients out p') input w"
  unfolding place_quote_def query_selectors assms ..

text \<open>Two replies must not be lost.  Take a request that would succeed.  If only the answer to its stock
  reservation is lost, the order fails with the stock of every product taken, no order row, and no call
  that gives the stock back.  If only the answer of the order service is lost, the order fails although
  its row exists, while its stock has been given back.\<close>

theorem place_order_lost_replies:
  assumes "inventory_reach (cw_inv w)" "coupon_reach (cw_cpn w)" "fresh_order oid w"
    "quantities_ok (toInventoryStockItems (pl_items input))"
    "PlaceOrder_Execute (world_clients out (sound p)) oid input w = (Inr res, w1)"
  shows "(\<exists>w2. PlaceOrder_Execute (world_clients out (sound (p\<lparr>fc_commit := ReplyLost\<rparr>))) oid input w = (Inl CkErrCommitRpc, w2)
        \<and> cw_inv w2 = after_commit (operationID oid ''commit'') (toInventoryStockItems (pl_items input)) (cw_inv w)
        \<and> cw_ord w2 = cw_ord w \<and> cw_cpn w2 = cw_cpn w)
     \<and> (\<exists>w3. PlaceOrder_Execute (world_clients out (sound (p\<lparr>fc_create := ReplyLost\<rparr>))) oid input w = (Inl ErrOrderCreateFailed, w3)
        \<and> id_rows (cw_inv w3) = id_rows (cw_inv w) \<and> cw_cpn w3 = cw_cpn w
        \<and> (\<exists>row. od_orders (os_db (cw_ord w3)) = od_orders (os_db (cw_ord w)) @ [row] \<and> m_id row = oid \<and> m_status row = OrderStatusCreated))"
proof (rule place_order_done [OF assms(5)])
  fix k lines price r w1' v u w2 i w3 url
  assume s: "place_validate input = Inr ()" "checkout_normalizeOrderKind (pl_kind input) = Inr k"
    "place_quote (world_clients out (sound p)) input w = Inr (lines, price)"
    "cl_commit_stock (world_clients out (sound p)) (operationID oid ''commit'') (toInventoryStockItems (pl_items input)) w = (r, w1')"
    "classifyCommitStockResult r = Inr v" "place_reserve (world_clients out (sound p)) input oid lines w1' = (Inr u, w2)"
    "cl_create (world_clients out (sound p)) (place_order_req input k oid lines price) w2 = (Inr i, w3)"
  let ?its = "toInventoryStockItems (pl_items input)" and ?op = "operationID oid ''commit''"
  note rdy = world_ready [OF assms(1-4) place_valid_items [OF s(1)]]
  have c: "call_commit (sound p) ?op ?its w = (r, w1')" using s(4) by simp
  note ca = commit_answered [OF c s(5) rdy(1)]
  define p1 where "p1 = p\<lparr>fc_commit := ReplyLost\<rparr>"
  define p2 where "p2 = p\<lparr>fc_create := ReplyLost\<rparr>"
  have q: "place_quote (world_clients out (sound p1)) input w = Inr (lines, price)" "place_quote (world_clients out (sound p2)) input w = Inr (lines, price)"
    using s(3) place_quote_cong [of "sound p1" "sound p"] place_quote_cong [of "sound p2" "sound p"] by (simp_all add: p1_def p2_def)
  have del: "fc_commit p = Delivered" using c s(5) by (cases "fc_commit p") (auto simp: call_commit_def classifyCommitStockResult_def)
  have c1: "call_commit (sound p1) ?op ?its w = (Inl (), w1')" using c del by (simp add: call_commit_def p1_def)
  have first: "PlaceOrder_Execute (world_clients out (sound p1)) oid input w = (Inl CkErrCommitRpc, w1')"
    using s(1,2) q(1) c1 by (simp add: PlaceOrder_Execute_def classifyCommitStockResult_def)
  have c2: "call_commit (sound p2) ?op ?its w = (r, w1')" using c by (simp add: call_commit_def p2_def)
  have "place_reserve (world_clients out (sound p2)) input oid lines w1' = place_reserve (world_clients out (sound p)) input oid lines w1'"
    by (simp add: place_reserve_def restoreCommittedStock_def releaseReservedCoupons_def call_refund_def call_release_def call_reserve_def
        p2_def cong: if_cong prod.case_cong sum.case_cong)
  then have r2: "place_reserve (world_clients out (sound p2)) input oid lines w1' = (Inr u, w2)" using s(6) by simp
  have ra: "cw_ord w2 = cw_ord w" using reserve_answered(2) [OF s(6)] ca(1) rdy(2) by simp
  obtain a task sv where h: "handler_CreateOrder (fc_create_env p) (fc_now p * 1000) (place_order_req input k oid lines price) (cw_ord w2) = (a, task, sv)"
    by (metis prod.collapse)
  have env: "fc_create_env (sound p) = fc_create_env p" "fc_create (sound p) = fc_create p" "fc_create_env (sound p2) = fc_create_env p"
    "fc_create (sound p2) = ReplyLost" "fc_now (sound p2) = fc_now p" by (simp_all add: sound_def p2_def)
  have d: "a = Inr i"
    using s(7) h env by (cases "fc_create p"; cases a) (auto simp: call_create_def)
  have y: "call_create (sound p2) (place_order_req input k oid lines price) w2 = (Inl (), put_ord sv w2)"
    using h env by (simp add: call_create_def)
  define w4 where "w4 = releaseReservedCoupons (world_clients out (sound p2)) oid (restoreCommittedStock (world_clients out (sound p2)) oid (put_ord sv w2))"
  have second: "PlaceOrder_Execute (world_clients out (sound p2)) oid input w = (Inl ErrOrderCreateFailed, w4)"
    using s(1,2,5) q(2) c2 r2 y by (simp add: PlaceOrder_Execute_def place_create_def w4_def)
  have restored: "id_rows (cw_inv w4) = id_rows (cw_inv w)" "cw_cpn w4 = cw_cpn w"
    using saga.place_compensated [OF rdy second] by simp_all
  have o4: "cw_ord w4 = sv"
    by (auto simp: w4_def releaseReservedCoupons_def restoreCommittedStock_def call_refund_def call_release_def deliver_def split: fault.split prod.split)
  have f: "rq_order (place_order_req input k oid lines price) \<notin> m_id ` set (od_orders (os_db (cw_ord w2)))"
    "rq_order (place_order_req input k oid lines price) \<noteq> 0"
    using assms(3) ra by (auto simp: fresh_order_def place_order_req_def)
  have "\<exists>row. od_orders (os_db sv) = od_orders (os_db (cw_ord w)) @ [row] \<and> m_id row = oid \<and> m_status row = OrderStatusCreated"
    using create_fresh_row [OF h [unfolded d] f] ra by (auto simp: place_order_req_def)
  then show ?thesis using first second restored o4 ca(1) unfolding p1_def p2_def by auto
qed

lemma place_order_lost_replies_witness:
  "\<exists>w3 row. PlaceOrder_Execute (world_clients sample_outside (sound (sample_calls\<lparr>fc_create := ReplyLost\<rparr>))) 55 sample_input sample_world = (Inl ErrOrderCreateFailed, w3)
     \<and> id_rows (cw_inv w3) = id_rows stocked \<and> od_orders (os_db (cw_ord w3)) = [row] \<and> m_id row = 55"
proof -
  let ?r = "PlaceOrder_Execute (world_clients sample_outside (sound sample_calls)) 55 sample_input sample_world"
  obtain res w' where w: "?r = (Inr res, w')"
    using sample_results(1) by (cases ?r; cases "fst ?r") auto
  have "od_orders (os_db (cw_ord sample_world)) = []" "cw_inv sample_world = stocked" by (simp_all add: sample_world_def empty_svc_def)
  then show ?thesis using place_order_lost_replies [OF sample_ready w] by auto
qed

section \<open>Quantities\<close>

lemma lines_match:
  assumes "buildOrderLinesFromQuotes items quotes = (lines, [])"
  shows "map (\<lambda>l. (ol_product l, ol_sku l, ol_quantity l)) lines = map (\<lambda>i. (ki_product i, ki_sku i, ki_quantity i)) items
     \<and> (\<forall>l \<in> set lines. ol_available l)"
proof -
  define step where "step = (\<lambda>item (available, unavailable).
       case last_by_key (\<lambda>q. (qu_product q, qu_sku q)) quotes (ki_product item, ki_sku item) of
         None \<Rightarrow> (available, unavailable @ [not_found_line item])
       | Some q \<Rightarrow> if \<not> qu_in_stock q then (available, unavailable @ [quote_line q item])
                  else (available @ [quote_line q item], unavailable :: OrderLine list))"
  have key: "last_by_key (\<lambda>q. (qu_product q, qu_sku q)) quotes k = Some q \<Longrightarrow> (qu_product q, qu_sku q) = k" for k q
    by (auto simp: last_by_key_def find_Some_iff)
  have "fold step items (av, un) = (lines, []) \<Longrightarrow> \<forall>l \<in> set av. ol_available l \<Longrightarrow> un = [] \<and>
      map (\<lambda>l. (ol_product l, ol_sku l, ol_quantity l)) lines
        = map (\<lambda>l. (ol_product l, ol_sku l, ol_quantity l)) av @ map (\<lambda>i. (ki_product i, ki_sku i, ki_quantity i)) items
      \<and> (\<forall>l \<in> set lines. ol_available l)" for av un
  proof (induction items arbitrary: av un)
    case (Cons i items)
    obtain av' un' where st: "step i (av, un) = (av', un')" by fastforce
    then have f: "fold step items (av', un') = (lines, [])" using Cons.prems(1) by simp
    have c: "un' \<noteq> [] \<or> (un' = un \<and> (\<exists>q. av' = av @ [quote_line q i] \<and> qu_in_stock q \<and> (qu_product q, qu_sku q) = (ki_product i, ki_sku i)))"
    proof (cases "last_by_key (\<lambda>q. (qu_product q, qu_sku q)) quotes (ki_product i, ki_sku i)")
      case None
      then show ?thesis using st by (auto simp: step_def)
    next
      case (Some q)
      then show ?thesis using st key [OF Some] by (cases "qu_in_stock q") (auto simp: step_def)
    qed
    have "un' = []"
    proof (rule ccontr)
      assume ne: "un' \<noteq> []"
      have "snd (fold step items (av', un')) \<noteq> []" using ne
      proof (induction items arbitrary: av' un')
        case (Cons j items)
        have "snd (step j (av', un')) \<noteq> []" using Cons.prems by (auto simp: step_def split: option.split)
        then show ?case using Cons.IH by (cases "step j (av', un')") simp
      qed simp
      then show False using f by simp
    qed
    then obtain q where "un = []" "av' = av @ [quote_line q i]" "qu_in_stock q" "(qu_product q, qu_sku q) = (ki_product i, ki_sku i)"
      using c by auto
    moreover from this have "\<forall>l \<in> set av'. ol_available l" using Cons.prems(2) by (simp add: quote_line_def)
    ultimately show ?case using Cons.IH [OF f] by (simp add: quote_line_def)
  qed simp
  from this [of "[]" "[]"] show ?thesis using assms by (simp add: buildOrderLinesFromQuotes_def step_def)
qed

text \<open>The inventory and the order see different quantities: the order row carries, for every product, the
  sum of the quantities ordered, while the stock is asked for that sum reduced to 32 bits; the two agree
  exactly for sums in the 32-bit range.\<close>

theorem place_order_quantity:
  assumes "fresh_order oid w" "PlaceOrder_Execute (world_clients out p) oid input w = (Inr res, w')"
  shows "(\<forall>c \<in> set (toInventoryStockItems (pl_items input)). sc_quantity c = wrap32 (ordered (sc_product c) (pl_items input))
          \<and> (sc_quantity c = ordered (sc_product c) (pl_items input) \<longleftrightarrow> in32 (ordered (sc_product c) (pl_items input))))
     \<and> (\<exists>row. od_orders (os_db (cw_ord w')) = od_orders (os_db (cw_ord w)) @ [row] \<and> m_id row = oid
          \<and> (\<forall>pr. sum_list (map it_quantity (filter (\<lambda>i. it_product i = pr) (m_items row))) = ordered pr (pl_items input)))"
proof (rule place_order_done [OF assms(2)])
  fix k lines price r w1 v u w2 i w3 url
  assume s: "place_validate input = Inr ()"
    "place_quote (world_clients out p) input w = Inr (lines, price)"
    "cl_commit_stock (world_clients out p) (operationID oid ''commit'') (toInventoryStockItems (pl_items input)) w = (r, w1)"
    "place_reserve (world_clients out p) input oid lines w1 = (Inr u, w2)"
    "cl_create (world_clients out p) (place_order_req input k oid lines price) w2 = (Inr i, w3)"
    "w' = snd (cl_prepay (world_clients out p) \<lparr>am_currency = pl_currency input, am_total = pr_total price\<rparr> (format_int oid) (''order '' @ format_int oid) w3)"
  have o2: "cw_ord w2 = cw_ord w"
    using s(3,4) call_frames(7) [of p "operationID oid ''commit''" "toInventoryStockItems (pl_items input)" w]
      call_frames(8) [of p "pl_user input" "pl_coupons input" oid "toCouponOrderItems lines" w1]
    by (auto simp: place_reserve_def split: sum.splits prod.splits if_splits)
  obtain quotes where bl: "buildOrderLinesFromQuotes (pl_items input) quotes = (lines, [])"
    using s(2) by (auto simp: place_quote_def Let_def split: sum.splits prod.splits if_splits)
  note lm = lines_match [OF bl]
  obtain a task sv where h: "handler_CreateOrder (fc_create_env p) (fc_now p * 1000) (place_order_req input k oid lines price) (cw_ord w2) = (a, task, sv)"
    by (metis prod.collapse)
  have d: "a = Inr i \<and> w3 = put_ord sv w2" using s(5) h by (cases "fc_create p"; cases a) (auto simp: call_create_def)
  have f: "rq_order (place_order_req input k oid lines price) \<notin> m_id ` set (od_orders (os_db (cw_ord w2)))"
    "rq_order (place_order_req input k oid lines price) \<noteq> 0"
    using assms(1) o2 by (auto simp: fresh_order_def place_order_req_def)
  obtain row where row: "od_orders (os_db sv) = od_orders (os_db (cw_ord w)) @ [row]" "m_id row = oid"
    "m_items row = toOrderItems lines (pl_currency input)"
    using create_fresh_row [OF _ f, of "fc_create_env p" "fc_now p * 1000" i task sv] h d o2 by (auto simp: place_order_req_def)
  have "sum_list (map it_quantity (filter (\<lambda>i. it_product i = pr) (m_items row))) = ordered pr (pl_items input)" for pr
  proof -
    have "filter ol_available lines = lines" using lm by (simp add: filter_id_conv)
    then have "sum_list (map it_quantity (filter (\<lambda>i. it_product i = pr) (m_items row)))
        = sum_list (map (\<lambda>(x, y, z). z) (filter (\<lambda>(x, y, z). x = pr) (map (\<lambda>l. (ol_product l, ol_sku l, ol_quantity l)) lines)))"
      unfolding row(3) toOrderItems_def by (simp add: filter_map comp_def)
    also have "\<dots> = ordered pr (pl_items input)" unfolding conjunct1 [OF lm] ordered_def by (simp add: filter_map comp_def)
    finally show ?thesis .
  qed
  moreover have "wrap32 x = x \<longleftrightarrow> in32 x" for x using wrap32_id wrap32_in32 by metis
  ultimately show ?thesis using toInventoryStockItems_quantity row(1,2) s(6) d by auto
qed

definition huge_input :: PlaceOrderInput where
  "huge_input = sample_input\<lparr>pl_items := [\<lparr>ki_product = 1, ki_sku = 10, ki_quantity = 2 ^ 32 + 2\<rparr>], pl_coupons := [], pl_expected := 2 ^ 62\<rparr>"

lemma place_order_quantity_witness:
  "\<exists>w' row. fst (PlaceOrder_Execute (world_clients sample_outside sample_calls) 55 huge_input sample_world) \<noteq> Inl ErrPriceChanged
     \<and> snd (PlaceOrder_Execute (world_clients sample_outside sample_calls) 55 huge_input sample_world) = w'
     \<and> toInventoryStockItems (pl_items huge_input) = [\<lparr>sc_product = 1, sc_quantity = 2\<rparr>]
     \<and> od_orders (os_db (cw_ord w')) = [row] \<and> sum_list (map it_quantity (filter (\<lambda>i. it_product i = 1) (m_items row))) = 2 ^ 32 + 2"
proof -
  let ?r = "PlaceOrder_Execute (world_clients sample_outside sample_calls) 55 huge_input sample_world"
  have "map_sum id pu_total (fst ?r) = Inr 4294967298000" by code_simp
  then obtain res w' where w: "?r = (Inr res, w')" by (cases ?r; cases "fst ?r") auto
  have i: "toInventoryStockItems (pl_items huge_input) = [\<lparr>sc_product = 1, sc_quantity = 2\<rparr>]" "ordered 1 (pl_items huge_input) = 2 ^ 32 + 2"
    by code_simp+
  have "od_orders (os_db (cw_ord sample_world)) = []" by (simp add: sample_world_def empty_svc_def)
  then show ?thesis using place_order_quantity [OF sample_ready(3) w] w i by auto
qed

section \<open>Which coupons checkout can use\<close>

lemma sumByIDs_none: "\<forall>i \<in> set items. g i = 0 \<Longrightarrow> 0 \<notin> set ids \<Longrightarrow> sumByIDs items ids g = 0"
proof -
  assume "\<forall>i \<in> set items. g i = 0" "0 \<notin> set ids"
  then have "filter (\<lambda>i. g i \<in> set ids) items = []" by (auto simp: filter_empty_conv)
  then show ?thesis by (simp add: sumByIDs_def sum64_def)
qed

lemma discount_unscoped: "calculateCouponDiscount (t\<lparr>pt_products := xs, pt_categories := ys\<rparr>) n = calculateCouponDiscount t n"
  by (cases "pt_type t") (simp_all add: calculateCouponDiscount_def Let_def)

lemma applicable_scope:
  assumes "fst (IsApplicableToOrder (templateEntityToDomain r) items)" "\<forall>i \<in> set items. ci_merchant i = 0 \<and> ci_category i = 0"
  shows "t_scope (templateEntityToDomain r) \<in> {CouponScopeAll, CouponScopeProduct}
    \<or> t_scope (templateEntityToDomain r) = CouponScopeCategory \<and> 0 \<in> set (unmarshal_ids (tm_categories r))"
proof -
  let ?t = "templateEntityToDomain r"
  have n: "CalculateApplicableAmount ?t items \<noteq> 0" using assms(1) by (auto simp: IsApplicableToOrder_def Let_def)
  show ?thesis
  proof (cases "t_scope ?t")
    case CouponScopeMerchant
    then obtain x where "t_merchants ?t = [x]" "x > 0"
      by (auto simp: templateEntityToDomain_def Let_def opt_int_def split: option.splits if_splits)
    then have "sumByIDs items (t_merchants ?t) ci_merchant = 0" using sumByIDs_none [of items ci_merchant "[x]"] assms(2) by simp
    then show ?thesis using n CouponScopeMerchant by (simp add: CalculateApplicableAmount_def)
  next
    case CouponScopeCategory
    then have c: "t_categories ?t = unmarshal_ids (tm_categories r)"
      by (auto simp: templateEntityToDomain_def Let_def split: if_splits)
    then have "0 \<in> set (t_categories ?t)"
      using n sumByIDs_none [of items ci_category "t_categories ?t"] assms(2) CouponScopeCategory by (auto simp: CalculateApplicableAmount_def)
    then show ?thesis using CouponScopeCategory c by simp
  next
    case CouponScopeUnknown
    then show ?thesis using n by (simp add: CalculateApplicableAmount_def)
  qed simp_all
qed

definition unscoped :: "ProtoCoupon \<Rightarrow> ProtoCoupon" where
  "unscoped c = c\<lparr>pc_template := map_option (\<lambda>t. t\<lparr>pt_products := [], pt_categories := []\<rparr>) (pc_template c)\<rparr>"

text \<open>Checkout sends every line without category and merchant, so a coupon limited to a merchant is never
  offered and one limited to categories only if it names category 0; and the discount of an offered coupon
  is taken from the whole amount of the order, whatever products or categories the coupon is limited to.\<close>

theorem checkout_coupon_scope:
  assumes "handler_ListAvailableCoupons ok now u (toCouponOrderItems lines) d = Inr cs"
  shows "(\<forall>c \<in> set cs. \<exists>m \<in> set (cd_coupons d). \<exists>r \<in> set (cd_templates d). pc_id c = cm_id m \<and> tm_id r = cm_template m
          \<and> (t_scope (templateEntityToDomain r) \<in> {CouponScopeAll, CouponScopeProduct}
              \<or> t_scope (templateEntityToDomain r) = CouponScopeCategory \<and> 0 \<in> set (unmarshal_ids (tm_categories r))))
     \<and> toCouponOptions cs lines = toCouponOptions (map unscoped cs) lines"
proof (intro conjI ballI)
  fix c assume "c \<in> set cs"
  define its where "its = map (\<lambda>i. \<lparr>ci_product = pi_product i, ci_merchant = 0, ci_category = pi_category i,
      ci_subtotal = wrap64 (pi_price i * pi_quantity i)\<rparr>) (toCouponOrderItems lines)"
  have zero: "\<forall>i \<in> set its. ci_merchant i = 0 \<and> ci_category i = 0" by (auto simp: its_def toCouponOrderItems_def)
  obtain m where m: "m \<in> set (cd_coupons d)" "c = coupon_domainToProto (entityToDomain d m)" "fst (evaluateCoupon (entityToDomain d m) its)"
    using assms \<open>c \<in> set cs\<close> unfolding handler_ListAvailableCoupons_def Let_def its_def [symmetric]
    by (auto simp: EvaluateOrderCoupons_Execute_def ListAvailableByUserID_def split: sum.splits if_splits prod.splits)
  then obtain r where r: "find_row tm_id (cm_template m) (cd_templates d) = Some r" "fst (IsApplicableToOrder (templateEntityToDomain r) its)"
    by (auto simp: evaluateCoupon_def entityToDomain_def split: option.splits if_splits)
  have "r \<in> set (cd_templates d)" "tm_id r = cm_template m" using r(1) by (auto simp: find_row_def find_Some_iff)
  then show "\<exists>m \<in> set (cd_coupons d). \<exists>r \<in> set (cd_templates d). pc_id c = cm_id m \<and> tm_id r = cm_template m
          \<and> (t_scope (templateEntityToDomain r) \<in> {CouponScopeAll, CouponScopeProduct}
              \<or> t_scope (templateEntityToDomain r) = CouponScopeCategory \<and> 0 \<in> set (unmarshal_ids (tm_categories r)))"
    using m(1,2) applicable_scope [OF r(2) zero] by (intro bexI [of _ m] bexI [of _ r]) (simp_all add: coupon_domainToProto_def)
next
  show "toCouponOptions cs lines = toCouponOptions (map unscoped cs) lines"
    by (auto simp: toCouponOptions_def unscoped_def Let_def comp_def discount_unscoped split: option.split)
qed

definition book_coupon :: CouponTemplateModel where
  "book_coupon = spring_template\<lparr>tm_products := JsonIds [1]\<rparr>"

definition cart_lines :: "OrderLine list" where
  "cart_lines = fst (buildOrderLinesFromQuotes (pl_items sample_input) (out_quotes sample_outside (extractProductQueries (pl_items sample_input))))"

lemma checkout_coupon_scope_witness:
  "\<exists>cs. handler_ListAvailableCoupons True 1000 7 (toCouponOrderItems cart_lines) (coupons1\<lparr>cd_templates := [book_coupon]\<rparr>) = Inr cs
     \<and> t_scope (templateEntityToDomain book_coupon) = CouponScopeProduct
     \<and> sumSelectedCouponDiscount (toCouponOptions (map unscoped cs) cart_lines) [1] = 500"
proof -
  let ?r = "handler_ListAvailableCoupons True 1000 7 (toCouponOrderItems cart_lines) (coupons1\<lparr>cd_templates := [book_coupon]\<rparr>)"
  have v: "map_sum id (\<lambda>cs. sumSelectedCouponDiscount (toCouponOptions cs cart_lines) [1]) ?r = Inr 500" by code_simp
  then obtain cs where cs: "?r = Inr cs" by (cases ?r) auto
  then have "sumSelectedCouponDiscount (toCouponOptions cs cart_lines) [1] = 500" using v by simp
  moreover have "t_scope (templateEntityToDomain book_coupon) = CouponScopeProduct" by code_simp
  ultimately show ?thesis using checkout_coupon_scope [OF cs] cs by auto
qed

end
