(* ===== verification/Cart.thy ===== *)
theory Cart
  imports OrderDomain "HOL-Library.AList"
begin

text \<open>
  The cart service (\<open>internal/cart\<close>): a Redis cache that every request writes first, and a MySQL table
  that goroutines bring up to date afterwards.  The goroutines a request started and that have not run yet
  are part of the state.  Both hashes of a user hold the decimal texts of \<open>int64\<close> values, written by
  \<open>FormatInt\<close> and \<open>HINCRBY\<close> only and read back by \<open>ParseInt\<close> (\<open>parse_format_int\<close>), so the
  model keeps the numbers; a hash without fields is a missing key.
\<close>

section \<open>Domain and tables\<close>

record CartItem =
  ci_prod :: int
  ci_sku :: int
  ci_qty :: int

record Cart =
  ca_user :: int
  ca_items :: "CartItem list"

text \<open>A row of \<open>cart_items\<close>; its id and its times are never read.\<close>

record CartRow =
  cr_user :: int
  cr_prod :: int
  cr_sku :: int
  cr_qty :: int

datatype cart_error = CartErrSku | CartErrProduct | CartErrRedis | CartErrDecrement | CartErrDb | CartErrInvalidData | CartErrNotFound

type_synonym cart_hash = "(int \<times> int) list"

datatype cart_task =
    UpsertIncrementTask int "CartItem list"
  | DeleteTask int "int list"
  | EmptyTask int
  | WriteTask int CartItem
  | IncrementTask int int
  | DecrementTask int int
  | WriteBackTask int "CartRow list"

record cart_svc =
  ct_qty :: "int \<Rightarrow> cart_hash"
  ct_prod :: "int \<Rightarrow> cart_hash"
  ct_rows :: "CartRow list"
  ct_tasks :: "cart_task list"

section \<open>Redis cache\<close>

text \<open>A call of the cache succeeds, or fails after the first \<open>n\<close> of its writes have run; \<open>HSet\<close> fails with its
  write done when only the \<open>EXPIRE\<close> after it fails.\<close>

datatype cart_fault = CfOk | CfFail nat

definition hash_call :: "cart_fault \<Rightarrow> (cart_hash \<Rightarrow> cart_hash) \<Rightarrow> cart_hash \<Rightarrow> bool \<times> cart_hash" where
  "hash_call f upd h = (case f of CfOk \<Rightarrow> (True, upd h) | CfFail n \<Rightarrow> (False, if n = 0 then h else upd h))"

definition cache_HSet :: "cart_fault \<Rightarrow> int \<Rightarrow> int \<Rightarrow> cart_hash \<Rightarrow> bool \<times> cart_hash" where
  "cache_HSet f field v h = hash_call f (AList.update field v) h"

definition cache_HSetBatch :: "cart_fault \<Rightarrow> (int \<times> int) list \<Rightarrow> cart_hash \<Rightarrow> bool \<times> cart_hash" where
  "cache_HSetBatch f fieldValues h =
     (if fieldValues = [] then (True, h) else hash_call f (fold (\<lambda>(k, v). AList.update k v) fieldValues) h)"

text \<open>\<open>HINCRBY\<close> of a missing field starts from 0 and fails, without a write, beyond 64 bits.\<close>

definition hincrby :: "int \<Rightarrow> int \<Rightarrow> cart_hash \<Rightarrow> int option \<times> cart_hash" where
  "hincrby field inc h =
     (let v = (case map_of h field of None \<Rightarrow> 0 | Some x \<Rightarrow> x) + inc
      in if in64 v then (Some v, AList.update field v h) else (None, h))"

definition cache_HIncrBy :: "cart_fault \<Rightarrow> int \<Rightarrow> int \<Rightarrow> cart_hash \<Rightarrow> int option \<times> cart_hash" where
  "cache_HIncrBy f field inc h =
     (case hincrby field inc h of (r, h') \<Rightarrow>
        (case f of CfOk \<Rightarrow> (r, h') | CfFail n \<Rightarrow> (None, if n = 0 then h else h')))"

text \<open>A pipeline runs its commands one by one; one that fails does not stop the others.\<close>

definition cache_HIncrByBatch :: "cart_fault \<Rightarrow> (int \<times> int) list \<Rightarrow> cart_hash \<Rightarrow> bool \<times> cart_hash" where
  "cache_HIncrByBatch f incs h =
     (let run = (case f of CfOk \<Rightarrow> incs | CfFail n \<Rightarrow> take n incs);
          (ok, h') = fold (\<lambda>(k, n) (ok, h). case hincrby k n h of (r, h') \<Rightarrow> (ok \<and> r \<noteq> None, h')) run (True, h)
      in (ok \<and> f = CfOk, h'))"

definition cache_HDel :: "cart_fault \<Rightarrow> int list \<Rightarrow> cart_hash \<Rightarrow> bool \<times> cart_hash" where
  "cache_HDel f ks h = hash_call f (filter (\<lambda>(k, v). k \<notin> set ks)) h"

text \<open>The script \<open>decrement.lua\<close>: the new quantity, or -1 without a write.\<close>

definition decrement_script :: "int \<Rightarrow> cart_hash \<Rightarrow> int \<times> cart_hash" where
  "decrement_script field h =
     (case map_of h field of
        None \<Rightarrow> (- 1, h)
      | Some q \<Rightarrow> if q \<le> 1 then (- 1, h) else (q - 1, AList.update field (q - 1) h))"

definition cache_DecrementIfGreaterThanOne :: "cart_fault \<Rightarrow> int \<Rightarrow> cart_hash \<Rightarrow> (cart_error + int) \<times> cart_hash" where
  "cache_DecrementIfGreaterThanOne f field h =
     (case decrement_script field h of (newQty, h') \<Rightarrow>
        (case f of
           CfFail n \<Rightarrow> (Inl CartErrRedis, if n = 0 then h else h')
         | CfOk \<Rightarrow> if newQty < 0 then (Inl CartErrDecrement, h') else (Inr newQty, h')))"

section \<open>Table\<close>

definition row_key :: "CartRow \<Rightarrow> int \<times> int" where
  "row_key r = (cr_user r, cr_sku r)"

definition FindCartByUserID :: "bool \<Rightarrow> int \<Rightarrow> CartRow list \<Rightarrow> cart_error + CartRow list" where
  "FindCartByUserID ok u rows = (if \<not> ok then Inl CartErrDb else Inr (filter (\<lambda>r. cr_user r = u) rows))"

text \<open>\<open>INSERT ... ON DUPLICATE KEY UPDATE\<close>, row by row; a quantity beyond \<open>BIGINT\<close> fails the whole statement.\<close>

fun upsert_increment :: "CartRow list \<Rightarrow> CartRow list \<Rightarrow> CartRow list option" where
  "upsert_increment [] rows = Some rows"
| "upsert_increment (i # is) rows =
     (case find_row row_key (row_key i) rows of
        None \<Rightarrow> upsert_increment is (rows @ [i])
      | Some r \<Rightarrow>
          if \<not> in64 (cr_qty r + cr_qty i) then None
          else upsert_increment is
                 (update_where (\<lambda>r. row_key r = row_key i) (\<lambda>r. r\<lparr>cr_prod := cr_prod i, cr_qty := cr_qty r + cr_qty i\<rparr>) rows))"

definition UpsertIncrementBatch :: "bool \<Rightarrow> int \<Rightarrow> CartRow list \<Rightarrow> CartRow list \<Rightarrow> (cart_error + unit) \<times> CartRow list" where
  "UpsertIncrementBatch ok u items rows =
     (if items = [] then (Inr (), rows)
      else if \<not> ok then (Inl CartErrDb, rows)
      else
        (case upsert_increment (map (\<lambda>i. i\<lparr>cr_user := u, cr_qty := (if cr_qty i \<le> 0 then 1 else cr_qty i)\<rparr>) items) rows of
           None \<Rightarrow> (Inl CartErrDb, rows)
         | Some rows' \<Rightarrow> (Inr (), rows')))"

definition cart_Upsert :: "bool \<Rightarrow> CartRow \<Rightarrow> CartRow list \<Rightarrow> (cart_error + unit) \<times> CartRow list" where
  "cart_Upsert ok i rows =
     (if cr_qty i \<le> 0 then (Inl CartErrInvalidData, rows)
      else if \<not> ok then (Inl CartErrDb, rows)
      else (Inr (),
            if row_key i \<in> row_key ` set rows
            then update_where (\<lambda>r. row_key r = row_key i) (\<lambda>r. r\<lparr>cr_prod := cr_prod i, cr_qty := cr_qty i\<rparr>) rows
            else rows @ [i]))"

definition DeleteBySKUIDs :: "bool \<Rightarrow> int \<Rightarrow> int list \<Rightarrow> CartRow list \<Rightarrow> (cart_error + unit) \<times> CartRow list" where
  "DeleteBySKUIDs ok u skus rows =
     (if skus = [] then (Inr (), rows)
      else if \<not> ok then (Inl CartErrDb, rows)
      else (Inr (), filter (\<lambda>r. \<not> (cr_user r = u \<and> cr_sku r \<in> set skus)) rows))"

definition DeleteByUserID :: "bool \<Rightarrow> int \<Rightarrow> CartRow list \<Rightarrow> (cart_error + unit) \<times> CartRow list" where
  "DeleteByUserID ok u rows = (if \<not> ok then (Inl CartErrDb, rows) else (Inr (), filter (\<lambda>r. cr_user r \<noteq> u) rows))"

definition IncrementQuantity :: "bool \<Rightarrow> int \<Rightarrow> int \<Rightarrow> CartRow list \<Rightarrow> (cart_error + unit) \<times> CartRow list" where
  "IncrementQuantity ok u sku rows =
     (if \<not> ok \<or> (\<exists>r \<in> set rows. row_key r = (u, sku) \<and> \<not> in64 (cr_qty r + 1)) then (Inl CartErrDb, rows)
      else (Inr (), update_where (\<lambda>r. row_key r = (u, sku)) (\<lambda>r. r\<lparr>cr_qty := cr_qty r + 1\<rparr>) rows))"

definition DecrementQuantity :: "bool \<Rightarrow> int \<Rightarrow> int \<Rightarrow> CartRow list \<Rightarrow> (cart_error + unit) \<times> CartRow list" where
  "DecrementQuantity ok u sku rows =
     (if \<not> ok then (Inl CartErrDb, rows)
      else if rows_affected (\<lambda>r. row_key r = (u, sku) \<and> cr_qty r > 1) rows = 0 then (Inl CartErrNotFound, rows)
      else (Inr (), update_where (\<lambda>r. row_key r = (u, sku) \<and> cr_qty r > 1) (\<lambda>r. r\<lparr>cr_qty := cr_qty r - 1\<rparr>) rows))"

section \<open>Repository\<close>

definition set_qty :: "int \<Rightarrow> cart_hash \<Rightarrow> cart_svc \<Rightarrow> cart_svc" where
  "set_qty u h s = s\<lparr>ct_qty := (ct_qty s)(u := h)\<rparr>"

definition set_prod :: "int \<Rightarrow> cart_hash \<Rightarrow> cart_svc \<Rightarrow> cart_svc" where
  "set_prod u h s = s\<lparr>ct_prod := (ct_prod s)(u := h)\<rparr>"

definition spawn :: "cart_task \<Rightarrow> cart_svc \<Rightarrow> cart_svc" where
  "spawn t s = s\<lparr>ct_tasks := ct_tasks s @ [t]\<rparr>"

definition cart_item_quantity :: "CartItem \<Rightarrow> int" where
  "cart_item_quantity i = (if ci_qty i \<le> 0 then 1 else ci_qty i)"

text \<open>The two maps the loop of \<open>AddItems\<close> builds, or its error.\<close>

fun add_maps :: "CartItem list \<Rightarrow> (int \<times> int) list \<times> (int \<times> int) list \<Rightarrow> cart_error + (int \<times> int) list \<times> (int \<times> int) list" where
  "add_maps [] acc = Inr acc"
| "add_maps (i # is) (qs, ps) =
     (if ci_sku i = 0 then Inl CartErrSku
      else if ci_prod i = 0 then Inl CartErrProduct
      else
        (let old = (case map_of qs (ci_sku i) of None \<Rightarrow> 0 | Some x \<Rightarrow> x)
         in add_maps is (AList.update (ci_sku i) (wrap64 (old + cart_item_quantity i)) qs,
                         AList.update (ci_sku i) (ci_prod i) ps)))"

definition AddItems :: "cart_fault \<Rightarrow> cart_fault \<Rightarrow> int \<Rightarrow> CartItem list \<Rightarrow> cart_svc \<Rightarrow> (cart_error + unit) \<times> cart_svc" where
  "AddItems f1 f2 u items s =
     (if items = [] then (Inr (), s)
      else
        (case add_maps items ([], []) of
           Inl e \<Rightarrow> (Inl e, s)
         | Inr (qs, ps) \<Rightarrow>
             (case cache_HIncrByBatch f1 qs (ct_qty s u) of
                (ok1, h1) \<Rightarrow>
                  if \<not> ok1 then (Inl CartErrRedis, set_qty u h1 s)
                  else
                    (case cache_HSetBatch f2 ps (ct_prod s u) of
                       (ok2, h2) \<Rightarrow>
                         if \<not> ok2 then (Inl CartErrRedis, set_prod u h2 (set_qty u h1 s))
                         else (Inr (), spawn (UpsertIncrementTask u items) (set_prod u h2 (set_qty u h1 s)))))))"

definition DeleteItems :: "cart_fault \<Rightarrow> cart_fault \<Rightarrow> int \<Rightarrow> int list \<Rightarrow> cart_svc \<Rightarrow> (cart_error + unit) \<times> cart_svc" where
  "DeleteItems f1 f2 u skus s =
     (if skus = [] then (Inr (), s)
      else
        (case cache_HDel f1 skus (ct_qty s u) of
           (ok1, h1) \<Rightarrow>
             if \<not> ok1 then (Inl CartErrRedis, set_qty u h1 s)
             else
               (case cache_HDel f2 skus (ct_prod s u) of
                  (ok2, h2) \<Rightarrow>
                    if \<not> ok2 then (Inl CartErrRedis, set_prod u h2 (set_qty u h1 s))
                    else (Inr (), spawn (DeleteTask u skus) (set_prod u h2 (set_qty u h1 s))))))"

text \<open>The loop goes over a Go map, in no fixed order; here in the order of the hash.\<close>

definition mapToCart :: "int \<Rightarrow> cart_hash \<Rightarrow> cart_hash \<Rightarrow> Cart" where
  "mapToCart u quantities products =
     \<lparr>ca_user = u,
      ca_items = List.map_filter
        (\<lambda>(sku, quantity).
           if quantity \<le> 0 then None
           else (case map_of products sku of
                   None \<Rightarrow> None
                 | Some p \<Rightarrow> if p = 0 then None else Some \<lparr>ci_prod = p, ci_sku = sku, ci_qty = quantity\<rparr>))
        quantities\<rparr>"

definition cart_from_db :: "bool \<Rightarrow> int \<Rightarrow> cart_svc \<Rightarrow> (cart_error + Cart) \<times> cart_svc" where
  "cart_from_db ok u s =
     (case FindCartByUserID ok u (ct_rows s) of
        Inl e \<Rightarrow> (Inl e, s)
      | Inr daoItems \<Rightarrow>
          if daoItems = [] then (Inr \<lparr>ca_user = u, ca_items = []\<rparr>, s)
          else (Inr \<lparr>ca_user = u, ca_items = map (\<lambda>r. \<lparr>ci_prod = cr_prod r, ci_sku = cr_sku r, ci_qty = cr_qty r\<rparr>) daoItems\<rparr>,
                spawn (WriteBackTask u daoItems) s))"

definition GetCart :: "bool \<Rightarrow> bool \<Rightarrow> bool \<Rightarrow> int \<Rightarrow> cart_svc \<Rightarrow> (cart_error + Cart) \<times> cart_svc" where
  "GetCart ok1 ok2 ok3 u s =
     (if ok1 \<and> ct_qty s u \<noteq> []
      then
        (if \<not> ok2 then (Inl CartErrRedis, s)
         else
           (let cart = mapToCart u (ct_qty s u) (ct_prod s u)
            in if ca_items cart \<noteq> [] then (Inr cart, s) else cart_from_db ok3 u s))
      else cart_from_db ok3 u s)"

text \<open>One \<open>DEL\<close> removes both keys.\<close>

definition EmptyCart :: "cart_fault \<Rightarrow> int \<Rightarrow> cart_svc \<Rightarrow> (cart_error + unit) \<times> cart_svc" where
  "EmptyCart f u s =
     (case f of
        CfOk \<Rightarrow> (Inr (), spawn (EmptyTask u) (set_prod u [] (set_qty u [] s)))
      | CfFail n \<Rightarrow> (Inl CartErrRedis, if n = 0 then s else set_prod u [] (set_qty u [] s)))"

definition ChangeQty :: "cart_fault \<Rightarrow> cart_fault \<Rightarrow> int \<Rightarrow> CartItem \<Rightarrow> cart_svc \<Rightarrow> (cart_error + unit) \<times> cart_svc" where
  "ChangeQty f1 f2 u item s =
     (if ci_sku item = 0 then (Inl CartErrSku, s)
      else if ci_prod item = 0 then (Inl CartErrProduct, s)
      else
        (case cache_HSet f1 (ci_sku item) (ci_qty item) (ct_qty s u) of
           (ok1, h1) \<Rightarrow>
             if \<not> ok1 then (Inl CartErrRedis, set_qty u h1 s)
             else
               (case cache_HSet f2 (ci_sku item) (ci_prod item) (ct_prod s u) of
                  (ok2, h2) \<Rightarrow>
                    if \<not> ok2 then (Inl CartErrRedis, set_prod u h2 (set_qty u h1 s))
                    else (Inr (), spawn (WriteTask u item) (set_prod u h2 (set_qty u h1 s))))))"

definition IncrementQty :: "cart_fault \<Rightarrow> int \<Rightarrow> int \<Rightarrow> cart_svc \<Rightarrow> (cart_error + int) \<times> cart_svc" where
  "IncrementQty f u sku s =
     (if sku = 0 then (Inl CartErrSku, s)
      else
        (case cache_HIncrBy f sku 1 (ct_qty s u) of
           (None, h) \<Rightarrow> (Inl CartErrRedis, set_qty u h s)
         | (Some newQty, h) \<Rightarrow> (Inr newQty, spawn (IncrementTask u sku) (set_qty u h s))))"

definition DecrementQty :: "cart_fault \<Rightarrow> int \<Rightarrow> int \<Rightarrow> cart_svc \<Rightarrow> (cart_error + int) \<times> cart_svc" where
  "DecrementQty f u sku s =
     (if sku = 0 then (Inl CartErrSku, s)
      else
        (case cache_DecrementIfGreaterThanOne f sku (ct_qty s u) of
           (Inl e, h) \<Rightarrow> (Inl e, set_qty u h s)
         | (Inr newQty, h) \<Rightarrow> (Inr newQty, spawn (DecrementTask u sku) (set_qty u h s))))"

section \<open>Goroutines\<close>

definition to_row :: "int \<Rightarrow> CartItem \<Rightarrow> CartRow" where
  "to_row u i = \<lparr>cr_user = u, cr_prod = ci_prod i, cr_sku = ci_sku i, cr_qty = ci_qty i\<rparr>"

definition asyncWriteBackToRedis :: "cart_fault \<Rightarrow> cart_fault \<Rightarrow> int \<Rightarrow> CartRow list \<Rightarrow> cart_svc \<Rightarrow> cart_svc" where
  "asyncWriteBackToRedis f1 f2 u daoItems s =
     (let quantities = fold (\<lambda>r. AList.update (cr_sku r) (cr_qty r)) daoItems [];
          products = fold (\<lambda>r. AList.update (cr_sku r) (cr_prod r)) daoItems []
      in case cache_HSetBatch f1 quantities (ct_qty s u) of
           (ok1, h1) \<Rightarrow>
             if \<not> ok1 then set_qty u h1 s
             else set_prod u (snd (cache_HSetBatch f2 products (ct_prod s u))) (set_qty u h1 s))"

text \<open>An error of the table is logged and dropped.\<close>

definition run_task :: "bool \<Rightarrow> cart_fault \<Rightarrow> cart_fault \<Rightarrow> cart_task \<Rightarrow> cart_svc \<Rightarrow> cart_svc" where
  "run_task ok f1 f2 t s =
     (case t of
        UpsertIncrementTask u items \<Rightarrow> s\<lparr>ct_rows := snd (UpsertIncrementBatch ok u (map (to_row u) items) (ct_rows s))\<rparr>
      | DeleteTask u skus \<Rightarrow> s\<lparr>ct_rows := snd (DeleteBySKUIDs ok u skus (ct_rows s))\<rparr>
      | EmptyTask u \<Rightarrow> s\<lparr>ct_rows := snd (DeleteByUserID ok u (ct_rows s))\<rparr>
      | WriteTask u item \<Rightarrow> s\<lparr>ct_rows := snd (cart_Upsert ok (to_row u item) (ct_rows s))\<rparr>
      | IncrementTask u sku \<Rightarrow> s\<lparr>ct_rows := snd (IncrementQuantity ok u sku (ct_rows s))\<rparr>
      | DecrementTask u sku \<Rightarrow> s\<lparr>ct_rows := snd (DecrementQuantity ok u sku (ct_rows s))\<rparr>
      | WriteBackTask u rows \<Rightarrow> asyncWriteBackToRedis f1 f2 u rows s)"

section \<open>Paid orders\<close>

text \<open>Every outcome is acknowledged.\<close>

definition cart_Consume :: "cart_fault \<Rightarrow> cart_fault \<Rightarrow> OrderStatusUpdateEvent \<Rightarrow> cart_svc \<Rightarrow> cart_svc" where
  "cart_Consume f1 f2 evt s =
     (if ev_status evt \<noteq> OrderStatusPaid \<or> ev_kind evt \<noteq> ''CART'' then s
      else if ev_user evt = 0 \<or> ev_skus evt = [] then s
      else snd (DeleteItems f1 f2 (ev_user evt) (ev_skus evt) s))"

section \<open>gRPC handler\<close>

text \<open>A nil item reads as zeros.\<close>

definition proto_item :: "CartItem option \<Rightarrow> CartItem" where
  "proto_item i = (case i of None \<Rightarrow> \<lparr>ci_prod = 0, ci_sku = 0, ci_qty = 0\<rparr> | Some x \<Rightarrow> x)"

definition handler_AddItem :: "cart_fault \<Rightarrow> cart_fault \<Rightarrow> int \<Rightarrow> CartItem option list \<Rightarrow> cart_svc \<Rightarrow> (cart_error + unit) \<times> cart_svc" where
  "handler_AddItem f1 f2 u items s = AddItems f1 f2 u (map proto_item items) s"

definition handler_DeleteItem :: "cart_fault \<Rightarrow> cart_fault \<Rightarrow> int \<Rightarrow> int list \<Rightarrow> cart_svc \<Rightarrow> (cart_error + unit) \<times> cart_svc" where
  "handler_DeleteItem f1 f2 u skus s = DeleteItems f1 f2 u skus s"

definition handler_GetCart :: "bool \<Rightarrow> bool \<Rightarrow> bool \<Rightarrow> int \<Rightarrow> cart_svc \<Rightarrow> (cart_error + Cart) \<times> cart_svc" where
  "handler_GetCart ok1 ok2 ok3 u s = GetCart ok1 ok2 ok3 u s"

definition handler_EmptyCart :: "cart_fault \<Rightarrow> int \<Rightarrow> cart_svc \<Rightarrow> (cart_error + unit) \<times> cart_svc" where
  "handler_EmptyCart f u s = EmptyCart f u s"

definition handler_ChangeQty :: "cart_fault \<Rightarrow> cart_fault \<Rightarrow> int \<Rightarrow> CartItem option \<Rightarrow> cart_svc \<Rightarrow> (cart_error + unit) \<times> cart_svc" where
  "handler_ChangeQty f1 f2 u item s = ChangeQty f1 f2 u (proto_item item) s"

definition handler_IncrementQty :: "cart_fault \<Rightarrow> int \<Rightarrow> int \<Rightarrow> cart_svc \<Rightarrow> (cart_error + int) \<times> cart_svc" where
  "handler_IncrementQty f u sku s = IncrementQty f u sku s"

definition handler_DecrementQty :: "cart_fault \<Rightarrow> int \<Rightarrow> int \<Rightarrow> cart_svc \<Rightarrow> (cart_error + int) \<times> cart_svc" where
  "handler_DecrementQty f u sku s = DecrementQty f u sku s"

end
