(* ===== verification/CartProps.thy ===== *)
theory CartProps
  imports Cart
begin

text \<open>
  What a cart is, apart from its two stores: for every SKU the product and the quantity.  A locale states
  the write-behind discipline, a cache that is written first and a table that runs the queued writes in
  their order; the cart's hashes, table and goroutines are an instance.
\<close>

section \<open>Write-behind\<close>

locale write_behind =
  fixes cview :: "'c \<Rightarrow> 'v"
    and tview :: "'t \<Rightarrow> 'v"
    and cinv :: "'c \<Rightarrow> bool"
    and tinv :: "'t \<Rightarrow> bool"
    and call :: "'o \<Rightarrow> 'c \<Rightarrow> 'c"
    and queued :: "'o \<Rightarrow> 'c \<Rightarrow> 'q list"
    and run :: "'q \<Rightarrow> 't \<Rightarrow> 't"
    and legal :: "'o \<Rightarrow> 'v \<Rightarrow> bool"
    and spec :: "'o \<Rightarrow> 'v \<Rightarrow> 'v"
  assumes call_inv: "\<lbrakk>cinv c; legal x (cview c)\<rbrakk> \<Longrightarrow> cinv (call x c)"
    and call_view: "\<lbrakk>cinv c; legal x (cview c)\<rbrakk> \<Longrightarrow> cview (call x c) = spec x (cview c)"
    and queued_inv: "\<lbrakk>cinv c; tinv t; tview t = cview c; legal x (cview c)\<rbrakk> \<Longrightarrow> tinv (fold run (queued x c) t)"
    and queued_view: "\<lbrakk>cinv c; tinv t; tview t = cview c; legal x (cview c)\<rbrakk>
      \<Longrightarrow> tview (fold run (queued x c) t) = spec x (cview c)"
begin

text \<open>The table that the queue leads to shows what the cache shows.\<close>

definition in_step :: "'c \<Rightarrow> 'q list \<Rightarrow> 't \<Rightarrow> bool" where
  "in_step c q t \<longleftrightarrow> cinv c \<and> tinv (fold run q t) \<and> tview (fold run q t) = cview c"

lemma in_step_call:
  "\<lbrakk>in_step c q t; legal x (cview c)\<rbrakk> \<Longrightarrow> in_step (call x c) (q @ queued x c) t \<and> cview (call x c) = spec x (cview c)"
  by (simp add: in_step_def call_inv call_view queued_inv queued_view)

lemma in_step_run: "in_step c (x # q) t \<Longrightarrow> in_step c q (run x t)"
  by (simp add: in_step_def)

lemma in_step_drained: "in_step c [] t \<Longrightarrow> tview t = cview c"
  by (simp add: in_step_def)

end

section \<open>Views\<close>

type_synonym cart_view = "int \<Rightarrow> int \<Rightarrow> (int \<times> int) option"

definition hash_view :: "(int \<Rightarrow> cart_hash) \<times> (int \<Rightarrow> cart_hash) \<Rightarrow> cart_view" where
  "hash_view c u sku =
     (case (map_of (snd c u) sku, map_of (fst c u) sku) of (Some p, Some q) \<Rightarrow> Some (p, q) | _ \<Rightarrow> None)"

definition table_view :: "CartRow list \<Rightarrow> cart_view" where
  "table_view rows u sku = map_option (\<lambda>r. (cr_prod r, cr_qty r)) (find_row row_key (u, sku) rows)"

definition pos_view :: "cart_view \<Rightarrow> bool" where
  "pos_view v \<longleftrightarrow> (\<forall>u sku p q. v u sku = Some (p, q) \<longrightarrow> 0 < q \<and> in64 q \<and> p \<noteq> 0)"

definition hash_inv :: "(int \<Rightarrow> cart_hash) \<times> (int \<Rightarrow> cart_hash) \<Rightarrow> bool" where
  "hash_inv c \<longleftrightarrow> (\<forall>u. distinct (map fst (fst c u)) \<and> distinct (map fst (snd c u)) \<and> dom (map_of (fst c u)) = dom (map_of (snd c u)))
     \<and> pos_view (hash_view c)"

definition table_inv :: "CartRow list \<Rightarrow> bool" where
  "table_inv rows \<longleftrightarrow> distinct (map row_key rows) \<and> pos_view (table_view rows)"

lemma map_of_hdel: "map_of (filter (\<lambda>(k, v). k \<notin> S) h) k = (if k \<in> S then None else map_of h k)"
  by (induction h) auto

lemma map_of_cart_update [simp]: "map_of (AList.update k v h) x = (if x = k then Some v else map_of h x)"
  by (simp add: update_conv')

lemma row_key_pair [simp]: "row_key r = (u, sku) \<longleftrightarrow> cr_user r = u \<and> cr_sku r = sku"
  by (simp add: row_key_def)

lemma row_keys_update [simp]:
  "(\<And>r. cr_user (f r) = cr_user r \<and> cr_sku (f r) = cr_sku r) \<Longrightarrow> map row_key (update_where P f rows) = map row_key rows"
  by (rule update_where_keys) (simp add: row_key_def)

lemma find_row_hdel:
  "find_row row_key (u, sku) (filter (\<lambda>r. cr_user r = v \<longrightarrow> cr_sku r \<notin> S) rows)
     = (if u = v \<and> sku \<in> S then None else find_row row_key (u, sku) rows)"
  by (induction rows) auto

lemma find_row_other_user:
  "find_row row_key (u, sku) (filter (\<lambda>r. cr_user r \<noteq> v) rows) = (if u = v then None else find_row row_key (u, sku) rows)"
  by (induction rows) auto

lemma table_view_at:
  assumes "\<And>r. cr_user (f r) = cr_user r \<and> cr_sku (f r) = cr_sku r"
  shows "table_view (update_where (\<lambda>r. cr_user r = u \<and> cr_sku r = sku \<and> Q r) f rows) v x
     = (if v = u \<and> x = sku
        then map_option (\<lambda>r. if Q r then (cr_prod (f r), cr_qty (f r)) else (cr_prod r, cr_qty r)) (find_row row_key (u, sku) rows)
        else table_view rows v x)"
  using assms by (induction rows) (auto simp: table_view_def)

lemma table_view_set:
  assumes "\<And>r. cr_user (f r) = cr_user r \<and> cr_sku (f r) = cr_sku r"
  shows "table_view (update_where (\<lambda>r. cr_user r = u \<and> cr_sku r = sku) f rows) v x
     = (if v = u \<and> x = sku then map_option (\<lambda>r. (cr_prod (f r), cr_qty (f r))) (find_row row_key (u, sku) rows)
        else table_view rows v x)"
  using table_view_at [of f u sku "\<lambda>_. True"] assms by simp

lemma table_view_append:
  "table_view (rows @ [r]) v x
     = (case table_view rows v x of Some y \<Rightarrow> Some y
        | None \<Rightarrow> if cr_user r = v \<and> cr_sku r = x then Some (cr_prod r, cr_qty r) else None)"
  by (simp add: table_view_def find_row_append split: option.split)

section \<open>Operations on carts\<close>

datatype cart_op =
    OpAdd "CartItem list"
  | OpDelete "int list"
  | OpEmpty
  | OpChange CartItem
  | OpInc int
  | OpDec int

definition qty_of :: "(int \<times> int) option \<Rightarrow> int" where
  "qty_of o' = (case o' of None \<Rightarrow> 0 | Some (p, q) \<Rightarrow> q)"

definition add_item :: "CartItem \<Rightarrow> (int \<rightharpoonup> int \<times> int) \<Rightarrow> (int \<rightharpoonup> int \<times> int)" where
  "add_item i c = c(ci_sku i \<mapsto> (ci_prod i, qty_of (c (ci_sku i)) + cart_item_quantity i))"

fun cart_spec :: "cart_op \<Rightarrow> (int \<rightharpoonup> int \<times> int) \<Rightarrow> (int \<rightharpoonup> int \<times> int)" where
  "cart_spec (OpAdd items) c = fold add_item items c"
| "cart_spec (OpDelete skus) c = c |` (- set skus)"
| "cart_spec OpEmpty c = Map.empty"
| "cart_spec (OpChange i) c = c(ci_sku i \<mapsto> (ci_prod i, ci_qty i))"
| "cart_spec (OpInc sku) c = (case c sku of None \<Rightarrow> c | Some (p, q) \<Rightarrow> c(sku \<mapsto> (p, q + 1)))"
| "cart_spec (OpDec sku) c = (case c sku of None \<Rightarrow> c | Some (p, q) \<Rightarrow> if q > 1 then c(sku \<mapsto> (p, q - 1)) else c)"

text \<open>Requests the cart can follow: named SKUs and products, quantities within 64 bits, a positive quantity
  to change to, and an increment of an item that is in the cart.\<close>

fun cart_legal :: "cart_op \<Rightarrow> (int \<rightharpoonup> int \<times> int) \<Rightarrow> bool" where
  "cart_legal (OpAdd items) c \<longleftrightarrow> (\<forall>i \<in> set items. ci_sku i \<noteq> 0 \<and> ci_prod i \<noteq> 0 \<and> in64 (qty_of (fold add_item items c (ci_sku i))))"
| "cart_legal (OpDelete skus) c \<longleftrightarrow> True"
| "cart_legal OpEmpty c \<longleftrightarrow> True"
| "cart_legal (OpChange i) c \<longleftrightarrow> ci_sku i \<noteq> 0 \<and> ci_prod i \<noteq> 0 \<and> 0 < ci_qty i \<and> in64 (ci_qty i)"
| "cart_legal (OpInc sku) c \<longleftrightarrow> sku \<noteq> 0 \<and> (\<exists>p q. c sku = Some (p, q) \<and> in64 (q + 1))"
| "cart_legal (OpDec sku) c \<longleftrightarrow> sku \<noteq> 0"

definition cart_exec :: "cart_op \<Rightarrow> int \<Rightarrow> cart_svc \<Rightarrow> cart_svc" where
  "cart_exec x u s =
     (case x of
        OpAdd items \<Rightarrow> snd (handler_AddItem CfOk CfOk u (map Some items) s)
      | OpDelete skus \<Rightarrow> snd (handler_DeleteItem CfOk CfOk u skus s)
      | OpEmpty \<Rightarrow> snd (handler_EmptyCart CfOk u s)
      | OpChange i \<Rightarrow> snd (handler_ChangeQty CfOk CfOk u (Some i) s)
      | OpInc sku \<Rightarrow> snd (handler_IncrementQty CfOk u sku s)
      | OpDec sku \<Rightarrow> snd (handler_DecrementQty CfOk u sku s))"

text \<open>Every operation writes hashes and table of its own user only, reads no row, and leaves a queue longer
  by its goroutine.\<close>

definition cart_call :: "int \<times> cart_op \<Rightarrow> (int \<Rightarrow> cart_hash) \<times> (int \<Rightarrow> cart_hash) \<Rightarrow> (int \<Rightarrow> cart_hash) \<times> (int \<Rightarrow> cart_hash)" where
  "cart_call x c = (let s = cart_exec (snd x) (fst x) \<lparr>ct_qty = fst c, ct_prod = snd c, ct_rows = [], ct_tasks = []\<rparr> in (ct_qty s, ct_prod s))"

definition cart_queued :: "int \<times> cart_op \<Rightarrow> (int \<Rightarrow> cart_hash) \<times> (int \<Rightarrow> cart_hash) \<Rightarrow> cart_task list" where
  "cart_queued x c = ct_tasks (cart_exec (snd x) (fst x) \<lparr>ct_qty = fst c, ct_prod = snd c, ct_rows = [], ct_tasks = []\<rparr>)"

definition run_rows :: "cart_task \<Rightarrow> CartRow list \<Rightarrow> CartRow list" where
  "run_rows t rows = ct_rows (run_task True CfOk CfOk t \<lparr>ct_qty = \<lambda>_. [], ct_prod = \<lambda>_. [], ct_rows = rows, ct_tasks = []\<rparr>)"

definition at_user :: "int \<Rightarrow> ((int \<rightharpoonup> int \<times> int) \<Rightarrow> (int \<rightharpoonup> int \<times> int)) \<Rightarrow> cart_view \<Rightarrow> cart_view" where
  "at_user u f v = v(u := f (v u))"

section \<open>Adding items\<close>

definition add_total :: "CartItem list \<Rightarrow> int \<Rightarrow> int" where
  "add_total items sku = sum_list (map cart_item_quantity (filter (\<lambda>i. ci_sku i = sku) items))"

definition add_product :: "CartItem list \<Rightarrow> int \<Rightarrow> int" where
  "add_product items sku = ci_prod (last (filter (\<lambda>i. ci_sku i = sku) items))"

definition hash_qty :: "cart_hash \<Rightarrow> int \<Rightarrow> int" where
  "hash_qty h sku = (case map_of h sku of None \<Rightarrow> 0 | Some x \<Rightarrow> x)"

lemma cart_item_quantity_pos [simp]: "0 < cart_item_quantity i"
  by (simp add: cart_item_quantity_def)

lemma add_total_nonneg [simp]: "0 \<le> add_total items sku"
  unfolding add_total_def by (intro sum_list_nonneg) (auto intro: less_imp_le)

lemma add_total_Cons: "add_total (i # items) sku = (if ci_sku i = sku then cart_item_quantity i else 0) + add_total items sku"
  by (simp add: add_total_def)

lemma add_total_none: "sku \<notin> ci_sku ` set items \<Longrightarrow> add_total items sku = 0"
  by (induction items) (auto simp: add_total_Cons, simp add: add_total_def)

lemma add_product_Cons:
  "add_product (i # items) sku = (if ci_sku i = sku \<and> sku \<notin> ci_sku ` set items then ci_prod i else add_product items sku)"
proof (cases "filter (\<lambda>i. ci_sku i = sku) items = []")
  case True
  then have "sku \<notin> ci_sku ` set items" by (auto simp: filter_empty_conv)
  then show ?thesis using True by (simp add: add_product_def)
next
  case False
  then have "sku \<in> ci_sku ` set items" by (force simp: filter_empty_conv)
  then show ?thesis using False by (simp add: add_product_def)
qed

lemma fold_add_item:
  "fold add_item items c sku
     = (if sku \<in> ci_sku ` set items then Some (add_product items sku, qty_of (c sku) + add_total items sku) else c sku)"
proof (induction items arbitrary: c)
  case (Cons i items)
  then show ?case
    by (simp add: add_item_def add_total_Cons add_product_Cons add_total_none qty_of_def image_iff split: option.split)
qed simp

lemma qty_fold_add: "qty_of (fold add_item items c sku) = qty_of (c sku) + add_total items sku"
  by (simp add: fold_add_item add_total_none qty_of_def)

lemma in64_between: "\<lbrakk>0 \<le> x; x \<le> y; in64 y\<rbrakk> \<Longrightarrow> in64 x"
  by (simp add: in64_def)

lemma add_maps_ok:
  assumes "\<forall>i \<in> set items. ci_sku i \<noteq> 0 \<and> ci_prod i \<noteq> 0" "\<forall>sku. 0 \<le> hash_qty qs sku"
    "\<forall>sku \<in> ci_sku ` set items. in64 (hash_qty qs sku + add_total items sku)"
    "distinct (map fst qs)" "distinct (map fst ps)"
  shows "\<exists>qs' ps'. add_maps items (qs, ps) = Inr (qs', ps') \<and> distinct (map fst qs') \<and> distinct (map fst ps')
     \<and> (\<forall>sku. map_of qs' sku = (if sku \<in> ci_sku ` set items then Some (hash_qty qs sku + add_total items sku) else map_of qs sku))
     \<and> (\<forall>sku. map_of ps' sku = (if sku \<in> ci_sku ` set items then Some (add_product items sku) else map_of ps sku))"
  using assms
proof (induction items arbitrary: qs ps)
  case (Cons i items)
  let ?n = "hash_qty qs (ci_sku i) + cart_item_quantity i"
  let ?qs = "AList.update (ci_sku i) ?n qs" and ?ps = "AList.update (ci_sku i) (ci_prod i) ps"
  have n0: "0 \<le> ?n" using Cons.prems(2) cart_item_quantity_pos [of i] by (meson add_nonneg_nonneg less_imp_le)
  moreover have "in64 (hash_qty qs (ci_sku i) + add_total (i # items) (ci_sku i))" using Cons.prems(3) by simp
  ultimately have n: "in64 ?n" "0 \<le> ?n"
    using in64_between [of ?n "hash_qty qs (ci_sku i) + add_total (i # items) (ci_sku i)"] by (simp_all add: add_total_Cons)
  have step: "add_maps (i # items) (qs, ps) = add_maps items (?qs, ?ps)"
    using Cons.prems(1) n(1) by (simp add: Let_def hash_qty_def wrap64_id)
  have h: "hash_qty ?qs sku = (if sku = ci_sku i then ?n else hash_qty qs sku)" for sku
    by (simp add: hash_qty_def)
  have b: "\<forall>sku \<in> ci_sku ` set items. in64 (hash_qty ?qs sku + add_total items sku)"
  proof
    fix sku assume "sku \<in> ci_sku ` set items"
    then have "in64 (hash_qty qs sku + add_total (i # items) sku)" using Cons.prems(3) by auto
    moreover have "hash_qty ?qs sku + add_total items sku = hash_qty qs sku + add_total (i # items) sku"
      by (simp add: h add_total_Cons)
    ultimately show "in64 (hash_qty ?qs sku + add_total items sku)" by simp
  qed
  have p: "\<forall>sku. 0 \<le> hash_qty ?qs sku" using Cons.prems(2) n(2) by (simp add: h)
  have d: "distinct (map fst ?qs)" "distinct (map fst ?ps)" using Cons.prems(4,5) by (simp_all add: distinct_update)
  obtain qs' ps' where r: "add_maps items (?qs, ?ps) = Inr (qs', ps')" "distinct (map fst qs')" "distinct (map fst ps')"
    "\<And>sku. map_of qs' sku = (if sku \<in> ci_sku ` set items then Some (hash_qty ?qs sku + add_total items sku) else map_of ?qs sku)"
    "\<And>sku. map_of ps' sku = (if sku \<in> ci_sku ` set items then Some (add_product items sku) else map_of ?ps sku)"
    using Cons.IH [OF _ p b d] Cons.prems(1) by auto
  have "map_of qs' sku = (if sku \<in> ci_sku ` set (i # items) then Some (hash_qty qs sku + add_total (i # items) sku) else map_of qs sku)" for sku
    by (simp add: r(4) h add_total_Cons add_total_none)
  moreover have "map_of ps' sku = (if sku \<in> ci_sku ` set (i # items) then Some (add_product (i # items) sku) else map_of ps sku)" for sku
    by (simp add: r(5) add_product_Cons)
  ultimately show ?case using r(1-3) unfolding step by blast
qed simp

lemma hincr_fold:
  assumes "distinct (map fst qs)" "\<forall>(k, n) \<in> set qs. in64 (hash_qty h k + n)" "distinct (map fst h)"
  shows "\<exists>h'. fold (\<lambda>(k, n) (ok, h). case hincrby k n h of (r, h') \<Rightarrow> (ok \<and> r \<noteq> None, h')) qs (True, h) = (True, h')
     \<and> distinct (map fst h')
     \<and> (\<forall>k. map_of h' k = (case map_of qs k of None \<Rightarrow> map_of h k | Some n \<Rightarrow> Some (hash_qty h k + n)))"
  using assms
proof (induction qs arbitrary: h)
  case (Cons kn qs)
  obtain k n where kn: "kn = (k, n)" by fastforce
  let ?h = "AList.update k (hash_qty h k + n) h"
  have "hincrby k n h = (Some (hash_qty h k + n), ?h)"
    using Cons.prems(2) by (simp add: hincrby_def Let_def hash_qty_def kn)
  moreover have o: "hash_qty ?h k' = hash_qty h k'" if "k' \<noteq> k" for k' using that by (simp add: hash_qty_def)
  moreover have "\<forall>(k', n) \<in> set qs. in64 (hash_qty ?h k' + n)"
    using Cons.prems(1,2) o by (force simp: kn)
  ultimately obtain h' where h': "fold (\<lambda>(k, n) (ok, h). case hincrby k n h of (r, h') \<Rightarrow> (ok \<and> r \<noteq> None, h')) (kn # qs) (True, h) = (True, h')"
    "distinct (map fst h')" "\<And>x. map_of h' x = (case map_of qs x of None \<Rightarrow> map_of ?h x | Some n \<Rightarrow> Some (hash_qty ?h x + n))"
    using Cons.IH [of ?h] Cons.prems(1,3) by (auto simp: kn distinct_update)
  have "map_of qs k = None" using Cons.prems(1) by (simp add: kn map_of_eq_None_iff)
  then have "map_of h' x = (case map_of (kn # qs) x of None \<Rightarrow> map_of h x | Some n \<Rightarrow> Some (hash_qty h x + n))" for x
    using h'(3) [of x] o [of x] by (cases "x = k") (simp_all add: kn split: option.split)
  then show ?case using h'(1,2) by blast
qed simp

lemma hset_fold:
  assumes "distinct (map fst ps)"
  shows "map_of (fold (\<lambda>(k, v). AList.update k v) ps h) k = (case map_of ps k of None \<Rightarrow> map_of h k | Some v \<Rightarrow> Some v)"
    and "distinct (map fst h) \<Longrightarrow> distinct (map fst (fold (\<lambda>(k, v). AList.update k v) ps h))"
  using assms by (induction ps arbitrary: h) (force simp: distinct_update map_of_eq_None_iff split: option.splits)+


lemma upsert_increment_view:
  assumes "distinct (map row_key rows)" "pos_view (table_view rows)"
    "\<forall>i \<in> set items. ci_prod i \<noteq> 0 \<and> in64 (qty_of (fold add_item items (table_view rows u) (ci_sku i)))"
  shows "\<exists>rows'. upsert_increment (map (\<lambda>i. (to_row u i)\<lparr>cr_qty := cart_item_quantity i\<rparr>) items) rows = Some rows'
     \<and> distinct (map row_key rows') \<and> pos_view (table_view rows')
     \<and> table_view rows' = at_user u (fold add_item items) (table_view rows)"
  using assms
proof (induction items arbitrary: rows)
  case Nil
  then show ?case by (simp add: at_user_def)
next
  case (Cons i items)
  let ?i = "(to_row u i)\<lparr>cr_qty := cart_item_quantity i\<rparr>"
  have k: "row_key ?i = (u, ci_sku i)" by (simp add: row_key_def to_row_def)
  have "0 \<le> qty_of (table_view rows u (ci_sku i))"
    using Cons.prems(2) by (auto simp: qty_of_def pos_view_def split: option.split prod.split intro: less_imp_le)
  then have new: "0 < qty_of (table_view rows u (ci_sku i)) + cart_item_quantity i"
    using cart_item_quantity_pos [of i] by linarith
  have bound: "in64 (qty_of (table_view rows u (ci_sku i)) + cart_item_quantity i)"
  proof -
    have "0 \<le> qty_of (table_view rows u (ci_sku i)) + cart_item_quantity i" using new by simp
    moreover have "in64 (qty_of (fold add_item (i # items) (table_view rows u) (ci_sku i)))" using Cons.prems(3) by simp
    ultimately show ?thesis
      using in64_between [of "qty_of (table_view rows u (ci_sku i)) + cart_item_quantity i"
          "qty_of (table_view rows u (ci_sku i)) + add_total (i # items) (ci_sku i)"]
      unfolding qty_fold_add by (simp add: add_total_Cons)
  qed
  define rows1 where "rows1 = (case find_row row_key (u, ci_sku i) rows of
      None \<Rightarrow> rows @ [?i]
    | Some r \<Rightarrow> update_where (\<lambda>r. row_key r = row_key ?i) (\<lambda>r. r\<lparr>cr_prod := cr_prod ?i, cr_qty := cr_qty r + cr_qty ?i\<rparr>) rows)"
  have sel: "cr_prod ?i = ci_prod i" "cr_qty ?i = cart_item_quantity i" by (simp_all add: to_row_def)
  have step: "upsert_increment (?i # js) rows = upsert_increment js rows1" for js
  proof (cases "find_row row_key (u, ci_sku i) rows")
    case None
    then show ?thesis unfolding rows1_def upsert_increment.simps k by simp
  next
    case (Some r)
    then have "in64 (cr_qty r + cr_qty ?i)" using bound unfolding sel by (simp add: table_view_def qty_of_def)
    then show ?thesis using Some unfolding rows1_def upsert_increment.simps k by simp
  qed
  have d1: "distinct (map row_key rows1)"
    using Cons.prems(1) by (auto simp: rows1_def k find_row_None_iff simp flip: k split: option.split)
  have v1: "table_view rows1 = at_user u (add_item i) (table_view rows)"
  proof (intro ext)
    fix v sku
    show "table_view rows1 v sku = at_user u (add_item i) (table_view rows) v sku"
    proof (cases "find_row row_key (u, ci_sku i) rows")
      case None
      then have n: "table_view rows u (ci_sku i) = None" by (simp add: table_view_def)
      have "rows1 = rows @ [?i]" using None by (simp add: rows1_def)
      then show ?thesis using n
        by (auto simp: table_view_append at_user_def add_item_def qty_of_def to_row_def split: option.split)
    next
      case (Some r)
      then have n: "table_view rows u (ci_sku i) = Some (cr_prod r, cr_qty r)" by (simp add: table_view_def)
      have "rows1 = update_where (\<lambda>r. cr_user r = u \<and> cr_sku r = ci_sku i) (\<lambda>r. r\<lparr>cr_prod := ci_prod i, cr_qty := cr_qty r + cart_item_quantity i\<rparr>) rows"
        unfolding rows1_def k sel using Some by simp
      then show ?thesis using n Some
        by (simp add: table_view_set at_user_def add_item_def qty_of_def)
    qed
  qed
  have d0: "distinct (map row_key rows)" by (rule Cons.prems(1))
  have at: "at_user u (fold add_item (i # items)) (table_view rows) = at_user u (fold add_item items) (table_view rows1)"
    unfolding v1 by (simp add: at_user_def)
  have p1: "pos_view (table_view rows1)"
    unfolding pos_view_def
  proof (intro allI impI)
    fix v sku p q assume tv: "table_view rows1 v sku = Some (p, q)"
    show "0 < q \<and> in64 q \<and> p \<noteq> 0"
    proof (cases "v = u \<and> sku = ci_sku i")
      case True
      then have "p = ci_prod i" "q = qty_of (table_view rows u (ci_sku i)) + cart_item_quantity i"
        using tv by (simp_all add: v1 at_user_def add_item_def)
      then show ?thesis using Cons.prems(3) new bound by simp
    next
      case False
      then have "table_view rows v sku = Some (p, q)" using tv by (auto simp: v1 at_user_def add_item_def split: if_splits)
      then show ?thesis using Cons.prems(2) by (simp add: pos_view_def)
    qed
  qed
  have "table_view rows1 u = add_item i (table_view rows u)" unfolding v1 by (simp add: at_user_def)
  then have "\<forall>j \<in> set items. ci_prod j \<noteq> 0 \<and> in64 (qty_of (fold add_item items (table_view rows1 u) (ci_sku j)))"
    using Cons.prems(3) by simp
  from Cons.IH [OF d1 p1 this] show ?case unfolding at list.map(2) step .
qed


section \<open>The cart is an instance\<close>

text \<open>The effect of every operation on hashes, rows and queue, with Redis answering.\<close>

lemma proto_items [simp]: "proto_item \<circ> Some = id" "proto_item (Some i) = i"
  by (simp_all add: proto_item_def comp_def id_def)

lemma exec_delete:
  "cart_exec (OpDelete skus) u s =
     (if skus = [] then s
      else spawn (DeleteTask u skus) (set_prod u (filter (\<lambda>(k, v). k \<notin> set skus) (ct_prod s u)) (set_qty u (filter (\<lambda>(k, v). k \<notin> set skus) (ct_qty s u)) s)))"
  by (simp add: cart_exec_def handler_DeleteItem_def DeleteItems_def cache_HDel_def hash_call_def)

lemma exec_empty: "cart_exec OpEmpty u s = spawn (EmptyTask u) (set_prod u [] (set_qty u [] s))"
  by (simp add: cart_exec_def handler_EmptyCart_def EmptyCart_def)

lemma exec_change:
  "\<lbrakk>ci_sku i \<noteq> 0; ci_prod i \<noteq> 0\<rbrakk> \<Longrightarrow> cart_exec (OpChange i) u s =
     spawn (WriteTask u i) (set_prod u (AList.update (ci_sku i) (ci_prod i) (ct_prod s u)) (set_qty u (AList.update (ci_sku i) (ci_qty i) (ct_qty s u)) s))"
  by (simp add: cart_exec_def handler_ChangeQty_def ChangeQty_def cache_HSet_def hash_call_def)

lemma exec_inc:
  "\<lbrakk>sku \<noteq> 0; map_of (ct_qty s u) sku = Some q; in64 (q + 1)\<rbrakk> \<Longrightarrow> cart_exec (OpInc sku) u s =
     spawn (IncrementTask u sku) (set_qty u (AList.update sku (q + 1) (ct_qty s u)) s)"
  by (simp add: cart_exec_def handler_IncrementQty_def IncrementQty_def cache_HIncrBy_def hincrby_def Let_def)

lemma exec_dec:
  "sku \<noteq> 0 \<Longrightarrow> cart_exec (OpDec sku) u s =
     (case map_of (ct_qty s u) sku of
        Some q \<Rightarrow> if q > 1 then spawn (DecrementTask u sku) (set_qty u (AList.update sku (q - 1) (ct_qty s u)) s) else s
      | None \<Rightarrow> s)"
  by (simp add: cart_exec_def handler_DecrementQty_def DecrementQty_def cache_DecrementIfGreaterThanOne_def decrement_script_def
      set_qty_def split: option.split)

lemma exec_add:
  assumes "cart_legal (OpAdd items) (hash_view c u)" "hash_inv c" "items \<noteq> []"
  shows "\<exists>h1 h2. (\<forall>s. ct_qty s = fst c \<longrightarrow> ct_prod s = snd c \<longrightarrow>
       cart_exec (OpAdd items) u s = spawn (UpsertIncrementTask u items) (set_prod u h2 (set_qty u h1 s)))
     \<and> distinct (map fst h1) \<and> distinct (map fst h2)
     \<and> (\<forall>sku. map_of h1 sku = (if sku \<in> ci_sku ` set items then Some (hash_qty (fst c u) sku + add_total items sku) else map_of (fst c u) sku))
     \<and> (\<forall>sku. map_of h2 sku = (if sku \<in> ci_sku ` set items then Some (add_product items sku) else map_of (snd c u) sku))"
proof -
  let ?v = "hash_view c u"
  have inv: "distinct (map fst (fst c u))" "distinct (map fst (snd c u))" "dom (map_of (fst c u)) = dom (map_of (snd c u))"
    using assms(2) by (simp_all add: hash_inv_def)
  have "map_of (snd c u) sku = None \<longleftrightarrow> map_of (fst c u) sku = None" for sku using inv(3) by (metis domIff)
  then have q: "qty_of (?v sku) = hash_qty (fst c u) sku" for sku
    by (auto simp: hash_view_def qty_of_def hash_qty_def split: option.split)
  have l: "\<forall>i \<in> set items. ci_sku i \<noteq> 0 \<and> ci_prod i \<noteq> 0"
    "\<forall>sku \<in> ci_sku ` set items. in64 (hash_qty (fst c u) sku + add_total items sku)"
    using assms(1) by (auto simp: qty_fold_add q)
  have pos: "0 \<le> hash_qty (fst c u) sku" for sku
  proof -
    have "0 \<le> qty_of (?v sku)" using assms(2)
      by (auto simp: hash_inv_def pos_view_def qty_of_def split: option.split intro: less_imp_le)
    then show ?thesis by (simp add: q)
  qed
  have t: "\<forall>sku \<in> ci_sku ` set items. in64 (hash_qty [] sku + add_total items sku)"
  proof
    fix sku assume "sku \<in> ci_sku ` set items"
    then have "in64 (hash_qty (fst c u) sku + add_total items sku)" using l(2) by blast
    then have "in64 (add_total items sku)" by (rule in64_between [rotated 2]) (simp_all add: pos)
    then show "in64 (hash_qty [] sku + add_total items sku)" by (simp add: hash_qty_def)
  qed
  obtain qs ps where m: "add_maps items ([], []) = Inr (qs, ps)" "distinct (map fst qs)" "distinct (map fst ps)"
    "\<And>sku. map_of qs sku = (if sku \<in> ci_sku ` set items then Some (add_total items sku) else None)"
    "\<And>sku. map_of ps sku = (if sku \<in> ci_sku ` set items then Some (add_product items sku) else None)"
    using add_maps_ok [OF l(1) _ t, of "[]"] by (auto simp: hash_qty_def)
  have "\<forall>(k, n) \<in> set qs. in64 (hash_qty (fst c u) k + n)"
  proof (intro ballI, clarify)
    fix k n assume "(k, n) \<in> set qs"
    then have "map_of qs k = Some n" using m(2) by simp
    then have "k \<in> ci_sku ` set items" "n = add_total items k" unfolding m(4) by (simp_all split: if_splits)
    then show "in64 (hash_qty (fst c u) k + n)" using l(2) by blast
  qed
  from hincr_fold [OF m(2) this inv(1)] obtain h1 where h1:
    "fold (\<lambda>(k, n) (ok, h). case hincrby k n h of (r, h') \<Rightarrow> (ok \<and> r \<noteq> None, h')) qs (True, fst c u) = (True, h1)"
    "distinct (map fst h1)" "\<And>k. map_of h1 k = (case map_of qs k of None \<Rightarrow> map_of (fst c u) k | Some n \<Rightarrow> Some (hash_qty (fst c u) k + n))"
    by blast
  have "map_of ps (ci_sku (hd items)) \<noteq> None" using assms(3) by (simp add: m(5))
  then have "ps \<noteq> []" by auto
  then have "\<forall>s. ct_qty s = fst c \<longrightarrow> ct_prod s = snd c \<longrightarrow> cart_exec (OpAdd items) u s
      = spawn (UpsertIncrementTask u items) (set_prod u (fold (\<lambda>(k, v). AList.update k v) ps (snd c u)) (set_qty u h1 s))"
    using assms(3) m(1) h1(1)
    by (simp add: cart_exec_def handler_AddItem_def AddItems_def cache_HIncrByBatch_def cache_HSetBatch_def hash_call_def)
  then show ?thesis
    using h1(2,3) hset_fold [OF m(3), of "snd c u"] inv(2)
    by (intro exI [of _ h1] exI [of _ "fold (\<lambda>(k, v). AList.update k v) ps (snd c u)"]) (simp add: m(4,5))
qed


lemma hash_view_at:
  "hash_view (f(u := h1), g(u := h2)) v sku
     = (if v = u then (case (map_of h2 sku, map_of h1 sku) of (Some p, Some q) \<Rightarrow> Some (p, q) | _ \<Rightarrow> None)
        else hash_view (f, g) v sku)"
  by (simp add: hash_view_def)

lemma hash_view_dom: "hash_inv c \<Longrightarrow> map_of (snd c u) sku = None \<longleftrightarrow> map_of (fst c u) sku = None"
  unfolding hash_inv_def by (metis domIff)

lemma hash_view_cases:
  assumes "hash_inv c"
  obtains "hash_view c u sku = None" "map_of (fst c u) sku = None" "map_of (snd c u) sku = None"
  | p q where "hash_view c u sku = Some (p, q)" "map_of (fst c u) sku = Some q" "map_of (snd c u) sku = Some p"
  using hash_view_dom [OF assms, of u sku] by (cases "map_of (fst c u) sku"; cases "map_of (snd c u) sku") (auto simp: hash_view_def)

text \<open>The state of a request of which only the hashes matter.\<close>

definition bare :: "(int \<Rightarrow> cart_hash) \<times> (int \<Rightarrow> cart_hash) \<Rightarrow> cart_svc" where
  "bare c = \<lparr>ct_qty = fst c, ct_prod = snd c, ct_rows = [], ct_tasks = []\<rparr>"

lemma bare_simps [simp]: "ct_qty (bare c) = fst c" "ct_prod (bare c) = snd c" "ct_tasks (bare c) = []"
  by (simp_all add: bare_def)

lemma svc_simps [simp]:
  "ct_qty (spawn t s) = ct_qty s" "ct_prod (spawn t s) = ct_prod s" "ct_rows (spawn t s) = ct_rows s" "ct_tasks (spawn t s) = ct_tasks s @ [t]"
  "ct_qty (set_qty u h s) = (ct_qty s)(u := h)" "ct_prod (set_qty u h s) = ct_prod s" "ct_rows (set_qty u h s) = ct_rows s" "ct_tasks (set_qty u h s) = ct_tasks s"
  "ct_qty (set_prod u h s) = ct_qty s" "ct_prod (set_prod u h s) = (ct_prod s)(u := h)" "ct_rows (set_prod u h s) = ct_rows s" "ct_tasks (set_prod u h s) = ct_tasks s"
  by (simp_all add: spawn_def set_qty_def set_prod_def)

text \<open>What one legal operation does: the hashes of the user, and the goroutine if one is started.\<close>

definition shaped :: "cart_op \<Rightarrow> int \<Rightarrow> (int \<Rightarrow> cart_hash) \<times> (int \<Rightarrow> cart_hash) \<Rightarrow> cart_hash \<Rightarrow> cart_hash \<Rightarrow> cart_task list \<Rightarrow> bool" where
  "shaped x u c h1 h2 ts \<longleftrightarrow>
     (\<forall>s. ct_qty s = fst c \<longrightarrow> ct_prod s = snd c \<longrightarrow>
        cart_exec x u s = s\<lparr>ct_qty := (fst c)(u := h1), ct_prod := (snd c)(u := h2), ct_tasks := ct_tasks s @ ts\<rparr>)
     \<and> distinct (map fst h1) \<and> distinct (map fst h2)
     \<and> (\<forall>sku. map_of h2 sku = map_option fst (cart_spec x (hash_view c u) sku)
            \<and> map_of h1 sku = map_option snd (cart_spec x (hash_view c u) sku))"

lemma svc_update: "spawn t (set_prod u h2 (set_qty u h1 s)) = s\<lparr>ct_qty := (ct_qty s)(u := h1), ct_prod := (ct_prod s)(u := h2), ct_tasks := ct_tasks s @ [t]\<rparr>"
  "spawn t (set_qty u h1 s) = s\<lparr>ct_qty := (ct_qty s)(u := h1), ct_prod := (ct_prod s)(u := ct_prod s u), ct_tasks := ct_tasks s @ [t]\<rparr>"
  by (simp_all add: spawn_def set_qty_def set_prod_def)

lemma hash_parts:
  assumes "hash_inv c"
  shows "distinct (map fst (fst c u))" "distinct (map fst (snd c u))"
    and "map_of (snd c u) sku = map_option fst (hash_view c u sku)" "map_of (fst c u) sku = map_option snd (hash_view c u sku)"
proof -
  show "distinct (map fst (fst c u))" "distinct (map fst (snd c u))" using assms by (simp_all add: hash_inv_def)
  show "map_of (snd c u) sku = map_option fst (hash_view c u sku)" "map_of (fst c u) sku = map_option snd (hash_view c u sku)"
    by (rule hash_view_cases [OF assms, of u sku]; simp)+
qed

lemma distinct_hdel: "distinct (map fst h) \<Longrightarrow> distinct (map fst (filter P h))"
  by (rule distinct_map_filter)

lemma shaped_same:
  assumes "hash_inv c" "\<And>s. ct_qty s = fst c \<Longrightarrow> ct_prod s = snd c \<Longrightarrow> cart_exec x u s = s" "cart_spec x (hash_view c u) = hash_view c u"
  shows "shaped x u c (fst c u) (snd c u) []"
  using hash_parts [OF assms(1)] assms(2,3) by (simp add: shaped_def)

lemma shaped_delete:
  assumes "hash_inv c" "skus \<noteq> []"
  shows "shaped (OpDelete skus) u c (filter (\<lambda>(k, v). k \<notin> set skus) (fst c u)) (filter (\<lambda>(k, v). k \<notin> set skus) (snd c u)) [DeleteTask u skus]"
  using assms(2) hash_parts [OF assms(1), of u]
  by (auto simp: shaped_def exec_delete svc_update map_of_hdel distinct_hdel restrict_map_def)

lemma shaped_empty: "shaped OpEmpty u c [] [] [EmptyTask u]"
  by (simp add: shaped_def exec_empty svc_update)

lemma shaped_change:
  assumes "hash_inv c" "ci_sku i \<noteq> 0" "ci_prod i \<noteq> 0"
  shows "shaped (OpChange i) u c (AList.update (ci_sku i) (ci_qty i) (fst c u)) (AList.update (ci_sku i) (ci_prod i) (snd c u)) [WriteTask u i]"
  using assms(2,3) hash_parts [OF assms(1), of u] by (simp add: shaped_def exec_change svc_update distinct_update)

lemma shaped_inc:
  assumes "hash_inv c" "sku \<noteq> 0" "hash_view c u sku = Some (p, q)" "in64 (q + 1)"
  shows "shaped (OpInc sku) u c (AList.update sku (q + 1) (fst c u)) (snd c u) [IncrementTask u sku]"
proof -
  have "map_of (fst c u) sku = Some q" using hash_parts(4) [OF assms(1), of u sku] assms(3) by simp
  then show ?thesis using assms(2-4) hash_parts [OF assms(1), of u]
    by (auto simp: shaped_def exec_inc svc_update distinct_update)
qed

lemma shaped_dec:
  assumes "hash_inv c" "sku \<noteq> 0" "hash_view c u sku = Some (p, q)" "q > 1"
  shows "shaped (OpDec sku) u c (AList.update sku (q - 1) (fst c u)) (snd c u) [DecrementTask u sku]"
proof -
  have "map_of (fst c u) sku = Some q" using hash_parts(4) [OF assms(1), of u sku] assms(3) by simp
  then show ?thesis using assms(2-4) hash_parts [OF assms(1), of u]
    by (auto simp: shaped_def exec_dec svc_update distinct_update)
qed

lemma dec_nothing:
  assumes "hash_inv c" "sku \<noteq> 0" "\<not> (\<exists>p q. hash_view c u sku = Some (p, q) \<and> q > 1)"
  shows "shaped (OpDec sku) u c (fst c u) (snd c u) []" and "cart_spec (OpDec sku) (hash_view c u) = hash_view c u"
proof -
  show e: "cart_spec (OpDec sku) (hash_view c u) = hash_view c u" using assms(3) by (auto split: option.split)
  show "shaped (OpDec sku) u c (fst c u) (snd c u) []"
    using assms(2,3) hash_parts(4) [OF assms(1), of u sku]
    by (intro shaped_same [OF assms(1) _ e]) (auto simp: exec_dec split: option.split)
qed

lemma shaped_add:
  assumes "hash_inv c" "cart_legal (OpAdd items) (hash_view c u)" "items \<noteq> []"
  shows "\<exists>h1 h2. shaped (OpAdd items) u c h1 h2 [UpsertIncrementTask u items]"
proof -
  have v: "map_of (snd c u) sku = map_option fst (hash_view c u sku)" "map_of (fst c u) sku = map_option snd (hash_view c u sku)"
    "hash_qty (fst c u) sku = qty_of (hash_view c u sku)" for sku
    using hash_parts(3,4) [OF assms(1), of u sku] by (auto simp: hash_qty_def qty_of_def split: option.split)
  obtain h1 h2 where h: "\<forall>s. ct_qty s = fst c \<longrightarrow> ct_prod s = snd c \<longrightarrow>
       cart_exec (OpAdd items) u s = spawn (UpsertIncrementTask u items) (set_prod u h2 (set_qty u h1 s))"
     "distinct (map fst h1)" "distinct (map fst h2)"
     "\<forall>sku. map_of h1 sku = (if sku \<in> ci_sku ` set items then Some (hash_qty (fst c u) sku + add_total items sku) else map_of (fst c u) sku)"
     "\<forall>sku. map_of h2 sku = (if sku \<in> ci_sku ` set items then Some (add_product items sku) else map_of (snd c u) sku)"
    using exec_add [OF assms(2,1,3)] by auto
  then have "shaped (OpAdd items) u c h1 h2 [UpsertIncrementTask u items]"
    using v by (simp add: shaped_def svc_update fold_add_item)
  then show ?thesis by blast
qed


text \<open>The goroutine an operation starts, and when it starts one.\<close>

definition op_task :: "cart_op \<Rightarrow> int \<Rightarrow> cart_task" where
  "op_task x u =
     (case x of
        OpAdd items \<Rightarrow> UpsertIncrementTask u items
      | OpDelete skus \<Rightarrow> DeleteTask u skus
      | OpEmpty \<Rightarrow> EmptyTask u
      | OpChange i \<Rightarrow> WriteTask u i
      | OpInc sku \<Rightarrow> IncrementTask u sku
      | OpDec sku \<Rightarrow> DecrementTask u sku)"

fun op_starts :: "cart_op \<Rightarrow> (int \<rightharpoonup> int \<times> int) \<Rightarrow> bool" where
  "op_starts (OpAdd items) c \<longleftrightarrow> items \<noteq> []"
| "op_starts (OpDelete skus) c \<longleftrightarrow> skus \<noteq> []"
| "op_starts (OpDec sku) c \<longleftrightarrow> (\<exists>p q. c sku = Some (p, q) \<and> q > 1)"
| "op_starts _ c \<longleftrightarrow> True"

lemma exec_shape:
  assumes "hash_inv c" "cart_legal x (hash_view c u)"
  shows "\<exists>h1 h2. shaped x u c h1 h2 (if op_starts x (hash_view c u) then [op_task x u] else [])
     \<and> (op_starts x (hash_view c u) \<or> cart_spec x (hash_view c u) = hash_view c u)"
proof (cases x)
  case (OpAdd items)
  show ?thesis
  proof (cases "items = []")
    case True
    then show ?thesis using shaped_same [OF assms(1), of x u]
      by (auto simp: OpAdd cart_exec_def handler_AddItem_def AddItems_def)
  next
    case False
    then show ?thesis using shaped_add [OF assms(1)] assms(2) by (simp add: OpAdd op_task_def)
  qed
next
  case (OpDelete skus)
  show ?thesis
  proof (cases "skus = []")
    case True
    then have "cart_spec x (hash_view c u) = hash_view c u" by (simp add: OpDelete restrict_map_def)
    then show ?thesis using shaped_same [OF assms(1), of x u] True by (auto simp: OpDelete exec_delete)
  next
    case False
    then show ?thesis using shaped_delete [OF assms(1) False, of u] by (auto simp: OpDelete op_task_def)
  qed
next
  case OpEmpty
  then show ?thesis using shaped_empty [of u c] by (auto simp: op_task_def)
next
  case (OpChange i)
  then show ?thesis using shaped_change [OF assms(1), of i u] assms(2) by (auto simp: op_task_def)
next
  case (OpInc sku)
  then obtain p q where "hash_view c u sku = Some (p, q)" "in64 (q + 1)" "sku \<noteq> 0" using assms(2) by auto
  then show ?thesis using shaped_inc [OF assms(1), of sku u p q] OpInc by (auto simp: op_task_def simp del: cart_spec.simps)
next
  case (OpDec sku)
  then have sku: "sku \<noteq> 0" using assms(2) by simp
  show ?thesis
  proof (cases "op_starts x (hash_view c u)")
    case True
    then obtain p q where "hash_view c u sku = Some (p, q)" "q > 1" by (auto simp: OpDec)
    from shaped_dec [OF assms(1) sku this] show ?thesis using True unfolding OpDec op_task_def by auto
  next
    case False
    then have "\<not> (\<exists>p q. hash_view c u sku = Some (p, q) \<and> q > 1)" by (simp add: OpDec)
    then show ?thesis using dec_nothing [OF assms(1) sku] False unfolding OpDec by (metis (full_types))
  qed
qed

lemma add_product_nonzero: "\<lbrakk>\<forall>i \<in> set items. ci_prod i \<noteq> 0; sku \<in> ci_sku ` set items\<rbrakk> \<Longrightarrow> add_product items sku \<noteq> 0"
  by (induction items) (auto simp: add_product_Cons)

lemma add_total_pos: "sku \<in> ci_sku ` set items \<Longrightarrow> 0 < add_total items sku"
proof (induction items)
  case (Cons i items)
  then show ?case by (cases "ci_sku i = sku") (auto simp: add_total_Cons intro: add_pos_nonneg)
qed simp

lemma spec_pos:
  assumes "pos_view v" "cart_legal x (v u)"
  shows "pos_view (at_user u (cart_spec x) v)"
  unfolding pos_view_def
proof (intro allI impI)
  fix w sku p q assume s: "at_user u (cart_spec x) v w sku = Some (p, q)"
  have old: "v w sku = Some (p, q) \<Longrightarrow> 0 < q \<and> in64 q \<and> p \<noteq> 0" for w sku p q using assms(1) by (simp add: pos_view_def)
  show "0 < q \<and> in64 q \<and> p \<noteq> 0"
  proof (cases "w = u")
    case False
    then show ?thesis using s old by (simp add: at_user_def)
  next
    case True
    then have c: "cart_spec x (v u) sku = Some (p, q)" using s by (simp add: at_user_def)
    show ?thesis
    proof (cases x)
      case (OpAdd items)
      show ?thesis
      proof (cases "sku \<in> ci_sku ` set items")
        case True
        then have pq: "p = add_product items sku" "q = qty_of (v u sku) + add_total items sku"
          using c by (simp_all add: OpAdd fold_add_item)
        have "0 \<le> qty_of (v u sku)" using old by (auto simp: qty_of_def split: option.split intro: less_imp_le)
        moreover have "in64 (qty_of (v u sku) + add_total items sku)" "\<forall>i \<in> set items. ci_prod i \<noteq> 0"
          using assms(2) True by (auto simp: OpAdd qty_fold_add)
        ultimately show ?thesis
          using pq add_total_pos [OF True] add_product_nonzero [OF _ True] by auto
      next
        case False
        then show ?thesis using c old by (simp add: OpAdd fold_add_item)
      qed
    next
      case (OpInc y)
      then obtain p' q' where y: "v u y = Some (p', q')" "in64 (q' + 1)" using assms(2) by auto
      then show ?thesis using c old [OF y(1)] old [of u sku p q] OpInc by (auto split: if_splits)
    next
      case (OpDec y)
      show ?thesis
      proof (cases "\<exists>p' q'. v u y = Some (p', q') \<and> q' > 1 \<and> sku = y")
        case True
        then obtain p' q' where y: "v u y = Some (p', q')" "q' > 1" "sku = y" by blast
        then show ?thesis using c old [OF y(1)] by (auto simp: OpDec in64_def)
      next
        case False
        then have "v u sku = Some (p, q)" using c by (auto simp: OpDec split: option.splits if_splits)
        then show ?thesis by (rule old)
      qed
    qed (use c assms(2) old in \<open>auto simp: restrict_map_def split: if_splits\<close>)
  qed
qed


lemma run_rows_simps [simp]:
  "run_rows (UpsertIncrementTask u items) rows = snd (UpsertIncrementBatch True u (map (to_row u) items) rows)"
  "run_rows (DeleteTask u skus) rows = snd (DeleteBySKUIDs True u skus rows)"
  "run_rows (EmptyTask u) rows = snd (DeleteByUserID True u rows)"
  "run_rows (WriteTask u item) rows = snd (cart_Upsert True (to_row u item) rows)"
  "run_rows (IncrementTask u sku) rows = snd (IncrementQuantity True u sku rows)"
  "run_rows (DecrementTask u sku) rows = snd (DecrementQuantity True u sku rows)"
  by (simp_all add: run_rows_def run_task_def)

lemma row_of_view:
  assumes "table_view rows u sku = Some (p, q)"
  obtains r where "r \<in> set rows" "cr_user r = u" "cr_sku r = sku" "cr_prod r = p" "cr_qty r = q" "find_row row_key (u, sku) rows = Some r"
proof -
  obtain r where r: "find_row row_key (u, sku) rows = Some r" "cr_prod r = p" "cr_qty r = q"
    using assms by (auto simp: table_view_def)
  then show thesis using that [of r] find_row_SomeD [OF r(1)] by simp
qed

lemma row_in_view: "\<lbrakk>distinct (map row_key rows); r \<in> set rows\<rbrakk> \<Longrightarrow> table_view rows (cr_user r) (cr_sku r) = Some (cr_prod r, cr_qty r)"
  using find_row_unique [of row_key rows r] by (simp add: table_view_def row_key_def)

lemma table_run_view:
  assumes "table_inv rows" "cart_legal x (table_view rows u)" "op_starts x (table_view rows u)"
  shows "distinct (map row_key (run_rows (op_task x u) rows))
     \<and> table_view (run_rows (op_task x u) rows) = at_user u (cart_spec x) (table_view rows)"
proof -
  have d: "distinct (map row_key rows)" "pos_view (table_view rows)" using assms(1) by (simp_all add: table_inv_def)
  show ?thesis
  proof (cases x)
    case (OpAdd items)
    have n: "(to_row u i)\<lparr>cr_user := u, cr_qty := (if cr_qty (to_row u i) \<le> 0 then 1 else cr_qty (to_row u i))\<rparr>
        = (to_row u i)\<lparr>cr_qty := cart_item_quantity i\<rparr>" for i
      by (simp add: to_row_def cart_item_quantity_def)
    have "\<forall>i \<in> set items. ci_prod i \<noteq> 0 \<and> in64 (qty_of (fold add_item items (table_view rows u) (ci_sku i)))"
      using assms(2) by (simp add: OpAdd)
    moreover have "cart_spec (OpAdd items) = fold add_item items" by (rule ext) simp
    ultimately show ?thesis using upsert_increment_view [OF d, of items u] assms(3)
      by (auto simp: OpAdd op_task_def UpsertIncrementBatch_def comp_def n)
  next
    case (OpDelete skus)
    then show ?thesis using assms(3) d(1)
      by (auto simp: op_task_def DeleteBySKUIDs_def distinct_map_filter table_view_def [abs_def] find_row_hdel at_user_def restrict_map_def
          intro!: ext)
  next
    case OpEmpty
    then show ?thesis using d(1)
      by (auto simp: op_task_def DeleteByUserID_def distinct_map_filter table_view_def [abs_def] find_row_other_user at_user_def intro!: ext)
  next
    case (OpChange i)
    have k: "row_key (to_row u i) = (u, ci_sku i)" "cr_prod (to_row u i) = ci_prod i" "cr_qty (to_row u i) = ci_qty i"
      by (simp_all add: to_row_def row_key_def)
    show ?thesis
    proof (cases "(u, ci_sku i) \<in> row_key ` set rows")
      case True
      then obtain r where "find_row row_key (u, ci_sku i) rows = Some r" using find_row_None_iff [of row_key "(u, ci_sku i)" rows] by auto
      then show ?thesis using True assms(2) d(1)
        by (auto simp: OpChange op_task_def cart_Upsert_def k table_view_set at_user_def intro!: ext)
    next
      case False
      then have "table_view rows u (ci_sku i) = None" using find_row_None_iff [of row_key "(u, ci_sku i)" rows] by (simp add: table_view_def)
      moreover have "run_rows (op_task x u) rows = rows @ [to_row u i]"
        using False assms(2) by (auto simp: OpChange op_task_def cart_Upsert_def k)
      moreover have "distinct (map row_key (rows @ [to_row u i]))" using False d(1) unfolding map_append list.map k(1) by simp
      ultimately show ?thesis
        by (auto simp: OpChange table_view_append at_user_def to_row_def intro!: ext split: option.split)
    qed
  next
    case (OpInc sku)
    then obtain p q where v: "table_view rows u sku = Some (p, q)" "in64 (q + 1)" using assms(2) by auto
    then obtain r where r: "r \<in> set rows" "cr_user r = u" "cr_sku r = sku" "cr_prod r = p" "cr_qty r = q" "find_row row_key (u, sku) rows = Some r"
      using row_of_view by metis
    have "\<forall>r' \<in> set rows. row_key r' = (u, sku) \<longrightarrow> in64 (cr_qty r' + 1)"
      using row_in_view [OF d(1)] v by fastforce
    then have "run_rows (op_task x u) rows = update_where (\<lambda>r. cr_user r = u \<and> cr_sku r = sku) (\<lambda>r. r\<lparr>cr_qty := cr_qty r + 1\<rparr>) rows"
      by (auto simp: OpInc op_task_def IncrementQuantity_def)
    then show ?thesis using v(1) r(4-6) d(1) by (auto simp: OpInc table_view_set at_user_def intro!: ext)
  next
    case (OpDec sku)
    then obtain p q where v: "table_view rows u sku = Some (p, q)" "q > 1" using assms(3) by auto
    then obtain r where r: "r \<in> set rows" "cr_user r = u" "cr_sku r = sku" "cr_prod r = p" "cr_qty r = q" "find_row row_key (u, sku) rows = Some r"
      using row_of_view by metis
    then have "rows_affected (\<lambda>r. cr_user r = u \<and> cr_sku r = sku \<and> cr_qty r > 1) rows \<noteq> 0"
      using v(2) by (auto simp: rows_affected_zero)
    then have "run_rows (op_task x u) rows
        = update_where (\<lambda>r. cr_user r = u \<and> cr_sku r = sku \<and> cr_qty r > 1) (\<lambda>r. r\<lparr>cr_qty := cr_qty r - 1\<rparr>) rows"
      by (simp add: OpDec op_task_def DecrementQuantity_def conj_assoc)
    then show ?thesis using v r(4-6) d(1) by (auto simp: OpDec table_view_at at_user_def intro!: ext)
  qed
qed

text \<open>The model's definitions satisfy the contract.\<close>

lemma call_shape:
  assumes "hash_inv c" "cart_legal (snd x) (hash_view c (fst x))"
  obtains h1 h2 ts where "shaped (snd x) (fst x) c h1 h2 ts" "cart_call x c = ((fst c)(fst x := h1), (snd c)(fst x := h2))" "cart_queued x c = ts"
    "ts = (if op_starts (snd x) (hash_view c (fst x)) then [op_task (snd x) (fst x)] else [])"
    "op_starts (snd x) (hash_view c (fst x)) \<or> cart_spec (snd x) (hash_view c (fst x)) = hash_view c (fst x)"
proof -
  define ts where "ts = (if op_starts (snd x) (hash_view c (fst x)) then [op_task (snd x) (fst x)] else [])"
  obtain h1 h2 where h: "shaped (snd x) (fst x) c h1 h2 ts"
    "op_starts (snd x) (hash_view c (fst x)) \<or> cart_spec (snd x) (hash_view c (fst x)) = hash_view c (fst x)"
    using exec_shape [OF assms] by (auto simp: ts_def)
  have "cart_exec (snd x) (fst x) (bare c) = (bare c)\<lparr>ct_qty := (fst c)(fst x := h1), ct_prod := (snd c)(fst x := h2), ct_tasks := ct_tasks (bare c) @ ts\<rparr>"
    using h(1) by (simp add: shaped_def)
  then have "cart_call x c = ((fst c)(fst x := h1), (snd c)(fst x := h2))" "cart_queued x c = ts"
    by (simp_all add: cart_call_def cart_queued_def bare_def [symmetric] Let_def)
  then show thesis using that h ts_def by blast
qed

interpretation cart: write_behind hash_view table_view hash_inv table_inv cart_call cart_queued run_rows
  "\<lambda>x v. cart_legal (snd x) (v (fst x))" "\<lambda>x. at_user (fst x) (cart_spec (snd x))"
proof
  fix c :: "(int \<Rightarrow> cart_hash) \<times> (int \<Rightarrow> cart_hash)" and x :: "int \<times> cart_op" and t
  assume i: "hash_inv c" and l: "cart_legal (snd x) (hash_view c (fst x))"
  obtain h1 h2 ts where h: "shaped (snd x) (fst x) c h1 h2 ts" "cart_call x c = ((fst c)(fst x := h1), (snd c)(fst x := h2))"
    "cart_queued x c = ts" "ts = (if op_starts (snd x) (hash_view c (fst x)) then [op_task (snd x) (fst x)] else [])"
    "op_starts (snd x) (hash_view c (fst x)) \<or> cart_spec (snd x) (hash_view c (fst x)) = hash_view c (fst x)"
    by (rule call_shape [OF i l])
  have m: "\<And>sku. map_of h2 sku = map_option fst (cart_spec (snd x) (hash_view c (fst x)) sku)"
    "\<And>sku. map_of h1 sku = map_option snd (cart_spec (snd x) (hash_view c (fst x)) sku)" "distinct (map fst h1)" "distinct (map fst h2)"
    using h(1) by (simp_all add: shaped_def)
  show v: "hash_view (cart_call x c) = at_user (fst x) (cart_spec (snd x)) (hash_view c)"
    by (intro ext) (auto simp: h(2) hash_view_at at_user_def m split: option.split)
  have "dom (map_of h1) = dom (map_of h2)" by (auto simp: dom_def m)
  then show "hash_inv (cart_call x c)"
    using i m(3,4) spec_pos [of "hash_view c" "snd x" "fst x"] l v by (auto simp: hash_inv_def h(2))
  assume ti: "table_inv t" and tv: "table_view t = hash_view c"
  show "table_view (fold run_rows (cart_queued x c) t) = at_user (fst x) (cart_spec (snd x)) (hash_view c)"
    using table_run_view [OF ti, of "snd x" "fst x"] l h(3-5) tv by (cases "op_starts (snd x) (hash_view c (fst x))") (simp_all add: at_user_def)
  show "table_inv (fold run_rows (cart_queued x c) t)"
    using table_run_view [OF ti, of "snd x" "fst x"] l h(3-5) tv ti spec_pos [of "hash_view c" "snd x" "fst x"] i
    by (cases "op_starts (snd x) (hash_view c (fst x))") (simp_all add: table_inv_def hash_inv_def)
qed

end
