(* ===== verification/CartSpec.thy ===== *)
theory CartSpec
  imports CartProps
begin

text \<open>
  The properties of the cart service: what its requests do to a user's cart, that the table follows the
  cache, and where the two part.
\<close>

abbreviation hashes :: "cart_svc \<Rightarrow> (int \<Rightarrow> cart_hash) \<times> (int \<Rightarrow> cart_hash)" where
  "hashes s \<equiv> (ct_qty s, ct_prod s)"

definition cart_ok :: "cart_svc \<Rightarrow> bool" where
  "cart_ok s \<longleftrightarrow> cart.in_step (hashes s) (ct_tasks s) (ct_rows s) \<and> (\<forall>u rows. WriteBackTask u rows \<notin> set (ct_tasks s))"

text \<open>Requests in their order, each goroutine some time after the request that started it, in the order of
  the requests.\<close>

inductive cart_run :: "(int \<times> cart_op) list \<Rightarrow> cart_svc \<Rightarrow> cart_svc \<Rightarrow> bool" where
  cn_start: "cart_run [] s s"
| cn_op: "\<lbrakk>cart_run ops s s1; cart_legal x (hash_view (hashes s1) u)\<rbrakk> \<Longrightarrow> cart_run (ops @ [(u, x)]) s (cart_exec x u s1)"
| cn_task: "\<lbrakk>cart_run ops s s1; ct_tasks s1 = t # ts\<rbrakk> \<Longrightarrow> cart_run ops s (run_task True CfOk CfOk t (s1\<lparr>ct_tasks := ts\<rparr>))"

lemma run_task_rows: "(\<And>u rows. t \<noteq> WriteBackTask u rows) \<Longrightarrow> run_task True CfOk CfOk t s = s\<lparr>ct_rows := run_rows t (ct_rows s)\<rparr>"
  by (cases t) (auto simp: run_task_def)

lemma op_task_not_back: "op_task x u \<noteq> WriteBackTask v rows"
  by (cases x) (simp_all add: op_task_def)

lemma exec_legal:
  assumes "hash_inv (hashes s)" "cart_legal x (hash_view (hashes s) u)"
  shows "hashes (cart_exec x u s) = cart_call (u, x) (hashes s)" "ct_rows (cart_exec x u s) = ct_rows s"
    "ct_tasks (cart_exec x u s) = ct_tasks s @ cart_queued (u, x) (hashes s)"
    "WriteBackTask v rows \<notin> set (cart_queued (u, x) (hashes s))"
proof -
  obtain h1 h2 ts where h: "shaped x u (hashes s) h1 h2 ts" "cart_call (u, x) (hashes s) = ((ct_qty s)(u := h1), (ct_prod s)(u := h2))"
    "cart_queued (u, x) (hashes s) = ts" "ts = (if op_starts x (hash_view (hashes s) u) then [op_task x u] else [])"
    "op_starts x (hash_view (hashes s) u) \<or> cart_spec x (hash_view (hashes s) u) = hash_view (hashes s) u"
    by (rule call_shape [where c = "hashes s" and x = "(u, x)", unfolded fst_conv snd_conv, OF assms])
  have "cart_exec x u s = s\<lparr>ct_qty := (ct_qty s)(u := h1), ct_prod := (ct_prod s)(u := h2), ct_tasks := ct_tasks s @ ts\<rparr>"
    using h(1) by (simp add: shaped_def)
  then show "hashes (cart_exec x u s) = cart_call (u, x) (hashes s)" "ct_rows (cart_exec x u s) = ct_rows s"
    "ct_tasks (cart_exec x u s) = ct_tasks s @ cart_queued (u, x) (hashes s)"
    using h(2,3) by simp_all
  show "WriteBackTask v rows \<notin> set (cart_queued (u, x) (hashes s))" using h(3,4) op_task_not_back [of x u v rows] by auto
qed

lemma ok_inv: "cart_ok s \<Longrightarrow> hash_inv (hashes s)"
  by (simp add: cart_ok_def cart.in_step_def)

lemma ok_exec:
  assumes "cart_ok s" "cart_legal x (hash_view (hashes s) u)"
  shows "cart_ok (cart_exec x u s) \<and> hash_view (hashes (cart_exec x u s)) = at_user u (cart_spec x) (hash_view (hashes s))"
  using cart.in_step_call [of "hashes s" "ct_tasks s" "ct_rows s" "(u, x)"] assms exec_legal [OF ok_inv [OF assms(1)] assms(2)]
  by (auto simp: cart_ok_def)

lemma ok_task:
  assumes "cart_ok s" "ct_tasks s = t # ts"
  shows "cart_ok (run_task True CfOk CfOk t (s\<lparr>ct_tasks := ts\<rparr>)) \<and> hashes (run_task True CfOk CfOk t (s\<lparr>ct_tasks := ts\<rparr>)) = hashes s"
proof -
  have "run_task True CfOk CfOk t (s\<lparr>ct_tasks := ts\<rparr>) = s\<lparr>ct_tasks := ts, ct_rows := run_rows t (ct_rows s)\<rparr>"
    using run_task_rows [of t "s\<lparr>ct_tasks := ts\<rparr>"] assms by (auto simp: cart_ok_def)
  then show ?thesis using assms cart.in_step_run [of "hashes s" t ts "ct_rows s"] by (simp add: cart_ok_def)
qed

lemma run_ok:
  assumes "cart_run ops s s'" "cart_ok s"
  shows "cart_ok s' \<and> hash_view (hashes s') = fold (\<lambda>(u, x). at_user u (cart_spec x)) ops (hash_view (hashes s))"
  using assms
proof induction
  case (cn_op ops s s1 x u)
  then show ?case using ok_exec [of s1 x u] by simp
next
  case (cn_task ops s s1 t ts)
  then show ?case using ok_task [of s1 t ts] by simp
qed simp


definition empty_carts :: cart_svc where
  "empty_carts = \<lparr>ct_qty = \<lambda>_. [], ct_prod = \<lambda>_. [], ct_rows = [], ct_tasks = []\<rparr>"

lemma empty_carts_ok: "cart_ok empty_carts"
  by (simp add: cart_ok_def cart.in_step_def empty_carts_def hash_inv_def table_inv_def pos_view_def hash_view_def table_view_def fun_eq_iff)

definition tea :: CartItem where "tea = \<lparr>ci_prod = 1, ci_sku = 10, ci_qty = 2\<rparr>"
definition cup :: CartItem where "cup = \<lparr>ci_prod = 2, ci_sku = 20, ci_qty = 0\<rparr>"

text \<open>A user adds tea, a cup and tea again, and takes one tea out before any goroutine has run.\<close>

definition cart1 :: cart_svc where
  "cart1 = cart_exec (OpDec 10) 7 (cart_exec (OpAdd [tea, cup, tea]) 7 empty_carts)"

definition cart2 :: cart_svc where
  "cart2 = fold (run_task True CfOk CfOk) (ct_tasks cart1) (cart1\<lparr>ct_tasks := []\<rparr>)"

lemma cart_steps:
  "cart_run [(7, OpAdd [tea, cup, tea]), (7, OpDec 10)] empty_carts cart2"
proof -
  have "cart_run [] empty_carts empty_carts" by (rule cn_start)
  then have "cart_run ([] @ [(7, OpAdd [tea, cup, tea])]) empty_carts (cart_exec (OpAdd [tea, cup, tea]) 7 empty_carts)"
    by (rule cn_op) (simp add: empty_carts_def hash_view_def tea_def cup_def add_item_def qty_of_def cart_item_quantity_def in64_def)
  then have "cart_run (([] @ [(7, OpAdd [tea, cup, tea])]) @ [(7, OpDec 10)]) empty_carts cart1"
    unfolding cart1_def by (rule cn_op) simp
  moreover have t: "ct_tasks cart1 = [UpsertIncrementTask 7 [tea, cup, tea], DecrementTask 7 10]"
    by code_simp
  ultimately have "cart_run (([] @ [(7, OpAdd [tea, cup, tea])]) @ [(7, OpDec 10)]) empty_carts
      (run_task True CfOk CfOk (UpsertIncrementTask 7 [tea, cup, tea]) (cart1\<lparr>ct_tasks := [DecrementTask 7 10]\<rparr>))"
    by (rule cn_task)
  then have "cart_run (([] @ [(7, OpAdd [tea, cup, tea])]) @ [(7, OpDec 10)]) empty_carts
      (run_task True CfOk CfOk (DecrementTask 7 10) ((run_task True CfOk CfOk (UpsertIncrementTask 7 [tea, cup, tea]) (cart1\<lparr>ct_tasks := [DecrementTask 7 10]\<rparr>))\<lparr>ct_tasks := []\<rparr>))"
    by (rule cn_task) (simp add: run_task_def)
  moreover have "run_task True CfOk CfOk (DecrementTask 7 10) ((run_task True CfOk CfOk (UpsertIncrementTask 7 [tea, cup, tea]) (cart1\<lparr>ct_tasks := [DecrementTask 7 10]\<rparr>))\<lparr>ct_tasks := []\<rparr>)
      = cart2"
    by (simp add: cart2_def t run_task_def)
  ultimately show ?thesis by simp
qed



section \<open>Reading a cart\<close>

lemma map_filter_all: "(\<And>x. x \<in> set xs \<Longrightarrow> f x = Some (g x)) \<Longrightarrow> List.map_filter f xs = map g xs"
  by (induction xs) (simp_all add: map_filter_simps)

lemma hash_known:
  assumes "hash_inv c" "map_of (fst c u) sku = Some q"
  shows "\<exists>p. hash_view c u sku = Some (p, q) \<and> map_of (snd c u) sku = Some p"
  using assms(2) by (cases rule: hash_view_cases [OF assms(1), of u sku]) auto

lemma mapToCart_items:
  assumes "hash_inv c"
  shows "ca_items (mapToCart u (fst c u) (snd c u)) = map (\<lambda>(sku, q). \<lparr>ci_prod = the (map_of (snd c u) sku), ci_sku = sku, ci_qty = q\<rparr>) (fst c u)"
  unfolding mapToCart_def Cart.Cart.select_convs
proof (rule map_filter_all)
  fix kq assume m: "kq \<in> set (fst c u)"
  obtain sku q where kq: "kq = (sku, q)" by fastforce
  then have "map_of (fst c u) sku = Some q" using m hash_parts(1) [OF assms, of u] by (simp add: map_of_is_SomeI)
  then obtain p where p: "hash_view c u sku = Some (p, q)" "map_of (snd c u) sku = Some p" using hash_known [OF assms] by blast
  then have "0 < q" "p \<noteq> 0" using assms by (auto simp: hash_inv_def pos_view_def)
  moreover note p(2)
  ultimately show "(\<lambda>(sku, quantity). if quantity \<le> 0 then None
           else (case map_of (snd c u) sku of None \<Rightarrow> None
                 | Some p \<Rightarrow> if p = 0 then None else Some \<lparr>ci_prod = p, ci_sku = sku, ci_qty = quantity\<rparr>)) kq
      = Some ((\<lambda>(sku, q). \<lparr>ci_prod = the (map_of (snd c u) sku), ci_sku = sku, ci_qty = q\<rparr>) kq)"
    using kq by simp
qed

text \<open>A cart read from the cache: one line for every SKU in the user's hash.\<close>

lemma read_hash:
  assumes "hash_inv (hashes s)" "ct_qty s u \<noteq> []"
  shows "\<exists>cart. handler_GetCart True True ok u s = (Inr cart, s) \<and> ca_user cart = u \<and> distinct (map ci_sku (ca_items cart))
     \<and> ci_sku ` set (ca_items cart) = dom (hash_view (hashes s) u)
     \<and> (\<forall>i. i \<in> set (ca_items cart) \<longleftrightarrow> hash_view (hashes s) u (ci_sku i) = Some (ci_prod i, ci_qty i))"
proof -
  let ?cart = "mapToCart u (ct_qty s u) (ct_prod s u)"
  have it: "ca_items ?cart = map (\<lambda>(sku, q). \<lparr>ci_prod = the (map_of (ct_prod s u) sku), ci_sku = sku, ci_qty = q\<rparr>) (ct_qty s u)"
    using mapToCart_items [OF assms(1), of u] by simp
  have d: "distinct (map fst (ct_qty s u))" using hash_parts(1) [OF assms(1), of u] by simp
  have skus: "map ci_sku (ca_items ?cart) = map fst (ct_qty s u)" by (simp add: it case_prod_beta)
  have "ca_items ?cart \<noteq> []" using assms(2) by (simp add: it)
  then have g: "handler_GetCart True True ok u s = (Inr ?cart, s)" using assms(2) by (simp add: handler_GetCart_def GetCart_def Let_def)
  have dom: "dom (hash_view (hashes s) u) = fst ` set (ct_qty s u)"
    using hash_parts(4) [OF assms(1), of u] by (auto simp: dom_map_of_conv_image_fst [symmetric] dom_def)
  have mem: "i \<in> set (ca_items ?cart) \<longleftrightarrow> hash_view (hashes s) u (ci_sku i) = Some (ci_prod i, ci_qty i)" for i
  proof
    assume "i \<in> set (ca_items ?cart)"
    then obtain sku q where i: "(sku, q) \<in> set (ct_qty s u)" "i = \<lparr>ci_prod = the (map_of (ct_prod s u) sku), ci_sku = sku, ci_qty = q\<rparr>"
      by (auto simp: it)
    then have "map_of (ct_qty s u) sku = Some q" using d by simp
    then obtain p where "hash_view (hashes s) u sku = Some (p, q)" "map_of (ct_prod s u) sku = Some p"
      using hash_known [OF assms(1), of u sku q] by auto
    then show "hash_view (hashes s) u (ci_sku i) = Some (ci_prod i, ci_qty i)" using i(2) by simp
  next
    assume v: "hash_view (hashes s) u (ci_sku i) = Some (ci_prod i, ci_qty i)"
    then have "map_of (ct_qty s u) (ci_sku i) = Some (ci_qty i)" "map_of (ct_prod s u) (ci_sku i) = Some (ci_prod i)"
      using hash_parts(3,4) [OF assms(1), of u "ci_sku i"] by auto
    then show "i \<in> set (ca_items ?cart)" unfolding it using map_of_SomeD by (force intro!: image_eqI [of _ _ "(ci_sku i, ci_qty i)"])
  qed
  have "ca_user ?cart = u" by (simp add: mapToCart_def)
  then show ?thesis using g skus d dom mem by (metis list.set_map)
qed

text \<open>Reading a cart changes nothing and returns, once each, exactly the products and quantities that the
  requests left in it.\<close>

theorem cart_read:
  assumes "cart_ok s" "ct_tasks s = [] \<or> ct_qty s u \<noteq> []"
  shows "\<exists>cart. handler_GetCart True True True u s = (Inr cart, s) \<and> ca_user cart = u \<and> distinct (map ci_sku (ca_items cart))
     \<and> (\<forall>i. i \<in> set (ca_items cart) \<longleftrightarrow> hash_view (hashes s) u (ci_sku i) = Some (ci_prod i, ci_qty i))"
proof (cases "ct_qty s u = []")
  case True
  have v: "hash_view (hashes s) u = Map.empty" by (rule ext) (simp add: hash_view_def True split: option.split)
  have t: "table_view (ct_rows s) = hash_view (hashes s)" "distinct (map row_key (ct_rows s))"
    using assms True by (auto simp: cart_ok_def cart.in_step_def table_inv_def)
  have "filter (\<lambda>r. cr_user r = u) (ct_rows s) = []"
    using row_in_view [OF t(2)] v unfolding t(1) by (force simp: filter_empty_conv)
  then have "handler_GetCart True True True u s = (Inr \<lparr>ca_user = u, ca_items = []\<rparr>, s)"
    using True by (simp add: handler_GetCart_def GetCart_def cart_from_db_def FindCartByUserID_def)
  then show ?thesis using v by simp
next
  case False
  then show ?thesis using read_hash [OF ok_inv [OF assms(1)]] by blast
qed

lemma cart_read_witness:
  "\<exists>cart. handler_GetCart True True True 7 cart2 = (Inr cart, cart2) \<and> \<lparr>ci_prod = 1, ci_sku = 10, ci_qty = 3\<rparr> \<in> set (ca_items cart)"
proof -
  have "cart_ok cart2" using run_ok [OF cart_steps empty_carts_ok] by simp
  moreover have "ct_tasks cart2 = []" "hash_view (hashes cart2) 7 10 = Some (1, 3)" by code_simp+
  ultimately show ?thesis using cart_read [of cart2 7] by fastforce
qed

section \<open>Paid orders\<close>

text \<open>Paying an order takes its SKUs out of the buyer's cart, and out of no other: an event of any other
  status or kind changes no cart.  A deletion that Redis does not answer is lost, for the event is
  acknowledged all the same.\<close>

theorem cart_paid_order:
  assumes "cart_ok s"
  shows "cart_ok (cart_Consume CfOk CfOk (BuildOrderStatusUpdateEvent ord) s)
     \<and> hash_view (hashes (cart_Consume CfOk CfOk (BuildOrderStatusUpdateEvent ord) s))
         = (if o_status ord = OrderStatusPaid \<and> o_kind ord = ''CART'' \<and> o_user ord \<noteq> 0
            then at_user (o_user ord) (\<lambda>c. c |` (- it_sku ` set (o_items ord))) (hash_view (hashes s))
            else hash_view (hashes s))
     \<and> cart_Consume (CfFail 0) f (BuildOrderStatusUpdateEvent ord) s = s"
proof -
  let ?e = "BuildOrderStatusUpdateEvent ord"
  have same: "cart_Consume (CfFail 0) f ?e s = s"
    by (simp add: cart_Consume_def DeleteItems_def cache_HDel_def hash_call_def set_qty_def)
  show ?thesis
  proof (cases "o_status ord = OrderStatusPaid \<and> o_kind ord = ''CART'' \<and> o_user ord \<noteq> 0")
    case True
    then have e: "ev_user ?e = o_user ord" "ev_skus ?e = map it_sku (o_items ord)"
      by (simp_all add: BuildOrderStatusUpdateEvent_def OrderKindCart_def)
    have "cart_Consume CfOk CfOk ?e s = cart_exec (OpDelete (map it_sku (o_items ord))) (o_user ord) s"
      using True by (simp add: cart_Consume_def e cart_exec_def handler_DeleteItem_def DeleteItems_def)
    moreover have "at_user (o_user ord) (cart_spec (OpDelete (map it_sku (o_items ord)))) v
        = at_user (o_user ord) (\<lambda>c. c |` (- it_sku ` set (o_items ord))) v" for v
      by (simp add: at_user_def)
    ultimately show ?thesis using ok_exec [OF assms, of "OpDelete (map it_sku (o_items ord))" "o_user ord"] True same by simp
  next
    case False
    then have "cart_Consume CfOk CfOk ?e s = s"
      by (auto simp: cart_Consume_def BuildOrderStatusUpdateEvent_def OrderKindCart_def Let_def)
    then show ?thesis using False assms same by auto
  qed
qed


definition tea_order :: Order where
  "tea_order = \<lparr>o_id = 5, o_user = 7, o_remark = [],
     o_addr = \<lparr>ad_street = [], ad_city = [], ad_state = [], ad_country = [], ad_zipcode = [], ad_phone = []\<rparr>,
     o_status = OrderStatusPaid, o_kind = ''CART'', o_activity = 0, o_created_at = 0, o_expire_at = 0,
     o_total = \<lparr>am_currency = ''CNY'', am_total = 3000\<rparr>, o_payable = \<lparr>am_currency = ''CNY'', am_total = 3000\<rparr>,
     o_discount = \<lparr>am_currency = ''CNY'', am_total = 0\<rparr>,
     o_items = [\<lparr>it_product = 1, it_sku = 10, it_quantity = 3, it_snapshot_price = 1000, it_snapshot_currency = ''CNY'', it_price = 1000\<rparr>]\<rparr>"

lemma cart_paid_order_witness:
  "hash_view (hashes (cart_Consume CfOk CfOk (BuildOrderStatusUpdateEvent tea_order) cart2)) 7 10 = None
     \<and> hash_view (hashes (cart_Consume CfOk CfOk (BuildOrderStatusUpdateEvent tea_order) cart2)) 7 20 = Some (2, 1)"
proof -
  have "cart_ok cart2" using run_ok [OF cart_steps empty_carts_ok] by simp
  moreover have "hash_view (hashes cart2) 7 20 = Some (2, 1)" by code_simp
  ultimately show ?thesis using cart_paid_order [of cart2 tea_order] by (simp add: tea_order_def at_user_def)
qed

section \<open>Where cache and table part\<close>

lemma fold_rows_hash:
  assumes "distinct (map cr_sku rs)"
  shows "map_of (fold (\<lambda>r. AList.update (cr_sku r) (g r)) rs h) k = (case find_row cr_sku k rs of Some r \<Rightarrow> Some (g r) | None \<Rightarrow> map_of h k)"
    and "distinct (map fst h) \<Longrightarrow> distinct (map fst (fold (\<lambda>r. AList.update (cr_sku r) (g r)) rs h))"
proof -
  show "map_of (fold (\<lambda>r. AList.update (cr_sku r) (g r)) rs h) k = (case find_row cr_sku k rs of Some r \<Rightarrow> Some (g r) | None \<Rightarrow> map_of h k)"
    using assms
  proof (induction rs arbitrary: h)
    case (Cons r rs)
    have "cr_sku r = k \<Longrightarrow> find_row cr_sku k rs = None" using Cons.prems by (auto simp: find_row_None_iff)
    then show ?case using Cons by (auto split: option.split)
  qed simp
  show "distinct (map fst h) \<Longrightarrow> distinct (map fst (fold (\<lambda>r. AList.update (cr_sku r) (g r)) rs h))"
    by (induction rs arbitrary: h) (simp_all add: distinct_update)
qed

lemma find_row_of_user: "find_row cr_sku k (filter (\<lambda>r. cr_user r = u) rows) = find_row row_key (u, k) rows"
  by (induction rows) auto

lemma rows_of_user_skus:
  "distinct (map row_key rows) \<Longrightarrow> distinct (map cr_sku (filter (\<lambda>r. cr_user r = u) rows))"
  by (induction rows) (auto simp: row_key_def image_iff)

text \<open>Writing a user's rows back to two missing keys shows the cart of the rows.\<close>

lemma write_back_view:
  assumes "distinct (map row_key rows)" "ct_qty s u = []" "ct_prod s u = []" "rs = filter (\<lambda>r. cr_user r = u) rows"
  shows "hash_view (hashes (asyncWriteBackToRedis CfOk CfOk u rs s)) u = table_view rows u"
    and "ct_rows (asyncWriteBackToRedis CfOk CfOk u rs s) = ct_rows s"
proof -
  have d: "distinct (map cr_sku rs)" using rows_of_user_skus [OF assms(1)] assms(4) by simp
  have m: "map_of (fold (\<lambda>(k, v). AList.update k v) (fold (\<lambda>r. AList.update (cr_sku r) (g r)) rs []) []) k
      = map_option g (find_row cr_sku k rs)" for g k
    using hset_fold(1) [OF fold_rows_hash(2) [OF d, of "[]" g], of "[]" k] fold_rows_hash(1) [OF d, of g "[]" k]
    by (simp split: option.split)
  have e: "snd (cache_HSetBatch CfOk ps []) = fold (\<lambda>(k, v). AList.update k v) ps []" "fst (cache_HSetBatch CfOk ps [])" for ps
    by (simp_all add: cache_HSetBatch_def hash_call_def)
  have r: "asyncWriteBackToRedis CfOk CfOk u rs s
      = set_prod u (fold (\<lambda>(k, v). AList.update k v) (fold (\<lambda>r. AList.update (cr_sku r) (cr_prod r)) rs []) [])
          (set_qty u (fold (\<lambda>(k, v). AList.update k v) (fold (\<lambda>r. AList.update (cr_sku r) (cr_qty r)) rs []) []) s)"
    using e [of "fold (\<lambda>r. AList.update (cr_sku r) (cr_qty r)) rs []"] e(1) [of "fold (\<lambda>r. AList.update (cr_sku r) (cr_prod r)) rs []"] assms(2,3)
    by (simp add: asyncWriteBackToRedis_def Let_def case_prod_beta)
  have k: "find_row cr_sku x rs = find_row row_key (u, x) rows" for x by (simp add: assms(4) find_row_of_user)
  show "hash_view (hashes (asyncWriteBackToRedis CfOk CfOk u rs s)) u = table_view rows u"
    unfolding r by (rule ext) (simp add: hash_view_def m k table_view_def split: option.split)
  show "ct_rows (asyncWriteBackToRedis CfOk CfOk u rs s) = ct_rows s" by (simp add: r)
qed

text \<open>A cart that was emptied can come back.  When the cart is read before the goroutine has deleted its
  rows, the reader is given the old cart, and its goroutine writes that cart back to Redis: once both have
  run the table holds nothing of the user and the cache all of the old cart again.\<close>

theorem cart_resurrected:
  assumes "cart_ok s" "ct_tasks s = []" "hash_view (hashes s) u sku = Some (p, q)"
    "handler_EmptyCart CfOk u s = (Inr (), s1)" "handler_GetCart True True True u s1 = (r, s2)"
    "s3 = fold (run_task True CfOk CfOk) (ct_tasks s2) s2"
  shows "(\<exists>c. r = Inr c \<and> \<lparr>ci_prod = p, ci_sku = sku, ci_qty = q\<rparr> \<in> set (ca_items c))
     \<and> (\<forall>x \<in> set (ct_rows s3). cr_user x \<noteq> u) \<and> hash_view (hashes s3) u = hash_view (hashes s) u"
proof -
  have t: "table_view (ct_rows s) = hash_view (hashes s)" "distinct (map row_key (ct_rows s))"
    using assms(1,2) by (auto simp: cart_ok_def cart.in_step_def table_inv_def)
  have s1: "s1 = spawn (EmptyTask u) (set_prod u [] (set_qty u [] s))"
    using assms(4) by (simp add: handler_EmptyCart_def EmptyCart_def)
  let ?rs = "filter (\<lambda>x. cr_user x = u) (ct_rows s)"
  obtain x where x: "x \<in> set (ct_rows s)" "cr_user x = u" "cr_sku x = sku" "cr_prod x = p" "cr_qty x = q"
    by (rule row_of_view [of "ct_rows s" u sku p q]) (use assms(3) t(1) in auto)
  then have ne: "?rs \<noteq> []" by (auto simp: filter_empty_conv)
  have g: "r = Inr \<lparr>ca_user = u, ca_items = map (\<lambda>r. \<lparr>ci_prod = cr_prod r, ci_sku = cr_sku r, ci_qty = cr_qty r\<rparr>) ?rs\<rparr>" "s2 = spawn (WriteBackTask u ?rs) s1"
    using assms(5) ne by (auto simp: handler_GetCart_def GetCart_def cart_from_db_def FindCartByUserID_def s1)
  define s4 where "s4 = s2\<lparr>ct_rows := filter (\<lambda>x. cr_user x \<noteq> u) (ct_rows s)\<rparr>"
  have s3: "s3 = asyncWriteBackToRedis CfOk CfOk u ?rs s4"
    unfolding assms(6) s4_def g(2) s1 using assms(2) by (simp add: run_task_def DeleteByUserID_def)
  have "ct_qty s4 u = []" "ct_prod s4 u = []" by (simp_all add: s4_def g(2) s1)
  from write_back_view [OF t(2) this refl] have "hash_view (hashes s3) u = hash_view (hashes s) u" "ct_rows s3 = ct_rows s4"
    unfolding s3 t(1) by auto
  moreover have "\<lparr>ci_prod = p, ci_sku = sku, ci_qty = q\<rparr> \<in> set (map (\<lambda>r. \<lparr>ci_prod = cr_prod r, ci_sku = cr_sku r, ci_qty = cr_qty r\<rparr>) ?rs)"
    using x by (force simp: image_iff)
  ultimately show ?thesis using g(1) by (simp add: s4_def)
qed

lemma cart_resurrected_witness:
  "\<exists>s1 r s2. handler_EmptyCart CfOk 7 cart2 = (Inr (), s1) \<and> handler_GetCart True True True 7 s1 = (r, s2)
     \<and> hash_view (hashes (fold (run_task True CfOk CfOk) (ct_tasks s2) s2)) 7 10 = Some (1, 3)"
proof -
  have ok: "cart_ok cart2" using run_ok [OF cart_steps empty_carts_ok] by simp
  have v: "ct_tasks cart2 = []" "hash_view (hashes cart2) 7 10 = Some (1, 3)" by code_simp+
  obtain s1 where s1: "handler_EmptyCart CfOk 7 cart2 = (Inr (), s1)" by (simp add: handler_EmptyCart_def EmptyCart_def)
  obtain r s2 where "handler_GetCart True True True 7 s1 = (r, s2)" by fastforce
  from cart_resurrected [OF ok v s1 this refl] show ?thesis using v(2) s1 \<open>handler_GetCart True True True 7 s1 = (r, s2)\<close> by auto
qed


text \<open>Hashes that expired hide the table.  After a week without writes Redis has dropped both keys of a
  user whose rows are still there: an item added then makes a cart of that item alone, although the table
  has the old items and the new one, and no item of the table can be decremented.\<close>

theorem cart_expired:
  assumes "hash_inv (hashes s)" "table_inv (ct_rows s)" "ct_tasks s = []" "ct_qty s u = []" "ct_prod s u = []"
    "items \<noteq> []" "cart_legal (OpAdd items) (table_view (ct_rows s) u)" "s1 = snd (handler_AddItem CfOk CfOk u (map Some items) s)"
    "sku \<noteq> 0"
  shows "(\<exists>c. handler_GetCart True True True u s1 = (Inr c, s1) \<and> ci_sku ` set (ca_items c) = ci_sku ` set items)
     \<and> table_view (fold run_rows (ct_tasks s1) (ct_rows s1)) u = fold add_item items (table_view (ct_rows s) u)
     \<and> handler_DecrementQty CfOk u sku s = (Inl CartErrDecrement, s)"
proof -
  have v: "hash_view (hashes s) u = Map.empty" by (rule ext) (simp add: hash_view_def assms(4) split: option.split)
  have s1: "s1 = cart_exec (OpAdd items) u s" using assms(8) by (simp add: cart_exec_def)
  have old: "0 \<le> qty_of (table_view (ct_rows s) u x)" for x
    using assms(2) by (auto simp: table_inv_def pos_view_def qty_of_def split: option.split intro: less_imp_le)
  have legal: "cart_legal (OpAdd items) (hash_view (hashes s) u)"
    unfolding v cart_legal.simps
  proof (intro ballI conjI)
    fix i assume i: "i \<in> set items"
    have t: "ci_sku i \<noteq> 0 \<and> ci_prod i \<noteq> 0 \<and> in64 (qty_of (fold add_item items (table_view (ct_rows s) u) (ci_sku i)))"
      using assms(7) i by simp
    then show "ci_sku i \<noteq> 0" "ci_prod i \<noteq> 0" by simp_all
    have "in64 (qty_of (table_view (ct_rows s) u (ci_sku i)) + add_total items (ci_sku i))" using t by (simp add: qty_fold_add)
    then have "in64 (add_total items (ci_sku i))" by (rule in64_between [rotated 2]) (simp_all add: old)
    then show "in64 (qty_of (fold add_item items Map.empty (ci_sku i)))" by (simp add: qty_fold_add) (simp add: qty_of_def)
  qed
  note ex = exec_legal [OF assms(1) legal]
  have q: "cart_queued (u, OpAdd items) (hashes s) = [op_task (OpAdd items) u]"
    using call_shape [where c = "hashes s" and x = "(u, OpAdd items)", unfolded fst_conv snd_conv, OF assms(1) legal] assms(6) by (metis op_starts.simps(1))
  have hv: "hash_inv (hashes s1)" "hash_view (hashes s1) u = fold add_item items Map.empty"
    using cart.call_inv [of "hashes s" "(u, OpAdd items)"] cart.call_view [of "hashes s" "(u, OpAdd items)"] assms(1) legal v
    unfolding s1 ex(1) by (simp_all add: at_user_def)
  have dom: "dom (hash_view (hashes s1) u) = ci_sku ` set items" unfolding hv(2) by (auto simp: dom_def fold_add_item split: if_splits)
  have "ct_qty s1 u \<noteq> []"
  proof
    assume "ct_qty s1 u = []"
    then have "hash_view (hashes s1) u = Map.empty" by (intro ext) (simp add: hash_view_def split: option.split)
    then show False using dom assms(6) by simp
  qed
  from read_hash [OF hv(1) this, of True] have "\<exists>c. handler_GetCart True True True u s1 = (Inr c, s1) \<and> ci_sku ` set (ca_items c) = ci_sku ` set items"
    using dom by auto
  moreover have "table_view (fold run_rows (ct_tasks s1) (ct_rows s1)) u = fold add_item items (table_view (ct_rows s) u)"
    using table_run_view [OF assms(2,7)] assms(3,6) unfolding s1 ex(2,3) q by (simp add: at_user_def)
  moreover have "handler_DecrementQty CfOk u sku s = (Inl CartErrDecrement, s)"
    using assms(4,9) by (simp add: handler_DecrementQty_def DecrementQty_def cache_DecrementIfGreaterThanOne_def decrement_script_def set_qty_def fun_upd_idem)
  ultimately show ?thesis by blast
qed

text \<open>The cart with tea and a cup, a week later.\<close>

definition cart3 :: cart_svc where
  "cart3 = cart2\<lparr>ct_qty := \<lambda>_. [], ct_prod := \<lambda>_. []\<rparr>"

lemma cart_expired_witness:
  "\<exists>c. handler_GetCart True True True 7 (snd (handler_AddItem CfOk CfOk 7 [Some cup] cart3)) = (Inr c, snd (handler_AddItem CfOk CfOk 7 [Some cup] cart3))
     \<and> ci_sku ` set (ca_items c) = {20} \<and> table_view (ct_rows cart3) 7 10 = Some (1, 3)"
proof -
  have "cart_ok cart2" using run_ok [OF cart_steps empty_carts_ok] by simp
  moreover have t: "ct_tasks cart2 = []" by code_simp
  ultimately have ti: "table_inv (ct_rows cart3)" by (simp add: cart_ok_def cart.in_step_def cart3_def)
  have h: "hash_inv (hashes cart3)" by (simp add: cart3_def hash_inv_def pos_view_def hash_view_def)
  have v: "table_view (ct_rows cart3) 7 10 = Some (1, 3)" "table_view (ct_rows cart3) 7 20 = Some (2, 1)" by code_simp+
  have "cart_legal (OpAdd [cup]) (table_view (ct_rows cart3) 7)"
    using v(2) by (simp add: add_item_def cup_def qty_of_def cart_item_quantity_def in64_def)
  then show ?thesis
    using cart_expired [OF h ti _ _ _ _ _ refl, where u = 7 and items = "[cup]" and sku = 10] t v(1)
    by (simp add: cart3_def) (simp add: cup_def)
qed

end
