(* ===== verification/ActivityConsumer.thy ===== *)
theory ActivityConsumer
  imports Prelude "HOL-Library.AList" "HOL-Library.Multiset"
begin

text \<open>
  \<open>pkg/activityconsumer\<close>: a consumer that bounds the concurrency of each activity inside
  one process.  The shards are association lists from activity ids to \<open>ActivityState\<close>, the
  metrics are counters, the \<open>ants\<close> pool is a library, so whether it accepts a task is an
  input.  Each critical section under the lock of a state is one function here, together with
  the counter updates that follow it; the goroutines between two such sections are the
  \<open>thread\<close>s of \<open>sys\<close>, and \<open>ac_step\<close> lets any of them take its next section, so that every
  interleaving of the sections is a sequence of steps.  \<open>accepted\<close>, \<open>finished\<close> and
  \<open>rejected\<close> are ghost logs of the tasks whose \<open>HandleMessage\<close> took them in, which ran, and
  whose \<open>HandleMessage\<close> returned the pool's refusal.
\<close>

section \<open>Types\<close>

datatype goctx = NilCtx | Background | WithoutCancel goctx | CallerCtx nat

record 'p Message =
  ActivityID :: int
  RequestID :: string
  Payload :: 'p

record Config =
  PoolSize :: int
  PerActivityLimit :: int
  PerActivityMailboxSize :: int
  ActivityTTL :: int
  GCInterval :: int
  ShardCount :: int

datatype ac_error =
    ErrActivityBusy | ErrMailboxFull | ErrConsumerClosed | ErrInvalidConfig string
  | ErrNilProcessFunc | ErrPool string

definition validate :: "Config \<Rightarrow> ac_error option" where
  "validate c =
     (if PoolSize c \<le> 0 then Some (ErrInvalidConfig ''pool size must be > 0'')
      else if PerActivityLimit c \<le> 0 then Some (ErrInvalidConfig ''per-activity limit must be > 0'')
      else if PerActivityMailboxSize c < 0 then
        Some (ErrInvalidConfig ''per-activity mailbox size must be >= 0'')
      else if ActivityTTL c \<le> 0 then Some (ErrInvalidConfig ''activity TTL must be > 0'')
      else if GCInterval c \<le> 0 then Some (ErrInvalidConfig ''GC interval must be > 0'')
      else if ShardCount c \<le> 0 then Some (ErrInvalidConfig ''shard count must be > 0'')
      else None)"

section \<open>The state of one activity\<close>

record 'p queuedTask =
  tctx :: goctx
  tmsg :: "'p Message"

record 'p ActivityState =
  inflight :: int
  mailbox :: "'p queuedTask list"
  lastTouch :: int

definition newActivityState :: "int \<Rightarrow> 'p ActivityState" where
  "newActivityState now = \<lparr>inflight = 0, mailbox = [], lastTouch = now\<rparr>"

definition touchLocked :: "int \<Rightarrow> 'p ActivityState \<Rightarrow> 'p ActivityState" where
  "touchLocked now s = s\<lparr>lastTouch := now\<rparr>"

definition mailboxLenLocked :: "'p ActivityState \<Rightarrow> int" where
  "mailboxLenLocked s = int (length (mailbox s))"

definition enqueueLocked :: "'p queuedTask \<Rightarrow> int \<Rightarrow> 'p ActivityState \<Rightarrow> 'p ActivityState" where
  "enqueueLocked task now s = s\<lparr>mailbox := mailbox s @ [task], lastTouch := now\<rparr>"

definition prependBatchLocked ::
  "'p queuedTask list \<Rightarrow> int \<Rightarrow> 'p ActivityState \<Rightarrow> 'p ActivityState" where
  "prependBatchLocked tasks now s =
     (if tasks = [] then s\<lparr>lastTouch := now\<rparr>
      else s\<lparr>mailbox := tasks @ mailbox s, lastTouch := now\<rparr>)"

definition drainMailboxLocked ::
  "int \<Rightarrow> int \<Rightarrow> 'p ActivityState \<Rightarrow> 'p queuedTask list \<times> 'p ActivityState" where
  "drainMailboxLocked limit now s =
     (let room = limit - inflight s in
      if room \<le> 0 \<or> mailbox s = [] then ([], s\<lparr>lastTouch := now\<rparr>)
      else
        let room = nat (if room > int (length (mailbox s)) then int (length (mailbox s)) else room) in
        (take room (mailbox s),
         s\<lparr>mailbox := drop room (mailbox s), inflight := inflight s + int room, lastTouch := now\<rparr>))"

definition isIdleLocked :: "int \<Rightarrow> int \<Rightarrow> 'p ActivityState \<Rightarrow> bool" where
  "isIdleLocked now ttl s \<longleftrightarrow> inflight s = 0 \<and> mailbox s = [] \<and> now - lastTouch s > ttl"

section \<open>The consumer\<close>

record consumerMetrics =
  activeActivities :: int
  totalInflight :: int
  totalBuffered :: int
  directDispatches :: int
  mailboxEnqueues :: int
  activityBusyCount :: int
  mailboxFullCount :: int
  submitFailureCount :: int
  processErrorCount :: int

record 'p Consumer =
  cfg :: Config
  shards :: "(int \<times> 'p ActivityState) list list"
  closed :: bool
  gcRunning :: bool
  metrics :: consumerMetrics

definition no_metrics :: consumerMetrics where
  "no_metrics = \<lparr>activeActivities = 0, totalInflight = 0, totalBuffered = 0, directDispatches = 0,
     mailboxEnqueues = 0, activityBusyCount = 0, mailboxFullCount = 0, submitFailureCount = 0,
     processErrorCount = 0\<rparr>"

definition StartGC :: "'p Consumer \<Rightarrow> 'p Consumer" where
  "StartGC c = (if closed c then c else if gcRunning c then c else c\<lparr>gcRunning := True\<rparr>)"

definition StopGC :: "'p Consumer \<Rightarrow> 'p Consumer" where
  "StopGC c = (if \<not> gcRunning c then c else c\<lparr>gcRunning := False\<rparr>)"

text \<open>\<open>newpool\<close> is \<open>ants.NewPool\<close>: the error it returns for a size, if any.\<close>

definition NewConsumer ::
  "(int \<Rightarrow> string option) \<Rightarrow> Config \<Rightarrow> bool \<Rightarrow> ac_error + 'p Consumer" where
  "NewConsumer newpool config process_nil =
     (if process_nil then Inl ErrNilProcessFunc
      else (case validate config of
        Some e \<Rightarrow> Inl e
      | None \<Rightarrow>
          (case newpool (PoolSize config) of
             Some e \<Rightarrow> Inl (ErrPool (''create ants pool: '' @ e))
           | None \<Rightarrow> Inr (StartGC \<lparr>cfg = config, shards = replicate (nat (ShardCount config)) [],
               closed = False, gcRunning = False, metrics = no_metrics\<rparr>))))"

definition Close :: "'p Consumer \<Rightarrow> 'p Consumer" where
  "Close c = (if closed c then c else StopGC (c\<lparr>closed := True\<rparr>))"

definition detachContext :: "goctx \<Rightarrow> goctx" where
  "detachContext ctx = (if ctx = NilCtx then Background else WithoutCancel ctx)"

text \<open>The conversion \<open>uint64(activityID)\<close> is the residue modulo \<open>2 ^ 64\<close>.\<close>

definition shardFor :: "'p Consumer \<Rightarrow> int \<Rightarrow> nat" where
  "shardFor c activityID = nat ((activityID mod 2 ^ 64) mod int (length (shards c)))"

definition lookup_state :: "'p Consumer \<Rightarrow> int \<Rightarrow> 'p ActivityState option" where
  "lookup_state c activityID = map_of (shards c ! shardFor c activityID) activityID"

definition store_state :: "int \<Rightarrow> 'p ActivityState \<Rightarrow> 'p Consumer \<Rightarrow> 'p Consumer" where
  "store_state activityID st c =
     c\<lparr>shards := (shards c)[shardFor c activityID :=
                  AList.update activityID st (shards c ! shardFor c activityID)]\<rparr>"

definition lockOrCreateState ::
  "int \<Rightarrow> int \<Rightarrow> 'p Consumer \<Rightarrow> 'p ActivityState \<times> 'p Consumer" where
  "lockOrCreateState activityID now c =
     (case lookup_state c activityID of
        Some state \<Rightarrow> (state, c)
      | None \<Rightarrow>
          (let state = newActivityState now;
               c1 = store_state activityID state c
           in (state, c1\<lparr>metrics := (metrics c1)\<lparr>activeActivities := activeActivities (metrics c1) + 1\<rparr>\<rparr>)))"

text \<open>\<open>None\<close> is the panic of \<open>lockExistingState\<close>.\<close>

definition lockExistingState :: "int \<Rightarrow> 'p Consumer \<Rightarrow> 'p ActivityState option" where
  "lockExistingState activityID c = lookup_state c activityID"

definition lockStateIfPresent :: "int \<Rightarrow> 'p Consumer \<Rightarrow> 'p ActivityState option" where
  "lockStateIfPresent activityID c = lookup_state c activityID"

definition ActivityMailboxLen :: "int \<Rightarrow> 'p Consumer \<Rightarrow> int \<times> bool" where
  "ActivityMailboxLen activityID c =
     (case lockStateIfPresent activityID c of
        None \<Rightarrow> (0, False)
      | Some state \<Rightarrow> (mailboxLenLocked state, True))"

definition ActiveActivities :: "'p Consumer \<Rightarrow> int" where
  "ActiveActivities c = activeActivities (metrics c)"

definition TotalInflight :: "'p Consumer \<Rightarrow> int" where
  "TotalInflight c = totalInflight (metrics c)"

text \<open>What \<open>HandleMessage\<close> does under the lock: \<open>Direct\<close> when it goes on to \<open>submitDirect\<close>.\<close>

datatype 'p handled = Direct "'p queuedTask" | Queued "'p queuedTask" | Refused_with ac_error

definition HandleMessage ::
  "goctx \<Rightarrow> 'p Message \<Rightarrow> int \<Rightarrow> 'p Consumer \<Rightarrow> 'p handled \<times> 'p Consumer" where
  "HandleMessage ctx msg now c =
     (if closed c then (Refused_with ErrConsumerClosed, c)
      else
        let task = \<lparr>tctx = detachContext ctx, tmsg = msg\<rparr>;
            (state, c) = lockOrCreateState (ActivityID msg) now c;
            m = metrics c in
        if inflight state < PerActivityLimit (cfg c) then
          (Direct task,
           (store_state (ActivityID msg) (touchLocked now (state\<lparr>inflight := inflight state + 1\<rparr>)) c)
             \<lparr>metrics := m\<lparr>directDispatches := directDispatches m + 1, totalInflight := totalInflight m + 1\<rparr>\<rparr>)
        else if PerActivityMailboxSize (cfg c) = 0 then
          (Refused_with ErrActivityBusy,
           (store_state (ActivityID msg) (touchLocked now state) c)
             \<lparr>metrics := m\<lparr>activityBusyCount := activityBusyCount m + 1\<rparr>\<rparr>)
        else if mailboxLenLocked state \<ge> PerActivityMailboxSize (cfg c) then
          (Refused_with ErrMailboxFull,
           (store_state (ActivityID msg) (touchLocked now state) c)
             \<lparr>metrics := m\<lparr>mailboxFullCount := mailboxFullCount m + 1\<rparr>\<rparr>)
        else
          (Queued task,
           (store_state (ActivityID msg) (enqueueLocked task now state) c)
             \<lparr>metrics := m\<lparr>mailboxEnqueues := mailboxEnqueues m + 1, totalBuffered := totalBuffered m + 1\<rparr>\<rparr>))"

definition rollbackDirectSubmit :: "int \<Rightarrow> int \<Rightarrow> 'p Consumer \<Rightarrow> 'p Consumer option" where
  "rollbackDirectSubmit activityID now c =
     (case lockExistingState activityID c of
        None \<Rightarrow> None
      | Some state \<Rightarrow>
          (let state = (if inflight state > 0 then state\<lparr>inflight := inflight state - 1\<rparr> else state);
               m = metrics c in
           Some ((store_state activityID (touchLocked now state) c)
             \<lparr>metrics := m\<lparr>totalInflight := totalInflight m - 1\<rparr>\<rparr>)))"

definition rollbackMailboxBatch ::
  "int \<Rightarrow> 'p queuedTask list \<Rightarrow> int \<Rightarrow> 'p Consumer \<Rightarrow> 'p Consumer option" where
  "rollbackMailboxBatch activityID tasks now c =
     (if tasks = [] then Some c
      else (case lockExistingState activityID c of
        None \<Rightarrow> None
      | Some state \<Rightarrow>
          (let n = int (length tasks);
               state = state\<lparr>inflight := (if inflight state \<ge> n then inflight state - n else 0)\<rparr>;
               m = metrics c in
           Some ((store_state activityID (prependBatchLocked tasks now state) c)
             \<lparr>metrics := m\<lparr>totalInflight := totalInflight m - n, totalBuffered := totalBuffered m + n\<rparr>\<rparr>))))"

definition onTaskDone ::
  "int \<Rightarrow> int \<Rightarrow> 'p Consumer \<Rightarrow> ('p queuedTask list \<times> 'p Consumer) option" where
  "onTaskDone activityID now c =
     (case lockExistingState activityID c of
        None \<Rightarrow> None
      | Some state \<Rightarrow>
          (let state = (if inflight state > 0 then state\<lparr>inflight := inflight state - 1\<rparr> else state);
               (nxt, state) = drainMailboxLocked (PerActivityLimit (cfg c)) now (touchLocked now state);
               m = (metrics c)\<lparr>totalInflight := totalInflight (metrics c) - 1\<rparr>;
               n = int (length nxt);
               m = (if nxt = [] then m
                    else m\<lparr>totalInflight := totalInflight m + n, totalBuffered := totalBuffered m - n\<rparr>)
           in Some (nxt, (store_state activityID state c)\<lparr>metrics := m\<rparr>)))"

text \<open>One shard of \<open>runGC\<close>, under the lock of the shard, and the loop over the shards.\<close>

definition gc_shard :: "int \<Rightarrow> nat \<Rightarrow> 'p Consumer \<Rightarrow> 'p Consumer" where
  "gc_shard now i c =
     (let idle = (\<lambda>(activityID, state). isIdleLocked now (ActivityTTL (cfg c)) state);
          shard = shards c ! i;
          m = metrics c
      in c\<lparr>shards := (shards c)[i := filter (\<lambda>e. \<not> idle e) shard],
           metrics := m\<lparr>activeActivities := activeActivities m - int (length (filter idle shard))\<rparr>\<rparr>)"

definition runGC :: "int \<Rightarrow> 'p Consumer \<Rightarrow> 'p Consumer" where
  "runGC now c = fold (gc_shard now) [0 ..< length (shards c)] c"

section \<open>Goroutines and steps\<close>

text \<open>
  A goroutine in \<open>submitDirect\<close> before \<open>pool.Submit\<close>, and after a refusal; one in
  \<open>submitMailboxBatch\<close> with the tasks still to submit, and after a refusal; a worker of the
  pool that runs a task.
\<close>

datatype 'p thread =
    Submitting "'p queuedTask"
  | RolledBack "'p queuedTask"
  | Batch int "'p queuedTask list"
  | Returned int "'p queuedTask list"
  | Running "'p queuedTask"

datatype proc_result = ProcOk | ProcErr string | ProcPanic string

record 'p sys =
  cons :: "'p Consumer"
  threads :: "'p thread list"
  accepted :: "'p queuedTask list"
  rejected :: "'p queuedTask list"
  finished :: "'p queuedTask list"

definition task_activity :: "'p queuedTask \<Rightarrow> int" where
  "task_activity t = ActivityID (tmsg t)"

definition count_submit_failure :: "'p Consumer \<Rightarrow> 'p Consumer" where
  "count_submit_failure c =
     c\<lparr>metrics := (metrics c)\<lparr>submitFailureCount := submitFailureCount (metrics c) + 1\<rparr>\<rparr>"

text \<open>\<open>pool.Submit\<close> in \<open>submitDirect\<close> and in the loop of \<open>submitMailboxBatch\<close>.\<close>

definition submitDirect :: "bool \<Rightarrow> 'p queuedTask \<Rightarrow> 'p Consumer \<Rightarrow> 'p thread list \<times> 'p Consumer" where
  "submitDirect pool_ok task c =
     (if pool_ok then ([Running task], c) else ([RolledBack task], count_submit_failure c))"

fun submitMailboxBatch ::
  "bool \<Rightarrow> int \<Rightarrow> 'p queuedTask list \<Rightarrow> 'p Consumer \<Rightarrow> 'p thread list \<times> 'p Consumer" where
  "submitMailboxBatch pool_ok activityID [] c = ([], c)"
| "submitMailboxBatch pool_ok activityID (task # tasks) c =
     (if pool_ok then (Running task # (if tasks = [] then [] else [Batch activityID tasks]), c)
      else ([Returned activityID (task # tasks)], count_submit_failure c))"

text \<open>The deferred part of the worker: a panic of \<open>process\<close> is recovered and counted.\<close>

definition makeWorker ::
  "proc_result \<Rightarrow> 'p queuedTask \<Rightarrow> int \<Rightarrow> 'p Consumer \<Rightarrow> ('p queuedTask list \<times> 'p Consumer) option" where
  "makeWorker res task now c =
     (let c = (if res = ProcOk then c
               else c\<lparr>metrics := (metrics c)\<lparr>processErrorCount := processErrorCount (metrics c) + 1\<rparr>\<rparr>)
      in onTaskDone (task_activity task) now c)"

text \<open>The next section of a goroutine: the goroutines it becomes, \<open>None\<close> on a panic.\<close>

fun run_thread ::
  "bool \<Rightarrow> proc_result \<Rightarrow> int \<Rightarrow> 'p thread \<Rightarrow> 'p Consumer \<Rightarrow> ('p thread list \<times> 'p Consumer) option" where
  "run_thread pool_ok res now (Submitting t) c = Some (submitDirect pool_ok t c)"
| "run_thread pool_ok res now (RolledBack t) c =
     map_option (\<lambda>c. ([], c)) (rollbackDirectSubmit (task_activity t) now c)"
| "run_thread pool_ok res now (Batch a ts) c = Some (submitMailboxBatch pool_ok a ts c)"
| "run_thread pool_ok res now (Returned a ts) c =
     map_option (\<lambda>c. ([], c)) (rollbackMailboxBatch a ts now c)"
| "run_thread pool_ok res now (Running t) c =
     map_option (\<lambda>(nxt, c). (if nxt = [] then [] else [Batch (task_activity t) nxt], c))
       (makeWorker res t now c)"

datatype 'p event =
    Deliver goctx "'p Message" int
  | Sched nat bool proc_result int
  | GcTick nat int
  | CloseCall

definition deliver :: "goctx \<Rightarrow> 'p Message \<Rightarrow> int \<Rightarrow> 'p sys \<Rightarrow> 'p sys" where
  "deliver ctx msg now s =
     (case HandleMessage ctx msg now (cons s) of
        (Direct t, c) \<Rightarrow> s\<lparr>cons := c, threads := threads s @ [Submitting t], accepted := accepted s @ [t]\<rparr>
      | (Queued t, c) \<Rightarrow> s\<lparr>cons := c, accepted := accepted s @ [t]\<rparr>
      | (Refused_with e, c) \<Rightarrow> s\<lparr>cons := c\<rparr>)"

definition log_thread :: "'p thread \<Rightarrow> 'p sys \<Rightarrow> 'p sys" where
  "log_thread th s =
     (case th of
        Running t \<Rightarrow> s\<lparr>finished := finished s @ [t]\<rparr>
      | RolledBack t \<Rightarrow> s\<lparr>rejected := rejected s @ [t]\<rparr>
      | _ \<Rightarrow> s)"

text \<open>\<open>None\<close>: the event cannot happen (no such goroutine or shard).  \<open>Some None\<close>: a panic.\<close>

fun ac_step :: "'p event \<Rightarrow> 'p sys \<Rightarrow> 'p sys option option" where
  "ac_step (Deliver ctx msg now) s = Some (Some (deliver ctx msg now s))"
| "ac_step (Sched i pool_ok res now) s =
     (if i < length (threads s) then
        Some (case run_thread pool_ok res now (threads s ! i) (cons s) of
                None \<Rightarrow> None
              | Some (new, c) \<Rightarrow>
                  Some (log_thread (threads s ! i)
                    (s\<lparr>cons := c, threads := take i (threads s) @ new @ drop (Suc i) (threads s)\<rparr>)))
      else None)"
| "ac_step (GcTick i now) s =
     (if i < length (shards (cons s)) then Some (Some (s\<lparr>cons := gc_shard now i (cons s)\<rparr>)) else None)"
| "ac_step CloseCall s = Some (Some (s\<lparr>cons := Close (cons s)\<rparr>))"

definition ac_init :: "'p Consumer \<Rightarrow> 'p sys" where
  "ac_init c = \<lparr>cons = c, threads = [], accepted = [], rejected = [], finished = []\<rparr>"

inductive ac_reach :: "Config \<Rightarrow> 'p sys \<Rightarrow> bool" for config where
  init: "NewConsumer newpool config False = Inr c \<Longrightarrow> ac_reach config (ac_init c)"
| step: "ac_reach config s \<Longrightarrow> ac_step e s = Some (Some s') \<Longrightarrow> ac_reach config s'"

text \<open>A run of a list of events from a state.\<close>

fun ac_run :: "'p event list \<Rightarrow> 'p sys \<Rightarrow> 'p sys option" where
  "ac_run [] s = Some s"
| "ac_run (e # es) s = (case ac_step e s of Some (Some s') \<Rightarrow> ac_run es s' | _ \<Rightarrow> None)"

end
