(* ===== verification/ActivityProps.thy ===== *)
theory ActivityProps
  imports ActivityConsumer
begin

text \<open>
  The invariants of the activity consumer.  The view \<open>infl\<close>/\<open>box\<close> reads the slots and the
  mailbox of an activity, an absent state being one with no slot and an empty mailbox;
  \<open>ac_wf\<close> is what every section keeps of the shards and the counters; \<open>slots\<close> are the
  slots a goroutine holds.  The collection \<open>act_simps\<close> carries the proofs.
\<close>

named_theorems act_simps "facts on the shards and states of the activity consumer"

definition infl :: "int \<Rightarrow> 'p Consumer \<Rightarrow> int" where
  "infl a c = (case lookup_state c a of None \<Rightarrow> 0 | Some st \<Rightarrow> inflight st)"

definition box :: "int \<Rightarrow> 'p Consumer \<Rightarrow> 'p queuedTask list" where
  "box a c = (case lookup_state c a of None \<Rightarrow> [] | Some st \<Rightarrow> mailbox st)"

definition total_of :: "('p ActivityState \<Rightarrow> 'm::comm_monoid_add) \<Rightarrow> 'p Consumer \<Rightarrow> 'm" where
  "total_of f c = sum_list (map (\<lambda>m. sum_list (map (f \<circ> snd) m)) (shards c))"

definition shards_wf :: "'p Consumer \<Rightarrow> bool" where
  "shards_wf c \<longleftrightarrow> 0 < ShardCount (cfg c) \<and> int (length (shards c)) = ShardCount (cfg c) \<and>
     (\<forall>i < length (shards c). distinct (map fst (shards c ! i)) \<and>
        (\<forall>e \<in> set (shards c ! i). shardFor c (fst e) = i \<and> 0 \<le> inflight (snd e)))"

definition ac_wf :: "'p Consumer \<Rightarrow> bool" where
  "ac_wf c \<longleftrightarrow> shards_wf c
     \<and> activeActivities (metrics c) = total_of (\<lambda>_. 1) c
     \<and> totalInflight (metrics c) = total_of inflight c
     \<and> totalBuffered (metrics c) = total_of mailboxLenLocked c"

section \<open>Shards\<close>

lemma lookup_metrics [simp]:
  "lookup_state (c\<lparr>metrics := m\<rparr>) a = lookup_state c a"
  "shardFor (c\<lparr>metrics := m\<rparr>) a = shardFor c a"
  "store_state a st (c\<lparr>metrics := m\<rparr>) = (store_state a st c)\<lparr>metrics := m\<rparr>"
  "infl a (c\<lparr>metrics := m\<rparr>) = infl a c" "box a (c\<lparr>metrics := m\<rparr>) = box a c"
  "total_of f (c\<lparr>metrics := m\<rparr>) = total_of f c"
  "shards_wf (c\<lparr>metrics := m\<rparr>) = shards_wf c"
  by (simp_all add: lookup_state_def shardFor_def store_state_def infl_def box_def total_of_def
      shards_wf_def)

lemma store_fields [simp]:
  "cfg (store_state a st c) = cfg c" "metrics (store_state a st c) = metrics c"
  "closed (store_state a st c) = closed c"
  "length (shards (store_state a st c)) = length (shards c)"
  "shardFor (store_state a st c) b = shardFor c b"
  by (simp_all add: store_state_def shardFor_def)

lemma shardFor_less: "0 < length (shards c) \<Longrightarrow> shardFor c a < length (shards c)"
  by (simp add: shardFor_def nat_less_iff)

lemma shards_wf_pos: "shards_wf c \<Longrightarrow> 0 < length (shards c)"
  by (auto simp: shards_wf_def)

lemma lookup_store [act_simps]:
  assumes "0 < length (shards c)"
  shows "lookup_state (store_state a st c) b = (if a = b then Some st else lookup_state c b)"
  using shardFor_less [OF assms, of a]
  by (cases "shardFor c a = shardFor c b")
     (auto simp: lookup_state_def store_state_def update_conv shardFor_def)

lemma view_store [act_simps]:
  assumes "0 < length (shards c)"
  shows "infl b (store_state a st c) = (if a = b then inflight st else infl b c)"
    and "box b (store_state a st c) = (if a = b then mailbox st else box b c)"
  by (simp_all add: infl_def box_def lookup_store [OF assms])

lemma sum_list_AList_update:
  fixes f :: "'a \<Rightarrow> 'm::cancel_comm_monoid_add"
  shows "sum_list (map (f \<circ> snd) (AList.update k v al)) + (case map_of al k of None \<Rightarrow> 0 | Some w \<Rightarrow> f w)
       = sum_list (map (f \<circ> snd) al) + f v"
proof (induction al)
  case (Cons p al)
  obtain x w where "p = (x, w)" by (cases p)
  then show ?case using Cons by (auto simp: add.assoc add.left_commute split: option.splits)
     (metis add.commute add.left_commute)+
qed simp

lemma sum_list_nth_update:
  fixes g :: "'a \<Rightarrow> 'm::comm_monoid_add"
  shows "i < length xs \<Longrightarrow> sum_list (map g (xs[i := y])) + g (xs ! i) = sum_list (map g xs) + g y"
proof (induction xs arbitrary: i)
  case (Cons x xs)
  then show ?case by (cases i) (auto simp: ac_simps)
qed simp

lemma total_store:
  fixes f :: "'p ActivityState \<Rightarrow> 'm::cancel_comm_monoid_add"
  assumes "0 < length (shards c)"
  shows "total_of f (store_state a st c) + (case lookup_state c a of None \<Rightarrow> 0 | Some w \<Rightarrow> f w)
       = total_of f c + f st"
proof -
  let ?i = "shardFor c a" and ?g = "\<lambda>m. sum_list (map (f \<circ> snd) m)"
  let ?old = "case lookup_state c a of None \<Rightarrow> 0 | Some w \<Rightarrow> f w"
  have u: "total_of f (store_state a st c) + ?g (shards c ! ?i)
      = total_of f c + ?g (AList.update a st (shards c ! ?i))"
    using sum_list_nth_update [OF shardFor_less [OF assms, of a], of ?g]
    by (simp add: total_of_def store_state_def)
  have v: "?g (AList.update a st (shards c ! ?i)) + ?old = ?g (shards c ! ?i) + f st"
    unfolding lookup_state_def by (rule sum_list_AList_update)
  have "(total_of f (store_state a st c) + ?old) + ?g (shards c ! ?i)
      = total_of f c + (?g (AList.update a st (shards c ! ?i)) + ?old)"
    using u by (metis (no_types, lifting) add.commute add.left_commute)
  also have "\<dots> = (total_of f c + f st) + ?g (shards c ! ?i)"
    unfolding v by (simp add: ac_simps)
  finally show ?thesis by simp
qed

lemma infl_nonneg: "shards_wf c \<Longrightarrow> 0 \<le> infl a c"
proof -
  assume w: "shards_wf c"
  show ?thesis
  proof (cases "lookup_state c a")
    case (Some st)
    then have "(a, st) \<in> set (shards c ! shardFor c a)"
      by (auto simp: lookup_state_def dest: map_of_SomeD)
    moreover have "shardFor c a < length (shards c)" using shardFor_less shards_wf_pos [OF w] by blast
    ultimately have "0 \<le> inflight st" using w by (fastforce simp: shards_wf_def)
    then show ?thesis using Some by (simp add: infl_def)
  qed (simp add: infl_def)
qed

lemma shards_wf_store [act_simps]:
  assumes "shards_wf c" "0 \<le> inflight st"
  shows "shards_wf (store_state a st c)"
proof -
  have less: "shardFor c a < length (shards c)" using shardFor_less shards_wf_pos [OF assms(1)] by blast
  have keep: "e \<in> set (AList.update a st m) \<Longrightarrow> e = (a, st) \<or> e \<in> set m" for e m
    by (induction m) (auto split: if_splits)
  have "distinct (map fst (shards (store_state a st c) ! i)) \<and>
        (\<forall>e \<in> set (shards (store_state a st c) ! i). shardFor c (fst e) = i \<and> 0 \<le> inflight (snd e))"
    if i: "i < length (shards c)" for i
  proof (cases "i = shardFor c a")
    case True
    have "distinct (map fst (AList.update a st (shards c ! i)))"
      using assms(1) i by (auto simp: shards_wf_def intro: distinct_update)
    moreover have "shardFor c (fst e) = i \<and> 0 \<le> inflight (snd e)"
      if "e \<in> set (AList.update a st (shards c ! i))" for e
      using keep [OF that] assms i True by (auto simp: shards_wf_def)
    ultimately show ?thesis using True i by (simp add: store_state_def)
  next
    case False
    then show ?thesis using assms(1) i by (auto simp: shards_wf_def store_state_def)
  qed
  then show ?thesis using assms(1) by (simp add: shards_wf_def)
qed

lemma ac_wf_pos: "ac_wf c \<Longrightarrow> 0 < length (shards c)"
  unfolding ac_wf_def by (elim conjE) (rule shards_wf_pos)

text \<open>The rule every section uses: storing a state and adjusting the counters by the difference.\<close>

lemma ac_wf_store:
  assumes w: "ac_wf c" and n: "0 \<le> inflight st"
    and a: "activeActivities m = activeActivities (metrics c) + (if lookup_state c a = None then 1 else 0)"
    and i: "totalInflight m = totalInflight (metrics c) + inflight st - infl a c"
    and b: "totalBuffered m = totalBuffered (metrics c) + mailboxLenLocked st - int (length (box a c))"
  shows "ac_wf ((store_state a st c)\<lparr>metrics := m\<rparr>)"
proof -
  have pos: "0 < length (shards c)" using w by (rule ac_wf_pos)
  note t = total_store [OF pos, of _ a st]
  show ?thesis
    using w a i b t [of "\<lambda>_. 1 :: int"] t [of inflight] t [of mailboxLenLocked] n
    by (auto simp: ac_wf_def act_simps infl_def box_def mailboxLenLocked_def split: option.splits)
qed


section \<open>What each section does\<close>

text \<open>\<open>acts a n b c c'\<close>: only activity \<open>a\<close> changed, to \<open>n\<close> slots and mailbox \<open>b\<close>.\<close>

definition acts :: "int \<Rightarrow> int \<Rightarrow> 'p queuedTask list \<Rightarrow> 'p Consumer \<Rightarrow> 'p Consumer \<Rightarrow> bool" where
  "acts a n b c c' \<longleftrightarrow> ac_wf c' \<and> cfg c' = cfg c \<and> closed c' = closed c
     \<and> (\<forall>d. infl d c' = (if d = a then n else infl d c))
     \<and> (\<forall>d. box d c' = (if d = a then b else box d c))
     \<and> total_of (\<lambda>st. mset (mailbox st)) c' + mset (box a c) = total_of (\<lambda>st. mset (mailbox st)) c + mset b"

lemma acts_store:
  assumes "ac_wf c" "0 \<le> inflight st"
    and "activeActivities m = activeActivities (metrics c) + (if lookup_state c a = None then 1 else 0)"
    and "totalInflight m = totalInflight (metrics c) + inflight st - infl a c"
    and "totalBuffered m = totalBuffered (metrics c) + mailboxLenLocked st - int (length (box a c))"
  shows "acts a (inflight st) (mailbox st) c ((store_state a st c)\<lparr>metrics := m\<rparr>)"
  using ac_wf_store [OF assms] view_store [OF ac_wf_pos [OF assms(1)], of _ a st]
    total_store [OF ac_wf_pos [OF assms(1)], of "\<lambda>st. mset (mailbox st)" a st]
  by (auto simp: acts_def box_def split: option.splits)

lemma acts_trans:
  assumes p: "acts a n b c c'" and q: "acts a n' b' c' c''"
  shows "acts a n' b' c c''"
proof -
  let ?t = "total_of (\<lambda>st. mset (mailbox st))"
  have e: "?t c' + mset (box a c) = ?t c + mset b" "?t c'' + mset b = ?t c' + mset b'"
    using p q by (auto simp: acts_def)
  have "(?t c'' + mset (box a c)) + mset b = (?t c'' + mset b) + mset (box a c)" by (simp add: ac_simps)
  also have "\<dots> = (?t c' + mset (box a c)) + mset b'" unfolding e(2) by (simp add: ac_simps)
  also have "\<dots> = (?t c + mset b') + mset b" unfolding e(1) by (simp add: ac_simps)
  finally have "?t c'' + mset (box a c) = ?t c + mset b'" by (rule add_right_imp_eq)
  then show ?thesis using p q by (simp add: acts_def)
qed

lemma acts_refl: "ac_wf c \<Longrightarrow> acts a (infl a c) (box a c) c c"
  by (auto simp: acts_def)

lemma lockOrCreate_acts:
  assumes "ac_wf c" "lockOrCreateState a now c = (st, c')"
  shows "acts a (infl a c) (box a c) c c'" "inflight st = infl a c" "mailbox st = box a c"
    "lookup_state c' a = Some st"
proof -
  have pos: "0 < length (shards c)" by (rule ac_wf_pos [OF assms(1)])
  have "acts a 0 [] c
      ((store_state a (newActivityState now) c)\<lparr>metrics :=
         (metrics c)\<lparr>activeActivities := activeActivities (metrics c) + 1\<rparr>\<rparr>)"
    if "lookup_state c a = None"
    using acts_store [OF assms(1), of "newActivityState now"
        "(metrics c)\<lparr>activeActivities := activeActivities (metrics c) + 1\<rparr>" a]
    by (simp add: that newActivityState_def infl_def box_def mailboxLenLocked_def)
  then show "acts a (infl a c) (box a c) c c'" "inflight st = infl a c" "mailbox st = box a c"
    "lookup_state c' a = Some st"
    using assms(2) acts_refl [OF assms(1), of a]
    by (auto simp: lockOrCreateState_def Let_def newActivityState_def infl_def box_def
        lookup_store [OF pos] split: option.splits)
qed

lemma HandleMessage_acts:
  assumes w: "ac_wf c" and o: "\<not> closed c" and l: "0 < PerActivityLimit (cfg c)"
    and h: "HandleMessage ctx msg now c = (r, c')"
  shows "case r of
      Direct t \<Rightarrow> tmsg t = msg \<and> infl (ActivityID msg) c < PerActivityLimit (cfg c)
        \<and> acts (ActivityID msg) (infl (ActivityID msg) c + 1) (box (ActivityID msg) c) c c'
    | Queued t \<Rightarrow> tmsg t = msg \<and> int (length (box (ActivityID msg) c)) < PerActivityMailboxSize (cfg c)
        \<and> PerActivityLimit (cfg c) \<le> infl (ActivityID msg) c
        \<and> acts (ActivityID msg) (infl (ActivityID msg) c) (box (ActivityID msg) c @ [t]) c c'
    | Refused_with e \<Rightarrow> acts (ActivityID msg) (infl (ActivityID msg) c) (box (ActivityID msg) c) c c'"
proof -
  let ?a = "ActivityID msg"
  obtain st c1 where lk: "lockOrCreateState ?a now c = (st, c1)" by fastforce
  note L = lockOrCreate_acts [OF w lk]
  have w1: "ac_wf c1" and cf: "cfg c1 = cfg c" and n: "infl ?a c1 = infl ?a c" and b: "box ?a c1 = box ?a c"
    using L(1) by (auto simp: acts_def)
  have n0: "0 \<le> infl ?a c" using w infl_nonneg by (auto simp: ac_wf_def)
  have st: "acts ?a (inflight st') (mailbox st') c ((store_state ?a st' c1)\<lparr>metrics := m\<rparr>)"
    if "0 \<le> inflight st'" "activeActivities m = activeActivities (metrics c1)"
      "totalInflight m = totalInflight (metrics c1) + inflight st' - infl ?a c"
      "totalBuffered m = totalBuffered (metrics c1) + mailboxLenLocked st' - int (length (box ?a c))"
    for st' m
    using that L(1,4) n b by (intro acts_trans [OF L(1)] acts_store [OF w1]) simp_all
  define t where "t = \<lparr>tctx = detachContext ctx, tmsg = msg\<rparr>"
  define m where "m = metrics c1"
  have direct: "acts ?a (infl ?a c + 1) (box ?a c) c
      ((store_state ?a (touchLocked now (st\<lparr>inflight := inflight st + 1\<rparr>)) c1)
        \<lparr>metrics := m\<lparr>directDispatches := directDispatches m + 1, totalInflight := totalInflight m + 1\<rparr>\<rparr>)"
    using st [of "touchLocked now (st\<lparr>inflight := inflight st + 1\<rparr>)"
        "m\<lparr>directDispatches := directDispatches m + 1, totalInflight := totalInflight m + 1\<rparr>"]
    by (simp add: L(2,3) n0 m_def touchLocked_def mailboxLenLocked_def)
  have touch: "acts ?a (infl ?a c) (box ?a c) c ((store_state ?a (touchLocked now st) c1)\<lparr>metrics := m'\<rparr>)"
    if "activeActivities m' = activeActivities m" "totalInflight m' = totalInflight m"
      "totalBuffered m' = totalBuffered m" for m'
    using st [of "touchLocked now st" m'] that
    by (simp add: L(2,3) n0 m_def touchLocked_def mailboxLenLocked_def)
  have queued: "acts ?a (infl ?a c) (box ?a c @ [t]) c
      ((store_state ?a (enqueueLocked t now st) c1)
        \<lparr>metrics := m\<lparr>mailboxEnqueues := mailboxEnqueues m + 1, totalBuffered := totalBuffered m + 1\<rparr>\<rparr>)"
    using st [of "enqueueLocked t now st"
        "m\<lparr>mailboxEnqueues := mailboxEnqueues m + 1, totalBuffered := totalBuffered m + 1\<rparr>"]
    by (simp add: L(2,3) n0 m_def enqueueLocked_def mailboxLenLocked_def)
  consider (d) "inflight st < PerActivityLimit (cfg c1)" | (z) "PerActivityLimit (cfg c1) \<le> inflight st" "PerActivityMailboxSize (cfg c1) = 0"
    | (f) "PerActivityLimit (cfg c1) \<le> inflight st" "PerActivityMailboxSize (cfg c1) \<noteq> 0" "PerActivityMailboxSize (cfg c1) \<le> mailboxLenLocked st"
    | (q) "PerActivityLimit (cfg c1) \<le> inflight st" "PerActivityMailboxSize (cfg c1) \<noteq> 0" "mailboxLenLocked st < PerActivityMailboxSize (cfg c1)"
    by linarith
  then show ?thesis
  proof cases
    case d
    then show ?thesis using h direct L(2) cf
      by (auto simp: HandleMessage_def Let_def o lk t_def [symmetric] m_def [symmetric]) (simp add: t_def)
  next
    case z
    then show ?thesis using h touch
      by (auto simp: HandleMessage_def Let_def o lk m_def [symmetric])
  next
    case f
    then show ?thesis using h touch
      by (auto simp: HandleMessage_def Let_def o lk m_def [symmetric])
  next
    case q
    then show ?thesis using h queued L(2,3) cf
      by (auto simp: HandleMessage_def Let_def o lk t_def [symmetric] m_def [symmetric] mailboxLenLocked_def)
         (simp add: t_def)
  qed
qed


text \<open>The sections that must find the state: they do when the activity holds a slot.\<close>

lemma infl_lookup: "0 < infl a c \<Longrightarrow> \<exists>st. lookup_state c a = Some st \<and> inflight st = infl a c \<and> mailbox st = box a c"
  by (auto simp: infl_def box_def split: option.splits)

lemma rollbackDirect_acts:
  assumes "ac_wf c" "0 < infl a c"
  obtains c' where "rollbackDirectSubmit a now c = Some c'" "acts a (infl a c - 1) (box a c) c c'"
proof -
  obtain st where st: "lookup_state c a = Some st" "inflight st = infl a c" "mailbox st = box a c"
    using infl_lookup [OF assms(2)] by auto
  let ?st = "touchLocked now (st\<lparr>inflight := inflight st - 1\<rparr>)"
  let ?m = "(metrics c)\<lparr>totalInflight := totalInflight (metrics c) - 1\<rparr>"
  have "acts a (inflight ?st) (mailbox ?st) c ((store_state a ?st c)\<lparr>metrics := ?m\<rparr>)"
    using assms st by (intro acts_store) (simp_all add: touchLocked_def mailboxLenLocked_def)
  then show thesis using assms(2) st
    by (intro that) (simp_all add: rollbackDirectSubmit_def lockExistingState_def touchLocked_def Let_def)
qed

lemma rollbackBatch_acts:
  assumes "ac_wf c" "ts \<noteq> []" "int (length ts) \<le> infl a c"
  obtains c' where "rollbackMailboxBatch a ts now c = Some c'"
    "acts a (infl a c - int (length ts)) (ts @ box a c) c c'"
proof -
  have "0 < length ts" using assms(2) by simp
  then have "0 < infl a c" using assms(3) by linarith
  then obtain st where st: "lookup_state c a = Some st" "inflight st = infl a c" "mailbox st = box a c"
    using infl_lookup by blast
  let ?n = "int (length ts)"
  let ?st = "prependBatchLocked ts now (st\<lparr>inflight := inflight st - ?n\<rparr>)"
  let ?m = "(metrics c)\<lparr>totalInflight := totalInflight (metrics c) - ?n,
      totalBuffered := totalBuffered (metrics c) + ?n\<rparr>"
  have "acts a (inflight ?st) (mailbox ?st) c ((store_state a ?st c)\<lparr>metrics := ?m\<rparr>)"
    using assms st by (intro acts_store) (simp_all add: prependBatchLocked_def mailboxLenLocked_def)
  then show thesis using assms st
    by (intro that) (simp_all add: rollbackMailboxBatch_def lockExistingState_def prependBatchLocked_def Let_def)
qed

lemma drain_spec:
  assumes "drainMailboxLocked limit now st = (nxt, st')" "inflight st \<le> limit"
  shows "nxt @ mailbox st' = mailbox st" "inflight st' = inflight st + int (length nxt)"
    "inflight st' \<le> limit" "nxt = [] \<Longrightarrow> mailbox st' = [] \<or> inflight st' = limit"
    "mailbox st' = [] \<or> inflight st' = limit"
  using assms by (auto simp: drainMailboxLocked_def Let_def split: if_splits)

lemma onTaskDone_acts:
  assumes "ac_wf c" "0 < infl a c" "infl a c \<le> PerActivityLimit (cfg c)"
  obtains nxt rest c' where "onTaskDone a now c = Some (nxt, c')" "box a c = nxt @ rest"
    "acts a (infl a c - 1 + int (length nxt)) rest c c'"
    "infl a c - 1 + int (length nxt) \<le> PerActivityLimit (cfg c)"
    "rest = [] \<or> infl a c - 1 + int (length nxt) = PerActivityLimit (cfg c)"
proof -
  obtain st where st: "lookup_state c a = Some st" "inflight st = infl a c" "mailbox st = box a c"
    using infl_lookup [OF assms(2)] by auto
  let ?st = "touchLocked now (st\<lparr>inflight := inflight st - 1\<rparr>)"
  obtain nxt st' where d: "drainMailboxLocked (PerActivityLimit (cfg c)) now ?st = (nxt, st')"
    by fastforce
  have le: "inflight ?st \<le> PerActivityLimit (cfg c)" using st(2) assms(3) by (simp add: touchLocked_def)
  note D = drain_spec [OF d le]
  have i: "inflight st' = infl a c - 1 + int (length nxt)" and b: "box a c = nxt @ mailbox st'"
    using D(1,2) st by (simp_all add: touchLocked_def)
  let ?m = "(metrics c)\<lparr>totalInflight := totalInflight (metrics c) - 1 + int (length nxt),
      totalBuffered := totalBuffered (metrics c) - int (length nxt)\<rparr>"
  have "acts a (inflight st') (mailbox st') c ((store_state a st' c)\<lparr>metrics := ?m\<rparr>)"
    using assms st i by (intro acts_store) (simp_all add: b mailboxLenLocked_def)
  moreover have "onTaskDone a now c = Some (nxt, (store_state a st' c)\<lparr>metrics := ?m\<rparr>)"
    using d st assms(2) by (auto simp: onTaskDone_def lockExistingState_def Let_def)
  ultimately show thesis using that D(3,5) b i by metis
qed

lemma map_of_filter_keep:
  "distinct (map fst al) \<Longrightarrow>
   map_of (filter (\<lambda>e. \<not> P e) al) k = (case map_of al k of None \<Rightarrow> None | Some v \<Rightarrow> if P (k, v) then None else Some v)"
proof (induction al)
  case (Cons e al)
  have "k \<notin> fst ` set al \<Longrightarrow> map_of (filter (\<lambda>e. \<not> P e) al) k = None"
    by (auto simp: map_of_eq_None_iff)
  then show ?case using Cons by (cases e) (auto split: option.splits)
qed simp

lemma sum_list_filter_zero:
  fixes g :: "'a \<Rightarrow> 'm::comm_monoid_add"
  shows "(\<And>x. x \<in> set xs \<Longrightarrow> P x \<Longrightarrow> g x = 0) \<Longrightarrow> sum_list (map g (filter (\<lambda>x. \<not> P x) xs)) = sum_list (map g xs)"
  by (induction xs) auto

lemma gc_shard_keeps:
  assumes w: "ac_wf c" and i: "i < length (shards c)"
  shows "ac_wf (gc_shard now i c)" "cfg (gc_shard now i c) = cfg c" "closed (gc_shard now i c) = closed c"
    "infl a (gc_shard now i c) = infl a c" "box a (gc_shard now i c) = box a c"
    "total_of (\<lambda>st. mset (mailbox st)) (gc_shard now i c) = total_of (\<lambda>st. mset (mailbox st)) c"
    "length (shards (gc_shard now i c)) = length (shards c)"
proof -
  define P where "P = (\<lambda>(activityID :: int, state). isIdleLocked now (ActivityTTL (cfg c)) (state :: 'a ActivityState))"
  define m where "m = (metrics c)\<lparr>activeActivities := activeActivities (metrics c)
      - int (length (filter P (shards c ! i)))\<rparr>"
  have gc: "gc_shard now i c = c\<lparr>shards := (shards c)[i := filter (\<lambda>e. \<not> P e) (shards c ! i)], metrics := m\<rparr>"
    by (simp add: gc_shard_def P_def m_def Let_def case_prod_unfold)
  have sw: "shards_wf c" using w by (simp add: ac_wf_def)
  have dist: "distinct (map fst (shards c ! i))" using sw i by (simp add: shards_wf_def)
  have idle: "P (k, st) \<Longrightarrow> inflight st = 0 \<and> mailbox st = []" for k st
    by (simp add: P_def isIdleLocked_def)
  have look: "lookup_state (gc_shard now i c) b
      = (case lookup_state c b of None \<Rightarrow> None | Some st \<Rightarrow> if shardFor c b = i \<and> P (b, st) then None else Some st)" for b
  proof -
    have sf: "shardFor (gc_shard now i c) b = shardFor c b" by (simp add: gc shardFor_def)
    show ?thesis
    proof (cases "shardFor c b = i")
      case True
      then show ?thesis using i
        by (simp add: lookup_state_def sf) (simp add: gc map_of_filter_keep [OF dist] split: option.split)
    next
      case False
      then show ?thesis
        by (simp add: lookup_state_def sf) (simp add: gc split: option.split)
    qed
  qed
  show "infl a (gc_shard now i c) = infl a c" "box a (gc_shard now i c) = box a c"
    using idle by (auto simp: infl_def box_def look split: option.splits)
  have tot: "total_of f (gc_shard now i c) = total_of f c"
    if "\<And>st. inflight st = 0 \<Longrightarrow> mailbox st = [] \<Longrightarrow> f st = 0" for f :: "'a ActivityState \<Rightarrow> 'm::cancel_comm_monoid_add"
  proof -
    have "sum_list (map (f \<circ> snd) (filter (\<lambda>e. \<not> P e) (shards c ! i))) = sum_list (map (f \<circ> snd) (shards c ! i))"
      using idle that by (intro sum_list_filter_zero) fastforce
    then show ?thesis
      using sum_list_nth_update [OF i, of "\<lambda>m. sum_list (map (f \<circ> snd) m)"
          "filter (\<lambda>e. \<not> P e) (shards c ! i)"]
      by (simp add: gc total_of_def)
  qed
  show mb: "total_of (\<lambda>st. mset (mailbox st)) (gc_shard now i c) = total_of (\<lambda>st. mset (mailbox st)) c"
    by (rule tot) simp
  show "cfg (gc_shard now i c) = cfg c" "closed (gc_shard now i c) = closed c"
    "length (shards (gc_shard now i c)) = length (shards c)" by (simp_all add: gc)
  have len: "int (length (filter (\<lambda>e. \<not> P e) xs)) + int (length (filter P xs)) = int (length xs)" for xs
    using sum_length_filter_compl [of P xs] by linarith
  have act: "activeActivities m = total_of (\<lambda>_. 1) (gc_shard now i c)"
    using sum_list_nth_update [OF i, of "\<lambda>m. sum_list (map ((\<lambda>_. 1 :: int) \<circ> snd) m)"
        "filter (\<lambda>e. \<not> P e) (shards c ! i)"] len [of "shards c ! i"] w
    by (simp add: m_def gc total_of_def ac_wf_def comp_def sum_list_triv)
  have "shards_wf (gc_shard now i c)"
  proof -
    have sf: "shardFor (gc_shard now i c) b = shardFor c b" for b by (simp add: gc shardFor_def)
    have sub: "set (shards (gc_shard now i c) ! j) \<subseteq> set (shards c ! j)"
        "distinct (map fst (shards (gc_shard now i c) ! j))" if "j < length (shards c)" for j
      using that sw i by (auto simp: gc nth_list_update shards_wf_def distinct_map_filter)
    have "shardFor c (fst e) = j \<and> 0 \<le> inflight (snd e)"
      if "j < length (shards c)" "e \<in> set (shards (gc_shard now i c) ! j)" for j e
      using sw that(1) subsetD [OF sub(1) [OF that(1)] that(2)] by (simp add: shards_wf_def)
    moreover have "cfg (gc_shard now i c) = cfg c" "length (shards (gc_shard now i c)) = length (shards c)"
      by (simp_all add: gc)
    ultimately show ?thesis using sw sub(2) unfolding shards_wf_def sf by simp
  qed
  then show "ac_wf (gc_shard now i c)"
    using act tot [of inflight] tot [of mailboxLenLocked] w
    by (simp add: ac_wf_def) (simp add: gc m_def mailboxLenLocked_def)
qed

end
