(* ===== verification/ActivitySpec.thy ===== *)
theory ActivitySpec
  imports ActivityProps
begin

text \<open>
  The invariant of the activity consumer under every interleaving of its goroutines, and what
  follows from it: the bound on the concurrency, the panic that never happens, the tasks that
  are never lost, the bound on the mailbox, and the order and liveness the code does not keep.
\<close>

section \<open>What a goroutine holds\<close>

fun slots :: "int \<Rightarrow> 'p thread \<Rightarrow> int" where
  "slots a (Submitting t) = (if task_activity t = a then 1 else 0)"
| "slots a (RolledBack t) = (if task_activity t = a then 1 else 0)"
| "slots a (Running t) = (if task_activity t = a then 1 else 0)"
| "slots a (Batch b ts) = (if b = a then int (length ts) else 0)"
| "slots a (Returned b ts) = (if b = a then int (length ts) else 0)"

fun reserved :: "int \<Rightarrow> 'p thread \<Rightarrow> int" where
  "reserved a (Batch b ts) = (if b = a then int (length ts) else 0)"
| "reserved a (Returned b ts) = (if b = a then int (length ts) else 0)"
| "reserved a _ = 0"

fun carried :: "'p thread \<Rightarrow> 'p queuedTask multiset" where
  "carried (Submitting t) = {#t#}"
| "carried (RolledBack t) = {#t#}"
| "carried (Running t) = {#t#}"
| "carried (Batch b ts) = mset ts"
| "carried (Returned b ts) = mset ts"

fun thread_ok :: "'p thread \<Rightarrow> bool" where
  "thread_ok (Batch b ts) \<longleftrightarrow> ts \<noteq> [] \<and> (\<forall>t \<in> set ts. task_activity t = b)"
| "thread_ok (Returned b ts) \<longleftrightarrow> ts \<noteq> [] \<and> (\<forall>t \<in> set ts. task_activity t = b)"
| "thread_ok _ \<longleftrightarrow> True"

definition tsum :: "('p thread \<Rightarrow> 'm::comm_monoid_add) \<Rightarrow> 'p thread list \<Rightarrow> 'm" where
  "tsum f ths = sum_list (map f ths)"

lemma tsum_simps [simp]:
  "tsum f [] = 0" "tsum f (th # ths) = f th + tsum f ths" "tsum f (xs @ ys) = tsum f xs + tsum f ys"
  by (simp_all add: tsum_def)

lemma slots_nonneg [simp]: "0 \<le> slots a th"
  by (cases th) auto

lemma reserved_le_slots: "0 \<le> reserved a th \<and> reserved a th \<le> slots a th"
  by (cases th) auto

lemma tsum_nonneg: "(\<And>th. 0 \<le> f th) \<Longrightarrow> 0 \<le> tsum f ths" for f :: "'p thread \<Rightarrow> int"
  by (induction ths) (auto intro: add_nonneg_nonneg)

lemma tsum_mono: "(\<And>th. f th \<le> g th) \<Longrightarrow> tsum f ths \<le> tsum g ths" for f :: "'p thread \<Rightarrow> int"
  by (induction ths) (auto intro: add_mono)

abbreviation boxes :: "'p Consumer \<Rightarrow> 'p queuedTask multiset" where
  "boxes c \<equiv> total_of (\<lambda>st. mset (mailbox st)) c"

fun logged :: "'p thread \<Rightarrow> 'p queuedTask multiset" where
  "logged (Running t) = {#t#}"
| "logged (RolledBack t) = {#t#}"
| "logged _ = {#}"

definition well_boxed :: "'p Consumer \<Rightarrow> bool" where
  "well_boxed c \<longleftrightarrow> (\<forall>a. infl a c \<le> PerActivityLimit (cfg c) \<and> (\<forall>t \<in> set (box a c). task_activity t = a))"

fun rolls_back :: "'p thread \<Rightarrow> bool" where
  "rolls_back (RolledBack t) \<longleftrightarrow> True"
| "rolls_back (Returned b ts) \<longleftrightarrow> True"
| "rolls_back _ \<longleftrightarrow> False"

text \<open>One section of a goroutine, described by what it holds before and after.\<close>

definition section_ok :: "'p thread \<Rightarrow> 'p thread list \<Rightarrow> 'p Consumer \<Rightarrow> 'p Consumer \<Rightarrow> bool" where
  "section_ok th new c c' \<longleftrightarrow> ac_wf c' \<and> cfg c' = cfg c \<and> well_boxed c' \<and> (\<forall>t \<in> set new. thread_ok t)
     \<and> (\<forall>d. infl d c' + slots d th = infl d c + tsum (slots d) new)
     \<and> (\<forall>d. int (length (box d c')) + tsum (reserved d) new \<le> int (length (box d c)) + reserved d th)
     \<and> (\<forall>d. slots d th = 0 \<longrightarrow> box d c' = box d c \<and> infl d c' = infl d c)
     \<and> (\<not> rolls_back th \<longrightarrow> (\<forall>d. box d c' \<noteq> [] \<longrightarrow>
            box d c' = box d c \<and> infl d c' = infl d c \<or> infl d c' = PerActivityLimit (cfg c)))
     \<and> boxes c' + tsum carried new + logged th = boxes c + carried th"

lemma acts_boxes: "acts a n b c c' \<Longrightarrow> boxes c' + mset (box a c) = boxes c + mset b"
  by (simp add: acts_def)

lemma acts_section:
  assumes act: "acts a n b c c'" and wb: "well_boxed c"
    and n: "n + slots a th = infl a c + tsum (slots a) new" "n \<le> PerActivityLimit (cfg c)"
    and b: "int (length b) + tsum (reserved a) new \<le> int (length (box a c)) + reserved a th"
      "\<And>t. t \<in> set b \<Longrightarrow> task_activity t = a"
    and other: "\<And>d. d \<noteq> a \<Longrightarrow> slots d th = 0 \<and> tsum (slots d) new = 0"
    and ok: "\<forall>t \<in> set new. thread_ok t" "slots a th \<noteq> 0"
    and full: "\<not> rolls_back th \<Longrightarrow> b = [] \<or> n = PerActivityLimit (cfg c)"
    and m: "mset b + tsum carried new + logged th = mset (box a c) + carried th"
  shows "section_ok th new c c'"
proof -
  have r: "tsum (reserved d) new = 0 \<and> reserved d th = 0" if "d \<noteq> a" for d
  proof -
    have "0 \<le> tsum (reserved d) new" "tsum (reserved d) new \<le> tsum (slots d) new"
      using reserved_le_slots by (auto intro: tsum_nonneg tsum_mono)
    then show ?thesis using other [OF that] reserved_le_slots [of d th] by linarith
  qed
  have "(boxes c' + tsum carried new + logged th) + mset (box a c)
      = (boxes c' + mset (box a c)) + (tsum carried new + logged th)" by (simp add: ac_simps)
  also have "\<dots> = boxes c + (mset b + tsum carried new + logged th)"
    unfolding acts_boxes [OF act] by (simp add: ac_simps)
  also have "\<dots> = (boxes c + carried th) + mset (box a c)" unfolding m by (simp add: ac_simps)
  finally have boxes: "boxes c' + tsum carried new + logged th = boxes c + carried th"
    by (rule add_right_imp_eq)
  show ?thesis
    using act wb n b other r ok full boxes by (auto simp: section_ok_def acts_def well_boxed_def)
qed

lemma metrics_section:
  assumes "ac_wf c" "well_boxed c"
    and "activeActivities m = activeActivities (metrics c)" "totalInflight m = totalInflight (metrics c)"
      "totalBuffered m = totalBuffered (metrics c)"
    and "\<And>d. slots d th = tsum (slots d) new" "\<And>d. tsum (reserved d) new \<le> reserved d th"
    and "\<forall>t \<in> set new. thread_ok t" "tsum carried new + logged th = carried th"
  shows "section_ok th new c (c\<lparr>metrics := m\<rparr>)"
  using assms by (auto simp: section_ok_def ac_wf_def well_boxed_def add.assoc)

lemma run_thread_section:
  assumes w: "ac_wf c" and wb: "well_boxed c" and ok: "thread_ok th"
    and held: "\<And>d. slots d th \<le> infl d c"
  obtains new c' where "run_thread pool_ok res now th c = Some (new, c')" "section_ok th new c c'"
proof (cases th)
  case (Submitting t)
  have "section_ok th (fst (submitDirect pool_ok t c)) c (snd (submitDirect pool_ok t c))"
    using metrics_section [OF w wb, of "metrics c" th "[Running t]"]
      metrics_section [OF w wb, of "(metrics c)\<lparr>submitFailureCount := submitFailureCount (metrics c) + 1\<rparr>"
        th "[RolledBack t]"]
    by (simp add: submitDirect_def count_submit_failure_def Submitting)
  then show thesis using that [of "fst (submitDirect pool_ok t c)" "snd (submitDirect pool_ok t c)"]
    by (simp add: Submitting)
next
  case (RolledBack t)
  let ?a = "task_activity t"
  have "0 < infl ?a c" using held [of ?a] by (simp add: RolledBack)
  then obtain c' where r: "rollbackDirectSubmit ?a now c = Some c'"
      and a: "acts ?a (infl ?a c - 1) (box ?a c) c c'"
    using rollbackDirect_acts [OF w] by blast
  have "section_ok th [] c c'"
    using wb by (intro acts_section [OF a wb]) (auto simp: RolledBack well_boxed_def intro: order_trans [of _ "infl ?a c"])
  then show thesis using that r by (simp add: RolledBack)
next
  case (Batch a ts)
  then obtain t ts' where ts: "ts = t # ts'" using ok by (cases ts) auto
  have ta: "task_activity t = a" "\<And>t. t \<in> set ts' \<Longrightarrow> task_activity t = a" using ok Batch ts by auto
  let ?r = "submitMailboxBatch pool_ok a ts c"
  have "section_ok th (fst ?r) c (snd ?r)"
    using metrics_section [OF w wb, of "metrics c" th "Running t # (if ts' = [] then [] else [Batch a ts'])"]
      metrics_section [OF w wb, of "(metrics c)\<lparr>submitFailureCount := submitFailureCount (metrics c) + 1\<rparr>"
        th "[Returned a ts]"] ta
    by (simp add: count_submit_failure_def Batch ts)
  then show thesis using that [of "fst ?r" "snd ?r"] by (simp add: Batch)
next
  case (Returned a ts)
  have ts: "ts \<noteq> []" "\<And>t. t \<in> set ts \<Longrightarrow> task_activity t = a" using ok Returned by auto
  have "int (length ts) \<le> infl a c" using held [of a] by (simp add: Returned)
  then obtain c' where r: "rollbackMailboxBatch a ts now c = Some c'"
      and a: "acts a (infl a c - int (length ts)) (ts @ box a c) c c'"
    using rollbackBatch_acts [OF w ts(1)] by blast
  have "section_ok th [] c c'"
    using wb ts by (intro acts_section [OF a wb]) (auto simp: Returned well_boxed_def intro: order_trans [of _ "infl a c"])
  then show thesis using that r by (simp add: Returned)
next
  case (Running t)
  let ?a = "task_activity t"
  let ?c = "if res = ProcOk then c
      else c\<lparr>metrics := (metrics c)\<lparr>processErrorCount := processErrorCount (metrics c) + 1\<rparr>\<rparr>"
  have eq: "infl d ?c = infl d c" "box d ?c = box d c" "cfg ?c = cfg c" "boxes ?c = boxes c" for d
    by simp_all
  have w': "ac_wf ?c" using w by (simp add: ac_wf_def)
  have wb': "well_boxed ?c" using wb by (simp add: well_boxed_def)
  have "0 < infl ?a ?c" "infl ?a ?c \<le> PerActivityLimit (cfg ?c)"
    using held [of ?a] wb by (simp_all add: eq Running well_boxed_def)
  then obtain nxt rest c' where o: "onTaskDone ?a now ?c = Some (nxt, c')" "box ?a ?c = nxt @ rest"
      "acts ?a (infl ?a ?c - 1 + int (length nxt)) rest ?c c'"
      "infl ?a ?c - 1 + int (length nxt) \<le> PerActivityLimit (cfg ?c)"
      "rest = [] \<or> infl ?a ?c - 1 + int (length nxt) = PerActivityLimit (cfg ?c)"
    using onTaskDone_acts [OF w'] by blast
  let ?new = "if nxt = [] then [] else [Batch ?a nxt]"
  have nr: "task_activity x = ?a" if "x \<in> set nxt \<or> x \<in> set rest" for x
    using wb that o(2) unfolding eq by (auto simp: well_boxed_def)
  have "section_ok th ?new ?c c'"
    by (rule acts_section [OF o(3) wb']) (use nr o(2,4,5) in \<open>auto simp: Running\<close>)
  then have "section_ok th ?new c c'" by (simp add: section_ok_def eq)
  moreover have "run_thread pool_ok res now th c = Some (?new, c')"
    using o(1) by (simp add: Running makeWorker_def)
  ultimately show thesis by (rule that [rotated])
qed

section \<open>The invariant of the system\<close>

definition sys_inv :: "'p sys \<Rightarrow> bool" where
  "sys_inv s \<longleftrightarrow> ac_wf (cons s) \<and> validate (cfg (cons s)) = None \<and> well_boxed (cons s)
     \<and> (\<forall>th \<in> set (threads s). thread_ok th)
     \<and> (\<forall>a. infl a (cons s) = tsum (slots a) (threads s))
     \<and> (\<forall>a. int (length (box a (cons s))) + tsum (reserved a) (threads s)
            \<le> PerActivityMailboxSize (cfg (cons s)) + PerActivityLimit (cfg (cons s)))
     \<and> mset (accepted s) = boxes (cons s) + tsum carried (threads s) + mset (rejected s) + mset (finished s)"

lemma validate_pos:
  "validate c = None \<Longrightarrow> 0 < PerActivityLimit c \<and> 0 \<le> PerActivityMailboxSize c \<and> 0 < ShardCount c"
  by (auto simp: validate_def split: if_splits)

lemma sum_list_replicate_zero: "sum_list (replicate n (0 :: 'm::comm_monoid_add)) = 0"
  by (induction n) simp_all

lemma sys_inv_init:
  assumes "NewConsumer newpool config False = Inr c"
  shows "sys_inv (ac_init c)" "cfg c = config" "box a c = []"
proof -
  have v: "validate config = None" using assms by (auto simp: NewConsumer_def split: option.splits)
  have c: "c = \<lparr>cfg = config, shards = replicate (nat (ShardCount config)) [], closed = False,
      gcRunning = True, metrics = no_metrics\<rparr>"
    using assms by (auto simp: NewConsumer_def StartGC_def split: option.splits)
  have sf: "shardFor c a < nat (ShardCount config)" for a
    using shardFor_less [of c a] validate_pos [OF v] by (simp add: c)
  have look: "lookup_state c a = None" for a
    using sf [of a] by (simp add: lookup_state_def) (simp add: c)
  have tot: "total_of f c = 0" for f :: "'a ActivityState \<Rightarrow> 'm::comm_monoid_add"
    by (simp add: c total_of_def sum_list_replicate_zero)
  show "cfg c = config" by (simp add: c)
  show "box a c = []" by (simp add: box_def look)
  show "sys_inv (ac_init c)"
    using v validate_pos [OF v] tot look
    by (simp add: sys_inv_def ac_init_def ac_wf_def infl_def box_def well_boxed_def tot)
       (simp add: c shards_wf_def no_metrics_def)
qed

lemma sys_inv_deliver:
  assumes inv: "sys_inv s"
  shows "sys_inv (deliver ctx msg now s)" "cfg (cons (deliver ctx msg now s)) = cfg (cons s)"
proof -
  let ?a = "ActivityID msg" and ?c = "cons s"
  have w: "ac_wf ?c" and l: "0 < PerActivityLimit (cfg ?c)" and m: "0 \<le> PerActivityMailboxSize (cfg ?c)"
    and wb: "well_boxed ?c"
    using inv validate_pos by (auto simp: sys_inv_def)
  obtain r c' where h: "HandleMessage ctx msg now ?c = (r, c')" by fastforce
  have "sys_inv (deliver ctx msg now s) \<and> cfg (cons (deliver ctx msg now s)) = cfg ?c"
  proof (cases "closed ?c")
    case True
    then show ?thesis using inv by (simp add: deliver_def HandleMessage_def)
  next
    case False
    note H = HandleMessage_acts [OF w False l h]
    have "tsum (reserved ?a) (threads s) \<le> tsum (slots ?a) (threads s)"
      using reserved_le_slots by (auto intro: tsum_mono)
    also have "\<dots> \<le> PerActivityLimit (cfg ?c)" using inv by (auto simp: sys_inv_def well_boxed_def)
    finally have R: "tsum (reserved ?a) (threads s) \<le> PerActivityLimit (cfg ?c)" .
    show ?thesis
    proof (cases r)
      case (Direct t)
      then have t: "task_activity t = ?a" and a: "acts ?a (infl ?a ?c + 1) (box ?a ?c) ?c c'"
        and i: "infl ?a ?c < PerActivityLimit (cfg ?c)"
        using H by (simp_all add: task_activity_def)
      show ?thesis
        using inv a acts_boxes [OF a] i wb t h Direct
        by (auto simp: deliver_def sys_inv_def acts_def well_boxed_def)
    next
      case (Queued t)
      then have t: "task_activity t = ?a" and a: "acts ?a (infl ?a ?c) (box ?a ?c @ [t]) ?c c'"
        and i: "int (length (box ?a ?c)) < PerActivityMailboxSize (cfg ?c)"
        using H by (simp_all add: task_activity_def)
      have bx: "boxes c' = boxes ?c + {#t#}" using acts_boxes [OF a] by (simp add: ac_simps)
      show ?thesis
        using inv a bx i wb t h Queued R
        by (auto simp: deliver_def sys_inv_def acts_def well_boxed_def)
    next
      case (Refused_with e)
      then have a: "acts ?a (infl ?a ?c) (box ?a ?c) ?c c'" using H by simp
      show ?thesis
        using inv a acts_boxes [OF a] wb h Refused_with
        by (auto simp: deliver_def sys_inv_def acts_def well_boxed_def)
    qed
  qed
  then show "sys_inv (deliver ctx msg now s)" "cfg (cons (deliver ctx msg now s)) = cfg (cons s)"
    by auto
qed

lemma log_thread_simps [simp]:
  "cons (log_thread th s) = cons s" "threads (log_thread th s) = threads s"
  "accepted (log_thread th s) = accepted s"
  "mset (rejected (log_thread th s)) + mset (finished (log_thread th s))
     = mset (rejected s) + mset (finished s) + logged th"
  by (cases th; simp add: log_thread_def)+

lemma tsum_split:
  fixes f :: "'p thread \<Rightarrow> 'm::comm_monoid_add"
  assumes "i < length ths"
  shows "tsum f ths = f (ths ! i) + tsum f (take i ths @ drop (Suc i) ths)"
proof -
  have "tsum f ths = tsum f (take i ths @ ths ! i # drop (Suc i) ths)"
    by (simp add: id_take_nth_drop [OF assms, symmetric])
  then show ?thesis by (simp add: ac_simps)
qed

lemma sys_inv_sched:
  assumes inv: "sys_inv s" and i: "i < length (threads s)"
  obtains s' where "ac_step (Sched i pool_ok res now) s = Some (Some s')" "sys_inv s'"
    "cfg (cons s') = cfg (cons s)"
proof -
  let ?c = "cons s" and ?th = "threads s ! i" and ?rest = "take i (threads s) @ drop (Suc i) (threads s)"
  have w: "ac_wf ?c" "well_boxed ?c" using inv by (auto simp: sys_inv_def)
  have ok: "thread_ok ?th" using inv i by (auto simp: sys_inv_def)
  have I: "infl d ?c = slots d ?th + tsum (slots d) ?rest" for d
    using inv tsum_split [OF i, of "slots d"] by (simp add: sys_inv_def)
  have held: "slots d ?th \<le> infl d ?c" for d
    using I [of d] tsum_nonneg [of "slots d" ?rest] by simp
  obtain new c' where r: "run_thread pool_ok res now ?th ?c = Some (new, c')"
      and sec: "section_ok ?th new ?c c'"
    using run_thread_section [OF w ok held] by metis
  define s' where "s' = log_thread ?th (s\<lparr>cons := c', threads := take i (threads s) @ new @ drop (Suc i) (threads s)\<rparr>)"
  have st: "ac_step (Sched i pool_ok res now) s = Some (Some s')" using i r by (simp add: s'_def)
  have T: "tsum f (threads s') = tsum f new + tsum f ?rest" for f :: "'a thread \<Rightarrow> 'm::comm_monoid_add"
    by (simp add: s'_def ac_simps)
  have cf: "cfg c' = cfg ?c" using sec by (simp add: section_ok_def)
  have "\<forall>th \<in> set (threads s'). thread_ok th"
    using inv sec by (auto simp: s'_def sys_inv_def section_ok_def dest: in_set_takeD in_set_dropD)
  moreover have "infl a c' = tsum (slots a) (threads s')" for a
  proof -
    have "infl a c' + slots a ?th = infl a ?c + tsum (slots a) new" using sec by (simp add: section_ok_def)
    then show ?thesis using I [of a] T [of "slots a"] by linarith
  qed
  moreover have "int (length (box a c')) + tsum (reserved a) (threads s')
      \<le> PerActivityMailboxSize (cfg ?c) + PerActivityLimit (cfg ?c)" for a
  proof -
    have "int (length (box a ?c)) + tsum (reserved a) (threads s)
        \<le> PerActivityMailboxSize (cfg ?c) + PerActivityLimit (cfg ?c)" using inv by (simp add: sys_inv_def)
    moreover have "int (length (box a c')) + tsum (reserved a) new \<le> int (length (box a ?c)) + reserved a ?th"
      using sec by (simp add: section_ok_def)
    ultimately show ?thesis using tsum_split [OF i, of "reserved a"] T [of "reserved a"] by linarith
  qed
  moreover have "mset (accepted s') = boxes c' + tsum carried (threads s') + mset (rejected s') + mset (finished s')"
  proof -
    have b: "boxes c' + tsum carried new + logged ?th = boxes ?c + carried ?th"
      using sec by (simp add: section_ok_def)
    have a: "mset (accepted s') = mset (accepted s)" by (simp add: s'_def)
    have l: "mset (rejected s') + mset (finished s') = mset (rejected s) + mset (finished s) + logged ?th"
      by (simp add: s'_def)
    have "mset (accepted s) = (boxes ?c + carried ?th) + tsum carried ?rest + (mset (rejected s) + mset (finished s))"
      using inv tsum_split [OF i, of carried] by (simp add: sys_inv_def ac_simps)
    also have "\<dots> = boxes c' + (tsum carried new + tsum carried ?rest) + (mset (rejected s) + mset (finished s) + logged ?th)"
      unfolding b [symmetric] by (simp add: ac_simps)
    finally show ?thesis unfolding a T [symmetric] l [symmetric] by (simp add: ac_simps)
  qed
  moreover have "cons s' = c'" by (simp add: s'_def)
  ultimately have "sys_inv s'" using inv sec cf by (simp add: sys_inv_def section_ok_def)
  then show thesis using that [OF st] cf \<open>cons s' = c'\<close> by simp
qed

lemma sys_inv_same_views:
  assumes "sys_inv s" "ac_wf c" "cfg c = cfg (cons s)" "\<And>a. infl a c = infl a (cons s)"
    "\<And>a. box a c = box a (cons s)" "boxes c = boxes (cons s)"
  shows "sys_inv (s\<lparr>cons := c\<rparr>)"
proof -
  have "well_boxed (cons s)" using assms(1) by (simp add: sys_inv_def)
  then have "well_boxed c" using assms(3-5) by (simp add: well_boxed_def)
  moreover have "infl a (cons s) = tsum (slots a) (threads s)" for a using assms(1) by (simp add: sys_inv_def)
  ultimately show ?thesis using assms unfolding sys_inv_def by simp
qed

lemma sys_inv_gc:
  assumes "sys_inv s" "i < length (shards (cons s))"
  shows "sys_inv (s\<lparr>cons := gc_shard now i (cons s)\<rparr>)"
proof -
  have "ac_wf (cons s)" using assms(1) by (simp add: sys_inv_def)
  note G = gc_shard_keeps [OF this assms(2), where now = now]
  show ?thesis by (rule sys_inv_same_views [OF assms(1)]) (rule G)+
qed

lemma Close_keeps:
  "cfg (Close c) = cfg c" "shards (Close c) = shards c" "metrics (Close c) = metrics c"
  by (simp_all add: Close_def StopGC_def)

lemma Close_views:
  "shardFor (Close c) a = shardFor c a" "lookup_state (Close c) a = lookup_state c a"
  "total_of f (Close c) = total_of f c"
  by (simp_all add: shardFor_def lookup_state_def total_of_def Close_keeps)

lemma sys_inv_close:
  assumes "sys_inv s"
  shows "sys_inv (s\<lparr>cons := Close (cons s)\<rparr>)"
proof -
  have "ac_wf (Close (cons s))" using assms
    by (simp add: sys_inv_def ac_wf_def shards_wf_def Close_keeps Close_views)
  then show ?thesis
    by (rule sys_inv_same_views [OF assms]) (simp_all add: infl_def box_def Close_keeps Close_views)
qed

lemma ac_step_inv:
  assumes "sys_inv s" "ac_step e s = Some r"
  shows "\<exists>s'. r = Some s' \<and> sys_inv s' \<and> cfg (cons s') = cfg (cons s)"
proof (cases e)
  case (Sched i pool_ok res now)
  then have "i < length (threads s)" using assms(2) by (auto split: if_splits)
  then show ?thesis using sys_inv_sched [OF assms(1)] assms(2) Sched by (metis option.inject)
next
  case (GcTick i now)
  then have i: "i < length (shards (cons s))" using assms(2) by (auto split: if_splits)
  have "ac_wf (cons s)" using assms(1) by (simp add: sys_inv_def)
  then show ?thesis using sys_inv_gc [OF assms(1) i] gc_shard_keeps(2) [OF _ i] assms(2) GcTick i by auto
next
  case (Deliver ctx msg now)
  then show ?thesis using sys_inv_deliver [OF assms(1)] assms(2) by auto
next
  case CloseCall
  then show ?thesis using sys_inv_close [OF assms(1)] assms(2) by (auto simp: Close_keeps)
qed

lemma reach_inv: "ac_reach config s \<Longrightarrow> sys_inv s \<and> cfg (cons s) = config"
proof (induction rule: ac_reach.induct)
  case (init newpool c)
  then show ?case using sys_inv_init by (auto simp: ac_init_def)
next
  case (step s e s')
  then show ?case using ac_step_inv by (metis option.inject)
qed


section \<open>Runs\<close>

lemma ac_run_append: "ac_run (xs @ ys) s = (case ac_run xs s of None \<Rightarrow> None | Some s' \<Rightarrow> ac_run ys s')"
  by (induction xs arbitrary: s) (auto split: option.splits)

lemma ac_run_ConsE:
  assumes "ac_run (e # es) s = Some s'"
  obtains s1 where "ac_step e s = Some (Some s1)" "ac_run es s1 = Some s'"
  using assms by (auto split: option.splits)

lemma ac_run_reach: "ac_reach config s \<Longrightarrow> ac_run es s = Some s' \<Longrightarrow> ac_reach config s'"
proof (induction es arbitrary: s)
  case (Cons e es)
  then show ?case by (metis ac_run_ConsE ac_reach.step)
qed simp

definition running_of :: "int \<Rightarrow> 'p sys \<Rightarrow> nat" where
  "running_of a s =
     length (filter (\<lambda>th. case th of Running t \<Rightarrow> task_activity t = a | _ \<Rightarrow> False) (threads s))"

lemma running_le_slots: "int (running_of a s) \<le> tsum (slots a) (threads s)"
proof -
  have "int (length (filter (\<lambda>th. case th of Running t \<Rightarrow> task_activity t = a | _ \<Rightarrow> False) ths))
      \<le> tsum (slots a) ths" for ths :: "'a thread list"
  proof (induction ths)
    case (Cons th ths)
    then show ?case by (cases th) (auto intro: add_increasing)
  qed simp
  then show ?thesis by (simp add: running_of_def)
qed

section \<open>Safety\<close>

text \<open>C21: the consumer bounds what it runs and never panics.  Whatever messages come in and
  however the goroutines, the garbage collector and \<open>Close\<close> interleave, at most
  \<open>PerActivityLimit\<close> tasks of an activity run at a time, and the state of an activity with a
  task in flight is never missing, so the panic of \<open>lockExistingState\<close> cannot happen.\<close>

theorem activity_limit:
  assumes "ac_reach config s"
  shows "int (running_of a s) \<le> PerActivityLimit config \<and> ac_step e s \<noteq> Some None"
proof
  have inv: "sys_inv s" "cfg (cons s) = config" using reach_inv [OF assms] by auto
  have "infl a (cons s) \<le> PerActivityLimit config" "infl a (cons s) = tsum (slots a) (threads s)"
    using inv by (auto simp: sys_inv_def well_boxed_def)
  then show "int (running_of a s) \<le> PerActivityLimit config" using running_le_slots [of a s] by linarith
  show "ac_step e s \<noteq> Some None" using ac_step_inv [OF inv(1)] by blast
qed

text \<open>C22: no task is lost or run twice.  In every reachable state the tasks that
  \<open>HandleMessage\<close> took in are, as multisets, those in the mailboxes, those the goroutines
  hold, those whose call reported the pool's refusal and those that ran; and a mailbox, which
  a refused batch can push past its configured size, never exceeds it by more than the limit.\<close>

theorem activity_no_loss:
  assumes "ac_reach config s"
  shows "mset (accepted s)
       = boxes (cons s) + tsum carried (threads s) + mset (rejected s) + mset (finished s)
     \<and> fst (ActivityMailboxLen a (cons s)) \<le> PerActivityMailboxSize config + PerActivityLimit config"
proof
  have inv: "sys_inv s" "cfg (cons s) = config" using reach_inv [OF assms] by auto
  have "0 \<le> tsum (reserved a) (threads s)" using reserved_le_slots by (auto intro: tsum_nonneg)
  moreover have "int (length (box a (cons s))) + tsum (reserved a) (threads s)
      \<le> PerActivityMailboxSize config + PerActivityLimit config"
    using inv by (simp add: sys_inv_def)
  moreover have "fst (ActivityMailboxLen a (cons s)) = int (length (box a (cons s)))"
    by (simp add: ActivityMailboxLen_def lockStateIfPresent_def box_def mailboxLenLocked_def split: option.split)
  ultimately show "fst (ActivityMailboxLen a (cons s)) \<le> PerActivityMailboxSize config + PerActivityLimit config"
    by linarith
  show "mset (accepted s)
      = boxes (cons s) + tsum carried (threads s) + mset (rejected s) + mset (finished s)"
    using inv(1) by (simp add: sys_inv_def)
qed


section \<open>Liveness\<close>

fun accepting :: "'p event \<Rightarrow> bool" where
  "accepting (Sched i pool_ok res now) \<longleftrightarrow> pool_ok"
| "accepting _ \<longleftrightarrow> True"

fun is_sched :: "'p event \<Rightarrow> bool" where
  "is_sched (Sched i pool_ok res now) \<longleftrightarrow> True"
| "is_sched _ \<longleftrightarrow> False"

text \<open>While the pool takes every task, a waiting task means that all slots are in use.\<close>

definition busy_inv :: "'p sys \<Rightarrow> bool" where
  "busy_inv s \<longleftrightarrow> sys_inv s \<and> rejected s = [] \<and> (\<forall>th \<in> set (threads s). \<not> rolls_back th)
     \<and> (\<forall>a. box a (cons s) \<noteq> [] \<longrightarrow> infl a (cons s) = PerActivityLimit (cfg (cons s)))"

text \<open>The work left: a task in a mailbox, in a batch, submitted, running.\<close>

fun thread_work :: "'p thread \<Rightarrow> nat" where
  "thread_work (Submitting t) = 2"
| "thread_work (RolledBack t) = 1"
| "thread_work (Running t) = 1"
| "thread_work (Batch b ts) = 2 * length ts"
| "thread_work (Returned b ts) = 2 * length ts"

definition work :: "'p sys \<Rightarrow> nat" where
  "work s = 3 * size (boxes (cons s)) + tsum thread_work (threads s)"


lemma busy_deliver:
  assumes b: "busy_inv s"
  shows "busy_inv (deliver ctx msg now s)"
proof -
  let ?a = "ActivityID msg" and ?c = "cons s"
  have inv: "sys_inv s" and full: "box d ?c \<noteq> [] \<Longrightarrow> infl d ?c = PerActivityLimit (cfg ?c)" for d
    using b by (auto simp: busy_inv_def)
  have w: "ac_wf ?c" and l: "0 < PerActivityLimit (cfg ?c)" and le: "infl ?a ?c \<le> PerActivityLimit (cfg ?c)"
    using inv validate_pos by (auto simp: sys_inv_def well_boxed_def)
  obtain r c' where h: "HandleMessage ctx msg now ?c = (r, c')" by fastforce
  have "box d (cons (deliver ctx msg now s)) \<noteq> [] \<Longrightarrow>
      infl d (cons (deliver ctx msg now s)) = PerActivityLimit (cfg ?c)" for d
  proof (cases "closed ?c")
    case True
    then show "box d (cons (deliver ctx msg now s)) \<noteq> [] \<Longrightarrow> ?thesis" using full
      by (simp add: deliver_def HandleMessage_def)
  next
    case False
    show "box d (cons (deliver ctx msg now s)) \<noteq> [] \<Longrightarrow> ?thesis"
      using HandleMessage_acts [OF w False l h] h full le
      by (cases r) (fastforce simp: deliver_def acts_def)+
  qed
  moreover have "rejected (deliver ctx msg now s) = rejected s"
    by (auto simp: deliver_def split: prod.splits handled.splits)
  moreover have "set (threads (deliver ctx msg now s)) \<subseteq> set (threads s) \<union> range Submitting"
    by (auto simp: deliver_def split: prod.splits handled.splits)
  ultimately show ?thesis
    using b sys_inv_deliver [OF inv, of ctx msg now] by (fastforce simp: busy_inv_def)
qed

lemma accepting_no_rollback:
  "run_thread True res now th c = Some (new, c') \<Longrightarrow> \<not> rolls_back th \<Longrightarrow> t \<in> set new \<Longrightarrow> \<not> rolls_back t"
proof (cases th)
  case (Batch b ts)
  assume "run_thread True res now th c = Some (new, c')" "t \<in> set new"
  then show ?thesis using Batch by (cases ts) (auto split: if_splits)
qed (auto simp: submitDirect_def split: if_splits)

lemma section_work:
  assumes r: "run_thread True res now th c = Some (new, c')" and sec: "section_ok th new c c'"
    and n: "\<not> rolls_back th" and ok: "thread_ok th"
  shows "3 * size (boxes c') + tsum thread_work new < 3 * size (boxes c) + thread_work th"
proof -
  have "size (boxes c' + tsum carried new + logged th) = size (boxes c + carried th)"
    using sec by (simp add: section_ok_def)
  then have sz: "size (boxes c') + size (tsum carried new) + size (logged th) = size (boxes c) + size (carried th)"
    by simp
  show ?thesis
  proof (cases th)
    case (Batch b ts)
    then obtain t ts' where "ts = t # ts'" using ok by (cases ts) auto
    then show ?thesis using r sz Batch by (auto split: if_splits)
  qed (use r sz n in \<open>auto simp: submitDirect_def split: if_splits\<close>)
qed

lemma busy_sched:
  assumes b: "busy_inv s" and i: "i < length (threads s)"
  obtains s' where "ac_step (Sched i True res now) s = Some (Some s')" "busy_inv s'" "work s' < work s"
    "accepted s' = accepted s" "rejected s' = rejected s"
proof -
  let ?c = "cons s" and ?th = "threads s ! i" and ?rest = "take i (threads s) @ drop (Suc i) (threads s)"
  have inv: "sys_inv s" using b by (simp add: busy_inv_def)
  have w: "ac_wf ?c" "well_boxed ?c" using inv by (auto simp: sys_inv_def)
  have ok: "thread_ok ?th" "\<not> rolls_back ?th" using inv i b by (auto simp: sys_inv_def busy_inv_def)
  have held: "slots d ?th \<le> infl d ?c" for d
    using inv tsum_split [OF i, of "slots d"] tsum_nonneg [of "slots d" ?rest] by (simp add: sys_inv_def)
  obtain new c' where r: "run_thread True res now ?th ?c = Some (new, c')"
      and sec: "section_ok ?th new ?c c'"
    using run_thread_section [OF w ok(1) held] by metis
  define s' where "s' = log_thread ?th (s\<lparr>cons := c', threads := take i (threads s) @ new @ drop (Suc i) (threads s)\<rparr>)"
  have st: "ac_step (Sched i True res now) s = Some (Some s')" using i r by (simp add: s'_def)
  have "sys_inv s'" using sys_inv_sched [OF inv i] st by (metis option.inject)
  moreover have "\<not> rolls_back t" if "t \<in> set (threads s')" for t
    using that b accepting_no_rollback [OF r ok(2)]
    by (auto simp: s'_def busy_inv_def dest: in_set_takeD in_set_dropD)
  moreover have "box a c' \<noteq> [] \<Longrightarrow> infl a c' = PerActivityLimit (cfg c')" for a
    using sec ok(2) b by (fastforce simp: section_ok_def busy_inv_def)
  moreover have rej: "rejected s' = rejected s" using ok(2) by (cases ?th) (simp_all add: s'_def log_thread_def)
  ultimately have "busy_inv s'" using b by (simp add: busy_inv_def s'_def)
  moreover have "work s' < work s"
    using section_work [OF r sec ok(2,1)] tsum_split [OF i, of thread_work]
    by (simp add: work_def s'_def)
  moreover note rej
  moreover have "accepted s' = accepted s" by (simp add: s'_def)
  ultimately show thesis using that [OF st] by blast
qed

lemma busy_gc_close:
  assumes "busy_inv s" "sys_inv (s\<lparr>cons := c\<rparr>)" "cfg c = cfg (cons s)"
    "\<And>a. infl a c = infl a (cons s)" "\<And>a. box a c = box a (cons s)"
  shows "busy_inv (s\<lparr>cons := c\<rparr>)"
  using assms(1,2) unfolding busy_inv_def by (simp add: assms(3-5))

lemma busy_step:
  assumes b: "busy_inv s" and e: "accepting e" and st: "ac_step e s = Some (Some s')"
  shows "busy_inv s'"
proof (cases e)
  case (Deliver ctx msg now)
  then show ?thesis using busy_deliver [OF b] st by auto
next
  case (Sched i pool_ok res now)
  then have i: "i < length (threads s)" and p: "pool_ok = True" using st e by (auto split: if_splits)
  obtain s2 where "ac_step (Sched i True res now) s = Some (Some s2)" "busy_inv s2"
    by (rule busy_sched [OF b i])
  then show ?thesis using st Sched p by simp
next
  case (GcTick i now)
  then have i: "i < length (shards (cons s))" and s': "s' = s\<lparr>cons := gc_shard now i (cons s)\<rparr>"
    using st by (auto split: if_splits)
  have inv: "sys_inv s" and w: "ac_wf (cons s)" using b by (auto simp: busy_inv_def sys_inv_def)
  note G = gc_shard_keeps [OF w i, where now = now]
  show ?thesis unfolding s' by (rule busy_gc_close [OF b sys_inv_gc [OF inv i]]) (rule G)+
next
  case CloseCall
  then have s': "s' = s\<lparr>cons := Close (cons s)\<rparr>" using st by simp
  have inv: "sys_inv s" using b by (simp add: busy_inv_def)
  show ?thesis unfolding s'
    by (rule busy_gc_close [OF b sys_inv_close [OF inv]]) (simp_all add: Close_keeps infl_def box_def Close_views)
qed

lemma busy_run:
  "busy_inv s \<Longrightarrow> list_all accepting es \<Longrightarrow> ac_run es s = Some s' \<Longrightarrow> busy_inv s'"
proof (induction es arbitrary: s)
  case (Cons e es)
  from Cons.prems(3) obtain s1 where "ac_step e s = Some (Some s1)" "ac_run es s1 = Some s'"
    by (rule ac_run_ConsE)
  then show ?case using Cons.IH busy_step [OF Cons.prems(1)] Cons.prems(2) by auto
qed simp

lemma busy_init: "NewConsumer newpool config False = Inr c \<Longrightarrow> busy_inv (ac_init c)"
proof -
  assume n: "NewConsumer newpool config False = Inr c"
  have inv: "sys_inv (ac_init c)" by (rule sys_inv_init [OF n])
  then show ?thesis using sys_inv_init(3) [OF n] by (simp add: busy_inv_def ac_init_def)
qed

lemma sched_run_work:
  "busy_inv s \<Longrightarrow> list_all (\<lambda>e. is_sched e \<and> accepting e) es \<Longrightarrow> ac_run es s = Some s' \<Longrightarrow>
     length es + work s' \<le> work s \<and> accepted s' = accepted s \<and> rejected s' = rejected s"
proof (induction es arbitrary: s)
  case (Cons e es)
  obtain i res now where e: "e = Sched i True res now" using Cons.prems(2) by (cases e) auto
  note b = Cons.prems(1)
  obtain s1 where s1: "ac_step e s = Some (Some s1)" and run: "ac_run es s1 = Some s'"
    by (rule ac_run_ConsE [OF Cons.prems(3)])
  have "i < length (threads s)" using s1 e by (auto split: if_splits)
  then obtain s2 where s2: "ac_step e s = Some (Some s2)" "busy_inv s2" "work s2 < work s"
      "accepted s2 = accepted s" "rejected s2 = rejected s"
    using busy_sched [OF Cons.prems(1)] e by metis
  then have "s2 = s1" using s1 by simp
  then have "length es + work s' \<le> work s1 \<and> accepted s' = accepted s1 \<and> rejected s' = rejected s1"
    using Cons.IH [OF _ _ run] s2(2) Cons.prems(2) by simp
  then show ?case using s2 \<open>s2 = s1\<close> by auto
qed simp


lemma sum_list_zero: "(\<And>x. x \<in> set xs \<Longrightarrow> g x = 0) \<Longrightarrow> sum_list (map g xs) = (0 :: 'm::comm_monoid_add)"
  by (induction xs) simp_all

lemma boxes_empty:
  assumes w: "shards_wf c" and e: "\<And>a. box a c = []"
  shows "boxes c = {#}"
proof -
  have "mailbox st = []" if i: "i < length (shards c)" and m: "(a, st) \<in> set (shards c ! i)" for i a st
  proof -
    have "shardFor c (fst (a, st)) = i" "distinct (map fst (shards c ! i))"
      using w i m unfolding shards_wf_def by blast+
    then have "lookup_state c a = Some st" using m by (simp add: lookup_state_def)
    then show ?thesis using e [of a] by (simp add: box_def)
  qed
  then have z: "mailbox (snd e) = []" if "m \<in> set (shards c)" "e \<in> set m" for m e
    using that in_set_conv_nth [of m "shards c"] by (metis prod.collapse)
  have "sum_list (map ((\<lambda>st. mset (mailbox st)) \<circ> snd) m) = {#}" if "m \<in> set (shards c)" for m
    by (rule sum_list_zero) (simp add: z [OF that])
  then show ?thesis unfolding total_of_def by (rule sum_list_zero)
qed

text \<open>C24: as long as the pool takes the tasks, everything that was accepted runs.  After any
  history in which no submission was refused, let the goroutines run on in any order: they
  take at most \<open>work s\<close> further sections, as long as there is a goroutine one of them can go
  on, and when none is left exactly the accepted tasks have run, no mailbox holding one back.\<close>

theorem activity_drains:
  assumes "NewConsumer newpool config False = Inr c"
    and "list_all accepting es" "ac_run es (ac_init c) = Some s"
    and "list_all (\<lambda>e. is_sched e \<and> accepting e) es'" "ac_run es' s = Some s'"
  shows "length es' \<le> work s
     \<and> (threads s' = [] \<or> (\<exists>s''. ac_step (Sched 0 True ProcOk now) s' = Some (Some s'')))
     \<and> (threads s' \<noteq> [] \<or> mset (finished s') = mset (accepted s))"
proof -
  have b: "busy_inv s" by (rule busy_run [OF busy_init [OF assms(1)] assms(2,3)])
  have r: "length es' + work s' \<le> work s" "accepted s' = accepted s"
    using sched_run_work [OF b assms(4,5)] by auto
  have "list_all accepting es'" using assms(4) by (auto simp: list_all_iff)
  then have b': "busy_inv s'" by (rule busy_run [OF b _ assms(5)])
  have inv: "sys_inv s'" using b' by (simp add: busy_inv_def)
  have "\<exists>s''. ac_step (Sched 0 True ProcOk now) s' = Some (Some s'')" if "threads s' \<noteq> []"
    using busy_sched [OF b', of 0] that by (metis length_greater_0_conv)
  moreover have "mset (finished s') = mset (accepted s)" if t: "threads s' = []"
  proof -
    have "infl a (cons s') = 0" for a using inv t by (simp add: sys_inv_def)
    moreover have "0 < PerActivityLimit (cfg (cons s'))" using inv validate_pos by (auto simp: sys_inv_def)
    ultimately have "box a (cons s') = []" for a using b' by (fastforce simp: busy_inv_def)
    moreover have "shards_wf (cons s')" using inv by (simp add: sys_inv_def ac_wf_def)
    ultimately have "boxes (cons s') = {#}" by (intro boxes_empty)
    then show ?thesis using inv b' t r(2) by (simp add: sys_inv_def busy_inv_def)
  qed
  ultimately show ?thesis using r(1) by auto
qed

section \<open>A task left behind\<close>

fun delivers :: "int \<Rightarrow> 'p event \<Rightarrow> bool" where
  "delivers a (Deliver ctx msg now) \<longleftrightarrow> ActivityID msg = a"
| "delivers a _ \<longleftrightarrow> False"

lemma idle_step:
  assumes inv: "sys_inv s" and z: "infl a (cons s) = 0" and d: "\<not> delivers a e"
    and st: "ac_step e s = Some (Some s')"
  shows "box a (cons s') = box a (cons s) \<and> infl a (cons s') = 0"
proof (cases e)
  case (Deliver ctx msg now)
  then have s': "s' = deliver ctx msg now s" and na: "a \<noteq> ActivityID msg" using st d by auto
  have w: "ac_wf (cons s)" "0 < PerActivityLimit (cfg (cons s))"
    using inv validate_pos by (auto simp: sys_inv_def)
  obtain r c' where h: "HandleMessage ctx msg now (cons s) = (r, c')" by fastforce
  show ?thesis
  proof (cases "closed (cons s)")
    case True
    then show ?thesis using z by (simp add: s' deliver_def HandleMessage_def)
  next
    case False
    show ?thesis using HandleMessage_acts [OF w(1) False w(2) h] h z na
      by (cases r) (simp_all add: s' deliver_def acts_def)
  qed
next
  case (Sched i pool_ok res now)
  then have i: "i < length (threads s)" using st by (auto split: if_splits)
  let ?th = "threads s ! i" and ?rest = "take i (threads s) @ drop (Suc i) (threads s)"
  have w: "ac_wf (cons s)" "well_boxed (cons s)" using inv by (auto simp: sys_inv_def)
  have ok: "thread_ok ?th" using inv i by (auto simp: sys_inv_def)
  have held: "slots d ?th \<le> infl d (cons s)" for d
    using inv tsum_split [OF i, of "slots d"] tsum_nonneg [of "slots d" ?rest] by (simp add: sys_inv_def)
  obtain new c' where r: "run_thread pool_ok res now ?th (cons s) = Some (new, c')"
      and sec: "section_ok ?th new (cons s) c'"
    using run_thread_section [OF w ok held] by metis
  have c': "cons s' = c'" and thr: "threads s' = take i (threads s) @ new @ drop (Suc i) (threads s)"
    using st Sched i r by auto
  have "slots a ?th = 0" using held [of a] z slots_nonneg [of a ?th] by linarith
  then show ?thesis using sec z c' by (simp add: section_ok_def)
next
  case (GcTick i now)
  then have i: "i < length (shards (cons s))" and s': "s' = s\<lparr>cons := gc_shard now i (cons s)\<rparr>"
    using st by (auto split: if_splits)
  have "ac_wf (cons s)" using inv by (simp add: sys_inv_def)
  then show ?thesis using gc_shard_keeps(4,5) [OF _ i] z by (simp add: s')
next
  case CloseCall
  then show ?thesis using st z by (auto simp: Close_keeps infl_def box_def Close_views)
qed


text \<open>A refused batch can leave its tasks behind.  When the pool refuses the tasks of the
  last worker of an activity, they go back to the mailbox and no goroutine is left to drain
  it: from such a state, whatever the other activities, the garbage collector and \<open>Close\<close> do,
  the mailbox stays as it is until another message of the same activity arrives.\<close>

theorem activity_stuck:
  assumes "ac_reach config s" "infl a (cons s) = 0"
    and "list_all (\<lambda>e. \<not> delivers a e) es" "ac_run es s = Some s'"
  shows "box a (cons s') = box a (cons s)"
proof -
  have "sys_inv s" using reach_inv [OF assms(1)] by simp
  then show ?thesis using assms(2-4)
  proof (induction es arbitrary: s)
    case (Cons e es)
    obtain s1 where s1: "ac_step e s = Some (Some s1)" and run: "ac_run es s1 = Some s'"
      by (rule ac_run_ConsE [OF Cons.prems(4)])
    have "\<not> delivers a e" using Cons.prems(3) by simp
    then have "box a (cons s1) = box a (cons s) \<and> infl a (cons s1) = 0"
      by (rule idle_step [OF Cons.prems(1,2) _ s1])
    moreover have "sys_inv s1" using ac_step_inv [OF Cons.prems(1) s1] by simp
    ultimately show ?case using Cons.IH [OF _ _ _ run] Cons.prems(3) by simp
  qed simp
qed

section \<open>Examples\<close>

text \<open>One slot, a mailbox of one task.\<close>

definition ex_config :: Config where
  "ex_config = \<lparr>PoolSize = 1, PerActivityLimit = 1, PerActivityMailboxSize = 1, ActivityTTL = 60,
     GCInterval = 30, ShardCount = 2\<rparr>"

definition ex_consumer :: "string Consumer" where
  "ex_consumer = StartGC \<lparr>cfg = ex_config, shards = [[], []], closed = False, gcRunning = False,
     metrics = no_metrics\<rparr>"

definition ex_msg :: "int \<Rightarrow> string \<Rightarrow> string Message" where
  "ex_msg a r = \<lparr>ActivityID = a, RequestID = r, Payload = r\<rparr>"

text \<open>Two messages of activity 7, the first runs; its successor is refused by the pool.\<close>

definition ex_refused :: "string event list" where
  "ex_refused = [Deliver NilCtx (ex_msg 7 ''r1'') 100, Sched 0 True ProcOk 100,
     Deliver NilCtx (ex_msg 7 ''r2'') 101, Sched 0 True ProcOk 102, Sched 0 False ProcOk 102,
     Sched 0 True ProcOk 102]"

definition ex_accepted :: "string event list" where
  "ex_accepted = take 3 ex_refused"

definition ex_state :: "string event list \<Rightarrow> string sys" where
  "ex_state es = the (ac_run es (ac_init ex_consumer))"

lemma ex_new: "NewConsumer (\<lambda>_. None) ex_config False = Inr ex_consumer"
  by (simp add: NewConsumer_def validate_def ex_config_def ex_consumer_def numeral_2_eq_2)

lemma ex_run: "ac_run ex_refused (ac_init ex_consumer) = Some (ex_state ex_refused)"
    "ac_run ex_accepted (ac_init ex_consumer) = Some (ex_state ex_accepted)"
  unfolding ex_state_def by code_simp+

lemma ex_reach: "ac_reach ex_config (ex_state ex_refused)"
  by (rule ac_run_reach [OF ac_reach.init [OF ex_new] ex_run(1)])

lemma ex_facts:
  "running_of 7 (ex_state ex_accepted) = 1" "box 7 (cons (ex_state ex_refused)) = [\<lparr>tctx = Background, tmsg = ex_msg 7 ''r2''\<rparr>]"
  "infl 7 (cons (ex_state ex_refused)) = 0"
  by code_simp+


text \<open>A mailbox of one task holds two after a rollback, and a later message overtakes the one
  that waits.\<close>

definition ex_overfull :: "string event list" where
  "ex_overfull = take 5 ex_refused @ [Deliver NilCtx (ex_msg 7 ''r3'') 103, Sched 0 True ProcOk 103]"

definition ex_overtaken :: "string event list" where
  "ex_overtaken = ex_refused @ [Deliver NilCtx (ex_msg 7 ''r3'') 103, Sched 0 True ProcOk 103,
     Sched 0 True ProcOk 104, Sched 0 True ProcOk 104, Sched 0 True ProcOk 104]"

lemma activity_mailbox_overfull:
  "ActivityMailboxLen 7 (cons (ex_state ex_overfull)) = (2, True)" "PerActivityMailboxSize ex_config = 1"
  by code_simp+

lemma activity_overtaken:
  "map (RequestID \<circ> tmsg) (accepted (ex_state ex_overtaken)) = [''r1'', ''r2'', ''r3'']"
  "map (RequestID \<circ> tmsg) (finished (ex_state ex_overtaken)) = [''r1'', ''r3'', ''r2'']"
  by code_simp+

section \<open>Witnesses\<close>

lemma ex_reach_accepted: "ac_reach ex_config (ex_state ex_accepted)"
  by (rule ac_run_reach [OF ac_reach.init [OF ex_new] ex_run(2)])

theorem activity_limit_witness:
  "running_of 7 (ex_state ex_accepted) = 1 \<and> int (running_of 7 (ex_state ex_accepted)) \<le> 1
   \<and> ac_step (Sched 0 True ProcOk 102) (ex_state ex_accepted) \<noteq> Some None"
  using activity_limit [OF ex_reach_accepted, of 7 "Sched 0 True ProcOk 102"] ex_facts(1)
  by (simp add: ex_config_def)

theorem activity_no_loss_witness:
  "mset (accepted (ex_state ex_accepted))
     = boxes (cons (ex_state ex_accepted)) + tsum carried (threads (ex_state ex_accepted))
       + mset (rejected (ex_state ex_accepted)) + mset (finished (ex_state ex_accepted))
   \<and> length (accepted (ex_state ex_accepted)) = 2
   \<and> fst (ActivityMailboxLen 7 (cons (ex_state ex_accepted))) \<le> 2"
proof -
  have "length (accepted (ex_state ex_accepted)) = 2" by code_simp
  then show ?thesis using activity_no_loss [OF ex_reach_accepted, of 7] by (simp add: ex_config_def)
qed


definition ex_drain :: "string event list" where
  "ex_drain = replicate 3 (Sched 0 True ProcOk 102)"

lemma ex_drain_run:
  "ac_run ex_drain (ex_state ex_accepted) = Some (ex_state (ex_accepted @ ex_drain))"
  "list_all accepting ex_accepted" "list_all (\<lambda>e. is_sched e \<and> accepting e) ex_drain"
  "threads (ex_state (ex_accepted @ ex_drain)) = []" "length (finished (ex_state (ex_accepted @ ex_drain))) = 2"
  by code_simp+

theorem activity_drains_witness:
  "length ex_drain \<le> work (ex_state ex_accepted)
   \<and> mset (finished (ex_state (ex_accepted @ ex_drain))) = mset (accepted (ex_state ex_accepted))
   \<and> length (finished (ex_state (ex_accepted @ ex_drain))) = 2"
  using activity_drains [OF ex_new ex_drain_run(2) ex_run(2) ex_drain_run(3,1)] ex_drain_run(4,5) by simp

definition ex_later :: "string event list" where
  "ex_later = [Deliver NilCtx (ex_msg 8 ''r4'') 110, Sched 0 True ProcOk 110, Sched 0 True ProcOk 111,
     GcTick 1 500, GcTick 0 500, CloseCall]"

lemma ex_later_run:
  "ac_run ex_later (ex_state ex_refused) = Some (ex_state (ex_refused @ ex_later))"
  "list_all (\<lambda>e. \<not> delivers 7 e) ex_later"
  by code_simp+

theorem activity_stuck_witness:
  "box 7 (cons (ex_state (ex_refused @ ex_later))) = [\<lparr>tctx = Background, tmsg = ex_msg 7 ''r2''\<rparr>]"
  using activity_stuck [OF ex_reach ex_facts(3) ex_later_run(2,1)] ex_facts(2) by simp

end
