(* ===== verification/Migrator.thy ===== *)
theory Migrator
  imports Prelude
begin

text \<open>
  \<open>pkg/migrator\<close>: moving a table from a source to a target database while both are in use.  The
  validator scans both tables and reports differences, the fixers repair them, the scheduler
  switches the double-write pattern and starts validations.  A table is a list of rows of an
  entity type; what a statement answers in a round (\<open>world\<close>) is an input, so are the two
  tables it reads, which other writers may change between rounds.
\<close>

section \<open>Entities, events, faults\<close>

text \<open>
  \<open>e_CompareTo\<close> is the method \<open>CompareTo\<close> of the type, if it has one; \<open>e_merge t old\<close> is
  what gorm's \<open>Updates\<close> makes of a row, which writes the non-zero fields of \<open>t\<close> only;
  \<open>e_diff\<close> is the library's \<open>slice.DiffSet\<close>.
\<close>

record 'e entity =
  e_id :: "'e \<Rightarrow> int"
  e_utime :: "'e \<Rightarrow> int"
  e_CompareTo :: "('e \<Rightarrow> 'e \<Rightarrow> bool) option"
  e_merge :: "'e \<Rightarrow> 'e \<Rightarrow> 'e"
  e_diff :: "int list \<Rightarrow> int list \<Rightarrow> int list"

datatype db_err = DbCanceled | DbDeadline | DbNotFound | DbErr string

datatype incon_type = TargetMissing | NEQ | BaseMissing | OtherType string

record InconsistentEvent =
  iv_ID :: int
  iv_Direction :: string
  iv_Type :: incon_type

text \<open>Without \<open>CompareTo\<close> the rows are compared by \<open>reflect.DeepEqual\<close>, equality of the rows.\<close>

definition same_rows :: "'e entity \<Rightarrow> 'e \<Rightarrow> 'e \<Rightarrow> bool" where
  "same_rows E src dst = (case e_CompareTo E of Some f \<Rightarrow> f src dst | None \<Rightarrow> src = dst)"

text \<open>One round of a scan: the tables it sees and the errors of its statements.  The rows a
  failed query had already delivered are the first \<open>w_scanned\<close> ones.\<close>

record 'e world =
  w_base :: "'e list"
  w_target :: "'e list"
  w_base_err :: "db_err option"
  w_target_err :: "db_err option"
  w_scanned :: nat
  w_send_err :: "int \<Rightarrow> bool"

record Validator =
  v_batchSize :: int
  v_direction :: string
  v_utime :: int
  v_sleepInterval :: int
  v_incr :: bool

definition NeValidator :: "string \<Rightarrow> int \<Rightarrow> Validator" where
  "NeValidator direction batchSize =
     \<lparr>v_batchSize = batchSize, v_direction = direction, v_utime = 0, v_sleepInterval = 0, v_incr = False\<rparr>"

definition SleepInterval :: "int \<Rightarrow> Validator \<Rightarrow> Validator" where
  "SleepInterval i v = v\<lparr>v_sleepInterval := i\<rparr>"

definition Utime :: "int \<Rightarrow> Validator \<Rightarrow> Validator" where
  "Utime utime v = v\<lparr>v_utime := utime\<rparr>"

definition Incr :: "Validator \<Rightarrow> Validator" where
  "Incr v = v\<lparr>v_incr := True\<rparr>"

section \<open>Reading\<close>

definition first_at :: "'e list \<Rightarrow> nat \<Rightarrow> db_err + 'e" where
  "first_at rows offset = (if offset < length rows then Inr (rows ! offset) else Inl DbNotFound)"

definition fullFromBase :: "'e entity \<Rightarrow> 'e world \<Rightarrow> nat \<Rightarrow> db_err + 'e" where
  "fullFromBase E w offset =
     (case w_base_err w of
        Some e \<Rightarrow> Inl e
      | None \<Rightarrow> first_at (sort_key (e_id E) (w_base w)) offset)"

text \<open>\<open>First\<close> adds the primary key to the order.\<close>

definition IncrFromBase :: "'e entity \<Rightarrow> Validator \<Rightarrow> 'e world \<Rightarrow> nat \<Rightarrow> db_err + 'e" where
  "IncrFromBase E v w offset =
     (case w_base_err w of
        Some e \<Rightarrow> Inl e
      | None \<Rightarrow> first_at (sort_key (\<lambda>r. (e_utime E r, e_id E r))
                    (filter (\<lambda>r. v_utime v < e_utime E r) (w_base w))) offset)"

definition fromBase :: "'e entity \<Rightarrow> Validator \<Rightarrow> 'e world \<Rightarrow> nat \<Rightarrow> db_err + 'e" where
  "fromBase E v w offset = (if v_incr v then IncrFromBase E v w offset else fullFromBase E w offset)"

definition find_ids :: "'e world \<Rightarrow> int list \<Rightarrow> int list \<times> db_err option" where
  "find_ids w ids = (case w_target_err w of None \<Rightarrow> (ids, None) | Some e \<Rightarrow> (take (w_scanned w) ids, Some e))"

definition page_of :: "nat \<Rightarrow> int \<Rightarrow> 'a list \<Rightarrow> 'a list" where
  "page_of offset limit xs = take (nat limit) (drop offset xs)"

definition fullFromTarget :: "'e entity \<Rightarrow> Validator \<Rightarrow> 'e world \<Rightarrow> nat \<Rightarrow> int list \<times> db_err option" where
  "fullFromTarget E v w offset =
     find_ids w (page_of offset (v_batchSize v) (sort (map (e_id E) (w_target w))))"

definition IncrFromTarget :: "'e entity \<Rightarrow> Validator \<Rightarrow> 'e world \<Rightarrow> nat \<Rightarrow> int list \<times> db_err option" where
  "IncrFromTarget E v w offset =
     find_ids w (page_of offset (v_batchSize v)
       (map (e_id E) (sort_key (e_utime E) (filter (\<lambda>r. v_utime v < e_utime E r) (w_target w)))))"

definition fromTarget :: "'e entity \<Rightarrow> Validator \<Rightarrow> 'e world \<Rightarrow> nat \<Rightarrow> int list \<times> db_err option" where
  "fromTarget E v w offset = (if v_incr v then IncrFromTarget E v w offset else fullFromTarget E v w offset)"

section \<open>The two scans\<close>

text \<open>An event whose \<open>ProduceInconsistentEvent\<close> fails is logged and lost.\<close>

definition notify_inc :: "Validator \<Rightarrow> 'e world \<Rightarrow> int \<Rightarrow> incon_type \<Rightarrow> InconsistentEvent list" where
  "notify_inc v w rid ty =
     (if w_send_err w rid then [] else [\<lparr>iv_ID = rid, iv_Direction = v_direction v, iv_Type = ty\<rparr>])"

definition notifyBaseMissing :: "Validator \<Rightarrow> 'e world \<Rightarrow> int list \<Rightarrow> InconsistentEvent list" where
  "notifyBaseMissing v w ids = concat (map (\<lambda>rid. notify_inc v w rid BaseMissing) ids)"

definition stop_err :: "db_err \<Rightarrow> bool" where
  "stop_err e \<longleftrightarrow> e = DbCanceled \<or> e = DbDeadline"

text \<open>The target side of a round; \<open>None\<close> ends the scan.\<close>

definition compare_target ::
  "'e entity \<Rightarrow> Validator \<Rightarrow> 'e world \<Rightarrow> 'e \<Rightarrow> InconsistentEvent list option" where
  "compare_target E v w src =
     (case (case w_target_err w of
              Some e \<Rightarrow> Inl e
            | None \<Rightarrow> (case find_row (e_id E) (e_id E src) (w_target w) of
                         None \<Rightarrow> Inl DbNotFound | Some dst \<Rightarrow> Inr dst)) of
        Inr dst \<Rightarrow> Some (if \<not> same_rows E src dst then notify_inc v w (e_id E src) NEQ else [])
      | Inl e \<Rightarrow>
          if e = DbNotFound then Some (notify_inc v w (e_id E src) TargetMissing)
          else if stop_err e then None
          else Some [])"

text \<open>\<open>fuel\<close> bounds the rounds and \<open>k\<close> numbers them; \<open>None\<close>: the scan has not ended yet.\<close>

fun validateBaseToTarget ::
  "'e entity \<Rightarrow> Validator \<Rightarrow> (nat \<Rightarrow> 'e world) \<Rightarrow> nat \<Rightarrow> nat \<Rightarrow> nat \<Rightarrow> InconsistentEvent list option" where
  "validateBaseToTarget E v W 0 k offset = None"
| "validateBaseToTarget E v W (Suc fuel) k offset =
     (case fromBase E v (W k) offset of
        Inl e \<Rightarrow>
          if stop_err e then Some []
          else if e = DbNotFound then
            (if v_sleepInterval v \<le> 0 then Some [] else validateBaseToTarget E v W fuel (Suc k) offset)
          else validateBaseToTarget E v W fuel (Suc k) (Suc offset)
      | Inr src \<Rightarrow>
          (case compare_target E v (W k) src of
             None \<Rightarrow> Some []
           | Some evs \<Rightarrow> map_option ((@) evs) (validateBaseToTarget E v W fuel (Suc k) (Suc offset))))"

text \<open>The base side of a round: a query that fails delivers no rows, and the ids of the whole
  page are reported before its error is looked at.\<close>

definition compare_base ::
  "'e entity \<Rightarrow> Validator \<Rightarrow> 'e world \<Rightarrow> int list \<Rightarrow> InconsistentEvent list \<times> bool" where
  "compare_base E v w dstIds =
     (let srcTs = (if w_base_err w = None then filter (\<lambda>r. e_id E r \<in> set dstIds) (w_base w) else []);
          first = (if srcTs = [] then notifyBaseMissing v w dstIds else [])
      in case w_base_err w of
           None \<Rightarrow> (first @ notifyBaseMissing v w (e_diff E dstIds (map (e_id E) srcTs)), True)
         | Some e \<Rightarrow> (first, \<not> stop_err e))"

fun validateTargetToBase ::
  "'e entity \<Rightarrow> Validator \<Rightarrow> (nat \<Rightarrow> 'e world) \<Rightarrow> nat \<Rightarrow> nat \<Rightarrow> nat \<Rightarrow> InconsistentEvent list option" where
  "validateTargetToBase E v W 0 k offset = None"
| "validateTargetToBase E v W (Suc fuel) k offset =
     (let (dstIds, err) = fromTarget E v (W k) offset;
          offset' = offset + length dstIds;
          next = (\<lambda>evs. if int (length dstIds) < v_batchSize v \<and> v_sleepInterval v \<le> 0 then Some evs
                        else map_option ((@) evs) (validateTargetToBase E v W fuel (Suc k) offset'))
      in if dstIds = [] then
           (if v_sleepInterval v \<le> 0 then Some [] else validateTargetToBase E v W fuel (Suc k) offset)
         else (case err of
             Some e \<Rightarrow> if stop_err e then Some [] else next []
           | None \<Rightarrow>
               (let (evs, go) = compare_base E v (W k) dstIds in if go then next evs else Some evs)))"

text \<open>\<open>Validate\<close> runs both scans and waits; the events of either come in its order.\<close>

definition Validate ::
  "'e entity \<Rightarrow> Validator \<Rightarrow> (nat \<Rightarrow> 'e world) \<Rightarrow> (nat \<Rightarrow> 'e world) \<Rightarrow> nat
     \<Rightarrow> (InconsistentEvent list \<times> InconsistentEvent list) option" where
  "Validate E v W1 W2 fuel =
     (case (validateBaseToTarget E v W1 fuel 0 0, validateTargetToBase E v W2 fuel 0 0) of
        (Some a, Some b) \<Rightarrow> Some (a, b)
      | _ \<Rightarrow> None)"

section \<open>Fixers\<close>

definition upsert_row :: "('e \<Rightarrow> int) \<Rightarrow> 'e \<Rightarrow> 'e list \<Rightarrow> 'e list" where
  "upsert_row key t rows =
     (if find_row key (key t) rows = None then rows @ [t] else update_where (\<lambda>r. key r = key t) (\<lambda>_. t) rows)"

definition delete_row :: "('e \<Rightarrow> int) \<Rightarrow> int \<Rightarrow> 'e list \<Rightarrow> 'e list" where
  "delete_row key rid rows = filter (\<lambda>r. key r \<noteq> rid) rows"

text \<open>A read of the base row and a write of the target, either of which may fail.\<close>

definition read_row :: "('e \<Rightarrow> int) \<Rightarrow> db_err option \<Rightarrow> int \<Rightarrow> 'e list \<Rightarrow> db_err + 'e" where
  "read_row key err rid rows =
     (case err of
        Some e \<Rightarrow> Inl e
      | None \<Rightarrow> (case find_row key rid rows of None \<Rightarrow> Inl DbNotFound | Some r \<Rightarrow> Inr r))"

definition write_to :: "db_err option \<Rightarrow> ('e list \<Rightarrow> 'e list) \<Rightarrow> 'e list \<Rightarrow> db_err option \<times> 'e list" where
  "write_to err f rows = (case err of Some e \<Rightarrow> (Some e, rows) | None \<Rightarrow> (None, f rows))"

definition canceled_text :: db_err where
  "canceled_text = DbErr ''canceled or deadline exceeded''"

definition unsupported :: db_err where
  "unsupported = DbErr ''unsupported inconsistent event type''"

definition FixV1 ::
  "'e entity \<Rightarrow> db_err option \<Rightarrow> db_err option \<Rightarrow> InconsistentEvent \<Rightarrow> 'e list \<Rightarrow> 'e list
     \<Rightarrow> db_err option \<times> 'e list" where
  "FixV1 E rd wr evt base target =
     (let key = e_id E in
      if iv_Type evt = NEQ \<or> iv_Type evt = TargetMissing then
        (case read_row key rd (iv_ID evt) base of
           Inl e \<Rightarrow>
             if stop_err e then (Some canceled_text, target)
             else if e = DbNotFound then write_to wr (delete_row key (iv_ID evt)) target
             else (Some e, target)
         | Inr t \<Rightarrow> write_to wr (upsert_row key t) target)
      else if iv_Type evt = BaseMissing then write_to wr (delete_row key (iv_ID evt)) target
      else (Some unsupported, target))"

definition FixV2 ::
  "'e entity \<Rightarrow> db_err option \<Rightarrow> db_err option \<Rightarrow> InconsistentEvent \<Rightarrow> 'e list \<Rightarrow> 'e list
     \<Rightarrow> db_err option \<times> 'e list" where
  "FixV2 E rd wr evt base target =
     (let key = e_id E in
      if iv_Type evt = NEQ then
        (case read_row key rd (iv_ID evt) base of
           Inl e \<Rightarrow>
             if stop_err e then (Some canceled_text, target)
             else if e = DbNotFound then write_to wr (delete_row key (iv_ID evt)) target
             else (Some e, target)
         | Inr t \<Rightarrow> write_to wr (update_where (\<lambda>r. key r = iv_ID evt) (e_merge E t)) target)
      else if iv_Type evt = BaseMissing then write_to wr (delete_row key (iv_ID evt)) target
      else if iv_Type evt = TargetMissing then
        (case read_row key rd (iv_ID evt) base of
           Inl e \<Rightarrow>
             if stop_err e then (Some canceled_text, target)
             else if e = DbNotFound then (None, target)
             else (Some e, target)
         | Inr t \<Rightarrow>
             (case wr of
                Some e \<Rightarrow> (Some e, target)
              | None \<Rightarrow> if find_row key (key t) target = None then (None, target @ [t])
                        else (Some (DbErr ''duplicate key''), target)))
      else (Some unsupported, target))"

text \<open>\<open>del\<close> is gorm's \<open>Delete("id = ?", id)\<close>, which passes the text as the model to delete.\<close>

definition OverrideFixer_Fix ::
  "'e entity \<Rightarrow> (int \<Rightarrow> 'e list \<Rightarrow> db_err option \<times> 'e list) \<Rightarrow> db_err option \<Rightarrow> db_err option
     \<Rightarrow> int \<Rightarrow> 'e list \<Rightarrow> 'e list \<Rightarrow> db_err option \<times> 'e list" where
  "OverrideFixer_Fix E del rd wr rid base target =
     (case read_row (e_id E) rd rid base of
        Inr src \<Rightarrow> write_to wr (upsert_row (e_id E) src) target
      | Inl e \<Rightarrow> if e = DbNotFound then del rid target else (Some e, target))"

text \<open>The consumer of the events holds a fixer for each direction.\<close>

definition fix_consume ::
  "'e entity \<Rightarrow> (int \<Rightarrow> 'e list \<Rightarrow> db_err option \<times> 'e list) \<Rightarrow> db_err option \<Rightarrow> db_err option
     \<Rightarrow> InconsistentEvent \<Rightarrow> 'e list \<times> 'e list \<Rightarrow> db_err option \<times> 'e list \<times> 'e list" where
  "fix_consume E del rd wr t dbs =
     (let (src, dst) = dbs in
      if iv_Direction t = ''SRC'' then
        (let (e, dst') = OverrideFixer_Fix E del rd wr (iv_ID t) src dst in (e, src, dst'))
      else if iv_Direction t = ''DST'' then
        (let (e, src') = OverrideFixer_Fix E del rd wr (iv_ID t) dst src in (e, src', dst))
      else (Some (DbErr ''unknown fix direction''), src, dst))"

end
