(* ===== verification/DoubleWrite.thy ===== *)
theory DoubleWrite
  imports Migrator
begin

text \<open>
  \<open>pkg/gormx/connpool\<close>, the pool that writes every statement to two databases in the order its
  pattern names, with its transactions, and \<open>pkg/migrator/scheduler\<close>, which switches the pattern
  and starts validations.  A database is an abstract value, a statement an abstract function on
  it that may fail (\<open>database/sql\<close> and the driver are libraries); a \<open>*sql.Tx\<close> works on a copy of
  its database that \<open>Commit\<close> puts in place.  \<open>Panic\<close> is a call on a nil pointer or interface.
\<close>

datatype side = SrcDB | DstDB
datatype 'a outcome = Ret 'a | Panic

definition PatternDstOnly :: string where "PatternDstOnly = ''DST_ONLY''"
definition PatternSrcOnly :: string where "PatternSrcOnly = ''SRC_ONLY''"
definition PatternDstFirst :: string where "PatternDstFirst = ''DST_FIRST''"
definition PatternSrcFirst :: string where "PatternSrcFirst = ''SRC_FIRST''"

lemmas pattern_defs = PatternDstOnly_def PatternSrcOnly_def PatternDstFirst_def PatternSrcFirst_def

section \<open>The pool\<close>

record 'd DoubleWritePool =
  dp_src :: 'd
  dp_dst :: 'd
  dp_pattern :: string
  dp_logger :: bool

definition NewDoubleWritePool :: "'d \<Rightarrow> 'd \<Rightarrow> string \<Rightarrow> 'd DoubleWritePool" where
  "NewDoubleWritePool src dst pattern =
     \<lparr>dp_src = src, dp_dst = dst, dp_pattern = pattern, dp_logger = False\<rparr>"

definition UpdatePattern :: "string \<Rightarrow> 'd DoubleWritePool \<Rightarrow> 'd DoubleWritePool" where
  "UpdatePattern pattern d = d\<lparr>dp_pattern := pattern\<rparr>"

definition db_at :: "side \<Rightarrow> 'd DoubleWritePool \<Rightarrow> 'd" where
  "db_at sd d = (case sd of SrcDB \<Rightarrow> dp_src d | DstDB \<Rightarrow> dp_dst d)"

definition put_db :: "side \<Rightarrow> 'd \<Rightarrow> 'd DoubleWritePool \<Rightarrow> 'd DoubleWritePool" where
  "put_db sd x d = (case sd of SrcDB \<Rightarrow> d\<lparr>dp_src := x\<rparr> | DstDB \<Rightarrow> d\<lparr>dp_dst := x\<rparr>)"

text \<open>A statement on one side: its answer and the database after it.\<close>

type_synonym ('d, 'r) stmt = "side \<Rightarrow> 'd \<Rightarrow> (db_err + 'r) \<times> 'd"

definition run_on :: "('d, 'r) stmt \<Rightarrow> side \<Rightarrow> 'd DoubleWritePool \<Rightarrow> (db_err + 'r) \<times> 'd DoubleWritePool" where
  "run_on q sd d = (case q sd (db_at sd d) of (r, x) \<Rightarrow> (r, put_db sd x d))"

definition then_on ::
  "('d, 'r) stmt \<Rightarrow> side \<Rightarrow> side \<Rightarrow> 'd DoubleWritePool \<Rightarrow> (db_err + 'r) \<times> 'd DoubleWritePool" where
  "then_on q a b d =
     (case run_on q a d of
        (Inl e, d1) \<Rightarrow> (Inl e, d1)
      | (Inr r, d1) \<Rightarrow> run_on q b d1)"

definition ExecContext ::
  "('d, 'r) stmt \<Rightarrow> 'd DoubleWritePool \<Rightarrow> ((db_err + 'r) \<times> 'd DoubleWritePool) outcome" where
  "ExecContext q d =
     (if dp_pattern d = PatternSrcOnly then Ret (run_on q SrcDB d)
      else if dp_pattern d = PatternDstOnly then Ret (run_on q DstDB d)
      else if dp_pattern d = PatternSrcFirst then Ret (then_on q SrcDB DstDB d)
      else if dp_pattern d = PatternDstFirst then Ret (then_on q DstDB SrcDB d)
      else Panic)"

text \<open>\<open>QueryContext\<close> and \<open>QueryRowContext\<close> read one side.\<close>

definition QueryContext :: "(side \<Rightarrow> 'd \<Rightarrow> 'r) \<Rightarrow> 'd DoubleWritePool \<Rightarrow> 'r outcome" where
  "QueryContext q d =
     (if dp_pattern d = PatternSrcOnly \<or> dp_pattern d = PatternSrcFirst then Ret (q SrcDB (dp_src d))
      else if dp_pattern d = PatternDstOnly \<or> dp_pattern d = PatternDstFirst then Ret (q DstDB (dp_dst d))
      else Panic)"

section \<open>Transactions\<close>

record 'd sqltx =
  tx_side :: side
  tx_work :: 'd
  tx_open :: bool

record 'd DoubleWritePoolTx =
  dt_src :: "'d sqltx option"
  dt_dst :: "'d sqltx option"
  dt_pattern :: string
  dt_logger :: bool

definition ErrTxDone :: db_err where
  "ErrTxDone = DbErr ''sql: transaction has already been committed or rolled back''"

definition unknown_pattern :: db_err where
  "unknown_pattern = DbErr ''unknown pattern''"

definition begin_on :: "db_err option \<Rightarrow> side \<Rightarrow> 'd DoubleWritePool \<Rightarrow> db_err + 'd sqltx" where
  "begin_on err sd d =
     (case err of Some e \<Rightarrow> Inl e | None \<Rightarrow> Inr \<lparr>tx_side = sd, tx_work = db_at sd d, tx_open = True\<rparr>)"

definition tx_of :: "db_err + 'd sqltx \<Rightarrow> 'd sqltx option" where
  "tx_of r = (case r of Inl _ \<Rightarrow> None | Inr t \<Rightarrow> Some t)"

definition err_of :: "'e + 'a \<Rightarrow> 'e option" where
  "err_of r = (case r of Inl e \<Rightarrow> Some e | Inr _ \<Rightarrow> None)"

definition mk_tx :: "'d sqltx option \<Rightarrow> 'd sqltx option \<Rightarrow> string \<Rightarrow> 'd DoubleWritePoolTx" where
  "mk_tx src dst pattern = \<lparr>dt_src = src, dt_dst = dst, dt_pattern = pattern, dt_logger = False\<rparr>"

text \<open>The second transaction of a double pattern may fail to open; the code logs and goes on.\<close>

definition begin_two ::
  "db_err option \<Rightarrow> db_err option \<Rightarrow> side \<Rightarrow> side \<Rightarrow> 'd DoubleWritePool
     \<Rightarrow> (db_err option \<times> 'd DoubleWritePoolTx option) outcome" where
  "begin_two e1 e2 a b d =
     (case begin_on e1 a d of
        Inl e \<Rightarrow> Ret (Some e, None)
      | Inr t1 \<Rightarrow>
          (let second = begin_on e2 b d in
           if err_of second \<noteq> None \<and> \<not> dp_logger d then Panic
           else Ret (None, Some (mk_tx (Some t1) (tx_of second) (dp_pattern d)))))"

definition BeginTx ::
  "(side \<Rightarrow> db_err option) \<Rightarrow> 'd DoubleWritePool \<Rightarrow> (db_err option \<times> 'd DoubleWritePoolTx option) outcome" where
  "BeginTx f d =
     (if dp_pattern d = PatternSrcOnly then
        (let r = begin_on (f SrcDB) SrcDB d in Ret (err_of r, Some (mk_tx (tx_of r) None (dp_pattern d))))
      else if dp_pattern d = PatternSrcFirst then begin_two (f SrcDB) (f DstDB) SrcDB DstDB d
      else if dp_pattern d = PatternDstOnly then
        (let r = begin_on (f DstDB) DstDB d in Ret (err_of r, Some (mk_tx (tx_of r) None (dp_pattern d))))
      else if dp_pattern d = PatternDstFirst then begin_two (f DstDB) (f SrcDB) DstDB SrcDB d
      else Ret (Some unknown_pattern, None))"

text \<open>\<open>Commit\<close> or \<open>Rollback\<close> of a \<open>*sql.Tx\<close>; \<open>err\<close> is the driver's answer.\<close>

definition tx_end ::
  "bool \<Rightarrow> db_err option \<Rightarrow> 'd sqltx option \<Rightarrow> 'd DoubleWritePool
     \<Rightarrow> (db_err option \<times> 'd sqltx option \<times> 'd DoubleWritePool) outcome" where
  "tx_end commit err tx d =
     (case tx of
        None \<Rightarrow> Panic
      | Some t \<Rightarrow>
          if \<not> tx_open t then Ret (Some ErrTxDone, tx, d)
          else (case err of
              Some e \<Rightarrow> Ret (Some e, Some (t\<lparr>tx_open := False\<rparr>), d)
            | None \<Rightarrow> Ret (None, Some (t\<lparr>tx_open := False\<rparr>),
                        if commit then put_db (tx_side t) (tx_work t) d else d)))"

text \<open>The two-sided part of \<open>Commit\<close> and \<open>Rollback\<close>: the first side decides, an error of the
  second is logged.\<close>

definition end_two ::
  "bool \<Rightarrow> bool \<Rightarrow> db_err option \<Rightarrow> db_err option \<Rightarrow> 'd sqltx option \<Rightarrow> 'd sqltx option
     \<Rightarrow> 'd DoubleWritePool \<Rightarrow> (db_err option \<times> 'd DoubleWritePool) outcome" where
  "end_two commit logger e1 e2 t1 t2 d =
     (case tx_end commit e1 t1 d of
        Panic \<Rightarrow> Panic
      | Ret (Some e, _, d1) \<Rightarrow> Ret (Some e, d1)
      | Ret (None, _, d1) \<Rightarrow>
          if t2 = None then Ret (None, d1)
          else (case tx_end commit e2 t2 d1 of
              Panic \<Rightarrow> Panic
            | Ret (None, _, d2) \<Rightarrow> Ret (None, d2)
            | Ret (Some e, _, d2) \<Rightarrow> if logger then Ret (None, d2) else Panic))"

definition end_one ::
  "bool \<Rightarrow> db_err option \<Rightarrow> 'd sqltx option \<Rightarrow> 'd DoubleWritePool
     \<Rightarrow> (db_err option \<times> 'd DoubleWritePool) outcome" where
  "end_one commit err t d =
     (case tx_end commit err t d of Panic \<Rightarrow> Panic | Ret (e, _, d1) \<Rightarrow> Ret (e, d1))"

text \<open>\<open>f\<close> is what the driver answers for the transaction in \<open>src\<close> and in \<open>dst\<close>.\<close>

definition Commit ::
  "db_err option \<times> db_err option \<Rightarrow> 'd DoubleWritePoolTx \<Rightarrow> 'd DoubleWritePool
     \<Rightarrow> (db_err option \<times> 'd DoubleWritePool) outcome" where
  "Commit f t d =
     (if dt_pattern t = PatternSrcOnly then end_one True (fst f) (dt_src t) d
      else if dt_pattern t = PatternDstOnly then end_one True (snd f) (dt_dst t) d
      else if dt_pattern t = PatternSrcFirst then
        end_two True (dt_logger t) (fst f) (snd f) (dt_src t) (dt_dst t) d
      else if dt_pattern t = PatternDstFirst then
        end_two True (dt_logger t) (snd f) (fst f) (dt_dst t) (dt_src t) d
      else Ret (Some unknown_pattern, d))"

definition Rollback ::
  "db_err option \<times> db_err option \<Rightarrow> 'd DoubleWritePoolTx \<Rightarrow> 'd DoubleWritePool
     \<Rightarrow> (db_err option \<times> 'd DoubleWritePool) outcome" where
  "Rollback f t d =
     (if dt_pattern t = PatternSrcOnly then end_one False (fst f) (dt_src t) d
      else if dt_pattern t = PatternDstOnly then end_one False (snd f) (dt_dst t) d
      else if dt_pattern t = PatternSrcFirst then
        end_two False (dt_logger t) (fst f) (snd f) (dt_src t) (dt_dst t) d
      else if dt_pattern t = PatternDstFirst then
        end_two True (dt_logger t) (snd f) (fst f) (dt_dst t) (dt_src t) d
      else Ret (Some unknown_pattern, d))"

definition tx_run :: "('d, 'r) stmt \<Rightarrow> 'd sqltx \<Rightarrow> (db_err + 'r) \<times> 'd sqltx" where
  "tx_run q t =
     (if \<not> tx_open t then (Inl ErrTxDone, t)
      else (case q (tx_side t) (tx_work t) of (r, x) \<Rightarrow> (r, t\<lparr>tx_work := x\<rparr>)))"

definition tx_ExecContext ::
  "('d, 'r) stmt \<Rightarrow> 'd DoubleWritePoolTx \<Rightarrow> ((db_err + 'r) \<times> 'd DoubleWritePoolTx) outcome" where
  "tx_ExecContext q t =
     (if dt_pattern t = PatternSrcOnly then
        (case dt_src t of
           None \<Rightarrow> Panic
         | Some s \<Rightarrow> (case tx_run q s of (r, s') \<Rightarrow> Ret (r, t\<lparr>dt_src := Some s'\<rparr>)))
      else if dt_pattern t = PatternSrcFirst then
        (case dt_src t of
           None \<Rightarrow> Panic
         | Some s \<Rightarrow>
             (case tx_run q s of
                (Inl e, s') \<Rightarrow> Ret (Inl e, t\<lparr>dt_src := Some s'\<rparr>)
              | (Inr r, s') \<Rightarrow>
                  (case dt_dst t of
                     None \<Rightarrow> Ret (Inr r, t\<lparr>dt_src := Some s'\<rparr>)
                   | Some u \<Rightarrow>
                       (case tx_run q u of
                          (Inl e, u') \<Rightarrow> Ret (Inl e, t\<lparr>dt_src := Some s', dt_dst := Some u'\<rparr>)
                        | (Inr _, u') \<Rightarrow> Ret (Inr r, t\<lparr>dt_src := Some s', dt_dst := Some u'\<rparr>)))))
      else if dt_pattern t = PatternDstOnly then
        (case dt_dst t of
           None \<Rightarrow> Panic
         | Some u \<Rightarrow> (case tx_run q u of (r, u') \<Rightarrow> Ret (r, t\<lparr>dt_dst := Some u'\<rparr>)))
      else if dt_pattern t = PatternDstFirst then
        (case dt_dst t of
           None \<Rightarrow> Panic
         | Some u \<Rightarrow>
             (case tx_run q u of
                (Inl e, u') \<Rightarrow> Ret (Inl e, t\<lparr>dt_dst := Some u'\<rparr>)
              | (Inr r, u') \<Rightarrow>
                  (case dt_src t of
                     None \<Rightarrow> Ret (Inr r, t\<lparr>dt_dst := Some u'\<rparr>)
                   | Some s \<Rightarrow>
                       (case tx_run q s of
                          (Inl e, s') \<Rightarrow> Ret (Inl e, t\<lparr>dt_dst := Some u', dt_src := Some s'\<rparr>)
                        | (Inr _, s') \<Rightarrow> Ret (Inr r, t\<lparr>dt_dst := Some u', dt_src := Some s'\<rparr>)))))
      else Panic)"

definition tx_QueryContext :: "(side \<Rightarrow> 'd \<Rightarrow> 'r) \<Rightarrow> 'd DoubleWritePoolTx \<Rightarrow> 'r outcome" where
  "tx_QueryContext q t =
     (case (if dt_pattern t = PatternSrcOnly \<or> dt_pattern t = PatternSrcFirst then dt_src t
            else if dt_pattern t = PatternDstOnly \<or> dt_pattern t = PatternDstFirst then dt_dst t
            else None) of
        None \<Rightarrow> Panic
      | Some s \<Rightarrow> Ret (q (tx_side s) (tx_work s)))"

section \<open>The scheduler\<close>

text \<open>
  \<open>sc_cancelled\<close> are the contexts whose cancel function was called, \<open>sc_cancelFull\<close> and
  \<open>sc_cancelIncr\<close> the contexts the two cancel fields belong to, \<open>None\<close> for the initial empty
  functions; the \<open>pool\<close> is the one the scheduler shares with the application.
\<close>

record scheduler =
  sc_pattern :: string
  sc_pool_pattern :: string
  sc_next :: nat
  sc_cancelFull :: "nat option"
  sc_cancelIncr :: "nat option"
  sc_cancelled :: "nat list"

definition NewScheduler :: "string \<Rightarrow> scheduler" where
  "NewScheduler pool_pattern = \<lparr>sc_pattern = PatternSrcOnly, sc_pool_pattern = pool_pattern, sc_next = 0,
     sc_cancelFull = None, sc_cancelIncr = None, sc_cancelled = []\<rparr>"

definition set_pattern :: "string \<Rightarrow> scheduler \<Rightarrow> scheduler" where
  "set_pattern p s = s\<lparr>sc_pattern := p, sc_pool_pattern := p\<rparr>"

definition SrcOnly :: "scheduler \<Rightarrow> scheduler" where "SrcOnly s = set_pattern PatternSrcOnly s"
definition SrcFirst :: "scheduler \<Rightarrow> scheduler" where "SrcFirst s = set_pattern PatternSrcFirst s"
definition DstFirst :: "scheduler \<Rightarrow> scheduler" where "DstFirst s = set_pattern PatternDstFirst s"
definition DstOnly :: "scheduler \<Rightarrow> scheduler" where "DstOnly s = set_pattern PatternDstOnly s"

text \<open>The base and the target database of the validator it makes.\<close>

definition newValidator :: "string \<Rightarrow> string + side \<times> side \<times> Validator" where
  "newValidator pattern =
     (if pattern = PatternSrcOnly \<or> pattern = PatternSrcFirst then
        Inr (SrcDB, DstDB, NeValidator ''SRC'' 10)
      else if pattern = PatternDstFirst \<or> pattern = PatternDstOnly then
        Inr (SrcDB, DstDB, NeValidator ''SRC'' 10)
      else Inl (''invalid pattern: '' @ pattern))"

text \<open>A start returns the validation goroutine: the context to cancel first, its own, its validator.\<close>

definition StartFullValidation ::
  "scheduler \<Rightarrow> (string + nat option \<times> nat \<times> side \<times> side \<times> Validator) \<times> scheduler" where
  "StartFullValidation s =
     (case newValidator (sc_pattern s) of
        Inl e \<Rightarrow> (Inl e, s)
      | Inr (b, t, v) \<Rightarrow>
          (Inr (sc_cancelFull s, sc_next s, b, t, v),
           s\<lparr>sc_cancelFull := Some (sc_next s), sc_next := sc_next s + 1\<rparr>))"

definition StartIncrValidation ::
  "int \<Rightarrow> int \<Rightarrow> scheduler \<Rightarrow> (string + nat option \<times> nat \<times> side \<times> side \<times> Validator) \<times> scheduler" where
  "StartIncrValidation utime interval s =
     (case newValidator (sc_pattern s) of
        Inl e \<Rightarrow> (Inl e, s)
      | Inr (b, t, v) \<Rightarrow>
          (Inr (sc_cancelIncr s, sc_next s, b, t, SleepInterval (wrap64 (interval * 1000000)) (Utime utime (Incr v))),
           s\<lparr>sc_cancelIncr := Some (sc_next s), sc_next := sc_next s + 1\<rparr>))"

definition cancel_ctx :: "nat option \<Rightarrow> scheduler \<Rightarrow> scheduler" where
  "cancel_ctx c s = (case c of None \<Rightarrow> s | Some n \<Rightarrow> s\<lparr>sc_cancelled := n # sc_cancelled s\<rparr>)"

definition StopFullValidation :: "scheduler \<Rightarrow> scheduler" where
  "StopFullValidation s = cancel_ctx (sc_cancelFull s) s"

definition StopIncrValidation :: "scheduler \<Rightarrow> scheduler" where
  "StopIncrValidation s = cancel_ctx (sc_cancelIncr s) s"

end
