(* ===== verification/MigratorSpec.thy ===== *)
theory MigratorSpec
  imports DoubleWrite
begin

text \<open>
  What the migration tools guarantee: a full validation of two tables that nobody writes to
  reports exactly their differences and repairing them makes the tables agree; and where they
  do not: failed queries, the second pattern and the transactions of the double-write pool.
\<close>

section \<open>The first scan\<close>

definition healthy :: "'e entity \<Rightarrow> Validator \<Rightarrow> 'e world \<Rightarrow> bool" where
  "healthy E v w \<longleftrightarrow> \<not> v_incr v \<and> v_sleepInterval v \<le> 0 \<and> 0 < v_batchSize v
     \<and> w_base_err w = None \<and> w_target_err w = None \<and> w_send_err w = (\<lambda>_. False)
     \<and> distinct (map (e_id E) (w_base w)) \<and> distinct (map (e_id E) (w_target w))
     \<and> (\<forall>xs ys. set (e_diff E xs ys) = set xs - set ys)"

definition event_for :: "Validator \<Rightarrow> int \<Rightarrow> incon_type \<Rightarrow> InconsistentEvent" where
  "event_for v i ty = \<lparr>iv_ID = i, iv_Direction = v_direction v, iv_Type = ty\<rparr>"

text \<open>The difference of two tables at an id.\<close>

definition difference :: "'e entity \<Rightarrow> 'e list \<Rightarrow> 'e list \<Rightarrow> int \<Rightarrow> incon_type option" where
  "difference E base target i =
     (case (find_row (e_id E) i base, find_row (e_id E) i target) of
        (Some r, None) \<Rightarrow> Some TargetMissing
      | (Some r, Some t) \<Rightarrow> if same_rows E r t then None else Some NEQ
      | (None, Some t) \<Rightarrow> Some BaseMissing
      | (None, None) \<Rightarrow> None)"

lemma notify_healthy: "healthy E v w \<Longrightarrow> notify_inc v w i ty = [event_for v i ty]"
  by (simp add: notify_inc_def healthy_def event_for_def)

definition row_events :: "'e entity \<Rightarrow> Validator \<Rightarrow> 'e world \<Rightarrow> 'e \<Rightarrow> InconsistentEvent list" where
  "row_events E v w r =
     (case find_row (e_id E) (e_id E r) (w_target w) of
        None \<Rightarrow> [event_for v (e_id E r) TargetMissing]
      | Some t \<Rightarrow> if same_rows E r t then [] else [event_for v (e_id E r) NEQ])"

lemma compare_target_healthy: "healthy E v w \<Longrightarrow> compare_target E v w r = Some (row_events E v w r)"
  using notify_healthy [of E v w]
  by (auto simp: compare_target_def row_events_def healthy_def split: option.splits)

lemma drop_nth_cons: "k < length xs \<Longrightarrow> drop k xs = xs ! k # drop (Suc k) xs"
  by (simp add: Cons_nth_drop_Suc)

lemma scan_base_healthy:
  assumes h: "healthy E v w"
  shows "length (w_base w) - offset < fuel \<Longrightarrow>
     validateBaseToTarget E v (\<lambda>_. w) fuel k offset
       = Some (concat (map (row_events E v w) (drop offset (sort_key (e_id E) (w_base w)))))"
proof (induction fuel arbitrary: k offset)
  case (Suc fuel)
  let ?xs = "sort_key (e_id E) (w_base w)"
  have fb: "fromBase E v w offset = first_at ?xs offset"
    using h by (simp add: fromBase_def fullFromBase_def healthy_def)
  show ?case
  proof (cases "offset < length (w_base w)")
    case True
    have "length (w_base w) - Suc offset < fuel" using Suc.prems True by linarith
    then show ?thesis using Suc.IH [of "Suc offset" "Suc k"] True fb
      by (simp add: first_at_def compare_target_healthy [OF h] drop_nth_cons)
  next
    case False
    then show ?thesis using fb h by (simp add: first_at_def healthy_def stop_err_def)
  qed
qed simp

lemma row_events_difference:
  assumes "healthy E v w" "r \<in> set (w_base w)"
  shows "set (row_events E v w r)
       = {event_for v (e_id E r) ty | ty. difference E (w_base w) (w_target w) (e_id E r) = Some ty}"
proof -
  have "find_row (e_id E) (e_id E r) (w_base w) = Some r"
    using assms find_row_unique by (fastforce simp: healthy_def)
  then show ?thesis by (auto simp: row_events_def difference_def split: option.splits)
qed

section \<open>The second scan\<close>

lemma set_notify_missing: "healthy E v w \<Longrightarrow>
    set (notifyBaseMissing v w ids) = (\<lambda>i. event_for v i BaseMissing) ` set ids"
  by (auto simp: notifyBaseMissing_def notify_healthy [of E v w])

lemma compare_base_healthy:
  assumes h: "healthy E v w"
  obtains evs where "compare_base E v w ids = (evs, True)"
    "set evs = (\<lambda>i. event_for v i BaseMissing) ` (set ids - e_id E ` set (w_base w))"
proof -
  let ?src = "filter (\<lambda>r. e_id E r \<in> set ids) (w_base w)"
  have d: "set (e_diff E ids (map (e_id E) ?src)) = set ids - e_id E ` set (w_base w)"
    using h by (auto simp: healthy_def)
  have e: "w_base_err w = None" using h by (simp add: healthy_def)
  have "set ids \<inter> e_id E ` set (w_base w) = {}" if "?src = []"
    using that by (auto simp: filter_empty_conv)
  then show thesis
    using that d by (auto simp: compare_base_def e set_notify_missing [OF h] Let_def)
qed

lemma page_split:
  "drop offset xs = page_of offset limit xs @ drop (offset + length (page_of offset limit xs)) xs"
  unfolding page_of_def
  by (metis append_take_drop_id drop_drop add.commute length_take min_def drop_all nat_le_linear take_all)

lemma scan_target_healthy:
  assumes h: "healthy E v w"
  shows "length (w_target w) - offset < fuel \<Longrightarrow>
     \<exists>evs. validateTargetToBase E v (\<lambda>_. w) fuel k offset = Some evs
       \<and> set evs = (\<lambda>i. event_for v i BaseMissing)
           ` (set (drop offset (sort (map (e_id E) (w_target w)))) - e_id E ` set (w_base w))"
proof (induction fuel arbitrary: k offset)
  case (Suc fuel)
  let ?xs = "sort (map (e_id E) (w_target w))"
  let ?B = "e_id E ` set (w_base w)" and ?ev = "\<lambda>i. event_for v i BaseMissing"
  define ids where "ids = page_of offset (v_batchSize v) ?xs"
  have ft: "fromTarget E v w offset = (ids, None)"
    using h by (simp add: fromTarget_def fullFromTarget_def find_ids_def healthy_def ids_def)
  have bs: "0 < v_batchSize v" "v_sleepInterval v \<le> 0" using h by (auto simp: healthy_def)
  show ?case
  proof (cases "ids = []")
    case True
    then have "drop offset ?xs = []" using bs by (auto simp: ids_def page_of_def)
    then show ?thesis using True ft bs by simp
  next
    case False
    note split = page_split [of offset ?xs "v_batchSize v", folded ids_def]
    have off: "offset < length (w_target w)"
      using False by (auto simp: ids_def page_of_def)
    obtain evs where c: "compare_base E v w ids = (evs, True)" "set evs = ?ev ` (set ids - ?B)"
      by (rule compare_base_healthy [OF h])
    have "length (w_target w) - (offset + length ids) < fuel"
      using Suc.prems off False by (cases ids) auto
    then obtain more where m: "validateTargetToBase E v (\<lambda>_. w) fuel (Suc k) (offset + length ids) = Some more"
        "set more = ?ev ` (set (drop (offset + length ids) ?xs) - ?B)"
      using Suc.IH by blast
    show ?thesis
    proof (cases "int (length ids) < v_batchSize v")
      case True
      then have "drop (offset + length ids) ?xs = []"
        by (auto simp: ids_def page_of_def)
      then have "set (drop offset ?xs) = set ids" using split by simp
      then show ?thesis using True False ft bs c by simp
    next
      case F: False
      then show ?thesis using False ft bs c m
        by (auto simp: split)
    qed
  qed
qed simp

lemma collect_split:
  "{g i t | i t. i \<in> B \<and> D i = Some t} \<union> {g i t | i t. i \<notin> B \<and> D i = Some t} = {g i t | i t. D i = Some t}"
  by blast

lemma Validate_healthy:
  assumes h: "healthy E v w" and fuel: "length (w_base w) < fuel" "length (w_target w) < fuel"
  shows "\<exists>a b. Validate E v (\<lambda>_. w) (\<lambda>_. w) fuel = Some (a, b)
     \<and> set (a @ b) = {event_for v i ty | i ty. difference E (w_base w) (w_target w) i = Some ty}"
proof -
  let ?a = "concat (map (row_events E v w) (sort_key (e_id E) (w_base w)))"
  have a: "validateBaseToTarget E v (\<lambda>_. w) fuel 0 0 = Some ?a"
    using scan_base_healthy [OF h, of 0 fuel 0] fuel by simp
  obtain b where b: "validateTargetToBase E v (\<lambda>_. w) fuel 0 0 = Some b"
      "set b = (\<lambda>i. event_for v i BaseMissing) ` (e_id E ` set (w_target w) - e_id E ` set (w_base w))"
    using scan_target_healthy [OF h, of 0 fuel 0] fuel by auto
  let ?D = "difference E (w_base w) (w_target w)"
  have "set ?a = {event_for v i ty | i ty. i \<in> e_id E ` set (w_base w) \<and> ?D i = Some ty}"
    using row_events_difference [OF h] by auto
  moreover have "set b = {event_for v i ty | i ty. i \<notin> e_id E ` set (w_base w) \<and> ?D i = Some ty}"
  proof -
    have "?D i = (if i \<in> e_id E ` set (w_target w) then Some BaseMissing else None)"
      if "i \<notin> e_id E ` set (w_base w)" for i
    proof -
      have "find_row (e_id E) i (w_base w) = None" using that by (simp add: find_row_None_iff)
      then show ?thesis
        using find_row_None_iff [of "e_id E" i "w_target w"]
        by (cases "find_row (e_id E) i (w_target w)") (simp_all add: difference_def)
    qed
    note D = this
    show ?thesis
    proof (intro set_eqI iffI)
      fix e assume "e \<in> set b"
      then obtain i where "e = event_for v i BaseMissing" "i \<in> e_id E ` set (w_target w)" "i \<notin> e_id E ` set (w_base w)"
        unfolding b(2) by blast
      then show "e \<in> {event_for v i ty | i ty. i \<notin> e_id E ` set (w_base w) \<and> ?D i = Some ty}"
        using D [of i] by simp blast
    next
      fix e assume "e \<in> {event_for v i ty | i ty. i \<notin> e_id E ` set (w_base w) \<and> ?D i = Some ty}"
      then obtain i ty where i: "e = event_for v i ty" "i \<notin> e_id E ` set (w_base w)" "?D i = Some ty" by blast
      then have "i \<in> e_id E ` set (w_target w)" "ty = BaseMissing" using D [OF i(2)] by (simp_all split: if_splits)
      then show "e \<in> set b" unfolding b(2) using i by blast
    qed
  qed
  ultimately have "set (?a @ b) = {event_for v i ty | i ty. ?D i = Some ty}"
    by (simp only: set_append collect_split)
  then show ?thesis using a b(1) by (simp add: Validate_def)
qed
lemma validate_set:
  "healthy E v w \<Longrightarrow> length (w_base w) < fuel \<Longrightarrow> length (w_target w) < fuel \<Longrightarrow>
   Validate E v (\<lambda>_. w) (\<lambda>_. w) fuel = Some (a, b) \<Longrightarrow>
   set (a @ b) = {event_for v i ty | i ty. difference E (w_base w) (w_target w) i = Some ty}"
  using Validate_healthy by fastforce

text \<open>A full validation of tables that nobody writes to, with every query and message
  answered, ends and reports exactly the differences: an event for an id is sent if and only
  if the rows of the two tables differ there, with the type of the difference.\<close>

theorem validate_exact:
  assumes h: "healthy E v w" and fuel: "length (w_base w) < fuel" "length (w_target w) < fuel"
  shows "\<exists>a b. Validate E v (\<lambda>_. w) (\<lambda>_. w) fuel = Some (a, b)
     \<and> set (a @ b) = {event_for v i ty | i ty. difference E (w_base w) (w_target w) i = Some ty}"
  by (rule Validate_healthy [OF assms])


section \<open>Repairing\<close>

definition fix_all :: "'e entity \<Rightarrow> 'e list \<Rightarrow> InconsistentEvent list \<Rightarrow> 'e list \<Rightarrow> 'e list" where
  "fix_all E base evs target = fold (\<lambda>e t. snd (FixV1 E None None e base t)) evs target"

lemma find_row_upsert:
  "find_row key i (upsert_row key t rows) = (if i = key t then Some t else find_row key i rows)"
proof (cases "find_row key (key t) rows")
  case None
  then show ?thesis by (auto simp: upsert_row_def find_row_append split: option.splits)
next
  case (Some old)
  have "find_row key i (update_where (\<lambda>r. key r = key t) (\<lambda>_. t) rows)
      = (if i = key t \<and> find_row key i rows \<noteq> None then Some t else find_row key i rows)"
    by (induction rows) auto
  then show ?thesis using Some by (simp add: upsert_row_def)
qed

lemma find_row_delete: "find_row key i (delete_row key j rows) = (if i = j then None else find_row key i rows)"
  by (induction rows) (auto simp: delete_row_def)

text \<open>With its statements answered, a repair copies the base row, or its absence.\<close>

lemma FixV1_at:
  assumes "iv_Type e \<in> {TargetMissing, NEQ, BaseMissing}"
    and "iv_Type e = BaseMissing \<longrightarrow> find_row (e_id E) (iv_ID e) base = None"
  shows "find_row (e_id E) i (snd (FixV1 E None None e base target))
       = (if i = iv_ID e then find_row (e_id E) i base else find_row (e_id E) i target)"
proof (cases "find_row (e_id E) (iv_ID e) base")
  case None
  then show ?thesis using assms
    by (auto simp: FixV1_def Let_def read_row_def write_to_def find_row_delete stop_err_def)
next
  case (Some r)
  then have "e_id E r = iv_ID e" by (auto dest: find_row_SomeD)
  then show ?thesis using assms Some
    by (auto simp: FixV1_def Let_def read_row_def write_to_def find_row_upsert)
qed

lemma fix_all_at:
  assumes "\<forall>e \<in> set evs. iv_Type e \<in> {TargetMissing, NEQ, BaseMissing}
      \<and> (iv_Type e = BaseMissing \<longrightarrow> find_row (e_id E) (iv_ID e) base = None)"
  shows "find_row (e_id E) i (fix_all E base evs target)
       = (if i \<in> iv_ID ` set evs then find_row (e_id E) i base else find_row (e_id E) i target)"
  using assms
proof (induction evs arbitrary: target)
  case (Cons e evs)
  then show ?case using FixV1_at [of e E base i target] by (auto simp: fix_all_def)
qed (simp add: fix_all_def)



section \<open>A failed query\<close>

text \<open>When the query of the base fails in the second scan, its page is reported as missing.\<close>

lemma scan_target_base_error:
  assumes v: "\<not> v_incr v" "v_sleepInterval v \<le> 0" "0 < v_batchSize v"
    and w: "w_base_err w = Some e" "\<not> stop_err e" "w_target_err w = None" "w_send_err w = (\<lambda>_. False)"
  shows "length (w_target w) - offset < fuel \<Longrightarrow>
     validateTargetToBase E v (\<lambda>_. w) fuel k offset
       = Some (map (\<lambda>i. event_for v i BaseMissing) (drop offset (sort (map (e_id E) (w_target w)))))"
proof (induction fuel arbitrary: k offset)
  case (Suc fuel)
  let ?xs = "sort (map (e_id E) (w_target w))" and ?ev = "\<lambda>i. event_for v i BaseMissing"
  define ids where "ids = page_of offset (v_batchSize v) ?xs"
  have ft: "fromTarget E v w offset = (ids, None)"
    using v w by (simp add: fromTarget_def fullFromTarget_def find_ids_def ids_def)
  have note_all: "notifyBaseMissing v w is = map ?ev is" for "is"
    using w(4) by (induction "is") (simp_all add: notifyBaseMissing_def notify_inc_def event_for_def)
  have c: "compare_base E v w ids = (map ?ev ids, True)"
    using w by (simp add: compare_base_def note_all)
  show ?case
  proof (cases "ids = []")
    case True
    then have "drop offset ?xs = []" using v by (auto simp: ids_def page_of_def)
    then show ?thesis using True ft v by simp
  next
    case False
    note split = page_split [of offset ?xs "v_batchSize v", folded ids_def]
    have off: "offset < length (w_target w)" using False by (auto simp: ids_def page_of_def)
    have "length (w_target w) - (offset + length ids) < fuel"
      using Suc.prems off False by (cases ids) auto
    then have m: "validateTargetToBase E v (\<lambda>_. w) fuel (Suc k) (offset + length ids)
        = Some (map ?ev (drop (offset + length ids) ?xs))" by (rule Suc.IH)
    show ?thesis
    proof (cases "int (length ids) < v_batchSize v")
      case True
      then have "drop (offset + length ids) ?xs = []" by (auto simp: ids_def page_of_def)
      then show ?thesis using True False ft v c split by simp
    next
      case F: False
      then show ?thesis using False ft v c m by (simp add: split)
    qed
  qed
qed simp

text \<open>A failed query deletes good rows.  If the queries of the base fail while the target
  is scanned, every row of the target is reported as missing in the base, whatever the base
  holds, and \<open>FixV1\<close>, which deletes such a row without looking, empties the target.\<close>

theorem base_error_deletes:
  assumes "\<not> v_incr v" "v_sleepInterval v \<le> 0" "0 < v_batchSize v" "length (w_target w) < fuel"
    and "w_base_err w = Some e" "\<not> stop_err e" "w_target_err w = None" "w_send_err w = (\<lambda>_. False)"
  shows "\<exists>evs. validateTargetToBase E v (\<lambda>_. w) fuel 0 0 = Some evs
     \<and> iv_ID ` set evs = e_id E ` set (w_target w) \<and> iv_Type ` set evs \<subseteq> {BaseMissing}
     \<and> fix_all E (w_base w) evs (w_target w) = []"
proof -
  let ?evs = "map (\<lambda>i. event_for v i BaseMissing) (sort (map (e_id E) (w_target w)))"
  have "validateTargetToBase E v (\<lambda>_. w) fuel 0 0 = Some ?evs"
    using scan_target_base_error [OF assms(1-3,5-8), of 0 fuel] assms(4) by simp
  moreover have "fix_all E (w_base w) ?evs (w_target w) = []"
  proof -
    have f: "fix_all E base (map (\<lambda>i. event_for v i BaseMissing) is) t = filter (\<lambda>r. e_id E r \<notin> set is) t" for base "is" t
      by (induction "is" arbitrary: t)
         (auto simp: fix_all_def FixV1_def Let_def event_for_def write_to_def delete_row_def intro: filter_cong)
    show ?thesis unfolding f by (simp add: filter_empty_conv)
  qed
  moreover have "iv_ID ` set ?evs = e_id E ` set (w_target w) \<and> iv_Type ` set ?evs \<subseteq> {BaseMissing}"
    by (simp add: image_image event_for_def image_subset_iff)
  ultimately show ?thesis by blast
qed

section \<open>The patterns\<close>

text \<open>In both patterns that take \<open>dst\<close> for the master, the validator the scheduler makes still
  has \<open>src\<close> as its base, and the consumer repairs its events by copying \<open>src\<close> over \<open>dst\<close>.\<close>

lemma dst_pattern_reverts:
  assumes "sc_pattern s = PatternDstFirst \<or> sc_pattern s = PatternDstOnly"
    and "find_row (e_id E) i src = Some old" "find_row (e_id E) i dst = Some new" "\<not> same_rows E old new"
  shows "\<exists>c v. fst (StartFullValidation s) = Inr (c, sc_next s, SrcDB, DstDB, v)
     \<and> difference E src dst i = Some NEQ
     \<and> (let (e, src', dst') = fix_consume E del None None (event_for v i NEQ) (src, dst)
        in src' = src \<and> find_row (e_id E) i dst' = Some old)"
  using assms find_row_SomeD [OF assms(2)]
  by (auto simp: StartFullValidation_def newValidator_def difference_def fix_consume_def NeValidator_def
      event_for_def OverrideFixer_Fix_def read_row_def write_to_def find_row_upsert pattern_defs)

text \<open>The pool and the scheduler agree on the pattern once one was chosen.\<close>

lemma set_pattern_agree:
  "sc_pool_pattern (set_pattern p s) = sc_pattern (set_pattern p s)"
  by (simp add: set_pattern_def)

section \<open>Transactions of the pool\<close>

lemma db_at_put [simp]: "db_at a (put_db b x d) = (if a = b then x else db_at a d)"
  by (cases a; cases b; simp add: db_at_def put_db_def)

lemma put_db_fields [simp]:
  "dp_pattern (put_db sd x d) = dp_pattern d" "dp_logger (put_db sd x d) = dp_logger d"
  by (cases sd; simp add: put_db_def)+

text \<open>What \<open>Rollback\<close> undoes.  Begin a transaction with both databases up, run one statement
  that succeeds on both, and roll back.  In the pattern that writes \<open>src\<close> first the databases
  are as before; in the one that writes \<open>dst\<close> first the rollback commits, and both hold what
  the statement wrote.  In the pattern that writes \<open>dst\<close> only, the first statement already
  panics, for the transaction was put where \<open>src\<close> belongs.\<close>

theorem double_write_rollback:
  assumes "dp_pattern d \<in> {PatternSrcFirst, PatternDstFirst, PatternDstOnly}"
    and "\<And>sd. q sd (db_at sd d) = (Inr r, new sd)"
  shows "\<exists>t. BeginTx (\<lambda>_. None) d = Ret (None, Some t)
     \<and> (dp_pattern d = PatternDstOnly \<or> (\<exists>t'. tx_ExecContext q t = Ret (Inr r, t')
          \<and> (\<exists>d'. Rollback (None, None) t' d = Ret (None, d')
               \<and> (\<forall>sd. db_at sd d' = (if dp_pattern d = PatternSrcFirst then db_at sd d else new sd)))))
     \<and> (dp_pattern d \<noteq> PatternDstOnly \<or> tx_ExecContext q t = Panic \<and> Rollback (None, None) t d = Panic)"
proof -
  let ?tx = "\<lambda>sd x op. \<lparr>tx_side = sd, tx_work = x, tx_open = op\<rparr>"
  consider (s) "dp_pattern d = PatternSrcFirst" | (f) "dp_pattern d = PatternDstFirst" | (o) "dp_pattern d = PatternDstOnly"
    using assms(1) by auto
  then show ?thesis
  proof cases
    case s
    then show ?thesis using assms(2) [of SrcDB] assms(2) [of DstDB]
      by (simp add: BeginTx_def begin_two_def begin_on_def err_of_def tx_of_def mk_tx_def pattern_defs
          tx_ExecContext_def tx_run_def Rollback_def end_two_def tx_end_def)
  next
    case f
    have "sd = SrcDB \<or> sd = DstDB" for sd by (cases sd) auto
    then show ?thesis using f assms(2) [of SrcDB] assms(2) [of DstDB]
      by (auto simp: BeginTx_def begin_two_def begin_on_def err_of_def tx_of_def mk_tx_def pattern_defs
          tx_ExecContext_def tx_run_def Rollback_def end_two_def tx_end_def)
  next
    case o
    then show ?thesis
      by (simp add: BeginTx_def begin_on_def err_of_def tx_of_def mk_tx_def pattern_defs
          tx_ExecContext_def Rollback_def end_one_def tx_end_def)
  qed
qed

text \<open>A statement of a transaction that fails on the second database is reported as failed,
  although the comment calls it a success.\<close>

lemma second_write_reported:
  assumes "dt_pattern t = PatternSrcFirst" "dt_src t = Some s" "dt_dst t = Some u"
    and "tx_run q s = (Inr r, s')" "tx_run q u = (Inl e, u')"
  shows "\<exists>t'. tx_ExecContext q t = Ret (Inl e, t')"
  using assms by (simp add: tx_ExecContext_def pattern_defs)

text \<open>No constructor sets a logger, so where the code means to log and go on it panics.\<close>

lemma second_begin_panics:
  "BeginTx (\<lambda>sd. if sd = DstDB then Some e else None) (NewDoubleWritePool src dst PatternSrcFirst) = Panic"
  by (simp add: BeginTx_def begin_two_def begin_on_def NewDoubleWritePool_def err_of_def pattern_defs)


section \<open>Witnesses\<close>

text \<open>A table of rows \<open>(id, utime, value)\<close> without a \<open>CompareTo\<close>; an empty value is its zero.\<close>

type_synonym mrow = "int \<times> int \<times> string"

definition row_entity :: "mrow entity" where
  "row_entity = \<lparr>e_id = fst, e_utime = fst \<circ> snd, e_CompareTo = None,
     e_merge = (\<lambda>t old. (fst t, if fst (snd t) = 0 then fst (snd old) else fst (snd t),
                        if snd (snd t) = [] then snd (snd old) else snd (snd t))),
     e_diff = (\<lambda>xs ys. filter (\<lambda>x. x \<notin> set ys) (remdups xs))\<rparr>"

definition ex_world :: "mrow world" where
  "ex_world = \<lparr>w_base = [(3, 30, ''c''), (1, 10, ''a''), (2, 20, '''')], w_target = [(4, 9, ''d''), (2, 20, ''b''), (1, 10, ''a'')],
     w_base_err = None, w_target_err = None, w_scanned = 0, w_send_err = (\<lambda>_. False)\<rparr>"

definition ex_validator :: Validator where
  "ex_validator = NeValidator ''SRC'' 2"

definition ex_events :: "InconsistentEvent list \<times> InconsistentEvent list" where
  "ex_events = the (Validate row_entity ex_validator (\<lambda>_. ex_world) (\<lambda>_. ex_world) 10)"

lemma ex_healthy: "healthy row_entity ex_validator ex_world"
  by (auto simp: healthy_def row_entity_def ex_validator_def NeValidator_def ex_world_def)

lemma ex_validate: "Validate row_entity ex_validator (\<lambda>_. ex_world) (\<lambda>_. ex_world) 10
    = Some (fst ex_events, snd ex_events)"
  unfolding ex_events_def by code_simp

lemma ex_events_list:
  "map (\<lambda>e. (iv_ID e, iv_Type e)) (fst ex_events @ snd ex_events) = [(2, NEQ), (3, TargetMissing), (4, BaseMissing), (4, BaseMissing)]"
  by code_simp

theorem validate_exact_witness:
  "\<exists>a b. Validate row_entity ex_validator (\<lambda>_. ex_world) (\<lambda>_. ex_world) 10 = Some (a, b)
     \<and> set (a @ b) = {event_for ex_validator i ty | i ty.
         difference row_entity (w_base ex_world) (w_target ex_world) i = Some ty}"
  using validate_exact [OF ex_healthy, of 10] by (simp add: ex_world_def)


theorem base_error_deletes_witness:
  "\<exists>evs. validateTargetToBase row_entity ex_validator (\<lambda>_. ex_world\<lparr>w_base_err := Some (DbErr ''gone away'')\<rparr>) 10 0 0 = Some evs
     \<and> fix_all row_entity (w_base ex_world) evs (w_target ex_world) = []"
  using base_error_deletes [of ex_validator "ex_world\<lparr>w_base_err := Some (DbErr ''gone away'')\<rparr>" 10 "DbErr ''gone away''" row_entity]
  by (auto simp: ex_validator_def NeValidator_def ex_world_def stop_err_def)

text \<open>\<open>FixV2\<close> cannot empty a field: the event for row 2 leaves its value.\<close>

lemma fix_v2_zero_field:
  "find_row fst 2 (snd (FixV2 row_entity None None (event_for ex_validator 2 NEQ) (w_base ex_world) (w_target ex_world)))
     = Some (2, 20, ''b'')"
  by code_simp

text \<open>A row deleted from the base during the scan moves the next one in front of the offset.\<close>

lemma scan_skips_after_delete:
  "validateBaseToTarget row_entity ex_validator
     (\<lambda>k. ex_world\<lparr>w_base := (if k = 0 then [(1, 10, ''a''), (2, 20, '''')] else [(2, 20, '''')])\<rparr>) 10 0 0 = Some []"
  by code_simp

theorem double_write_rollback_witness:
  "\<exists>t t' d'. BeginTx (\<lambda>_. None) (NewDoubleWritePool [0 :: int] [0] PatternDstFirst) = Ret (None, Some t)
     \<and> tx_ExecContext (\<lambda>_ x. (Inr (1 :: int), 7 # x)) t = Ret (Inr 1, t')
     \<and> Rollback (None, None) t' (NewDoubleWritePool [0] [0] PatternDstFirst) = Ret (None, d')
     \<and> db_at SrcDB d' = [7, 0] \<and> db_at DstDB d' = [7, 0]"
proof -
  let ?d = "NewDoubleWritePool [0 :: int] [0] PatternDstFirst"
  have p: "dp_pattern ?d = PatternDstFirst" "db_at sd ?d = [0]" for sd
    by (simp_all add: NewDoubleWritePool_def db_at_def split: side.split)
  have n: "PatternDstFirst \<noteq> PatternDstOnly" "PatternDstFirst \<noteq> PatternSrcFirst" by (simp_all add: pattern_defs)
  obtain t t' d' where "BeginTx (\<lambda>_. None) ?d = Ret (None, Some t)"
      "tx_ExecContext (\<lambda>_ x. (Inr (1 :: int), 7 # x)) t = Ret (Inr 1, t')"
      "Rollback (None, None) t' ?d = Ret (None, d')" "\<forall>sd. db_at sd d' = [7, 0]"
    using double_write_rollback [of ?d "\<lambda>_ x. (Inr (1 :: int), 7 # x)" 1 "\<lambda>_. [7, 0]"] p n by auto
  then show ?thesis by blast
qed

end
