(* ===== verification/Traffic.thy ===== *)
theory Traffic
  imports Prelude
begin

text \<open>
  Traffic control of \<open>pkg\<close>: the sliding-window limiter (\<open>ratelimit\<close>, a Lua script on a Redis
  sorted set), the gin and gRPC middlewares that use it, the circuit-breaker interceptors and
  the weighted round-robin picker (\<open>grpcx\<close>).  The sorted set is the list of its distinct
  members, which are their own scores; breaker, random numbers and connections are libraries.
\<close>

section \<open>The sliding window\<close>

text \<open>\<open>ZADD key now now\<close> adds a member, or finds it there; the script runs atomically.\<close>

definition slide_window :: "int \<Rightarrow> int \<Rightarrow> int \<Rightarrow> int list \<Rightarrow> bool \<times> int list" where
  "slide_window window threshold now zset =
     (let zset = filter (\<lambda>m. now - window < m) zset in
      if int (length zset) \<ge> threshold then (True, zset)
      else (False, if now \<in> set zset then zset else zset @ [now]))"

text \<open>\<open>None\<close>: Redis does not answer.\<close>

definition Limit :: "bool \<Rightarrow> int \<Rightarrow> int \<Rightarrow> int \<Rightarrow> int list \<Rightarrow> bool option \<times> int list" where
  "Limit up interval_ms rate now_ms zset =
     (if up then (case slide_window interval_ms rate now_ms zset of (b, z) \<Rightarrow> (Some b, z)) else (None, zset))"

text \<open>A sequence of calls at the given times: which were let through.\<close>

fun limit_run :: "int \<Rightarrow> int \<Rightarrow> int list \<Rightarrow> int list \<Rightarrow> int list" where
  "limit_run window threshold zset [] = []"
| "limit_run window threshold zset (now # calls) =
     (case slide_window window threshold now zset of
        (limited, zset') \<Rightarrow> (if limited then [] else [now]) @ limit_run window threshold zset' calls)"

section \<open>Middlewares\<close>

datatype gin_result = Abort int | Next

definition gin_ratelimit :: "bool option \<Rightarrow> gin_result" where
  "gin_ratelimit limited =
     (case limited of None \<Rightarrow> Abort 500 | Some b \<Rightarrow> if b then Abort 429 else Next)"

definition limit_key :: "string \<Rightarrow> string \<Rightarrow> string" where
  "limit_key prefix client_ip = prefix @ '':'' @ client_ip"

datatype grpc_err = ResourceExhausted | HandlerErr string

definition BuildServerInterceptor_limit :: "bool option \<Rightarrow> grpc_err option \<times> 'r option \<Rightarrow> grpc_err option \<times> 'r option" where
  "BuildServerInterceptor_limit limited handled =
     (case limited of
        None \<Rightarrow> (Some ResourceExhausted, None)
      | Some b \<Rightarrow> if b then (Some ResourceExhausted, None) else handled)"

text \<open>The variant that only marks the context; the handler is given the mark.\<close>

definition BuildServerInterceptorV1_limit ::
  "bool option \<Rightarrow> (bool \<Rightarrow> grpc_err option \<times> 'r option) \<Rightarrow> grpc_err option \<times> 'r option" where
  "BuildServerInterceptorV1_limit limited handler = handler (limited = None \<or> limited = Some True)"

definition BuildClientInterceptor_limit :: "bool option \<Rightarrow> grpc_err option \<Rightarrow> grpc_err option" where
  "BuildClientInterceptor_limit limited invoked =
     (case limited of
        None \<Rightarrow> Some ResourceExhausted
      | Some b \<Rightarrow> if b then Some ResourceExhausted else invoked)"

definition BuildServerInterceptorService_limit ::
  "string \<Rightarrow> bool option \<Rightarrow> grpc_err option \<times> 'r option \<Rightarrow> grpc_err option \<times> 'r option" where
  "BuildServerInterceptorService_limit method limited handled =
     (if has_prefix method ''/UserService'' then BuildServerInterceptor_limit limited handled else handled)"

text \<open>The breaker interceptor: the marks it leaves and its answer.  \<open>allow\<close> is the library's.\<close>

datatype mark = MarkFailed | MarkSuccess

definition breaker_interceptor ::
  "bool \<Rightarrow> grpc_err option \<times> 'r option \<Rightarrow> mark list \<times> grpc_err option \<times> 'r option" where
  "breaker_interceptor allow handled =
     (let (marks, err) = (if allow then ([if fst handled \<noteq> None then MarkFailed else MarkSuccess], fst handled)
                          else ([], None))
      in (marks @ [MarkFailed], err, None))"

definition breaker_allow :: bool where
  "breaker_allow = False"

text \<open>\<open>rnd\<close> is the random number below 100; the timer that sets the threshold to 1 later is a
  separate event.\<close>

definition breaker_interceptorV1 ::
  "nat \<Rightarrow> grpc_err option \<times> 'r option \<Rightarrow> int \<Rightarrow> (grpc_err option \<times> 'r option) \<times> int" where
  "breaker_interceptorV1 rnd handled threshold =
     (let threshold = (if \<not> breaker_allow then 0 else threshold) in
      if int rnd < threshold then
        (handled, if fst handled = None \<and> threshold \<noteq> 0 then threshold + 1
                  else if threshold \<noteq> 0 then threshold - 1 else threshold)
      else ((None, None), threshold))"

section \<open>Smooth weighted round robin\<close>

record conn =
  cc_name :: string
  cc_weight :: int
  cc_current :: int
  cc_available :: bool

text \<open>\<open>weight\<close> of an address, 0 when the metadata has none.\<close>

definition Build :: "(string \<times> int) list \<Rightarrow> conn list" where
  "Build readySCs = map (\<lambda>(sc, w). \<lparr>cc_name = sc, cc_weight = (if w = 0 then 10 else w),
     cc_current = 0, cc_available = False\<rparr>) readySCs"

text \<open>The loop of \<open>Pick\<close>: the tot weight, the connections with their new current weights, and
  the index of the first of the largest among the available ones.\<close>

fun pick_loop :: "conn list \<Rightarrow> nat \<Rightarrow> int \<Rightarrow> (nat \<times> int) option \<Rightarrow> int \<times> conn list \<times> (nat \<times> int) option" where
  "pick_loop [] i tot best = (tot, [], best)"
| "pick_loop (cc # ccs) i tot best =
     (if \<not> cc_available cc then
        (case pick_loop ccs (Suc i) tot best of (t, cs, b) \<Rightarrow> (t, cc # cs, b))
      else
        let cw = cc_weight cc + cc_current cc;
            best' = (case best of None \<Rightarrow> Some (i, cw)
                     | Some (j, m) \<Rightarrow> if cw > m then Some (i, cw) else Some (j, m))
        in (case pick_loop ccs (Suc i) (tot + cc_weight cc) best' of
              (t, cs, b) \<Rightarrow> (t, cc\<lparr>cc_current := cw\<rparr> # cs, b)))"

datatype pick_result = NoSubConn | PickPanic | Picked nat "conn list"

definition Pick :: "conn list \<Rightarrow> pick_result" where
  "Pick conns =
     (if conns = [] then NoSubConn
      else (case pick_loop conns 0 0 None of
              (tot, cs, None) \<Rightarrow> PickPanic
            | (tot, cs, Some (i, _)) \<Rightarrow>
                Picked i (cs[i := (cs ! i)\<lparr>cc_current := cc_current (cs ! i) - tot\<rparr>])))"

text \<open>The callback on the result of the call; the health check of \<open>Unavailable\<close> answers true
  and puts the node back in a goroutine, modelled as \<open>readmit\<close>.\<close>

datatype call_err = Canceled | EOF | UnexpectedEOF | Unavailable | Exhausted | OtherErr

definition Done :: "call_err option \<Rightarrow> nat \<Rightarrow> conn list \<Rightarrow> conn list" where
  "Done err i conns =
     (case err of
        None \<Rightarrow> conns
      | Some e \<Rightarrow>
          if e = EOF \<or> e = UnexpectedEOF then conns[i := (conns ! i)\<lparr>cc_available := True\<rparr>]
          else if e = Unavailable then conns[i := (conns ! i)\<lparr>cc_available := False\<rparr>]
          else conns)"

definition healthCheck :: "conn \<Rightarrow> bool" where
  "healthCheck cc = True"

definition readmit :: "nat \<Rightarrow> conn list \<Rightarrow> conn list" where
  "readmit i conns =
     (if healthCheck (conns ! i) then conns[i := (conns ! i)\<lparr>cc_available := True\<rparr>] else conns)"

fun pick_run :: "nat \<Rightarrow> conn list \<Rightarrow> (nat list \<times> conn list) option" where
  "pick_run 0 conns = Some ([], conns)"
| "pick_run (Suc n) conns =
     (case Pick conns of
        Picked i conns' \<Rightarrow> map_option (\<lambda>(is, cs). (i # is, cs)) (pick_run n conns')
      | _ \<Rightarrow> None)"

end
