(* ===== verification/TrafficSpec.thy ===== *)
theory TrafficSpec
  imports Traffic
begin

text \<open>
  The bound of the sliding window and where it fails, the fairness of the picker, and what the
  interceptors do to an answer.
\<close>

section \<open>The sliding window\<close>

definition in_window :: "int \<Rightarrow> int \<Rightarrow> int list \<Rightarrow> nat" where
  "in_window window t xs = length (filter (\<lambda>m. t - window < m \<and> m \<le> t) xs)"

lemma in_window_append: "in_window window t (xs @ ys) = in_window window t xs + in_window window t ys"
  by (simp add: in_window_def)

lemma in_window_later:
  assumes "now \<le> t" "\<forall>m \<in> set xs. m < now"
  shows "in_window window t xs \<le> length (filter (\<lambda>m. now - window < m) xs)"
  unfolding in_window_def using assms by (induction xs) auto

text \<open>The set the script keeps is the part of the accepted times \<open>acc\<close> after some bound \<open>b\<close>.\<close>

lemma limit_run_inv:
  assumes "sorted_wrt (<) calls" "\<forall>m \<in> set acc. \<forall>c \<in> set calls. m < c"
    and "\<forall>c \<in> set calls. b \<le> c - window" "0 < window"
    and "\<forall>t. int (in_window window t acc) \<le> threshold"
  shows "int (in_window window t (acc @ limit_run window threshold (filter (\<lambda>m. b < m) acc) calls)) \<le> threshold"
  using assms
proof (induction calls arbitrary: acc b)
  case Nil
  then show ?case by simp
next
  case (Cons now calls)
  let ?z = "filter (\<lambda>m. now - window < m) acc"
  have z: "filter (\<lambda>m. b < m \<and> now - window < m) acc = ?z"
    using Cons.prems(3) by (auto intro!: filter_cong)
  have before: "\<forall>m \<in> set acc. m < now" using Cons.prems(2) by simp
  have later: "\<forall>c \<in> set calls. now - window \<le> c - window" using Cons.prems(1) by auto
  show ?case
  proof (cases "int (length ?z) \<ge> threshold")
    case True
    then have "slide_window window threshold now (filter (\<lambda>m. b < m) acc) = (True, ?z)"
      by (simp add: slide_window_def Let_def z)
    then show ?thesis using Cons.IH [of acc "now - window"] Cons.prems later by simp
  next
    case False
    have new: "filter (\<lambda>m. now - window < m) (acc @ [now]) = ?z @ [now]" using Cons.prems(4) by simp
    have "now \<notin> set ?z" using before by auto
    then have sw: "slide_window window threshold now (filter (\<lambda>m. b < m) acc) = (False, ?z @ [now])"
      using False by (simp add: slide_window_def Let_def z)
    have "int (in_window window t (acc @ [now])) \<le> threshold" for t
    proof (cases "t < now")
      case True
      then show ?thesis using Cons.prems(5) by (simp add: in_window_append) (simp add: in_window_def)
    next
      case F: False
      then have "in_window window t acc \<le> length ?z" using in_window_later before by simp
      moreover have "in_window window t [now] \<le> 1" by (simp add: in_window_def)
      ultimately show ?thesis using False by (simp add: in_window_append)
    qed
    then show ?thesis
      using Cons.IH [of "acc @ [now]" "now - window"] Cons.prems(1,2,4) later sw unfolding new by auto
  qed
qed

text \<open>C26: the limiter keeps its promise for calls at different milliseconds: in every window of
  the configured length at most \<open>threshold\<close> of the calls are let through.\<close>

theorem slide_window_limit:
  assumes "sorted_wrt (<) calls" "0 < window" "0 \<le> threshold"
  shows "int (in_window window t (limit_run window threshold [] calls)) \<le> threshold"
proof (cases calls)
  case (Cons c cs)
  then have "\<forall>d \<in> set calls. c - window \<le> d - window" using assms(1) by auto
  then show ?thesis
    using limit_run_inv [OF assms(1), of "[]" "c - window" window threshold t] assms(2,3)
    by (simp add: in_window_def)
qed (use assms(3) in \<open>simp add: in_window_def\<close>)

text \<open>Calls in the same millisecond are one member of the set, so all of them pass.\<close>

lemma same_millisecond:
  assumes "2 \<le> threshold" "0 < window"
  shows "limit_run window threshold [] (replicate n now) = replicate n now"
proof -
  have "limit_run window threshold z (replicate n now) = replicate n now" if "z = [] \<or> z = [now]" for z
    using that assms by (induction n arbitrary: z) (auto simp: slide_window_def)
  then show ?thesis by simp
qed

section \<open>Interceptors\<close>

text \<open>The breaker interceptor drops every answer and counts every call as failed as well.\<close>

lemma breaker_drops_answer:
  "snd (snd (breaker_interceptor allow handled)) = None"
  "MarkFailed \<in> set (fst (breaker_interceptor allow handled))"
  by (simp_all add: breaker_interceptor_def Let_def)

lemma breaker_v1_never_calls:
  "fst (breaker_interceptorV1 rnd handled threshold) = (None, None)"
  by (simp add: breaker_interceptorV1_def breaker_allow_def)

section \<open>The picker\<close>

text \<open>A fresh picker has no available node.\<close>

lemma pick_loop_unavailable:
  "\<forall>cc \<in> set ccs. \<not> cc_available cc \<Longrightarrow> pick_loop ccs i tot best = (tot, ccs, best)"
  by (induction ccs arbitrary: i) auto

lemma build_pick_panics: "scs \<noteq> [] \<Longrightarrow> Pick (Build scs) = PickPanic"
proof -
  assume "scs \<noteq> []"
  moreover have "\<forall>cc \<in> set (Build scs). \<not> cc_available cc" by (auto simp: Build_def)
  ultimately show ?thesis using pick_loop_unavailable [of "Build scs" 0 0 None]
    by (simp add: Pick_def) (simp add: Build_def)
qed

definition raised :: "conn \<Rightarrow> int" where
  "raised cc = cc_weight cc + cc_current cc"

definition total_weight :: "conn list \<Rightarrow> int" where
  "total_weight ccs = sum_list (map cc_weight ccs)"

lemma pick_loop_spec:
  assumes "\<forall>cc \<in> set ccs. cc_available cc"
  shows "case pick_loop ccs i tot best of (t, cs, b) \<Rightarrow>
      t = tot + total_weight ccs \<and> cs = map (\<lambda>cc. cc\<lparr>cc_current := raised cc\<rparr>) ccs
      \<and> (b = best \<or> (\<exists>j < length ccs. b = Some (i + j, raised (ccs ! j))))
      \<and> (\<forall>j < length ccs. b \<noteq> None \<and> raised (ccs ! j) \<le> snd (the b))
      \<and> (best \<noteq> None \<longrightarrow> b \<noteq> None \<and> snd (the best) \<le> snd (the b))"
  using assms
proof (induction ccs arbitrary: i tot best)
  case Nil
  then show ?case by (simp add: total_weight_def)
next
  case (Cons cc ccs)
  define best' where "best' = (case best of None \<Rightarrow> Some (i, raised cc)
      | Some (j, m) \<Rightarrow> if raised cc > m then Some (i, raised cc) else Some (j, m))"
  obtain t cs b where r: "pick_loop ccs (Suc i) (tot + cc_weight cc) best' = (t, cs, b)" by (metis prod_cases3)
  have p: "pick_loop (cc # ccs) i tot best = (t, cc\<lparr>cc_current := raised cc\<rparr> # cs, b)"
    using Cons.prems r unfolding best'_def raised_def by (simp add: Let_def)
  have IH: "t = tot + cc_weight cc + total_weight ccs" "cs = map (\<lambda>cc. cc\<lparr>cc_current := raised cc\<rparr>) ccs"
      "b = best' \<or> (\<exists>j < length ccs. b = Some (Suc i + j, raised (ccs ! j)))"
      "\<forall>j < length ccs. b \<noteq> None \<and> raised (ccs ! j) \<le> snd (the b)"
      "best' \<noteq> None \<longrightarrow> b \<noteq> None \<and> snd (the best') \<le> snd (the b)"
    using Cons.IH [where i = "Suc i" and tot = "tot + cc_weight cc" and best = best'] Cons.prems r by auto
  have b': "best' \<noteq> None" "raised cc \<le> snd (the best')"
    "best \<noteq> None \<Longrightarrow> snd (the best) \<le> snd (the best')" "best' = best \<or> best' = Some (i, raised cc)"
    by (auto simp: best'_def split: option.splits prod.splits)
  have B: "b \<noteq> None" "snd (the best') \<le> snd (the b)" using IH(5) b'(1) by auto
  have "b = best \<or> (\<exists>j < length (cc # ccs). b = Some (i + j, raised ((cc # ccs) ! j)))"
    using IH(3)
  proof
    assume "b = best'"
    then show ?thesis using b'(4) by force
  next
    assume "\<exists>j < length ccs. b = Some (Suc i + j, raised (ccs ! j))"
    then obtain j where "j < length ccs" "b = Some (Suc i + j, raised (ccs ! j))" by blast
    then have "Suc j < length (cc # ccs) \<and> b = Some (i + Suc j, raised ((cc # ccs) ! Suc j))" by simp
    then show ?thesis by blast
  qed
  moreover have "raised ((cc # ccs) ! j) \<le> snd (the b)" if "j < length (cc # ccs)" for j
    using that IH(4) B(2) b'(2) by (cases j) auto
  ultimately show ?case using p IH(1,2) B b'(3) by (auto simp: total_weight_def)
qed

text \<open>One pick among available nodes: the picked one has the largest raised weight.\<close>

lemma Pick_spec:
  assumes "ccs \<noteq> []" "\<forall>cc \<in> set ccs. cc_available cc"
  obtains i where "i < length ccs"
    "Pick ccs = Picked i ((map (\<lambda>cc. cc\<lparr>cc_current := raised cc\<rparr>) ccs)
       [i := (ccs ! i)\<lparr>cc_current := raised (ccs ! i) - total_weight ccs\<rparr>])"
    "\<forall>j < length ccs. raised (ccs ! j) \<le> raised (ccs ! i)"
proof -
  obtain t cs b where r: "pick_loop ccs 0 0 None = (t, cs, b)" by (metis prod_cases3)
  have S: "t = total_weight ccs" "cs = map (\<lambda>cc. cc\<lparr>cc_current := raised cc\<rparr>) ccs"
    "b = None \<or> (\<exists>j < length ccs. b = Some (j, raised (ccs ! j)))"
    "\<forall>j < length ccs. b \<noteq> None \<and> raised (ccs ! j) \<le> snd (the b)"
    using pick_loop_spec [OF assms(2), where i = 0 and tot = 0 and best = None] r by auto
  have "b \<noteq> None" using S(4) assms(1) by (metis length_greater_0_conv)
  then obtain i where i: "i < length ccs" "b = Some (i, raised (ccs ! i))" using S(3) by auto
  show thesis
  proof (rule that [of i])
    show "Pick ccs = Picked i ((map (\<lambda>cc. cc\<lparr>cc_current := raised cc\<rparr>) ccs)
       [i := (ccs ! i)\<lparr>cc_current := raised (ccs ! i) - total_weight ccs\<rparr>])"
      using r i S(1,2) assms(1) by (simp add: Pick_def)
  qed (use i S(4) in auto)
qed


text \<open>Nodes with weights \<open>w\<close> and current weights \<open>f\<close>.\<close>

definition with_cur :: "(nat \<Rightarrow> int) \<Rightarrow> conn list \<Rightarrow> conn list" where
  "with_cur f ccs = map (\<lambda>j. (ccs ! j)\<lparr>cc_current := f j\<rparr>) [0 ..< length ccs]"

lemma with_cur_simps [simp]:
  "length (with_cur f ccs) = length ccs" "with_cur f ccs = [] \<longleftrightarrow> ccs = []"
  "j < length ccs \<Longrightarrow> with_cur f ccs ! j = (ccs ! j)\<lparr>cc_current := f j\<rparr>"
  by (simp_all add: with_cur_def)

lemma with_cur_self: "with_cur (\<lambda>j. cc_current (ccs ! j)) ccs = ccs"
  by (rule nth_equalityI) simp_all

lemma total_weight_nth: "total_weight ccs = (\<Sum>j < length ccs. cc_weight (ccs ! j))"
  by (simp add: total_weight_def sum_list_sum_nth atLeast0LessThan)

lemma total_weight_cur [simp]: "total_weight (with_cur f ccs) = total_weight ccs"
  by (simp add: total_weight_nth)

lemma with_cur_available: "\<forall>cc \<in> set ccs. cc_available cc \<Longrightarrow> \<forall>cc \<in> set (with_cur f ccs). cc_available cc"
  by (simp add: with_cur_def)

definition after_pick :: "conn list \<Rightarrow> nat \<Rightarrow> (nat \<Rightarrow> int) \<Rightarrow> nat \<Rightarrow> int" where
  "after_pick ccs i f j = f j + cc_weight (ccs ! j) - (if j = i then total_weight ccs else 0)"

lemma Pick_cur:
  assumes "ccs \<noteq> []" "\<forall>cc \<in> set ccs. cc_available cc"
  obtains i where "i < length ccs" "Pick (with_cur f ccs) = Picked i (with_cur (after_pick ccs i f) ccs)"
    "\<forall>j < length ccs. f j + cc_weight (ccs ! j) \<le> f i + cc_weight (ccs ! i)"
proof -
  let ?cs = "with_cur f ccs"
  have ne: "?cs \<noteq> []" using assms(1) by simp
  obtain i where i: "i < length ?cs"
      "Pick ?cs = Picked i ((map (\<lambda>cc. cc\<lparr>cc_current := raised cc\<rparr>) ?cs)
         [i := (?cs ! i)\<lparr>cc_current := raised (?cs ! i) - total_weight ?cs\<rparr>])"
      "\<forall>j < length ?cs. raised (?cs ! j) \<le> raised (?cs ! i)"
    by (rule Pick_spec [OF ne with_cur_available [OF assms(2)]])
  have "(map (\<lambda>cc. cc\<lparr>cc_current := raised cc\<rparr>) ?cs)
         [i := (?cs ! i)\<lparr>cc_current := raised (?cs ! i) - total_weight ?cs\<rparr>] = with_cur (after_pick ccs i f) ccs"
    by (rule nth_equalityI) (use i(1) in \<open>auto simp: nth_list_update raised_def after_pick_def add.commute\<close>)
  then show thesis using that [of i] i by (simp add: raised_def add.commute)
qed

lemma pick_run_cur:
  assumes ne: "ccs \<noteq> []" and av: "\<forall>cc \<in> set ccs. cc_available cc" and pos: "0 < total_weight ccs"
    and wn: "\<forall>j < length ccs. 0 \<le> cc_weight (ccs ! j)"
  shows "(\<Sum>j < length ccs. f j) = 0 \<Longrightarrow> \<forall>j < length ccs. - total_weight ccs < f j \<Longrightarrow>
    \<exists>is g. pick_run k (with_cur f ccs) = Some (is, with_cur g ccs)
      \<and> (\<forall>j. g j = f j + int k * cc_weight (ccs ! j) - total_weight ccs * int (count_list is j))
      \<and> (\<Sum>j < length ccs. g j) = 0 \<and> (\<forall>j < length ccs. - total_weight ccs < g j)"
proof (induction k arbitrary: f)
  case 0
  then show ?case by auto
next
  case (Suc k)
  let ?W = "total_weight ccs" and ?w = "\<lambda>j. cc_weight (ccs ! j)"
  obtain i where i: "i < length ccs" "Pick (with_cur f ccs) = Picked i (with_cur (after_pick ccs i f) ccs)"
      "\<forall>j < length ccs. f j + ?w j \<le> f i + ?w i"
    by (rule Pick_cur [OF ne av])
  have "(\<Sum>j < length ccs. f j + ?w j) = ?W" using Suc.prems(1) by (simp add: sum.distrib total_weight_nth)
  then have "0 < (\<Sum>j < length ccs. f j + ?w j)" using pos by simp
  also have "\<dots> \<le> int (length ccs) * (f i + ?w i)"
    using sum_bounded_above [of "{..< length ccs}" "\<lambda>j. f j + ?w j" "f i + ?w i"] i(3) by simp
  finally have "0 < f i + ?w i" using ne by (simp add: zero_less_mult_iff)
  then have low: "\<forall>j < length ccs. - ?W < after_pick ccs i f j"
    using Suc.prems(2) wn by (auto simp: after_pick_def) (metis add.commute add_strict_increasing2 add_increasing2 less_le_trans)
  have "(\<Sum>j < length ccs. after_pick ccs i f j) = (\<Sum>j < length ccs. f j) + (\<Sum>j < length ccs. ?w j) - ?W"
    using i(1) by (simp add: after_pick_def sum.distrib sum_subtractf sum.delta)
  then have sum: "(\<Sum>j < length ccs. after_pick ccs i f j) = 0" using Suc.prems(1) by (simp add: total_weight_nth)
  obtain "is" g where r: "pick_run k (with_cur (after_pick ccs i f) ccs) = Some (is, with_cur g ccs)"
      "\<forall>j. g j = after_pick ccs i f j + int k * ?w j - ?W * int (count_list is j)"
      "(\<Sum>j < length ccs. g j) = 0" "\<forall>j < length ccs. - ?W < g j"
    using Suc.IH [OF sum low] by blast
  have fg: "g j = f j + int (Suc k) * ?w j - ?W * int (count_list (i # is) j)" for j
    using spec [OF r(2), of j] by (cases "j = i") (simp_all add: after_pick_def algebra_simps)
  show ?case
  proof (intro exI conjI)
    show "pick_run (Suc k) (with_cur f ccs) = Some (i # is, with_cur g ccs)" using i(2) r(1) by simp
    show "\<forall>j. g j = f j + int (Suc k) * ?w j - ?W * int (count_list (i # is) j)" using fg by blast
  qed (fact r(3), fact r(4))
qed


section \<open>Witnesses\<close>

theorem slide_window_limit_witness:
  "limit_run 10 2 [] [1, 3, 5, 12, 14] = [1, 3, 12, 14]
   \<and> int (in_window 10 12 (limit_run 10 2 [] [1, 3, 5, 12, 14])) \<le> 2"
proof -
  have "limit_run 10 2 [] [1, 3, 5, 12, 14] = [1, 3, 12, 14]" by code_simp
  then show ?thesis using slide_window_limit [of "[1, 3, 5, 12, 14]" 10 2 12] by simp
qed

definition three_nodes :: "conn list" where
  "three_nodes = map (\<lambda>(n, w). \<lparr>cc_name = n, cc_weight = w, cc_current = 0, cc_available = True\<rparr>)
     [(''a'', 5), (''b'', 1), (''c'', 1)]"


end
