(* ===== verification/Handlers.thy ===== *)
theory Handlers
  imports Prelude "HOL-Library.Multiset"
begin

text \<open>
  The message handlers of \<open>pkg/saramax\<close> and \<open>pkg/rocketmqx\<close>, which the services wrap around
  their consume functions.  \<open>decode\<close> is the JSON decoding of a message, \<open>None\<close> when it fails;
  the consume function is an oracle on the attempt or the batch; a handler returns the
  messages it marks or acknowledges, in order, and what it called.
\<close>

section \<open>RocketMQ\<close>

text \<open>\<open>for i := 0; i < n; i++ { err = fn(); if err == nil break }\<close> from attempt \<open>i\<close>; the last error.\<close>

fun retry_loop :: "nat \<Rightarrow> nat \<Rightarrow> (nat \<Rightarrow> 'e option) \<Rightarrow> 'e option \<Rightarrow> 'e option" where
  "retry_loop 0 i fn err = err"
| "retry_loop (Suc n) i fn err = (if fn i = None then None else retry_loop n (Suc i) fn (fn i))"

fun rmq_Consume ::
  "nat \<Rightarrow> ('m \<Rightarrow> 't option) \<Rightarrow> ('m \<Rightarrow> 't \<Rightarrow> nat \<Rightarrow> 'e option) \<Rightarrow> 'm list \<Rightarrow> 'e option \<Rightarrow> 'e option \<times> 'm list" where
  "rmq_Consume localRetries decode fn [] lastErr = (lastErr, [])"
| "rmq_Consume localRetries decode fn (msg # msgs) lastErr =
     (case decode msg of
        None \<Rightarrow> (case rmq_Consume localRetries decode fn msgs lastErr of (e, acks) \<Rightarrow> (e, msg # acks))
      | Some t \<Rightarrow>
          (case retry_loop localRetries 0 (fn msg t) None of
             Some err \<Rightarrow> rmq_Consume localRetries decode fn msgs (Some err)
           | None \<Rightarrow> (case rmq_Consume localRetries decode fn msgs lastErr of (e, acks) \<Rightarrow> (e, msg # acks))))"

definition rmq_localRetries :: nat where "rmq_localRetries = 3"

text \<open>The batch handlers: undecodable messages are acknowledged at once, the others after the
  one call of \<open>fn\<close>.\<close>

definition decoded :: "('m \<Rightarrow> 't option) \<Rightarrow> 'm list \<Rightarrow> ('m \<times> 't) list" where
  "decoded decode msgs = List.map_filter (\<lambda>m. map_option (\<lambda>t. (m, t)) (decode m)) msgs"

definition undecoded :: "('m \<Rightarrow> 't option) \<Rightarrow> 'm list \<Rightarrow> 'm list" where
  "undecoded decode msgs = filter (\<lambda>m. decode m = None) msgs"

definition rmq_batch_Consume ::
  "('m \<Rightarrow> 't option) \<Rightarrow> (('m \<times> 't) list \<Rightarrow> 'e option) \<Rightarrow> 'm list \<Rightarrow> 'e option \<times> 'm list" where
  "rmq_batch_Consume decode fn msgs =
     (let valid = decoded decode msgs; bad = undecoded decode msgs in
      if valid = [] then (None, bad)
      else (case fn valid of
              Some err \<Rightarrow> (Some err, bad)
            | None \<Rightarrow> (None, bad @ map fst valid)))"

section \<open>Kafka, one message at a time\<close>

fun kafka_Handler :: "('m \<Rightarrow> 't option) \<Rightarrow> ('m \<Rightarrow> 't \<Rightarrow> nat \<Rightarrow> 'e option) \<Rightarrow> 'm list \<Rightarrow> 'm list" where
  "kafka_Handler decode fn [] = []"
| "kafka_Handler decode fn (msg # msgs) =
     (case decode msg of
        None \<Rightarrow> kafka_Handler decode fn msgs
      | Some t \<Rightarrow>
          (if retry_loop 3 0 (fn msg t) None = None then [msg] else []) @ kafka_Handler decode fn msgs)"

section \<open>Kafka, batches in a time window\<close>

datatype 'm arrival = TimeUp | Arrive 'm | ChanClosed

text \<open>The inner loop: the messages of the batch and the arrivals left, \<open>None\<close> when the channel
  was closed (or nothing more arrives) before the batch was complete.\<close>

fun collect :: "nat \<Rightarrow> 'm arrival list \<Rightarrow> 'm list \<Rightarrow> 'm list \<times> 'm arrival list option" where
  "collect 0 es acc = (acc, Some es)"
| "collect (Suc i) [] acc = (acc, None)"
| "collect (Suc i) (TimeUp # es) acc = (acc, Some es)"
| "collect (Suc i) (ChanClosed # es) acc = (acc, None)"
| "collect (Suc i) (Arrive m # es) acc = collect i es (acc @ [m])"

lemma collect_shorter: "collect i es acc = (r, Some es') \<Longrightarrow> length es' \<le> length es \<and> (0 < i \<longrightarrow> length es' < length es)"
  by (induction i es acc rule: collect.induct) auto

definition batch_size :: "int \<Rightarrow> nat" where
  "batch_size n = (if n \<le> 0 then 10 else nat n)"

lemma batch_size_pos [simp]: "0 < batch_size n"
  by (simp add: batch_size_def)

lemma collect_batch_shorter: "(msgs, Some es') = collect (batch_size bsize) es [] \<Longrightarrow> length es' < length es"
  using collect_shorter [of "batch_size bsize" es "[]" msgs es'] by simp

text \<open>\<open>BatchHandler.ConsumeClaim\<close>: the calls of \<open>fn\<close>, each with its messages and its values, and
  the marks.\<close>

function batch_ConsumeClaim ::
  "int \<Rightarrow> ('m \<Rightarrow> 't option) \<Rightarrow> ('m list \<Rightarrow> 't list \<Rightarrow> 'e option) \<Rightarrow> 'm arrival list \<Rightarrow> ('m list \<times> 't list) list \<times> 'm list" where
  "batch_ConsumeClaim bsize decode fn es =
     (case collect (batch_size bsize) es [] of
        (msgs, None) \<Rightarrow> ([], undecoded decode msgs)
      | (msgs, Some es') \<Rightarrow>
          (let ts = map snd (decoded decode msgs);
               (calls, marks) = batch_ConsumeClaim bsize decode fn es'
           in ((msgs, ts) # calls,
               undecoded decode msgs @ (if fn msgs ts = None then msgs else []) @ marks)))"
  by auto
termination
  by (relation "measure (\<lambda>(_, _, _, es). length es)") (auto dest: collect_batch_shorter)

text \<open>\<open>ConsumeClaimFalse\<close>: a batch goes to a goroutine, which marks it whatever \<open>fn\<close> says.\<close>

function batch_ConsumeClaimFalse ::
  "nat \<Rightarrow> ('m \<Rightarrow> 't option) \<Rightarrow> 'm arrival list \<Rightarrow> ('m \<times> 't) list list \<times> 'm list" where
  "batch_ConsumeClaimFalse bsize decode es =
     (case collect (Suc bsize) es [] of
        (msgs, None) \<Rightarrow> ([], undecoded decode msgs)
      | (msgs, Some es') \<Rightarrow>
          (let valid = decoded decode msgs;
               (calls, marks) = batch_ConsumeClaimFalse bsize decode es'
           in if valid = [] then (calls, undecoded decode msgs @ marks)
              else (valid # calls, undecoded decode msgs @ map fst valid @ marks)))"
  by auto
termination
  by (relation "measure (\<lambda>(_, _, es). length es)") (auto dest: collect_shorter [OF sym] collect_shorter)

text \<open>\<open>AsyncHandler\<close>: the messages of a full window are processed concurrently, each with three
  attempts, and all of them marked.\<close>

function async_ConsumeClaim :: "nat \<Rightarrow> 'm arrival list \<Rightarrow> 'm list" where
  "async_ConsumeClaim bsize es =
     (case collect (Suc bsize) es [] of
        (msgs, None) \<Rightarrow> []
      | (msgs, Some es') \<Rightarrow> msgs @ async_ConsumeClaim bsize es')"
  by auto
termination
  by (relation "measure (\<lambda>(_, es). length es)") (auto dest: collect_shorter [OF sym] collect_shorter)

section \<open>The asynchronous batch worker\<close>

record worker_cfg =
  wc_batchSize :: int
  wc_localRetries :: int

definition NewAsyncBatchHandler :: "int \<Rightarrow> int \<Rightarrow> worker_cfg" where
  "NewAsyncBatchHandler batchSize localRetries =
     \<lparr>wc_batchSize = (if batchSize \<le> 0 then 10 else batchSize),
      wc_localRetries = (if localRetries \<le> 0 then 3 else localRetries)\<rparr>"

text \<open>What a flush meets: is the context cancelled before it, does attempt \<open>n\<close> succeed, is the
  context cancelled during the pause after attempt \<open>n\<close>.\<close>

record flush_env =
  fe_cancelled :: bool
  fe_ok :: "nat \<Rightarrow> bool"
  fe_pause_cancelled :: "nat \<Rightarrow> bool"

text \<open>The loop of \<open>flush\<close> after \<open>attempt\<close> failed attempts: the attempts made and whether the batch
  was acknowledged; \<open>fuel\<close> is the retries left.\<close>

fun flush_loop :: "flush_env \<Rightarrow> nat \<Rightarrow> nat \<Rightarrow> nat \<times> bool" where
  "flush_loop env fuel attempt =
     (if fe_ok env attempt then (Suc attempt, True)
      else (case fuel of
              0 \<Rightarrow> (Suc attempt, True)
            | Suc f \<Rightarrow> if fe_pause_cancelled env (Suc attempt) then (Suc attempt, False)
                       else flush_loop env f (Suc attempt)))"

declare flush_loop.simps [simp del]

record ('m, 't) worker_state =
  wk_buf :: "('m \<times> 't) list"
  wk_acks :: "'m list"
  wk_calls :: "(('m \<times> 't) list \<times> nat) list"

definition flush :: "worker_cfg \<Rightarrow> flush_env \<Rightarrow> ('m, 't) worker_state \<Rightarrow> ('m, 't) worker_state" where
  "flush wc env st =
     (if wk_buf st = [] then st
      else if fe_cancelled env then st
      else (case flush_loop env (nat (wc_localRetries wc)) 0 of
              (n, acked) \<Rightarrow>
                (let st1 = st\<lparr>wk_calls := wk_calls st @ [(wk_buf st, n)]\<rparr> in
                 if acked then st1\<lparr>wk_acks := wk_acks st @ map fst (wk_buf st), wk_buf := []\<rparr> else st1)))"

datatype 'm worker_event = CtxDone | TimerFired flush_env | GotTask 'm flush_env | TasksClosed flush_env

fun worker ::
  "worker_cfg \<Rightarrow> ('m \<Rightarrow> 't option) \<Rightarrow> 'm worker_event list \<Rightarrow> ('m, 't) worker_state \<Rightarrow> ('m, 't) worker_state" where
  "worker wc decode [] st = st"
| "worker wc decode (CtxDone # es) st = st"
| "worker wc decode (TimerFired env # es) st = worker wc decode es (flush wc env st)"
| "worker wc decode (TasksClosed env # es) st = flush wc env st"
| "worker wc decode (GotTask msg env # es) st =
     (case decode msg of
        None \<Rightarrow> worker wc decode es (st\<lparr>wk_acks := wk_acks st @ [msg]\<rparr>)
      | Some t \<Rightarrow>
          (let st1 = st\<lparr>wk_buf := wk_buf st @ [(msg, t)]\<rparr> in
           worker wc decode es (if int (length (wk_buf st1)) \<ge> wc_batchSize wc then flush wc env st1 else st1)))"

definition worker_init :: "('m, 't) worker_state" where
  "worker_init = \<lparr>wk_buf = [], wk_acks = [], wk_calls = []\<rparr>"


section \<open>The worker acknowledges what it is given\<close>

lemma flush_loop_done:
  assumes "\<And>n. \<not> fe_pause_cancelled env n"
  shows "\<exists>n. flush_loop env fuel attempt = (n, True) \<and> attempt < n \<and> n \<le> attempt + fuel + 1"
proof (induction fuel arbitrary: attempt)
  case 0
  then show ?case by (subst flush_loop.simps) simp
next
  case (Suc f)
  show ?case
  proof (cases "fe_ok env attempt")
    case True
    then show ?thesis by (subst flush_loop.simps) simp
  next
    case False
    then have "flush_loop env (Suc f) attempt = flush_loop env f (Suc attempt)"
      using assms by (subst flush_loop.simps) simp
    then show ?thesis using Suc.IH [of "Suc attempt"] by auto
  qed
qed

fun uncancelled :: "'m worker_event \<Rightarrow> bool" where
  "uncancelled CtxDone \<longleftrightarrow> False"
| "uncancelled (TimerFired env) \<longleftrightarrow> \<not> fe_cancelled env \<and> fe_pause_cancelled env = (\<lambda>_. False)"
| "uncancelled (GotTask m env) \<longleftrightarrow> \<not> fe_cancelled env \<and> fe_pause_cancelled env = (\<lambda>_. False)"
| "uncancelled (TasksClosed env) \<longleftrightarrow> False"

fun event_msgs :: "'m worker_event \<Rightarrow> 'm list" where
  "event_msgs (GotTask m env) = [m]"
| "event_msgs _ = []"

lemma decoded_simps [simp]:
  "decoded decode [] = []"
  "decoded decode (m # ms) = (case decode m of None \<Rightarrow> [] | Some t \<Rightarrow> [(m, t)]) @ decoded decode ms"
  "decoded decode (xs @ ys) = decoded decode xs @ decoded decode ys"
  by (simp_all add: decoded_def List.map_filter_def split: option.split)

text \<open>The state of the worker after the messages \<open>ms\<close>.\<close>

definition worker_inv :: "worker_cfg \<Rightarrow> ('m \<Rightarrow> 't option) \<Rightarrow> 'm list \<Rightarrow> ('m, 't) worker_state \<Rightarrow> bool" where
  "worker_inv wc decode ms st \<longleftrightarrow>
     concat (map fst (wk_calls st)) @ wk_buf st = decoded decode ms
     \<and> mset (wk_acks st) + mset (map fst (wk_buf st)) = mset ms
     \<and> (\<forall>(batch, n) \<in> set (wk_calls st). batch \<noteq> [] \<and> int (length batch) \<le> wc_batchSize wc
          \<and> 1 \<le> n \<and> n \<le> Suc (nat (wc_localRetries wc)))
     \<and> int (length (wk_buf st)) \<le> wc_batchSize wc"

lemma flush_inv:
  assumes "worker_inv wc decode ms st" "\<not> fe_cancelled env" "\<And>n. \<not> fe_pause_cancelled env n"
  shows "worker_inv wc decode ms (flush wc env st) \<and> wk_buf (flush wc env st) = []"
proof (cases "wk_buf st = []")
  case True
  then show ?thesis using assms(1) by (simp add: flush_def)
next
  case False
  obtain n where "flush_loop env (nat (wc_localRetries wc)) 0 = (n, True)" "0 < n" "n \<le> Suc (nat (wc_localRetries wc))"
    using flush_loop_done [OF assms(3), of "nat (wc_localRetries wc)" 0] by auto
  then show ?thesis using False assms(1,2) by (auto simp: flush_def worker_inv_def)
qed

lemma worker_keeps:
  assumes "0 < wc_batchSize wc"
  shows "list_all uncancelled es \<Longrightarrow> worker_inv wc decode ms st \<Longrightarrow> int (length (wk_buf st)) < wc_batchSize wc \<Longrightarrow>
    \<not> fe_cancelled env \<Longrightarrow> fe_pause_cancelled env = (\<lambda>_. False) \<Longrightarrow>
    worker_inv wc decode (ms @ concat (map event_msgs es)) (worker wc decode (es @ [TasksClosed env]) st)
      \<and> wk_buf (worker wc decode (es @ [TasksClosed env]) st) = []"
proof (induction es arbitrary: ms st)
  case Nil
  then show ?case using flush_inv [of wc decode ms st env] by simp
next
  case (Cons e es)
  have short: "int (length (wk_buf (flush wc env' st'))) < wc_batchSize wc"
    if "worker_inv wc decode ms' st'" "\<not> fe_cancelled env'" "fe_pause_cancelled env' = (\<lambda>_. False)" for ms' st' env'
    using flush_inv [OF that(1,2)] that(3) assms by simp
  show ?case
  proof (cases e)
    case (TimerFired env')
    then have c: "\<not> fe_cancelled env'" "fe_pause_cancelled env' = (\<lambda>_. False)" using Cons.prems(1) by auto
    have "worker_inv wc decode ms (flush wc env' st)" using flush_inv [OF Cons.prems(2) c(1)] c(2) by simp
    then show ?thesis using Cons.IH [of ms "flush wc env' st"] Cons.prems TimerFired short [OF Cons.prems(2) c] by simp
  next
    case (GotTask m env')
    then have c: "\<not> fe_cancelled env'" "fe_pause_cancelled env' = (\<lambda>_. False)" using Cons.prems(1) by auto
    show ?thesis
    proof (cases "decode m")
      case None
      have "worker_inv wc decode (ms @ [m]) (st\<lparr>wk_acks := wk_acks st @ [m]\<rparr>)"
        using Cons.prems(2) None by (auto simp: worker_inv_def)
      then show ?thesis
        using Cons.IH [of "ms @ [m]" "st\<lparr>wk_acks := wk_acks st @ [m]\<rparr>"] Cons.prems GotTask None by simp
    next
      case (Some t)
      let ?st = "st\<lparr>wk_buf := wk_buf st @ [(m, t)]\<rparr>"
      have i: "worker_inv wc decode (ms @ [m]) ?st"
        using Cons.prems(2,3) Some by (auto simp: worker_inv_def simp flip: append_assoc)
      show ?thesis
      proof (cases "int (length (wk_buf ?st)) \<ge> wc_batchSize wc")
        case True
        have "worker_inv wc decode (ms @ [m]) (flush wc env' ?st)" using flush_inv [OF i c(1)] c(2) by simp
        then show ?thesis
          using Cons.IH [of "ms @ [m]" "flush wc env' ?st"] Cons.prems GotTask Some short [OF i c] True by (simp add: Let_def)
      next
        case False
        then show ?thesis using Cons.IH [OF _ i] Cons.prems GotTask Some by (simp add: Let_def)
      qed
    qed
  qed (use Cons.prems(1) in auto)
qed


text \<open>The window handlers give up what the service does not expect: a batch can carry more
  messages than values, and a failed batch is passed over, not retried.\<close>

lemma batch_lengths_differ:
  "batch_ConsumeClaim 2 (\<lambda>m. if m = ''{'' then None else Some m) (\<lambda>_ _. None :: string option) [Arrive ''{'', Arrive ''1'']
     = ([([''{'', ''1''], [''1''])], [''{'', ''{'', ''1''])"
  by code_simp

lemma batch_failure_passed_over:
  "batch_ConsumeClaim 1 Some (\<lambda>ms _. if ms = [''1''] then Some ''db down'' else None) [Arrive ''1'', Arrive ''2'']
     = ([([''1''], [''1'']), ([''2''], [''2''])], [''2''])"
  by code_simp

lemma kafka_Handler_skips: "decode m = None \<Longrightarrow> m \<notin> set ms \<Longrightarrow> m \<notin> set (kafka_Handler decode fn (m # ms))"
proof -
  have "set (kafka_Handler decode fn ms) \<subseteq> set ms" for ms
    by (induction ms) (auto split: option.splits if_splits)
  then show "decode m = None \<Longrightarrow> m \<notin> set ms \<Longrightarrow> ?thesis" by auto
qed

definition calm :: flush_env where
  "calm = \<lparr>fe_cancelled = False, fe_ok = (\<lambda>n. n = 1), fe_pause_cancelled = (\<lambda>_. False)\<rparr>"


end
