(* ===== verification/User.thy ===== *)
theory User
  imports Prelude
begin

text \<open>
  The user service (\<open>internal/user\<close>): table with soft deletion and unique indexes, repository,
  service, gRPC handler; and the tokens of \<open>pkg/jwtx\<close> and \<open>pkg/ginx\<close> with the HTTP handlers of
  \<open>internal/bff\<close> that issue them.  \<open>bcrypt\<close> and the JWT library are parameters.  MySQL runs in
  its default strict mode, so a value longer than its column is an error; texts are compared
  byte by byte.
\<close>

section \<open>Domain and table\<close>

record User =
  u_ID :: int
  u_UserName :: string
  u_Email :: string
  u_Password :: string
  u_Phone :: string
  u_Avatar :: string

definition empty_user :: "int \<Rightarrow> User" where
  "empty_user i = \<lparr>u_ID = i, u_UserName = [], u_Email = [], u_Password = [], u_Phone = [], u_Avatar = []\<rparr>"

record UserRow =
  ur_ID :: int
  ur_CreatedAt :: int
  ur_UpdatedAt :: int
  ur_DeletedAt :: "int option"
  ur_UserName :: string
  ur_Email :: "string option"
  ur_Password :: string
  ur_Phone :: "string option"
  ur_Avatar :: string

datatype user_err =
    ErrDataNotFound | ErrUserDuplicate | ErrInvalidUserOrPassword | UserDbErr string | BcryptErr

definition null_string :: "string \<Rightarrow> string option" where
  "null_string s = (if s = [] then None else Some s)"

definition string_of :: "string option \<Rightarrow> string" where
  "string_of s = (case s of None \<Rightarrow> [] | Some x \<Rightarrow> x)"

definition user_domainToEntity :: "User \<Rightarrow> UserRow" where
  "user_domainToEntity u = \<lparr>ur_ID = u_ID u, ur_CreatedAt = 0, ur_UpdatedAt = 0, ur_DeletedAt = None,
     ur_UserName = u_UserName u, ur_Email = null_string (u_Email u), ur_Password = u_Password u,
     ur_Phone = null_string (u_Phone u), ur_Avatar = u_Avatar u\<rparr>"

definition user_entityToDomain :: "UserRow \<Rightarrow> User" where
  "user_entityToDomain r = \<lparr>u_ID = ur_ID r, u_UserName = ur_UserName r, u_Email = string_of (ur_Email r),
     u_Password = ur_Password r, u_Phone = string_of (ur_Phone r), u_Avatar = ur_Avatar r\<rparr>"

record user_db =
  ud_rows :: "UserRow list"
  ud_next :: int

definition live :: "UserRow \<Rightarrow> bool" where
  "live r \<longleftrightarrow> ur_DeletedAt r = None"

text \<open>The unique indexes on email and phone range over deleted rows too and ignore NULL.\<close>

definition clashes :: "UserRow \<Rightarrow> UserRow \<Rightarrow> bool" where
  "clashes r x \<longleftrightarrow> ur_Email r \<noteq> None \<and> ur_Email r = ur_Email x \<or> ur_Phone r \<noteq> None \<and> ur_Phone r = ur_Phone x"

definition fits_columns :: "UserRow \<Rightarrow> bool" where
  "fits_columns r \<longleftrightarrow> length (string_of (ur_Email r)) \<le> 191 \<and> length (ur_Password r) \<le> 255
     \<and> length (string_of (ur_Phone r)) \<le> 20"

text \<open>\<open>up\<close>: the statement reaches the database.\<close>

definition user_Insert :: "bool \<Rightarrow> int \<Rightarrow> UserRow \<Rightarrow> user_db \<Rightarrow> (user_err + int) \<times> user_db" where
  "user_Insert up now u d =
     (let r = u\<lparr>ur_ID := ud_next d, ur_CreatedAt := now, ur_UpdatedAt := now\<rparr> in
      if \<not> up then (Inl (UserDbErr ''down''), d)
      else if \<not> fits_columns r then (Inl (UserDbErr ''data too long''), d)
      else if list_ex (clashes r) (ud_rows d) then (Inl ErrUserDuplicate, d\<lparr>ud_next := ud_next d + 1\<rparr>)
      else (Inr (ud_next d), d\<lparr>ud_rows := ud_rows d @ [r], ud_next := ud_next d + 1\<rparr>))"

text \<open>\<open>Updates\<close> with a map writes every column of the map, empty ones too.\<close>

definition set_columns :: "int \<Rightarrow> UserRow \<Rightarrow> UserRow \<Rightarrow> UserRow" where
  "set_columns now u r = r\<lparr>ur_UserName := ur_UserName u, ur_Email := ur_Email u, ur_Phone := ur_Phone u,
     ur_Avatar := ur_Avatar u, ur_Password := ur_Password u, ur_UpdatedAt := now\<rparr>"

definition user_Update :: "bool \<Rightarrow> int \<Rightarrow> UserRow \<Rightarrow> user_db \<Rightarrow> (user_err + unit) \<times> user_db" where
  "user_Update up now u d =
     (let hit = (\<lambda>r. live r \<and> ur_ID r = ur_ID u) in
      if \<not> up then (Inl (UserDbErr ''down''), d)
      else if \<not> list_ex hit (ud_rows d) then (Inr (), d)
      else if \<not> fits_columns u then (Inl (UserDbErr ''data too long''), d)
      else if list_ex (\<lambda>r. ur_ID r \<noteq> ur_ID u \<and> clashes u r) (ud_rows d) then
        (Inl (UserDbErr ''duplicate entry''), d)
      else (Inr (), d\<lparr>ud_rows := update_where hit (set_columns now u) (ud_rows d)\<rparr>))"

definition find_live :: "bool \<Rightarrow> (UserRow \<Rightarrow> bool) \<Rightarrow> user_db \<Rightarrow> user_err + UserRow" where
  "find_live up P d =
     (if \<not> up then Inl (UserDbErr ''down'')
      else (case find (\<lambda>r. live r \<and> P r) (ud_rows d) of None \<Rightarrow> Inl ErrDataNotFound | Some r \<Rightarrow> Inr r))"

definition user_FindById :: "bool \<Rightarrow> int \<Rightarrow> user_db \<Rightarrow> user_err + UserRow" where
  "user_FindById up i d = find_live up (\<lambda>r. ur_ID r = i) d"

definition user_FindByEmail :: "bool \<Rightarrow> string \<Rightarrow> user_db \<Rightarrow> user_err + UserRow" where
  "user_FindByEmail up email d = find_live up (\<lambda>r. ur_Email r = Some email) d"

definition user_FindByPhone :: "bool \<Rightarrow> string \<Rightarrow> user_db \<Rightarrow> user_err + UserRow" where
  "user_FindByPhone up phone d = find_live up (\<lambda>r. ur_Phone r = Some phone) d"

definition user_SoftDelete :: "bool \<Rightarrow> int \<Rightarrow> int \<Rightarrow> user_db \<Rightarrow> (user_err + unit) \<times> user_db" where
  "user_SoftDelete up now i d =
     (if \<not> up then (Inl (UserDbErr ''down''), d)
      else (Inr (), d\<lparr>ud_rows := update_where (\<lambda>r. live r \<and> ur_ID r = i)
              (\<lambda>r. r\<lparr>ur_DeletedAt := Some now, ur_UpdatedAt := now\<rparr>) (ud_rows d)\<rparr>))"

section \<open>Repository\<close>

definition repo_Create :: "bool \<Rightarrow> int \<Rightarrow> User \<Rightarrow> user_db \<Rightarrow> (user_err + int) \<times> user_db" where
  "repo_Create up now u d = user_Insert up now (user_domainToEntity u) d"

definition repo_Update :: "bool \<Rightarrow> int \<Rightarrow> User \<Rightarrow> user_db \<Rightarrow> (user_err + unit) \<times> user_db" where
  "repo_Update up now u d = user_Update up now (user_domainToEntity u) d"

definition repo_FindById :: "bool \<Rightarrow> int \<Rightarrow> user_db \<Rightarrow> user_err + User" where
  "repo_FindById up i d = map_sum (\<lambda>e. e) user_entityToDomain (user_FindById up i d)"

definition repo_FindByEmail :: "bool \<Rightarrow> string \<Rightarrow> user_db \<Rightarrow> user_err + User" where
  "repo_FindByEmail up email d = map_sum (\<lambda>e. e) user_entityToDomain (user_FindByEmail up email d)"

section \<open>Service\<close>

text \<open>\<open>GenerateFromPassword\<close> with its random salt, and \<open>CompareHashAndPassword\<close>.\<close>

record bcrypt =
  bc_hash :: "nat \<Rightarrow> string \<Rightarrow> string option"
  bc_check :: "string \<Rightarrow> string \<Rightarrow> bool"

text \<open>What a call meets: the clock, the salt, and which of its statements reach the database.\<close>

record user_env =
  ue_now :: int
  ue_salt :: nat
  ue_up :: "nat \<Rightarrow> bool"

definition svc_Signup :: "bcrypt \<Rightarrow> user_env \<Rightarrow> User \<Rightarrow> user_db \<Rightarrow> (user_err + int) \<times> user_db" where
  "svc_Signup bc env user d =
     (case bc_hash bc (ue_salt env) (u_Password user) of
        None \<Rightarrow> (Inl BcryptErr, d)
      | Some h \<Rightarrow> repo_Create (ue_up env 0) (ue_now env) (user\<lparr>u_Password := h\<rparr>) d)"

definition svc_Login :: "bcrypt \<Rightarrow> user_env \<Rightarrow> string \<Rightarrow> string \<Rightarrow> user_db \<Rightarrow> user_err + int" where
  "svc_Login bc env email password d =
     (case repo_FindByEmail (ue_up env 0) email d of
        Inl e \<Rightarrow> if e = ErrDataNotFound then Inl ErrInvalidUserOrPassword else Inl e
      | Inr u \<Rightarrow> if bc_check bc (u_Password u) password then Inr (u_ID u) else Inl ErrInvalidUserOrPassword)"

definition svc_UpdateProfile :: "user_env \<Rightarrow> User \<Rightarrow> user_db \<Rightarrow> (user_err + unit) \<times> user_db" where
  "svc_UpdateProfile env user d =
     repo_Update (ue_up env 0) (ue_now env) (user\<lparr>u_Email := [], u_Password := [], u_Phone := []\<rparr>) d"

definition svc_ChangePassword ::
  "bcrypt \<Rightarrow> user_env \<Rightarrow> int \<Rightarrow> string \<Rightarrow> string \<Rightarrow> user_db \<Rightarrow> (user_err + unit) \<times> user_db" where
  "svc_ChangePassword bc env userID oldPassword newPassword d =
     (case repo_FindById (ue_up env 0) userID d of
        Inl e \<Rightarrow> (Inl e, d)
      | Inr u \<Rightarrow>
          if \<not> bc_check bc (u_Password u) oldPassword then (Inl ErrInvalidUserOrPassword, d)
          else (case bc_hash bc (ue_salt env) newPassword of
              None \<Rightarrow> (Inl BcryptErr, d)
            | Some newHash \<Rightarrow> repo_Update (ue_up env 1) (ue_now env) ((empty_user userID)\<lparr>u_Password := newHash\<rparr>) d))"

definition svc_ChangeEmail ::
  "bcrypt \<Rightarrow> user_env \<Rightarrow> int \<Rightarrow> string \<Rightarrow> string \<Rightarrow> user_db \<Rightarrow> (user_err + unit) \<times> user_db" where
  "svc_ChangeEmail bc env userID password newEmail d =
     (case repo_FindById (ue_up env 0) userID d of
        Inl e \<Rightarrow> (Inl e, d)
      | Inr u \<Rightarrow>
          if \<not> bc_check bc (u_Password u) password then (Inl ErrInvalidUserOrPassword, d)
          else repo_Update (ue_up env 1) (ue_now env) ((empty_user userID)\<lparr>u_Email := newEmail\<rparr>) d)"

definition deleted_text :: "int \<Rightarrow> string \<Rightarrow> string" where
  "deleted_text ts s = ''deleted_'' @ format_int ts @ ''_'' @ s"

definition svc_Delete :: "bcrypt \<Rightarrow> user_env \<Rightarrow> int \<Rightarrow> string \<Rightarrow> user_db \<Rightarrow> (user_err + unit) \<times> user_db" where
  "svc_Delete bc env userID password d =
     (case repo_FindById (ue_up env 0) userID d of
        Inl e \<Rightarrow> (Inl e, d)
      | Inr u \<Rightarrow>
          if \<not> bc_check bc (u_Password u) password then (Inl ErrInvalidUserOrPassword, d)
          else (case repo_Update (ue_up env 1) (ue_now env)
                       ((empty_user userID)\<lparr>u_Email := deleted_text (ue_now env) (u_Email u),
                          u_Phone := deleted_text (ue_now env) (u_Phone u)\<rparr>) d of
              (Inl e, d1) \<Rightarrow> (Inl e, d1)
            | (Inr _, d1) \<Rightarrow> user_SoftDelete (ue_up env 2) (ue_now env) userID d1))"

definition svc_Query :: "user_env \<Rightarrow> int \<Rightarrow> user_db \<Rightarrow> user_err + User" where
  "svc_Query env i d = repo_FindById (ue_up env 0) i d"

section \<open>gRPC handler\<close>

definition handler_Signup :: "bcrypt \<Rightarrow> user_env \<Rightarrow> string \<Rightarrow> string \<Rightarrow> user_db \<Rightarrow> (user_err + int) \<times> user_db" where
  "handler_Signup bc env email password d =
     svc_Signup bc env ((empty_user 0)\<lparr>u_Email := email, u_Password := password\<rparr>) d"

definition handler_UpdateProfile ::
  "user_env \<Rightarrow> int \<Rightarrow> string option \<Rightarrow> string option \<Rightarrow> user_db \<Rightarrow> (user_err + unit) \<times> user_db" where
  "handler_UpdateProfile env userID username avatar d =
     (let user = empty_user userID;
          user = (case username of None \<Rightarrow> user | Some n \<Rightarrow> user\<lparr>u_UserName := n\<rparr>);
          user = (case avatar of None \<Rightarrow> user | Some a \<Rightarrow> user\<lparr>u_Avatar := a\<rparr>)
      in svc_UpdateProfile env user d)"

text \<open>The answer: id, email, name and avatar.\<close>

definition handler_Query :: "user_env \<Rightarrow> int \<Rightarrow> user_db \<Rightarrow> user_err + int \<times> string \<times> string \<times> string" where
  "handler_Query env i d =
     map_sum (\<lambda>e. e) (\<lambda>u. (u_ID u, u_Email u, u_UserName u, u_Avatar u)) (svc_Query env i d)"

section \<open>Tokens\<close>

datatype TokenType = AccessToken | RefreshToken
datatype jwt_err = ErrTokenExpired | ErrTokenInvalid | SignErr

record jwt_claims =
  jc_UserID :: int
  jc_Type :: TokenType
  jc_ExpiresAt :: int
  jc_IssuedAt :: int

text \<open>The library: \<open>SignedString\<close>, and \<open>ParseWithClaims\<close> at a time in seconds.\<close>

record 't jwt_lib =
  jl_sign :: "string \<Rightarrow> jwt_claims \<Rightarrow> 't option"
  jl_parse :: "string \<Rightarrow> int \<Rightarrow> 't \<Rightarrow> jwt_err + jwt_claims"

record JWTManager =
  jm_accessSecret :: string
  jm_refreshSecret :: string
  jm_accessExpiry :: int
  jm_refreshExpiry :: int

definition generateToken :: "'t jwt_lib \<Rightarrow> int \<Rightarrow> int \<Rightarrow> TokenType \<Rightarrow> string \<Rightarrow> int \<Rightarrow> jwt_err + 't" where
  "generateToken J now userID tokenType secret expiry =
     (case jl_sign J secret \<lparr>jc_UserID = userID, jc_Type = tokenType, jc_ExpiresAt = now + expiry, jc_IssuedAt = now\<rparr> of
        None \<Rightarrow> Inl SignErr | Some t \<Rightarrow> Inr t)"

definition GenerateTokenPair :: "'t jwt_lib \<Rightarrow> JWTManager \<Rightarrow> int \<Rightarrow> int \<Rightarrow> jwt_err + 't \<times> 't" where
  "GenerateTokenPair J m now userID =
     (case generateToken J now userID AccessToken (jm_accessSecret m) (jm_accessExpiry m) of
        Inl e \<Rightarrow> Inl e
      | Inr a \<Rightarrow>
          (case generateToken J now userID RefreshToken (jm_refreshSecret m) (jm_refreshExpiry m) of
             Inl e \<Rightarrow> Inl e
           | Inr r \<Rightarrow> Inr (a, r)))"

definition parseToken :: "'t jwt_lib \<Rightarrow> int \<Rightarrow> 't \<Rightarrow> string \<Rightarrow> TokenType \<Rightarrow> jwt_err + jwt_claims" where
  "parseToken J now token secret expectedType =
     (case jl_parse J secret now token of
        Inl e \<Rightarrow> if e = ErrTokenExpired then Inl ErrTokenExpired else Inl ErrTokenInvalid
      | Inr claims \<Rightarrow> if jc_Type claims \<noteq> expectedType then Inl ErrTokenInvalid else Inr claims)"

definition ParseAccessToken :: "'t jwt_lib \<Rightarrow> JWTManager \<Rightarrow> int \<Rightarrow> 't \<Rightarrow> jwt_err + jwt_claims" where
  "ParseAccessToken J m now token = parseToken J now token (jm_accessSecret m) AccessToken"

definition ParseRefreshToken :: "'t jwt_lib \<Rightarrow> JWTManager \<Rightarrow> int \<Rightarrow> 't \<Rightarrow> jwt_err + jwt_claims" where
  "ParseRefreshToken J m now token = parseToken J now token (jm_refreshSecret m) RefreshToken"

definition RefreshAccessToken :: "'t jwt_lib \<Rightarrow> JWTManager \<Rightarrow> int \<Rightarrow> 't \<Rightarrow> jwt_err + 't \<times> 't" where
  "RefreshAccessToken J m now token =
     (case ParseRefreshToken J m now token of
        Inl e \<Rightarrow> Inl e
      | Inr claims \<Rightarrow> GenerateTokenPair J m now (jc_UserID claims))"

section \<open>The gateway user\<close>

text \<open>
  A request: the value of the context key, the id of the claims the context holds, the headers
  \<open>X-User-ID\<close> and \<open>Authorization\<close>, the latter as the token after \<open>Bearer\<close> with its text
  (\<open>None\<close> when the prefix is missing), and the trimmed access secret of the environment.
\<close>

record 't gin_request =
  gr_user :: "int option"
  gr_claims :: "int option"
  gr_header :: string
  gr_bearer :: "'t option"
  gr_secret :: string

definition parsePositiveInt64 :: "string \<Rightarrow> int" where
  "parsePositiveInt64 raw =
     (if raw = [] then 0
      else (case parse_int raw of None \<Rightarrow> 0 | Some value \<Rightarrow> if value \<le> 0 then 0 else value))"

definition parseBearerToken :: "'t jwt_lib \<Rightarrow> int \<Rightarrow> 't gin_request \<Rightarrow> int" where
  "parseBearerToken J now c =
     (case gr_bearer c of
        None \<Rightarrow> 0
      | Some token \<Rightarrow>
          if gr_secret c = [] then 0
          else (case jl_parse J (gr_secret c) now token of
              Inl e \<Rightarrow> 0
            | Inr claims \<Rightarrow> if jc_Type claims \<noteq> AccessToken \<or> jc_UserID claims \<le> 0 then 0 else jc_UserID claims))"

definition GatewayUserID :: "'t jwt_lib \<Rightarrow> int \<Rightarrow> 't gin_request \<Rightarrow> int" where
  "GatewayUserID J now c =
     (case gr_user c of
        Some n \<Rightarrow> n
      | None \<Rightarrow>
          (case gr_claims c of
             Some n \<Rightarrow> if n > 0 then n
                       else if parsePositiveInt64 (gr_header c) > 0 then parsePositiveInt64 (gr_header c)
                       else parseBearerToken J now c
           | None \<Rightarrow> if parsePositiveInt64 (gr_header c) > 0 then parsePositiveInt64 (gr_header c)
                     else parseBearerToken J now c))"

definition RequireGatewayUser :: "'t jwt_lib \<Rightarrow> int \<Rightarrow> 't gin_request \<Rightarrow> int + 't gin_request" where
  "RequireGatewayUser J now c =
     (let userID = GatewayUserID J now c in
      if userID \<le> 0 then Inl 401 else Inr (c\<lparr>gr_user := Some userID\<rparr>))"

section \<open>HTTP authentication\<close>

text \<open>\<open>binding\<close> is the validator's rule on the email and password; an answer is a status, and the tokens
  with the user id (0 when the answer does not carry it).\<close>

definition issueTokens :: "'t jwt_lib \<Rightarrow> JWTManager \<Rightarrow> int \<Rightarrow> int \<Rightarrow> int \<times> ('t \<times> 't \<times> int) option" where
  "issueTokens J m now userID =
     (case GenerateTokenPair J m now userID of
        Inl e \<Rightarrow> (500, None)
      | Inr (a, r) \<Rightarrow> (200, Some (a, r, userID)))"

definition http_Login ::
  "(string \<Rightarrow> string \<Rightarrow> bool) \<Rightarrow> 't jwt_lib \<Rightarrow> JWTManager \<Rightarrow> bcrypt \<Rightarrow> user_env \<Rightarrow> string \<Rightarrow> string \<Rightarrow> user_db
     \<Rightarrow> int \<times> ('t \<times> 't \<times> int) option" where
  "http_Login binding J m bc env email password d =
     (if \<not> binding email password then (400, None)
      else (case svc_Login bc env email password d of
              Inl e \<Rightarrow> (401, None)
            | Inr userID \<Rightarrow> issueTokens J m (ue_now env) userID))"

definition http_Signup ::
  "(string \<Rightarrow> string \<Rightarrow> bool) \<Rightarrow> 't jwt_lib \<Rightarrow> JWTManager \<Rightarrow> bcrypt \<Rightarrow> user_env \<Rightarrow> string \<Rightarrow> string \<Rightarrow> user_db
     \<Rightarrow> (int \<times> ('t \<times> 't \<times> int) option) \<times> user_db" where
  "http_Signup binding J m bc env email password d =
     (if \<not> binding email password then ((400, None), d)
      else (case handler_Signup bc env email password d of
              (Inl e, d1) \<Rightarrow> ((400, None), d1)
            | (Inr userID, d1) \<Rightarrow> (issueTokens J m (ue_now env) userID, d1)))"

definition http_Refresh :: "'t jwt_lib \<Rightarrow> JWTManager \<Rightarrow> int \<Rightarrow> 't option \<Rightarrow> int \<times> ('t \<times> 't \<times> int) option" where
  "http_Refresh J m now token =
     (case token of
        None \<Rightarrow> (400, None)
      | Some t \<Rightarrow>
          (case RefreshAccessToken J m now t of
             Inl e \<Rightarrow> (401, None)
           | Inr (a, r) \<Rightarrow> (200, Some (a, r, 0))))"

end
