(* ===== verification/UserSpec.thy ===== *)
theory UserSpec
  imports User
begin

text \<open>
  Registration and login, the updates that lock a user out, and the roles of the tokens.  What
  the code relies on of \<open>bcrypt\<close> and the JWT library is stated by \<open>bcrypt_ok\<close> and \<open>jwt_ok\<close>.
\<close>

definition bcrypt_ok :: "bcrypt \<Rightarrow> bool" where
  "bcrypt_ok bc \<longleftrightarrow> (\<forall>p. \<not> bc_check bc [] p)
     \<and> (\<forall>salt p h. bc_hash bc salt p = Some h \<longrightarrow> length h \<le> 255 \<and> (\<forall>q. bc_check bc h q \<longleftrightarrow> q = p))"

definition jwt_ok :: "'t jwt_lib \<Rightarrow> bool" where
  "jwt_ok J \<longleftrightarrow> (\<forall>s c t. jl_sign J s c = Some t \<longrightarrow>
     (\<forall>now. jl_parse J s now t = (if now < jc_ExpiresAt c then Inr c else Inl ErrTokenExpired))
     \<and> (\<forall>s' now. s' \<noteq> s \<longrightarrow> jl_parse J s' now t = Inl ErrTokenInvalid))"

section \<open>Finding rows\<close>

lemma find_append: "find P (xs @ ys) = (case find P xs of None \<Rightarrow> find P ys | Some x \<Rightarrow> Some x)"
  by (induction xs) auto

lemma find_NoneI: "(\<And>x. x \<in> set xs \<Longrightarrow> \<not> P x) \<Longrightarrow> find P xs = None"
  by (auto simp: find_None_iff)

lemma login_row:
  assumes "svc_Login bc env email password d = Inr i"
  shows "\<exists>r \<in> set (ud_rows d). live r \<and> ur_ID r = i \<and> ur_Email r = Some email \<and> bc_check bc (ur_Password r) password"
  using assms find_SomeD
  by (fastforce simp: svc_Login_def repo_FindByEmail_def user_FindByEmail_def find_live_def user_entityToDomain_def
      split: sum.splits if_splits option.splits)

text \<open>Updates write the whole row: email and password become those of the update.\<close>

lemma user_Update_rows:
  assumes "user_Update up now u d = (Inr (), d')" "r \<in> set (ud_rows d')" "live r" "ur_ID r = ur_ID u"
  shows "ur_Email r = ur_Email u \<and> ur_Password r = ur_Password u"
proof (cases "list_ex (\<lambda>r. live r \<and> ur_ID r = ur_ID u) (ud_rows d)")
  case True
  then have "d' = d\<lparr>ud_rows := update_where (\<lambda>r. live r \<and> ur_ID r = ur_ID u) (set_columns now u) (ud_rows d)\<rparr>"
    using assms(1) by (auto simp: user_Update_def Let_def split: if_splits)
  then obtain x where "x \<in> set (ud_rows d)" "r = (if live x \<and> ur_ID x = ur_ID u then set_columns now u x else x)"
    using assms(2) by (auto simp: update_where_set)
  then show ?thesis using assms(3,4) by (auto simp: set_columns_def live_def split: if_splits)
next
  case False
  then have "d' = d" using assms(1) by (auto simp: user_Update_def Let_def split: if_splits)
  then show ?thesis using False assms(2-4) by (auto simp: list_ex_iff)
qed

lemma repo_Update_rows:
  assumes "repo_Update up now u d = (Inr (), d')" "r \<in> set (ud_rows d')" "live r" "ur_ID r = u_ID u"
  shows "ur_Email r = null_string (u_Email u) \<and> ur_Password r = u_Password u"
  using user_Update_rows [OF assms(1) [unfolded repo_Update_def] assms(2,3)] assms(4)
  by (simp add: user_domainToEntity_def)

text \<open>C29: every update locks the user out.  The statement behind the three updates writes all
  columns, so after a profile, password or email change that reports success no email and
  password log in as that user any more: the first two clear the email, the third the password.\<close>

theorem user_locked_out:
  assumes "bcrypt_ok bc"
    and "handler_UpdateProfile env i username avatar d = (Inr (), d')
       \<or> svc_ChangePassword bc env i oldPassword newPassword d = (Inr (), d')
       \<or> svc_ChangeEmail bc env i oldPassword newEmail d = (Inr (), d')"
  shows "svc_Login bc env' email password d' \<noteq> Inr i"
proof
  assume l: "svc_Login bc env' email password d' = Inr i"
  obtain r where r: "r \<in> set (ud_rows d')" "live r" "ur_ID r = i" "ur_Email r = Some email"
      "bc_check bc (ur_Password r) password"
    using login_row [OF l] by blast
  have fin: "u_Email u \<noteq> [] \<and> u_Password u \<noteq> []"
    if "repo_Update up now u d = (Inr (), d')" "u_ID u = i" for up now u
    using repo_Update_rows [OF that(1) r(1,2)] that(2) r(3-5) assms(1)
    by (auto simp: null_string_def bcrypt_ok_def split: if_splits)
  show False using assms(2)
  proof (elim disjE)
    assume "handler_UpdateProfile env i username avatar d = (Inr (), d')"
    then show False using fin
      by (auto simp: handler_UpdateProfile_def svc_UpdateProfile_def Let_def empty_user_def split: option.splits)
         (fastforce dest: fin)+
  next
    assume "svc_ChangePassword bc env i oldPassword newPassword d = (Inr (), d')"
    then show False
      by (auto simp: svc_ChangePassword_def empty_user_def split: sum.splits if_splits option.splits dest!: fin)
  next
    assume "svc_ChangeEmail bc env i oldPassword newEmail d = (Inr (), d')"
    then show False
      by (auto simp: svc_ChangeEmail_def empty_user_def split: sum.splits if_splits option.splits dest!: fin)
  qed
qed

text \<open>C30: registering is the inverse of logging in.  After a successful registration exactly the
  registered password logs in under the email, as the new user, and the email cannot be
  registered again.\<close>

theorem signup_login:
  assumes "bcrypt_ok bc" "email \<noteq> []" "handler_Signup bc env email password d = (Inr i, d')" "ue_up env' 0"
  shows "svc_Login bc env' email q d' = (if q = password then Inr i else Inl ErrInvalidUserOrPassword)
     \<and> \<not> is_ok (fst (handler_Signup bc env'' email p d'))"
proof -
  obtain h where h: "bc_hash bc (ue_salt env) password = Some h"
    using assms(3) by (auto simp: handler_Signup_def svc_Signup_def empty_user_def split: option.splits)
  define r where "r = (user_domainToEntity ((empty_user 0)\<lparr>u_Email := email, u_Password := h\<rparr>))
      \<lparr>ur_ID := ud_next d, ur_CreatedAt := ue_now env, ur_UpdatedAt := ue_now env\<rparr>"
  have re: "ur_Email r = Some email" "ur_Password r = h" "live r" "ur_ID r = ud_next d"
    using assms(2) by (simp_all add: r_def user_domainToEntity_def null_string_def live_def empty_user_def)
  have ins: "user_Insert (ue_up env 0) (ue_now env) (user_domainToEntity ((empty_user 0)\<lparr>u_Email := email, u_Password := h\<rparr>)) d
      = (Inr i, d')"
    using assms(3) h by (simp add: handler_Signup_def svc_Signup_def repo_Create_def empty_user_def)
  then have d': "d' = d\<lparr>ud_rows := ud_rows d @ [r], ud_next := ud_next d + 1\<rparr>" "i = ud_next d"
      and c: "\<not> list_ex (clashes r) (ud_rows d)"
    unfolding user_Insert_def Let_def r_def [symmetric] by (auto split: if_splits)
  have "find (\<lambda>x. live x \<and> ur_Email x = Some email) (ud_rows d) = None"
    using c re(1) by (intro find_NoneI) (auto simp: list_ex_iff clashes_def)
  then have f: "user_FindByEmail True email d' = Inr r"
    using re by (simp add: user_FindByEmail_def find_live_def d'(1) find_append)
  have "bc_check bc h q \<longleftrightarrow> q = password" using assms(1) h by (auto simp: bcrypt_ok_def)
  then have login: "svc_Login bc env' email q d' = (if q = password then Inr i else Inl ErrInvalidUserOrPassword)"
    using f re assms(4) d'(2) by (simp add: svc_Login_def repo_FindByEmail_def user_entityToDomain_def)
  have "list_ex (clashes x) (ud_rows d')" if "ur_Email x = Some email" for x
    using that re(1) by (simp add: d'(1) clashes_def)
  then have "\<not> is_ok (fst (handler_Signup bc env'' email p d'))"
    using assms(2)
    by (auto simp: handler_Signup_def svc_Signup_def repo_Create_def user_Insert_def Let_def user_domainToEntity_def
        null_string_def empty_user_def split: option.splits)
  then show ?thesis using login by blast
qed

text \<open>Tokens keep their role.  The access token of a pair is accepted as such until it
  expires and names the user; as a refresh token it is refused at all times, and the refresh
  token likewise, whether or not the two secrets differ; and a refresh within its time issues a
  new pair for the same user.\<close>

theorem token_roles:
  assumes "jwt_ok J" "GenerateTokenPair J m now userID = Inr (a, r)"
  shows "ParseAccessToken J m t a
       = (if t < now + jm_accessExpiry m
          then Inr \<lparr>jc_UserID = userID, jc_Type = AccessToken, jc_ExpiresAt = now + jm_accessExpiry m, jc_IssuedAt = now\<rparr>
          else Inl ErrTokenExpired)
     \<and> \<not> is_ok (ParseRefreshToken J m t a) \<and> \<not> is_ok (ParseAccessToken J m t r)
     \<and> RefreshAccessToken J m t r
       = (if t < now + jm_refreshExpiry m then GenerateTokenPair J m t userID else Inl ErrTokenExpired)"
proof -
  let ?ca = "\<lparr>jc_UserID = userID, jc_Type = AccessToken, jc_ExpiresAt = now + jm_accessExpiry m, jc_IssuedAt = now\<rparr>"
  let ?cr = "\<lparr>jc_UserID = userID, jc_Type = RefreshToken, jc_ExpiresAt = now + jm_refreshExpiry m, jc_IssuedAt = now\<rparr>"
  have s: "jl_sign J (jm_accessSecret m) ?ca = Some a" "jl_sign J (jm_refreshSecret m) ?cr = Some r"
    using assms(2) by (auto simp: GenerateTokenPair_def generateToken_def split: sum.splits option.splits)
  have pa: "jl_parse J (jm_accessSecret m) u a = (if u < now + jm_accessExpiry m then Inr ?ca else Inl ErrTokenExpired)"
      "jm_refreshSecret m \<noteq> jm_accessSecret m \<Longrightarrow> jl_parse J (jm_refreshSecret m) u a = Inl ErrTokenInvalid" for u
    using assms(1) s(1) unfolding jwt_ok_def by (force, blast)
  have pr: "jl_parse J (jm_refreshSecret m) u r = (if u < now + jm_refreshExpiry m then Inr ?cr else Inl ErrTokenExpired)"
      "jm_refreshSecret m \<noteq> jm_accessSecret m \<Longrightarrow> jl_parse J (jm_accessSecret m) u r = Inl ErrTokenInvalid" for u
    using assms(1) s(2) unfolding jwt_ok_def by (force, metis)
  show ?thesis
    using pa pr
    by (cases "jm_refreshSecret m = jm_accessSecret m")
       (auto simp: ParseAccessToken_def ParseRefreshToken_def parseToken_def RefreshAccessToken_def)
qed


section \<open>The header decides\<close>

text \<open>A client that sends \<open>X-User-ID\<close> is that user, whatever token it sends or does not send.\<close>

lemma header_beats_token:
  assumes "gr_user c = None" "gr_claims c = None" "gr_header c = format_int n" "0 < n" "in64 n"
  shows "RequireGatewayUser J now c = Inr (c\<lparr>gr_user := Some n\<rparr>)"
proof -
  have "format_int n \<noteq> []" using assms(4) by (simp add: format_int_def)
  then have "parsePositiveInt64 (format_int n) = n"
    using parse_format_int [OF assms(5)] assms(4) by (simp add: parsePositiveInt64_def)
  then show ?thesis using assms by (simp add: RequireGatewayUser_def GatewayUserID_def)
qed

section \<open>Witnesses\<close>

definition toy_bcrypt :: bcrypt where
  "toy_bcrypt = \<lparr>bc_hash = (\<lambda>_ p. if length p \<le> 72 then Some (CHR ''h'' # p) else None),
     bc_check = (\<lambda>h p. h = CHR ''h'' # p)\<rparr>"

definition toy_jwt :: "(string \<times> jwt_claims) jwt_lib" where
  "toy_jwt = \<lparr>jl_sign = (\<lambda>s c. Some (s, c)),
     jl_parse = (\<lambda>s now t. if fst t \<noteq> s then Inl ErrTokenInvalid
        else if now < jc_ExpiresAt (snd t) then Inr (snd t) else Inl ErrTokenExpired)\<rparr>"

lemma toy_bcrypt_ok: "bcrypt_ok toy_bcrypt"
  by (auto simp: bcrypt_ok_def toy_bcrypt_def)

lemma toy_jwt_ok: "jwt_ok toy_jwt"
  by (simp add: jwt_ok_def toy_jwt_def)

definition ex_uenv :: user_env where
  "ex_uenv = \<lparr>ue_now = 1700000000, ue_salt = 0, ue_up = (\<lambda>_. True)\<rparr>"

definition ex_users :: user_db where
  "ex_users = snd (handler_Signup toy_bcrypt ex_uenv ''a@b.cn'' ''secret'' \<lparr>ud_rows = [], ud_next = 1\<rparr>)"

lemma ex_signup: "handler_Signup toy_bcrypt ex_uenv ''a@b.cn'' ''secret'' \<lparr>ud_rows = [], ud_next = 1\<rparr> = (Inr 1, ex_users)"
  unfolding ex_users_def by code_simp

definition ex_changed :: user_db where
  "ex_changed = snd (svc_ChangePassword toy_bcrypt ex_uenv 1 ''secret'' ''better'' ex_users)"

lemma ex_change: "svc_ChangePassword toy_bcrypt ex_uenv 1 ''secret'' ''better'' ex_users = (Inr (), ex_changed)"
  unfolding ex_changed_def by code_simp

theorem user_locked_out_witness:
  "svc_Login toy_bcrypt ex_uenv ''a@b.cn'' ''better'' ex_changed \<noteq> Inr 1"
  using user_locked_out [OF toy_bcrypt_ok, of ex_uenv 1 _ _ ex_users ex_changed] ex_change by blast

theorem signup_login_witness:
  "svc_Login toy_bcrypt ex_uenv ''a@b.cn'' ''secret'' ex_users = Inr 1
   \<and> svc_Login toy_bcrypt ex_uenv ''a@b.cn'' ''guess'' ex_users = Inl ErrInvalidUserOrPassword"
  using signup_login [OF toy_bcrypt_ok _ ex_signup, of ex_uenv] by (simp add: ex_uenv_def)

definition ex_manager :: JWTManager where
  "ex_manager = \<lparr>jm_accessSecret = ''k'', jm_refreshSecret = ''k'', jm_accessExpiry = 7200, jm_refreshExpiry = 604800\<rparr>"

theorem token_roles_witness:
  "\<exists>a r. GenerateTokenPair toy_jwt ex_manager 1000 42 = Inr (a, r)
     \<and> ParseAccessToken toy_jwt ex_manager 1500 a
       = Inr \<lparr>jc_UserID = 42, jc_Type = AccessToken, jc_ExpiresAt = 8200, jc_IssuedAt = 1000\<rparr>
     \<and> \<not> is_ok (ParseAccessToken toy_jwt ex_manager 1500 r)"
proof -
  obtain a r where g: "GenerateTokenPair toy_jwt ex_manager 1000 42 = Inr (a, r)"
    by (simp add: GenerateTokenPair_def generateToken_def toy_jwt_def)
  show ?thesis using token_roles [OF toy_jwt_ok g, of 1500] g by (simp add: ex_manager_def)
qed

end
