(* ===== verification/Product.thy ===== *)
theory Product
  imports Prelude
begin

text \<open>
  The product service (\<open>internal/product\<close>): the tables of products and of their SKUs, both with soft
  deletion, the Redis caches of lists, of basic details and of prices, the cache-aside repository, the
  service and its handlers.  The three families of Redis keys do not meet, so each is a map of its own;
  a cached JSON value is the value it spells, a JSON column likewise, and the clock counts seconds.
\<close>

section \<open>Domain\<close>

record Product =
  p_ID :: int
  p_SKUID :: int
  p_Name :: string
  p_Description :: string
  p_Picture :: string
  p_SlideImgs :: "string list"
  p_Price :: int
  p_Currency :: string
  p_Categories :: "string list"
  p_InStock :: bool
  p_MerchantID :: int
  p_MerchantName :: string

definition empty_product :: Product where
  "empty_product = \<lparr>p_ID = 0, p_SKUID = 0, p_Name = [], p_Description = [], p_Picture = [], p_SlideImgs = [],
     p_Price = 0, p_Currency = [], p_Categories = [], p_InStock = False, p_MerchantID = 0, p_MerchantName = []\<rparr>"

record ProductQuery =
  q_ID :: int
  q_SKUID :: int

record CatalogQuote =
  cq_ProductID :: int
  cq_SKUID :: int
  cq_Price :: int
  cq_Currency :: string
  cq_InStock :: bool

record PriceInStock =
  pi_SKUID :: int
  pi_Price :: int
  pi_Currency :: string
  pi_InStock :: bool

datatype product_err =
    ProductNotFound | NotFoundFor ProductQuery | ProductDown | ProductTooLong | ProductDuplicate
  | BadColumn | BadCategory | DowngradeMiss | ProductInvalid string | SensitiveWords

definition normalizeCurrency :: "string \<Rightarrow> string" where
  "normalizeCurrency c = (if c = [] then ''CNY'' else c)"

section \<open>Tables\<close>

text \<open>A JSON column is NULL, the text \<open>null\<close>, a list of strings, or any other JSON; of the latter only the
  strings \<open>JSON_CONTAINS\<close> finds in it matter.\<close>

datatype JsonCol = JsonEmpty | JsonNull | JsonStrings "string list" | JsonOther "string list"

fun json_contains :: "string \<Rightarrow> JsonCol \<Rightarrow> bool" where
  "json_contains s (JsonStrings xs) = (s \<in> set xs)"
| "json_contains s (JsonOther xs) = (s \<in> set xs)"
| "json_contains s _ = False"

record ProductRow =
  rw_ID :: int
  rw_CreatedAt :: int
  rw_UpdatedAt :: int
  rw_DeletedAt :: "int option"
  rw_Name :: string
  rw_Price :: int
  rw_Currency :: string
  rw_InStock :: bool
  rw_MerchantID :: int
  rw_Description :: "string option"
  rw_Picture :: "string option"
  rw_SlideImgs :: JsonCol
  rw_Categories :: JsonCol
  rw_MerchantName :: "string option"

record ProductSKU =
  sk_ProductID :: int
  sk_SKUID :: int
  sk_Price :: int
  sk_Currency :: string
  sk_InStock :: bool
  sk_CreatedAt :: int
  sk_UpdatedAt :: int
  sk_DeletedAt :: "int option"

record product_db =
  pt_rows :: "ProductRow list"
  pt_skus :: "ProductSKU list"
  pt_next :: int

definition live_product :: "ProductRow \<Rightarrow> bool" where
  "live_product r \<longleftrightarrow> rw_DeletedAt r = None"

definition live_sku :: "ProductSKU \<Rightarrow> bool" where
  "live_sku s \<longleftrightarrow> sk_DeletedAt s = None"

definition opt_text :: "string option \<Rightarrow> string" where
  "opt_text s = (case s of None \<Rightarrow> [] | Some x \<Rightarrow> x)"

definition row_fits :: "ProductRow \<Rightarrow> bool" where
  "row_fits r \<longleftrightarrow> utf8_length (rw_Name r) \<le> 255 \<and> utf8_length (rw_Currency r) \<le> 16
     \<and> utf8_length (opt_text (rw_Picture r)) \<le> 512 \<and> utf8_length (opt_text (rw_MerchantName r)) \<le> 255
     \<and> length (opt_text (rw_Description r)) \<le> 65535"

text \<open>\<open>Create\<close> does not save a zero value in a column that has a default: the default is stored.\<close>

definition gorm_default :: "'a \<Rightarrow> 'a \<Rightarrow> 'a \<Rightarrow> 'a" where
  "gorm_default dflt zero v = (if v = zero then dflt else v)"

text \<open>\<open>up\<close>: the statement reaches the database.  A category is put between quotes as it is, and
  \<open>txt\<close> is what MySQL reads that text as.\<close>

definition dao_ListProducts ::
  "bool \<Rightarrow> (string \<Rightarrow> string option) \<Rightarrow> int \<Rightarrow> int \<Rightarrow> string \<Rightarrow> product_db \<Rightarrow> product_err + ProductRow list" where
  "dao_ListProducts up txt page pageSize category d =
     (let rows = filter (\<lambda>r. live_product r \<and> rw_InStock r) (pt_rows d);
          cut = (\<lambda>rs. take (nat pageSize) (drop (nat (wrap64 (wrap64 (page - 1) * pageSize))) rs)) in
      if \<not> up then Inl ProductDown
      else if category = [] then Inr (cut rows)
      else (case txt category of
              None \<Rightarrow> Inl BadCategory
            | Some c \<Rightarrow> Inr (cut (filter (\<lambda>r. json_contains c (rw_Categories r)) rows))))"

definition dao_FindByID :: "bool \<Rightarrow> int \<Rightarrow> product_db \<Rightarrow> product_err + ProductRow" where
  "dao_FindByID up i d =
     (if \<not> up then Inl ProductDown
      else (case find (\<lambda>r. live_product r \<and> rw_ID r = i) (pt_rows d) of
              None \<Rightarrow> Inl ProductNotFound | Some r \<Rightarrow> Inr r))"

definition dao_FindByIDs :: "bool \<Rightarrow> int list \<Rightarrow> product_db \<Rightarrow> product_err + ProductRow list" where
  "dao_FindByIDs up ids d =
     (if ids = [] then Inr []
      else if \<not> up then Inl ProductDown
      else Inr (filter (\<lambda>r. live_product r \<and> rw_ID r \<in> set ids) (pt_rows d)))"

definition dao_FindPriceInStock :: "bool \<Rightarrow> ProductQuery \<Rightarrow> product_db \<Rightarrow> product_err + int \<times> string \<times> bool" where
  "dao_FindPriceInStock up q d =
     (if \<not> up then Inl ProductDown
      else if 0 < q_SKUID q then
        (case find (\<lambda>s. live_sku s \<and> sk_ProductID s = q_ID q \<and> sk_SKUID s = q_SKUID q) (pt_skus d) of
           None \<Rightarrow> Inl ProductNotFound
         | Some s \<Rightarrow> Inr (sk_Price s, normalizeCurrency (sk_Currency s), sk_InStock s))
      else
        (case find (\<lambda>r. live_product r \<and> rw_ID r = q_ID q) (pt_rows d) of
           None \<Rightarrow> Inl ProductNotFound
         | Some r \<Rightarrow> Inr (rw_Price r, normalizeCurrency (rw_Currency r), rw_InStock r)))"

definition wanted :: "ProductQuery list \<Rightarrow> int \<Rightarrow> int \<Rightarrow> bool" where
  "wanted qs i k \<longleftrightarrow> list_ex (\<lambda>q. 0 < q_ID q \<and> 0 < q_SKUID q \<and> q_ID q = i \<and> q_SKUID q = k) qs"

definition dao_FindPriceInStocks :: "bool \<Rightarrow> ProductQuery list \<Rightarrow> product_db \<Rightarrow> product_err + ProductSKU list" where
  "dao_FindPriceInStocks up qs d =
     (if \<not> list_ex (\<lambda>q. 0 < q_ID q \<and> 0 < q_SKUID q) qs then Inr []
      else if \<not> up then Inl ProductDown
      else Inr (filter (\<lambda>s. live_sku s \<and> wanted qs (sk_ProductID s) (sk_SKUID s)) (pt_skus d)))"

text \<open>The quote query names the SKU table itself, so no filter on its soft deletion is added.\<close>

definition dao_FindQuotes :: "bool \<Rightarrow> ProductQuery list \<Rightarrow> product_db \<Rightarrow> product_err + CatalogQuote list" where
  "dao_FindQuotes up qs d =
     (if \<not> list_ex (\<lambda>q. 0 < q_ID q \<and> 0 < q_SKUID q) qs then Inr []
      else if \<not> up then Inl ProductDown
      else Inr (concat (map (\<lambda>s. map (\<lambda>p. \<lparr>cq_ProductID = sk_ProductID s, cq_SKUID = sk_SKUID s, cq_Price = sk_Price s,
                                             cq_Currency = sk_Currency s, cq_InStock = sk_InStock s \<and> rw_InStock p\<rparr>)
                 (filter (\<lambda>p. rw_ID p = sk_ProductID s \<and> live_product p) (pt_rows d)))
               (filter (\<lambda>s. wanted qs (sk_ProductID s) (sk_SKUID s)) (pt_skus d)))))"

definition dao_Insert :: "bool \<Rightarrow> int \<Rightarrow> ProductRow \<Rightarrow> product_db \<Rightarrow> (product_err + int) \<times> product_db" where
  "dao_Insert up now r d =
     (let i = (if rw_ID r = 0 then pt_next d else rw_ID r);
          r' = r\<lparr>rw_ID := i, rw_CreatedAt := now, rw_UpdatedAt := now, rw_Currency := normalizeCurrency (rw_Currency r),
                 rw_InStock := gorm_default True False (rw_InStock r)\<rparr> in
      if \<not> up then (Inl ProductDown, d)
      else if \<not> row_fits r' then (Inl ProductTooLong, d)
      else if list_ex (\<lambda>x. rw_ID x = i) (pt_rows d) then (Inl ProductDuplicate, d)
      else (Inr i, d\<lparr>pt_rows := pt_rows d @ [r'], pt_next := max (pt_next d) (i + 1)\<rparr>))"

definition set_product :: "int \<Rightarrow> ProductRow \<Rightarrow> ProductRow \<Rightarrow> ProductRow" where
  "set_product now u r = r\<lparr>rw_Name := rw_Name u, rw_Price := rw_Price u, rw_Currency := normalizeCurrency (rw_Currency u),
     rw_InStock := rw_InStock u, rw_MerchantID := rw_MerchantID u, rw_MerchantName := rw_MerchantName u,
     rw_Description := rw_Description u, rw_Picture := rw_Picture u, rw_SlideImgs := rw_SlideImgs u,
     rw_Categories := rw_Categories u, rw_UpdatedAt := now\<rparr>"

definition dao_Update :: "bool \<Rightarrow> int \<Rightarrow> ProductRow \<Rightarrow> product_db \<Rightarrow> (product_err + unit) \<times> product_db" where
  "dao_Update up now u d =
     (let hit = (\<lambda>r. live_product r \<and> rw_ID r = rw_ID u) in
      if \<not> up then (Inl ProductDown, d)
      else if list_ex hit (pt_rows d) \<and> \<not> row_fits u then (Inl ProductTooLong, d)
      else (Inr (), d\<lparr>pt_rows := update_where hit (set_product now u) (pt_rows d)\<rparr>))"

definition dao_Delete :: "bool \<Rightarrow> int \<Rightarrow> int \<Rightarrow> int \<Rightarrow> product_db \<Rightarrow> (product_err + unit) \<times> product_db" where
  "dao_Delete up now i user d =
     (if \<not> up then (Inl ProductDown, d)
      else (Inr (), d\<lparr>pt_rows := update_where (\<lambda>r. live_product r \<and> rw_ID r = i \<and> rw_MerchantID r = user)
              (rw_DeletedAt_update (\<lambda>_. Some now)) (pt_rows d)\<rparr>))"

text \<open>The unique index on product and SKU ranges over deleted rows too.\<close>

definition dao_UpsertSKU :: "bool \<Rightarrow> int \<Rightarrow> ProductSKU \<Rightarrow> product_db \<Rightarrow> (product_err + unit) \<times> product_db" where
  "dao_UpsertSKU up now s d =
     (let s' = s\<lparr>sk_Currency := normalizeCurrency (sk_Currency s), sk_InStock := gorm_default True False (sk_InStock s),
                 sk_CreatedAt := now, sk_UpdatedAt := now\<rparr>;
          same = (\<lambda>x. sk_ProductID x = sk_ProductID s \<and> sk_SKUID x = sk_SKUID s) in
      if sk_ProductID s \<le> 0 \<or> sk_SKUID s \<le> 0 then (Inr (), d)
      else if \<not> up then (Inl ProductDown, d)
      else if 16 < utf8_length (sk_Currency s') then (Inl ProductTooLong, d)
      else if list_ex same (pt_skus d) then
        (Inr (), d\<lparr>pt_skus := update_where same
           (\<lambda>x. x\<lparr>sk_Price := sk_Price s', sk_Currency := sk_Currency s', sk_InStock := sk_InStock s',
                   sk_UpdatedAt := sk_UpdatedAt s'\<rparr>) (pt_skus d)\<rparr>)
      else (Inr (), d\<lparr>pt_skus := pt_skus d @ [s'\<lparr>sk_DeletedAt := None\<rparr>]\<rparr>))"

definition dao_DeleteSKUsByProductID :: "bool \<Rightarrow> int \<Rightarrow> int \<Rightarrow> product_db \<Rightarrow> (product_err + unit) \<times> product_db" where
  "dao_DeleteSKUsByProductID up now i d =
     (if \<not> up then (Inl ProductDown, d)
      else (Inr (), d\<lparr>pt_skus := update_where (\<lambda>s. live_sku s \<and> sk_ProductID s = i)
              (sk_DeletedAt_update (\<lambda>_. Some now)) (pt_skus d)\<rparr>))"

section \<open>Redis\<close>

record product_cache =
  pc_lists :: "string \<times> int \<times> int \<Rightarrow> (Product list \<times> int) option"
  pc_basic :: "int \<Rightarrow> (Product \<times> int) option"
  pc_price :: "int \<times> int \<Rightarrow> (PriceInStock \<times> int) option"

record product_svc =
  pvs_db :: product_db
  pvs_cache :: product_cache

text \<open>What a call meets: the clock, the downgrade flag of its context, what MySQL reads a quoted text as, and
  which of its statements and Redis commands succeed.\<close>

record product_env =
  pe_now :: int
  pe_downgrade :: bool
  pe_text :: "string \<Rightarrow> string option"
  pe_db :: "nat \<Rightarrow> bool"
  pe_redis :: "nat \<Rightarrow> bool"

definition cache_Get :: "bool \<Rightarrow> int \<Rightarrow> ('v \<times> int) option \<Rightarrow> 'v option" where
  "cache_Get up now x = (case x of None \<Rightarrow> None | Some (v, e) \<Rightarrow> if up \<and> now < e then Some v else None)"

definition cache_GetTTL :: "bool \<Rightarrow> int \<Rightarrow> ('v \<times> int) option \<Rightarrow> int option" where
  "cache_GetTTL up now x =
     (if \<not> up then None
      else Some (case x of None \<Rightarrow> - 2 | Some (v, e) \<Rightarrow> if now < e then e - now else - 2))"

definition cache_SetWithTTL :: "bool \<Rightarrow> int \<Rightarrow> 'k \<Rightarrow> 'v \<Rightarrow> int \<Rightarrow> ('k \<Rightarrow> ('v \<times> int) option) \<Rightarrow> 'k \<Rightarrow> ('v \<times> int) option" where
  "cache_SetWithTTL up now k v ttl m = (if up then m(k \<mapsto> (v, now + ttl)) else m)"

definition cache_Delete :: "bool \<Rightarrow> 'k \<Rightarrow> ('k \<Rightarrow> 'v option) \<Rightarrow> 'k \<Rightarrow> 'v option" where
  "cache_Delete up k m = (if up then m(k := None) else m)"

definition cache_BatchSetWithTTL ::
  "bool \<Rightarrow> int \<Rightarrow> ('k \<times> 'v \<times> int) list \<Rightarrow> ('k \<Rightarrow> ('v \<times> int) option) \<Rightarrow> 'k \<Rightarrow> ('v \<times> int) option" where
  "cache_BatchSetWithTTL up now items m =
     (if up then fold (\<lambda>(k, v, ttl) m. m(k \<mapsto> (v, now + ttl))) items m else m)"

definition listCacheTTL :: int where "listCacheTTL = 180"
definition detailBasicTTL :: int where "detailBasicTTL = 1800"
definition detailPriceStockTTL :: int where "detailPriceStockTTL = 60"
definition preloadTTL :: int where "preloadTTL = 120"

section \<open>Repository\<close>

definition null_text :: "string \<Rightarrow> string option" where
  "null_text s = (if s = [] then None else Some s)"

definition product_domainToEntity :: "Product \<Rightarrow> ProductRow" where
  "product_domainToEntity p =
     \<lparr>rw_ID = p_ID p, rw_CreatedAt = 0, rw_UpdatedAt = 0, rw_DeletedAt = None, rw_Name = p_Name p, rw_Price = p_Price p,
      rw_Currency = normalizeCurrency (p_Currency p), rw_InStock = p_InStock p, rw_MerchantID = p_MerchantID p,
      rw_Description = null_text (p_Description p), rw_Picture = null_text (p_Picture p),
      rw_SlideImgs = JsonStrings (p_SlideImgs p), rw_Categories = JsonStrings (p_Categories p),
      rw_MerchantName = null_text (p_MerchantName p)\<rparr>"

definition product_domainToSKU :: "Product \<Rightarrow> ProductSKU" where
  "product_domainToSKU p =
     \<lparr>sk_ProductID = p_ID p, sk_SKUID = p_SKUID p, sk_Price = p_Price p, sk_Currency = normalizeCurrency (p_Currency p),
      sk_InStock = p_InStock p, sk_CreatedAt = 0, sk_UpdatedAt = 0, sk_DeletedAt = None\<rparr>"

fun unmarshal_col :: "JsonCol \<Rightarrow> string list option" where
  "unmarshal_col JsonEmpty = Some []"
| "unmarshal_col JsonNull = Some []"
| "unmarshal_col (JsonStrings xs) = Some xs"
| "unmarshal_col (JsonOther _) = None"

definition product_entityToDomain :: "ProductRow \<Rightarrow> product_err + Product" where
  "product_entityToDomain r =
     (case unmarshal_col (rw_SlideImgs r) of
        None \<Rightarrow> Inl BadColumn
      | Some imgs \<Rightarrow>
          (case unmarshal_col (rw_Categories r) of
             None \<Rightarrow> Inl BadColumn
           | Some cats \<Rightarrow> Inr \<lparr>p_ID = rw_ID r, p_SKUID = 0, p_Name = rw_Name r, p_Description = opt_text (rw_Description r),
                 p_Picture = opt_text (rw_Picture r), p_SlideImgs = imgs, p_Price = rw_Price r,
                 p_Currency = normalizeCurrency (rw_Currency r), p_Categories = cats, p_InStock = rw_InStock r,
                 p_MerchantID = rw_MerchantID r, p_MerchantName = opt_text (rw_MerchantName r)\<rparr>))"

definition mergeProductPriceStock :: "Product \<Rightarrow> PriceInStock \<Rightarrow> Product" where
  "mergeProductPriceStock p i = p\<lparr>p_SKUID := pi_SKUID i, p_Price := pi_Price i,
     p_Currency := normalizeCurrency (pi_Currency i), p_InStock := pi_InStock i\<rparr>"

definition basicProduct :: "Product \<Rightarrow> Product" where
  "basicProduct p = empty_product\<lparr>p_ID := p_ID p, p_Name := p_Name p, p_Description := p_Description p,
     p_Picture := p_Picture p, p_SlideImgs := p_SlideImgs p, p_Categories := p_Categories p,
     p_MerchantID := p_MerchantID p, p_MerchantName := p_MerchantName p\<rparr>"

definition productToPriceStock :: "Product \<Rightarrow> PriceInStock" where
  "productToPriceStock p = \<lparr>pi_SKUID = p_SKUID p, pi_Price = p_Price p,
     pi_Currency = normalizeCurrency (p_Currency p), pi_InStock = p_InStock p\<rparr>"

definition cacheProductBasicDetail :: "bool \<Rightarrow> int \<Rightarrow> Product \<Rightarrow> int \<Rightarrow> product_cache \<Rightarrow> product_cache" where
  "cacheProductBasicDetail up now p ttl c = c\<lparr>pc_basic := cache_SetWithTTL up now (p_ID p) (basicProduct p) ttl (pc_basic c)\<rparr>"

definition cachePriceStock :: "bool \<Rightarrow> int \<Rightarrow> int \<times> int \<Rightarrow> PriceInStock \<Rightarrow> int \<Rightarrow> product_cache \<Rightarrow> product_cache" where
  "cachePriceStock up now k i ttl c = c\<lparr>pc_price := cache_SetWithTTL up now k i ttl (pc_price c)\<rparr>"

definition deleteProductBasicCache :: "bool \<Rightarrow> int \<Rightarrow> product_cache \<Rightarrow> product_cache" where
  "deleteProductBasicCache up i c = c\<lparr>pc_basic := cache_Delete up i (pc_basic c)\<rparr>"

definition deleteProductCache :: "bool \<Rightarrow> bool \<Rightarrow> ProductQuery \<Rightarrow> product_cache \<Rightarrow> product_cache" where
  "deleteProductCache up1 up2 q c =
     (let c' = deleteProductBasicCache up1 (q_ID q) c in
      if 0 < q_SKUID q then c'\<lparr>pc_price := cache_Delete up2 (q_ID q, q_SKUID q) (pc_price c')\<rparr> else c')"

text \<open>The goroutine of an update or a deletion, a second later.\<close>

definition delayedDelete :: "product_env \<Rightarrow> ProductQuery \<Rightarrow> product_svc \<Rightarrow> product_svc" where
  "delayedDelete env q s = s\<lparr>pvs_cache := deleteProductCache (pe_redis env 0) (pe_redis env 1) q (pvs_cache s)\<rparr>"

fun load_list :: "ProductRow list \<Rightarrow> Product list" where
  "load_list [] = []"
| "load_list (r # rs) = (case product_entityToDomain r of Inl _ \<Rightarrow> load_list rs | Inr p \<Rightarrow> p # load_list rs)"

definition loadProductList :: "product_env \<Rightarrow> int \<Rightarrow> int \<Rightarrow> string \<Rightarrow> product_db \<Rightarrow> product_err + Product list" where
  "loadProductList env page pageSize category d =
     map_sum (\<lambda>e. e) load_list (dao_ListProducts (pe_db env 0) (pe_text env) page pageSize category d)"

text \<open>The second component of the result is what the preloading goroutine gets; for an empty list none starts.\<close>

definition repo_ListProducts :: "product_env \<Rightarrow> int \<Rightarrow> int \<Rightarrow> string \<Rightarrow> product_svc
    \<Rightarrow> ((product_err + Product list) \<times> Product list) \<times> product_svc" where
  "repo_ListProducts env page pageSize category s =
     (if page \<le> 3 then
        (let k = (category, page, pageSize); c = pvs_cache s in
         case cache_Get (pe_redis env 0) (pe_now env) (pc_lists c k) of
           Some ps \<Rightarrow> ((Inr ps, ps), s)
         | None \<Rightarrow>
             (case loadProductList env page pageSize category (pvs_db s) of
                Inl e \<Rightarrow> ((Inl e, []), s)
              | Inr ps \<Rightarrow> ((Inr ps, ps), s\<lparr>pvs_cache := c\<lparr>pc_lists :=
                  cache_SetWithTTL (pe_redis env 1) (pe_now env) k ps listCacheTTL (pc_lists c)\<rparr>\<rparr>)))
      else ((loadProductList env page pageSize category (pvs_db s), []), s))"

definition shouldRefresh :: "bool \<Rightarrow> bool \<Rightarrow> int \<Rightarrow> ('v \<times> int) option \<Rightarrow> int \<Rightarrow> bool" where
  "shouldRefresh up1 up2 now x minTTL =
     (case cache_Get up1 now x of
        None \<Rightarrow> True
      | Some _ \<Rightarrow> (case cache_GetTTL up2 now x of None \<Rightarrow> True | Some ttl \<Rightarrow> ttl \<le> minTTL))"

fun preload_items :: "product_env \<Rightarrow> nat \<Rightarrow> Product list \<Rightarrow> product_cache \<Rightarrow> (int \<times> Product \<times> int) list" where
  "preload_items env i [] c = []"
| "preload_items env i (p # ps) c =
     (if shouldRefresh (pe_redis env (2 * i)) (pe_redis env (2 * i + 1)) (pe_now env) (pc_basic c (p_ID p)) 60
      then (p_ID p, basicProduct p, preloadTTL) # preload_items env (i + 1) ps c
      else preload_items env (i + 1) ps c)"

definition preloadProductBasics :: "product_env \<Rightarrow> Product list \<Rightarrow> product_svc \<Rightarrow> product_svc" where
  "preloadProductBasics env ps s =
     (let c = pvs_cache s; items = preload_items env 0 (take 3 ps) c in
      if items = [] then s
      else s\<lparr>pvs_cache := c\<lparr>pc_basic := cache_BatchSetWithTTL (pe_redis env 6) (pe_now env) items (pc_basic c)\<rparr>\<rparr>)"

definition readProductCache :: "bool \<Rightarrow> bool \<Rightarrow> int \<Rightarrow> ProductQuery \<Rightarrow> product_cache \<Rightarrow> Product option \<times> PriceInStock option" where
  "readProductCache up1 up2 now q c =
     (cache_Get up1 now (pc_basic c (q_ID q)), cache_Get up2 now (pc_price c (q_ID q, q_SKUID q)))"

definition loadAndCachePriceStock ::
  "product_env \<Rightarrow> ProductQuery \<Rightarrow> product_svc \<Rightarrow> (product_err + PriceInStock) \<times> product_svc" where
  "loadAndCachePriceStock env q s =
     (case dao_FindPriceInStock (pe_db env 1) q (pvs_db s) of
        Inl e \<Rightarrow> (Inl e, s)
      | Inr (price, currency, inStock) \<Rightarrow>
          (let i = \<lparr>pi_SKUID = q_SKUID q, pi_Price = price, pi_Currency = normalizeCurrency currency, pi_InStock = inStock\<rparr> in
           (Inr i, s\<lparr>pvs_cache := cachePriceStock (pe_redis env 5) (pe_now env) (q_ID q, q_SKUID q) i detailPriceStockTTL (pvs_cache s)\<rparr>)))"

definition resolveSingleProduct :: "product_env \<Rightarrow> ProductQuery \<Rightarrow> Product option \<times> PriceInStock option
    \<Rightarrow> product_svc \<Rightarrow> (product_err + Product) \<times> product_svc" where
  "resolveSingleProduct env q cached s =
     (let basic = (case fst cached of
           Some b \<Rightarrow> (Inr b, s)
         | None \<Rightarrow> (case dao_FindByID (pe_db env 0) (q_ID q) (pvs_db s) of
               Inl e \<Rightarrow> (Inl e, s)
             | Inr r \<Rightarrow> (case product_entityToDomain r of
                   Inl e \<Rightarrow> (Inl e, s)
                 | Inr p \<Rightarrow> (Inr p, s\<lparr>pvs_cache := cacheProductBasicDetail (pe_redis env 4) (pe_now env) p detailBasicTTL (pvs_cache s)\<rparr>)))) in
      case basic of
        (Inl e, s1) \<Rightarrow> (Inl e, s1)
      | (Inr b, s1) \<Rightarrow>
          (case (case snd cached of Some i \<Rightarrow> (Inr i, s1) | None \<Rightarrow> loadAndCachePriceStock env q s1) of
             (Inl e, s2) \<Rightarrow> (Inl e, s2)
           | (Inr i, s2) \<Rightarrow> (Inr (mergeProductPriceStock b i), s2)))"

text \<open>A caller that joins a load in flight gets that load's result.\<close>

definition repo_GetProduct :: "product_env \<Rightarrow> ProductQuery \<Rightarrow> product_svc \<Rightarrow> (product_err + Product) \<times> product_svc" where
  "repo_GetProduct env q s =
     (case readProductCache (pe_redis env 0) (pe_redis env 1) (pe_now env) q (pvs_cache s) of
        (Some b, Some i) \<Rightarrow> (Inr (mergeProductPriceStock b i), s)
      | _ \<Rightarrow>
          if pe_downgrade env then (Inl DowngradeMiss, s)
          else resolveSingleProduct env q
                 (readProductCache (pe_redis env 2) (pe_redis env 3) (pe_now env) q (pvs_cache s)) s)"

fun load_basics :: "product_env \<Rightarrow> nat \<Rightarrow> ProductRow list \<Rightarrow> (int \<Rightarrow> Product option) \<Rightarrow> product_cache
    \<Rightarrow> (product_err + (int \<Rightarrow> Product option)) \<times> product_cache" where
  "load_basics env i [] m c = (Inr m, c)"
| "load_basics env i (r # rs) m c =
     (case product_entityToDomain r of
        Inl e \<Rightarrow> (Inl e, c)
      | Inr p \<Rightarrow> load_basics env (i + 1) rs (m(p_ID p \<mapsto> p))
                  (cacheProductBasicDetail (pe_redis env i) (pe_now env) p detailBasicTTL c))"

definition loadBasicProductsByIDs ::
  "product_env \<Rightarrow> int list \<Rightarrow> product_svc \<Rightarrow> (product_err + (int \<Rightarrow> Product option)) \<times> product_svc" where
  "loadBasicProductsByIDs env ids s =
     (case dao_FindByIDs (pe_db env 0) ids (pvs_db s) of
        Inl e \<Rightarrow> (Inl e, s)
      | Inr rs \<Rightarrow> (case load_basics env 0 rs (\<lambda>_. None) (pvs_cache s) of (r, c) \<Rightarrow> (r, s\<lparr>pvs_cache := c\<rparr>)))"

definition sku_price :: "ProductSKU \<Rightarrow> PriceInStock" where
  "sku_price k = \<lparr>pi_SKUID = sk_SKUID k, pi_Price = sk_Price k,
     pi_Currency = normalizeCurrency (sk_Currency k), pi_InStock = sk_InStock k\<rparr>"

fun load_prices :: "product_env \<Rightarrow> nat \<Rightarrow> ProductSKU list \<Rightarrow> (int \<times> int \<Rightarrow> PriceInStock option) \<Rightarrow> product_cache
    \<Rightarrow> (int \<times> int \<Rightarrow> PriceInStock option) \<times> product_cache" where
  "load_prices env i [] m c = (m, c)"
| "load_prices env i (k # ks) m c =
     (let key = (sk_ProductID k, sk_SKUID k) in
      load_prices env (i + 1) ks (m(key \<mapsto> sku_price k))
        (cachePriceStock (pe_redis env i) (pe_now env) key (sku_price k) detailPriceStockTTL c))"

definition loadPriceStocksByQueries :: "product_env \<Rightarrow> nat \<Rightarrow> ProductQuery list \<Rightarrow> product_svc
    \<Rightarrow> (product_err + (int \<times> int \<Rightarrow> PriceInStock option)) \<times> product_svc" where
  "loadPriceStocksByQueries env i qs s =
     (if qs = [] then (Inr (\<lambda>_. None), s)
      else (case dao_FindPriceInStocks (pe_db env 1) qs (pvs_db s) of
              Inl e \<Rightarrow> (Inl e, s)
            | Inr ks \<Rightarrow> (case load_prices env i ks (\<lambda>_. None) (pvs_cache s) of (m, c) \<Rightarrow> (Inr m, s\<lparr>pvs_cache := c\<rparr>))))"

fun assemble :: "(int \<Rightarrow> Product option) \<Rightarrow> (int \<times> int \<Rightarrow> PriceInStock option) \<Rightarrow> ProductQuery list
    \<Rightarrow> product_err + Product list" where
  "assemble basics prices [] = Inr []"
| "assemble basics prices (q # qs) =
     (case basics (q_ID q) of
        None \<Rightarrow> Inl (NotFoundFor q)
      | Some b \<Rightarrow> (case prices (q_ID q, q_SKUID q) of
            None \<Rightarrow> Inl (NotFoundFor q)
          | Some i \<Rightarrow> map_sum (\<lambda>e. e) ((#) (mergeProductPriceStock b i)) (assemble basics prices qs)))"

definition repo_GetProducts :: "product_env \<Rightarrow> ProductQuery list \<Rightarrow> product_svc \<Rightarrow> (product_err + Product list) \<times> product_svc" where
  "repo_GetProducts env qs s =
     (if qs = [] then (Inr [], s)
      else if pe_downgrade env then (Inl DowngradeMiss, s)
      else
        (let ids = rev (remdups (rev (map q_ID qs))); distinct_qs = rev (remdups (rev qs)) in
         case loadBasicProductsByIDs env ids s of
           (Inl e, s1) \<Rightarrow> (Inl e, s1)
         | (Inr basics, s1) \<Rightarrow>
             (case loadPriceStocksByQueries env (length (pt_rows (pvs_db s))) distinct_qs s1 of
                (Inl e, s2) \<Rightarrow> (Inl e, s2)
              | (Inr prices, s2) \<Rightarrow> (assemble basics prices qs, s2))))"

fun pick_quotes :: "(int \<times> int \<Rightarrow> CatalogQuote option) \<Rightarrow> ProductQuery list \<Rightarrow> product_err + CatalogQuote list" where
  "pick_quotes m [] = Inr []"
| "pick_quotes m (q # qs) =
     (case m (q_ID q, q_SKUID q) of
        None \<Rightarrow> Inl (NotFoundFor q)
      | Some x \<Rightarrow> map_sum (\<lambda>e. e) ((#) x) (pick_quotes m qs))"

definition repo_GetProductQuotes :: "product_env \<Rightarrow> ProductQuery list \<Rightarrow> product_db \<Rightarrow> product_err + CatalogQuote list" where
  "repo_GetProductQuotes env qs d =
     (if qs = [] then Inr []
      else if pe_downgrade env then Inl DowngradeMiss
      else (case dao_FindQuotes (pe_db env 0) qs d of
              Inl e \<Rightarrow> Inl e
            | Inr es \<Rightarrow> pick_quotes (fold (\<lambda>x m. m((cq_ProductID x, cq_SKUID x) \<mapsto>
                          x\<lparr>cq_Currency := normalizeCurrency (cq_Currency x)\<rparr>)) es (\<lambda>_. None)) qs))"

definition repo_CreateProduct :: "product_env \<Rightarrow> Product \<Rightarrow> product_svc \<Rightarrow> (product_err + int) \<times> product_svc" where
  "repo_CreateProduct env p s =
     (case dao_Insert (pe_db env 0) (pe_now env) (product_domainToEntity p) (pvs_db s) of
        (Inl e, d) \<Rightarrow> (Inl e, s\<lparr>pvs_db := d\<rparr>)
      | (Inr i, d) \<Rightarrow>
          (let p = p\<lparr>p_ID := i\<rparr> in
           case (if 0 < p_SKUID p then dao_UpsertSKU (pe_db env 1) (pe_now env) (product_domainToSKU p) d else (Inr (), d)) of
             (Inl e, d) \<Rightarrow> (Inl e, s\<lparr>pvs_db := d\<rparr>)
           | (Inr _, d) \<Rightarrow>
               (let c = cacheProductBasicDetail (pe_redis env 0) (pe_now env) p detailBasicTTL (pvs_cache s);
                    c = (if 0 < p_SKUID p then cachePriceStock (pe_redis env 1) (pe_now env) (i, p_SKUID p)
                           (productToPriceStock p) detailPriceStockTTL c else c) in
                (Inr i, s\<lparr>pvs_db := d, pvs_cache := c\<rparr>))))"

text \<open>An update or deletion that succeeds also answers what its delayed goroutine will delete.\<close>

definition repo_UpdateProduct :: "product_env \<Rightarrow> Product \<Rightarrow> product_svc \<Rightarrow> (product_err + int \<times> ProductQuery) \<times> product_svc" where
  "repo_UpdateProduct env p s =
     (case dao_Update (pe_db env 0) (pe_now env) (product_domainToEntity p) (pvs_db s) of
        (Inl e, d) \<Rightarrow> (Inl e, s\<lparr>pvs_db := d\<rparr>)
      | (Inr _, d) \<Rightarrow>
          (case (if 0 < p_SKUID p then dao_UpsertSKU (pe_db env 1) (pe_now env) (product_domainToSKU p) d else (Inr (), d)) of
             (Inl e, d) \<Rightarrow> (Inl e, s\<lparr>pvs_db := d\<rparr>)
           | (Inr _, d) \<Rightarrow>
               (let q = \<lparr>q_ID = p_ID p, q_SKUID = p_SKUID p\<rparr> in
                (Inr (p_ID p, q), s\<lparr>pvs_db := d,
                   pvs_cache := deleteProductCache (pe_redis env 0) (pe_redis env 1) q (pvs_cache s)\<rparr>))))"

definition repo_DeleteProduct :: "product_env \<Rightarrow> int \<Rightarrow> int \<Rightarrow> product_svc \<Rightarrow> (product_err + ProductQuery) \<times> product_svc" where
  "repo_DeleteProduct env i user s =
     (case dao_Delete (pe_db env 0) (pe_now env) i user (pvs_db s) of
        (Inl e, d) \<Rightarrow> (Inl e, s\<lparr>pvs_db := d\<rparr>)
      | (Inr _, d) \<Rightarrow>
          (case dao_DeleteSKUsByProductID (pe_db env 1) (pe_now env) i d of
             (Inl e, d) \<Rightarrow> (Inl e, s\<lparr>pvs_db := d\<rparr>)
           | (Inr _, d) \<Rightarrow> (Inr \<lparr>q_ID = i, q_SKUID = 0\<rparr>,
               s\<lparr>pvs_db := d, pvs_cache := deleteProductBasicCache (pe_redis env 0) i (pvs_cache s)\<rparr>)))"

section \<open>Service\<close>

definition validateProductQuery :: "ProductQuery \<Rightarrow> product_err option" where
  "validateProductQuery q =
     (if q_ID q \<le> 0 then Some (ProductInvalid ''product_id is required'')
      else if q_SKUID q \<le> 0 then Some (ProductInvalid ''sku_id is required'') else None)"

definition validateProductForWrite :: "Product \<Rightarrow> bool \<Rightarrow> product_err option" where
  "validateProductForWrite p requireID =
     (if requireID \<and> p_ID p \<le> 0 then Some (ProductInvalid ''product_id is required'')
      else if trim_space (p_Name p) = [] then Some (ProductInvalid ''product name is required'')
      else if p_SKUID p \<le> 0 then Some (ProductInvalid ''sku_id is required'')
      else if p_Price p < 0 then Some (ProductInvalid ''price must be non-negative'')
      else if p_MerchantID p \<le> 0 then Some (ProductInvalid ''merchant_id is required'') else None)"

fun name_contains :: "string \<Rightarrow> string \<Rightarrow> bool" where
  "name_contains [] w = (w = [])"
| "name_contains (c # cs) w = (take (length w) (c # cs) = w \<or> name_contains cs w)"

definition checkSensitiveWords :: "string \<Rightarrow> string \<Rightarrow> product_err option" where
  "checkSensitiveWords name description =
     (if name_contains name ''blocked'' \<or> name_contains description ''blocked'' then Some SensitiveWords else None)"

fun first_error :: "('a \<Rightarrow> product_err option) \<Rightarrow> 'a list \<Rightarrow> product_err option" where
  "first_error f [] = None"
| "first_error f (x # xs) = (case f x of Some e \<Rightarrow> Some e | None \<Rightarrow> first_error f xs)"

definition product_ListProducts :: "product_env \<Rightarrow> int \<Rightarrow> int \<Rightarrow> string \<Rightarrow> product_svc
    \<Rightarrow> ((product_err + Product list) \<times> Product list) \<times> product_svc" where
  "product_ListProducts env page pageSize category s =
     repo_ListProducts env (if page \<le> 0 then 1 else page) (if pageSize \<le> 0 then 20 else pageSize) category s"

definition product_GetProduct :: "product_env \<Rightarrow> ProductQuery \<Rightarrow> product_svc \<Rightarrow> (product_err + Product) \<times> product_svc" where
  "product_GetProduct env q s =
     (case validateProductQuery q of Some e \<Rightarrow> (Inl e, s) | None \<Rightarrow> repo_GetProduct env q s)"

definition product_GetProducts :: "product_env \<Rightarrow> ProductQuery list \<Rightarrow> product_svc \<Rightarrow> (product_err + Product list) \<times> product_svc" where
  "product_GetProducts env qs s =
     (if qs = [] then (Inr [], s)
      else (case first_error validateProductQuery qs of Some e \<Rightarrow> (Inl e, s) | None \<Rightarrow> repo_GetProducts env qs s))"

definition product_GetProductQuotes :: "product_env \<Rightarrow> ProductQuery list \<Rightarrow> product_db \<Rightarrow> product_err + CatalogQuote list" where
  "product_GetProductQuotes env qs d =
     (if qs = [] then Inr []
      else (case first_error validateProductQuery qs of Some e \<Rightarrow> Inl e | None \<Rightarrow> repo_GetProductQuotes env qs d))"

definition product_CreateProduct :: "product_env \<Rightarrow> Product \<Rightarrow> product_svc \<Rightarrow> (product_err + int) \<times> product_svc" where
  "product_CreateProduct env p s =
     (case validateProductForWrite p False of
        Some e \<Rightarrow> (Inl e, s)
      | None \<Rightarrow> (case checkSensitiveWords (p_Name p) (p_Description p) of
            Some e \<Rightarrow> (Inl e, s) | None \<Rightarrow> repo_CreateProduct env p s))"

definition product_UpdateProduct :: "product_env \<Rightarrow> Product \<Rightarrow> product_svc \<Rightarrow> (product_err + int \<times> ProductQuery) \<times> product_svc" where
  "product_UpdateProduct env p s =
     (case validateProductForWrite p True of
        Some e \<Rightarrow> (Inl e, s)
      | None \<Rightarrow> (case checkSensitiveWords (p_Name p) (p_Description p) of
            Some e \<Rightarrow> (Inl e, s) | None \<Rightarrow> repo_UpdateProduct env p s))"

definition product_DeleteProduct :: "product_env \<Rightarrow> int \<Rightarrow> int \<Rightarrow> product_svc \<Rightarrow> (product_err + ProductQuery) \<times> product_svc" where
  "product_DeleteProduct env i user s =
     (if i \<le> 0 then (Inl (ProductInvalid ''product_id is required''), s)
      else if user \<le> 0 then (Inl (ProductInvalid ''user_id is required''), s)
      else repo_DeleteProduct env i user s)"

text \<open>The gRPC handler copies each message field by field; a message without a product is an empty one.\<close>

definition product_toDomain :: "Product option \<Rightarrow> Product" where
  "product_toDomain p = (case p of None \<Rightarrow> empty_product | Some p \<Rightarrow> p)"

definition grpc_CreateProduct :: "product_env \<Rightarrow> Product option \<Rightarrow> product_svc \<Rightarrow> (product_err + int) \<times> product_svc" where
  "grpc_CreateProduct env p s = product_CreateProduct env (product_toDomain p) s"

definition grpc_UpdateProduct :: "product_env \<Rightarrow> Product option \<Rightarrow> product_svc \<Rightarrow> (product_err + int) \<times> product_svc" where
  "grpc_UpdateProduct env p s = (case product_UpdateProduct env (product_toDomain p) s of (r, s') \<Rightarrow> (map_sum (\<lambda>e. e) fst r, s'))"

text \<open>The HTTP handlers.\<close>

definition int64Query :: "string \<Rightarrow> int" where
  "int64Query raw = (if raw = [] then 0 else case parse_int raw of None \<Rightarrow> 0 | Some v \<Rightarrow> v)"

definition is_not_found :: "product_err \<Rightarrow> bool" where
  "is_not_found e = (case e of ProductNotFound \<Rightarrow> True | NotFoundFor _ \<Rightarrow> True | _ \<Rightarrow> False)"

definition writeProductError :: "product_err \<Rightarrow> int" where
  "writeProductError e = (if is_not_found e then 404 else 500)"

definition product_http_List :: "product_env \<Rightarrow> string \<Rightarrow> string \<Rightarrow> string \<Rightarrow> product_svc
    \<Rightarrow> (int + Product list \<times> int \<times> int) \<times> product_svc" where
  "product_http_List env page_text size_text category s =
     (let page = int64Query page_text; page = (if page \<le> 0 then 1 else page);
          pageSize = int64Query size_text; pageSize = (if pageSize \<le> 0 then 20 else pageSize);
          pageSize = (if 100 < pageSize then 100 else pageSize) in
      case product_ListProducts env page pageSize category s of
        ((Inl e, _), s') \<Rightarrow> (Inl (writeProductError e), s')
      | ((Inr ps, _), s') \<Rightarrow> (Inr (ps, page, pageSize), s'))"

definition product_http_Get :: "product_env \<Rightarrow> string \<Rightarrow> string \<Rightarrow> product_svc \<Rightarrow> (int + Product) \<times> product_svc" where
  "product_http_Get env id_text sku_text s =
     (case parse_int id_text of
        None \<Rightarrow> (Inl 400, s)
      | Some i \<Rightarrow>
          if i \<le> 0 then (Inl 400, s)
          else (let k = int64Query sku_text in
                if k \<le> 0 then (Inl 400, s)
                else (case product_GetProduct env \<lparr>q_ID = i, q_SKUID = k\<rparr> s of
                        (Inl e, s') \<Rightarrow> (Inl (writeProductError e), s')
                      | (Inr p, s') \<Rightarrow> (Inr p, s'))))"

end
