(* ===== verification/SearchSync.thy ===== *)
theory SearchSync
  imports Product Complex_Main
begin

text \<open>
  From the product table to the search index: the Canal producer of the product service turns row changes of
  the binlog into events (\<open>internal/product/producer\<close>), the search service's consumer, synchronisation use
  case and repository put them into Elasticsearch, and the gRPC handler fills the index from the product
  service (\<open>internal/search\<close>).  An index is a map from document ids to documents, a document a map from
  fields to JSON values.  JSON and time parsing and the embedding model are arguments.
\<close>

section \<open>Rows of the binlog\<close>

datatype GoVal =
    GInt64 int | GInt32 int | GInt int | GUint64 int | GBytes string | GString string | GTime int | GNil | GOther

datatype CanalAction = InsertAction | UpdateAction | DeleteAction | OtherAction string

record RowsEvent =
  re_Table :: string
  re_Action :: CanalAction
  re_Columns :: "string list"
  re_Rows :: "GoVal list list"

type_synonym vector = "rat list"

record ProductDocument =
  pd_ID :: int
  pd_Name :: string
  pd_Description :: string
  pd_Picture :: string
  pd_SliderImgs :: "string list"
  pd_Price :: int
  pd_Categories :: "string list"
  pd_InStock :: bool
  pd_MerchantID :: int
  pd_MerchantName :: string
  pd_SalesCount :: int
  pd_NameVector :: vector
  pd_CreatedTime :: int
  pd_UpdatedTime :: int

record MerchantDocument =
  md_ID :: int
  md_Name :: string
  md_Description :: string
  md_Logo :: string
  md_Region :: string
  md_Rating :: rat
  md_SalesCount :: int
  md_ProductCount :: int
  md_Verified :: bool
  md_CreatedTime :: int
  md_UpdatedTime :: int

datatype EventType = EventTypeProduct | EventTypeMerchant | EventTypeOther string

datatype EventAction = EventActionCreate | EventActionUpdate | EventActionDelete | EventActionOther string

record SyncEvent =
  se_Type :: EventType
  se_Action :: EventAction
  se_ID :: int
  se_Product :: "ProductDocument option"
  se_Merchant :: "MerchantDocument option"

text \<open>\<open>json.Unmarshal\<close> into a list of strings, and \<open>time.Parse\<close> with the layout of a MySQL datetime.\<close>

record parsers =
  ps_strings :: "string \<Rightarrow> string list option"
  ps_time :: "string \<Rightarrow> int option"

definition rowToMap :: "string list \<Rightarrow> GoVal list \<Rightarrow> string \<Rightarrow> GoVal" where
  "rowToMap columns row key = (case map_of (rev (zip columns row)) key of None \<Rightarrow> GNil | Some v \<Rightarrow> v)"

definition parseInt64FromRow :: "GoVal \<Rightarrow> int option" where
  "parseInt64FromRow v =
     (case v of
        GInt64 i \<Rightarrow> Some i | GInt32 i \<Rightarrow> Some i | GInt i \<Rightarrow> Some i | GUint64 i \<Rightarrow> Some (wrap64 i)
      | GBytes s \<Rightarrow> parse_int s
      | GString s \<Rightarrow> if s = [] then Some 0 else parse_int s
      | _ \<Rightarrow> Some 0)"

definition parseRequiredInt64FromRow :: "GoVal \<Rightarrow> int option" where
  "parseRequiredInt64FromRow v = (case parseInt64FromRow v of None \<Rightarrow> None | Some i \<Rightarrow> if i = 0 then None else Some i)"

definition parseUnixTime :: "parsers \<Rightarrow> GoVal \<Rightarrow> int" where
  "parseUnixTime ps v =
     (case v of
        GTime t \<Rightarrow> t
      | GString s \<Rightarrow> (case ps_time ps s of None \<Rightarrow> 0 | Some t \<Rightarrow> t)
      | GBytes s \<Rightarrow> (case ps_time ps s of None \<Rightarrow> 0 | Some t \<Rightarrow> t)
      | _ \<Rightarrow> 0)"

text \<open>Only a column that Canal gives as a Go string is taken.\<close>

definition string_col :: "GoVal \<Rightarrow> string" where
  "string_col v = (case v of GString s \<Rightarrow> s | _ \<Rightarrow> [])"

definition strings_col :: "parsers \<Rightarrow> GoVal \<Rightarrow> string list" where
  "strings_col ps v = (let s = string_col v in
     if s = [] then [] else case ps_strings ps s of None \<Rightarrow> [] | Some xs \<Rightarrow> xs)"

definition int_col :: "GoVal \<Rightarrow> int" where
  "int_col v = (case parseInt64FromRow v of None \<Rightarrow> 0 | Some i \<Rightarrow> i)"

definition parseRowToSyncEvent :: "parsers \<Rightarrow> (string \<Rightarrow> GoVal) \<Rightarrow> EventAction \<Rightarrow> SyncEvent option" where
  "parseRowToSyncEvent ps row act =
     (case parseRequiredInt64FromRow (row ''id'') of
        None \<Rightarrow> None
      | Some i \<Rightarrow>
          Some \<lparr>se_Type = EventTypeProduct, se_Action = act, se_ID = i,
            se_Product = (if act = EventActionDelete then None
              else Some \<lparr>pd_ID = i, pd_Name = string_col (row ''name''), pd_Description = string_col (row ''description''),
                pd_Picture = string_col (row ''picture''), pd_SliderImgs = strings_col ps (row ''slide_imgs''),
                pd_Price = int_col (row ''price''), pd_Categories = strings_col ps (row ''categories''),
                pd_InStock = False, pd_MerchantID = int_col (row ''merchant_id''),
                pd_MerchantName = string_col (row ''merchant_name''), pd_SalesCount = 0, pd_NameVector = [],
                pd_CreatedTime = parseUnixTime ps (row ''created_at''), pd_UpdatedTime = parseUnixTime ps (row ''updated_at'')\<rparr>),
            se_Merchant = None\<rparr>)"

fun extractIDFromRow :: "string list \<Rightarrow> GoVal list \<Rightarrow> int option" where
  "extractIDFromRow (c # cs) (v # vs) =
     (if c = ''id'' then
        (case v of GInt64 i \<Rightarrow> Some i | GInt32 i \<Rightarrow> Some i | GInt i \<Rightarrow> Some i | GString s \<Rightarrow> parse_int s | _ \<Rightarrow> None)
      else extractIDFromRow cs vs)"
| "extractIDFromRow _ _ = None"

text \<open>The events of one change: \<open>None\<close> is the error that stops Canal; an unknown action is passed over.\<close>

fun canal_events :: "parsers \<Rightarrow> RowsEvent \<Rightarrow> GoVal list list \<Rightarrow> SyncEvent list option" where
  "canal_events ps e [] = Some []"
| "canal_events ps e (row # rows) =
     (case (case re_Action e of
              InsertAction \<Rightarrow> map_option Some (parseRowToSyncEvent ps (rowToMap (re_Columns e) row) EventActionCreate)
            | UpdateAction \<Rightarrow> map_option Some (parseRowToSyncEvent ps (rowToMap (re_Columns e) row) EventActionUpdate)
            | DeleteAction \<Rightarrow>
                (case extractIDFromRow (re_Columns e) row of
                   None \<Rightarrow> None
                 | Some i \<Rightarrow> Some (Some \<lparr>se_Type = EventTypeProduct, se_Action = EventActionDelete, se_ID = i,
                                       se_Product = None, se_Merchant = None\<rparr>))
            | OtherAction _ \<Rightarrow> Some None) of
        None \<Rightarrow> None
      | Some None \<Rightarrow> canal_events ps e rows
      | Some (Some ev) \<Rightarrow> map_option ((#) ev) (canal_events ps e rows))"

text \<open>\<open>sent\<close>: how many of the messages Kafka takes; fewer than all is an error, and those before are out.\<close>

definition sendBatchToKafka :: "nat \<Rightarrow> SyncEvent list \<Rightarrow> bool \<times> SyncEvent list" where
  "sendBatchToKafka sent evs = (length evs \<le> sent, take sent evs)"

definition OnRow :: "parsers \<Rightarrow> nat \<Rightarrow> RowsEvent \<Rightarrow> bool \<times> SyncEvent list" where
  "OnRow ps sent e =
     (if re_Table e \<noteq> ''product'' then (True, [])
      else (case canal_events ps e (re_Rows e) of
              None \<Rightarrow> (False, [])
            | Some evs \<Rightarrow> if evs = [] then (True, []) else sendBatchToKafka sent evs))"

section \<open>Elasticsearch\<close>

datatype JVal = JInt int | JText string | JBool bool | JTexts "string list" | JVec vector | JRat rat | JNull

type_synonym es_doc = "string \<Rightarrow> JVal option"
type_synonym es_index = "string \<Rightarrow> es_doc option"

record search_es =
  es_products :: es_index
  es_merchants :: es_index

text \<open>\<open>json.Marshal\<close>, with the fields it leaves out when they are empty.\<close>

definition product_fields :: "ProductDocument \<Rightarrow> (string \<times> JVal) list" where
  "product_fields d =
     [(''id'', JInt (pd_ID d)), (''name'', JText (pd_Name d)), (''description'', JText (pd_Description d))]
     @ (if pd_Picture d = [] then [] else [(''picture'', JText (pd_Picture d))])
     @ (if pd_SliderImgs d = [] then [] else [(''slider_imgs'', JTexts (pd_SliderImgs d))])
     @ [(''price'', JInt (pd_Price d))]
     @ (if pd_Categories d = [] then [] else [(''categories'', JTexts (pd_Categories d))])
     @ [(''in_stock'', JBool (pd_InStock d)), (''merchant_id'', JInt (pd_MerchantID d)),
        (''merchant_name'', JText (pd_MerchantName d)), (''sales_count'', JInt (pd_SalesCount d))]
     @ (if pd_NameVector d = [] then [] else [(''name_vector'', JVec (pd_NameVector d))])
     @ (if pd_CreatedTime d = 0 then [] else [(''created_at'', JInt (pd_CreatedTime d))])
     @ (if pd_UpdatedTime d = 0 then [] else [(''updated_at'', JInt (pd_UpdatedTime d))])"

definition merchant_fields :: "MerchantDocument \<Rightarrow> (string \<times> JVal) list" where
  "merchant_fields d =
     [(''id'', JInt (md_ID d)), (''name'', JText (md_Name d))]
     @ (if md_Description d = [] then [] else [(''description'', JText (md_Description d))])
     @ (if md_Logo d = [] then [] else [(''logo'', JText (md_Logo d))])
     @ (if md_Region d = [] then [] else [(''region'', JText (md_Region d))])
     @ [(''rating'', JRat (md_Rating d)), (''sales_count'', JInt (md_SalesCount d)),
        (''product_count'', JInt (md_ProductCount d)), (''verified'', JBool (md_Verified d))]
     @ (if md_CreatedTime d = 0 then [] else [(''created_at'', JInt (md_CreatedTime d))])
     @ (if md_UpdatedTime d = 0 then [] else [(''updated_at'', JInt (md_UpdatedTime d))])"

text \<open>\<open>up\<close>: the request is answered.  An update or a deletion of a document that is not there is an error.\<close>

definition IndexDocument :: "bool \<Rightarrow> string \<Rightarrow> es_doc \<Rightarrow> es_index \<Rightarrow> bool \<times> es_index" where
  "IndexDocument up i doc ix = (if up then (True, ix(i \<mapsto> doc)) else (False, ix))"

definition UpdateDocument :: "bool \<Rightarrow> string \<Rightarrow> es_doc \<Rightarrow> es_index \<Rightarrow> bool \<times> es_index" where
  "UpdateDocument up i doc ix =
     (case ix i of None \<Rightarrow> (False, ix) | Some old \<Rightarrow> if up then (True, ix(i \<mapsto> old ++ doc)) else (False, ix))"

definition DeleteDocument :: "bool \<Rightarrow> string \<Rightarrow> es_index \<Rightarrow> bool \<times> es_index" where
  "DeleteDocument up i ix = (if up \<and> ix i \<noteq> None then (True, ix(i := None)) else (False, ix))"

text \<open>A bulk request is answered as a whole; \<open>item n\<close> says whether its n-th item was taken, which is not looked at.\<close>

fun bulk_items :: "(nat \<Rightarrow> bool) \<Rightarrow> nat \<Rightarrow> (es_index \<Rightarrow> es_index) list \<Rightarrow> es_index \<Rightarrow> es_index" where
  "bulk_items item n [] ix = ix"
| "bulk_items item n (f # fs) ix = bulk_items item (n + 1) fs (if item n then f ix else ix)"

definition BulkIndex :: "bool \<Rightarrow> (nat \<Rightarrow> bool) \<Rightarrow> (string \<times> es_doc) list \<Rightarrow> es_index \<Rightarrow> bool \<times> es_index" where
  "BulkIndex up item docs ix = (up, if up then bulk_items item 0 (map (\<lambda>(i, d) ix. ix(i \<mapsto> d)) docs) ix else ix)"

definition BulkDelete :: "bool \<Rightarrow> (nat \<Rightarrow> bool) \<Rightarrow> string list \<Rightarrow> es_index \<Rightarrow> bool \<times> es_index" where
  "BulkDelete up item ids ix = (up, if up then bulk_items item 0 (map (\<lambda>i ix. ix(i := None)) ids) ix else ix)"

section \<open>Synchronisation\<close>

datatype sync_res = SyncOk | SyncErr | SyncPanic

definition sync_ok :: "bool \<Rightarrow> sync_res" where "sync_ok b = (if b then SyncOk else SyncErr)"

text \<open>The document id is read before the action is looked at; without a document that is a nil dereference.\<close>

definition sync_doc :: "bool \<Rightarrow> EventAction \<Rightarrow> (string \<times> (string \<times> JVal) list) option \<Rightarrow> es_index \<Rightarrow> sync_res \<times> es_index" where
  "sync_doc up act doc ix =
     (case doc of
        None \<Rightarrow> (SyncPanic, ix)
      | Some (i, fs) \<Rightarrow>
          (case act of
             EventActionCreate \<Rightarrow> (case IndexDocument up i (map_of fs) ix of (b, ix') \<Rightarrow> (sync_ok b, ix'))
           | EventActionUpdate \<Rightarrow> (case UpdateDocument up i (map_of fs) ix of (b, ix') \<Rightarrow> (sync_ok b, ix'))
           | EventActionDelete \<Rightarrow> (case DeleteDocument up i ix of (b, ix') \<Rightarrow> (sync_ok b, ix'))
           | EventActionOther _ \<Rightarrow> (SyncErr, ix)))"

definition SyncProduct :: "bool \<Rightarrow> EventAction \<Rightarrow> ProductDocument option \<Rightarrow> search_es \<Rightarrow> sync_res \<times> search_es" where
  "SyncProduct up act doc s =
     (case sync_doc up act (map_option (\<lambda>d. (format_int (pd_ID d), product_fields d)) doc) (es_products s) of
        (r, ix) \<Rightarrow> (r, s\<lparr>es_products := ix\<rparr>))"

definition SyncMerchant :: "bool \<Rightarrow> EventAction \<Rightarrow> MerchantDocument option \<Rightarrow> search_es \<Rightarrow> sync_res \<times> search_es" where
  "SyncMerchant up act doc s =
     (case sync_doc up act (map_option (\<lambda>d. (format_int (md_ID d), merchant_fields d)) doc) (es_merchants s) of
        (r, ix) \<Rightarrow> (r, s\<lparr>es_merchants := ix\<rparr>))"

text \<open>The embedding model answers vectors for a name, or fails.\<close>

type_synonym embedder = "string \<Rightarrow> vector list option"

definition enrichWithVector :: "embedder \<Rightarrow> ProductDocument \<Rightarrow> ProductDocument" where
  "enrichWithVector em d =
     (if pd_Name d = [] then d
      else (case em (pd_Name d) of Some (v # _) \<Rightarrow> d\<lparr>pd_NameVector := v\<rparr> | _ \<Rightarrow> d))"

definition search_Sync :: "embedder \<Rightarrow> bool \<Rightarrow> SyncEvent \<Rightarrow> search_es \<Rightarrow> sync_res \<times> search_es" where
  "search_Sync em up ev s =
     (case se_Type ev of
        EventTypeProduct \<Rightarrow>
          SyncProduct up (se_Action ev)
            (if se_Action ev \<noteq> EventActionDelete then map_option (enrichWithVector em) (se_Product ev) else se_Product ev) s
      | EventTypeMerchant \<Rightarrow> SyncMerchant up (se_Action ev) (se_Merchant ev) s
      | EventTypeOther _ \<Rightarrow> (SyncErr, s))"

definition ProductConsumer_Consume :: "embedder \<Rightarrow> bool \<Rightarrow> SyncEvent \<Rightarrow> search_es \<Rightarrow> sync_res \<times> search_es" where
  "ProductConsumer_Consume em up ev s = (if se_Type ev \<noteq> EventTypeProduct then (SyncOk, s) else search_Sync em up ev s)"

definition MerchantConsumer_Consume :: "embedder \<Rightarrow> bool \<Rightarrow> SyncEvent \<Rightarrow> search_es \<Rightarrow> sync_res \<times> search_es" where
  "MerchantConsumer_Consume em up ev s = (if se_Type ev \<noteq> EventTypeMerchant then (SyncOk, s) else search_Sync em up ev s)"

text \<open>The documents of a batch name every field, the empty ones too.\<close>

definition product_map :: "ProductDocument \<Rightarrow> es_doc" where
  "product_map d = map_of
     [(''id'', JInt (pd_ID d)), (''name'', JText (pd_Name d)), (''description'', JText (pd_Description d)),
      (''picture'', JText (pd_Picture d)), (''slider_imgs'', JTexts (pd_SliderImgs d)), (''price'', JInt (pd_Price d)),
      (''categories'', JTexts (pd_Categories d)), (''in_stock'', JBool (pd_InStock d)),
      (''merchant_id'', JInt (pd_MerchantID d)), (''merchant_name'', JText (pd_MerchantName d)),
      (''sales_count'', JInt (pd_SalesCount d)),
      (''name_vector'', if pd_NameVector d = [] then JNull else JVec (pd_NameVector d)),
      (''created_at'', JInt (pd_CreatedTime d)), (''updated_at'', JInt (pd_UpdatedTime d))]"

definition merchant_map :: "MerchantDocument \<Rightarrow> es_doc" where
  "merchant_map d = map_of
     [(''id'', JInt (md_ID d)), (''name'', JText (md_Name d)), (''description'', JText (md_Description d)),
      (''logo'', JText (md_Logo d)), (''region'', JText (md_Region d)), (''rating'', JRat (md_Rating d)),
      (''sales_count'', JInt (md_SalesCount d)), (''product_count'', JInt (md_ProductCount d)),
      (''verified'', JBool (md_Verified d)), (''created_at'', JInt (md_CreatedTime d)),
      (''updated_at'', JInt (md_UpdatedTime d))]"

text \<open>What a batch meets: whether each of its four requests is answered and which items are taken.  Successes and
  failures are counted.\<close>

record batch_env =
  be_up :: "nat \<Rightarrow> bool"
  be_item :: "nat \<Rightarrow> nat \<Rightarrow> bool"

definition counted :: "bool \<Rightarrow> 'a list \<Rightarrow> int \<times> int" where
  "counted ok xs = (if ok then (int (length xs), 0) else (0, int (length xs)))"

definition BatchSyncProducts :: "bool \<Rightarrow> (nat \<Rightarrow> bool) \<Rightarrow> ProductDocument list \<Rightarrow> es_index \<Rightarrow> (int \<times> int) \<times> es_index" where
  "BatchSyncProducts up item docs ix =
     (case BulkIndex up item (map (\<lambda>d. (format_int (pd_ID d), product_map d)) docs) ix of (b, ix') \<Rightarrow> (counted b docs, ix'))"

definition BatchSyncMerchants :: "bool \<Rightarrow> (nat \<Rightarrow> bool) \<Rightarrow> MerchantDocument list \<Rightarrow> es_index \<Rightarrow> (int \<times> int) \<times> es_index" where
  "BatchSyncMerchants up item docs ix =
     (case BulkIndex up item (map (\<lambda>d. (format_int (md_ID d), merchant_map d)) docs) ix of (b, ix') \<Rightarrow> (counted b docs, ix'))"

definition BatchDeleteIDs :: "bool \<Rightarrow> (nat \<Rightarrow> bool) \<Rightarrow> int list \<Rightarrow> es_index \<Rightarrow> (int \<times> int) \<times> es_index" where
  "BatchDeleteIDs up item ids ix =
     (if ids = [] then ((0, 0), ix)
      else (case BulkDelete up item (map format_int ids) ix of (b, ix') \<Rightarrow> (counted b ids, ix')))"

definition batch_docs :: "(SyncEvent \<Rightarrow> bool) \<Rightarrow> (SyncEvent \<Rightarrow> 'd option) \<Rightarrow> SyncEvent list \<Rightarrow> 'd list" where
  "batch_docs P f evs = List.map_filter f (filter (\<lambda>e. P e \<and> se_Action e \<noteq> EventActionDelete) evs)"

definition batch_deletes :: "(SyncEvent \<Rightarrow> bool) \<Rightarrow> SyncEvent list \<Rightarrow> int list" where
  "batch_deletes P evs = map se_ID (filter (\<lambda>e. P e \<and> se_Action e = EventActionDelete) evs)"

definition BatchSync :: "embedder \<Rightarrow> batch_env \<Rightarrow> SyncEvent list \<Rightarrow> search_es \<Rightarrow> (int \<times> int) \<times> search_es" where
  "BatchSync em env evs s =
     (let isP = (\<lambda>e. se_Type e = EventTypeProduct); isM = (\<lambda>e. se_Type e = EventTypeMerchant);
          (n1, p1) = BatchSyncProducts (be_up env 0) (be_item env 0)
                       (batch_docs isP (\<lambda>e. map_option (enrichWithVector em) (se_Product e)) evs) (es_products s);
          (n2, p2) = BatchDeleteIDs (be_up env 1) (be_item env 1) (batch_deletes isP evs) p1;
          (n3, m1) = BatchSyncMerchants (be_up env 2) (be_item env 2) (batch_docs isM se_Merchant evs) (es_merchants s);
          (n4, m2) = BatchDeleteIDs (be_up env 3) (be_item env 3) (batch_deletes isM evs) m1
      in ((fst n1 + fst n2 + fst n3 + fst n4, snd n1 + snd n2 + snd n3 + snd n4),
          \<lparr>es_products = p2, es_merchants = m2\<rparr>))"

section \<open>Filling the index\<close>

definition productProtoToDoc :: "Product \<Rightarrow> ProductDocument" where
  "productProtoToDoc p = \<lparr>pd_ID = p_ID p, pd_Name = p_Name p, pd_Description = p_Description p, pd_Picture = p_Picture p,
     pd_SliderImgs = p_SlideImgs p, pd_Price = p_Price p, pd_Categories = p_Categories p, pd_InStock = p_InStock p,
     pd_MerchantID = p_MerchantID p, pd_MerchantName = p_MerchantName p, pd_SalesCount = 0, pd_NameVector = [],
     pd_CreatedTime = 0, pd_UpdatedTime = 0\<rparr>"

definition create_event :: "Product \<Rightarrow> SyncEvent" where
  "create_event p = \<lparr>se_Type = EventTypeProduct, se_Action = EventActionCreate, se_ID = p_ID p,
     se_Product = Some (productProtoToDoc p), se_Merchant = None\<rparr>"

text \<open>The loop over the pages of the product service: \<open>list\<close> is its answer to a page, and \<open>None\<close> of the
  result means that the fuel ran out.  The last component tells whether a page failed.\<close>

fun syncProductsFromRPC :: "nat \<Rightarrow> (int \<Rightarrow> int \<Rightarrow> Product list option) \<Rightarrow> embedder \<Rightarrow> (int \<Rightarrow> batch_env) \<Rightarrow> int \<Rightarrow> int
    \<Rightarrow> int \<times> int \<Rightarrow> search_es \<Rightarrow> ((int \<times> int \<times> bool) \<times> search_es) option" where
  "syncProductsFromRPC 0 list em env batch page n s = None"
| "syncProductsFromRPC (Suc fuel) list em env batch page n s =
     (case list page batch of
        None \<Rightarrow> Some ((fst n, snd n, True), s)
      | Some ps \<Rightarrow>
          if ps = [] then Some ((fst n, snd n, False), s)
          else (case BatchSync em (env page) (map create_event ps) s of
                  (k, s') \<Rightarrow>
                    (let n' = (fst n + fst k, snd n + snd k) in
                     if int (length ps) < batch then Some ((fst n', snd n', False), s')
                     else syncProductsFromRPC fuel list em env batch (page + 1) n' s')))"

end
