(* ===== verification/Search.thy ===== *)
theory Search
  imports SearchSync GoFloat "HOL-Library.Product_Lexorder"
begin

text \<open>
  The queries of the search service (\<open>internal/search\<close>): requests turned into filters of Elasticsearch, answers
  into products, and the pipeline of the AI search: intent, two recalls, their fusion, ranking by sales and
  paging.  What Elasticsearch and the models answer is an argument.
\<close>

section \<open>Requests and queries\<close>

record SearchProductsReq =
  sr_Keyword :: string
  sr_Page :: int
  sr_PageSize :: int
  sr_Categories :: "string list"
  sr_MinPrice :: int
  sr_MaxPrice :: int
  sr_MerchantID :: int
  sr_InStockOnly :: bool
  sr_SortBy :: string
  sr_EnableHighlight :: bool

record SearchMerchantsReq =
  mr_Keyword :: string
  mr_Page :: int
  mr_PageSize :: int
  mr_Region :: string
  mr_MinRating :: rat
  mr_Verified :: "bool option"
  mr_SortBy :: string

datatype es_clause =
    MultiMatch string | Terms string "string list" | Range string "rat option" "rat option"
  | Term string JVal

record es_query =
  eq_from :: int
  eq_size :: int
  eq_must :: "es_clause list"
  eq_filter :: "es_clause list"
  eq_sort :: "string \<times> string"
  eq_highlight :: bool

definition price_range :: "int \<Rightarrow> int \<Rightarrow> es_clause list" where
  "price_range lo hi =
     (if 0 < lo \<or> 0 < hi
      then [Range ''price'' (if 0 < lo then Some (of_int lo) else None) (if 0 < hi then Some (of_int hi) else None)]
      else [])"

definition product_sort :: "string \<Rightarrow> string \<times> string" where
  "product_sort s =
     (if s = ''PRICE_ASC'' then (''price'', ''asc'') else if s = ''PRICE_DESC'' then (''price'', ''desc'')
      else if s = ''SALES_DESC'' then (''sales_count'', ''desc'') else if s = ''NEW_ARRIVAL'' then (''created_at'', ''desc'')
      else (''_score'', ''desc''))"

definition buildProductQuery :: "SearchProductsReq \<Rightarrow> es_query" where
  "buildProductQuery r =
     \<lparr>eq_from = wrap64 (wrap64 (sr_Page r - 1) * sr_PageSize r), eq_size = sr_PageSize r,
      eq_must = (if sr_Keyword r \<noteq> [] then [MultiMatch (sr_Keyword r)] else []),
      eq_filter = (if sr_Categories r \<noteq> [] then [Terms ''categories'' (sr_Categories r)] else [])
        @ price_range (sr_MinPrice r) (sr_MaxPrice r)
        @ (if 0 < sr_MerchantID r then [Term ''merchant_id'' (JInt (sr_MerchantID r))] else [])
        @ (if sr_InStockOnly r then [Term ''in_stock'' (JBool True)] else []),
      eq_sort = product_sort (sr_SortBy r), eq_highlight = sr_EnableHighlight r\<rparr>"

definition merchant_sort :: "string \<Rightarrow> string \<times> string" where
  "merchant_sort s =
     (if s = ''MERCHANT_SALES_DESC'' then (''sales_count'', ''desc'')
      else if s = ''MERCHANT_RATING_DESC'' then (''rating'', ''desc'')
      else if s = ''MERCHANT_NEW_ARRIVAL'' then (''created_at'', ''desc'') else (''_score'', ''desc''))"

definition buildMerchantQuery :: "SearchMerchantsReq \<Rightarrow> es_query" where
  "buildMerchantQuery r =
     \<lparr>eq_from = wrap64 (wrap64 (mr_Page r - 1) * mr_PageSize r), eq_size = mr_PageSize r,
      eq_must = (if mr_Keyword r \<noteq> [] then [MultiMatch (mr_Keyword r)] else []),
      eq_filter = (if mr_Region r \<noteq> [] then [Term ''region'' (JText (mr_Region r))] else [])
        @ (if 0 < mr_MinRating r then [Range ''rating'' (Some (mr_MinRating r)) None] else [])
        @ (if mr_Verified r = Some True then [Term ''verified'' (JBool True)] else []),
      eq_sort = merchant_sort (mr_SortBy r), eq_highlight = True\<rparr>"

text \<open>A gRPC request always asks for products in stock.\<close>

definition toDomainSearchProductsReq :: "SearchProductsReq \<Rightarrow> SearchProductsReq" where
  "toDomainSearchProductsReq r = r\<lparr>sr_InStockOnly := True\<rparr>"

section \<open>Answers\<close>

record es_hit =
  eh_source :: es_doc
  eh_score :: rat
  eh_name_marks :: "string list"
  eh_description_marks :: "string list"

text \<open>An answer of Elasticsearch that is an error status still decodes: to no hits.\<close>

datatype es_reply = EsUnreachable | EsError | EsBadBody | EsHits int "es_hit list"

record ProductSearchResult =
  rs_ID :: int
  rs_Name :: string
  rs_Description :: string
  rs_Picture :: string
  rs_SliderImgs :: "string list"
  rs_Price :: int
  rs_Categories :: "string list"
  rs_InStock :: bool
  rs_MerchantID :: int
  rs_MerchantName :: string
  rs_SalesCount :: int
  rs_Score :: rat
  rs_NameHighlight :: string
  rs_DescriptionHighlight :: string

definition j_int :: "JVal option \<Rightarrow> int" where "j_int v = (case v of Some (JInt i) \<Rightarrow> i | _ \<Rightarrow> 0)"
definition j_text :: "JVal option \<Rightarrow> string" where "j_text v = (case v of Some (JText s) \<Rightarrow> s | _ \<Rightarrow> [])"
definition j_texts :: "JVal option \<Rightarrow> string list" where "j_texts v = (case v of Some (JTexts s) \<Rightarrow> s | _ \<Rightarrow> [])"
definition j_bool :: "JVal option \<Rightarrow> bool" where "j_bool v = (case v of Some (JBool b) \<Rightarrow> b | _ \<Rightarrow> False)"

definition first_mark :: "bool \<Rightarrow> string list \<Rightarrow> string" where
  "first_mark highlight ms = (if highlight then (case ms of [] \<Rightarrow> [] | m # _ \<Rightarrow> m) else [])"

definition hitToProduct :: "es_hit \<Rightarrow> bool \<Rightarrow> ProductSearchResult" where
  "hitToProduct h highlight =
     (let d = eh_source h in
      \<lparr>rs_ID = j_int (d ''id''), rs_Name = j_text (d ''name''), rs_Description = j_text (d ''description''),
       rs_Picture = j_text (d ''picture''), rs_SliderImgs = j_texts (d ''slider_imgs''), rs_Price = j_int (d ''price''),
       rs_Categories = j_texts (d ''categories''), rs_InStock = j_bool (d ''in_stock''),
       rs_MerchantID = j_int (d ''merchant_id''), rs_MerchantName = j_text (d ''merchant_name''),
       rs_SalesCount = j_int (d ''sales_count''), rs_Score = eh_score h,
       rs_NameHighlight = first_mark highlight (eh_name_marks h),
       rs_DescriptionHighlight = first_mark highlight (eh_description_marks h)\<rparr>)"

definition reply_hits :: "es_reply \<Rightarrow> (int \<times> es_hit list) option" where
  "reply_hits r = (case r of EsUnreachable \<Rightarrow> None | EsBadBody \<Rightarrow> None | EsError \<Rightarrow> Some (0, []) | EsHits n hs \<Rightarrow> Some (n, hs))"

definition SearchProducts :: "(es_query \<Rightarrow> es_reply) \<Rightarrow> SearchProductsReq \<Rightarrow> (ProductSearchResult list \<times> int \<times> int \<times> int) option" where
  "SearchProducts es r =
     map_option (\<lambda>(n, hs). (map (\<lambda>h. hitToProduct h (sr_EnableHighlight r)) hs, n, sr_Page r, sr_PageSize r))
       (reply_hits (es (buildProductQuery r)))"

definition search_handler_SearchProducts ::
  "(es_query \<Rightarrow> es_reply) \<Rightarrow> SearchProductsReq \<Rightarrow> (ProductSearchResult list \<times> int \<times> int \<times> int) option" where
  "search_handler_SearchProducts es r = SearchProducts es (toDomainSearchProductsReq r)"

section \<open>AI search\<close>

record QueryIntent =
  qi_RewrittenQuery :: string
  qi_Categories :: "string list"
  qi_MinPrice :: int
  qi_MaxPrice :: int
  qi_SortBy :: string
  qi_Intent :: string
  qi_NeedRAG :: bool

definition defaultIntent :: "string \<Rightarrow> QueryIntent" where
  "defaultIntent q = \<lparr>qi_RewrittenQuery = trim_space q, qi_Categories = [], qi_MinPrice = 0, qi_MaxPrice = 0,
     qi_SortBy = [], qi_Intent = [], qi_NeedRAG = True\<rparr>"

definition TrimPrefix :: "string \<Rightarrow> string \<Rightarrow> string" where
  "TrimPrefix p s = (if take (length p) s = p then drop (length p) s else s)"

definition TrimSuffix :: "string \<Rightarrow> string \<Rightarrow> string" where
  "TrimSuffix p s = rev (TrimPrefix (rev p) (rev s))"

definition cleanModelContent :: "string \<Rightarrow> string" where
  "cleanModelContent content =
     (let fence = replicate 3 (CHR 0x60);
          c = trim_space content; c = TrimPrefix (fence @ ''json'') c; c = TrimPrefix fence c; c = TrimSuffix fence c
      in trim_space c)"

text \<open>The fields of the model's JSON answer.\<close>

record parsed_intent =
  pn_rewritten :: string
  pn_categories :: "string list"
  pn_min :: int
  pn_max :: int
  pn_sort :: string
  pn_intent :: string
  pn_need_rag :: "bool option"

definition understandQuery :: "(string \<Rightarrow> parsed_intent option) \<Rightarrow> string option \<Rightarrow> string \<Rightarrow> QueryIntent option" where
  "understandQuery json llm query =
     (case llm of
        None \<Rightarrow> None
      | Some content \<Rightarrow>
          (let c = cleanModelContent content in
           if c = [] then Some (defaultIntent query)
           else (case json c of
                   None \<Rightarrow> Some (defaultIntent query)
                 | Some p \<Rightarrow>
                     (let i = defaultIntent query in
                      Some \<lparr>qi_RewrittenQuery = (if trim_space (pn_rewritten p) \<noteq> [] then trim_space (pn_rewritten p)
                                                 else qi_RewrittenQuery i),
                            qi_Categories = pn_categories p, qi_MinPrice = pn_min p, qi_MaxPrice = pn_max p,
                            qi_SortBy = trim_space (pn_sort p), qi_Intent = trim_space (pn_intent p),
                            qi_NeedRAG = (case pn_need_rag p of None \<Rightarrow> True | Some b \<Rightarrow> b)\<rparr>))))"

definition BuildFiltersFromIntent :: "QueryIntent \<Rightarrow> es_clause list" where
  "BuildFiltersFromIntent i =
     (if qi_Categories i \<noteq> [] then [Terms ''categories'' (qi_Categories i)] else [])
     @ price_range (qi_MinPrice i) (qi_MaxPrice i) @ [Term ''in_stock'' (JBool True)]"

definition recallTopK :: int where "recallTopK = 100"

definition BuildKeywordQuery :: "string \<Rightarrow> int \<Rightarrow> es_clause list \<Rightarrow> es_query" where
  "BuildKeywordQuery keyword topK filters =
     \<lparr>eq_from = 0, eq_size = topK, eq_must = [MultiMatch keyword], eq_filter = filters,
      eq_sort = (''_score'', ''desc''), eq_highlight = False\<rparr>"

record RecallResult =
  rr_ProductID :: int
  rr_Score :: rat
  rr_SalesCount :: int

definition recall_hits :: "es_reply \<Rightarrow> RecallResult list option" where
  "recall_hits r = map_option (\<lambda>(_, hs). map (\<lambda>h. \<lparr>rr_ProductID = j_int (eh_source h ''id''), rr_Score = eh_score h,
     rr_SalesCount = j_int (eh_source h ''sales_count'')\<rparr>) hs) (reply_hits r)"

definition or_empty :: "'a list option \<Rightarrow> 'a list" where
  "or_empty x = (case x of None \<Rightarrow> [] | Some xs \<Rightarrow> xs)"

definition multiRecall :: "embedder \<Rightarrow> (es_query \<Rightarrow> es_reply) \<Rightarrow> (vector \<Rightarrow> int \<Rightarrow> es_clause list \<Rightarrow> es_reply) \<Rightarrow> QueryIntent
    \<Rightarrow> RecallResult list \<times> RecallResult list" where
  "multiRecall em es knn i =
     (let filters = BuildFiltersFromIntent i;
          keyword = or_empty (recall_hits (es (BuildKeywordQuery (qi_RewrittenQuery i) recallTopK filters)))
      in case em (qi_RewrittenQuery i) of
           Some (v # _) \<Rightarrow> (keyword, or_empty (recall_hits (knn v recallTopK filters)))
         | _ \<Rightarrow> (keyword, []))"

record rankCandidate =
  rc_id :: int
  rc_rrfScore :: rat
  rc_salesCount :: int

text \<open>The map of signals as the list of its entries in the order they came.\<close>

fun upsert_signal :: "int \<Rightarrow> int \<Rightarrow> rat \<Rightarrow> rankCandidate list \<Rightarrow> rankCandidate list" where
  "upsert_signal i sales x [] = [\<lparr>rc_id = i, rc_rrfScore = fl (0 + x), rc_salesCount = sales\<rparr>]"
| "upsert_signal i sales x (c # cs) =
     (if rc_id c = i then c\<lparr>rc_rrfScore := fl (rc_rrfScore c + x), rc_salesCount := max (rc_salesCount c) sales\<rparr> # cs
      else c # upsert_signal i sales x cs)"

fun add_recall :: "rat \<Rightarrow> nat \<Rightarrow> RecallResult list \<Rightarrow> rankCandidate list \<Rightarrow> rankCandidate list" where
  "add_recall w rank [] cs = cs"
| "add_recall w rank (r # rs) cs =
     add_recall w (rank + 1) rs (upsert_signal (rr_ProductID r) (rr_SalesCount r) (fl (w / of_nat (60 + rank + 1))) cs)"

text \<open>The order in which Go ranges over the map is \<open>walk\<close>, a permutation.\<close>

definition candidate_key :: "rankCandidate \<Rightarrow> rat \<times> int" where
  "candidate_key c = (- rc_rrfScore c, rc_id c)"

definition fusionRank :: "(rankCandidate list \<Rightarrow> rankCandidate list) \<Rightarrow> RecallResult list \<Rightarrow> RecallResult list \<Rightarrow> bool \<Rightarrow> rankCandidate list" where
  "fusionRank walk keyword vec needRAG =
     (let (kw, vw) = (if needRAG then (fl (8 / 10), fl (12 / 10)) else (fl (12 / 10), fl (8 / 10))) in
      sort_key candidate_key (walk (add_recall vw 0 vec (add_recall kw 0 keyword []))))"

text \<open>\<open>log2\<close> is \<open>math.Log2\<close>.\<close>

definition sales_score :: "(rat \<Rightarrow> rat) \<Rightarrow> rankCandidate \<Rightarrow> rat" where
  "sales_score log2 c = fl (rc_rrfScore c * fl (1 + fl (fl (1 / 10) * log2 (fl (1 + fl (of_int (rc_salesCount c)))))))"

definition reRankBySales :: "(rat \<Rightarrow> rat) \<Rightarrow> rankCandidate list \<Rightarrow> int list" where
  "reRankBySales log2 cs = map snd (sort_key (\<lambda>(x, i). (- x, i)) (map (\<lambda>c. (sales_score log2 c, rc_id c)) cs))"

definition GetProductsByIDs :: "(int list \<Rightarrow> es_reply) \<Rightarrow> bool \<Rightarrow> int list \<Rightarrow> ProductSearchResult list option" where
  "GetProductsByIDs es highlight ids =
     map_option (\<lambda>(_, hs). map (\<lambda>h. hitToProduct h highlight) hs) (reply_hits (es ids))"

definition fetchProductsByIDs :: "(int list \<Rightarrow> es_reply) \<Rightarrow> bool \<Rightarrow> int list \<Rightarrow> ProductSearchResult list option" where
  "fetchProductsByIDs es highlight ids =
     (if ids = [] then Some []
      else map_option (\<lambda>ps. List.map_filter (\<lambda>i. map_of (rev (map (\<lambda>p. (rs_ID p, p)) ps)) i) ids)
             (GetProductsByIDs es highlight ids))"

definition normalizePaging :: "int \<Rightarrow> int \<Rightarrow> int \<times> int" where
  "normalizePaging page pageSize = (if page \<le> 0 then 1 else page, if pageSize \<le> 0 then 10 else pageSize)"

text \<open>A slice \<open>xs[a:b]\<close>; \<open>None\<close> is the panic of bounds out of range.\<close>

definition go_slice :: "int \<Rightarrow> int \<Rightarrow> 'a list \<Rightarrow> 'a list option" where
  "go_slice a b xs = (if 0 \<le> a \<and> a \<le> b \<and> b \<le> int (length xs) then Some (take (nat (b - a)) (drop (nat a) xs)) else None)"

record ai_services =
  as_llm :: "string option"
  as_json :: "string \<Rightarrow> parsed_intent option"
  as_embed :: embedder
  as_search :: "es_query \<Rightarrow> es_reply"
  as_knn :: "vector \<Rightarrow> int \<Rightarrow> es_clause list \<Rightarrow> es_reply"
  as_ids :: "int list \<Rightarrow> es_reply"
  as_walk :: "rankCandidate list \<Rightarrow> rankCandidate list"
  as_log2 :: "rat \<Rightarrow> rat"
  as_rag :: "ProductSearchResult list \<Rightarrow> string option"

record AISearchReq =
  ar_Query :: string
  ar_Page :: int
  ar_PageSize :: int
  ar_EnableRAG :: bool
  ar_EnableHighlight :: bool

record AISearchResp =
  ap_Products :: "ProductSearchResult list"
  ap_Total :: int
  ap_Page :: int
  ap_PageSize :: int
  ap_Intent :: QueryIntent
  ap_Summary :: string

datatype ai_result = AiOk AISearchResp | AiFetchFailed | AiPanic

definition ai_intent :: "ai_services \<Rightarrow> string \<Rightarrow> QueryIntent" where
  "ai_intent sv q = (case understandQuery (as_json sv) (as_llm sv) q of None \<Rightarrow> defaultIntent q | Some i \<Rightarrow> i)"

definition ai_ranked :: "ai_services \<Rightarrow> QueryIntent \<Rightarrow> int list" where
  "ai_ranked sv i =
     (let (keyword, vec) = multiRecall (as_embed sv) (as_search sv) (as_knn sv) i in
      reRankBySales (as_log2 sv) (fusionRank (as_walk sv) keyword vec (qi_NeedRAG i)))"

definition AISearch_Execute :: "ai_services \<Rightarrow> AISearchReq \<Rightarrow> ai_result" where
  "AISearch_Execute sv r =
     (let (page, pageSize) = normalizePaging (ar_Page r) (ar_PageSize r);
          intent = ai_intent sv (ar_Query r);
          ids = ai_ranked sv intent; n = int (length ids);
          pageStart = wrap64 (wrap64 (page - 1) * pageSize);
          pageEnd = wrap64 (pageStart + pageSize);
          pageEnd = (if n < pageEnd then n else pageEnd);
          resp = (\<lambda>ps summary. \<lparr>ap_Products = ps, ap_Total = n, ap_Page = page, ap_PageSize = pageSize,
                    ap_Intent = intent, ap_Summary = summary\<rparr>) in
      if n \<le> pageStart then AiOk (resp [] [])
      else (case go_slice pageStart pageEnd ids of
              None \<Rightarrow> AiPanic
            | Some pageIDs \<Rightarrow>
                (case fetchProductsByIDs (as_ids sv) (ar_EnableHighlight r) pageIDs of
                   None \<Rightarrow> AiFetchFailed
                 | Some ps \<Rightarrow> AiOk (resp ps
                     (if ar_EnableRAG r \<and> qi_NeedRAG intent \<and> ps \<noteq> []
                      then (case as_rag sv ps of None \<Rightarrow> [] | Some s \<Rightarrow> trim_space s) else [])))))"

section \<open>HTTP parameters\<close>

definition defaultInt64 :: "string \<Rightarrow> int \<Rightarrow> int" where
  "defaultInt64 q fallback =
     (let raw = trim_space q in if raw = [] then fallback else case parse_int raw of None \<Rightarrow> fallback | Some v \<Rightarrow> v)"

definition parse_bool :: "string \<Rightarrow> bool option" where
  "parse_bool s =
     (if s \<in> {''1'', ''t'', ''T'', ''true'', ''TRUE'', ''True''} then Some True
      else if s \<in> {''0'', ''f'', ''F'', ''false'', ''FALSE'', ''False''} then Some False else None)"

definition defaultBool :: "string \<Rightarrow> bool \<Rightarrow> bool" where
  "defaultBool q fallback =
     (let raw = trim_space q in if raw = [] then fallback else case parse_bool raw of None \<Rightarrow> fallback | Some v \<Rightarrow> v)"

fun split_comma :: "string \<Rightarrow> string list" where
  "split_comma [] = [[]]"
| "split_comma (c # cs) =
     (if c = CHR '','' then [] # split_comma cs
      else (case split_comma cs of [] \<Rightarrow> [[c]] | w # ws \<Rightarrow> (c # w) # ws))"

text \<open>The values of a key are its array; \<open>Query\<close> is the first of them.\<close>

definition query_first :: "string list \<Rightarrow> string" where
  "query_first vs = (case vs of [] \<Rightarrow> [] | v # _ \<Rightarrow> trim_space v)"

definition queryStrings :: "string list \<Rightarrow> string list \<Rightarrow> string list" where
  "queryStrings primary secondary =
     (let values = primary @ secondary
            @ (if query_first primary \<noteq> [] then split_comma (query_first primary) else [])
            @ (if query_first secondary \<noteq> [] then split_comma (query_first secondary) else [])
      in rev (remdups (rev (filter (\<lambda>v. v \<noteq> []) (map trim_space values)))))"

end
