(* ===== verification/ProductSpec.thy ===== *)
theory ProductSpec
  imports Product
begin

text \<open>
  Properties of the product service: quotes one query at a time, what a deletion by somebody else than the
  merchant does, and what is read back after a write.
\<close>

section \<open>The tables\<close>

definition sku_key :: "ProductSKU \<Rightarrow> int \<times> int" where
  "sku_key s = (sk_ProductID s, sk_SKUID s)"

definition tables_ok :: "product_db \<Rightarrow> bool" where
  "tables_ok d \<longleftrightarrow> distinct (map rw_ID (pt_rows d)) \<and> distinct (map sku_key (pt_skus d))"

lemma set_product_keeps [simp]:
  "rw_ID (set_product now u r) = rw_ID r" "rw_DeletedAt (set_product now u r) = rw_DeletedAt r"
  by (simp_all add: set_product_def)

lemma tables_ok_Insert:
  assumes "tables_ok d" shows "tables_ok (snd (dao_Insert up now r d))"
  using assms by (auto simp: tables_ok_def dao_Insert_def Let_def list_ex_iff image_iff)

lemma tables_ok_Update:
  assumes "tables_ok d" shows "tables_ok (snd (dao_Update up now u d))"
  using assms by (simp add: tables_ok_def dao_Update_def Let_def table_simps)

lemma tables_ok_Delete:
  assumes "tables_ok d" shows "tables_ok (snd (dao_Delete up now i user d))"
  using assms by (simp add: tables_ok_def dao_Delete_def table_simps)

lemma tables_ok_DeleteSKUs:
  assumes "tables_ok d" shows "tables_ok (snd (dao_DeleteSKUsByProductID up now i d))"
  using assms by (simp add: tables_ok_def dao_DeleteSKUsByProductID_def table_simps sku_key_def)

lemma tables_ok_Upsert:
  assumes "tables_ok d" shows "tables_ok (snd (dao_UpsertSKU up now s d))"
  using assms by (auto simp: tables_ok_def dao_UpsertSKU_def Let_def table_simps sku_key_def list_ex_iff image_iff)

definition product_row :: "product_db \<Rightarrow> int \<Rightarrow> ProductRow option" where
  "product_row d i = (case find_row rw_ID i (pt_rows d) of
     None \<Rightarrow> None | Some r \<Rightarrow> if live_product r then Some r else None)"

definition sku_row :: "product_db \<Rightarrow> ProductQuery \<Rightarrow> ProductSKU option" where
  "sku_row d q = find_row sku_key (q_ID q, q_SKUID q) (pt_skus d)"

lemma filter_conj_row:
  assumes "distinct (map key rows)"
  shows "filter (\<lambda>r. key r = k \<and> P r) rows
       = (case find_row key k rows of None \<Rightarrow> [] | Some r \<Rightarrow> if P r then [r] else [])"
proof -
  have "filter (\<lambda>r. key r = k \<and> P r) rows = filter P (filter (\<lambda>r. key r = k) rows)"
    by (simp add: conj_commute)
  then show ?thesis using filter_unique [OF assms, of k] by (simp split: option.splits)
qed

lemma find_is_hd: "find P xs = (case filter P xs of [] \<Rightarrow> None | x # _ \<Rightarrow> Some x)"
  by (induction xs) auto

lemma find_conj_row:
  assumes "distinct (map key rows)"
  shows "find (\<lambda>r. P r \<and> key r = k) rows
       = (case find_row key k rows of None \<Rightarrow> None | Some r \<Rightarrow> if P r then Some r else None)"
  using filter_conj_row [OF assms, of k P] by (simp add: find_is_hd conj_commute split: option.splits)

lemma FindByID_row:
  "tables_ok d \<Longrightarrow> dao_FindByID True i d = (case product_row d i of None \<Rightarrow> Inl ProductNotFound | Some r \<Rightarrow> Inr r)"
  by (simp add: dao_FindByID_def product_row_def tables_ok_def find_conj_row split: option.splits)

lemma FindPrice_row:
  assumes "tables_ok d" "0 < q_SKUID q"
  shows "dao_FindPriceInStock True q d
       = (case sku_row d q of None \<Rightarrow> Inl ProductNotFound
          | Some s \<Rightarrow> if live_sku s then Inr (sk_Price s, normalizeCurrency (sk_Currency s), sk_InStock s)
                      else Inl ProductNotFound)"
proof -
  have "(\<lambda>s. live_sku s \<and> sk_ProductID s = q_ID q \<and> sk_SKUID s = q_SKUID q)
      = (\<lambda>s. live_sku s \<and> sku_key s = (q_ID q, q_SKUID q))" by (auto simp: sku_key_def)
  then show ?thesis using assms
    by (simp add: dao_FindPriceInStock_def sku_row_def tables_ok_def find_conj_row split: option.splits)
qed

section \<open>Quotes\<close>

text \<open>The quote of one query: the row of its SKU, deleted or not, joined with the live product.\<close>

definition quote_of :: "product_db \<Rightarrow> ProductQuery \<Rightarrow> CatalogQuote option" where
  "quote_of d q =
     (case (sku_row d q, product_row d (q_ID q)) of
        (Some s, Some p) \<Rightarrow> Some \<lparr>cq_ProductID = q_ID q, cq_SKUID = q_SKUID q, cq_Price = sk_Price s,
            cq_Currency = normalizeCurrency (sk_Currency s), cq_InStock = sk_InStock s \<and> rw_InStock p\<rparr>
      | _ \<Rightarrow> None)"

fun quote_list :: "product_db \<Rightarrow> ProductQuery list \<Rightarrow> product_err + CatalogQuote list" where
  "quote_list d [] = Inr []"
| "quote_list d (q # qs) =
     (case quote_of d q of None \<Rightarrow> Inl (NotFoundFor q) | Some x \<Rightarrow> map_sum (\<lambda>e. e) ((#) x) (quote_list d qs))"

lemma fold_join:
  assumes "distinct (map skey ss)" "\<And>s. ps s = (case row (fst (skey s)) of None \<Rightarrow> [] | Some p \<Rightarrow> [p])"
    and "\<And>s p. xkey (mk s p) = skey s"
  shows "fold (\<lambda>x m. m(xkey x \<mapsto> f x)) (concat (map (\<lambda>s. map (mk s) (ps s)) ss)) m k
       = (case (find_row skey k ss, row (fst k)) of (Some s, Some p) \<Rightarrow> Some (f (mk s p)) | _ \<Rightarrow> m k)"
  using assms(1)
proof (induction ss arbitrary: m)
  case (Cons s ss)
  have "skey s = k \<Longrightarrow> find_row skey k ss = None" using Cons.prems by (auto simp: find_row_None_iff)
  then show ?case using Cons by (cases "row (fst (skey s))") (auto simp: assms(2,3) split: option.splits)
qed simp

lemma wanted_iff:
  assumes "first_error validateProductQuery qs = None"
  shows "wanted qs i k \<longleftrightarrow> (i, k) \<in> (\<lambda>q. (q_ID q, q_SKUID q)) ` set qs"
  using assms
proof (induction qs)
  case (Cons q qs)
  then show ?case
    by (auto simp: wanted_def validateProductQuery_def split: option.splits if_splits)
qed (simp add: wanted_def)

lemma pick_quotes_list:
  "(\<And>q. q \<in> set qs \<Longrightarrow> m (q_ID q, q_SKUID q) = quote_of d q) \<Longrightarrow> pick_quotes m qs = quote_list d qs"
  by (induction qs) (auto split: option.splits)

lemma first_error_positive: "first_error validateProductQuery qs = None \<Longrightarrow> q \<in> set qs \<Longrightarrow> 0 < q_ID q \<and> 0 < q_SKUID q"
  by (induction qs) (auto simp: validateProductQuery_def split: option.splits if_splits)

text \<open>C31: checkout asks for many quotes at once and gets, for every query in the order asked, price and currency
  of that SKU and whether both the SKU and its live product are in stock; the first query without
  such rows, or the first that is malformed, fails them all.  Nothing stale is served, for no cache is read.\<close>

theorem product_quotes:
  assumes "tables_ok d" "pe_db env 0" "\<not> pe_downgrade env"
  shows "product_GetProductQuotes env qs d
       = (case first_error validateProductQuery qs of Some e \<Rightarrow> Inl e | None \<Rightarrow> quote_list d qs)"
proof (cases "qs = [] \<or> first_error validateProductQuery qs \<noteq> None")
  case True
  then show ?thesis by (auto simp: product_GetProductQuotes_def split: option.splits)
next
  case False
  then have ne: "qs \<noteq> []" and ok: "first_error validateProductQuery qs = None" by auto
  let ?K = "(\<lambda>q. (q_ID q, q_SKUID q)) ` set qs"
  let ?mk = "\<lambda>s p. \<lparr>cq_ProductID = sk_ProductID s, cq_SKUID = sk_SKUID s, cq_Price = sk_Price s,
                   cq_Currency = sk_Currency s, cq_InStock = sk_InStock s \<and> rw_InStock p\<rparr>"
  let ?ps = "\<lambda>s. filter (\<lambda>p. rw_ID p = sk_ProductID s \<and> live_product p) (pt_rows d)"
  let ?ss = "filter (\<lambda>s. wanted qs (sk_ProductID s) (sk_SKUID s)) (pt_skus d)"
  let ?m = "fold (\<lambda>x m. m((cq_ProductID x, cq_SKUID x) \<mapsto> x\<lparr>cq_Currency := normalizeCurrency (cq_Currency x)\<rparr>))
              (concat (map (\<lambda>s. map (?mk s) (?ps s)) ?ss)) (\<lambda>_. None)"
  have ss: "?ss = filter (\<lambda>s. sku_key s \<in> ?K) (pt_skus d)" using wanted_iff [OF ok] by (simp add: sku_key_def)
  have dist: "distinct (map sku_key ?ss)" using assms(1) by (simp add: tables_ok_def distinct_map_filter)
  have ps: "?ps s = (case product_row d (fst (sku_key s)) of None \<Rightarrow> [] | Some p \<Rightarrow> [p])" for s
    using filter_conj_row [of rw_ID "pt_rows d" "sk_ProductID s" live_product] assms(1)
    by (simp add: tables_ok_def product_row_def sku_key_def split: option.splits)
  have m: "?m (q_ID q, q_SKUID q) = quote_of d q" if q: "q \<in> set qs" for q
  proof -
    have f: "find_row sku_key (q_ID q, q_SKUID q) ?ss = sku_row d q"
      unfolding ss sku_row_def by (rule find_row_filter) (use q in auto)
    have k: "sku_row d q = Some s \<Longrightarrow> sk_ProductID s = q_ID q \<and> sk_SKUID s = q_SKUID q" for s
      by (auto simp: sku_row_def sku_key_def dest: find_row_SomeD)
    show ?thesis
      using fold_join [where skey = sku_key and ps = ?ps and row = "product_row d" and mk = ?mk
          and xkey = "\<lambda>x. (cq_ProductID x, cq_SKUID x)" and f = "\<lambda>x. x\<lparr>cq_Currency := normalizeCurrency (cq_Currency x)\<rparr>"
          and m = "\<lambda>_. None" and k = "(q_ID q, q_SKUID q)", OF dist ps] k
      by (simp add: sku_key_def f quote_of_def split: option.splits)
  qed
  have "list_ex (\<lambda>q. 0 < q_ID q \<and> 0 < q_SKUID q) qs"
    using first_error_positive [OF ok] ne by (cases qs) (auto simp: list_ex_iff)
  then have "product_GetProductQuotes env qs d = pick_quotes ?m qs"
    using assms ne ok by (simp add: product_GetProductQuotes_def repo_GetProductQuotes_def dao_FindQuotes_def)
  then show ?thesis using pick_quotes_list [of qs ?m d] m ok by simp
qed

definition shop :: product_db where
  "shop = \<lparr>pt_rows = [\<lparr>rw_ID = 1, rw_CreatedAt = 0, rw_UpdatedAt = 0, rw_DeletedAt = None, rw_Name = ''tea'', rw_Price = 900,
       rw_Currency = ''CNY'', rw_InStock = True, rw_MerchantID = 7, rw_Description = None, rw_Picture = None,
       rw_SlideImgs = JsonStrings [], rw_Categories = JsonStrings [''food''], rw_MerchantName = None\<rparr>],
     pt_skus = [\<lparr>sk_ProductID = 1, sk_SKUID = 11, sk_Price = 850, sk_Currency = ''CNY'', sk_InStock = True,
       sk_CreatedAt = 0, sk_UpdatedAt = 0, sk_DeletedAt = None\<rparr>], pt_next = 2\<rparr>"

definition all_up :: product_env where
  "all_up = \<lparr>pe_now = 100, pe_downgrade = False, pe_text = Some, pe_db = (\<lambda>_. True), pe_redis = (\<lambda>_. True)\<rparr>"

definition cold :: product_cache where
  "cold = \<lparr>pc_lists = Map.empty, pc_basic = Map.empty, pc_price = Map.empty\<rparr>"

lemma shop_ok: "tables_ok shop"
  by (simp add: tables_ok_def shop_def)

lemma product_quotes_witness:
  "product_GetProductQuotes all_up [\<lparr>q_ID = 1, q_SKUID = 11\<rparr>] shop
   = Inr [\<lparr>cq_ProductID = 1, cq_SKUID = 11, cq_Price = 850, cq_Currency = ''CNY'', cq_InStock = True\<rparr>]"
  using product_quotes [OF shop_ok, of all_up "[\<lparr>q_ID = 1, q_SKUID = 11\<rparr>]"]
  by (simp add: all_up_def validateProductQuery_def quote_of_def sku_row_def product_row_def live_product_def
      shop_def sku_key_def normalizeCurrency_def)

section \<open>Reading back a write\<close>

lemma find_row_appended:
  "find_row key k (xs @ [x]) = (if find_row key k xs = None \<and> key x = k then Some x else find_row key k xs)"
  by (simp add: find_row_append split: option.splits)

lemma list_ex_row: "list_ex (\<lambda>r. key r = k) rows \<longleftrightarrow> find_row key k rows \<noteq> None"
  by (induction rows) auto

lemma Upsert_sku_row:
  assumes "dao_UpsertSKU up now s d = (Inr (), d')" "0 < sk_ProductID s" "0 < sk_SKUID s"
    and "q_ID q = sk_ProductID s" "q_SKUID q = sk_SKUID s"
  shows "\<exists>r. sku_row d' q = Some r \<and> sk_Price r = sk_Price s \<and> sk_Currency r = normalizeCurrency (sk_Currency s)
           \<and> sk_InStock r \<and> sk_DeletedAt r = (case sku_row d q of None \<Rightarrow> None | Some x \<Rightarrow> sk_DeletedAt x)"
proof -
  have same: "(\<lambda>x. sk_ProductID x = sk_ProductID s \<and> sk_SKUID x = sk_SKUID s) = (\<lambda>x. sku_key x = (q_ID q, q_SKUID q))"
    using assms(4,5) by (auto simp: sku_key_def)
  have ex: "list_ex (\<lambda>x. sku_key x = (q_ID q, q_SKUID q)) (pt_skus d) \<longleftrightarrow> sku_row d q \<noteq> None"
    unfolding sku_row_def by (rule list_ex_row)
  show ?thesis
  proof (cases "sku_row d q")
    case None
    let ?n = "s\<lparr>sk_Currency := normalizeCurrency (sk_Currency s), sk_InStock := True, sk_CreatedAt := now,
                sk_UpdatedAt := now, sk_DeletedAt := None\<rparr>"
    have "d' = d\<lparr>pt_skus := pt_skus d @ [?n]\<rparr>"
      using assms(1-3) ex None by (auto simp: dao_UpsertSKU_def Let_def same gorm_default_def split: if_splits)
    moreover have "sku_key ?n = (q_ID q, q_SKUID q)" using assms(4,5) by (simp add: sku_key_def)
    ultimately have "sku_row d' q = Some ?n" using None by (simp add: sku_row_def find_row_appended)
    then show ?thesis using None by simp
  next
    case (Some r)
    let ?f = "\<lambda>x. x\<lparr>sk_Price := sk_Price s, sk_Currency := normalizeCurrency (sk_Currency s), sk_InStock := True,
                sk_UpdatedAt := now\<rparr>"
    have "d' = d\<lparr>pt_skus := update_where (\<lambda>x. sku_key x = (q_ID q, q_SKUID q)) ?f (pt_skus d)\<rparr>"
      using assms(1-3) ex Some by (auto simp: dao_UpsertSKU_def Let_def same gorm_default_def split: if_splits)
    then have "sku_row d' q = Some (?f r)"
      using Some find_row_SomeD [OF Some [unfolded sku_row_def]]
      by (simp add: sku_row_def find_row_update sku_key_def)
    then show ?thesis using Some by simp
  qed
qed

lemma find_row_update_other:
  assumes "\<And>r. key (f r) = key r" "\<And>r. P r \<Longrightarrow> key r \<noteq> k"
  shows "find_row key k (update_where P f rows) = find_row key k rows"
  using assms(2) by (induction rows) (auto simp: assms(1))

lemma Upsert_other:
  assumes "(q_ID q, q_SKUID q) \<noteq> sku_key s"
  shows "sku_row (snd (dao_UpsertSKU up now s d)) q = sku_row d q"
proof -
  have "find_row sku_key (q_ID q, q_SKUID q)
          (update_where (\<lambda>x. sk_ProductID x = sk_ProductID s \<and> sk_SKUID x = sk_SKUID s) f (pt_skus d))
      = find_row sku_key (q_ID q, q_SKUID q) (pt_skus d)" if "\<And>r. sku_key (f r) = sku_key r" for f
    by (rule find_row_update_other) (use assms that in \<open>auto simp: sku_key_def\<close>)
  then show ?thesis using assms
    by (auto simp: dao_UpsertSKU_def Let_def sku_row_def find_row_appended sku_key_def)
qed

lemma Upsert_products [simp]: "pt_rows (snd (dao_UpsertSKU up now s d)) = pt_rows d"
  by (simp add: dao_UpsertSKU_def Let_def)

lemma Update_skus [simp]: "pt_skus (snd (dao_Update up now u d)) = pt_skus d"
  by (simp add: dao_Update_def Let_def)

lemma Update_row:
  assumes "dao_Update up now u d = (Inr (), d')" "product_row d (rw_ID u) = Some r"
  shows "product_row d' (rw_ID u) = Some (set_product now u r)"
proof -
  have f: "find_row rw_ID (rw_ID u) (pt_rows d) = Some r" "live_product r"
    using assms(2) by (auto simp: product_row_def split: option.splits if_splits)
  have d': "d' = d\<lparr>pt_rows := update_where (\<lambda>r. live_product r \<and> rw_ID r = rw_ID u) (set_product now u) (pt_rows d)\<rparr>"
    using assms(1) by (auto simp: dao_Update_def Let_def split: if_splits)
  show ?thesis using f find_row_SomeD [OF f(1)]
    by (simp add: d' product_row_def find_row_update live_product_def)
qed

lemma normalize_twice [simp]: "normalizeCurrency (normalizeCurrency c) = normalizeCurrency c"
  by (simp add: normalizeCurrency_def)

lemma opt_null_text [simp]: "opt_text (null_text s) = s"
  by (simp add: opt_text_def null_text_def)

lemma written_row_reads_back:
  "product_entityToDomain (set_product now (product_domainToEntity p) r)
   = Inr (p\<lparr>p_ID := rw_ID r, p_SKUID := 0, p_Currency := normalizeCurrency (p_Currency p)\<rparr>)"
  by (simp add: product_entityToDomain_def set_product_def product_domainToEntity_def)

lemma UpdateProduct_split:
  assumes "product_UpdateProduct env p s = (Inr x, s')"
  shows "validateProductForWrite p True = None
    \<and> (\<exists>d. dao_Update (pe_db env 0) (pe_now env) (product_domainToEntity p) (pvs_db s) = (Inr (), d)
         \<and> dao_UpsertSKU (pe_db env 1) (pe_now env) (product_domainToSKU p) d = (Inr (), pvs_db s'))
    \<and> x = (p_ID p, \<lparr>q_ID = p_ID p, q_SKUID = p_SKUID p\<rparr>)
    \<and> pvs_cache s' = deleteProductCache (pe_redis env 0) (pe_redis env 1) \<lparr>q_ID = p_ID p, q_SKUID = p_SKUID p\<rparr> (pvs_cache s)
    \<and> 0 < p_ID p \<and> 0 < p_SKUID p"
  using assms
  by (auto simp: product_UpdateProduct_def repo_UpdateProduct_def validateProductForWrite_def Let_def
      split: option.splits sum.splits prod.splits if_splits)


definition sold_out :: Product where
  "sold_out = \<lparr>p_ID = 1, p_SKUID = 11, p_Name = ''tea'', p_Description = ''green'', p_Picture = [], p_SlideImgs = [],
     p_Price = 800, p_Currency = [], p_Categories = [''food''], p_InStock = False, p_MerchantID = 7, p_MerchantName = []\<rparr>"

definition after_update :: product_svc where
  "after_update = snd (product_UpdateProduct all_up sold_out \<lparr>pvs_db = shop, pvs_cache = cold\<rparr>)"


section \<open>Deletion by somebody else\<close>

definition buried :: "product_db \<Rightarrow> ProductQuery \<Rightarrow> bool" where
  "buried d q \<longleftrightarrow> (\<exists>k. sku_row d q = Some k \<and> \<not> live_sku k)"

lemma Upsert_buried:
  assumes "buried d q" shows "buried (snd (dao_UpsertSKU up now s d)) q"
proof (cases "(q_ID q, q_SKUID q) = sku_key s")
  case False
  then show ?thesis using assms Upsert_other [OF False] by (simp add: buried_def)
next
  case True
  obtain r d' where u: "dao_UpsertSKU up now s d = (r, d')" by fastforce
  show ?thesis
  proof (cases "is_ok r \<and> 0 < sk_ProductID s \<and> 0 < sk_SKUID s")
    case False
    then have "d' = d" using u by (auto simp: dao_UpsertSKU_def Let_def split: if_splits)
    then show ?thesis using assms u by simp
  next
    case t: True
    then have "dao_UpsertSKU up now s d = (Inr (), d')" using u by (cases r) auto
    then show ?thesis using Upsert_sku_row [of up now s d d' q] t True assms u
      by (auto simp: buried_def live_sku_def sku_key_def)
  qed
qed

lemma Update_product_row: "product_row (snd (dao_Update up now u d)) i = None \<longleftrightarrow> product_row d i = None"
  by (auto simp: dao_Update_def Let_def product_row_def find_row_update live_product_def split: option.splits)

lemma UpdateProduct_db:
  assumes "P (pvs_db s)" "\<And>up now u d. P d \<Longrightarrow> P (snd (dao_Update up now u d))"
    and "\<And>up now k d. P d \<Longrightarrow> P (snd (dao_UpsertSKU up now k d))"
  shows "P (pvs_db (snd (product_UpdateProduct env p s)))"
proof -
  obtain r d where u: "dao_Update (pe_db env 0) (pe_now env) (product_domainToEntity p) (pvs_db s) = (r, d)" by fastforce
  have d: "P d" using assms(1,2) u by (metis snd_conv)
  obtain r' d' where k: "dao_UpsertSKU (pe_db env 1) (pe_now env) (product_domainToSKU p) d = (r', d')" by fastforce
  have "P d'" using assms(3) d k by (metis snd_conv)
  then show ?thesis using assms(1) d
    by (cases r; cases r') (simp_all add: product_UpdateProduct_def repo_UpdateProduct_def u k [unfolded One_nat_def] Let_def split: option.split)
qed

lemma UpdateProduct_keeps:
  assumes "buried (pvs_db s) q" "product_row (pvs_db s) i \<noteq> None" "tables_ok (pvs_db s)"
  shows "buried (pvs_db (snd (product_UpdateProduct env p s))) q
       \<and> product_row (pvs_db (snd (product_UpdateProduct env p s))) i \<noteq> None
       \<and> tables_ok (pvs_db (snd (product_UpdateProduct env p s)))"
proof (rule UpdateProduct_db)
  show "buried (pvs_db s) q \<and> product_row (pvs_db s) i \<noteq> None \<and> tables_ok (pvs_db s)" using assms by simp
next
  fix up now u d assume "buried d q \<and> product_row d i \<noteq> None \<and> tables_ok d"
  then show "buried (snd (dao_Update up now u d)) q \<and> product_row (snd (dao_Update up now u d)) i \<noteq> None
      \<and> tables_ok (snd (dao_Update up now u d))"
    by (simp only: Update_product_row tables_ok_Update buried_def sku_row_def Update_skus) simp
next
  fix up now k d assume "buried d q \<and> product_row d i \<noteq> None \<and> tables_ok d"
  then show "buried (snd (dao_UpsertSKU up now k d)) q \<and> product_row (snd (dao_UpsertSKU up now k d)) i \<noteq> None
      \<and> tables_ok (snd (dao_UpsertSKU up now k d))"
    by (simp add: Upsert_buried tables_ok_Upsert product_row_def)
qed

lemma load_prices_keys:
  "fst (load_prices env i ks m c) key = Some x \<Longrightarrow> m key = Some x \<or> (\<exists>k \<in> set ks. sku_key k = key)"
  by (induction ks arbitrary: i m c) (fastforce simp: Let_def sku_key_def split: if_splits)+

lemma loaded_prices:
  assumes "loadPriceStocksByQueries env i qs s = (Inr prices, s')" "prices key \<noteq> None"
  shows "\<exists>k \<in> set (pt_skus (pvs_db s)). live_sku k \<and> sku_key k = key"
proof -
  obtain ks where ks: "dao_FindPriceInStocks (pe_db env 1) qs (pvs_db s) = Inr ks"
      "prices = fst (load_prices env i ks (\<lambda>_. None) (pvs_cache s))"
    using assms by (auto simp: loadPriceStocksByQueries_def split: if_splits sum.splits prod.splits)
  then have "\<exists>k \<in> set ks. sku_key k = key" using assms(2) load_prices_keys [of env i ks "\<lambda>_. None" _ key] by auto
  then show ?thesis using ks(1) by (auto simp: dao_FindPriceInStocks_def split: if_splits)
qed

lemma assemble_prices: "assemble basics prices qs = Inr ps \<Longrightarrow> q \<in> set qs \<Longrightarrow> prices (q_ID q, q_SKUID q) \<noteq> None"
proof (induction qs arbitrary: ps)
  case (Cons x qs)
  then show ?case by (cases "assemble basics prices qs") (auto split: option.splits)
qed simp

lemma buried_not_found:
  assumes "tables_ok (pvs_db s)" "buried (pvs_db s) q" "q \<in> set qs"
  shows "\<not> is_ok (fst (repo_GetProducts env qs s))"
proof
  assume "is_ok (fst (repo_GetProducts env qs s))"
  then obtain ps where ps: "fst (repo_GetProducts env qs s) = Inr ps" by (auto simp: is_ok_def split: sum.splits)
  let ?ids = "rev (remdups (rev (map q_ID qs)))" and ?n = "length (pt_rows (pvs_db s))"
  obtain rb s1 where b: "loadBasicProductsByIDs env ?ids s = (rb, s1)" by fastforce
  then have db: "pvs_db s1 = pvs_db s" by (auto simp: loadBasicProductsByIDs_def split: sum.splits prod.splits)
  obtain rp s2 where p: "loadPriceStocksByQueries env ?n (rev (remdups (rev qs))) s1 = (rp, s2)" by fastforce
  obtain basics prices where r: "rb = Inr basics" "rp = Inr prices" "assemble basics prices qs = Inr ps"
    using ps assms(3) b p by (cases rb; cases rp) (auto simp: repo_GetProducts_def Let_def split: if_splits)
  have "prices (q_ID q, q_SKUID q) \<noteq> None" by (rule assemble_prices [OF r(3) assms(3)])
  then obtain k where k: "k \<in> set (pt_skus (pvs_db s))" "live_sku k" "sku_key k = (q_ID q, q_SKUID q)"
    using loaded_prices [OF p [unfolded r(2)]] db by (metis (no_types, lifting))
  then have "sku_row (pvs_db s) q = Some k"
    using find_row_unique [of sku_key "pt_skus (pvs_db s)" k] assms(1) by (simp add: sku_row_def tables_ok_def)
  then show False using assms(2) k(2) by (simp add: buried_def)
qed

lemma Delete_by_other:
  assumes "tables_ok d" "r \<in> set (pt_rows d)" "rw_MerchantID r \<noteq> user"
  shows "pt_rows (snd (dao_Delete up now (rw_ID r) user d)) = pt_rows d"
proof -
  have "\<not> (live_product x \<and> rw_ID x = rw_ID r \<and> rw_MerchantID x = user)" if "x \<in> set (pt_rows d)" for x
    using that assms by (auto simp: tables_ok_def dest: inj_onD [OF distinct_map [THEN iffD1, THEN conjunct2]])
  then show ?thesis by (simp add: dao_Delete_def update_where_none)
qed

lemma quote_of_alive:
  assumes "buried d q" "product_row d (q_ID q) \<noteq> None" shows "quote_of d q \<noteq> None"
  using assms by (auto simp: buried_def quote_of_def)

lemma DeleteSKUs_row:
  "sku_row (snd (dao_DeleteSKUsByProductID True now i d)) q
   = map_option (\<lambda>k. if live_sku k \<and> sk_ProductID k = i then k\<lparr>sk_DeletedAt := Some now\<rparr> else k) (sku_row d q)"
  by (simp add: dao_DeleteSKUsByProductID_def sku_row_def find_row_update sku_key_def)


definition after_delete :: product_svc where
  "after_delete = snd (product_DeleteProduct all_up 1 99 \<lparr>pvs_db = shop, pvs_cache = cold\<rparr>)"


text \<open>A product created out of stock is shown so while the two cache keys last, and in stock afterwards.\<close>

lemma created_out_of_stock:
  "let s = snd (product_CreateProduct all_up (sold_out\<lparr>p_ID := 0\<rparr>) \<lparr>pvs_db = shop, pvs_cache = cold\<rparr>);
       q = \<lparr>q_ID = 2, q_SKUID = 11\<rparr>; stock = (\<lambda>r. case r of Inl _ \<Rightarrow> None | Inr p \<Rightarrow> Some (p_InStock p)) in
   stock (fst (product_GetProduct (all_up\<lparr>pe_now := 159\<rparr>) q s)) = Some False
   \<and> stock (fst (product_GetProduct (all_up\<lparr>pe_now := 160\<rparr>) q s)) = Some True"
proof -
  have v: "validateProductForWrite (sold_out\<lparr>p_ID := 0\<rparr>) False = None" "checkSensitiveWords ''tea'' ''green'' = None" by code_simp+
  define s where "s = snd (product_CreateProduct all_up (sold_out\<lparr>p_ID := 0\<rparr>) \<lparr>pvs_db = shop, pvs_cache = cold\<rparr>)"
  have s: "s = snd (repo_CreateProduct all_up (sold_out\<lparr>p_ID := 0\<rparr>) \<lparr>pvs_db = shop, pvs_cache = cold\<rparr>)"
    unfolding s_def product_CreateProduct_def using v by (simp add: sold_out_def)
  note wr = dao_UpsertSKU_def dao_Insert_def Let_def shop_def all_up_def
      product_domainToEntity_def row_fits_def utf8_length_def null_text_def opt_text_def normalizeCurrency_def
      product_domainToSKU_def sold_out_def cold_def cacheProductBasicDetail_def cachePriceStock_def cache_SetWithTTL_def
      basicProduct_def productToPriceStock_def gorm_default_def detailBasicTTL_def detailPriceStockTTL_def empty_product_def
  note rd = repo_GetProduct_def readProductCache_def cache_Get_def resolveSingleProduct_def loadAndCachePriceStock_def
      dao_FindPriceInStock_def live_sku_def mergeProductPriceStock_def
  have "fst (repo_GetProduct (all_up\<lparr>pe_now := 159\<rparr>) \<lparr>q_ID = 2, q_SKUID = 11\<rparr> s)
      = Inr (sold_out\<lparr>p_ID := 2, p_Currency := ''CNY''\<rparr>)" unfolding s by (simp add: repo_CreateProduct_def wr rd)
  moreover have "fst (repo_GetProduct (all_up\<lparr>pe_now := 160\<rparr>) \<lparr>q_ID = 2, q_SKUID = 11\<rparr> s)
      = Inr (sold_out\<lparr>p_ID := 2, p_Currency := ''CNY'', p_InStock := True\<rparr>)" unfolding s by (simp add: repo_CreateProduct_def wr rd)
  ultimately show ?thesis
    unfolding s_def [symmetric] by (simp add: product_GetProduct_def validateProductQuery_def sold_out_def Let_def)
qed

end
