(* ===== verification/SearchSpec.thy ===== *)
theory SearchSpec
  imports Search ProductSpec "HOL-Library.Multiset"
begin

text \<open>
  Properties of the search index: what the stream of row changes makes of it, and that filling it from the
  product service ends.
\<close>

section \<open>The change stream\<close>

text \<open>How Canal gives the columns of a row: a bigint is an int64, a varchar a string.  Of the other columns nothing
  is said.\<close>

definition canal_row :: "string list \<Rightarrow> (ProductRow \<Rightarrow> GoVal list) \<Rightarrow> bool" where
  "canal_row cols render \<longleftrightarrow>
     (\<forall>r. rowToMap cols (render r) ''id'' = GInt64 (rw_ID r) \<and> rowToMap cols (render r) ''name'' = GString (rw_Name r)
        \<and> rowToMap cols (render r) ''price'' = GInt64 (rw_Price r)
        \<and> rowToMap cols (render r) ''merchant_id'' = GInt64 (rw_MerchantID r))"

text \<open>The binlog of a statement: rows that changed, before and after, or rows that were added.\<close>

definition changed_pairs :: "ProductRow list \<Rightarrow> ProductRow list \<Rightarrow> (ProductRow \<times> ProductRow) list" where
  "changed_pairs olds news = filter (\<lambda>(b, n). b \<noteq> n) (zip olds news)"

definition changed_rows :: "ProductRow list \<Rightarrow> ProductRow list \<Rightarrow> ProductRow list" where
  "changed_rows olds news = concat (map (\<lambda>(b, n). [b, n]) (changed_pairs olds news))"

definition binlog :: "string list \<Rightarrow> (ProductRow \<Rightarrow> GoVal list) \<Rightarrow> ProductRow list \<Rightarrow> ProductRow list \<Rightarrow> RowsEvent list" where
  "binlog cols render olds news =
     (let us = changed_rows olds news; ins = drop (length olds) news in
      (if us = [] then [] else [\<lparr>re_Table = ''product'', re_Action = UpdateAction, re_Columns = cols, re_Rows = map render us\<rparr>])
      @ (if ins = [] then [] else [\<lparr>re_Table = ''product'', re_Action = InsertAction, re_Columns = cols, re_Rows = map render ins\<rparr>]))"

fun consume_all :: "embedder \<Rightarrow> SyncEvent list \<Rightarrow> search_es \<Rightarrow> bool \<times> search_es" where
  "consume_all em [] s = (True, s)"
| "consume_all em (ev # evs) s =
     (case ProductConsumer_Consume em True ev s of
        (SyncOk, s') \<Rightarrow> consume_all em evs s'
      | (_, s') \<Rightarrow> (False, s'))"

text \<open>Producer, Kafka and consumer in a row, nothing failing on the way.\<close>

fun stream :: "embedder \<Rightarrow> parsers \<Rightarrow> RowsEvent list \<Rightarrow> search_es \<Rightarrow> bool \<times> search_es" where
  "stream em ps [] s = (True, s)"
| "stream em ps (e # es) s =
     (case OnRow ps (length (re_Rows e)) e of
        (False, evs) \<Rightarrow> (False, s)
      | (True, evs) \<Rightarrow> (case consume_all em evs s of (True, s') \<Rightarrow> stream em ps es s' | (False, s') \<Rightarrow> (False, s')))"

definition synced_doc :: "ProductRow \<Rightarrow> es_doc \<Rightarrow> bool" where
  "synced_doc r doc \<longleftrightarrow> doc ''id'' = Some (JInt (rw_ID r)) \<and> doc ''name'' = Some (JText (rw_Name r))
     \<and> doc ''price'' = Some (JInt (rw_Price r)) \<and> doc ''merchant_id'' = Some (JInt (rw_MerchantID r))
     \<and> doc ''in_stock'' = Some (JBool False)"

definition doc_key :: "ProductRow \<Rightarrow> string" where
  "doc_key r = format_int (rw_ID r)"

definition index_ok :: "ProductRow list \<Rightarrow> es_index \<Rightarrow> bool" where
  "index_ok rows ix \<longleftrightarrow> dom ix = doc_key ` set rows \<and> (\<forall>r \<in> set rows. \<exists>doc. ix (doc_key r) = Some doc \<and> synced_doc r doc)"

definition row_event :: "parsers \<Rightarrow> string list \<Rightarrow> (ProductRow \<Rightarrow> GoVal list) \<Rightarrow> EventAction \<Rightarrow> ProductRow \<Rightarrow> SyncEvent" where
  "row_event ps cols render act r = the (parseRowToSyncEvent ps (rowToMap cols (render r)) act)"

lemma product_fields_at:
  "map_of (product_fields d) ''id'' = Some (JInt (pd_ID d))" "map_of (product_fields d) ''name'' = Some (JText (pd_Name d))"
  "map_of (product_fields d) ''price'' = Some (JInt (pd_Price d))"
  "map_of (product_fields d) ''merchant_id'' = Some (JInt (pd_MerchantID d))"
  "map_of (product_fields d) ''in_stock'' = Some (JBool (pd_InStock d))"
  by (simp_all add: product_fields_def)

lemma enrich_keeps [simp]:
  "pd_ID (enrichWithVector em d) = pd_ID d" "pd_Name (enrichWithVector em d) = pd_Name d"
  "pd_Price (enrichWithVector em d) = pd_Price d" "pd_MerchantID (enrichWithVector em d) = pd_MerchantID d"
  "pd_InStock (enrichWithVector em d) = pd_InStock d"
  by (simp_all add: enrichWithVector_def split: option.split list.split)

lemma row_event_parse:
  assumes "canal_row cols render" "rw_ID r \<noteq> 0" "act \<noteq> EventActionDelete"
  shows "parseRowToSyncEvent ps (rowToMap cols (render r)) act = Some (row_event ps cols render act r)
     \<and> (\<exists>d. row_event ps cols render act r = \<lparr>se_Type = EventTypeProduct, se_Action = act, se_ID = rw_ID r,
               se_Product = Some d, se_Merchant = None\<rparr>
          \<and> pd_ID d = rw_ID r \<and> pd_Name d = rw_Name r \<and> pd_Price d = rw_Price r \<and> pd_MerchantID d = rw_MerchantID r
          \<and> \<not> pd_InStock d)"
  using assms
  by (simp add: row_event_def parseRowToSyncEvent_def canal_row_def parseRequiredInt64FromRow_def parseInt64FromRow_def
      string_col_def int_col_def)

lemma consume_create:
  assumes "canal_row cols render" "rw_ID r \<noteq> 0"
  shows "\<exists>doc. ProductConsumer_Consume em True (row_event ps cols render EventActionCreate r) s
       = (SyncOk, s\<lparr>es_products := (es_products s)(doc_key r \<mapsto> doc)\<rparr>) \<and> synced_doc r doc"
proof -
  obtain d where d: "row_event ps cols render EventActionCreate r
      = \<lparr>se_Type = EventTypeProduct, se_Action = EventActionCreate, se_ID = rw_ID r, se_Product = Some d, se_Merchant = None\<rparr>"
      "pd_ID d = rw_ID r" "pd_Name d = rw_Name r" "pd_Price d = rw_Price r" "pd_MerchantID d = rw_MerchantID r" "\<not> pd_InStock d"
    using row_event_parse [OF assms, of EventActionCreate] by auto
  have "synced_doc r (map_of (product_fields (enrichWithVector em d)))"
    by (simp add: synced_doc_def product_fields_at d(2-6))
  then show ?thesis
    by (simp add: d(1,2) ProductConsumer_Consume_def search_Sync_def SyncProduct_def sync_doc_def IndexDocument_def
        sync_ok_def doc_key_def) blast
qed

lemma consume_update:
  assumes "canal_row cols render" "rw_ID r \<noteq> 0" "es_products s (doc_key r) = Some old"
  shows "\<exists>doc. ProductConsumer_Consume em True (row_event ps cols render EventActionUpdate r) s
       = (SyncOk, s\<lparr>es_products := (es_products s)(doc_key r \<mapsto> doc)\<rparr>) \<and> synced_doc r doc"
proof -
  obtain d where d: "row_event ps cols render EventActionUpdate r
      = \<lparr>se_Type = EventTypeProduct, se_Action = EventActionUpdate, se_ID = rw_ID r, se_Product = Some d, se_Merchant = None\<rparr>"
      "pd_ID d = rw_ID r" "pd_Name d = rw_Name r" "pd_Price d = rw_Price r" "pd_MerchantID d = rw_MerchantID r" "\<not> pd_InStock d"
    using row_event_parse [OF assms(1,2), of EventActionUpdate] by auto
  have "synced_doc r (old ++ map_of (product_fields (enrichWithVector em d)))"
    by (simp add: synced_doc_def map_add_def product_fields_at d(2-6))
  then show ?thesis using assms(3)
    by (simp add: d(1,2) ProductConsumer_Consume_def search_Sync_def SyncProduct_def sync_doc_def UpdateDocument_def
        sync_ok_def doc_key_def) blast
qed

text \<open>Pairs of rows before and after, each pair of one id: afterwards the later row of each pair is in the index and
  the other documents are as they were.\<close>

lemma consume_pairs:
  assumes "canal_row cols render" "distinct (map (doc_key \<circ> snd) us)"
    and "\<And>b n. (b, n) \<in> set us \<Longrightarrow> rw_ID b = rw_ID n \<and> rw_ID n \<noteq> 0 \<and> doc_key n \<in> dom (es_products s)"
  shows "\<exists>s'. consume_all em (map (row_event ps cols render EventActionUpdate) (concat (map (\<lambda>(b, n). [b, n]) us))) s = (True, s')
     \<and> dom (es_products s') = dom (es_products s)
     \<and> (\<forall>k. k \<notin> (doc_key \<circ> snd) ` set us \<longrightarrow> es_products s' k = es_products s k)
     \<and> (\<forall>(b, n) \<in> set us. \<exists>doc. es_products s' (doc_key n) = Some doc \<and> synced_doc n doc)"
  using assms(2,3)
proof (induction us arbitrary: s)
  case (Cons u us)
  obtain b n where u: "u = (b, n)" by (cases u)
  have on: "rw_ID b = rw_ID n" "rw_ID n \<noteq> 0" "doc_key n \<in> dom (es_products s)" using Cons.prems(2) [of b n] u by simp_all
  have key: "doc_key b = doc_key n" using on(1) by (simp add: doc_key_def)
  obtain old where old: "es_products s (doc_key b) = Some old" using on(3) key by auto
  have nz: "rw_ID b \<noteq> 0" using on by simp
  obtain doc1 where c1: "ProductConsumer_Consume em True (row_event ps cols render EventActionUpdate b) s
      = (SyncOk, s\<lparr>es_products := (es_products s)(doc_key n \<mapsto> doc1)\<rparr>)"
    using consume_update [where r = b, OF assms(1) nz old] key by auto
  define s1 where "s1 = s\<lparr>es_products := (es_products s)(doc_key n \<mapsto> doc1)\<rparr>"
  have s1n: "es_products s1 (doc_key n) = Some doc1" by (simp add: s1_def)
  obtain doc2 where c2: "ProductConsumer_Consume em True (row_event ps cols render EventActionUpdate n) s1
      = (SyncOk, s1\<lparr>es_products := (es_products s1)(doc_key n \<mapsto> doc2)\<rparr>)" and d2: "synced_doc n doc2"
    using consume_update [where r = n, OF assms(1) on(2) s1n] by auto
  define s2 where "s2 = s1\<lparr>es_products := (es_products s1)(doc_key n \<mapsto> doc2)\<rparr>"
  have p2: "es_products s2 = (es_products s)(doc_key n \<mapsto> doc2)" by (simp add: s2_def s1_def)
  have dom2: "dom (es_products s2) = dom (es_products s)" using on(3) by (auto simp: p2)
  have pre: "rw_ID b = rw_ID n \<and> rw_ID n \<noteq> 0 \<and> doc_key n \<in> dom (es_products s2)" if "(b, n) \<in> set us" for b n
    unfolding dom2 by (rule Cons.prems(2)) (simp add: that)
  obtain s' where r: "consume_all em (map (row_event ps cols render EventActionUpdate) (concat (map (\<lambda>(b, n). [b, n]) us))) s2 = (True, s')"
      and rd: "dom (es_products s') = dom (es_products s2)"
      and ro: "\<forall>k. k \<notin> (doc_key \<circ> snd) ` set us \<longrightarrow> es_products s' k = es_products s2 k"
      and rn: "\<forall>(b, n) \<in> set us. \<exists>doc. es_products s' (doc_key n) = Some doc \<and> synced_doc n doc"
    using Cons.IH [OF _ pre] Cons.prems(1) by auto
  have "doc_key n \<notin> (doc_key \<circ> snd) ` set us" using Cons.prems(1) by (auto simp: u)
  then have "es_products s' (doc_key n) = Some doc2" using ro p2 by simp
  then have rn': "\<forall>(b, n) \<in> set (u # us). \<exists>doc. es_products s' (doc_key n) = Some doc \<and> synced_doc n doc"
    using rn d2 by (simp add: u)
  have ro': "\<forall>k. k \<notin> (doc_key \<circ> snd) ` set (u # us) \<longrightarrow> es_products s' k = es_products s k"
    using ro p2 by (simp add: u)
  have "consume_all em (map (row_event ps cols render EventActionUpdate) (concat (map (\<lambda>(b, n). [b, n]) (u # us)))) s = (True, s')"
    using c1 c2 r by (simp add: u s1_def [symmetric] s2_def [symmetric])
  moreover have "dom (es_products s') = dom (es_products s)" using rd dom2 by simp
  ultimately show ?case using rn' ro' by (intro exI [of _ s'] conjI)
qed auto

lemma consume_inserts:
  assumes "canal_row cols render" "distinct (map doc_key rs)" "\<And>r. r \<in> set rs \<Longrightarrow> rw_ID r \<noteq> 0"
  shows "\<exists>s'. consume_all em (map (row_event ps cols render EventActionCreate) rs) s = (True, s')
     \<and> dom (es_products s') = dom (es_products s) \<union> doc_key ` set rs
     \<and> (\<forall>k. k \<notin> doc_key ` set rs \<longrightarrow> es_products s' k = es_products s k)
     \<and> (\<forall>r \<in> set rs. \<exists>doc. es_products s' (doc_key r) = Some doc \<and> synced_doc r doc)"
  using assms(2,3)
proof (induction rs arbitrary: s)
  case (Cons r rs)
  have nz: "rw_ID r \<noteq> 0" using Cons.prems(2) [of r] by simp
  obtain doc where c: "ProductConsumer_Consume em True (row_event ps cols render EventActionCreate r) s
      = (SyncOk, s\<lparr>es_products := (es_products s)(doc_key r \<mapsto> doc)\<rparr>)" and d: "synced_doc r doc"
    using consume_create [where r = r, OF assms(1) nz] by blast
  define s1 where "s1 = s\<lparr>es_products := (es_products s)(doc_key r \<mapsto> doc)\<rparr>"
  obtain s' where i: "consume_all em (map (row_event ps cols render EventActionCreate) rs) s1 = (True, s')"
      "dom (es_products s') = dom (es_products s1) \<union> doc_key ` set rs"
      "\<forall>k. k \<notin> doc_key ` set rs \<longrightarrow> es_products s' k = es_products s1 k"
      "\<forall>r \<in> set rs. \<exists>doc. es_products s' (doc_key r) = Some doc \<and> synced_doc r doc"
    using Cons.IH [of s1] Cons.prems by auto
  have "es_products s' (doc_key r) = Some doc" using i(3) Cons.prems(1) by (simp add: s1_def)
  then show ?case using i c d by (auto simp: s1_def)
qed auto

lemma canal_events_map:
  assumes "canal_row cols render" "\<And>r. r \<in> set rs \<Longrightarrow> rw_ID r \<noteq> 0"
    and "(act, ev_act) \<in> {(InsertAction, EventActionCreate), (UpdateAction, EventActionUpdate)}" "re_Action e = act" "re_Columns e = cols"
  shows "canal_events ps e (map render rs) = Some (map (row_event ps cols render ev_act) rs)"
  using assms(2)
proof (induction rs)
  case (Cons r rs)
  have nz: "rw_ID r \<noteq> 0" using Cons.prems [of r] by simp
  have "parseRowToSyncEvent ps (rowToMap cols (render r)) ev_act = Some (row_event ps cols render ev_act r)"
    using row_event_parse [OF assms(1) nz, of ev_act] assms(3) by auto
  then show ?case using Cons assms(3-5) by auto
qed simp

lemma OnRow_map:
  assumes "canal_row cols render" "\<And>r. r \<in> set rs \<Longrightarrow> rw_ID r \<noteq> 0"
    and "(act, ev_act) \<in> {(InsertAction, EventActionCreate), (UpdateAction, EventActionUpdate)}"
    and "e = \<lparr>re_Table = ''product'', re_Action = act, re_Columns = cols, re_Rows = map render rs\<rparr>"
  shows "OnRow ps (length (re_Rows e)) e = (True, map (row_event ps cols render ev_act) rs)"
  using canal_events_map [where e = e, OF assms(1,2,3)] assms(4) by (simp add: OnRow_def sendBatchToKafka_def)

text \<open>The ids a table may hold.\<close>

definition ids_ok :: "product_db \<Rightarrow> bool" where
  "ids_ok d \<longleftrightarrow> 0 \<notin> rw_ID ` set (pt_rows d) \<and> 0 < pt_next d"

lemma doc_key_inj: "doc_key r = doc_key r' \<longleftrightarrow> rw_ID r = rw_ID r'"
  by (simp add: doc_key_def)

lemma distinct_keys: "distinct (map doc_key rs) \<longleftrightarrow> distinct (map rw_ID rs)"
  by (induction rs) (auto simp: doc_key_def)

text \<open>Rows rewritten in place.\<close>

lemma stream_rewrites:
  assumes "canal_row cols render" "distinct (map rw_ID olds)" "0 \<notin> rw_ID ` set olds" "index_ok olds (es_products s)"
    and "\<And>r. rw_ID (f r) = rw_ID r"
  shows "\<exists>s'. stream em ps (binlog cols render olds (map f olds)) s = (True, s') \<and> index_ok (map f olds) (es_products s')"
proof -
  let ?us = "changed_pairs olds (map f olds)"
  have us: "?us = map (\<lambda>r. (r, f r)) (filter (\<lambda>r. r \<noteq> f r) olds)"
    unfolding changed_pairs_def by (induction olds) auto
  have dist: "distinct (map (doc_key \<circ> snd) ?us)"
  proof -
    have "map (doc_key \<circ> snd) ?us = map doc_key (filter (\<lambda>r. r \<noteq> f r) olds)"
      by (simp add: us doc_key_def assms(5))
    then show ?thesis using assms(2) by (simp add: distinct_keys distinct_map_filter)
  qed
  have pre: "rw_ID b = rw_ID n \<and> rw_ID n \<noteq> 0 \<and> doc_key n \<in> dom (es_products s)" if "(b, n) \<in> set ?us" for b n
    using that assms(3-5) by (auto simp: us index_ok_def doc_key_def)
  obtain s' where c': "consume_all em (map (row_event ps cols render EventActionUpdate) (concat (map (\<lambda>(b, n). [b, n]) ?us))) s = (True, s')"
      and dom: "dom (es_products s') = dom (es_products s)"
      and rest: "\<forall>k. k \<notin> (doc_key \<circ> snd) ` set ?us \<longrightarrow> es_products s' k = es_products s k"
      and hit: "\<forall>(b, n) \<in> set ?us. \<exists>doc. es_products s' (doc_key n) = Some doc \<and> synced_doc n doc"
    using consume_pairs [where us = ?us, OF assms(1) dist pre] by blast
  let ?rows = "changed_rows olds (map f olds)"
  have nz: "rw_ID r \<noteq> 0" if "r \<in> set ?rows" for r
    using that pre by (fastforce simp: changed_rows_def)
  have c: "consume_all em (map (row_event ps cols render EventActionUpdate) ?rows) s = (True, s')"
    using c' by (simp only: changed_rows_def)
  have "stream em ps (binlog cols render olds (map f olds)) s = (True, s')"
  proof (cases "?rows = []")
    case True
    have "s' = s" using c unfolding True by simp
    then show ?thesis unfolding binlog_def Let_def True by simp
  next
    case False
    have "OnRow ps (length ?rows) \<lparr>re_Table = ''product'', re_Action = UpdateAction, re_Columns = cols, re_Rows = map render ?rows\<rparr>
        = (True, map (row_event ps cols render EventActionUpdate) ?rows)"
      using OnRow_map [where rs = ?rows, OF assms(1) nz _ refl] by simp
    then show ?thesis using c False by (simp add: binlog_def Let_def)
  qed
  moreover have "index_ok (map f olds) (es_products s')"
  proof -
    have "\<exists>doc. es_products s' (doc_key (f r)) = Some doc \<and> synced_doc (f r) doc" if r: "r \<in> set olds" for r
    proof (cases "f r = r")
      case False
      then have "(r, f r) \<in> set ?us" using r by (auto simp: us)
      then show ?thesis using hit by blast
    next
      case True
      have "f x = x" if "x \<in> set olds" "doc_key (f x) = doc_key r" for x
        using that True r assms(2,5) by (simp add: doc_key_inj) (metis distinct_map inj_onD)
      then have "doc_key r \<notin> (doc_key \<circ> snd) ` set ?us" by (force simp: us)
      then have "es_products s' (doc_key r) = es_products s (doc_key r)" using rest by blast
      then show ?thesis using assms(4) r True by (simp add: index_ok_def)
    qed
    moreover have "doc_key ` set (map f olds) = doc_key ` set olds"
      by (auto simp: doc_key_def assms(5) image_iff)
    ultimately show ?thesis using assms(4) dom by (simp add: index_ok_def)
  qed
  ultimately show ?thesis by blast
qed

lemma no_change: "changed_rows olds (olds @ ins) = []"
proof -
  have "changed_pairs olds (olds @ ins) = []" unfolding changed_pairs_def by (induction olds) auto
  then show ?thesis by (simp add: changed_rows_def)
qed

lemma stream_appends:
  assumes "canal_row cols render" "rw_ID r \<noteq> 0" "\<forall>x \<in> set olds. rw_ID x \<noteq> rw_ID r" "index_ok olds (es_products s)"
  shows "\<exists>s'. stream em ps (binlog cols render olds (olds @ [r])) s = (True, s') \<and> index_ok (olds @ [r]) (es_products s')"
proof -
  let ?e = "\<lparr>re_Table = ''product'', re_Action = InsertAction, re_Columns = cols, re_Rows = map render [r]\<rparr>"
  have on: "OnRow ps (length (re_Rows ?e)) ?e = (True, map (row_event ps cols render EventActionCreate) [r])"
    using OnRow_map [where rs = "[r]" and e = ?e and act = InsertAction, OF assms(1)] assms(2) by simp
  obtain doc where c: "ProductConsumer_Consume em True (row_event ps cols render EventActionCreate r) s
       = (SyncOk, s\<lparr>es_products := (es_products s)(doc_key r \<mapsto> doc)\<rparr>)" and d: "synced_doc r doc"
    using consume_create [where r = r, OF assms(1,2)] by blast
  have "stream em ps (binlog cols render olds (olds @ [r])) s
      = (True, s\<lparr>es_products := (es_products s)(doc_key r \<mapsto> doc)\<rparr>)"
    using on c by (simp add: binlog_def Let_def no_change)
  moreover have "index_ok (olds @ [r]) ((es_products s)(doc_key r \<mapsto> doc))"
  proof -
    have other: "doc_key x \<noteq> doc_key r" if "x \<in> set olds" for x
      using that assms(3) by (auto simp: doc_key_inj)
    have "dom ((es_products s)(doc_key r \<mapsto> doc)) = doc_key ` set (olds @ [r])"
      using assms(4) by (simp add: index_ok_def)
    then show ?thesis using assms(4) d other by (simp add: index_ok_def)
  qed
  ultimately show ?thesis by auto
qed

text \<open>What a statement does to the rows: it rewrites some in place or adds one.\<close>

lemma rows_after:
  assumes "ids_ok d"
    and "d' \<in> {snd (dao_Insert up now r d), snd (dao_Update up now r d), snd (dao_Delete up now i user d)}"
  shows "(\<exists>f. (\<forall>r. rw_ID (f r) = rw_ID r) \<and> pt_rows d' = map f (pt_rows d))
       \<or> (\<exists>x. pt_rows d' = pt_rows d @ [x] \<and> rw_ID x \<noteq> 0 \<and> (\<forall>y \<in> set (pt_rows d). rw_ID y \<noteq> rw_ID x))"
proof -
  have same: ?thesis if "pt_rows d' = pt_rows d"
    by (rule disjI1, rule exI [of _ "\<lambda>r. r"]) (simp add: that)
  have rewrite: ?thesis if "pt_rows d' = update_where P f (pt_rows d)" "\<And>r. rw_ID (f r) = rw_ID r" for P f
    by (rule disjI1, rule exI [of _ "\<lambda>r. if P r then f r else r"]) (simp add: that update_where_def)
  from assms(2) consider "d' = snd (dao_Insert up now r d)" | "d' = snd (dao_Update up now r d)"
    | "d' = snd (dao_Delete up now i user d)" by blast
  then show ?thesis
  proof cases
    case 1
    then show ?thesis using same assms(1)
      by (auto simp: dao_Insert_def ids_ok_def Let_def list_ex_iff split: if_splits)
  next
    case 2
    then show ?thesis using same rewrite [OF _ set_product_keeps(1)] by (auto simp: dao_Update_def Let_def split: if_splits)
  next
    case 3
    then show ?thesis using same rewrite [where f = "rw_DeletedAt_update (\<lambda>_. Some now)"]
      by (auto simp: dao_Delete_def split: if_splits)
  qed
qed


definition canal_cols :: "string list" where
  "canal_cols = [''id'', ''name'', ''price'', ''merchant_id'']"

definition canal_render :: "ProductRow \<Rightarrow> GoVal list" where
  "canal_render r = [GInt64 (rw_ID r), GString (rw_Name r), GInt64 (rw_Price r), GInt64 (rw_MerchantID r)]"

definition shop_index :: search_es where
  "shop_index = snd (stream (\<lambda>_. None) \<lparr>ps_strings = (\<lambda>_. None), ps_time = (\<lambda>_. None)\<rparr>
     (binlog canal_cols canal_render [] (pt_rows shop)) \<lparr>es_products = Map.empty, es_merchants = Map.empty\<rparr>)"


text \<open>Deletions through the stream of hard-deleted rows: the event carries no document, and the consumer
  dereferences nil.\<close>

lemma delete_event_panics:
  assumes "extractIDFromRow cols row = Some i"
  shows "OnRow ps 1 \<lparr>re_Table = ''product'', re_Action = DeleteAction, re_Columns = cols, re_Rows = [row]\<rparr>
       = (True, [\<lparr>se_Type = EventTypeProduct, se_Action = EventActionDelete, se_ID = i, se_Product = None, se_Merchant = None\<rparr>])
     \<and> fst (ProductConsumer_Consume em up \<lparr>se_Type = EventTypeProduct, se_Action = EventActionDelete, se_ID = i,
           se_Product = None, se_Merchant = None\<rparr> s) = SyncPanic"
  using assms by (simp add: OnRow_def sendBatchToKafka_def ProductConsumer_Consume_def search_Sync_def SyncProduct_def sync_doc_def)

text \<open>A batch indexes its documents before it deletes: a product deleted and created again in one batch is gone.\<close>

lemma batch_forgets_order:
  assumes "be_up env 0" "be_up env 1" "\<And>n. be_item env 0 n" "\<And>n. be_item env 1 n" "se_ID del = p_ID p"
    and "se_Type del = EventTypeProduct" "se_Action del = EventActionDelete"
  shows "es_products (snd (BatchSync em env [del, create_event p] s)) (format_int (p_ID p)) = None"
  using assms
  by (simp add: BatchSync_def Let_def batch_docs_def batch_deletes_def create_event_def BatchSyncProducts_def BulkIndex_def
      BatchDeleteIDs_def BulkDelete_def List.map_filter_simps counted_def split: prod.splits)

section \<open>Searching the index\<close>

text \<open>What is relied on: every hit is a document of the index in which the term filters hold.\<close>

definition es_filters :: "es_index \<Rightarrow> (es_query \<Rightarrow> es_reply) \<Rightarrow> bool" where
  "es_filters ix es \<longleftrightarrow>
     (\<forall>q n hs h f v. es q = EsHits n hs \<and> h \<in> set hs \<and> Term f v \<in> set (eq_filter q)
        \<longrightarrow> eh_source h \<in> ran ix \<and> eh_source h f = Some v)"

lemma synced_never_found:
  assumes "index_ok rows ix" "es_filters ix es" "search_handler_SearchProducts es r = Some (ps, n, page, sz)"
  shows "ps = []"
proof -
  let ?q = "buildProductQuery (toDomainSearchProductsReq r)"
  have f: "Term ''in_stock'' (JBool True) \<in> set (eq_filter ?q)" by (simp add: buildProductQuery_def toDomainSearchProductsReq_def)
  have no: "doc ''in_stock'' = Some (JBool False)" if d: "doc \<in> ran ix" for doc
  proof -
    obtain k where k: "ix k = Some doc" using d unfolding ran_def by blast
    then have "k \<in> doc_key ` set rows" using assms(1) by (auto simp: index_ok_def)
    then show ?thesis using assms(1) k by (auto simp: index_ok_def synced_doc_def)
  qed
  show ?thesis
  proof (cases "es ?q")
    case (EsHits m hs)
    have "h \<notin> set hs" for h
    proof
      assume h: "h \<in> set hs"
      then have "eh_source h \<in> ran ix \<and> eh_source h ''in_stock'' = Some (JBool True)"
        using assms(2) EsHits f unfolding es_filters_def by blast
      then show False using no by force
    qed
    then have "hs = []" by (cases hs) auto
    then show ?thesis using assms(3) EsHits by (simp add: search_handler_SearchProducts_def SearchProducts_def reply_hits_def)
  qed (use assms(3) in \<open>simp_all add: search_handler_SearchProducts_def SearchProducts_def reply_hits_def\<close>)
qed

text \<open>An error status of Elasticsearch is answered as an empty result.\<close>

lemma search_hides_error:
  "es (buildProductQuery r) = EsError \<Longrightarrow> SearchProducts es r = Some ([], 0, sr_Page r, sr_PageSize r)"
  by (simp add: SearchProducts_def reply_hits_def)

section \<open>Ranking\<close>

lemma upsert_ids: "rc_id ` set (upsert_signal i sales x cs) = insert i (rc_id ` set cs)"
  by (induction cs) auto

lemma upsert_distinct: "distinct (map rc_id cs) \<Longrightarrow> distinct (map rc_id (upsert_signal i sales x cs))"
  by (induction cs) (simp_all add: upsert_ids, blast)

lemma add_recall_ids: "rc_id ` set (add_recall w k rs cs) = rr_ProductID ` set rs \<union> rc_id ` set cs"
  by (induction w k rs cs rule: add_recall.induct) (auto simp: upsert_ids)

lemma add_recall_distinct: "distinct (map rc_id cs) \<Longrightarrow> distinct (map rc_id (add_recall w k rs cs))"
  by (induction w k rs cs rule: add_recall.induct) (auto simp: upsert_distinct)

lemma rank_walk:
  assumes "\<And>xs. mset (w xs) = mset xs"
  shows "fusionRank w keyword vec b = fusionRank (\<lambda>xs. xs) keyword vec b"
    and "rc_id ` set (fusionRank w keyword vec b) = rr_ProductID ` (set keyword \<union> set vec)"
    and "distinct (map rc_id (fusionRank w keyword vec b))"
proof -
  define cs where "cs = add_recall (if b then fl (12 / 10) else fl (8 / 10)) 0 vec
    (add_recall (if b then fl (8 / 10) else fl (12 / 10)) 0 keyword [])"
  have f: "fusionRank w keyword vec b = sort_key candidate_key (w cs)" for w
    by (simp add: fusionRank_def cs_def)
  have d: "distinct (map rc_id cs)" by (simp add: cs_def add_recall_distinct)
  then have "inj_on candidate_key (set cs)" by (auto simp: inj_on_def candidate_key_def distinct_map)
  then have i: "inj_on candidate_key (set (w cs))" using mset_eq_setD [OF assms, of cs] by simp
  have "sort_key candidate_key (w cs) = sort_key candidate_key cs"
    by (rule sort_key_inj_key_eq [OF _ i]) (simp_all add: assms)
  then show "fusionRank w keyword vec b = fusionRank (\<lambda>xs. xs) keyword vec b" by (simp add: f)
  have s: "set (w cs) = set cs" using mset_eq_setD [OF assms] .
  show "rc_id ` set (fusionRank w keyword vec b) = rr_ProductID ` (set keyword \<union> set vec)"
    by (simp add: f s) (simp add: cs_def add_recall_ids image_Un Un_commute)
  have "mset (map rc_id (sort_key candidate_key (w cs))) = mset (map rc_id cs)" by (simp add: assms)
  then show "distinct (map rc_id (fusionRank w keyword vec b))"
    unfolding f using d mset_eq_imp_distinct_iff by blast
qed

lemma rerank_perm: "mset (reRankBySales log2 cs) = mset (map rc_id cs)"
proof -
  have "mset (map snd (map (\<lambda>c. (sales_score log2 c, rc_id c)) cs)) = mset (map rc_id cs)" by (simp add: comp_def)
  then show ?thesis by (simp add: reRankBySales_def multiset.map_comp comp_def)
qed


text \<open>Pages: within the range of int64 the slice exists; a page number beyond it panics.\<close>

lemma ai_page_ok:
  assumes "0 < ar_Page r" "0 < ar_PageSize r" "ar_Page r * ar_PageSize r < 2 ^ 63"
    and "fetchProductsByIDs (as_ids sv) (ar_EnableHighlight r)
           (take (nat (ar_PageSize r)) (drop (nat ((ar_Page r - 1) * ar_PageSize r)) (ai_ranked sv (ai_intent sv (ar_Query r))))) = Some ps"
  shows "\<exists>resp. AISearch_Execute sv r = AiOk resp \<and> ap_Products resp = ps
     \<and> ap_Total resp = int (length (ai_ranked sv (ai_intent sv (ar_Query r))))"
proof -
  let ?ids = "ai_ranked sv (ai_intent sv (ar_Query r))"
  let ?a = "(ar_Page r - 1) * ar_PageSize r"
  have le: "ar_Page r \<le> ar_Page r * ar_PageSize r" using assms(1,2) by (simp add: mult_le_cancel_left1)
  have a: "0 \<le> ?a" using assms(1,2) by simp
  have sum: "?a + ar_PageSize r = ar_Page r * ar_PageSize r" by (simp add: algebra_simps)
  have w1: "wrap64 (ar_Page r - 1) = ar_Page r - 1"
    by (rule wrap64_id) (use assms(1,3) le in \<open>unfold in64_def, linarith\<close>)
  have w2: "wrap64 ?a = ?a" by (rule wrap64_id) (use a sum assms(2,3) in \<open>simp add: in64_def\<close>)
  have w3: "wrap64 (?a + ar_PageSize r) = ?a + ar_PageSize r"
    by (rule wrap64_id) (use a assms(2) assms(3) [folded sum] in \<open>simp add: in64_def\<close>)
  show ?thesis
  proof (cases "int (length ?ids) \<le> ?a")
    case True
    then have "drop (nat ?a) ?ids = []" by simp
    then have "ps = []" using assms(4) by (simp add: fetchProductsByIDs_def)
    then show ?thesis using True assms(1,2) by (simp add: AISearch_Execute_def normalizePaging_def Let_def w1 w2 w3)
  next
    case False
    define e where "e = min (int (length ?ids)) (?a + ar_PageSize r)"
    have "go_slice ?a e ?ids = Some (take (nat (ar_PageSize r)) (drop (nat ?a) ?ids))"
    proof -
      have "take (nat (e - ?a)) (drop (nat ?a) ?ids) = take (nat (ar_PageSize r)) (drop (nat ?a) ?ids)"
      proof (cases "?a + ar_PageSize r \<le> int (length ?ids)")
        case True then show ?thesis by (simp add: e_def)
      next
        case False then show ?thesis using a by (simp add: e_def nat_diff_distrib)
      qed
      then show ?thesis using a False assms(2) by (simp add: go_slice_def e_def)
    qed
    moreover have "(if int (length ?ids) < ?a + ar_PageSize r then int (length ?ids) else ?a + ar_PageSize r) = e"
      by (simp add: e_def)
    ultimately show ?thesis using False assms(1,2,4)
      by (simp add: AISearch_Execute_def normalizePaging_def Let_def w1 w2 w3 split del: if_split cong: if_cong)
  qed
qed

lemma ai_page_panics:
  assumes "ar_Page r = 2 ^ 62 + 1" "ar_PageSize r = 2"
  shows "AISearch_Execute sv r = AiPanic"
  using assms by (simp add: AISearch_Execute_def normalizePaging_def Let_def wrap64_def go_slice_def)

definition some_walk :: ai_services where
  "some_walk = \<lparr>as_llm = None, as_json = (\<lambda>_. None), as_embed = (\<lambda>_. None),
     as_search = (\<lambda>q. EsHits 1 [\<lparr>eh_source = [''id'' \<mapsto> JInt 7, ''sales_count'' \<mapsto> JInt 3], eh_score = 2,
                                eh_name_marks = [], eh_description_marks = []\<rparr>]),
     as_knn = (\<lambda>_ _ _. EsError), as_ids = (\<lambda>_. EsError), as_walk = rev, as_log2 = (\<lambda>x. x), as_rag = (\<lambda>_. None)\<rparr>"


section \<open>Filling the index\<close>

definition full_doc :: "embedder \<Rightarrow> Product \<Rightarrow> es_doc" where
  "full_doc em p = product_map (enrichWithVector em (productProtoToDoc p))"

definition index_all :: "embedder \<Rightarrow> Product list \<Rightarrow> es_index \<Rightarrow> es_index" where
  "index_all em ps ix = fold (\<lambda>p ix. ix(format_int (p_ID p) \<mapsto> full_doc em p)) ps ix"

definition takes_all :: "batch_env \<Rightarrow> bool" where
  "takes_all env \<longleftrightarrow> (\<forall>k. be_up env k) \<and> (\<forall>k n. be_item env k n)"

lemma bulk_all: "(\<And>n. item n) \<Longrightarrow> bulk_items item n fs ix = fold (\<lambda>f ix. f ix) fs ix"
  by (induction fs arbitrary: n ix) simp_all

lemma enrich_id: "pd_ID (enrichWithVector em (productProtoToDoc p)) = p_ID p"
  by (simp add: productProtoToDoc_def)

lemma create_batch_docs:
  "batch_docs (\<lambda>e. se_Type e = EventTypeProduct) (\<lambda>e. map_option (enrichWithVector em) (se_Product e)) (map create_event ps)
   = map (\<lambda>p. enrichWithVector em (productProtoToDoc p)) ps"
  by (induction ps) (simp_all add: batch_docs_def create_event_def List.map_filter_simps)

lemma create_batch_rest:
  "batch_deletes P (map create_event ps) = []"
  "batch_docs (\<lambda>e. se_Type e = EventTypeMerchant) f (map create_event ps) = []"
  by (induction ps) (simp_all add: batch_deletes_def batch_docs_def create_event_def List.map_filter_simps)

lemma BulkIndex_creates:
  assumes "\<And>n. item n"
  shows "BulkIndex True item (map (\<lambda>d. (format_int (pd_ID d), product_map d))
            (map (\<lambda>p. enrichWithVector em (productProtoToDoc p)) ps)) ix = (True, index_all em ps ix)"
proof -
  have "fold (\<lambda>f ix. f ix) (map (\<lambda>(i, d) ix. ix(i \<mapsto> d)) (map (\<lambda>d. (format_int (pd_ID d), product_map d))
          (map (\<lambda>p. enrichWithVector em (productProtoToDoc p)) ps))) ix = index_all em ps ix"
    unfolding index_all_def by (induction ps arbitrary: ix) (simp_all add: enrich_id full_doc_def del: enrich_keeps)
  then show ?thesis using assms by (simp add: BulkIndex_def bulk_all del: map_map)
qed

lemma BatchSync_creates:
  assumes "takes_all env"
  shows "BatchSync em env (map create_event ps) s
       = ((int (length ps), 0), s\<lparr>es_products := index_all em ps (es_products s)\<rparr>)"
proof -
  have t: "be_up env k" "be_item env k n" for k n using assms by (simp_all add: takes_all_def)
  have none: "BulkIndex True item [] ix = (True, ix)" for item ix by (simp add: BulkIndex_def)
  show ?thesis
    by (cases s) (simp add: BatchSync_def Let_def create_batch_docs create_batch_rest BatchSyncProducts_def BatchDeleteIDs_def
        BatchSyncMerchants_def BulkIndex_creates none t counted_def del: map_map)
qed

lemma index_all_append: "index_all em (ps @ qs) ix = index_all em qs (index_all em ps ix)"
  by (simp add: index_all_def)

lemma index_all_at:
  "distinct (map p_ID ps) \<Longrightarrow> p \<in> set ps \<Longrightarrow> index_all em ps ix (format_int (p_ID p)) = Some (full_doc em p)"
proof (induction ps rule: rev_induct)
  case (snoc q ps)
  show ?case
  proof (cases "p = q")
    case True
    then show ?thesis by (simp add: index_all_append) (simp add: index_all_def)
  next
    case False
    then have "p \<in> set ps" "p_ID q \<noteq> p_ID p" using snoc.prems by auto
    then show ?thesis using snoc by (simp add: index_all_append) (simp add: index_all_def)
  qed
qed simp

text \<open>From page \<open>k + 1\<close> on, with the products still to come.\<close>

lemma sync_from:
  assumes "0 < b" "\<And>k. k * b \<le> length rows \<Longrightarrow> list (int k + 1) (int b) = Some (take b (drop (k * b) rows))" "\<And>page. takes_all (env page)"
    and "length (drop (k * b) rows) div b < fuel" "k * b \<le> length rows"
  shows "syncProductsFromRPC fuel list em env (int b) (int k + 1) n s
       = Some ((fst n + int (length (drop (k * b) rows)), snd n, False),
               s\<lparr>es_products := index_all em (drop (k * b) rows) (es_products s)\<rparr>)"
  using assms(4,5)
proof (induction fuel arbitrary: k n s)
  case (Suc fuel)
  let ?rest = "drop (k * b) rows" and ?page = "take b (drop (k * b) rows)"
  have l: "list (int k + 1) (int b) = Some ?page" by (rule assms(2) [OF Suc.prems(2)])
  show ?case
  proof (cases "?rest = []")
    case True
    then show ?thesis using assms(1) l by (simp add: index_all_def)
  next
    case ne: False
    have bs: "BatchSync em (env (int k + 1)) (map create_event ?page) s
        = ((int (length ?page), 0), s\<lparr>es_products := index_all em ?page (es_products s)\<rparr>)"
      by (rule BatchSync_creates [OF assms(3)])
    show ?thesis
    proof (cases "length ?rest < b")
      case True
      then have pg: "?page = ?rest" by simp
      show ?thesis using ne l bs True unfolding pg by (simp add: Let_def del: length_drop)
    next
      case False
      have step: "drop b ?rest = drop (Suc k * b) rows" by (simp add: add.commute)
      have next_rest: "length (drop (Suc k * b) rows) div b < fuel"
      proof -
        have "length ?rest div b = Suc ((length ?rest - b) div b)" using False assms(1) by (simp add: le_div_geq)
        then show ?thesis using Suc.prems by (simp add: step [symmetric] add.commute [of b])
      qed
      have next_le: "Suc k * b \<le> length rows" using False Suc.prems(2) by simp
      note ih = Suc.IH [OF next_rest next_le]
      have "index_all em (drop (Suc k * b) rows) (index_all em ?page ix) = index_all em ?rest ix" for ix
        unfolding index_all_append [symmetric] step [symmetric] by (simp del: drop_drop)
      moreover have "int (length ?page) + int (length (drop (Suc k * b) rows)) = int (length ?rest)"
        using False by (simp add: step [symmetric] del: drop_drop)
      moreover have "syncProductsFromRPC (Suc fuel) list em env (int b) (int k + 1) n s
          = syncProductsFromRPC fuel list em env (int b) (int (Suc k) + 1) (fst n + int (length ?page), snd n)
              (s\<lparr>es_products := index_all em ?page (es_products s)\<rparr>)"
        using l bs ne False assms(1) by (simp add: Let_def add.commute [of 1])
      ultimately show ?thesis
        by (simp only: ih fst_conv snd_conv add.assoc) simp
    qed
  qed
qed simp


text \<open>The listing of the product service has such pages, as long as every row converts.\<close>

lemma load_list_map: "(\<And>r. r \<in> set rs \<Longrightarrow> product_entityToDomain r = Inr (f r)) \<Longrightarrow> load_list rs = map f rs"
  by (induction rs) simp_all

lemma product_pages:
  assumes "0 < b" "k * b \<le> length rows" "length rows < 2 ^ 62" "b < 2 ^ 62" "pe_db env 0" "\<And>n. \<not> pe_redis env n"
    and "rows = filter (\<lambda>r. live_product r \<and> rw_InStock r) (pt_rows (pvs_db s))"
    and "\<And>r. r \<in> set rows \<Longrightarrow> product_entityToDomain r = Inr (f r)"
  shows "fst (fst (product_ListProducts env (int k + 1) (int b) [] s)) = Inr (take b (drop (k * b) (map f rows)))"
proof -
  have "wrap64 (wrap64 (int k) * int b) = int (k * b)"
  proof -
    have "k \<le> k * b" using assms(1) by simp
    then have "k < 2 ^ 62" "k * b < 2 ^ 62" using assms(2,3) by linarith+
    then have "int k < 2 ^ 62" "int (k * b) < 2 ^ 62" by (metis of_nat_less_iff of_nat_numeral of_nat_power)+
    then have "in64 (int k)" "in64 (int (k * b))" 
      using of_nat_0_le_iff [of k, where 'a = int] of_nat_0_le_iff [of "k * b", where 'a = int]
      unfolding in64_def by (simp_all del: of_nat_mult)
    then show ?thesis by (simp add: wrap64_id)
  qed
  then have "dao_ListProducts True (pe_text env) (int k + 1) (int b) [] (pvs_db s) = Inr (take b (drop (k * b) rows))"
    using assms(7) by (simp add: dao_ListProducts_def Let_def nat_mult_distrib)
  moreover have "load_list (take b (drop (k * b) rows)) = map f (take b (drop (k * b) rows))"
    by (rule load_list_map) (use assms(8) in \<open>meson in_set_takeD in_set_dropD\<close>)
  moreover have "cache_Get False now x = None" for now and x :: "(Product list \<times> int) option"
    by (simp add: cache_Get_def split: option.split)
  ultimately show ?thesis using assms(1,5,6)
    by (simp add: product_ListProducts_def repo_ListProducts_def loadProductList_def take_map drop_map Let_def)
qed

text \<open>One row that does not convert makes its page short, and the loop takes a short page for the last.\<close>

lemma short_page_ends_sync:
  assumes "list page batch = Some ps" "ps \<noteq> []" "int (length ps) < batch"
  shows "syncProductsFromRPC (Suc fuel) list em env batch page n s
       = (case BatchSync em (env page) (map create_event ps) s of (k, s') \<Rightarrow> Some ((fst n + fst k, snd n + snd k, False), s'))"
  using assms by (simp add: Let_def split: prod.split)


end
