(* ===== verification/AgentTools.thy ===== *)
theory AgentTools
  imports Cart
begin

text \<open>
  The tools the services offer to the agent over MCP: the identity of a call that travels in headers
  (\<open>pkg/mcpruntime\<close>), the arguments of a tool, and the tool of the cart service
  (\<open>internal/cart/transport/mcp\<close>).  Arguments are a JSON object, read into a struct by \<open>encoding/json\<close>.
\<close>

section \<open>Values\<close>

text \<open>A Go \<open>any\<close> from JSON.  \<open>AnyNum\<close> is a number without a fraction, below \<open>2^53\<close> where it is a \<open>float64\<close>;
  \<open>AnyFrac\<close> is another number and \<open>AnyOther\<close> an array or object, with the texts \<open>fmt.Sprint\<close> gives them.\<close>

datatype Any = AnyNil | AnyBool bool | AnyNum int | AnyFrac string | AnyStr string | AnyOther string

type_synonym any_map = "(string \<times> Any) list"

text \<open>A field of a struct after \<open>json.Unmarshal\<close>, \<open>None\<close> when the types do not fit.\<close>

fun bind_int64 :: "Any option \<Rightarrow> int option" where
  "bind_int64 None = Some 0"
| "bind_int64 (Some AnyNil) = Some 0"
| "bind_int64 (Some (AnyNum n)) = (if in64 n then Some n else None)"
| "bind_int64 (Some _) = None"

fun bind_string :: "Any option \<Rightarrow> string option" where
  "bind_string None = Some []"
| "bind_string (Some AnyNil) = Some []"
| "bind_string (Some (AnyStr s)) = Some s"
| "bind_string (Some _) = None"

datatype tool_result = ToolError string | ToolText any_map

text \<open>A call of another service runs and answers, runs and loses its answer, or does not run.\<close>

datatype rpc_fate = RpcOk | RpcLost | RpcDown

definition rpc_call :: "rpc_fate \<Rightarrow> ('s \<Rightarrow> ('e + 'a) \<times> 's) \<Rightarrow> 's \<Rightarrow> (unit + 'a) \<times> 's" where
  "rpc_call fate f s =
     (case fate of
        RpcDown \<Rightarrow> (Inl (), s)
      | RpcLost \<Rightarrow> (Inl (), snd (f s))
      | RpcOk \<Rightarrow> (case f s of (Inl _, s') \<Rightarrow> (Inl (), s') | (Inr x, s') \<Rightarrow> (Inr x, s')))"

section \<open>The identity of a call\<close>

record McpRuntime =
  rt_UserID :: int
  rt_SessionID :: string
  rt_TraceID :: string

definition HeaderUserID :: string where "HeaderUserID = ''X-MCP-User-ID''"
definition HeaderSessionID :: string where "HeaderSessionID = ''X-MCP-Session-ID''"
definition HeaderTraceID :: string where "HeaderTraceID = ''X-MCP-Trace-ID''"

definition mcp_Headers :: "McpRuntime \<Rightarrow> (string \<times> string) list" where
  "mcp_Headers r =
     (if 0 < rt_UserID r then [(HeaderUserID, format_int (rt_UserID r))] else [])
     @ (if trim_space (rt_SessionID r) \<noteq> [] then [(HeaderSessionID, rt_SessionID r)] else [])
     @ (if trim_space (rt_TraceID r) \<noteq> [] then [(HeaderTraceID, rt_TraceID r)] else [])"

definition header_get :: "(string \<times> string) list \<Rightarrow> string \<Rightarrow> string" where
  "header_get hs k = (case map_of hs k of None \<Rightarrow> [] | Some v \<Rightarrow> v)"

text \<open>\<open>ParseInt\<close> returns the nearest bound for a number that is too long; its error is dropped, but
  \<open>FromHeaders\<close> keeps the value.\<close>

definition parse_clamped :: "string \<Rightarrow> int" where
  "parse_clamped s =
     (case parse_int s of
        Some n \<Rightarrow> n
      | None \<Rightarrow>
          (case s of
             [] \<Rightarrow> 0
           | c # cs \<Rightarrow>
               (if c = CHR ''-'' then (if parse_nat cs = None then 0 else - (2 ^ 63))
                else if parse_nat (if c = CHR ''+'' then cs else s) = None then 0 else 2 ^ 63 - 1)))"

definition mcp_FromHeaders :: "(string \<times> string) list \<Rightarrow> McpRuntime" where
  "mcp_FromHeaders hs =
     \<lparr>rt_UserID = parse_clamped (trim_space (header_get hs HeaderUserID)),
      rt_SessionID = trim_space (header_get hs HeaderSessionID),
      rt_TraceID = trim_space (header_get hs HeaderTraceID)\<rparr>"

lemma header_names [simp]:
  "HeaderUserID \<noteq> HeaderSessionID" "HeaderUserID \<noteq> HeaderTraceID" "HeaderSessionID \<noteq> HeaderTraceID"
  "HeaderSessionID \<noteq> HeaderUserID" "HeaderTraceID \<noteq> HeaderUserID" "HeaderTraceID \<noteq> HeaderSessionID"
  by (simp_all add: HeaderUserID_def HeaderSessionID_def HeaderTraceID_def)

lemma format_nat_not_space: "c \<in> set (format_nat n) \<Longrightarrow> \<not> is_space c"
  using format_nat_digits [of c n] by (auto simp: digit_val_def is_space_def Let_def split: if_splits)

lemma trim_space_no_space: "(\<And>c. c \<in> set s \<Longrightarrow> \<not> is_space c) \<Longrightarrow> trim_space s = s"
proof -
  assume a: "\<And>c. c \<in> set s \<Longrightarrow> \<not> is_space c"
  have d: "dropWhile is_space t = t" if "\<And>c. c \<in> set t \<Longrightarrow> \<not> is_space c" for t
    using that by (cases t) auto
  show ?thesis unfolding trim_space_def using d [of s] d [of "rev s"] a by simp
qed

lemma trim_format_int [simp]: "trim_space (format_int i) = format_int i"
  by (rule trim_space_no_space)
    (auto simp: format_int_def is_space_def dest: format_nat_not_space split: if_splits)

text \<open>What the agent puts into the headers is what a tool reads: a positive user, and the other texts without
  the space around them.\<close>

lemma runtime_roundtrip:
  assumes "in64 (rt_UserID r)"
  shows "mcp_FromHeaders (mcp_Headers r)
       = \<lparr>rt_UserID = max 0 (rt_UserID r), rt_SessionID = trim_space (rt_SessionID r), rt_TraceID = trim_space (rt_TraceID r)\<rparr>"
proof -
  have c: "parse_clamped (format_int (rt_UserID r)) = rt_UserID r" "parse_clamped [] = 0"
    using assms by (simp_all add: parse_clamped_def parse_format_int) (simp add: parse_int_def)
  show ?thesis
    by (auto simp: mcp_FromHeaders_def mcp_Headers_def header_get_def c map_add_def max_def)
qed

section \<open>The tool of the cart service\<close>

definition mcp_AddToCart ::
  "rpc_fate \<Rightarrow> cart_fault \<Rightarrow> cart_fault \<Rightarrow> McpRuntime \<Rightarrow> any_map \<Rightarrow> cart_svc \<Rightarrow> tool_result \<times> cart_svc" where
  "mcp_AddToCart fate f1 f2 runtime args s =
     (if rt_UserID runtime \<le> 0 then (ToolError ''missing runtime user_id'', s)
      else
        (case (bind_int64 (map_of args ''product_id''), bind_int64 (map_of args ''sku_id''), bind_int64 (map_of args ''quantity'')) of
           (Some product, Some sku, Some q) \<Rightarrow>
             (if product \<le> 0 then (ToolError ''product_id is required'', s)
              else if sku \<le> 0 then (ToolError ''sku_id is required'', s)
              else
                (let quantity = (if q \<le> 0 then 1 else q);
                     item = \<lparr>ci_prod = product, ci_sku = sku, ci_qty = quantity\<rparr> in
                 (case rpc_call fate (handler_AddItem f1 f2 (rt_UserID runtime) [Some item]) s of
                    (Inl _, s') \<Rightarrow> (ToolError ''add to cart failed: '', s')
                  | (Inr _, s') \<Rightarrow>
                      (ToolText [(''success'', AnyBool True), (''product_id'', AnyNum product), (''sku_id'', AnyNum sku),
                         (''quantity'', AnyNum quantity)], s'))))
         | _ \<Rightarrow> (ToolError ''invalid arguments: '', s)))"

text \<open>The tool changes the cart of the calling user only.\<close>

lemma mcp_cart_own:
  assumes "mcp_AddToCart fate f1 f2 runtime args s = (r, s')" "u \<noteq> rt_UserID runtime"
  shows "ct_qty s' u = ct_qty s u \<and> ct_prod s' u = ct_prod s u"
proof -
  have k: "ct_qty (snd (handler_AddItem f1 f2 (rt_UserID runtime) items s)) u = ct_qty s u
      \<and> ct_prod (snd (handler_AddItem f1 f2 (rt_UserID runtime) items s)) u = ct_prod s u" for items
    using assms(2)
    by (auto simp: handler_AddItem_def AddItems_def set_qty_def set_prod_def spawn_def split: sum.splits prod.splits)
  have r: "ct_qty (snd (rpc_call fate (handler_AddItem f1 f2 (rt_UserID runtime) items) s)) u = ct_qty s u
      \<and> ct_prod (snd (rpc_call fate (handler_AddItem f1 f2 (rt_UserID runtime) items) s)) u = ct_prod s u" for items
    using k [of items] by (auto simp: rpc_call_def split: rpc_fate.splits sum.splits prod.splits)
  show ?thesis using assms(1) r
    by (auto simp: mcp_AddToCart_def Let_def split: if_splits option.splits prod.splits sum.splits) (metis snd_conv)+
qed

end
