(* ===== verification/AgentTypes.thy ===== *)
theory AgentTypes
  imports AgentTools
begin

text \<open>
  Types and helpers of the agent service (\<open>internal/agent\<close>): intents and routes, the session a conversation
  carries from turn to turn with its slots, the results of a turn, and the texts a model answers.
  Confidence scores and latencies are not modelled.
\<close>

section \<open>Intents and routes\<close>

text \<open>\<open>IntentNone\<close> is the empty text, which \<open>normalizeIntentString\<close> gives an intent it does not know.\<close>

datatype Intent =
    IntentProductService | IntentOrderService | IntentPromotionService | IntentAftersalesPolicy
  | IntentAftersalesApply | IntentAddToCart | IntentUnknown | IntentNone

datatype WorkflowRoute =
    RouteProductService | RouteOrderService | RoutePromotionService | RouteAftersalesPolicy
  | RouteAftersalesApply | RouteAddToCart | RouteUnknown

definition normalizeIntentString :: "string \<Rightarrow> Intent" where
  "normalizeIntentString raw =
     (let s = trim_space (to_lower raw) in
      if s = ''product_service'' then IntentProductService
      else if s = ''order_service'' then IntentOrderService
      else if s = ''promotion_service'' then IntentPromotionService
      else if s = ''aftersales_policy'' then IntentAftersalesPolicy
      else if s = ''aftersales_apply'' then IntentAftersalesApply
      else if s = ''add_to_cart'' then IntentAddToCart
      else if s = ''unknown'' then IntentUnknown
      else IntentNone)"

fun WorkflowRouteFromIntent :: "Intent \<Rightarrow> WorkflowRoute" where
  "WorkflowRouteFromIntent IntentProductService = RouteProductService"
| "WorkflowRouteFromIntent IntentOrderService = RouteOrderService"
| "WorkflowRouteFromIntent IntentPromotionService = RoutePromotionService"
| "WorkflowRouteFromIntent IntentAftersalesPolicy = RouteAftersalesPolicy"
| "WorkflowRouteFromIntent IntentAftersalesApply = RouteAftersalesApply"
| "WorkflowRouteFromIntent IntentAddToCart = RouteAddToCart"
| "WorkflowRouteFromIntent _ = RouteUnknown"

definition DefaultReadOnlyForIntent :: "Intent \<Rightarrow> bool" where
  "DefaultReadOnlyForIntent i \<longleftrightarrow> i \<notin> {IntentAddToCart, IntentAftersalesApply}"

section \<open>Values as text\<close>

text \<open>\<open>fmt.Sprint\<close> of a \<open>float64\<close> without a fraction: an exponent from seven digits on.\<close>

definition sprint_float :: "int \<Rightarrow> string" where
  "sprint_float n =
     (let s = format_nat (nat \<bar>n\<bar>); e = length s - 1; sign = (if n < 0 then ''-'' else []) in
      if e < 6 then sign @ s
      else
        (let m = rev (dropWhile (\<lambda>c. c = CHR ''0'') (rev s)) in
         sign @ take 1 m @ (if length m \<le> 1 then [] else CHR ''.'' # drop 1 m) @ ''e+''
         @ (if e < 10 then ''0'' else []) @ format_nat e))"

fun go_sprint :: "Any \<Rightarrow> string" where
  "go_sprint AnyNil = ''<nil>''"
| "go_sprint (AnyBool b) = (if b then ''true'' else ''false'')"
| "go_sprint (AnyNum n) = sprint_float n"
| "go_sprint (AnyFrac s) = s"
| "go_sprint (AnyStr s) = s"
| "go_sprint (AnyOther s) = s"

definition FirstNonEmpty :: "string list \<Rightarrow> string" where
  "FirstNonEmpty values = (case find (\<lambda>v. trim_space v \<noteq> []) values of None \<Rightarrow> [] | Some v \<Rightarrow> v)"

fun SlotString :: "any_map \<Rightarrow> string list \<Rightarrow> string" where
  "SlotString slots [] = []"
| "SlotString slots (key # keys) =
     (case map_of slots key of
        None \<Rightarrow> SlotString slots keys
      | Some v \<Rightarrow> (let text = trim_space (go_sprint v) in if text \<noteq> [] then text else SlotString slots keys))"

text \<open>Only values that say something overwrite a slot.\<close>

definition mergeable :: "Any \<Rightarrow> bool" where
  "mergeable v \<longleftrightarrow> v \<noteq> AnyNil \<and> (\<forall>s. v = AnyStr s \<longrightarrow> trim_space s \<noteq> [])"

lemma mergeable_code [code]:
  "mergeable v = (case v of AnyNil \<Rightarrow> False | AnyStr s \<Rightarrow> trim_space s \<noteq> [] | _ \<Rightarrow> True)"
  by (auto simp: mergeable_def split: Any.splits)

definition MergeSlots :: "any_map \<Rightarrow> any_map \<Rightarrow> any_map" where
  "MergeSlots dst src = fold (\<lambda>(k, v) m. if mergeable v then AList.update k v m else m) src dst"

definition CleanJSON :: "string \<Rightarrow> string" where
  "CleanJSON raw =
     trim_space (trim_suffix ''```'' (trim_prefix ''```'' (trim_prefix ''```json'' (trim_space raw))))"

section \<open>Understanding\<close>

record UnderstandingResult =
  un_Intent :: Intent
  un_RewrittenQuery :: string
  un_Slots :: any_map

definition fallbackUnderstandingResult :: UnderstandingResult where
  "fallbackUnderstandingResult = \<lparr>un_Intent = IntentUnknown, un_RewrittenQuery = [], un_Slots = []\<rparr>"

text \<open>\<open>unjson\<close> decodes an answer of the model into intent, query and slots.\<close>

definition ParseUnderstandingResult ::
  "(string \<Rightarrow> (string \<times> string \<times> any_map) option) \<Rightarrow> string \<Rightarrow> UnderstandingResult" where
  "ParseUnderstandingResult unjson content =
     (let cleaned = CleanJSON (trim_space content) in
      if cleaned = [] then fallbackUnderstandingResult
      else
        (case unjson cleaned of
           None \<Rightarrow> fallbackUnderstandingResult
         | Some (intent, query, slots) \<Rightarrow>
             (if normalizeIntentString intent = IntentNone then fallbackUnderstandingResult
              else \<lparr>un_Intent = normalizeIntentString intent, un_RewrittenQuery = trim_space query, un_Slots = slots\<rparr>)))"

text \<open>\<open>answer\<close> is the answer of the model, \<open>None\<close> when there is no model or the call fails.\<close>

definition understanding_Invoke ::
  "(string \<Rightarrow> (string \<times> string \<times> any_map) option) \<Rightarrow> string option \<Rightarrow> string \<Rightarrow> UnderstandingResult" where
  "understanding_Invoke unjson answer userMessage =
     (if trim_space userMessage = [] then fallbackUnderstandingResult
      else (case answer of None \<Rightarrow> fallbackUnderstandingResult | Some content \<Rightarrow> ParseUnderstandingResult unjson content))"

text \<open>The node of a route; the source's default branch, an error, is for texts no route has.\<close>

fun branchFromRoute :: "WorkflowRoute \<Rightarrow> string" where
  "branchFromRoute RouteProductService = ''ProductServiceGraph''"
| "branchFromRoute RouteOrderService = ''OrderServiceGraph''"
| "branchFromRoute RoutePromotionService = ''PromotionServiceGraph''"
| "branchFromRoute RouteAftersalesPolicy = ''AftersalesPolicyGraph''"
| "branchFromRoute RouteAftersalesApply = ''AftersalesApplyGraph''"
| "branchFromRoute RouteAddToCart = ''AddToCartGraph''"
| "branchFromRoute RouteUnknown = ''UnknownGraph''"

text \<open>A write flow runs only for an answer that names it.\<close>

lemma write_needs_intent:
  assumes "WorkflowRouteFromIntent (un_Intent (understanding_Invoke unjson answer msg)) \<in> {RouteAftersalesApply, RouteAddToCart}"
  shows "\<exists>content intent query slots. answer = Some content \<and> unjson (CleanJSON (trim_space content)) = Some (intent, query, slots)
    \<and> trim_space (to_lower intent) \<in> {''aftersales_apply'', ''add_to_cart''}"
  using assms
  by (auto simp: understanding_Invoke_def ParseUnderstandingResult_def fallbackUnderstandingResult_def normalizeIntentString_def
      Let_def split: if_splits option.splits)

section \<open>Sessions and results\<close>

datatype Role = RoleUser | RoleAssistant | RoleSystem | RoleTool

record AgentSession =
  ss_SessionID :: string
  ss_UserID :: int
  ss_RecentMessages :: "(Role \<times> string) list"
  ss_CurrentOrder :: string
  ss_CurrentProduct :: string
  ss_CurrentSpec :: string
  ss_CurrentPromotion :: string
  ss_ProductList :: "string list"
  ss_OrderList :: "string list"
  ss_PromotionList :: "string list"
  ss_Slots :: any_map

definition new_session :: "string \<Rightarrow> int \<Rightarrow> AgentSession" where
  "new_session sessionID userID =
     \<lparr>ss_SessionID = sessionID, ss_UserID = userID, ss_RecentMessages = [], ss_CurrentOrder = [], ss_CurrentProduct = [],
      ss_CurrentSpec = [], ss_CurrentPromotion = [], ss_ProductList = [], ss_OrderList = [], ss_PromotionList = [], ss_Slots = []\<rparr>"

datatype ReplyStatus = StatusAnswered | StatusFallback | StatusHandoff | StatusBlocked | StatusNone

record ChatResult =
  ch_SessionID :: string
  ch_TraceID :: string
  ch_Status :: ReplyStatus
  ch_Reply :: string
  ch_Intent :: Intent
  ch_NeedHandoff :: bool
  ch_HandoffReason :: string
  ch_CacheHit :: bool
  ch_Interrupted :: bool

definition empty_result :: ChatResult where
  "empty_result = \<lparr>ch_SessionID = [], ch_TraceID = [], ch_Status = StatusNone, ch_Reply = [], ch_Intent = IntentNone,
     ch_NeedHandoff = False, ch_HandoffReason = [], ch_CacheHit = False, ch_Interrupted = False\<rparr>"

text \<open>What an interrupted turn asks: a type, a question and the missing fields.\<close>

datatype interrupt_info = Clarification string "string list" | Confirmation string

text \<open>How a node stops: it interrupts, perhaps with a state to keep, or fails.\<close>

datatype 's node_stop = Interrupt interrupt_info "'s option" | NodeFailed string

text \<open>What the workflow engine hands to a node: was it interrupted, the state it kept then, is it the target
  of a resume, the data of the resume.  The engine is not part of this repository.\<close>

record resume_map =
  rm_approved :: "Any option"
  rm_fields :: "any_map option"

record 's node_ctx =
  nx_was :: bool
  nx_state :: "'s option"
  nx_target :: bool
  nx_data :: "resume_map option"

section \<open>Resume data\<close>

record ResumeData =
  rd_Approved :: bool
  rd_Fields :: "(string \<times> string) list"

fun coerceAnyToBool :: "Any \<Rightarrow> bool" where
  "coerceAnyToBool (AnyBool b) = b"
| "coerceAnyToBool (AnyStr s) = (trim_space (to_lower s) \<in> {''true'', ''1'', ''yes''})"
| "coerceAnyToBool (AnyNum n) = (n \<noteq> 0)"
| "coerceAnyToBool (AnyFrac _) = True"
| "coerceAnyToBool _ = False"

definition ResumeDataFromMap :: "resume_map \<Rightarrow> ResumeData" where
  "ResumeDataFromMap m =
     \<lparr>rd_Approved = (case rm_approved m of None \<Rightarrow> False | Some v \<Rightarrow> coerceAnyToBool v),
      rd_Fields = (case rm_fields m of None \<Rightarrow> [] | Some fs \<Rightarrow> map (\<lambda>(k, v). (k, trim_space (go_sprint v))) fs)\<rparr>"

section \<open>References to earlier results\<close>

definition ResolveSelection :: "string \<Rightarrow> string \<Rightarrow> string list \<Rightarrow> string" where
  "ResolveSelection ref current list =
     (let raw = trim_space (to_lower ref) in
      if raw \<in> {[], ''current'', ''0''} then trim_space current
      else
        (case parse_int raw of
           None \<Rightarrow> []
         | Some index \<Rightarrow>
             (if index \<le> 0 \<or> index - 1 \<ge> int (length list) then [] else trim_space (list ! nat (index - 1)))))"

section \<open>Decisions of a model\<close>

record WriteAssistDecision =
  wd_Mode :: string
  wd_Reply :: string
  wd_Question :: string
  wd_MissingFields :: "string list"
  wd_NeedHandoff :: bool
  wd_HandoffReason :: string
  wd_SlotsPatch :: any_map

definition missing_information :: string where
  "missing_information = ''Please provide the missing information.''"

definition normalizeWriteAssistDecision :: "WriteAssistDecision \<Rightarrow> WriteAssistDecision" where
  "normalizeWriteAssistDecision d =
     (if wd_Mode d \<in> {''ready'', ''continue'', ''proceed''} then d\<lparr>wd_Mode := ''ready''\<rparr>
      else if wd_Mode d = ''answer'' then d
      else if wd_Mode d = ''handoff'' then d\<lparr>wd_NeedHandoff := True\<rparr>
      else d\<lparr>wd_Mode := ''clarification'', wd_Question := (if wd_Question d = [] then missing_information else wd_Question d)\<rparr>)"

definition ParseWriteAssistDecision :: "(string \<Rightarrow> WriteAssistDecision option) \<Rightarrow> string \<Rightarrow> WriteAssistDecision" where
  "ParseWriteAssistDecision unjson raw =
     (let cleaned = CleanJSON (trim_space raw);
          dflt = \<lparr>wd_Mode = ''clarification'', wd_Reply = [], wd_Question = missing_information, wd_MissingFields = [],
                  wd_NeedHandoff = False, wd_HandoffReason = [], wd_SlotsPatch = []\<rparr> in
      if cleaned = [] then dflt
      else
        (case unjson cleaned of
           None \<Rightarrow> dflt
         | Some d \<Rightarrow> normalizeWriteAssistDecision
             (d\<lparr>wd_Mode := trim_space (to_lower (wd_Mode d)), wd_Reply := trim_space (wd_Reply d),
                wd_Question := trim_space (wd_Question d), wd_HandoffReason := trim_space (wd_HandoffReason d)\<rparr>)))"

lemma ParseWriteAssistDecision_mode:
  "wd_Mode (ParseWriteAssistDecision unjson raw) \<in> {''ready'', ''answer'', ''handoff'', ''clarification''}"
  by (auto simp: ParseWriteAssistDecision_def normalizeWriteAssistDecision_def Let_def split: option.splits)

end
