(* ===== verification/AfterSale.thy ===== *)
theory AfterSale
  imports AgentTools
begin

text \<open>
  The after-sales service (\<open>internal/aftersale\<close>): requests to return or exchange an order, their table, the two
  use cases, the gRPC handler and the tools for the agent.  The rows of the table stand in the order of
  their ids; times count seconds.
\<close>

section \<open>Domain and table\<close>

definition RequestTypeReturn :: string where "RequestTypeReturn = ''return''"
definition RequestTypeExchange :: string where "RequestTypeExchange = ''exchange''"

definition StatusPendingReview :: string where "StatusPendingReview = ''pending_review''"
definition StatusApproved :: string where "StatusApproved = ''approved''"
definition StatusRejected :: string where "StatusRejected = ''rejected''"
definition StatusCanceled :: string where "StatusCanceled = ''canceled''"
definition StatusCompleted :: string where "StatusCompleted = ''completed''"

lemmas aftersale_texts = RequestTypeReturn_def RequestTypeExchange_def StatusPendingReview_def StatusApproved_def
  StatusRejected_def StatusCanceled_def StatusCompleted_def

record AfterSaleRequest =
  as_ID :: int
  as_RequestNo :: string
  as_UserID :: int
  as_OrderID :: int
  as_ItemID :: int
  as_RequestType :: string
  as_Reason :: string
  as_Status :: string
  as_SessionID :: string
  as_TraceID :: string
  as_Metadata :: string
  as_CreatedAt :: int
  as_UpdatedAt :: int

record aftersale_db =
  at_rows :: "AfterSaleRequest list"
  at_next :: int

datatype aftersale_err = AftersaleInvalid string | AftersaleDown | AftersaleTooLong | AftersaleDuplicate

definition NormalizeRequestType :: "string \<Rightarrow> string" where
  "NormalizeRequestType raw =
     (if to_lower (trim_space raw) = RequestTypeExchange then RequestTypeExchange else RequestTypeReturn)"

definition request_fits :: "AfterSaleRequest \<Rightarrow> bool" where
  "request_fits r \<longleftrightarrow> utf8_length (as_RequestNo r) \<le> 64 \<and> utf8_length (as_RequestType r) \<le> 16
     \<and> utf8_length (as_Reason r) \<le> 255 \<and> utf8_length (as_Status r) \<le> 32
     \<and> utf8_length (as_SessionID r) \<le> 64 \<and> utf8_length (as_TraceID r) \<le> 64"

definition aftersale_Create ::
  "bool \<Rightarrow> AfterSaleRequest \<Rightarrow> aftersale_db \<Rightarrow> (aftersale_err + AfterSaleRequest) \<times> aftersale_db" where
  "aftersale_Create up request d =
     (if \<not> up then (Inl AftersaleDown, d)
      else if \<not> request_fits request then (Inl AftersaleTooLong, d)
      else if as_RequestNo request \<in> set (map as_RequestNo (at_rows d)) then (Inl AftersaleDuplicate, d)
      else
        (let item = request\<lparr>as_ID := at_next d\<rparr> in
         (Inr item, d\<lparr>at_rows := at_rows d @ [item], at_next := at_next d + 1\<rparr>)))"

text \<open>\<open>ORDER BY id DESC LIMIT 1\<close>: the last row that matches.\<close>

definition FindOpenByUserOrder ::
  "bool \<Rightarrow> int \<Rightarrow> int \<Rightarrow> string \<Rightarrow> aftersale_db \<Rightarrow> aftersale_err + AfterSaleRequest option" where
  "FindOpenByUserOrder up userID orderID requestType d =
     (if \<not> up then Inl AftersaleDown
      else Inr (find (\<lambda>r. as_UserID r = userID \<and> as_OrderID r = orderID \<and> as_RequestType r = requestType
                         \<and> as_Status r = StatusPendingReview) (rev (at_rows d))))"

definition GetByRequestNo :: "bool \<Rightarrow> string \<Rightarrow> aftersale_db \<Rightarrow> aftersale_err + AfterSaleRequest option" where
  "GetByRequestNo up requestNo d =
     (if \<not> up then Inl AftersaleDown else Inr (find_row as_RequestNo requestNo (at_rows d)))"

section \<open>Use cases\<close>

record CreateAfterSaleCmd =
  ac_UserID :: int
  ac_OrderID :: int
  ac_ItemID :: int
  ac_RequestType :: string
  ac_Reason :: string
  ac_SessionID :: string
  ac_TraceID :: string
  ac_Metadata :: any_map

text \<open>What a call meets: the database at its two statements, the random identifier, the clock, and
  \<open>json.Marshal\<close>.\<close>

record aftersale_env =
  ae_find :: bool
  ae_insert :: bool
  ae_uuid :: string
  ae_now :: int
  ae_json :: "any_map \<Rightarrow> string option"

definition newRequestNo :: "string \<Rightarrow> string" where
  "newRequestNo uuid = ''AS-'' @ to_upper (take 8 uuid)"

text \<open>\<open>Execute\<close> up to the lookup: an error, the request that is open already, or nothing.\<close>

definition create_lookup :: "aftersale_env \<Rightarrow> CreateAfterSaleCmd \<Rightarrow> aftersale_db \<Rightarrow> aftersale_err + AfterSaleRequest option" where
  "create_lookup env cmd d =
     (if ac_UserID cmd \<le> 0 then Inl (AftersaleInvalid ''user_id is required'')
      else if ac_OrderID cmd \<le> 0 then Inl (AftersaleInvalid ''order_id is required'')
      else if trim_space (ac_Reason cmd) = [] then Inl (AftersaleInvalid ''reason is required'')
      else FindOpenByUserOrder (ae_find env) (ac_UserID cmd) (ac_OrderID cmd) (NormalizeRequestType (ac_RequestType cmd)) d)"

definition new_request :: "aftersale_env \<Rightarrow> CreateAfterSaleCmd \<Rightarrow> AfterSaleRequest" where
  "new_request env cmd =
     \<lparr>as_ID = 0, as_RequestNo = newRequestNo (ae_uuid env), as_UserID = ac_UserID cmd, as_OrderID = ac_OrderID cmd,
      as_ItemID = ac_ItemID cmd, as_RequestType = NormalizeRequestType (ac_RequestType cmd),
      as_Reason = trim_space (ac_Reason cmd), as_Status = StatusPendingReview,
      as_SessionID = trim_space (ac_SessionID cmd), as_TraceID = trim_space (ac_TraceID cmd),
      as_Metadata = (if ac_Metadata cmd = [] then [] else (case ae_json env (ac_Metadata cmd) of None \<Rightarrow> [] | Some s \<Rightarrow> s)),
      as_CreatedAt = ae_now env, as_UpdatedAt = ae_now env\<rparr>"

text \<open>The two halves of \<open>Execute\<close>, between which other calls may run.\<close>

definition create_finish ::
  "aftersale_env \<Rightarrow> CreateAfterSaleCmd \<Rightarrow> aftersale_err + AfterSaleRequest option \<Rightarrow> aftersale_db
   \<Rightarrow> (aftersale_err + AfterSaleRequest) \<times> aftersale_db" where
  "create_finish env cmd found d =
     (case found of
        Inl e \<Rightarrow> (Inl e, d)
      | Inr (Some existing) \<Rightarrow> (Inr existing, d)
      | Inr None \<Rightarrow> aftersale_Create (ae_insert env) (new_request env cmd) d)"

definition CreateAfterSale_Execute ::
  "aftersale_env \<Rightarrow> CreateAfterSaleCmd \<Rightarrow> aftersale_db \<Rightarrow> (aftersale_err + AfterSaleRequest) \<times> aftersale_db" where
  "CreateAfterSale_Execute env cmd d = create_finish env cmd (create_lookup env cmd d) d"

definition GetAfterSale_Execute :: "bool \<Rightarrow> string \<Rightarrow> aftersale_db \<Rightarrow> aftersale_err + AfterSaleRequest option" where
  "GetAfterSale_Execute up no d =
     (let requestNo = trim_space no in
      if requestNo = [] then Inl (AftersaleInvalid ''request_no is required'') else GetByRequestNo up requestNo d)"

section \<open>gRPC handler\<close>

datatype proto_request_type = TYPE_UNKNOWN | TYPE_RETURN | TYPE_EXCHANGE

datatype proto_request_status =
    STATUS_UNKNOWN | STATUS_PENDING_REVIEW | STATUS_APPROVED | STATUS_REJECTED | STATUS_CANCELED | STATUS_COMPLETED

record proto_request =
  pr_RequestNo :: string
  pr_UserId :: int
  pr_OrderId :: int
  pr_ItemId :: int
  pr_RequestType :: proto_request_type
  pr_Reason :: string
  pr_Status :: proto_request_status
  pr_CreatedAt :: int

definition requestTypeToString :: "proto_request_type \<Rightarrow> string" where
  "requestTypeToString v = (if v = TYPE_EXCHANGE then RequestTypeExchange else RequestTypeReturn)"

definition stringToRequestType :: "string \<Rightarrow> proto_request_type" where
  "stringToRequestType v = (if v = RequestTypeExchange then TYPE_EXCHANGE else TYPE_RETURN)"

definition stringToStatus :: "string \<Rightarrow> proto_request_status" where
  "stringToStatus v =
     (if v = StatusPendingReview then STATUS_PENDING_REVIEW
      else if v = StatusApproved then STATUS_APPROVED
      else if v = StatusRejected then STATUS_REJECTED
      else if v = StatusCanceled then STATUS_CANCELED
      else if v = StatusCompleted then STATUS_COMPLETED
      else STATUS_UNKNOWN)"

definition toProtoRequest :: "AfterSaleRequest \<Rightarrow> proto_request" where
  "toProtoRequest r =
     \<lparr>pr_RequestNo = as_RequestNo r, pr_UserId = as_UserID r, pr_OrderId = as_OrderID r, pr_ItemId = as_ItemID r,
      pr_RequestType = stringToRequestType (as_RequestType r), pr_Reason = as_Reason r,
      pr_Status = stringToStatus (as_Status r), pr_CreatedAt = as_CreatedAt r\<rparr>"

record CreateAfterSaleReq =
  rq_UserId :: int
  rq_OrderId :: int
  rq_ItemId :: int
  rq_RequestType :: proto_request_type
  rq_Reason :: string
  rq_SessionId :: string
  rq_TraceId :: string
  rq_MetadataJson :: string

text \<open>\<open>unjson\<close> is what \<open>json.Unmarshal\<close> leaves in the map, whose error is dropped.\<close>

definition handler_CreateAfterSale ::
  "(string \<Rightarrow> any_map) \<Rightarrow> aftersale_env \<Rightarrow> CreateAfterSaleReq \<Rightarrow> aftersale_db \<Rightarrow> (aftersale_err + proto_request) \<times> aftersale_db" where
  "handler_CreateAfterSale unjson env req d =
     (let metadata = (if rq_MetadataJson req = [] then [] else unjson (rq_MetadataJson req)) in
      (case CreateAfterSale_Execute env
              \<lparr>ac_UserID = rq_UserId req, ac_OrderID = rq_OrderId req, ac_ItemID = rq_ItemId req,
               ac_RequestType = requestTypeToString (rq_RequestType req), ac_Reason = rq_Reason req,
               ac_SessionID = rq_SessionId req, ac_TraceID = rq_TraceId req, ac_Metadata = metadata\<rparr> d of
         (Inl e, d') \<Rightarrow> (Inl e, d')
       | (Inr r, d') \<Rightarrow> (Inr (toProtoRequest r), d')))"

definition handler_GetAfterSale :: "bool \<Rightarrow> string \<Rightarrow> aftersale_db \<Rightarrow> aftersale_err + proto_request option" where
  "handler_GetAfterSale up no d =
     (case GetAfterSale_Execute up no d of Inl e \<Rightarrow> Inl e | Inr r \<Rightarrow> Inr (map_option toProtoRequest r))"

section \<open>Tools\<close>

definition mcp_stringToRequestType :: "string \<Rightarrow> proto_request_type" where
  "mcp_stringToRequestType v = (if to_lower (trim_space v) = ''exchange'' then TYPE_EXCHANGE else TYPE_RETURN)"

definition mcp_requestTypeToString :: "proto_request_type \<Rightarrow> string" where
  "mcp_requestTypeToString v = (if v = TYPE_EXCHANGE then ''exchange'' else ''return'')"

definition requestStatusToString :: "proto_request_status \<Rightarrow> string" where
  "requestStatusToString v =
     (case v of
        STATUS_PENDING_REVIEW \<Rightarrow> ''pending_review'' | STATUS_APPROVED \<Rightarrow> ''approved'' | STATUS_REJECTED \<Rightarrow> ''rejected''
      | STATUS_CANCELED \<Rightarrow> ''canceled'' | STATUS_COMPLETED \<Rightarrow> ''completed'' | STATUS_UNKNOWN \<Rightarrow> ''unknown'')"

definition request_text :: "proto_request \<Rightarrow> any_map" where
  "request_text r =
     [(''request_no'', AnyStr (pr_RequestNo r)), (''status'', AnyStr (requestStatusToString (pr_Status r))),
      (''request_type'', AnyStr (mcp_requestTypeToString (pr_RequestType r))), (''order_id'', AnyNum (pr_OrderId r)),
      (''item_id'', AnyNum (pr_ItemId r)), (''reason'', AnyStr (pr_Reason r)), (''created_at'', AnyNum (pr_CreatedAt r))]"

text \<open>\<open>json\<close> renders the argument \<open>metadata\<close>; a value that is no object fails the binding.\<close>

definition mcp_CreateAfterSale ::
  "rpc_fate \<Rightarrow> (string \<Rightarrow> any_map) \<Rightarrow> (Any option \<Rightarrow> string option) \<Rightarrow> aftersale_env \<Rightarrow> McpRuntime \<Rightarrow> any_map \<Rightarrow> aftersale_db
   \<Rightarrow> tool_result \<times> aftersale_db" where
  "mcp_CreateAfterSale fate unjson json env runtime args d =
     (if rt_UserID runtime \<le> 0 then (ToolError ''missing runtime user_id'', d)
      else
        (case (bind_int64 (map_of args ''order_id''), bind_int64 (map_of args ''item_id''), bind_string (map_of args ''reason''),
               bind_string (map_of args ''request_type''), json (map_of args ''metadata'')) of
           (Some orderID, Some itemID, Some reason, Some kind, Some metadataJSON) \<Rightarrow>
             (case rpc_call fate (handler_CreateAfterSale unjson env
                     \<lparr>rq_UserId = rt_UserID runtime, rq_OrderId = orderID, rq_ItemId = itemID,
                      rq_RequestType = mcp_stringToRequestType kind, rq_Reason = reason,
                      rq_SessionId = rt_SessionID runtime, rq_TraceId = rt_TraceID runtime, rq_MetadataJson = metadataJSON\<rparr>) d of
                (Inl _, d') \<Rightarrow> (ToolError ''create after sale request failed: '', d')
              | (Inr request, d') \<Rightarrow> (ToolText (request_text request), d'))
         | _ \<Rightarrow> (ToolError ''invalid arguments: '', d)))"

definition mcp_GetAfterSale :: "rpc_fate \<Rightarrow> bool \<Rightarrow> McpRuntime \<Rightarrow> any_map \<Rightarrow> aftersale_db \<Rightarrow> tool_result" where
  "mcp_GetAfterSale fate up runtime args d =
     (if rt_UserID runtime \<le> 0 then ToolError ''missing runtime user_id''
      else
        (case bind_string (map_of args ''request_no'') of
           None \<Rightarrow> ToolError ''invalid arguments: ''
         | Some no \<Rightarrow>
             (case fst (rpc_call fate (\<lambda>d. (handler_GetAfterSale up no d, d)) d) of
                Inl _ \<Rightarrow> ToolError ''get after sale request failed: ''
              | Inr None \<Rightarrow> ToolError ''after sale request not found''
              | Inr (Some request) \<Rightarrow>
                  (if pr_UserId request \<noteq> rt_UserID runtime
                   then ToolError ''after sale request does not belong to current user''
                   else ToolText (request_text request)))))"

end
