(* ===== verification/AgentWrite.thy ===== *)
theory AgentWrite
  imports AgentTypes AfterSale
begin

text \<open>
  The two flows of the agent that change something (\<open>orchestrator/subgraph/addtocart\<close> and
  \<open>aftersalesapply\<close>): an optional look by a model, the arguments, for an after-sales request a
  confirmation, and the call of the tool.  A flow is entered at its first node, or at the node that
  interrupted it.  The workflow engine, the models and the MCP client are parameters: a node gets its
  context from the engine, a tool call answers with an error or with the JSON object its text spells.
\<close>

section \<open>Calling a tool\<close>

text \<open>What a tool call shows the node: an error of the call, or the recorded result as a JSON object,
  \<open>None\<close> when it is none.\<close>

type_synonym tool_view = "unit + any_map option"

text \<open>The MCP client of the agent, which is not part of this repository: a text that is a JSON object comes
  back as this object; an error becomes an error of the call, or a text that is no JSON object.\<close>

definition mcp_client :: "(tool_result \<Rightarrow> tool_view) \<Rightarrow> bool" where
  "mcp_client view \<longleftrightarrow> (\<forall>m. view (ToolText m) = Inr (Some m)) \<and> (\<forall>e. view (ToolError e) \<in> {Inl (), Inr None})"

text \<open>A tool as the agent sees it: what the server does with the arguments, then the client.\<close>

definition call_tool :: "(tool_result \<Rightarrow> tool_view) \<Rightarrow> (any_map \<Rightarrow> 'w \<Rightarrow> tool_result \<times> 'w) \<Rightarrow> any_map \<Rightarrow> 'w \<Rightarrow> tool_view \<times> 'w" where
  "call_tool view server args w = (case server args w of (res, w') \<Rightarrow> (view res, w'))"

fun ToolResultBool :: "any_map \<Rightarrow> string list \<Rightarrow> bool option" where
  "ToolResultBool m [] = None"
| "ToolResultBool m (key # keys) =
     (case map_of m key of
        Some (AnyBool b) \<Rightarrow> Some b
      | Some (AnyStr s) \<Rightarrow>
          (let t = to_lower (trim_space s) in
           if t \<in> {''true'', ''1'', ''yes'', ''y'', ''supported'', ''allow'', ''allowed'', ''eligible''} then Some True
           else if t \<in> {''false'', ''0'', ''no'', ''n'', ''unsupported'', ''deny'', ''denied'', ''ineligible''} then Some False
           else ToolResultBool m keys)
      | Some (AnyNum n) \<Rightarrow> Some (n \<noteq> 0)
      | Some (AnyFrac _) \<Rightarrow> Some True
      | _ \<Rightarrow> ToolResultBool m keys)"

section \<open>The look of a model\<close>

text \<open>What \<open>runAgentAssist\<close> does with the text of the model: \<open>None\<close> without a model, an error when the run
  fails.  The slots it patches stay patched when it interrupts.\<close>

definition run_assist ::
  "(string \<Rightarrow> WriteAssistDecision option) \<Rightarrow> Intent \<Rightarrow> string \<Rightarrow> (string + string) option \<Rightarrow> AgentSession
   \<Rightarrow> ('s node_stop + ChatResult option) \<times> AgentSession" where
  "run_assist unjson intent dflt answer sess =
     (case answer of
        None \<Rightarrow> (Inr None, sess)
      | Some (Inl e) \<Rightarrow> (Inl (NodeFailed e), sess)
      | Some (Inr text) \<Rightarrow>
          (let d = ParseWriteAssistDecision unjson text;
               sess' = sess\<lparr>ss_Slots := MergeSlots (ss_Slots sess) (wd_SlotsPatch d)\<rparr> in
           if wd_Mode d = ''ready'' then (Inr None, sess')
           else if wd_Mode d \<in> {''answer'', ''handoff''}
           then (Inr (Some (empty_result\<lparr>ch_Intent := intent, ch_Reply := FirstNonEmpty [wd_Reply d, dflt],
                                         ch_NeedHandoff := wd_NeedHandoff d, ch_HandoffReason := wd_HandoffReason d\<rparr>)), sess')
           else (Inl (Interrupt (Clarification (FirstNonEmpty [wd_Question d, missing_information]) (wd_MissingFields d)) None), sess')))"

section \<open>Adding to the cart\<close>

record AddToCartResolveInput =
  ai_ProductID :: string
  ai_SKUID :: string
  ai_ProductRef :: string
  ai_Spec :: string
  ai_Quantity :: int
  ai_CurrentProduct :: string
  ai_CurrentSpec :: string
  ai_ProductList :: "string list"

record ResolvedAddToCart =
  ra_ProductID :: string
  ra_SKUID :: string
  ra_Spec :: string
  ra_Quantity :: int

record AddToCartInterruptState =
  ad_ProductID :: string
  ad_SKUID :: string
  ad_ProductName :: string
  ad_Spec :: string
  ad_Quantity :: int
  ad_MissingFields :: "string list"

definition cart_quantity :: "string \<Rightarrow> int" where
  "cart_quantity raw =
     (if raw = [] then 0 else (case parse_int (trim_space raw) of None \<Rightarrow> 0 | Some q \<Rightarrow> if 0 < q then q else 0))"

definition cart_InputFromState :: "AgentSession \<Rightarrow> AddToCartResolveInput" where
  "cart_InputFromState s =
     \<lparr>ai_ProductID = SlotString (ss_Slots s) [''product_id''], ai_SKUID = SlotString (ss_Slots s) [''sku_id''],
      ai_ProductRef = SlotString (ss_Slots s) [''product_ref''], ai_Spec = SlotString (ss_Slots s) [''spec''],
      ai_Quantity = cart_quantity (SlotString (ss_Slots s) [''quantity'']),
      ai_CurrentProduct = trim_space (ss_CurrentProduct s), ai_CurrentSpec = trim_space (ss_CurrentSpec s),
      ai_ProductList = ss_ProductList s\<rparr>"

definition cart_resolve :: "AddToCartResolveInput \<Rightarrow> ResolvedAddToCart" where
  "cart_resolve i =
     (let p0 = trim_space (ai_ProductID i);
          p1 = (if p0 = [] then ResolveSelection (ai_ProductRef i) (ai_CurrentProduct i) (ai_ProductList i) else p0);
          p2 = (if p1 = [] \<and> trim_space (ai_ProductRef i) = [] then trim_space (ai_CurrentProduct i) else p1);
          spec = trim_space (ai_Spec i) in
      \<lparr>ra_ProductID = p2, ra_SKUID = trim_space (ai_SKUID i),
       ra_Spec = (if spec = [] then trim_space (ai_CurrentSpec i) else spec), ra_Quantity = ai_Quantity i\<rparr>)"

text \<open>The cases of the switch over the key of a field.\<close>

datatype cart_field = FieldProduct | FieldSKU | FieldName | FieldSpec | FieldQuantity | FieldOther string

definition cart_field_of :: "string \<Rightarrow> cart_field" where
  "cart_field_of key =
     (let k = to_lower (trim_space key) in
      if k \<in> {''product'', ''product_id''} then FieldProduct
      else if k \<in> {''sku'', ''sku_id''} then FieldSKU
      else if k = ''product_name'' then FieldName
      else if k = ''spec'' then FieldSpec
      else if k = ''quantity'' then FieldQuantity
      else FieldOther k)"

text \<open>One pass of the loop over the map of fields, which Go walks in any order.\<close>

definition merge_field :: "string \<times> string \<Rightarrow> AddToCartInterruptState \<Rightarrow> AddToCartInterruptState" where
  "merge_field f st =
     (let v = trim_space (snd f) in
      case cart_field_of (fst f) of
        FieldProduct \<Rightarrow> st\<lparr>ad_ProductID := v\<rparr>
      | FieldSKU \<Rightarrow> st\<lparr>ad_SKUID := v\<rparr>
      | FieldName \<Rightarrow> st\<lparr>ad_ProductName := v\<rparr>
      | FieldSpec \<Rightarrow> st\<lparr>ad_Spec := v\<rparr>
      | FieldQuantity \<Rightarrow> (case parse_int v of None \<Rightarrow> st | Some q \<Rightarrow> if 0 < q then st\<lparr>ad_Quantity := q\<rparr> else st)
      | FieldOther _ \<Rightarrow> st)"

definition mergeResumeInto :: "AddToCartInterruptState \<Rightarrow> ResumeData \<Rightarrow> AddToCartInterruptState" where
  "mergeResumeInto st rd = fold merge_field (rd_Fields rd) st"

definition computeMissingFields :: "AddToCartInterruptState \<Rightarrow> string list" where
  "computeMissingFields st =
     (if trim_space (ad_ProductID st) = [] then [''product''] else [])
     @ (if trim_space (ad_SKUID st) = [] then [''sku''] else [])
     @ (if trim_space (ad_Spec st) = [] then [''spec''] else [])
     @ (if ad_Quantity st \<le> 0 then [''quantity''] else [])"

definition cart_clarification :: "string list \<Rightarrow> interrupt_info" where
  "cart_clarification missing =
     Clarification
       (case missing of
          [] \<Rightarrow> missing_information
        | m # _ \<Rightarrow>
            (if m = ''product'' then ''Which product do you want to add to cart?''
             else if m = ''sku'' then ''Which SKU do you want?''
             else if m = ''spec'' then ''Which spec do you want?''
             else if m = ''quantity'' then ''How many do you want to add?''
             else missing_information))
       missing"

definition ensureAddToCartArgs ::
  "AddToCartInterruptState node_ctx \<Rightarrow> ResolvedAddToCart \<Rightarrow> AddToCartInterruptState node_stop + ResolvedAddToCart" where
  "ensureAddToCartArgs c resolved =
     (let s0 = \<lparr>ad_ProductID = trim_space (ra_ProductID resolved), ad_SKUID = trim_space (ra_SKUID resolved), ad_ProductName = [],
                ad_Spec = trim_space (ra_Spec resolved), ad_Quantity = ra_Quantity resolved, ad_MissingFields = []\<rparr>;
          s1 = (if nx_was c then (case nx_state c of None \<Rightarrow> s0 | Some st \<Rightarrow> st) else s0);
          ask = (\<lambda>s. Inl (Interrupt (cart_clarification (computeMissingFields s))
                            (Some (s\<lparr>ad_MissingFields := computeMissingFields s\<rparr>)))) in
      if nx_was c \<and> \<not> nx_target c then ask s1
      else
        (let s2 = (case nx_data c of None \<Rightarrow> s1 | Some m \<Rightarrow> mergeResumeInto s1 (ResumeDataFromMap m)) in
         if computeMissingFields s2 = []
         then Inr \<lparr>ra_ProductID = trim_space (ad_ProductID s2), ra_SKUID = trim_space (ad_SKUID s2),
                   ra_Spec = trim_space (ad_Spec s2), ra_Quantity = ad_Quantity s2\<rparr>
         else ask s2))"

text \<open>\<open>tool\<close>: the tool of the registry, if it is there.\<close>

definition submitAddToCart ::
  "(any_map \<Rightarrow> 'w \<Rightarrow> tool_view \<times> 'w) option \<Rightarrow> ResolvedAddToCart \<Rightarrow> AgentSession \<Rightarrow> 'w
   \<Rightarrow> (AddToCartInterruptState node_stop + ChatResult) \<times> AgentSession \<times> 'w" where
  "submitAddToCart tool resolved sess w =
     (if trim_space (ra_ProductID resolved) = [] then (Inl (NodeFailed ''product_id is required''), sess, w)
      else if trim_space (ra_SKUID resolved) = [] then (Inl (NodeFailed ''sku_id is required''), sess, w)
      else
        (case tool of
           None \<Rightarrow>
             (Inr (empty_result\<lparr>ch_Intent := IntentAddToCart,
                 ch_Reply := ''Cart service is currently unavailable. Please try again later.'',
                 ch_NeedHandoff := True, ch_HandoffReason := ''cart_service_unavailable''\<rparr>), sess, w)
         | Some call \<Rightarrow>
             (case call [(''product_id'', AnyStr (ra_ProductID resolved)), (''sku_id'', AnyStr (ra_SKUID resolved)),
                         (''quantity'', AnyNum (ra_Quantity resolved))] w of
                (Inl _, w') \<Rightarrow> (Inl (NodeFailed ''tool call failed''), sess, w')
              | (Inr payload, w') \<Rightarrow>
                  (let done = ToolResultBool (case payload of None \<Rightarrow> [] | Some m \<Rightarrow> m) [''success''] = Some True;
                       sess' = (if done
                                then sess\<lparr>ss_CurrentProduct := trim_space (ra_ProductID resolved),
                                          ss_Slots := AList.update ''sku_id'' (AnyStr (trim_space (ra_SKUID resolved))) (ss_Slots sess),
                                          ss_CurrentSpec := trim_space (ra_Spec resolved)\<rparr>
                                else sess) in
                   (Inr (empty_result\<lparr>ch_Intent := IntentAddToCart,
                       ch_Reply := ''Added product '' @ ra_ProductID resolved @ '' to cart.''\<rparr>), sess', w')))))"

definition cart_from_ensure ::
  "(any_map \<Rightarrow> 'w \<Rightarrow> tool_view \<times> 'w) option \<Rightarrow> AddToCartInterruptState node_ctx \<Rightarrow> ResolvedAddToCart \<Rightarrow> AgentSession \<Rightarrow> 'w
   \<Rightarrow> (AddToCartInterruptState node_stop + ChatResult) \<times> AgentSession \<times> 'w" where
  "cart_from_ensure tool c resolved sess w =
     (case ensureAddToCartArgs c resolved of
        Inl stop \<Rightarrow> (Inl stop, sess, w)
      | Inr r \<Rightarrow> submitAddToCart tool r sess w)"

definition cart_flow ::
  "(string \<Rightarrow> WriteAssistDecision option) \<Rightarrow> (string + string) option \<Rightarrow> (any_map \<Rightarrow> 'w \<Rightarrow> tool_view \<times> 'w) option
   \<Rightarrow> AddToCartInterruptState node_ctx \<Rightarrow> AgentSession \<Rightarrow> 'w \<Rightarrow> (AddToCartInterruptState node_stop + ChatResult) \<times> AgentSession \<times> 'w" where
  "cart_flow unjson answer tool c sess w =
     (case run_assist unjson IntentAddToCart ''Please provide more detail so I can continue the add-to-cart request.'' answer sess of
        (Inl stop, sess') \<Rightarrow> (Inl stop, sess', w)
      | (Inr (Some res), sess') \<Rightarrow> (Inr res, sess', w)
      | (Inr None, sess') \<Rightarrow> cart_from_ensure tool c (cart_resolve (cart_InputFromState sess')) sess' w)"

section \<open>Applying for after-sales service\<close>

record ApplyResolveInput =
  al_OrderID :: string
  al_OrderRef :: string
  al_Reason :: string
  al_RequestType :: string
  al_CurrentOrder :: string
  al_OrderList :: "string list"

record ResolvedApply =
  rs_OrderID :: string
  rs_Reason :: string
  rs_RequestType :: string

record ApplyInterruptState =
  ap_OrderID :: string
  ap_Reason :: string
  ap_RequestType :: string
  ap_MissingFields :: "string list"

definition normalizedRequestType :: "string \<Rightarrow> string" where
  "normalizedRequestType raw = (if to_lower (trim_space raw) = ''exchange'' then ''exchange'' else ''return'')"

definition parseOrderID :: "string \<Rightarrow> int" where
  "parseOrderID raw = parse_clamped (trim_space raw)"

definition apply_InputFromState :: "AgentSession \<Rightarrow> ApplyResolveInput" where
  "apply_InputFromState s =
     \<lparr>al_OrderID = SlotString (ss_Slots s) [''order_id''], al_OrderRef = SlotString (ss_Slots s) [''order_ref''],
      al_Reason = SlotString (ss_Slots s) [''reason''],
      al_RequestType = FirstNonEmpty [SlotString (ss_Slots s) [''request_type''], ''return''],
      al_CurrentOrder = trim_space (ss_CurrentOrder s), al_OrderList = ss_OrderList s\<rparr>"

definition apply_resolve :: "ApplyResolveInput \<Rightarrow> ResolvedApply" where
  "apply_resolve i =
     (let o0 = trim_space (al_OrderID i);
          o1 = (if o0 = [] then ResolveSelection (al_OrderRef i) (al_CurrentOrder i) (al_OrderList i) else o0);
          o2 = (if o1 = [] \<and> trim_space (al_OrderRef i) = [] then trim_space (al_CurrentOrder i) else o1) in
      \<lparr>rs_OrderID = o2, rs_Reason = trim_space (al_Reason i), rs_RequestType = normalizedRequestType (al_RequestType i)\<rparr>)"

definition missingApplyFields :: "ApplyInterruptState \<Rightarrow> string list" where
  "missingApplyFields st =
     (if trim_space (ap_OrderID st) = [] then [''order''] else [])
     @ (if trim_space (ap_Reason st) = [] then [''reason''] else [])"

definition applyClarificationInfo :: "string list \<Rightarrow> interrupt_info" where
  "applyClarificationInfo missing =
     Clarification
       (case missing of
          [] \<Rightarrow> missing_information
        | m # _ \<Rightarrow>
            (if m = ''order'' then ''Which order do you want to apply aftersales for?''
             else if m = ''reason'' then ''What is the aftersales reason?''
             else missing_information))
       missing"

definition confirmationInfo :: "string \<Rightarrow> string \<Rightarrow> interrupt_info" where
  "confirmationInfo orderID reason =
     Confirmation (''Please confirm submitting the aftersales request for order '' @ orderID @ ''. Reason: '' @ reason @ ''.'')"

definition resume_field :: "ResumeData \<Rightarrow> string \<Rightarrow> string" where
  "resume_field rd k = (case map_of (rd_Fields rd) k of None \<Rightarrow> [] | Some v \<Rightarrow> trim_space v)"

definition apply_state :: "ApplyInterruptState node_ctx \<Rightarrow> ResolvedApply \<Rightarrow> ApplyInterruptState" where
  "apply_state c resolved =
     (let s0 = \<lparr>ap_OrderID = rs_OrderID resolved, ap_Reason = rs_Reason resolved, ap_RequestType = rs_RequestType resolved,
                ap_MissingFields = []\<rparr> in
      if nx_was c then (case nx_state c of None \<Rightarrow> s0 | Some st \<Rightarrow> st) else s0)"

definition apply_merge :: "ResumeData \<Rightarrow> ApplyInterruptState \<Rightarrow> ApplyInterruptState" where
  "apply_merge rd st =
     (let s1 = (if resume_field rd ''order'' \<noteq> [] then st\<lparr>ap_OrderID := resume_field rd ''order''\<rparr> else st);
          s2 = (if resume_field rd ''order_id'' \<noteq> [] then s1\<lparr>ap_OrderID := resume_field rd ''order_id''\<rparr> else s1) in
      if resume_field rd ''reason'' \<noteq> [] then s2\<lparr>ap_Reason := resume_field rd ''reason''\<rparr> else s2)"

definition apply_ensureArgs ::
  "ApplyInterruptState node_ctx \<Rightarrow> ResolvedApply \<Rightarrow> ApplyInterruptState node_stop + ResolvedApply" where
  "apply_ensureArgs c resolved =
     (let s1 = apply_state c resolved;
          ask = (\<lambda>s. Inl (Interrupt (applyClarificationInfo (missingApplyFields s))
                            (Some (s\<lparr>ap_MissingFields := missingApplyFields s\<rparr>)))) in
      if nx_was c \<and> \<not> nx_target c then ask s1
      else
        (let s2 = (case nx_data c of None \<Rightarrow> s1 | Some m \<Rightarrow> apply_merge (ResumeDataFromMap m) s1) in
         if missingApplyFields s2 = []
         then Inr \<lparr>rs_OrderID = trim_space (ap_OrderID s2), rs_Reason = trim_space (ap_Reason s2),
                   rs_RequestType = normalizedRequestType (ap_RequestType s2)\<rparr>
         else ask s2))"

definition apply_confirm ::
  "ApplyInterruptState node_ctx \<Rightarrow> ResolvedApply \<Rightarrow> ApplyInterruptState node_stop + ResolvedApply" where
  "apply_confirm c resolved =
     (let s = apply_state c resolved; ask = Inl (Interrupt (confirmationInfo (ap_OrderID s) (ap_Reason s)) (Some s)) in
      if nx_was c \<and> \<not> nx_target c then ask
      else
        (case nx_data c of
           None \<Rightarrow> ask
         | Some m \<Rightarrow>
             (if \<not> rd_Approved (ResumeDataFromMap m)
              then Inr \<lparr>rs_OrderID = ap_OrderID s, rs_Reason = ap_Reason s, rs_RequestType = ''cancelled''\<rparr>
              else Inr \<lparr>rs_OrderID = ap_OrderID s, rs_Reason = ap_Reason s,
                        rs_RequestType = normalizedRequestType (ap_RequestType s)\<rparr>)))"

definition submitted_reply :: "any_map \<Rightarrow> string \<Rightarrow> string" where
  "submitted_reply payload orderID =
     (let text = (\<lambda>k. trim_space (go_sprint (case map_of payload k of None \<Rightarrow> AnyNil | Some v \<Rightarrow> v))) in
      if text ''request_no'' \<noteq> []
      then ''Aftersales request submitted successfully. Request no: '' @ text ''request_no'' @ '', status: ''
           @ FirstNonEmpty [text ''status'', ''pending_review''] @ ''.''
      else ''Submitted aftersales request for order '' @ orderID @ ''.'')"

definition apply_submit ::
  "(any_map \<Rightarrow> 'w \<Rightarrow> tool_view \<times> 'w) option \<Rightarrow> ResolvedApply \<Rightarrow> AgentSession \<Rightarrow> 'w
   \<Rightarrow> (ApplyInterruptState node_stop + ChatResult) \<times> AgentSession \<times> 'w" where
  "apply_submit tool resolved sess w =
     (if rs_RequestType resolved = ''cancelled''
      then (Inr (empty_result\<lparr>ch_Intent := IntentAftersalesApply, ch_Reply := ''Cancelled this aftersales request.''\<rparr>), sess, w)
      else
        (case tool of
           None \<Rightarrow>
             (Inr (empty_result\<lparr>ch_Intent := IntentAftersalesApply,
                 ch_Reply := ''Aftersales service is currently unavailable. Please try again later.'',
                 ch_NeedHandoff := True, ch_HandoffReason := ''aftersales_service_unavailable''\<rparr>), sess, w)
         | Some call \<Rightarrow>
             (case call [(''order_id'', AnyNum (parseOrderID (rs_OrderID resolved))), (''reason'', AnyStr (rs_Reason resolved)),
                         (''request_type'', AnyStr (normalizedRequestType (rs_RequestType resolved)))] w of
                (Inl _, w') \<Rightarrow> (Inl (NodeFailed ''tool call failed''), sess, w')
              | (Inr payload, w') \<Rightarrow>
                  (Inr (empty_result\<lparr>ch_Intent := IntentAftersalesApply,
                      ch_Reply := submitted_reply (case payload of None \<Rightarrow> [] | Some m \<Rightarrow> m) (rs_OrderID resolved)\<rparr>),
                   sess\<lparr>ss_CurrentOrder := trim_space (rs_OrderID resolved)\<rparr>, w'))))"

definition apply_from_confirm ::
  "(any_map \<Rightarrow> 'w \<Rightarrow> tool_view \<times> 'w) option \<Rightarrow> ApplyInterruptState node_ctx \<Rightarrow> ResolvedApply \<Rightarrow> AgentSession \<Rightarrow> 'w
   \<Rightarrow> (ApplyInterruptState node_stop + ChatResult) \<times> AgentSession \<times> 'w" where
  "apply_from_confirm tool c resolved sess w =
     (case apply_confirm c resolved of
        Inl stop \<Rightarrow> (Inl stop, sess, w)
      | Inr r \<Rightarrow> apply_submit tool r sess w)"

definition apply_from_ensure ::
  "(any_map \<Rightarrow> 'w \<Rightarrow> tool_view \<times> 'w) option \<Rightarrow> ApplyInterruptState node_ctx \<Rightarrow> ApplyInterruptState node_ctx \<Rightarrow> ResolvedApply
   \<Rightarrow> AgentSession \<Rightarrow> 'w \<Rightarrow> (ApplyInterruptState node_stop + ChatResult) \<times> AgentSession \<times> 'w" where
  "apply_from_ensure tool ce cc resolved sess w =
     (case apply_ensureArgs ce resolved of
        Inl stop \<Rightarrow> (Inl stop, sess, w)
      | Inr r \<Rightarrow> apply_from_confirm tool cc r sess w)"

definition apply_flow ::
  "(string \<Rightarrow> WriteAssistDecision option) \<Rightarrow> (string + string) option \<Rightarrow> (any_map \<Rightarrow> 'w \<Rightarrow> tool_view \<times> 'w) option
   \<Rightarrow> ApplyInterruptState node_ctx \<Rightarrow> ApplyInterruptState node_ctx \<Rightarrow> AgentSession \<Rightarrow> 'w
   \<Rightarrow> (ApplyInterruptState node_stop + ChatResult) \<times> AgentSession \<times> 'w" where
  "apply_flow unjson answer tool ce cc sess w =
     (case run_assist unjson IntentAftersalesApply ''Please provide more detail so I can continue the aftersales request.'' answer sess of
        (Inl stop, sess') \<Rightarrow> (Inl stop, sess', w)
      | (Inr (Some res), sess') \<Rightarrow> (Inr res, sess', w)
      | (Inr None, sess') \<Rightarrow> apply_from_ensure tool ce cc (apply_resolve (apply_InputFromState sess')) sess' w)"

end
