(* ===== verification/AfterSaleSpec.thy ===== *)
theory AfterSaleSpec
  imports AfterSale
begin

text \<open>
  What the after-sales service guarantees: its table, creation that answers with the request that is open
  already, and tools that serve a user the user's own requests only.
\<close>

section \<open>The table\<close>

definition request_key :: "AfterSaleRequest \<Rightarrow> int \<times> int \<times> string" where
  "request_key r = (as_UserID r, as_OrderID r, as_RequestType r)"

definition cmd_key :: "CreateAfterSaleCmd \<Rightarrow> int \<times> int \<times> string" where
  "cmd_key cmd = (ac_UserID cmd, ac_OrderID cmd, NormalizeRequestType (ac_RequestType cmd))"

definition request_wf :: "AfterSaleRequest \<Rightarrow> bool" where
  "request_wf r \<longleftrightarrow> as_Status r = StatusPendingReview \<and> 0 < as_UserID r \<and> 0 < as_OrderID r
     \<and> as_RequestType r \<in> {RequestTypeReturn, RequestTypeExchange}
     \<and> trim_space (as_Reason r) = as_Reason r \<and> as_Reason r \<noteq> [] \<and> utf8_length (as_Reason r) \<le> 255"

definition aftersale_inv :: "aftersale_db \<Rightarrow> bool" where
  "aftersale_inv d \<longleftrightarrow> distinct (map as_RequestNo (at_rows d)) \<and> distinct (map request_key (at_rows d))
     \<and> sorted_wrt (<) (map as_ID (at_rows d)) \<and> (\<forall>r \<in> set (at_rows d). as_ID r < at_next d \<and> request_wf r)"

lemma NormalizeRequestType_cases: "NormalizeRequestType t \<in> {RequestTypeReturn, RequestTypeExchange}"
  by (simp add: NormalizeRequestType_def)

lemma new_request_key [simp]: "request_key (new_request env cmd) = cmd_key cmd"
  by (simp add: request_key_def cmd_key_def new_request_def)

lemma request_key_ID [simp]: "request_key (r\<lparr>as_ID := i\<rparr>) = request_key r"
  by (simp add: request_key_def)

text \<open>The ways a call of \<open>Execute\<close> ends.\<close>

lemma create_cases:
  assumes "CreateAfterSale_Execute env cmd d = (r, d')"
  obtains (error) e where "r = Inl e" "d' = d"
  | (open_already) x where "r = Inr x" "d' = d" "x \<in> set (at_rows d)" "request_key x = cmd_key cmd" "as_Status x = StatusPendingReview"
  | (created) x where "r = Inr x" "x = (new_request env cmd)\<lparr>as_ID := at_next d\<rparr>"
      "d' = d\<lparr>at_rows := at_rows d @ [x], at_next := at_next d + 1\<rparr>" "request_fits x"
      "as_RequestNo x \<notin> as_RequestNo ` set (at_rows d)" "0 < ac_UserID cmd" "0 < ac_OrderID cmd" "trim_space (ac_Reason cmd) \<noteq> []"
      "\<And>y. y \<in> set (at_rows d) \<Longrightarrow> as_Status y = StatusPendingReview \<Longrightarrow> request_key y \<noteq> cmd_key cmd"
proof (cases "create_lookup env cmd d")
  case (Inl e)
  then show ?thesis using assms error [of e] by (simp add: CreateAfterSale_Execute_def create_finish_def)
next
  case (Inr found)
  have f: "found = find (\<lambda>r. as_UserID r = ac_UserID cmd \<and> as_OrderID r = ac_OrderID cmd
        \<and> as_RequestType r = NormalizeRequestType (ac_RequestType cmd) \<and> as_Status r = StatusPendingReview) (rev (at_rows d))"
    and v: "0 < ac_UserID cmd" "0 < ac_OrderID cmd" "trim_space (ac_Reason cmd) \<noteq> []"
    using Inr by (auto simp: create_lookup_def FindOpenByUserOrder_def split: if_splits)
  show ?thesis
  proof (cases found)
    case (Some x)
    then have "x \<in> set (at_rows d)" "request_key x = cmd_key cmd" "as_Status x = StatusPendingReview"
      using f by (auto simp: request_key_def cmd_key_def dest!: find_SomeD)
    then show ?thesis using assms Inr Some open_already [of x]
      by (simp add: CreateAfterSale_Execute_def create_finish_def)
  next
    case None
    then have n: "y \<in> set (at_rows d) \<Longrightarrow> as_Status y = StatusPendingReview \<Longrightarrow> request_key y \<noteq> cmd_key cmd" for y
      using f by (auto simp: find_None_iff request_key_def cmd_key_def)
    have "aftersale_Create (ae_insert env) (new_request env cmd) d = (r, d')"
      using assms Inr None by (simp add: CreateAfterSale_Execute_def create_finish_def)
    then show ?thesis
    proof (cases r)
      case (Inr x)
      then show ?thesis using \<open>aftersale_Create _ _ _ = _\<close> v n created
        by (auto simp: aftersale_Create_def request_fits_def Let_def split: if_splits)
    qed (auto simp: aftersale_Create_def Let_def intro: error split: if_splits)
  qed
qed

lemma create_inv:
  assumes "aftersale_inv d" "CreateAfterSale_Execute env cmd d = (r, d')"
  shows "aftersale_inv d'"
  using assms(2)
proof (cases rule: create_cases)
  case (created x)
  have k: "request_key x = cmd_key cmd" using created(2) by simp
  have "request_wf x"
    using created NormalizeRequestType_cases [of "ac_RequestType cmd"]
    by (simp add: request_wf_def new_request_def request_fits_def)
  moreover have "cmd_key cmd \<notin> request_key ` set (at_rows d)"
  proof
    assume "cmd_key cmd \<in> request_key ` set (at_rows d)"
    then obtain y where "y \<in> set (at_rows d)" "request_key y = cmd_key cmd" by auto
    then show False using created(9) [of y] assms(1) by (auto simp: aftersale_inv_def request_wf_def)
  qed
  ultimately show ?thesis using assms(1) created(2-5) k
    by (auto simp: aftersale_inv_def sorted_wrt_append)
qed (use assms in simp_all)

section \<open>Creation is idempotent\<close>

inductive aftersale_reach :: "aftersale_db \<Rightarrow> bool" where
  start: "aftersale_reach \<lparr>at_rows = [], at_next = 1\<rparr>"
| execute: "\<lbrakk>aftersale_reach d; CreateAfterSale_Execute env cmd d = (r, d')\<rbrakk> \<Longrightarrow> aftersale_reach d'"

lemma aftersale_reach_inv: "aftersale_reach d \<Longrightarrow> aftersale_inv d"
  by (induction rule: aftersale_reach.induct) (auto simp: aftersale_inv_def [of "\<lparr>at_rows = [], at_next = 1\<rparr>"] intro: create_inv)

lemma find_key_unique:
  assumes "distinct (map request_key rows)" "r \<in> set rows" "request_key r = k" "P r"
  shows "find (\<lambda>x. request_key x = k \<and> P x) (rev rows) = Some r"
proof -
  have "find (\<lambda>x. request_key x = k \<and> P x) rows' = Some r" if "distinct (map request_key rows')" "r \<in> set rows'" for rows'
    using that assms(3,4) by (induction rows') (auto simp: image_iff)
  from this [of "rev rows"] show ?thesis using assms(1,2) by (simp add: rev_map [symmetric])
qed

lemma execute_open:
  assumes "aftersale_inv d" "x \<in> set (at_rows d)" "request_key x = cmd_key cmd" "ae_find env" "trim_space (ac_Reason cmd) \<noteq> []"
  shows "CreateAfterSale_Execute env cmd d = (Inr x, d)"
proof -
  have w: "request_wf x" "distinct (map request_key (at_rows d))" using assms(1,2) by (auto simp: aftersale_inv_def)
  have e: "(\<lambda>r. as_UserID r = ac_UserID cmd \<and> as_OrderID r = ac_OrderID cmd
        \<and> as_RequestType r = NormalizeRequestType (ac_RequestType cmd) \<and> as_Status r = StatusPendingReview)
      = (\<lambda>r. request_key r = cmd_key cmd \<and> as_Status r = StatusPendingReview)"
    by (auto simp: request_key_def cmd_key_def)
  have "find (\<lambda>r. request_key r = cmd_key cmd \<and> as_Status r = StatusPendingReview) (rev (at_rows d)) = Some x"
    using find_key_unique [OF w(2) assms(2,3), where P = "\<lambda>r. as_Status r = StatusPendingReview"] w(1) by (simp add: request_wf_def)
  moreover have "0 < ac_UserID cmd" "0 < ac_OrderID cmd"
    using w(1) assms(3) by (auto simp: request_wf_def request_key_def cmd_key_def)
  ultimately show ?thesis using assms(4,5)
    by (simp add: CreateAfterSale_Execute_def create_finish_def create_lookup_def FindOpenByUserOrder_def e)
qed

text \<open>C37: a user has one request per order and kind, however often it is asked for.  In every state the calls
  lead to, one after the other, the requests have increasing ids, distinct numbers and distinct triples of
  user, order and kind, and wait for review with a reason that fits its column.  While the database
  answers, asking again for such a triple changes nothing and answers with the request that is there.\<close>

theorem aftersale_one_open:
  assumes "aftersale_reach d"
  shows "sorted_wrt (<) (map as_ID (at_rows d)) \<and> distinct (map as_RequestNo (at_rows d))
    \<and> distinct (map (\<lambda>r. (as_UserID r, as_OrderID r, as_RequestType r)) (at_rows d))
    \<and> (\<forall>r \<in> set (at_rows d). as_Status r = StatusPendingReview \<and> 0 < as_UserID r \<and> 0 < as_OrderID r
         \<and> as_RequestType r \<in> {RequestTypeReturn, RequestTypeExchange} \<and> as_Reason r \<noteq> [] \<and> utf8_length (as_Reason r) \<le> 255
         \<and> (\<forall>env cmd. ae_find env \<and> trim_space (ac_Reason cmd) \<noteq> [] \<and> ac_UserID cmd = as_UserID r \<and> ac_OrderID cmd = as_OrderID r
               \<and> NormalizeRequestType (ac_RequestType cmd) = as_RequestType r
             \<longrightarrow> CreateAfterSale_Execute env cmd d = (Inr r, d)))"
proof -
  have i: "aftersale_inv d" using assms by (rule aftersale_reach_inv)
  have "CreateAfterSale_Execute env cmd d = (Inr r, d)"
    if "r \<in> set (at_rows d)" "ae_find env" "trim_space (ac_Reason cmd) \<noteq> []" "ac_UserID cmd = as_UserID r"
      "ac_OrderID cmd = as_OrderID r" "NormalizeRequestType (ac_RequestType cmd) = as_RequestType r" for env cmd r
    using execute_open [OF i that(1) _ that(2,3)] that(4-6) by (simp add: request_key_def cmd_key_def)
  moreover have "request_key = (\<lambda>r. (as_UserID r, as_OrderID r, as_RequestType r))" by (simp add: fun_eq_iff request_key_def)
  ultimately show ?thesis using i by (auto simp: aftersale_inv_def request_wf_def)
qed

definition sample_aftersale_env :: aftersale_env where
  "sample_aftersale_env = \<lparr>ae_find = True, ae_insert = True, ae_uuid = ''0123abcd-e'', ae_now = 100, ae_json = (\<lambda>_. None)\<rparr>"

definition sample_aftersale_cmd :: CreateAfterSaleCmd where
  "sample_aftersale_cmd = \<lparr>ac_UserID = 7, ac_OrderID = 42, ac_ItemID = 5, ac_RequestType = '' Exchange'', ac_Reason = '' broken '',
     ac_SessionID = ''s'', ac_TraceID = ''t'', ac_Metadata = []\<rparr>"

definition sample_request :: AfterSaleRequest where
  "sample_request = \<lparr>as_ID = 1, as_RequestNo = ''AS-0123ABCD'', as_UserID = 7, as_OrderID = 42, as_ItemID = 5,
     as_RequestType = ''exchange'', as_Reason = ''broken'', as_Status = ''pending_review'', as_SessionID = ''s'',
     as_TraceID = ''t'', as_Metadata = [], as_CreatedAt = 100, as_UpdatedAt = 100\<rparr>"

lemma sample_create:
  "CreateAfterSale_Execute sample_aftersale_env sample_aftersale_cmd \<lparr>at_rows = [], at_next = 1\<rparr>
   = (Inr sample_request, \<lparr>at_rows = [sample_request], at_next = 2\<rparr>)"
  by code_simp

lemma sample_reach: "aftersale_reach \<lparr>at_rows = [sample_request], at_next = 2\<rparr>"
  using aftersale_reach.execute [OF aftersale_reach.start sample_create] .

lemma sample_fields: "as_UserID sample_request = 7" "as_OrderID sample_request = 42"
  by (simp_all add: sample_request_def)

theorem aftersale_one_open_witness:
  "CreateAfterSale_Execute sample_aftersale_env (sample_aftersale_cmd\<lparr>ac_Reason := ''late'', ac_ItemID := 6\<rparr>)
     \<lparr>at_rows = [sample_request], at_next = 2\<rparr> = (Inr sample_request, \<lparr>at_rows = [sample_request], at_next = 2\<rparr>)"
proof -
  have e: "ae_find sample_aftersale_env" "trim_space ''late'' \<noteq> []" by code_simp+
  have "NormalizeRequestType '' Exchange'' = as_RequestType sample_request" by code_simp
  then show ?thesis
    using aftersale_one_open [OF sample_reach] e sample_fields by (simp add: sample_aftersale_cmd_def)
qed

section \<open>Interleaved calls\<close>

text \<open>Nothing but the lookup keeps a second request out: two calls that both look before either inserts both
  create one.\<close>

lemma two_open_requests:
  assumes "create_lookup env1 cmd d = Inr None" "create_lookup env2 cmd d = Inr None" "ae_insert env1" "ae_insert env2"
    and "request_fits (new_request env1 cmd)" "request_fits (new_request env2 cmd)"
    and "distinct (newRequestNo (ae_uuid env1) # newRequestNo (ae_uuid env2) # map as_RequestNo (at_rows d))"
    and "d1 = snd (create_finish env1 cmd (create_lookup env1 cmd d) d)" "d2 = snd (create_finish env2 cmd (create_lookup env2 cmd d) d1)"
  shows "rows_affected (\<lambda>r. request_key r = cmd_key cmd \<and> as_Status r = StatusPendingReview) (at_rows d2)
       = 2 + rows_affected (\<lambda>r. request_key r = cmd_key cmd \<and> as_Status r = StatusPendingReview) (at_rows d)"
proof -
  have n: "as_RequestNo (new_request env cmd) = newRequestNo (ae_uuid env)" "as_Status (new_request env cmd) = StatusPendingReview" for env
    by (simp_all add: new_request_def)
  have c: "aftersale_Create True q e = (Inr (q\<lparr>as_ID := at_next e\<rparr>),
      e\<lparr>at_rows := at_rows e @ [q\<lparr>as_ID := at_next e\<rparr>], at_next := at_next e + 1\<rparr>)"
    if "request_fits q" "as_RequestNo q \<notin> set (map as_RequestNo (at_rows e))" for q e
    using that by (simp add: aftersale_Create_def Let_def)
  define x1 where "x1 = (new_request env1 cmd)\<lparr>as_ID := at_next d\<rparr>"
  have d1: "d1 = d\<lparr>at_rows := at_rows d @ [x1], at_next := at_next d + 1\<rparr>"
    using assms(1,3,5,7,8) by (simp add: create_finish_def c n x1_def)
  have "as_RequestNo (new_request env2 cmd) \<notin> set (map as_RequestNo (at_rows d1))"
    using assms(7) by (auto simp: d1 n x1_def)
  then have "at_rows d2 = at_rows d1 @ [(new_request env2 cmd)\<lparr>as_ID := at_next d1\<rparr>]"
    using assms(2,4,6,9) by (simp add: create_finish_def c)
  then show ?thesis by (simp add: n d1 x1_def)
qed

section \<open>Tools\<close>

lemma request_text_inject: "request_text (toProtoRequest r) = request_text (toProtoRequest r') \<Longrightarrow> as_RequestNo r = as_RequestNo r'"
  by (simp add: request_text_def toProtoRequest_def)

lemma rpc_call_Inr: "rpc_call fate f s = (Inr x, s') \<Longrightarrow> f s = (Inr x, s')"
  by (auto simp: rpc_call_def split: rpc_fate.splits sum.splits prod.splits)

lemma rpc_call_state: "snd (rpc_call fate f s) \<in> {s, snd (f s)}"
  by (auto simp: rpc_call_def split: rpc_fate.splits sum.splits prod.splits)

lemma execute_own:
  assumes "CreateAfterSale_Execute env cmd d = (r, d')"
  shows "filter (\<lambda>x. as_UserID x \<noteq> ac_UserID cmd) (at_rows d') = filter (\<lambda>x. as_UserID x \<noteq> ac_UserID cmd) (at_rows d)
    \<and> (\<forall>x. r = Inr x \<longrightarrow> x \<in> set (at_rows d') \<and> as_UserID x = ac_UserID cmd \<and> as_OrderID x = ac_OrderID cmd)"
  using assms
  by (cases rule: create_cases) (auto simp: request_key_def cmd_key_def new_request_def)

lemma handler_own:
  "filter (\<lambda>x. as_UserID x \<noteq> rq_UserId req) (at_rows (snd (handler_CreateAfterSale unjson env req d)))
   = filter (\<lambda>x. as_UserID x \<noteq> rq_UserId req) (at_rows d)"
  by (auto simp: handler_CreateAfterSale_def Let_def dest: execute_own split: sum.splits prod.splits)

lemma handler_result:
  assumes "handler_CreateAfterSale unjson env req d = (Inr p, d')"
  shows "\<exists>x \<in> set (at_rows d'). p = toProtoRequest x \<and> as_UserID x = rq_UserId req \<and> as_OrderID x = rq_OrderId req"
  using assms
  by (auto simp: handler_CreateAfterSale_def Let_def dest!: execute_own split: sum.splits prod.splits)

lemma create_tool_cases:
  assumes "mcp_CreateAfterSale fate unjson json env runtime args d = (r, d')"
  obtains (refused) e where "r = ToolError e" "d' = d"
  | (called) req y where "rq_UserId req = rt_UserID runtime" "bind_int64 (map_of args ''order_id'') = Some (rq_OrderId req)"
      "rpc_call fate (handler_CreateAfterSale unjson env req) d = (y, d')"
      "r = (case y of Inl _ \<Rightarrow> ToolError ''create after sale request failed: '' | Inr p \<Rightarrow> ToolText (request_text p))"
proof (cases "rt_UserID runtime \<le> 0 \<or> bind_int64 (map_of args ''order_id'') = None \<or> bind_int64 (map_of args ''item_id'') = None
    \<or> bind_string (map_of args ''reason'') = None \<or> bind_string (map_of args ''request_type'') = None
    \<or> json (map_of args ''metadata'') = None")
  case True
  then show ?thesis using assms refused by (auto simp: mcp_CreateAfterSale_def split: if_splits option.splits)
next
  case False
  then obtain o' i re k m where b: "\<not> rt_UserID runtime \<le> 0" "bind_int64 (map_of args ''order_id'') = Some o'"
    "bind_int64 (map_of args ''item_id'') = Some i" "bind_string (map_of args ''reason'') = Some re"
    "bind_string (map_of args ''request_type'') = Some k" "json (map_of args ''metadata'') = Some m" by auto
  define req where "req = \<lparr>rq_UserId = rt_UserID runtime, rq_OrderId = o', rq_ItemId = i,
      rq_RequestType = mcp_stringToRequestType k, rq_Reason = re,
      rq_SessionId = rt_SessionID runtime, rq_TraceId = rt_TraceID runtime, rq_MetadataJson = m\<rparr>"
  obtain y z where y: "rpc_call fate (handler_CreateAfterSale unjson env req) d = (y, z)" by (cases "rpc_call fate (handler_CreateAfterSale unjson env req) d")
  then have "z = d'" "r = (case y of Inl _ \<Rightarrow> ToolError ''create after sale request failed: '' | Inr p \<Rightarrow> ToolText (request_text p))"
    using assms b y [unfolded req_def] by (auto simp: mcp_CreateAfterSale_def split: sum.splits)
  then show ?thesis using called [of req y] b(2) y by (simp add: req_def)
qed

text \<open>The tools act for the user the agent runs for.  What the query tool shows is a request of that user,
  whatever number was asked for; creating adds and shows requests of that user and that order only and
  leaves the requests of everybody else as they were.\<close>

theorem aftersale_tools_private:
  assumes "mcp_GetAfterSale fate up runtime args d = ToolText t"
    and "mcp_CreateAfterSale fate' unjson json env runtime args' d = (r, d')"
  shows "(\<exists>x \<in> set (at_rows d). as_UserID x = rt_UserID runtime \<and> t = request_text (toProtoRequest x)
            \<and> bind_string (map_of args ''request_no'') \<noteq> None
            \<and> as_RequestNo x = trim_space (the (bind_string (map_of args ''request_no''))))
    \<and> filter (\<lambda>x. as_UserID x \<noteq> rt_UserID runtime) (at_rows d') = filter (\<lambda>x. as_UserID x \<noteq> rt_UserID runtime) (at_rows d)
    \<and> (\<forall>t'. r = ToolText t' \<longrightarrow>
         (\<exists>x \<in> set (at_rows d'). as_UserID x = rt_UserID runtime \<and> t' = request_text (toProtoRequest x)
            \<and> bind_int64 (map_of args' ''order_id'') = Some (as_OrderID x)))"
proof (intro conjI allI impI)
  obtain no p where b: "bind_string (map_of args ''request_no'') = Some no"
    and g: "handler_GetAfterSale up no d = Inr (Some p)" and u: "pr_UserId p = rt_UserID runtime" "t = request_text p"
    using assms(1)
    by (auto simp: mcp_GetAfterSale_def rpc_call_def split: if_splits option.splits sum.splits rpc_fate.splits prod.splits)
  obtain x where x: "GetAfterSale_Execute up no d = Inr (Some x)" "p = toProtoRequest x"
    using g by (auto simp: handler_GetAfterSale_def split: sum.splits)
  then have "find_row as_RequestNo (trim_space no) (at_rows d) = Some x"
    by (auto simp: GetAfterSale_Execute_def GetByRequestNo_def Let_def split: if_splits)
  then have "x \<in> set (at_rows d)" "as_RequestNo x = trim_space no" by (auto dest: find_row_SomeD)
  then show "\<exists>x \<in> set (at_rows d). as_UserID x = rt_UserID runtime \<and> t = request_text (toProtoRequest x)
      \<and> bind_string (map_of args ''request_no'') \<noteq> None
      \<and> as_RequestNo x = trim_space (the (bind_string (map_of args ''request_no'')))"
    using u x(2) b by (intro bexI [of _ x]) (auto simp: toProtoRequest_def)
next
  show "filter (\<lambda>x. as_UserID x \<noteq> rt_UserID runtime) (at_rows d') = filter (\<lambda>x. as_UserID x \<noteq> rt_UserID runtime) (at_rows d)"
    using assms(2)
  proof (cases rule: create_tool_cases)
    case (called req y)
    have "d' \<in> {d, snd (handler_CreateAfterSale unjson env req d)}"
      using rpc_call_state [of fate' "handler_CreateAfterSale unjson env req" d] called(3) by simp
    then show ?thesis using handler_own [of req unjson env d] called(1) by auto
  qed simp
next
  fix t' assume t: "r = ToolText t'"
  show "\<exists>x \<in> set (at_rows d'). as_UserID x = rt_UserID runtime \<and> t' = request_text (toProtoRequest x)
      \<and> bind_int64 (map_of args' ''order_id'') = Some (as_OrderID x)"
    using assms(2)
  proof (cases rule: create_tool_cases)
    case (called req y)
    then obtain p where p: "y = Inr p" "t' = request_text p" using t by (auto split: sum.splits)
    then have "handler_CreateAfterSale unjson env req d = (Inr p, d')" using called(3) by (auto dest: rpc_call_Inr)
    from handler_result [OF this] show ?thesis using p(2) called(1,2) by auto
  qed (use t in simp)
qed

definition sample_runtime :: McpRuntime where
  "sample_runtime = \<lparr>rt_UserID = 7, rt_SessionID = ''s'', rt_TraceID = ''t''\<rparr>"

theorem aftersale_tools_private_witness:
  "mcp_GetAfterSale RpcOk True sample_runtime [(''request_no'', AnyStr ''AS-0123ABCD'')] \<lparr>at_rows = [sample_request], at_next = 2\<rparr>
     = ToolText (request_text (toProtoRequest sample_request))
   \<and> mcp_GetAfterSale RpcOk True (sample_runtime\<lparr>rt_UserID := 8\<rparr>) [(''request_no'', AnyStr ''AS-0123ABCD'')]
        \<lparr>at_rows = [sample_request], at_next = 2\<rparr> = ToolError ''after sale request does not belong to current user''
   \<and> (\<exists>x \<in> {sample_request}. as_UserID x = 7)"
proof -
  have g: "mcp_GetAfterSale RpcOk True sample_runtime [(''request_no'', AnyStr ''AS-0123ABCD'')] \<lparr>at_rows = [sample_request], at_next = 2\<rparr>
     = ToolText (request_text (toProtoRequest sample_request))"
    "mcp_GetAfterSale RpcOk True (sample_runtime\<lparr>rt_UserID := 8\<rparr>) [(''request_no'', AnyStr ''AS-0123ABCD'')]
        \<lparr>at_rows = [sample_request], at_next = 2\<rparr> = ToolError ''after sale request does not belong to current user''"
    by code_simp+
  have "mcp_CreateAfterSale RpcDown (\<lambda>_. []) (\<lambda>_. Some []) sample_aftersale_env sample_runtime [] \<lparr>at_rows = [sample_request], at_next = 2\<rparr>
      = (ToolError ''create after sale request failed: '', \<lparr>at_rows = [sample_request], at_next = 2\<rparr>)"
    by code_simp
  from aftersale_tools_private [OF g(1) this] show ?thesis using g by (simp add: sample_runtime_def)
qed

end
