(* ===== verification/AgentWriteSpec.thy ===== *)
theory AgentWriteSpec
  imports AgentWrite AfterSaleSpec "HOL-Library.Multiset"
begin

text \<open>
  What the write flows of the agent guarantee: an after-sales request is submitted only as the user
  confirmed it, and what happens when the tool of the cart is called.
\<close>

section \<open>The tool that creates requests\<close>

lemma create_tool_effect:
  assumes "mcp_CreateAfterSale fate unjson json env runtime args d = (res, d')" "d' \<noteq> d"
    and "map_of args ''order_id'' = Some (AnyNum o')" "map_of args ''reason'' = Some (AnyStr reason)"
    and "map_of args ''request_type'' = Some (AnyStr kind)"
  shows "\<exists>x. at_rows d' = at_rows d @ [x] \<and> as_UserID x = rt_UserID runtime \<and> as_OrderID x = o'
    \<and> as_Reason x = trim_space reason \<and> as_RequestType x = NormalizeRequestType kind \<and> as_Status x = StatusPendingReview"
proof -
  obtain i m where b: "0 < rt_UserID runtime" "in64 o'" "bind_int64 (map_of args ''item_id'') = Some i"
    "json (map_of args ''metadata'') = Some m"
    using assms by (auto simp: mcp_CreateAfterSale_def split: if_splits option.splits)
  define req where "req = \<lparr>rq_UserId = rt_UserID runtime, rq_OrderId = o', rq_ItemId = i,
      rq_RequestType = mcp_stringToRequestType kind, rq_Reason = reason,
      rq_SessionId = rt_SessionID runtime, rq_TraceId = rt_TraceID runtime, rq_MetadataJson = m\<rparr>"
  have "d' = snd (rpc_call fate (handler_CreateAfterSale unjson env req) d)"
    using assms(1,3-5) b by (auto simp: mcp_CreateAfterSale_def req_def split: sum.splits prod.splits)
  then have "d' = snd (handler_CreateAfterSale unjson env req d)"
    using rpc_call_state [of fate "handler_CreateAfterSale unjson env req" d] assms(2) by auto
  then obtain cmd r where e: "CreateAfterSale_Execute env cmd d = (r, d')"
    and c: "ac_UserID cmd = rt_UserID runtime" "ac_OrderID cmd = o'" "ac_Reason cmd = reason"
      "ac_RequestType cmd = requestTypeToString (mcp_stringToRequestType kind)"
    by (auto simp: handler_CreateAfterSale_def req_def Let_def split: sum.splits prod.splits)
  have k: "NormalizeRequestType (requestTypeToString (mcp_stringToRequestType kind)) = NormalizeRequestType kind"
    by (simp add: NormalizeRequestType_def requestTypeToString_def mcp_stringToRequestType_def aftersale_texts
        to_lower_def trim_space_def lower_char_def is_space_def)
  show ?thesis using e
  proof (cases rule: create_cases)
    case (created x)
    then show ?thesis using c k by (intro exI [of _ x]) (simp add: new_request_def)
  qed (use assms(2) in auto)
qed

section \<open>Confirmation\<close>

lemma confirm_question:
  "apply_confirm c res = Inl (Interrupt info (Some st)) \<Longrightarrow> info = confirmationInfo (ap_OrderID st) (ap_Reason st)"
  by (auto simp: apply_confirm_def Let_def split: if_splits option.splits)

lemma confirm_result:
  assumes "apply_confirm c res = Inr r"
  shows "\<exists>m. nx_data c = Some m \<and> (nx_was c \<longrightarrow> nx_target c)
    \<and> rs_OrderID r = ap_OrderID (apply_state c res) \<and> rs_Reason r = ap_Reason (apply_state c res)
    \<and> rs_RequestType r = (if rd_Approved (ResumeDataFromMap m)
                          then normalizedRequestType (ap_RequestType (apply_state c res)) else ''cancelled'')"
proof (cases "nx_was c \<and> \<not> nx_target c \<or> nx_data c = None")
  case True
  then show ?thesis using assms
    by (cases "nx_was c \<and> \<not> nx_target c") (auto simp: apply_confirm_def Let_def)
next
  case False
  then obtain m where m: "nx_data c = Some m" "nx_was c \<longrightarrow> nx_target c" by auto
  show ?thesis
    by (intro exI [of _ m], cases "rd_Approved (ResumeDataFromMap m)") (use assms m in \<open>auto simp: apply_confirm_def Let_def\<close>)
qed

lemma normalizedRequestType_not_cancelled [simp]: "normalizedRequestType t \<noteq> ''cancelled''"
  by (simp add: normalizedRequestType_def)

lemma no_answer_no_call: "nx_data c = None \<Longrightarrow> \<exists>stop. apply_from_confirm tool c res sess w = (Inl stop, sess, w)"
  by (auto simp: apply_from_confirm_def apply_confirm_def Let_def)

lemma submit_effect:
  assumes "apply_submit (Some (call_tool view (mcp_CreateAfterSale fate unjson json env runtime))) r sess d = (out, sess', d')"
    and "d' \<noteq> d"
  shows "rs_RequestType r \<noteq> ''cancelled''
    \<and> (\<exists>x. at_rows d' = at_rows d @ [x] \<and> as_UserID x = rt_UserID runtime \<and> as_OrderID x = parseOrderID (rs_OrderID r)
        \<and> as_Reason x = trim_space (rs_Reason r) \<and> as_RequestType x = NormalizeRequestType (normalizedRequestType (rs_RequestType r))
        \<and> as_Status x = StatusPendingReview)"
proof -
  define args where "args = [(''order_id'', AnyNum (parseOrderID (rs_OrderID r))), (''reason'', AnyStr (rs_Reason r)),
      (''request_type'', AnyStr (normalizedRequestType (rs_RequestType r)))]"
  have n: "rs_RequestType r \<noteq> ''cancelled''" using assms by (auto simp: apply_submit_def)
  obtain res where c: "mcp_CreateAfterSale fate unjson json env runtime args d = (res, d')"
    using assms(1) n
    by (auto simp: apply_submit_def call_tool_def args_def split: prod.splits sum.splits)
  show ?thesis using n create_tool_effect [OF c assms(2)] by (simp add: args_def)
qed

text \<open>C38: nothing is submitted but what the user confirmed.  The node that asks for the confirmation keeps the
  order and the reason its question names.  When the engine hands that state back, a request appears in
  the table of the after-sales service only when the answer is for this node and approves, and it is one
  request of the user of the call with the order and the reason of the question; an answer that does not
  approve changes nothing and ends the flow.  A run that starts at the first node never submits.\<close>

theorem aftersale_confirmed:
  assumes "apply_confirm c1 res1 = Inl (Interrupt info (Some st))"
    and "nx_was c" "nx_state c = Some st"
    and "tool = call_tool view (mcp_CreateAfterSale fate unjs json env runtime)"
    and "apply_from_confirm (Some tool) c res sess d = (r, sess', d')"
  shows "info = confirmationInfo (ap_OrderID st) (ap_Reason st)
    \<and> (d' \<noteq> d \<longrightarrow> nx_target c \<and> (\<exists>m. nx_data c = Some m \<and> rd_Approved (ResumeDataFromMap m))
         \<and> (\<exists>x. at_rows d' = at_rows d @ [x] \<and> as_UserID x = rt_UserID runtime \<and> as_OrderID x = parseOrderID (ap_OrderID st)
              \<and> as_Reason x = trim_space (ap_Reason st) \<and> as_Status x = StatusPendingReview))
    \<and> (nx_target c \<longrightarrow> (\<forall>m. nx_data c = Some m \<and> \<not> rd_Approved (ResumeDataFromMap m) \<longrightarrow>
         d' = d \<and> sess' = sess \<and> (\<exists>out. r = Inr out \<and> ch_Reply out = ''Cancelled this aftersales request.'')))
    \<and> (nx_data cc = None \<longrightarrow> snd (snd (apply_flow unjson answer (Some tool) ce cc sess0 d)) = d)"
proof (intro conjI impI allI)
  have s: "apply_state c res = st" using assms(2,3) by (simp add: apply_state_def Let_def)
  show "info = confirmationInfo (ap_OrderID st) (ap_Reason st)" using assms(1) by (rule confirm_question)
  {
    assume d: "d' \<noteq> d"
    then obtain q where q: "apply_confirm c res = Inr q" "apply_submit (Some tool) q sess d = (r, sess', d')"
      using assms(5) by (auto simp: apply_from_confirm_def split: sum.splits)
    note e = submit_effect [OF q(2) [unfolded assms(4)] d] confirm_result [OF q(1)]
    show "nx_target c" using e(2) assms(2) by blast
    show "\<exists>m. nx_data c = Some m \<and> rd_Approved (ResumeDataFromMap m)" using e by (auto split: if_splits)
    show "\<exists>x. at_rows d' = at_rows d @ [x] \<and> as_UserID x = rt_UserID runtime \<and> as_OrderID x = parseOrderID (ap_OrderID st)
        \<and> as_Reason x = trim_space (ap_Reason st) \<and> as_Status x = StatusPendingReview" using e s by auto
  }
  fix m assume "nx_target c" and m: "nx_data c = Some m \<and> \<not> rd_Approved (ResumeDataFromMap m)"
  then have "apply_from_confirm (Some tool) c res sess d
      = (Inr (empty_result\<lparr>ch_Intent := IntentAftersalesApply, ch_Reply := ''Cancelled this aftersales request.''\<rparr>), sess, d)"
    by (simp add: apply_from_confirm_def apply_confirm_def apply_submit_def Let_def)
  then show "d' = d" "sess' = sess" "\<exists>out. r = Inr out \<and> ch_Reply out = ''Cancelled this aftersales request.''"
    using assms(5) by auto
next
  assume "nx_data cc = None"
  then have "snd (snd (apply_from_confirm (Some tool) cc q sess1 d)) = d" for q sess1
    using no_answer_no_call [of cc "Some tool" q sess1 d] by auto
  then show "snd (snd (apply_flow unjson answer (Some tool) ce cc sess0 d)) = d"
    by (auto simp: apply_flow_def apply_from_ensure_def split: prod.splits sum.splits option.splits)
qed

definition sample_apply_state :: ApplyInterruptState where
  "sample_apply_state = \<lparr>ap_OrderID = ''42'', ap_Reason = ''broken'', ap_RequestType = ''exchange'', ap_MissingFields = []\<rparr>"

definition asking_ctx :: "ApplyInterruptState node_ctx" where
  "asking_ctx = \<lparr>nx_was = False, nx_state = None, nx_target = False, nx_data = None\<rparr>"

definition approving_ctx :: "ApplyInterruptState node_ctx" where
  "approving_ctx = \<lparr>nx_was = True, nx_state = Some sample_apply_state, nx_target = True,
     nx_data = Some \<lparr>rm_approved = Some (AnyStr '' Yes''), rm_fields = None\<rparr>\<rparr>"

definition sample_resolved :: ResolvedApply where
  "sample_resolved = \<lparr>rs_OrderID = ''42'', rs_Reason = ''broken'', rs_RequestType = ''exchange''\<rparr>"

definition sample_view :: "tool_result \<Rightarrow> tool_view" where
  "sample_view r = (case r of ToolText m \<Rightarrow> Inr (Some m) | ToolError e \<Rightarrow> Inl ())"

lemma sample_view_client: "mcp_client sample_view"
  by (simp add: mcp_client_def sample_view_def)

definition sample_apply_tool :: "any_map \<Rightarrow> aftersale_db \<Rightarrow> tool_view \<times> aftersale_db" where
  "sample_apply_tool = call_tool sample_view (mcp_CreateAfterSale RpcOk (\<lambda>_. []) (\<lambda>_. Some []) sample_aftersale_env sample_runtime)"

lemma sample_apply_run:
  "apply_confirm asking_ctx sample_resolved
     = Inl (Interrupt (confirmationInfo ''42'' ''broken'') (Some sample_apply_state))"
  "at_rows (snd (snd (apply_from_confirm (Some sample_apply_tool) approving_ctx sample_resolved (new_session ''s'' 7) \<lparr>at_rows = [], at_next = 1\<rparr>)))
     = [sample_request\<lparr>as_ItemID := 0\<rparr>]"
  by code_simp+

theorem aftersale_confirmed_witness:
  "\<exists>m x. nx_data approving_ctx = Some m \<and> rd_Approved (ResumeDataFromMap m)
    \<and> at_rows (snd (snd (apply_from_confirm (Some sample_apply_tool) approving_ctx sample_resolved (new_session ''s'' 7) \<lparr>at_rows = [], at_next = 1\<rparr>))) = [x]
    \<and> as_UserID x = 7 \<and> as_OrderID x = parseOrderID ''42'' \<and> as_Reason x = trim_space ''broken''"
proof -
  define d :: aftersale_db where "d = \<lparr>at_rows = [], at_next = 1\<rparr>"
  obtain r sess' d' where run: "apply_from_confirm (Some sample_apply_tool) approving_ctx sample_resolved (new_session ''s'' 7) d = (r, sess', d')"
    by (metis prod_cases3)
  then have "at_rows d' \<noteq> at_rows d" using sample_apply_run(2) by (simp add: d_def)
  then have "d' \<noteq> d" by auto
  moreover have "nx_was approving_ctx" "nx_state approving_ctx = Some sample_apply_state" by (simp_all add: approving_ctx_def)
  ultimately have "(\<exists>m. nx_data approving_ctx = Some m \<and> rd_Approved (ResumeDataFromMap m))
      \<and> (\<exists>x. at_rows d' = at_rows d @ [x] \<and> as_UserID x = rt_UserID sample_runtime
           \<and> as_OrderID x = parseOrderID (ap_OrderID sample_apply_state) \<and> as_Reason x = trim_space (ap_Reason sample_apply_state))"
    using aftersale_confirmed [OF sample_apply_run(1) _ _ sample_apply_tool_def run] by blast
  then show ?thesis using run by (simp add: d_def sample_apply_state_def sample_runtime_def)
qed

section \<open>Replies\<close>

text \<open>A tool result that is no JSON object, or has no number, is reported as a success with the number
  \<open><nil>\<close>; the branch for a missing number needs a blank one.\<close>

lemma reply_without_number:
  "submitted_reply [] orderID = ''Aftersales request submitted successfully. Request no: <nil>, status: <nil>.''"
  by code_simp

text \<open>A slot that a model filled with a number of seven digits or more is written with an exponent; as an order
  id it reads as 0, which the service refuses.\<close>

lemma long_number_slot:
  "SlotString [(''order_id'', AnyNum 1234567)] [''order_id''] = ''1.234567e+06'' \<and> parseOrderID ''1.234567e+06'' = 0
   \<and> SlotString [(''order_id'', AnyNum 123456)] [''order_id''] = ''123456'' \<and> parseOrderID ''123456'' = 123456"
proof -
  have "sprint_float 1234567 = ''1.234567e+06''" "sprint_float 123456 = ''123456''"
    by (simp_all add: sprint_float_def format_nat.simps digit_char_def char_of_def bit_Suc_0_iff Let_def)
  moreover have "trim_space ''1.234567e+06'' = ''1.234567e+06''" "trim_space ''123456'' = ''123456''" by code_simp+
  ultimately show ?thesis
    by (simp add: parseOrderID_def parse_clamped_def parse_int_def parse_nat_def digit_val_def in64_def Let_def)
qed

section \<open>The cart\<close>

text \<open>The flow sends product and SKU as texts, and the tool of the cart reads numbers: the cart never changes,
  and an answer, if there is one, still says that the product was added.\<close>

lemma agent_cart_refused:
  assumes "mcp_client view"
    and "submitAddToCart (Some (call_tool view (mcp_AddToCart fate f1 f2 runtime))) resolved sess s = (r, sess', s')"
  shows "s' = s \<and> sess' = sess \<and> (\<forall>out. r = Inr out \<longrightarrow> ch_Reply out = ''Added product '' @ ra_ProductID resolved @ '' to cart.'')"
proof -
  have e: "\<exists>e. mcp_AddToCart fate f1 f2 runtime
      [(''product_id'', AnyStr (ra_ProductID resolved)), (''sku_id'', AnyStr (ra_SKUID resolved)),
       (''quantity'', AnyNum (ra_Quantity resolved))] s = (ToolError e, s)"
    by (simp add: mcp_AddToCart_def)
  have v: "view (ToolError e) \<in> {Inl (), Inr None}" for e using assms(1) by (simp add: mcp_client_def)
  obtain x where x: "mcp_AddToCart fate f1 f2 runtime
      [(''product_id'', AnyStr (ra_ProductID resolved)), (''sku_id'', AnyStr (ra_SKUID resolved)),
       (''quantity'', AnyNum (ra_Quantity resolved))] s = (ToolError x, s)" using e by blast
  have n: "ToolResultBool [] [''success''] = None" by simp
  from v [of x] consider "view (ToolError x) = Inl ()" | "view (ToolError x) = Inr None" by auto
  then show ?thesis
    by cases (use assms(2) in \<open>auto simp: submitAddToCart_def call_tool_def x n Let_def split: if_splits\<close>)
qed

text \<open>With every field in the resume data the arguments are complete, whatever was missing.\<close>

lemma cart_args_complete:
  assumes "nx_was c \<Longrightarrow> nx_target c" "nx_data c = Some \<lparr>rm_approved = a, rm_fields = Some
      [(''product'', AnyStr p), (''sku'', AnyStr k), (''spec'', AnyStr sp), (''quantity'', AnyStr (format_int q))]\<rparr>"
    and "trim_space p \<noteq> []" "trim_space k \<noteq> []" "trim_space sp \<noteq> []" "0 < q" "in64 q"
  shows "ensureAddToCartArgs c res = Inr \<lparr>ra_ProductID = trim_space p, ra_SKUID = trim_space k, ra_Spec = trim_space sp, ra_Quantity = q\<rparr>"
proof -
  have k: "cart_field_of ''product'' = FieldProduct" "cart_field_of ''sku'' = FieldSKU" "cart_field_of ''spec'' = FieldSpec"
    "cart_field_of ''quantity'' = FieldQuantity" by code_simp+
  have m: "mergeResumeInto st (ResumeDataFromMap \<lparr>rm_approved = a, rm_fields = Some
      [(''product'', AnyStr p), (''sku'', AnyStr k), (''spec'', AnyStr sp), (''quantity'', AnyStr (format_int q))]\<rparr>)
    = st\<lparr>ad_ProductID := trim_space p, ad_SKUID := trim_space k, ad_Spec := trim_space sp, ad_Quantity := q\<rparr>" for st
    using assms(6,7) by (simp add: mergeResumeInto_def ResumeDataFromMap_def merge_field_def k parse_format_int Let_def)
  show ?thesis
    using assms by (auto simp: ensureAddToCartArgs_def m computeMissingFields_def Let_def)
qed

text \<open>The order in which Go walks the fields does not matter when no two name the same field.\<close>

lemma merge_fields_commute:
  assumes "cart_field_of (fst f) \<noteq> cart_field_of (fst g)"
  shows "merge_field f (merge_field g st) = merge_field g (merge_field f st)"
  using assms
  by (cases "cart_field_of (fst f)"; cases "cart_field_of (fst g)") (auto simp: merge_field_def Let_def split: option.splits)

lemma merge_any_order:
  assumes "mset fs = mset gs" "distinct (map (\<lambda>f. cart_field_of (fst f)) fs)"
  shows "fold merge_field fs st = fold merge_field gs st"
proof -
  have "merge_field f \<circ> merge_field g = merge_field g \<circ> merge_field f" if "f \<in> set fs" "g \<in> set fs" for f g
  proof (cases "f = g")
    case False
    then have "cart_field_of (fst f) \<noteq> cart_field_of (fst g)"
      using assms(2) that by (auto simp: distinct_map inj_on_def)
    then show ?thesis by (simp add: fun_eq_iff merge_fields_commute)
  qed simp
  then have "fold merge_field fs = fold merge_field gs" using assms(1) by (rule fold_multiset_equiv)
  then show ?thesis by simp
qed

end
