(* ===== verification/AgentSession.thy ===== *)
theory AgentSession
  imports AgentTypes
begin

text \<open>
  The sessions of the agent: the two tables, the Redis cache in front of them, the repository, the round
  events that reach the tables through Kafka, the session service, and the two nodes of the graph that
  read and write a session.  Times count milliseconds, the precision of the columns.  A cached JSON value
  is the value it spells.
\<close>

section \<open>Domain\<close>

datatype SessionStatus = SessionStatusActive | SessionStatusClosed | SessionStatusHuman | SessionStatusEmpty

record SessionMessage =
  sm_ID :: string
  sm_SessionID :: string
  sm_Role :: Role
  sm_Content :: string
  sm_Intent :: Intent
  sm_CreatedAt :: int

record SessionTableMeta =
  mt_Status :: SessionStatus
  mt_LastMessage :: string
  mt_TotalTurns :: int
  mt_CreatedAt :: int
  mt_UpdatedAt :: int

record LoadedSession =
  ld_User :: AgentSession
  ld_Meta :: SessionTableMeta
  ld_Slots :: any_map

record RoundPersistInput =
  ri_User :: AgentSession
  ri_Meta :: SessionTableMeta
  ri_Slots :: any_map

text \<open>The column \<open>slots_json\<close>: the slots and, under the key \<open>_usr_ctx\<close>, the session, whose own slots are not
  part of its JSON; \<open>None\<close> is the empty text.\<close>

type_synonym packed_slots = "any_map \<times> AgentSession option"

definition usrCtxKey :: string where "usrCtxKey = ''_usr_ctx''"

definition PackUserSessionIntoSlots :: "any_map \<Rightarrow> AgentSession \<Rightarrow> packed_slots" where
  "PackUserSessionIntoSlots slots user = (filter (\<lambda>kv. fst kv \<noteq> usrCtxKey) slots, Some (user\<lparr>ss_Slots := []\<rparr>))"

definition UnpackUserSessionFromSlots :: "packed_slots option \<Rightarrow> AgentSession \<times> any_map" where
  "UnpackUserSessionFromSlots p =
     (case p of
        None \<Rightarrow> (new_session [] 0, [])
      | Some (slots, user) \<Rightarrow> ((case user of None \<Rightarrow> new_session [] 0 | Some u \<Rightarrow> u), slots))"

section \<open>Tables\<close>

record SessionRow =
  sw_SessionID :: string
  sw_UserID :: int
  sw_Status :: SessionStatus
  sw_LastMessage :: string
  sw_TotalTurns :: int
  sw_SlotsJSON :: "packed_slots option"
  sw_CreatedAt :: int
  sw_UpdatedAt :: int

record MessageRow =
  mr_ID :: int
  mr_SessionID :: string
  mr_Role :: Role
  mr_Content :: string
  mr_Intent :: Intent
  mr_CreatedAt :: int

record agent_db =
  adb_sessions :: "SessionRow list"
  adb_messages :: "MessageRow list"
  adb_next :: int

definition domainSessionToModel :: "AgentSession \<Rightarrow> SessionTableMeta \<Rightarrow> any_map \<Rightarrow> SessionRow" where
  "domainSessionToModel user meta slots =
     \<lparr>sw_SessionID = ss_SessionID user, sw_UserID = ss_UserID user,
      sw_Status = (if mt_Status meta = SessionStatusEmpty then SessionStatusActive else mt_Status meta),
      sw_LastMessage = mt_LastMessage meta, sw_TotalTurns = mt_TotalTurns meta,
      sw_SlotsJSON = Some (PackUserSessionIntoSlots slots user), sw_CreatedAt = mt_CreatedAt meta, sw_UpdatedAt = mt_UpdatedAt meta\<rparr>"

definition sessionRowToLoaded :: "SessionRow \<Rightarrow> LoadedSession" where
  "sessionRowToLoaded row =
     (case UnpackUserSessionFromSlots (sw_SlotsJSON row) of
        (user, toolSlots) \<Rightarrow>
          \<lparr>ld_User = user\<lparr>ss_SessionID := sw_SessionID row, ss_UserID := sw_UserID row\<rparr>,
           ld_Meta = \<lparr>mt_Status = sw_Status row, mt_LastMessage = sw_LastMessage row, mt_TotalTurns = sw_TotalTurns row,
                      mt_CreatedAt = sw_CreatedAt row, mt_UpdatedAt = sw_UpdatedAt row\<rparr>,
           ld_Slots = toolSlots\<rparr>)"

definition domainMessageToModel :: "SessionMessage \<Rightarrow> MessageRow" where
  "domainMessageToModel m =
     \<lparr>mr_ID = 0, mr_SessionID = sm_SessionID m, mr_Role = sm_Role m, mr_Content = sm_Content m, mr_Intent = sm_Intent m,
      mr_CreatedAt = sm_CreatedAt m\<rparr>"

definition message_of_row :: "MessageRow \<Rightarrow> SessionMessage" where
  "message_of_row r =
     \<lparr>sm_ID = format_int (mr_ID r), sm_SessionID = mr_SessionID r, sm_Role = mr_Role r, sm_Content = mr_Content r,
      sm_Intent = mr_Intent r, sm_CreatedAt = mr_CreatedAt r\<rparr>"

text \<open>One statement that inserts rows; they get consecutive ids.\<close>

fun insert_messages :: "MessageRow list \<Rightarrow> agent_db \<Rightarrow> agent_db" where
  "insert_messages [] d = d"
| "insert_messages (r # rs) d =
     insert_messages rs (d\<lparr>adb_messages := adb_messages d @ [r\<lparr>mr_ID := adb_next d\<rparr>], adb_next := adb_next d + 1\<rparr>)"

definition nonblank :: "SessionMessage \<Rightarrow> bool" where
  "nonblank m \<longleftrightarrow> trim_space (sm_Content m) \<noteq> []"

section \<open>Cache\<close>

text \<open>Two keys per session.  A missing list is the empty list.\<close>

record session_cache =
  sc_meta :: "string \<Rightarrow> LoadedSession option"
  sc_msgs :: "string \<Rightarrow> SessionMessage list"

text \<open>Which statements of a call are answered.\<close>

record agent_fault =
  fl_get :: bool
  fl_range :: bool
  fl_set :: bool
  fl_list :: bool
  fl_del :: bool
  fl_db :: bool

definition sessionCache_Load ::
  "agent_fault \<Rightarrow> string \<Rightarrow> session_cache \<Rightarrow> unit + (LoadedSession \<times> SessionMessage list) option" where
  "sessionCache_Load f sid c =
     (if trim_space sid = [] \<or> \<not> fl_get f then Inl ()
      else
        (case sc_meta c sid of
           None \<Rightarrow> Inr None
         | Some loaded \<Rightarrow> if \<not> fl_range f then Inl () else Inr (Some (loaded, sc_msgs c sid))))"

definition last_n :: "int \<Rightarrow> 'a list \<Rightarrow> 'a list" where
  "last_n n xs = drop (length xs - nat n) xs"

text \<open>With no messages the old list is left as it is.\<close>

definition sessionCache_Save ::
  "agent_fault \<Rightarrow> int \<Rightarrow> LoadedSession \<Rightarrow> SessionMessage list \<Rightarrow> session_cache \<Rightarrow> bool \<times> session_cache" where
  "sessionCache_Save f messageWindow loaded messages c =
     (let sid = ss_SessionID (ld_User loaded) in
      if trim_space sid = [] \<or> \<not> fl_set f then (False, c)
      else
        (let c1 = c\<lparr>sc_meta := (sc_meta c)(sid \<mapsto> loaded\<lparr>ld_User := (ld_User loaded)\<lparr>ss_Slots := []\<rparr>\<rparr>)\<rparr> in
         if messages = [] then (True, c1)
         else if \<not> fl_list f then (False, c1)
         else (True, c1\<lparr>sc_msgs := (sc_msgs c1)(sid := last_n messageWindow messages)\<rparr>)))"

definition sessionCache_Delete :: "agent_fault \<Rightarrow> string \<Rightarrow> session_cache \<Rightarrow> session_cache" where
  "sessionCache_Delete f sid c =
     (if trim_space sid = [] \<or> \<not> fl_del f then c
      else c\<lparr>sc_meta := (sc_meta c)(sid := None), sc_msgs := (sc_msgs c)(sid := [])\<rparr>)"

section \<open>Round events\<close>

record RoundEvent =
  re_SessionID :: string
  re_Status :: SessionStatus
  re_LastMessage :: string
  re_TotalTurns :: int
  re_Slots :: packed_slots
  re_Messages :: "SessionMessage list"

definition NewSessionRoundPersistEvent :: "RoundPersistInput \<Rightarrow> SessionMessage \<Rightarrow> SessionMessage \<Rightarrow> RoundEvent" where
  "NewSessionRoundPersistEvent i userMessage assistantMessage =
     \<lparr>re_SessionID = ss_SessionID (ri_User i), re_Status = mt_Status (ri_Meta i), re_LastMessage = mt_LastMessage (ri_Meta i),
      re_TotalTurns = mt_TotalTurns (ri_Meta i), re_Slots = PackUserSessionIntoSlots (ri_Slots i) (ri_User i),
      re_Messages = filter nonblank [userMessage, assistantMessage]\<rparr>"

record agent_svc =
  av_db :: agent_db
  av_cache :: session_cache
  av_queue :: "RoundEvent list"
  av_tasks :: "(RoundPersistInput \<times> SessionMessage \<times> SessionMessage) list"

text \<open>\<open>PublishRound\<close>: a round without messages is dropped, and with it its counters and slots.\<close>

definition PublishRound ::
  "bool \<Rightarrow> RoundPersistInput \<times> SessionMessage \<times> SessionMessage \<Rightarrow> RoundEvent list \<Rightarrow> bool \<times> RoundEvent list" where
  "PublishRound sent t q =
     (let ev = NewSessionRoundPersistEvent (fst t) (fst (snd t)) (snd (snd t)) in
      if re_Messages ev = [] then (True, q) else if sent then (True, q @ [ev]) else (False, q))"

definition update_session :: "int \<Rightarrow> RoundEvent \<Rightarrow> SessionRow list \<Rightarrow> SessionRow list" where
  "update_session now ev rows =
     update_where (\<lambda>r. sw_SessionID r = re_SessionID ev)
       (\<lambda>r. r\<lparr>sw_Status := re_Status ev, sw_LastMessage := re_LastMessage ev, sw_TotalTurns := re_TotalTurns ev,
              sw_SlotsJSON := Some (re_Slots ev), sw_UpdatedAt := now\<rparr>) rows"

text \<open>One transaction: the messages of the batch, then the sessions in the order of the batch; \<open>None\<close> is its
  error: the database is away, a text does not fit its column, or a session has no id.\<close>

definition BatchPersistSessionRounds :: "bool \<Rightarrow> int \<Rightarrow> RoundEvent list \<Rightarrow> agent_db \<Rightarrow> agent_db option" where
  "BatchPersistSessionRounds up now items d =
     (if items = [] then Some d
      else if \<not> up then None
      else
        (let rows = map domainMessageToModel (filter nonblank (concat (map re_Messages items)));
             d1 = insert_messages rows d in
         if list_ex (\<lambda>m. 65535 < length (mr_Content m) \<or> 64 < utf8_length (mr_SessionID m)) rows
            \<or> list_ex (\<lambda>i. trim_space (re_SessionID i) = []) items then None
         else Some (d1\<lparr>adb_sessions := fold (update_session now) items (adb_sessions d1)\<rparr>)))"

definition consumeBatch :: "bool \<Rightarrow> int \<Rightarrow> nat \<Rightarrow> agent_svc \<Rightarrow> bool \<times> agent_svc" where
  "consumeBatch up now n s =
     (case BatchPersistSessionRounds up now (take n (av_queue s)) (av_db s) of
        None \<Rightarrow> (False, s)
      | Some d \<Rightarrow> (True, s\<lparr>av_db := d, av_queue := drop n (av_queue s)\<rparr>))"

section \<open>Repository\<close>

text \<open>\<open>ORDER BY created_at\<close>; rows of the same millisecond come by their id, the order of the index.\<close>

definition LoadAllMessages :: "string \<Rightarrow> agent_db \<Rightarrow> SessionMessage list" where
  "LoadAllMessages sid d =
     map message_of_row (sort_key mr_CreatedAt (filter (\<lambda>r. mr_SessionID r = sid) (adb_messages d)))"

definition set_cache :: "session_cache \<Rightarrow> agent_svc \<Rightarrow> agent_svc" where
  "set_cache c s = s\<lparr>av_cache := c\<rparr>"

definition sessionRepo_Load ::
  "agent_fault \<Rightarrow> int \<Rightarrow> string \<Rightarrow> agent_svc \<Rightarrow> (string + (LoadedSession \<times> SessionMessage list) option) \<times> agent_svc" where
  "sessionRepo_Load f window sid s =
     (if sid = [] then (Inl ''session_id is required'', s)
      else
        (case sessionCache_Load f sid (av_cache s) of
           Inr (Some x) \<Rightarrow> (Inr (Some x), s)
         | _ \<Rightarrow>
             (if \<not> fl_db f then (Inl ''database'', s)
              else
                (case find_row sw_SessionID sid (adb_sessions (av_db s)) of
                   None \<Rightarrow> (Inr None, s)
                 | Some row \<Rightarrow>
                     (let messages = LoadAllMessages sid (av_db s); loaded = sessionRowToLoaded row in
                      (Inr (Some (loaded, messages)),
                       set_cache (snd (sessionCache_Save f window loaded messages (av_cache s))) s))))))"

text \<open>An error of the cache is returned although the row is there.\<close>

definition sessionRepo_Create ::
  "agent_fault \<Rightarrow> int \<Rightarrow> AgentSession \<Rightarrow> SessionTableMeta \<Rightarrow> any_map \<Rightarrow> agent_svc \<Rightarrow> (string + unit) \<times> agent_svc" where
  "sessionRepo_Create f window user meta slots s =
     (let row = domainSessionToModel user meta slots in
      if \<not> fl_db f then (Inl ''database'', s)
      else if 64 < utf8_length (ss_SessionID user) then (Inl ''too long'', s)
      else if sw_SessionID row \<in> set (map sw_SessionID (adb_sessions (av_db s))) then (Inl ''duplicate'', s)
      else
        (let s1 = s\<lparr>av_db := (av_db s)\<lparr>adb_sessions := adb_sessions (av_db s) @ [row]\<rparr>\<rparr>;
             (ok, c) = sessionCache_Save f window \<lparr>ld_User = user, ld_Meta = meta, ld_Slots = slots\<rparr> [] (av_cache s1) in
         (if ok then Inr () else Inl ''cache'', set_cache c s1)))"

definition sessionRepo_Clear :: "agent_fault \<Rightarrow> string \<Rightarrow> agent_svc \<Rightarrow> (string + unit) \<times> agent_svc" where
  "sessionRepo_Clear f sid s =
     (let s1 = set_cache (sessionCache_Delete f sid (av_cache s)) s in
      if \<not> fl_db f then (Inl ''database'', s1)
      else (Inr (), s1\<lparr>av_db := (av_db s1)\<lparr>adb_messages := filter (\<lambda>r. mr_SessionID r \<noteq> sid) (adb_messages (av_db s1)),
                                         adb_sessions := filter (\<lambda>r. sw_SessionID r \<noteq> sid) (adb_sessions (av_db s1))\<rparr>\<rparr>))"

definition sessionRepo_ListByUser :: "int \<Rightarrow> int \<Rightarrow> int \<Rightarrow> agent_db \<Rightarrow> LoadedSession list \<times> int" where
  "sessionRepo_ListByUser userID lim off d =
     (let rows = filter (\<lambda>r. sw_UserID r = userID) (adb_sessions d);
          n = (if lim \<le> 0 then 10 else lim) in
      (map sessionRowToLoaded (take (nat n) (drop (nat off) (sort_key (\<lambda>r. - sw_UpdatedAt r) rows))), int (length rows)))"

section \<open>Session service\<close>

definition WindowMessages :: "'a list \<Rightarrow> int \<Rightarrow> 'a list" where
  "WindowMessages messages maxTurns =
     (if maxTurns \<le> 0 \<or> messages = [] then messages
      else if maxTurns * 2 < int (length messages) then last_n (maxTurns * 2) messages else messages)"

definition LoadSnapshot ::
  "agent_fault \<Rightarrow> int \<Rightarrow> string \<Rightarrow> agent_svc \<Rightarrow> (string + (LoadedSession \<times> SessionMessage list) option) \<times> agent_svc" where
  "LoadSnapshot f window sid s =
     (if trim_space sid = [] then (Inl ''session_id is required'', s) else sessionRepo_Load f window sid s)"

definition SaveTurnCache ::
  "agent_fault \<Rightarrow> int \<Rightarrow> int \<Rightarrow> RoundPersistInput \<Rightarrow> SessionMessage list \<Rightarrow> agent_svc \<Rightarrow> agent_svc" where
  "SaveTurnCache f window maxTurns i messages s =
     set_cache (snd (sessionCache_Save f window \<lparr>ld_User = ri_User i, ld_Meta = ri_Meta i, ld_Slots = ri_Slots i\<rparr>
                  (WindowMessages messages maxTurns) (av_cache s))) s"

definition AllMessages :: "bool \<Rightarrow> string \<Rightarrow> agent_svc \<Rightarrow> string + SessionMessage list" where
  "AllMessages up sid s =
     (if trim_space sid = [] then Inl ''session_id is required''
      else if \<not> up then Inl ''database'' else Inr (LoadAllMessages sid (av_db s)))"

definition session_GetHistory :: "bool \<Rightarrow> string \<Rightarrow> int \<Rightarrow> int \<Rightarrow> agent_svc \<Rightarrow> string + SessionMessage list \<times> int" where
  "session_GetHistory up sid lim off s =
     (case AllMessages up (trim_space sid) s of
        Inl e \<Rightarrow> Inl e
      | Inr messages \<Rightarrow>
          (let n = (if lim \<le> 0 then 20 else lim); k = (if off < 0 then 0 else off); total = int (length messages) in
           if total \<le> k then Inr ([], total)
           else
             (let e = (if total < wrap64 (k + n) then total else wrap64 (k + n)) in
              if e < k then Inl ''panic: slice bounds out of range''
              else Inr (take (nat e - nat k) (drop (nat k) messages), total))))"

text \<open>The first \<open>n\<close> characters of a text in UTF-8.\<close>

fun take_runes :: "nat \<Rightarrow> string \<Rightarrow> string" where
  "take_runes n [] = []"
| "take_runes n (c # cs) =
     (if (of_char c :: nat) < 128 \<or> 192 \<le> (of_char c :: nat)
      then (if n = 0 then [] else c # take_runes (n - 1) cs)
      else c # take_runes n cs)"

definition agent_Truncate :: "string \<Rightarrow> nat \<Rightarrow> string" where
  "agent_Truncate v limit = (if utf8_length v \<le> limit then v else take_runes limit v @ ''...'')"

section \<open>Loading the session of a turn\<close>

definition messagesToTurns :: "SessionMessage list \<Rightarrow> int \<Rightarrow> (Role \<times> string) list" where
  "messagesToTurns messages maxTurns =
     map (\<lambda>m. (sm_Role m, trim_space (sm_Content m)))
       (filter nonblank (if 0 < maxTurns \<and> maxTurns * 2 < int (length messages) then last_n (maxTurns * 2) messages else messages))"

definition new_meta :: "int \<Rightarrow> SessionTableMeta" where
  "new_meta now = \<lparr>mt_Status = SessionStatusActive, mt_LastMessage = [], mt_TotalTurns = 0, mt_CreatedAt = now, mt_UpdatedAt = now\<rparr>"

definition SessionLoad_Invoke ::
  "agent_fault \<Rightarrow> int \<Rightarrow> int \<Rightarrow> string \<Rightarrow> int \<Rightarrow> agent_svc \<Rightarrow> (string + AgentSession) \<times> agent_svc" where
  "SessionLoad_Invoke f window now sid0 userID s =
     (let sid = trim_space sid0 in
      if sid = [] then (Inl ''session_id is required'', s)
      else
        (case LoadSnapshot f window sid s of
           (Inl e, s1) \<Rightarrow> (Inl e, s1)
         | (Inr None, s1) \<Rightarrow>
             (case sessionRepo_Create f window (new_session sid userID) (new_meta now) [] s1 of
                (Inl e, s2) \<Rightarrow> (Inl e, s2)
              | (Inr _, s2) \<Rightarrow> (Inr (new_session sid userID), s2))
         | (Inr (Some (loaded, messages)), s1) \<Rightarrow>
             (if ss_UserID (ld_User loaded) \<noteq> 0 \<and> ss_UserID (ld_User loaded) \<noteq> userID then (Inl ''session user mismatch'', s1)
              else
                (let sess = (ld_User loaded)\<lparr>ss_SessionID := sid,
                       ss_UserID := (if ss_UserID (ld_User loaded) = 0 then userID else ss_UserID (ld_User loaded)),
                       ss_Slots := ld_Slots loaded\<rparr> in
                 (Inr (if ss_RecentMessages sess = [] then sess\<lparr>ss_RecentMessages := messagesToTurns messages 10\<rparr> else sess), s1)))))"

section \<open>Finishing a turn\<close>

definition ensureRecentMessages :: "string \<Rightarrow> string \<Rightarrow> AgentSession \<Rightarrow> AgentSession" where
  "ensureRecentMessages message reply sess =
     (let turns = ss_RecentMessages sess @ (if trim_space message = [] then [] else [(RoleUser, trim_space message)])
                  @ (if trim_space reply = [] then [] else [(RoleAssistant, trim_space reply)]) in
      sess\<lparr>ss_RecentMessages := (if 20 < length turns then last_n 20 turns else turns)\<rparr>)"

record turn_env =
  te_now :: int
  te_user_time :: int
  te_reply_time :: int
  te_user_id :: string
  te_reply_id :: string

definition turn_messages :: "turn_env \<Rightarrow> string \<Rightarrow> string \<Rightarrow> string \<Rightarrow> Intent \<Rightarrow> SessionMessage \<times> SessionMessage" where
  "turn_messages env sid message reply intent =
     (\<lparr>sm_ID = te_user_id env, sm_SessionID = sid, sm_Role = RoleUser, sm_Content = trim_space message, sm_Intent = IntentNone,
       sm_CreatedAt = te_user_time env\<rparr>,
      \<lparr>sm_ID = te_reply_id env, sm_SessionID = sid, sm_Role = RoleAssistant, sm_Content = trim_space reply, sm_Intent = intent,
       sm_CreatedAt = te_reply_time env\<rparr>)"

text \<open>The cache is written at once, and only over a snapshot; the rest is left to a goroutine.\<close>

definition persistTurn ::
  "agent_fault \<Rightarrow> int \<Rightarrow> int \<Rightarrow> turn_env \<Rightarrow> string \<Rightarrow> string \<Rightarrow> Intent \<Rightarrow> AgentSession \<Rightarrow> agent_svc \<Rightarrow> agent_svc" where
  "persistTurn f window maxTurns env message reply intent sess s =
     (let sid = trim_space (ss_SessionID sess) in
      if sid = [] then s
      else
        (let (snap, s1) = LoadSnapshot f window sid s;
             snapshot = (case snap of Inl _ \<Rightarrow> None | Inr x \<Rightarrow> x);
             meta0 = (case snapshot of None \<Rightarrow> new_meta (te_now env) | Some (loaded, _) \<Rightarrow> ld_Meta loaded);
             meta = meta0\<lparr>mt_TotalTurns := mt_TotalTurns meta0 + 1, mt_UpdatedAt := te_now env,
                          mt_LastMessage := agent_Truncate (FirstNonEmpty [reply, message]) 64\<rparr>;
             (userMsg, assistantMsg) = turn_messages env sid message reply intent;
             i = \<lparr>ri_User = sess, ri_Meta = meta, ri_Slots = ss_Slots sess\<rparr>;
             s2 = (case snapshot of
                     None \<Rightarrow> s1
                   | Some (_, messages) \<Rightarrow> SaveTurnCache f window maxTurns i (messages @ filter nonblank [userMsg, assistantMsg]) s1) in
         s2\<lparr>av_tasks := av_tasks s2 @ [(i, userMsg, assistantMsg)]\<rparr>))"

text \<open>One turn: the session is loaded, the flow of the turn changes it by \<open>work\<close> and finds a reply, and the
  turn is written.\<close>

definition chat_turn ::
  "agent_fault \<Rightarrow> agent_fault \<Rightarrow> int \<Rightarrow> int \<Rightarrow> turn_env \<Rightarrow> string \<Rightarrow> int \<Rightarrow> string \<Rightarrow> (AgentSession \<Rightarrow> AgentSession) \<Rightarrow> string \<Rightarrow> Intent
   \<Rightarrow> agent_svc \<Rightarrow> (string + AgentSession) \<times> agent_svc" where
  "chat_turn f1 f2 window maxTurns env sid userID message work reply intent s =
     (case SessionLoad_Invoke f1 window (te_now env) sid userID s of
        (Inl e, s1) \<Rightarrow> (Inl e, s1)
      | (Inr sess, s1) \<Rightarrow>
          (let sess' = ensureRecentMessages message reply (work sess) in
           (Inr sess', persistTurn f2 window maxTurns env message reply intent sess' s1)))"

text \<open>The goroutine of a turn.\<close>

definition run_round_task :: "bool \<Rightarrow> nat \<Rightarrow> agent_svc \<Rightarrow> agent_svc" where
  "run_round_task sent k s =
     (if k < length (av_tasks s)
      then s\<lparr>av_queue := snd (PublishRound sent (av_tasks s ! k) (av_queue s)),
             av_tasks := take k (av_tasks s) @ drop (Suc k) (av_tasks s)\<rparr>
      else s)"

end
