(* ===== verification/AgentSessionSpec.thy ===== *)
theory AgentSessionSpec
  imports AgentSession "HOL-Library.Multiset"
begin

text \<open>
  What the session store of the agent keeps: once the goroutines and the Kafka batches of a conversation have
  run, in whatever order and whatever the cache did, its history is the conversation.
\<close>

section \<open>Messages in transit\<close>

text \<open>What a message says, without its id.\<close>

type_synonym said = "string \<times> Role \<times> string \<times> Intent \<times> int"

definition said :: "SessionMessage \<Rightarrow> said" where
  "said m = (sm_SessionID m, sm_Role m, sm_Content m, sm_Intent m, sm_CreatedAt m)"

definition row_said :: "MessageRow \<Rightarrow> said" where
  "row_said r = (mr_SessionID r, mr_Role r, mr_Content r, mr_Intent r, mr_CreatedAt r)"

definition said_time :: "said \<Rightarrow> int" where
  "said_time x = snd (snd (snd (snd x)))"

definition task_said :: "RoundPersistInput \<times> SessionMessage \<times> SessionMessage \<Rightarrow> said list" where
  "task_said t = map said (filter nonblank [fst (snd t), snd (snd t)])"

definition event_said :: "RoundEvent \<Rightarrow> said list" where
  "event_said ev = map said (re_Messages ev)"

lemma row_said_model [simp]: "row_said (domainMessageToModel m) = said m"
  by (simp add: row_said_def domainMessageToModel_def said_def)

lemma said_row [simp]: "said (message_of_row r) = row_said r"
  by (simp add: said_def message_of_row_def row_said_def)

lemma row_said_ID [simp]: "row_said (r\<lparr>mr_ID := i\<rparr>) = row_said r"
  by (simp add: row_said_def)

lemma said_time_row: "said_time (row_said r) = mr_CreatedAt r"
  by (simp add: said_time_def row_said_def)

lemma said_time_said: "said_time (said m) = sm_CreatedAt m"
  by (simp add: said_time_def said_def)

lemma insert_messages_said: "map row_said (adb_messages (insert_messages rs d)) = map row_said (adb_messages d) @ map row_said rs"
  by (induction rs d rule: insert_messages.induct) simp_all

lemma event_of_task: "event_said (NewSessionRoundPersistEvent i u a) = task_said (i, u, a)"
  by (simp add: event_said_def task_said_def NewSessionRoundPersistEvent_def)

lemma batch_said:
  assumes "BatchPersistSessionRounds up now items d = Some d'" "\<forall>ev \<in> set items. list_all nonblank (re_Messages ev)"
  shows "map row_said (adb_messages d') = map row_said (adb_messages d) @ concat (map event_said items)"
proof -
  have f: "filter nonblank (concat (map re_Messages items)) = concat (map re_Messages items)"
    using assms(2) by (auto simp: filter_id_conv list_all_iff)
  show ?thesis using assms(1)
    by (auto simp: BatchPersistSessionRounds_def Let_def insert_messages_said f map_concat event_said_def [abs_def] o_def split: if_splits)
qed

section \<open>What a turn leaves to its goroutine\<close>

lemma LoadSnapshot_frame:
  assumes "LoadSnapshot f window sid s = (r, s')"
  shows "av_db s' = av_db s \<and> av_queue s' = av_queue s \<and> av_tasks s' = av_tasks s"
  using assms
  by (auto simp: LoadSnapshot_def sessionRepo_Load_def set_cache_def Let_def split: if_splits sum.splits option.splits)

lemma persistTurn_frame:
  assumes "s' = persistTurn f window maxTurns env message reply intent sess s" "trim_space (ss_SessionID sess) \<noteq> []"
  shows "av_db s' = av_db s \<and> av_queue s' = av_queue s
    \<and> (\<exists>i. av_tasks s' = av_tasks s @ [(i, turn_messages env (trim_space (ss_SessionID sess)) message reply intent)]
          \<and> ri_User i = sess \<and> ri_Slots i = ss_Slots sess)"
proof -
  obtain snap s1 where l: "LoadSnapshot f window (trim_space (ss_SessionID sess)) s = (snap, s1)" by fastforce
  obtain u a where m: "turn_messages env (trim_space (ss_SessionID sess)) message reply intent = (u, a)" by fastforce
  show ?thesis using assms LoadSnapshot_frame [OF l]
    by (auto simp: persistTurn_def l m SaveTurnCache_def set_cache_def Let_def split: option.splits sum.splits prod.splits)
qed

lemma SessionLoad_frame:
  assumes "SessionLoad_Invoke f window now sid userID s = (r, s')"
  shows "adb_messages (av_db s') = adb_messages (av_db s) \<and> av_queue s' = av_queue s \<and> av_tasks s' = av_tasks s
    \<and> (\<forall>sess. r = Inr sess \<longrightarrow> ss_SessionID sess = trim_space sid \<and> trim_space sid \<noteq> [])"
proof (cases "trim_space sid = []")
  case False
  obtain q s1 where l: "LoadSnapshot f window (trim_space sid) s = (q, s1)" by fastforce
  show ?thesis using assms False LoadSnapshot_frame [OF l]
    by (auto simp: SessionLoad_Invoke_def l sessionRepo_Create_def set_cache_def new_session_def Let_def
        split: if_splits option.splits sum.splits prod.splits)
qed (use assms in \<open>auto simp: SessionLoad_Invoke_def\<close>)

text \<open>A session is loaded for its owner only.\<close>

lemma session_owner:
  assumes "SessionLoad_Invoke f window now sid userID s = (Inr sess, s')"
    and "LoadSnapshot f window (trim_space sid) s = (Inr (Some (loaded, messages)), s1)"
  shows "ss_UserID sess = userID \<and> ss_UserID (ld_User loaded) \<in> {0, userID}"
  using assms by (auto simp: SessionLoad_Invoke_def Let_def split: if_splits)

lemma chat_turn_frame:
  assumes "chat_turn f1 f2 window maxTurns env sid userID message work reply intent s = (r, s')"
    and "\<And>x. ss_SessionID (work x) = ss_SessionID x"
  shows "adb_messages (av_db s') = adb_messages (av_db s) \<and> av_queue s' = av_queue s
    \<and> (case r of Inl _ \<Rightarrow> av_tasks s' = av_tasks s
       | Inr _ \<Rightarrow> \<exists>i. av_tasks s' = av_tasks s @ [(i, turn_messages env (trim_space sid) message reply intent)]
            \<and> ss_SessionID (ri_User i) = trim_space sid)"
proof -
  obtain q s1 where l: "SessionLoad_Invoke f1 window (te_now env) sid userID s = (q, s1)" by fastforce
  note fr = SessionLoad_frame [OF l]
  show ?thesis
  proof (cases q)
    case (Inr sess)
    define sess' where "sess' = ensureRecentMessages message reply (work sess)"
    have i: "ss_SessionID sess' = trim_space sid" "trim_space sid \<noteq> []"
      using fr Inr assms(2) by (simp_all add: sess'_def ensureRecentMessages_def Let_def)
    then show ?thesis
      using assms(1) l Inr fr persistTurn_frame [OF refl, of sess' f2 window maxTurns env message reply intent s1]
      by (auto simp: chat_turn_def sess'_def Let_def)
  qed (use assms(1) l fr in \<open>auto simp: chat_turn_def\<close>)
qed

section \<open>Conversations\<close>

definition turn_said :: "turn_env \<Rightarrow> string \<Rightarrow> string \<Rightarrow> string \<Rightarrow> Intent \<Rightarrow> said list" where
  "turn_said env sid message reply intent =
     map said (filter nonblank [fst (turn_messages env sid message reply intent), snd (turn_messages env sid message reply intent)])"

definition session_said :: "string \<Rightarrow> said list \<Rightarrow> said list" where
  "session_said sid xs = filter (\<lambda>x. fst x = sid) xs"

text \<open>Runs of the service with what was said, turn by turn.  Turns of a session follow each other in time;
  goroutines, batches and anything that happens to the cache come in between in any order.\<close>

inductive agent_run :: "int \<Rightarrow> int \<Rightarrow> agent_svc \<Rightarrow> said list list \<Rightarrow> bool" for window maxTurns where
  start: "agent_run window maxTurns \<lparr>av_db = \<lparr>adb_sessions = [], adb_messages = [], adb_next = 1\<rparr>,
            av_cache = \<lparr>sc_meta = Map.empty, sc_msgs = (\<lambda>_. [])\<rparr>, av_queue = [], av_tasks = []\<rparr> []"
| turn: "\<lbrakk>agent_run window maxTurns s h; te_user_time env \<le> te_reply_time env;
          \<forall>x \<in> set (concat h). fst x = trim_space sid \<longrightarrow> said_time x < te_user_time env;
          \<And>x. ss_SessionID (work x) = ss_SessionID x;
          chat_turn f1 f2 window maxTurns env sid userID message work reply intent s = (Inr sess, s')\<rbrakk>
         \<Longrightarrow> agent_run window maxTurns s' (h @ [turn_said env (trim_space sid) message reply intent])"
| refused: "\<lbrakk>agent_run window maxTurns s h; \<And>x. ss_SessionID (work x) = ss_SessionID x;
             chat_turn f1 f2 window maxTurns env sid userID message work reply intent s = (Inl e, s')\<rbrakk>
            \<Longrightarrow> agent_run window maxTurns s' h"
| goroutine: "agent_run window maxTurns s h \<Longrightarrow> agent_run window maxTurns (run_round_task True k s) h"
| batch: "\<lbrakk>agent_run window maxTurns s h; consumeBatch up now n s = (ok, s')\<rbrakk> \<Longrightarrow> agent_run window maxTurns s' h"
| cache: "agent_run window maxTurns s h \<Longrightarrow> agent_run window maxTurns (set_cache c s) h"

text \<open>The groups of messages that belong together, wherever they are.\<close>

definition in_transit :: "agent_svc \<Rightarrow> said list multiset" where
  "in_transit s = mset (map event_said (av_queue s)) + mset (map task_said (av_tasks s))"

definition run_inv :: "agent_svc \<Rightarrow> said list list \<Rightarrow> bool" where
  "run_inv s h \<longleftrightarrow> (\<exists>gs. map row_said (adb_messages (av_db s)) = concat gs
      \<and> filter_mset (\<lambda>g. g \<noteq> []) (mset gs + in_transit s) = filter_mset (\<lambda>g. g \<noteq> []) (mset h))
    \<and> (\<forall>ev \<in> set (av_queue s). list_all nonblank (re_Messages ev))"

definition said_before :: "said list \<Rightarrow> said list \<Rightarrow> bool" where
  "said_before g g' \<longleftrightarrow> (\<forall>x \<in> set g. \<forall>y \<in> set g'. fst x = fst y \<longrightarrow> said_time x < said_time y)"

definition times_ok :: "said list list \<Rightarrow> bool" where
  "times_ok h \<longleftrightarrow> sorted_wrt said_before h \<and> (\<forall>g \<in> set h. sorted (map said_time g))"

lemma times_ok_append:
  "times_ok (h @ [g]) \<longleftrightarrow> times_ok h \<and> (\<forall>g' \<in> set h. said_before g' g) \<and> sorted (map said_time g)"
  by (auto simp: times_ok_def sorted_wrt_append)

lemma turn_said_facts:
  "x \<in> set (turn_said env sid message reply intent) \<Longrightarrow> fst x = sid \<and> said_time x \<in> {te_user_time env, te_reply_time env}"
  "te_user_time env \<le> te_reply_time env \<Longrightarrow> sorted (map said_time (turn_said env sid message reply intent))"
  by (auto simp: turn_said_def turn_messages_def said_def said_time_def split: if_splits)

lemma times_ok_snoc:
  assumes "times_ok h" "te_user_time env \<le> te_reply_time env"
    and "\<forall>x \<in> set (concat h). fst x = sid \<longrightarrow> said_time x < te_user_time env"
  shows "times_ok (h @ [turn_said env sid message reply intent])"
proof -
  have "said_before g' (turn_said env sid message reply intent)" if "g' \<in> set h" for g'
    unfolding said_before_def
  proof (intro ballI impI)
    fix x y assume x: "x \<in> set g'" and y: "y \<in> set (turn_said env sid message reply intent)" and s: "fst x = fst y"
    have "said_time x < te_user_time env" using assms(3) x that turn_said_facts(1) [OF y] s by auto
    then show "said_time x < said_time y" using turn_said_facts(1) [OF y] assms(2) by auto
  qed
  then show ?thesis using assms turn_said_facts(2) by (simp add: times_ok_append)
qed

lemma task_moves:
  assumes "k < length ts"
  shows "mset (map task_said (take k ts @ drop (Suc k) ts)) + {#task_said (ts ! k)#} = mset (map task_said ts)"
proof -
  have "mset (map task_said ts) = mset (map task_said (take k ts @ ts ! k # drop (Suc k) ts))"
    using id_take_nth_drop [OF assms] by simp
  then show ?thesis by simp
qed

lemma run_invariant: "agent_run window maxTurns s h \<Longrightarrow> run_inv s h \<and> times_ok h"
proof (induction rule: agent_run.induct)
  case start
  then show ?case by (auto simp: run_inv_def times_ok_def in_transit_def intro: exI [of _ "[]"])
next
  case (turn s h env sid work f1 f2 userID message reply intent sess s')
  note fr = chat_turn_frame [OF turn.hyps(5) turn.hyps(4)]
  then obtain i where t: "av_tasks s' = av_tasks s @ [(i, turn_messages env (trim_space sid) message reply intent)]" by auto
  have "task_said (i, turn_messages env (trim_space sid) message reply intent) = turn_said env (trim_space sid) message reply intent"
    by (simp add: task_said_def turn_said_def)
  then have "in_transit s' = in_transit s + {#turn_said env (trim_space sid) message reply intent#}"
    using fr t by (simp add: in_transit_def)
  then show ?case using turn.IH fr times_ok_snoc [OF _ turn.hyps(2,3)]
    by (auto simp: run_inv_def)
next
  case (refused s h work f1 f2 env sid userID message reply intent e s')
  note fr = chat_turn_frame [OF refused.hyps(3) refused.hyps(2)]
  then show ?case using refused.IH by (simp add: run_inv_def in_transit_def)
next
  case (goroutine s h k)
  show ?case
  proof (cases "k < length (av_tasks s)")
    case True
    obtain i u a where t: "av_tasks s ! k = (i, u, a)" by (cases "av_tasks s ! k")
    define ev where "ev = NewSessionRoundPersistEvent i u a"
    have e: "event_said ev = task_said (av_tasks s ! k)" by (simp add: ev_def event_of_task t)
    have n: "list_all nonblank (re_Messages ev)" by (simp add: ev_def NewSessionRoundPersistEvent_def list_all_iff)
    have q: "av_queue (run_round_task True k s) = av_queue s @ (if re_Messages ev = [] then [] else [ev])"
      using True by (simp add: run_round_task_def PublishRound_def t ev_def [symmetric] Let_def)
    have b: "task_said (av_tasks s ! k) = [] \<longleftrightarrow> re_Messages ev = []" using e by (simp add: event_said_def flip: e)
    define s' where "s' = run_round_task True k s"
    have t': "av_tasks s' = take k (av_tasks s) @ drop (Suc k) (av_tasks s)" and d': "av_db s' = av_db s"
      using True by (simp_all add: s'_def run_round_task_def)
    have "mset (map event_said (av_queue s'))
        = mset (map event_said (av_queue s)) + (if task_said (av_tasks s ! k) = [] then {#} else {#task_said (av_tasks s ! k)#})"
      using q b e by (simp add: s'_def)
    moreover have "mset (map task_said (av_tasks s)) = mset (map task_said (av_tasks s')) + {#task_said (av_tasks s ! k)#}"
      using task_moves [OF True] t' by (simp only:)
    ultimately have "filter_mset (\<lambda>g. g \<noteq> []) (in_transit s') = filter_mset (\<lambda>g. g \<noteq> []) (in_transit s)"
      by (simp add: in_transit_def del: mset_map)
    then show ?thesis using goroutine.IH n q d' by (auto simp: run_inv_def s'_def)
  qed (use goroutine.IH in \<open>simp add: run_round_task_def\<close>)
next
  case (batch s h up now n ok s')
  show ?case
  proof (cases "BatchPersistSessionRounds up now (take n (av_queue s)) (av_db s)")
    case (Some d)
    then have s': "s' = s\<lparr>av_db := d, av_queue := drop n (av_queue s)\<rparr>" using batch.hyps by (simp add: consumeBatch_def)
    obtain gs where gs: "map row_said (adb_messages (av_db s)) = concat gs"
      "filter_mset (\<lambda>g. g \<noteq> []) (mset gs + in_transit s) = filter_mset (\<lambda>g. g \<noteq> []) (mset h)"
      and nb: "\<forall>ev \<in> set (av_queue s). list_all nonblank (re_Messages ev)"
      using batch.IH by (auto simp: run_inv_def)
    have "map row_said (adb_messages d) = concat (gs @ map event_said (take n (av_queue s)))"
    proof -
      have "\<forall>ev \<in> set (take n (av_queue s)). list_all nonblank (re_Messages ev)" using nb by (auto dest: in_set_takeD)
      from batch_said [OF Some this] show ?thesis by (simp only: gs(1) concat_append)
    qed
    moreover have "mset (map event_said (av_queue s))
        = mset (map event_said (take n (av_queue s))) + mset (map event_said (drop n (av_queue s)))"
      by (metis append_take_drop_id map_append mset_append)
    ultimately show ?thesis using batch.IH gs nb
      by (auto simp: run_inv_def s' in_transit_def ac_simps in_set_dropD
          intro!: exI [of _ "gs @ map event_said (take n (av_queue s))"])
  qed (use batch in \<open>auto simp: consumeBatch_def\<close>)
next
  case (cache s h c)
  then show ?case by (simp add: run_inv_def in_transit_def set_cache_def)
qed

section \<open>The history\<close>

lemma concat_nonempty: "concat (filter (\<lambda>g. g \<noteq> []) zs) = concat zs"
  by (induction zs) auto

lemma concat_few:
  assumes "filter_mset (\<lambda>g. g \<noteq> []) (mset xs) = filter_mset (\<lambda>g. g \<noteq> []) (mset ys)"
    and "size (filter_mset (\<lambda>g. g \<noteq> []) (mset xs)) \<le> 1"
  shows "concat xs = concat ys"
proof -
  define A B where "A = filter (\<lambda>g. g \<noteq> []) xs" and "B = filter (\<lambda>g. g \<noteq> []) ys"
  have l: "length A \<le> 1" using assms(2) by (simp only: A_def mset_filter [symmetric] size_mset)
  have m: "mset A = mset B" using assms(1) by (simp add: A_def B_def)
  have "A = B"
  proof (cases A)
    case (Cons a as)
    then have "mset B = {#a#}" using l m by simp
    then show ?thesis using Cons l by simp
  qed (use m in simp)
  then have "concat A = concat B" by simp
  then show ?thesis by (simp only: A_def B_def concat_nonempty)
qed

lemma nonempty_image:
  "f [] = [] \<Longrightarrow> filter_mset (\<lambda>g. g \<noteq> []) (image_mset f M)
     = filter_mset (\<lambda>g. g \<noteq> []) (image_mset f (filter_mset (\<lambda>g. g \<noteq> []) M))"
  by (induction M) auto

text \<open>At most one turn of a session has a message of a given millisecond.\<close>

lemma one_group:
  assumes "times_ok h"
  shows "size (filter_mset (\<lambda>g. g \<noteq> []) (mset (map (filter (\<lambda>x. fst x = sid \<and> said_time x = k)) h))) \<le> 1"
proof -
  let ?f = "filter (\<lambda>x. fst x = sid \<and> said_time x = k)"
  have "length (filter (\<lambda>g. g \<noteq> []) (map ?f h)) \<le> 1" using assms
  proof (induction h rule: rev_induct)
    case (snoc g h)
    have t: "times_ok h" and b: "g' \<in> set h \<Longrightarrow> said_before g' g" for g'
      using snoc.prems by (simp_all add: times_ok_append)
    show ?case
    proof (cases "?f g = []")
      case False
      then obtain y where y: "y \<in> set g" "fst y = sid" "said_time y = k" by (auto simp: filter_empty_conv)
      have "?f g' = []" if g': "g' \<in> set h" for g'
      proof (rule ccontr)
        assume "?f g' \<noteq> []"
        then obtain x where x: "x \<in> set g'" "fst x = sid" "said_time x = k" by (auto simp: filter_empty_conv)
        have "fst x = fst y" using x y by simp
        then have "said_time x < said_time y" using b [OF g'] x(1) y(1) unfolding said_before_def by blast
        then show False using x y by simp
      qed
      then have "filter (\<lambda>g. g \<noteq> []) (map ?f h) = []" by (auto simp: filter_empty_conv)
      then show ?thesis by simp
    qed (use snoc.IH t in simp)
  qed simp
  then show ?thesis by (simp only: mset_filter [symmetric] size_mset)
qed

lemma sorted_history: "times_ok h \<Longrightarrow> sorted (map said_time (session_said sid (concat h)))"
proof (induction h rule: rev_induct)
  case (snoc g h)
  have b: "said_time x \<le> said_time y" if x: "x \<in> set (session_said sid (concat h))" and y: "y \<in> set (session_said sid g)" for x y
  proof -
    obtain g' where g': "g' \<in> set h" "x \<in> set g'" using x by (auto simp: session_said_def)
    have "fst x = fst y" "y \<in> set g" using x y by (auto simp: session_said_def)
    then have "said_time x < said_time y" using snoc.prems g' by (auto simp: times_ok_append said_before_def)
    then show ?thesis by simp
  qed
  have "sorted (map said_time (session_said sid g))"
    using snoc.prems by (simp add: times_ok_append session_said_def sorted_filter)
  then show ?case using snoc b by (auto simp: session_said_def sorted_append times_ok_append)
qed (simp add: session_said_def)


definition all_up :: agent_fault where
  "all_up = \<lparr>fl_get = True, fl_range = True, fl_set = True, fl_list = True, fl_del = True, fl_db = True\<rparr>"

definition talk0 :: agent_svc where
  "talk0 = \<lparr>av_db = \<lparr>adb_sessions = [], adb_messages = [], adb_next = 1\<rparr>,
     av_cache = \<lparr>sc_meta = Map.empty, sc_msgs = (\<lambda>_. [])\<rparr>, av_queue = [], av_tasks = []\<rparr>"

definition talk_env :: "int \<Rightarrow> turn_env" where
  "talk_env t = \<lparr>te_now = t, te_user_time = t, te_reply_time = t, te_user_id = ''u'', te_reply_id = ''a''\<rparr>"

text \<open>Two turns; the goroutine of the second one publishes first, and one batch takes both.\<close>

definition talk1 :: "(string + AgentSession) \<times> agent_svc" where
  "talk1 = chat_turn all_up all_up 10 10 (talk_env 1) ''s1'' 7 ''hi'' (\<lambda>x. x) ''hello'' IntentUnknown talk0"

definition talk2 :: "(string + AgentSession) \<times> agent_svc" where
  "talk2 = chat_turn all_up all_up 10 10 (talk_env 2) ''s1'' 7 ''bye'' (\<lambda>x. x) ''ciao'' IntentUnknown (snd talk1)"

definition talk3 :: agent_svc where
  "talk3 = snd (consumeBatch True 3 2 (run_round_task True 0 (run_round_task True 1 (snd talk2))))"

lemma talk_evaluated:
  "\<not> isl (fst talk1)" "\<not> isl (fst talk2)"
  "turn_messages (talk_env 1) ''s1'' ''hi'' ''hello'' IntentUnknown
     = (\<lparr>sm_ID = ''u'', sm_SessionID = ''s1'', sm_Role = RoleUser, sm_Content = ''hi'', sm_Intent = IntentNone, sm_CreatedAt = 1\<rparr>,
        \<lparr>sm_ID = ''a'', sm_SessionID = ''s1'', sm_Role = RoleAssistant, sm_Content = ''hello'', sm_Intent = IntentUnknown, sm_CreatedAt = 1\<rparr>)"
  "turn_messages (talk_env 2) ''s1'' ''bye'' ''ciao'' IntentUnknown
     = (\<lparr>sm_ID = ''u'', sm_SessionID = ''s1'', sm_Role = RoleUser, sm_Content = ''bye'', sm_Intent = IntentNone, sm_CreatedAt = 2\<rparr>,
        \<lparr>sm_ID = ''a'', sm_SessionID = ''s1'', sm_Role = RoleAssistant, sm_Content = ''ciao'', sm_Intent = IntentUnknown, sm_CreatedAt = 2\<rparr>)"
  "trim_space ''s1'' = ''s1''" "trim_space ''hi'' = ''hi''" "trim_space ''hello'' = ''hello''"
  "trim_space ''bye'' = ''bye''" "trim_space ''ciao'' = ''ciao''"
  by code_simp+

lemma talk_said:
  "turn_said (talk_env 1) ''s1'' ''hi'' ''hello'' IntentUnknown
     = [(''s1'', RoleUser, ''hi'', IntentNone, 1), (''s1'', RoleAssistant, ''hello'', IntentUnknown, 1)]"
  "turn_said (talk_env 2) ''s1'' ''bye'' ''ciao'' IntentUnknown
     = [(''s1'', RoleUser, ''bye'', IntentNone, 2), (''s1'', RoleAssistant, ''ciao'', IntentUnknown, 2)]"
  by (simp_all add: turn_said_def talk_evaluated nonblank_def said_def)

lemma talk_turns:
  obtains x1 x2 where "chat_turn all_up all_up 10 10 (talk_env 1) ''s1'' 7 ''hi'' (\<lambda>x. x) ''hello'' IntentUnknown talk0 = (Inr x1, snd talk1)"
    and "chat_turn all_up all_up 10 10 (talk_env 2) ''s1'' 7 ''bye'' (\<lambda>x. x) ''ciao'' IntentUnknown (snd talk1) = (Inr x2, snd talk2)"
proof -
  obtain x1 where x1: "fst talk1 = Inr x1" using talk_evaluated(1) by (cases "fst talk1") auto
  obtain x2 where x2: "fst talk2 = Inr x2" using talk_evaluated(2) by (cases "fst talk2") auto
  show thesis by (rule that [of x1 x2]) (simp_all add: prod_eq_iff x1 x2 flip: talk1_def talk2_def)
qed

lemma talk_empty: "av_queue talk3 = [] \<and> av_tasks talk3 = []"
proof -
  obtain x1 x2 where c: "chat_turn all_up all_up 10 10 (talk_env 1) ''s1'' 7 ''hi'' (\<lambda>x. x) ''hello'' IntentUnknown talk0 = (Inr x1, snd talk1)"
    "chat_turn all_up all_up 10 10 (talk_env 2) ''s1'' 7 ''bye'' (\<lambda>x. x) ''ciao'' IntentUnknown (snd talk1) = (Inr x2, snd talk2)"
    by (rule talk_turns)
  note f1 = chat_turn_frame [OF c(1) refl] and f2 = chat_turn_frame [OF c(2) refl]
  obtain i1 i2 where t: "av_tasks (snd talk2) = [(i1, turn_messages (talk_env 1) ''s1'' ''hi'' ''hello'' IntentUnknown),
      (i2, turn_messages (talk_env 2) ''s1'' ''bye'' ''ciao'' IntentUnknown)]" "av_queue (snd talk2) = []"
    and i: "ss_SessionID (ri_User i1) = ''s1''" "ss_SessionID (ri_User i2) = ''s1''"
    using f1 f2 by (auto simp: talk0_def talk_evaluated(5))
  define s where "s = run_round_task True 0 (run_round_task True 1 (snd talk2))"
  obtain e1 e2 where q: "av_queue s = [e1, e2]" "av_tasks s = []" and e: "re_SessionID e1 = ''s1''" "re_SessionID e2 = ''s1''"
    "re_Messages e1 = filter nonblank [fst (turn_messages (talk_env 2) ''s1'' ''bye'' ''ciao'' IntentUnknown), snd (turn_messages (talk_env 2) ''s1'' ''bye'' ''ciao'' IntentUnknown)]"
    "re_Messages e2 = filter nonblank [fst (turn_messages (talk_env 1) ''s1'' ''hi'' ''hello'' IntentUnknown), snd (turn_messages (talk_env 1) ''s1'' ''hi'' ''hello'' IntentUnknown)]"
    by (simp add: s_def run_round_task_def t PublishRound_def NewSessionRoundPersistEvent_def talk_evaluated nonblank_def i Let_def)
  have "\<exists>d. BatchPersistSessionRounds True 3 [e1, e2] (av_db s) = Some d"
    by (simp add: BatchPersistSessionRounds_def e talk_evaluated nonblank_def domainMessageToModel_def utf8_length_def Let_def)
  then show ?thesis using q unfolding talk3_def s_def [symmetric] by (auto simp: consumeBatch_def)
qed

lemma talk_run:
  "agent_run 10 10 talk3 [turn_said (talk_env 1) ''s1'' ''hi'' ''hello'' IntentUnknown, turn_said (talk_env 2) ''s1'' ''bye'' ''ciao'' IntentUnknown]"
proof -
  have e: "te_user_time (talk_env t) = t" "te_reply_time (talk_env t) = t" for t by (simp_all add: talk_env_def)
  obtain x1 x2 where c: "chat_turn all_up all_up 10 10 (talk_env 1) ''s1'' 7 ''hi'' (\<lambda>x. x) ''hello'' IntentUnknown talk0 = (Inr x1, snd talk1)"
    "chat_turn all_up all_up 10 10 (talk_env 2) ''s1'' 7 ''bye'' (\<lambda>x. x) ''ciao'' IntentUnknown (snd talk1) = (Inr x2, snd talk2)"
    by (rule talk_turns)
  have s: "agent_run 10 10 talk0 []" unfolding talk0_def by (rule agent_run.start)
  have r1: "agent_run 10 10 (snd talk1) ([] @ [turn_said (talk_env 1) (trim_space ''s1'') ''hi'' ''hello'' IntentUnknown])"
    by (rule agent_run.turn [OF s _ _ refl c(1)]) (simp_all add: e)
  have "agent_run 10 10 (snd talk2) (([] @ [turn_said (talk_env 1) (trim_space ''s1'') ''hi'' ''hello'' IntentUnknown])
      @ [turn_said (talk_env 2) (trim_space ''s1'') ''bye'' ''ciao'' IntentUnknown])"
    by (rule agent_run.turn [OF r1 _ _ refl c(2)]) (simp_all add: e talk_said talk_evaluated(5) said_time_def)
  then have "agent_run 10 10 (snd talk2) [turn_said (talk_env 1) ''s1'' ''hi'' ''hello'' IntentUnknown, turn_said (talk_env 2) ''s1'' ''bye'' ''ciao'' IntentUnknown]"
    by (simp add: talk_evaluated(5))
  from agent_run.goroutine [OF agent_run.goroutine [OF this, of 1], of 0]
  show ?thesis unfolding talk3_def by (rule agent_run.batch) (rule prod.collapse [symmetric])
qed


section \<open>What can go wrong\<close>

text \<open>Publishing has no second attempt: a broker that is away loses the messages of the turn.\<close>

lemma publish_failure_loses:
  assumes "k < length (av_tasks s)"
  shows "av_queue (run_round_task False k s) = av_queue s
    \<and> length (av_tasks (run_round_task False k s)) = length (av_tasks s) - 1"
  using assms by (simp add: run_round_task_def PublishRound_def Let_def)

text \<open>A session that was cleared while a round was under way gets the messages of this round back, although it
  is gone.\<close>

lemma cleared_session_returns:
  assumes "sessionRepo_Clear f sid s = (Inr (), s1)" "av_queue s = [ev]" "re_SessionID ev = sid"
    and "consumeBatch up now 1 s1 = (True, s2)" "m \<in> set (re_Messages ev)" "nonblank m" "sm_SessionID m = sid"
  shows "find_row sw_SessionID sid (adb_sessions (av_db s2)) = None \<and> LoadAllMessages sid (av_db s2) \<noteq> []"
proof -
  have s1: "av_queue s1 = [ev]" "sid \<notin> sw_SessionID ` set (adb_sessions (av_db s1))"
    using assms(1,2) by (auto simp: sessionRepo_Clear_def set_cache_def Let_def split: if_splits)
  obtain d where d: "BatchPersistSessionRounds up now [ev] (av_db s1) = Some d" "s2 = s1\<lparr>av_db := d, av_queue := []\<rparr>"
    using assms(4) s1(1) by (auto simp: consumeBatch_def split: option.splits)
  have a: "adb_messages d = adb_messages (insert_messages (map domainMessageToModel (filter nonblank (re_Messages ev))) (av_db s1))"
    "adb_sessions d = update_session now ev (adb_sessions (insert_messages (map domainMessageToModel (filter nonblank (re_Messages ev))) (av_db s1)))"
    using d(1) by (auto simp: BatchPersistSessionRounds_def Let_def split: if_splits)
  have s: "adb_sessions (insert_messages rs d0) = adb_sessions d0" for rs d0
    by (induction rs d0 rule: insert_messages.induct) simp_all
  have "said m \<in> set (map row_said (adb_messages d))"
    unfolding a(1) insert_messages_said using assms(5,6) by auto
  then obtain r where "r \<in> set (adb_messages d)" "row_said r = said m" by auto
  then have "r \<in> set (filter (\<lambda>r. mr_SessionID r = sid) (adb_messages d))" using assms(7) by (simp add: row_said_def said_def)
  then have "LoadAllMessages sid d \<noteq> []"
    by (metis LoadAllMessages_def empty_iff list.map_disc_iff list.set(1) set_sort)
  moreover have "find_row sw_SessionID sid (adb_sessions d) = None"
    using s1(2) by (auto simp: a(2) s find_row_None_iff update_session_def update_where_set image_iff)
  ultimately show ?thesis using d(2) by simp
qed

end
