(* ===== verification/AgentCache.thy ===== *)
theory AgentCache
  imports AgentTypes Complex_Main
begin

text \<open>
  Before and beside the flows of the agent: the guard that counts the messages of a user, and the two caches
  of answers, one by the text of the question and one by its meaning (\<open>infra/cache\<close> and
  \<open>orchestrator/node/global\<close>).  The hash functions, the embedding and the vector search of Redis are
  parameters; a cached JSON value is the value it spells.
\<close>

section \<open>Guard\<close>

text \<open>\<open>INCR\<close> and \<open>EXPIRE NX\<close> in one transaction: the counter of a user and the time it expires.\<close>

type_synonym rate_counters = "int \<Rightarrow> (int \<times> int) option"

definition rate_IncrWithTTL :: "int \<Rightarrow> int \<Rightarrow> int \<Rightarrow> rate_counters \<Rightarrow> int \<times> rate_counters" where
  "rate_IncrWithTTL now ttl user rc =
     (case rc user of
        None \<Rightarrow> (1, rc(user \<mapsto> (1, now + ttl)))
      | Some (n, expires) \<Rightarrow> if expires \<le> now then (1, rc(user \<mapsto> (1, now + ttl))) else (n + 1, rc(user \<mapsto> (n + 1, expires))))"

definition AllowUser :: "bool \<Rightarrow> int \<Rightarrow> int \<Rightarrow> int \<Rightarrow> int \<Rightarrow> rate_counters \<Rightarrow> (unit + bool) \<times> rate_counters" where
  "AllowUser up now user quota window rc =
     (if \<not> up then (Inl (), rc) else (case rate_IncrWithTTL now window user rc of (n, rc') \<Rightarrow> (Inr (n \<le> quota), rc')))"

datatype guard_result = GuardPass | GuardBlocked string | GuardError

definition AccessGuard_Invoke ::
  "bool \<Rightarrow> int \<Rightarrow> int \<Rightarrow> int \<Rightarrow> string \<Rightarrow> string \<Rightarrow> rate_counters \<Rightarrow> guard_result \<times> rate_counters" where
  "AccessGuard_Invoke up now quota user message resumeToken rc =
     (if user \<le> 0 then (GuardError, rc)
      else if trim_space message = [] \<and> trim_space resumeToken = [] then (GuardBlocked ''message is required'', rc)
      else
        (case AllowUser up now user quota 60 rc of
           (Inl _, rc') \<Rightarrow> (GuardError, rc')
         | (Inr allowed, rc') \<Rightarrow> (if allowed then GuardPass else GuardBlocked ''too frequent'', rc')))"

section \<open>Questions\<close>

text \<open>\<open>other\<close> is what lowering and the replacement of spaces, punctuation and symbols do to the characters
  outside ASCII.\<close>

definition ascii_plain :: "char \<Rightarrow> char" where
  "ascii_plain c =
     (let k = (of_char c :: nat) in
      if is_space c \<or> (33 \<le> k \<and> k \<le> 47) \<or> (58 \<le> k \<and> k \<le> 64) \<or> (91 \<le> k \<and> k \<le> 96) \<or> (123 \<le> k \<and> k \<le> 126)
      then CHR '' '' else c)"

fun str_fields :: "string \<Rightarrow> string \<Rightarrow> string list" where
  "str_fields acc [] = (if acc = [] then [] else [acc])"
| "str_fields acc (c # cs) =
     (if is_space c then (if acc = [] then str_fields [] cs else acc # str_fields [] cs) else str_fields (acc @ [c]) cs)"

fun join_space :: "string list \<Rightarrow> string" where
  "join_space [] = []"
| "join_space [w] = w"
| "join_space (w # ws) = w @ CHR '' '' # join_space ws"

definition normalizeExactQuery :: "(string \<Rightarrow> string) \<Rightarrow> string \<Rightarrow> string" where
  "normalizeExactQuery other query = join_space (str_fields [] (map ascii_plain (other (to_lower (trim_space query)))))"

definition exactItemKeyPrefix :: string where "exactItemKeyPrefix = ''agent:exact:item:''"

definition exactCacheKey :: "(string \<Rightarrow> string) \<Rightarrow> (string \<Rightarrow> string) \<Rightarrow> string \<Rightarrow> int \<Rightarrow> string \<Rightarrow> string" where
  "exactCacheKey sha other tenantID userID query =
     exactItemKeyPrefix @ sha (tenantID @ '':'' @ format_int userID @ '':'' @ normalizeExactQuery other query)"

section \<open>Caches\<close>

datatype CacheScope = CacheScopeTenantPublic | CacheScopeTenantUser

record ExactCacheItem =
  xi_TenantID :: string
  xi_UserID :: int
  xi_Query :: string
  xi_Response :: ChatResult

record SemanticCacheItem =
  mi_TenantID :: string
  mi_UserID :: int
  mi_IntentBucket :: Intent
  mi_Scope :: CacheScope
  mi_Query :: string
  mi_Response :: ChatResult

record answer_caches =
  kc_exact :: "string \<Rightarrow> ExactCacheItem option"
  kc_semantic :: "string \<Rightarrow> SemanticCacheItem option"

definition exact_Lookup ::
  "(string \<Rightarrow> string) \<Rightarrow> (string \<Rightarrow> string) \<Rightarrow> string \<Rightarrow> int \<Rightarrow> string \<Rightarrow> answer_caches \<Rightarrow> ExactCacheItem option" where
  "exact_Lookup sha other tenantID userID query kc = kc_exact kc (exactCacheKey sha other tenantID userID query)"

definition exact_Store ::
  "(string \<Rightarrow> string) \<Rightarrow> (string \<Rightarrow> string) \<Rightarrow> ExactCacheItem \<Rightarrow> answer_caches \<Rightarrow> answer_caches" where
  "exact_Store sha other item kc =
     kc\<lparr>kc_exact := (kc_exact kc)(exactCacheKey sha other (xi_TenantID item) (xi_UserID item) (xi_Query item) \<mapsto> item)\<rparr>"

text \<open>An entry of the semantic cache is stored under the hash of its vector and its question.\<close>

definition semantic_Store :: "('v \<Rightarrow> string \<Rightarrow> string) \<Rightarrow> 'v \<Rightarrow> SemanticCacheItem \<Rightarrow> answer_caches \<Rightarrow> answer_caches" where
  "semantic_Store hash v item kc = kc\<lparr>kc_semantic := (kc_semantic kc)(hash v (mi_Query item) \<mapsto> item)\<rparr>"

record SemanticCacheLookup =
  ml_TenantID :: string
  ml_UserID :: int
  ml_IntentBucket :: Intent
  ml_Scope :: CacheScope
  ml_Threshold :: rat

definition scopedUserID :: "CacheScope \<Rightarrow> int \<Rightarrow> int" where
  "scopedUserID scope userID = (if scope = CacheScopeTenantUser then userID else 0)"

definition matchesSemanticLookup :: "SemanticCacheItem \<Rightarrow> SemanticCacheLookup \<Rightarrow> bool" where
  "matchesSemanticLookup item req \<longleftrightarrow> mi_TenantID item = ml_TenantID req \<and> mi_Scope item = ml_Scope req
     \<and> mi_IntentBucket item = ml_IntentBucket req
     \<and> scopedUserID (mi_Scope item) (mi_UserID item) = scopedUserID (ml_Scope req) (ml_UserID req)"

definition similarityFromDistance :: "rat option \<Rightarrow> rat" where
  "similarityFromDistance distance =
     (let s = 1 - (case distance of None \<Rightarrow> 0 | Some d \<Rightarrow> d) in if s < 0 then 0 else if 1 < s then 1 else s)"

text \<open>\<open>hits\<close>: the ids and distances the vector search answers with, nearest first.\<close>

fun semantic_pick :: "SemanticCacheLookup \<Rightarrow> (string \<times> rat option) list \<Rightarrow> answer_caches \<Rightarrow> SemanticCacheItem option" where
  "semantic_pick req [] kc = None"
| "semantic_pick req ((i, distance) # hits) kc =
     (case kc_semantic kc i of
        None \<Rightarrow> semantic_pick req hits kc
      | Some item \<Rightarrow>
          (if matchesSemanticLookup item req \<and> ml_Threshold req \<le> similarityFromDistance distance
           then Some (item\<lparr>mi_Response := (mi_Response item)\<lparr>ch_CacheHit := True\<rparr>\<rparr>)
           else semantic_pick req hits kc))"

section \<open>What may be cached\<close>

record cache_turn =
  kt_Tenant :: string
  kt_UserID :: int
  kt_Message :: string
  kt_InterruptID :: string
  kt_Intent :: Intent
  kt_RewrittenQuery :: string
  kt_SessionID :: string
  kt_TraceID :: string
  kt_Response :: "ChatResult option"

definition TenantIDOf :: "cache_turn \<Rightarrow> string" where
  "TenantIDOf t = (if trim_space (kt_Tenant t) \<noteq> [] then trim_space (kt_Tenant t) else ''default'')"

definition cacheableIntent :: "Intent \<Rightarrow> bool" where
  "cacheableIntent i \<longleftrightarrow> i \<in> {IntentProductService, IntentOrderService, IntentPromotionService, IntentAftersalesPolicy}"

definition ShouldSkipCache :: "cache_turn \<Rightarrow> bool" where
  "ShouldSkipCache t \<longleftrightarrow> trim_space (kt_Message t) = [] \<or> trim_space (kt_InterruptID t) \<noteq> []"

definition CanReadCache :: "cache_turn \<Rightarrow> bool" where
  "CanReadCache t \<longleftrightarrow> \<not> ShouldSkipCache t \<and> DefaultReadOnlyForIntent (kt_Intent t) \<and> cacheableIntent (kt_Intent t)"

definition CanWriteCache :: "cache_turn \<Rightarrow> bool" where
  "CanWriteCache t \<longleftrightarrow> CanReadCache t
     \<and> (case kt_Response t of
          None \<Rightarrow> False
        | Some r \<Rightarrow> \<not> ch_CacheHit r \<and> \<not> ch_Interrupted r \<and> \<not> ch_NeedHandoff r \<and> ch_Status r \<in> {StatusNone, StatusAnswered})"

definition semanticScopeForIntent :: "Intent \<Rightarrow> CacheScope" where
  "semanticScopeForIntent i = (if i = IntentAftersalesPolicy then CacheScopeTenantPublic else CacheScopeTenantUser)"

section \<open>Lookup and writeback\<close>

text \<open>What a call meets: is the exact cache answered, the embedding of a text, is Redis answered, the hits.\<close>

record 'v cache_env =
  ke_exact :: bool
  ke_embed :: "string \<Rightarrow> unit + 'v list"
  ke_semantic :: bool
  ke_hits :: "'v \<Rightarrow> (string \<times> rat option) list"
  ke_threshold :: rat

definition prepareHitResponse :: "ChatResult \<Rightarrow> cache_turn \<Rightarrow> Intent \<Rightarrow> ChatResult" where
  "prepareHitResponse r t intent =
     r\<lparr>ch_SessionID := trim_space (kt_SessionID t), ch_TraceID := trim_space (kt_TraceID t), ch_CacheHit := True,
       ch_Intent := (if ch_Intent r = IntentNone then intent else ch_Intent r),
       ch_Status := (if ch_Status r = StatusNone then StatusAnswered else ch_Status r), ch_Interrupted := False\<rparr>"

definition semantic_lookup :: "'v cache_env \<Rightarrow> Intent \<Rightarrow> cache_turn \<Rightarrow> answer_caches \<Rightarrow> unit + ChatResult option" where
  "semantic_lookup env intent t kc =
     (if \<not> cacheableIntent intent then Inr None
      else
        (case ke_embed env (trim_space (FirstNonEmpty [trim_space (FirstNonEmpty [kt_RewrittenQuery t, kt_Message t]), trim_space (kt_Message t)])) of
           Inl _ \<Rightarrow> Inl ()
         | Inr [] \<Rightarrow> Inr None
         | Inr (v # _) \<Rightarrow>
             (if \<not> ke_semantic env then Inl ()
              else
                (case semantic_pick \<lparr>ml_TenantID = TenantIDOf t, ml_UserID = kt_UserID t, ml_IntentBucket = intent,
                                     ml_Scope = semanticScopeForIntent intent, ml_Threshold = ke_threshold env\<rparr> (ke_hits env v) kc of
                   None \<Rightarrow> Inr None
                 | Some item \<Rightarrow>
                     (let r = prepareHitResponse (mi_Response item) t intent in
                      if cacheableIntent (ch_Intent r) then Inr (Some r) else Inr None)))))"

text \<open>\<open>LookupReadCache\<close> with the node it calls, for the intent of a read-only subgraph.\<close>

definition LookupReadCache ::
  "(string \<Rightarrow> string) \<Rightarrow> (string \<Rightarrow> string) \<Rightarrow> 'v cache_env \<Rightarrow> Intent \<Rightarrow> cache_turn \<Rightarrow> answer_caches \<Rightarrow> unit + ChatResult option" where
  "LookupReadCache sha other env intent t kc =
     (if \<not> DefaultReadOnlyForIntent intent \<or> \<not> CanReadCache t then Inr None
      else if cacheableIntent intent
      then
        (if \<not> ke_exact env then Inl ()
         else
           (case exact_Lookup sha other (TenantIDOf t) (kt_UserID t) (trim_space (kt_Message t)) kc of
              None \<Rightarrow> semantic_lookup env intent t kc
            | Some item \<Rightarrow>
                (let r = prepareHitResponse (xi_Response item) t intent in
                 if cacheableIntent (ch_Intent r) then Inr (Some r) else semantic_lookup env intent t kc)))
      else semantic_lookup env intent t kc)"

definition cloneCacheableResponse :: "ChatResult \<Rightarrow> ChatResult" where
  "cloneCacheableResponse r = r\<lparr>ch_SessionID := [], ch_TraceID := [], ch_Interrupted := False, ch_CacheHit := False\<rparr>"

definition CacheWriteback_Write ::
  "(string \<Rightarrow> string) \<Rightarrow> (string \<Rightarrow> string) \<Rightarrow> ('v \<Rightarrow> string \<Rightarrow> string) \<Rightarrow> 'v cache_env \<Rightarrow> cache_turn \<Rightarrow> answer_caches \<Rightarrow> answer_caches" where
  "CacheWriteback_Write sha other hash env t kc =
     (case kt_Response t of
        None \<Rightarrow> kc
      | Some response \<Rightarrow>
          (if \<not> CanWriteCache t \<or> \<not> ke_exact env then kc
           else
             (let query = trim_space (kt_Message t); resp = cloneCacheableResponse response;
                  kc1 = exact_Store sha other
                     \<lparr>xi_TenantID = TenantIDOf t, xi_UserID = kt_UserID t, xi_Query = query, xi_Response = resp\<rparr> kc;
                  semanticQuery = (if trim_space (kt_RewrittenQuery t) = [] then query else trim_space (kt_RewrittenQuery t)) in
              if \<not> cacheableIntent (kt_Intent t) then kc1
              else
                (case ke_embed env semanticQuery of
                   Inr (v # _) \<Rightarrow>
                     (if \<not> ke_semantic env then kc1
                      else semantic_Store hash v
                         \<lparr>mi_TenantID = TenantIDOf t, mi_UserID = kt_UserID t, mi_IntentBucket = kt_Intent t,
                          mi_Scope = semanticScopeForIntent (kt_Intent t), mi_Query = semanticQuery, mi_Response = resp\<rparr> kc1)
                 | _ \<Rightarrow> kc1))))"

end
