(* ===== verification/AgentCacheSpec.thy ===== *)
theory AgentCacheSpec
  imports AgentCache
begin

text \<open>
  What the guard and the caches of answers promise: at most so many messages per user and minute, and no
  answer given to another user but those on the after-sales policy.
\<close>

section \<open>Guard\<close>

fun guard_calls :: "int \<Rightarrow> int \<Rightarrow> (int \<times> string) list \<Rightarrow> rate_counters \<Rightarrow> guard_result list" where
  "guard_calls quota user [] rc = []"
| "guard_calls quota user ((now, message) # cs) rc =
     (case AccessGuard_Invoke True now quota user message [] rc of (r, rc') \<Rightarrow> r # guard_calls quota user cs rc')"

lemma guard_counting:
  assumes "0 < user" "\<forall>c \<in> set cs. fst c < expires \<and> trim_space (snd c) \<noteq> []" "rc user = Some (n, expires)"
  shows "length (filter (\<lambda>r. r = GuardPass) (guard_calls quota user cs rc)) = min (length cs) (nat (quota - n))"
  using assms
proof (induction cs arbitrary: rc n)
  case (Cons c cs)
  obtain now message where c: "c = (now, message)" by (cases c)
  define rc' where "rc' = rc(user \<mapsto> (n + 1, expires))"
  have g: "AccessGuard_Invoke True now quota user message [] rc
      = (if n + 1 \<le> quota then GuardPass else GuardBlocked ''too frequent'', rc')"
    using Cons.prems c by (auto simp: AccessGuard_Invoke_def AllowUser_def rate_IncrWithTTL_def rc'_def)
  have "length (filter (\<lambda>r. r = GuardPass) (guard_calls quota user cs rc')) = min (length cs) (nat (quota - (n + 1)))"
    using Cons.prems by (intro Cons.IH) (auto simp: rc'_def)
  then show ?case by (auto simp: c g)
qed simp

text \<open>Of the messages of a user in one minute, counted from the first, exactly the first \<open>quota\<close> get through.\<close>

lemma guard_limit:
  assumes "0 < user" "trim_space message \<noteq> []" "rc user = None"
    and "\<forall>c \<in> set cs. t \<le> fst c \<and> fst c < t + 60 \<and> trim_space (snd c) \<noteq> []"
  shows "length (filter (\<lambda>r. r = GuardPass) (guard_calls quota user ((t, message) # cs) rc)) = min (Suc (length cs)) (nat quota)"
proof -
  have g: "AccessGuard_Invoke True t quota user message [] rc
      = (if 1 \<le> quota then GuardPass else GuardBlocked ''too frequent'', rc(user \<mapsto> (1, t + 60)))"
    using assms by (simp add: AccessGuard_Invoke_def AllowUser_def rate_IncrWithTTL_def)
  have "length (filter (\<lambda>r. r = GuardPass) (guard_calls quota user cs (rc(user \<mapsto> (1, t + 60))))) = min (length cs) (nat (quota - 1))"
    using assms by (intro guard_counting [where expires = "t + 60"]) auto
  then show ?thesis by (auto simp: g)
qed

section \<open>Keys\<close>

lemma str_fields_chars: "w \<in> set (str_fields acc s) \<Longrightarrow> c \<in> set w \<Longrightarrow> c \<in> set acc \<union> set s"
  by (induction acc s rule: str_fields.induct) (auto split: if_splits)

lemma join_space_chars: "c \<in> set (join_space ws) \<Longrightarrow> c = CHR '' '' \<or> (\<exists>w \<in> set ws. c \<in> set w)"
  by (induction ws rule: join_space.induct) auto

lemma ascii_plain_colon: "ascii_plain c \<noteq> CHR '':''"
proof (cases "c = CHR '':''")
  case True
  then show ?thesis by (simp add: ascii_plain_def)
qed (auto simp: ascii_plain_def Let_def)

text \<open>A normalised question has no colon left, so the parts of a key can be told apart.\<close>

lemma normalized_no_colon: "CHR '':'' \<notin> set (normalizeExactQuery other q)"
  using ascii_plain_colon
  by (auto simp: normalizeExactQuery_def dest!: join_space_chars str_fields_chars) metis

lemma colon_split:
  "\<lbrakk>a @ CHR '':'' # s = b @ CHR '':'' # t; CHR '':'' \<notin> set s; CHR '':'' \<notin> set t\<rbrakk> \<Longrightarrow> a = b \<and> s = t"
proof -
  assume a: "a @ CHR '':'' # s = b @ CHR '':'' # t" "CHR '':'' \<notin> set s" "CHR '':'' \<notin> set t"
  have first: "x \<notin> set xs \<Longrightarrow> x \<notin> set ys \<Longrightarrow> xs @ x # us = ys @ x # vs \<Longrightarrow> xs = ys \<and> us = vs"
    for x :: char and xs ys us vs
  proof (induction xs arbitrary: ys)
    case Nil
    then show ?case by (cases ys) auto
  next
    case (Cons z zs)
    then show ?case by (cases ys) auto
  qed
  have "rev s @ CHR '':'' # rev a = rev t @ CHR '':'' # rev b" using arg_cong [OF a(1), of rev] by simp
  then show ?thesis using first [of "CHR '':''" "rev s" "rev t" "rev a" "rev b"] a(2,3) by simp
qed

lemma exactCacheKey_inject:
  assumes "inj sha" "exactCacheKey sha other t u q = exactCacheKey sha other t' u' q'"
  shows "t = t' \<and> u = u' \<and> normalizeExactQuery other q = normalizeExactQuery other q'"
proof -
  have f: "CHR '':'' \<notin> set (format_int i)" for i
  proof
    assume "CHR '':'' \<in> set (format_int i)"
    then obtain n where "CHR '':'' \<in> set (format_nat n)" by (auto simp: format_int_def split: if_splits)
    then have "digit_val (CHR '':'') \<noteq> None" by (rule format_nat_digits)
    then show False by (simp add: digit_val_def)
  qed
  have e: "(t @ CHR '':'' # format_int u) @ CHR '':'' # normalizeExactQuery other q
      = (t' @ CHR '':'' # format_int u') @ CHR '':'' # normalizeExactQuery other q'"
    using assms by (simp add: exactCacheKey_def inj_eq)
  have s: "t @ CHR '':'' # format_int u = t' @ CHR '':'' # format_int u'"
    "normalizeExactQuery other q = normalizeExactQuery other q'"
    using colon_split [OF e normalized_no_colon normalized_no_colon] by auto
  then show ?thesis using colon_split [OF s(1) f f] by simp
qed

section \<open>Answers of other users\<close>

text \<open>The caches of a service with the turns that wrote them; entries expire and are overwritten at any time.\<close>

inductive cache_run ::
  "(string \<Rightarrow> string) \<Rightarrow> (string \<Rightarrow> string) \<Rightarrow> ('v \<Rightarrow> string \<Rightarrow> string) \<Rightarrow> answer_caches \<Rightarrow> cache_turn list \<Rightarrow> bool" for sha other hash where
  start: "cache_run sha other hash \<lparr>kc_exact = Map.empty, kc_semantic = Map.empty\<rparr> []"
| written: "cache_run sha other hash kc ts \<Longrightarrow> cache_run sha other hash (CacheWriteback_Write sha other hash env t kc) (t # ts)"
| expire_exact: "cache_run sha other hash kc ts \<Longrightarrow> cache_run sha other hash (kc\<lparr>kc_exact := (kc_exact kc)(k := None)\<rparr>) ts"
| expire_semantic: "cache_run sha other hash kc ts \<Longrightarrow> cache_run sha other hash (kc\<lparr>kc_semantic := (kc_semantic kc)(k := None)\<rparr>) ts"

definition wrote_exact :: "(string \<Rightarrow> string) \<Rightarrow> (string \<Rightarrow> string) \<Rightarrow> string \<Rightarrow> ExactCacheItem \<Rightarrow> cache_turn \<Rightarrow> bool" where
  "wrote_exact sha other k item t \<longleftrightarrow> CanWriteCache t
     \<and> k = exactCacheKey sha other (TenantIDOf t) (kt_UserID t) (trim_space (kt_Message t))
     \<and> xi_Response item = cloneCacheableResponse (the (kt_Response t))"

definition wrote_semantic :: "SemanticCacheItem \<Rightarrow> cache_turn \<Rightarrow> bool" where
  "wrote_semantic item t \<longleftrightarrow> CanWriteCache t \<and> mi_TenantID item = TenantIDOf t \<and> mi_UserID item = kt_UserID t
     \<and> mi_IntentBucket item = kt_Intent t \<and> mi_Scope item = semanticScopeForIntent (kt_Intent t)
     \<and> mi_Response item = cloneCacheableResponse (the (kt_Response t))"

lemma writeback_entries:
  shows "kc_exact (CacheWriteback_Write sha other hash env t kc) k = Some item
      \<Longrightarrow> kc_exact kc k = Some item \<or> wrote_exact sha other k item t"
    and "kc_semantic (CacheWriteback_Write sha other hash env t kc) k = Some sitem
      \<Longrightarrow> kc_semantic kc k = Some sitem \<or> wrote_semantic sitem t"
  by (auto simp: CacheWriteback_Write_def exact_Store_def semantic_Store_def wrote_exact_def wrote_semantic_def Let_def
      split: option.splits if_splits sum.splits list.splits)

lemma cache_run_entries:
  assumes "cache_run sha other hash kc ts"
  shows "(\<forall>k item. kc_exact kc k = Some item \<longrightarrow> (\<exists>t \<in> set ts. wrote_exact sha other k item t))
    \<and> (\<forall>k item. kc_semantic kc k = Some item \<longrightarrow> (\<exists>t \<in> set ts. wrote_semantic item t))"
  using assms
proof (induction rule: cache_run.induct)
  case (written kc ts env t)
  show ?case
  proof (intro conjI allI impI)
    fix k item assume "kc_exact (CacheWriteback_Write sha other hash env t kc) k = Some item"
    then show "\<exists>t \<in> set (t # ts). wrote_exact sha other k item t" using writeback_entries(1) written.IH by fastforce
  next
    fix k item assume "kc_semantic (CacheWriteback_Write sha other hash env t kc) k = Some item"
    then show "\<exists>t \<in> set (t # ts). wrote_semantic item t" using writeback_entries(2) written.IH by fastforce
  qed
qed auto

lemma semantic_pick_SomeD:
  "semantic_pick req hits kc = Some item \<Longrightarrow>
     \<exists>k item'. kc_semantic kc k = Some item' \<and> matchesSemanticLookup item' req \<and> item = item'\<lparr>mi_Response := (mi_Response item')\<lparr>ch_CacheHit := True\<rparr>\<rparr>"
  by (induction req hits kc rule: semantic_pick.induct) (auto split: option.splits if_splits)

lemma semantic_lookup_SomeD:
  assumes "semantic_lookup env intent t kc = Inr (Some r)"
  shows "\<exists>k item. kc_semantic kc k = Some item \<and> mi_TenantID item = TenantIDOf t \<and> mi_IntentBucket item = intent
    \<and> mi_Scope item = semanticScopeForIntent intent \<and> cacheableIntent intent
    \<and> scopedUserID (mi_Scope item) (mi_UserID item) = scopedUserID (mi_Scope item) (kt_UserID t)
    \<and> ch_Reply r = ch_Reply (mi_Response item)"
proof -
  obtain v vs item where v: "semantic_pick \<lparr>ml_TenantID = TenantIDOf t, ml_UserID = kt_UserID t, ml_IntentBucket = intent,
        ml_Scope = semanticScopeForIntent intent, ml_Threshold = ke_threshold env\<rparr> (ke_hits env v) kc = Some item"
    and r: "r = prepareHitResponse (mi_Response item) t intent" and c: "cacheableIntent intent"
    using assms by (auto simp: semantic_lookup_def Let_def split: if_splits sum.splits list.splits option.splits)
  obtain k item' where k: "kc_semantic kc k = Some item'" "item = item'\<lparr>mi_Response := (mi_Response item')\<lparr>ch_CacheHit := True\<rparr>\<rparr>"
    and m: "mi_TenantID item' = TenantIDOf t" "mi_Scope item' = semanticScopeForIntent intent" "mi_IntentBucket item' = intent"
      "scopedUserID (mi_Scope item') (mi_UserID item') = scopedUserID (semanticScopeForIntent intent) (kt_UserID t)"
    using semantic_pick_SomeD [OF v] by (auto simp: matchesSemanticLookup_def)
  show ?thesis by (rule exI [of _ k], rule exI [of _ item']) (use k m c r in \<open>simp add: prepareHitResponse_def\<close>)
qed

text \<open>C40: no user reads what the agent told another one.  However the caches were filled, an answer that comes
  out of them for a turn was given in an earlier turn of the same tenant that may be cached: a finished,
  read-only answer that itself came from no cache.  It was a turn of the same user with the same
  normalised question, or of the same intent; and it was a turn of the same user unless both ask about the
  after-sales policy.  The hash behind the keys is taken to have no collisions.\<close>

theorem answer_cache_private:
  assumes "cache_run sha other hash kc ts" "inj sha" "LookupReadCache sha other env intent t kc = Inr (Some r)"
  shows "\<exists>w \<in> set ts. TenantIDOf w = TenantIDOf t \<and> CanWriteCache w \<and> ch_Reply r = ch_Reply (the (kt_Response w))
    \<and> (kt_UserID w = kt_UserID t \<or> kt_Intent w = IntentAftersalesPolicy \<and> intent = IntentAftersalesPolicy)
    \<and> (kt_Intent w = intent
       \<or> normalizeExactQuery other (trim_space (kt_Message w)) = normalizeExactQuery other (trim_space (kt_Message t)))"
proof -
  note entries = cache_run_entries [OF assms(1)]
  have s: ?thesis if sem: "semantic_lookup env intent t kc = Inr (Some r)"
  proof -
    obtain k item where i: "kc_semantic kc k = Some item" "mi_TenantID item = TenantIDOf t" "mi_IntentBucket item = intent"
      "mi_Scope item = semanticScopeForIntent intent" "ch_Reply r = ch_Reply (mi_Response item)"
      "scopedUserID (mi_Scope item) (mi_UserID item) = scopedUserID (mi_Scope item) (kt_UserID t)"
      using semantic_lookup_SomeD [OF sem] by blast
    then obtain w where "w \<in> set ts" "wrote_semantic item w" using entries by blast
    then show ?thesis using i
      by (intro bexI [of _ w])
        (auto simp: wrote_semantic_def cloneCacheableResponse_def scopedUserID_def semanticScopeForIntent_def split: if_splits)
  qed
  show ?thesis
  proof (cases "semantic_lookup env intent t kc = Inr (Some r)")
    case False
    then obtain item where i: "kc_exact kc (exactCacheKey sha other (TenantIDOf t) (kt_UserID t) (trim_space (kt_Message t))) = Some item"
      and r: "r = prepareHitResponse (xi_Response item) t intent"
      using assms(3) by (auto simp: LookupReadCache_def exact_Lookup_def Let_def split: if_splits option.splits)
    then obtain w where w: "w \<in> set ts" "wrote_exact sha other (exactCacheKey sha other (TenantIDOf t) (kt_UserID t) (trim_space (kt_Message t))) item w"
      using entries by blast
    then have "exactCacheKey sha other (TenantIDOf t) (kt_UserID t) (trim_space (kt_Message t))
        = exactCacheKey sha other (TenantIDOf w) (kt_UserID w) (trim_space (kt_Message w))" by (simp add: wrote_exact_def)
    from exactCacheKey_inject [OF assms(2) this] show ?thesis using w r
      by (intro bexI [of _ w]) (auto simp: wrote_exact_def prepareHitResponse_def cloneCacheableResponse_def)
  qed (rule s)
qed

definition sample_turn :: cache_turn where
  "sample_turn = \<lparr>kt_Tenant = [], kt_UserID = 7, kt_Message = ''Where is it?'', kt_InterruptID = [], kt_Intent = IntentOrderService,
     kt_RewrittenQuery = [], kt_SessionID = ''s'', kt_TraceID = ''t'',
     kt_Response = Some (empty_result\<lparr>ch_Reply := ''On its way'', ch_Intent := IntentOrderService, ch_Status := StatusAnswered\<rparr>)\<rparr>"

definition sample_cache_env :: "string cache_env" where
  "sample_cache_env = \<lparr>ke_exact = True, ke_embed = (\<lambda>s. Inr [s]), ke_semantic = True, ke_hits = (\<lambda>v. [(v, Some 0)]), ke_threshold = 9 / 10\<rparr>"

definition sample_caches :: answer_caches where
  "sample_caches = CacheWriteback_Write (\<lambda>s. s) (\<lambda>s. s) (\<lambda>v q. v) sample_cache_env sample_turn \<lparr>kc_exact = Map.empty, kc_semantic = Map.empty\<rparr>"

lemma sample_lookup:
  "map_sum (\<lambda>_. ()) (map_option ch_Reply) (LookupReadCache (\<lambda>s. s) (\<lambda>s. s) sample_cache_env IntentOrderService (sample_turn\<lparr>kt_Message := ''where is it''\<rparr>) sample_caches)
     = Inr (Some ''On its way'')"
  "LookupReadCache (\<lambda>s. s) (\<lambda>s. s) sample_cache_env IntentOrderService (sample_turn\<lparr>kt_UserID := 8\<rparr>) sample_caches = Inr None"
  by code_simp+

theorem answer_cache_private_witness:
  "\<exists>r. LookupReadCache (\<lambda>s. s) (\<lambda>s. s) sample_cache_env IntentOrderService (sample_turn\<lparr>kt_Message := ''where is it''\<rparr>) sample_caches = Inr (Some r)
     \<and> ch_Reply r = ch_Reply (the (kt_Response sample_turn)) \<and> kt_UserID sample_turn = 7"
proof -
  have run: "cache_run (\<lambda>s. s) (\<lambda>s. s) (\<lambda>v q. v) sample_caches [sample_turn]"
    unfolding sample_caches_def by (intro cache_run.written cache_run.start)
  obtain r where r: "LookupReadCache (\<lambda>s. s) (\<lambda>s. s) sample_cache_env IntentOrderService (sample_turn\<lparr>kt_Message := ''where is it''\<rparr>) sample_caches = Inr (Some r)"
    using sample_lookup(1)
    by (cases "LookupReadCache (\<lambda>s. s) (\<lambda>s. s) sample_cache_env IntentOrderService (sample_turn\<lparr>kt_Message := ''where is it''\<rparr>) sample_caches") auto
  from answer_cache_private [OF run _ r] have "ch_Reply r = ch_Reply (the (kt_Response sample_turn))" by (simp add: inj_def)
  then show ?thesis using r by (simp add: sample_turn_def)
qed

text \<open>The id of a semantic entry does not name the user: the same question of another user replaces it, and the
  first one misses from then on.\<close>

lemma semantic_entry_replaced:
  "kc_semantic (CacheWriteback_Write (\<lambda>s. s) (\<lambda>s. s) (\<lambda>v q. v) sample_cache_env (sample_turn\<lparr>kt_UserID := 8\<rparr>) sample_caches) ''Where is it?''
     = Some \<lparr>mi_TenantID = ''default'', mi_UserID = 8, mi_IntentBucket = IntentOrderService, mi_Scope = CacheScopeTenantUser,
             mi_Query = ''Where is it?'', mi_Response = cloneCacheableResponse (the (kt_Response sample_turn))\<rparr>
   \<and> map_option mi_UserID (kc_semantic sample_caches ''Where is it?'') = Some 7"
  by code_simp

end
