(* ===== verification/Pool.thy ===== *)
theory Pool
  imports Prelude
begin

text \<open>
  The keyed consumer pool (\<open>pkg/pool/keyed_consumer_pool.go\<close>): a worker pool whose tasks carry a key, with a
  bound on the tasks of one key.  Calls of \<open>Submit\<close>, the goroutines of the tasks and \<open>Close\<close> interleave; a
  call holds the mutex from its first check to \<open>wg.Add\<close>.  The semaphore and the worker pool are packages of
  others: \<open>grant\<close> says whether \<open>TryWait\<close> gives a permit when so many of a key are out, and the pool takes a
  task or refuses it.
\<close>

section \<open>Options\<close>

record pool_options =
  po_GlobalWorkerNum :: int
  po_PerActivityConcurrency :: int

definition pool_withDefaults :: "pool_options \<Rightarrow> pool_options" where
  "pool_withDefaults o' =
     (let o1 = (if po_GlobalWorkerNum o' \<le> 0 then o'\<lparr>po_GlobalWorkerNum := 32\<rparr> else o') in
      if po_PerActivityConcurrency o1 = 0 then o1\<lparr>po_PerActivityConcurrency := 8\<rparr> else o1)"

section \<open>State and operations\<close>

text \<open>Where a task is: its submission left the mutex, it runs in the pool, or it is done or was refused and
  has its permit left to give back.\<close>

datatype task_phase = TaskAdmitted | TaskRunning | TaskLeaving

datatype pool_err = ErrActivityBusy | ErrNilTask | ErrPoolClosed

text \<open>\<open>kp_sem\<close> is \<open>None\<close> without a bound, else the permits out for each key; \<open>kp_wg\<close> is the counter of the wait
  group.\<close>

record keyed_pool =
  kp_closed :: bool
  kp_sem :: "(string \<Rightarrow> nat) option"
  kp_wg :: int
  kp_tasks :: "(string \<times> task_phase) list"

definition NewKeyedConsumerPool :: "pool_options \<Rightarrow> keyed_pool" where
  "NewKeyedConsumerPool o' =
     \<lparr>kp_closed = False,
      kp_sem = (if 0 < po_PerActivityConcurrency (pool_withDefaults o') then Some (\<lambda>_. 0) else None),
      kp_wg = 0, kp_tasks = []\<rparr>"

text \<open>\<open>Submit\<close> up to the end of its critical section.\<close>

definition pool_Submit :: "(nat \<Rightarrow> bool) \<Rightarrow> bool \<Rightarrow> string \<Rightarrow> keyed_pool \<Rightarrow> (pool_err + unit) \<times> keyed_pool" where
  "pool_Submit grant nilTask key p =
     (if nilTask then (Inl ErrNilTask, p)
      else if kp_closed p then (Inl ErrPoolClosed, p)
      else
        (case kp_sem p of
           Some sem \<Rightarrow>
             (if \<not> grant (sem key) then (Inl ErrActivityBusy, p)
              else (Inr (), p\<lparr>kp_sem := Some (sem(key := sem key + 1)), kp_wg := kp_wg p + 1,
                              kp_tasks := kp_tasks p @ [(key, TaskAdmitted)]\<rparr>))
         | None \<Rightarrow> (Inr (), p\<lparr>kp_wg := kp_wg p + 1, kp_tasks := kp_tasks p @ [(key, TaskAdmitted)]\<rparr>)))"

text \<open>The worker pool takes the task, or refuses it and \<open>wg.Done\<close> runs.\<close>

definition pool_take :: "bool \<Rightarrow> nat \<Rightarrow> keyed_pool \<Rightarrow> keyed_pool" where
  "pool_take ok i p =
     (if i < length (kp_tasks p) \<and> snd (kp_tasks p ! i) = TaskAdmitted
      then (if ok then p\<lparr>kp_tasks := (kp_tasks p)[i := (fst (kp_tasks p ! i), TaskRunning)]\<rparr>
            else p\<lparr>kp_wg := kp_wg p - 1, kp_tasks := (kp_tasks p)[i := (fst (kp_tasks p ! i), TaskLeaving)]\<rparr>)
      else p)"

text \<open>The task returned or panicked: \<open>wg.Done\<close> runs.\<close>

definition pool_done :: "nat \<Rightarrow> keyed_pool \<Rightarrow> keyed_pool" where
  "pool_done i p =
     (if i < length (kp_tasks p) \<and> snd (kp_tasks p ! i) = TaskRunning
      then p\<lparr>kp_wg := kp_wg p - 1, kp_tasks := (kp_tasks p)[i := (fst (kp_tasks p ! i), TaskLeaving)]\<rparr>
      else p)"

text \<open>\<open>sem.Release\<close>, after \<open>wg.Done\<close>.\<close>

definition pool_release :: "nat \<Rightarrow> keyed_pool \<Rightarrow> keyed_pool" where
  "pool_release i p =
     (if i < length (kp_tasks p) \<and> snd (kp_tasks p ! i) = TaskLeaving
      then p\<lparr>kp_sem := map_option (\<lambda>sem. sem(fst (kp_tasks p ! i) := sem (fst (kp_tasks p ! i)) - 1)) (kp_sem p),
             kp_tasks := take i (kp_tasks p) @ drop (Suc i) (kp_tasks p)\<rparr>
      else p)"

definition pool_Close :: "keyed_pool \<Rightarrow> keyed_pool" where
  "pool_Close p = p\<lparr>kp_closed := True\<rparr>"

text \<open>\<open>CloseWithTimeout\<close> answers true when \<open>wg.Wait\<close> came back, which needs the counter at 0.\<close>

definition pool_waited :: "keyed_pool \<Rightarrow> bool" where
  "pool_waited p \<longleftrightarrow> kp_wg p = 0"

section \<open>Invariant\<close>

definition key_tasks :: "string \<Rightarrow> keyed_pool \<Rightarrow> nat" where
  "key_tasks key p = rows_affected (\<lambda>t. fst t = key) (kp_tasks p)"

definition active_tasks :: "keyed_pool \<Rightarrow> nat" where
  "active_tasks p = rows_affected (\<lambda>t. snd t \<noteq> TaskLeaving) (kp_tasks p)"

inductive pool_run :: "(nat \<Rightarrow> bool) \<Rightarrow> pool_options \<Rightarrow> keyed_pool \<Rightarrow> bool" for grant opts where
  new: "pool_run grant opts (NewKeyedConsumerPool opts)"
| submit: "pool_run grant opts p \<Longrightarrow> pool_run grant opts (snd (pool_Submit grant isnil key p))"
| taken: "pool_run grant opts p \<Longrightarrow> pool_run grant opts (pool_take ok i p)"
| ended: "pool_run grant opts p \<Longrightarrow> pool_run grant opts (pool_done i p)"
| released: "pool_run grant opts p \<Longrightarrow> pool_run grant opts (pool_release i p)"
| closed: "pool_run grant opts p \<Longrightarrow> pool_run grant opts (pool_Close p)"

text \<open>The semaphore gives a permit only while fewer than its bound are out.\<close>

definition semaphore_ok :: "int \<Rightarrow> (nat \<Rightarrow> bool) \<Rightarrow> bool" where
  "semaphore_ok n grant \<longleftrightarrow> (\<forall>k. grant k \<longrightarrow> int k < n)"

definition pool_inv :: "int \<Rightarrow> keyed_pool \<Rightarrow> bool" where
  "pool_inv n p \<longleftrightarrow> kp_wg p = int (active_tasks p)
     \<and> (case kp_sem p of None \<Rightarrow> n \<le> 0 | Some sem \<Rightarrow> 0 < n \<and> (\<forall>key. sem key = key_tasks key p \<and> int (key_tasks key p) \<le> n))"

lemma rows_affected_update:
  "i < length xs \<Longrightarrow> int (rows_affected P (xs[i := y]))
     = int (rows_affected P xs) - (if P (xs ! i) then 1 else 0) + (if P y then 1 else 0)"
proof (induction xs arbitrary: i)
  case (Cons x xs)
  then show ?case by (cases i) auto
qed simp

lemma rows_affected_delete:
  "i < length xs \<Longrightarrow> int (rows_affected P (take i xs @ drop (Suc i) xs)) = int (rows_affected P xs) - (if P (xs ! i) then 1 else 0)"
proof (induction xs arbitrary: i)
  case (Cons x xs)
  then show ?case by (cases i) auto
qed simp

lemma key_tasks_fst:
  assumes "map fst (kp_tasks p') = map fst (kp_tasks p)"
  shows "key_tasks key p' = key_tasks key p"
proof -
  have "rows_affected (\<lambda>t. fst t = key) xs = length (filter (\<lambda>k. k = key) (map fst xs))" for xs :: "(string \<times> task_phase) list"
    by (induction xs) auto
  then show ?thesis by (simp only: key_tasks_def assms)
qed

lemma update_phase_fst: "map fst (xs[i := (fst (xs ! i), ph)]) = map fst xs"
  by (metis fst_conv list_update_id map_update)

text \<open>A step of a task that keeps its key and its permit.\<close>

lemma phase_step_inv:
  assumes "pool_inv n p" "kp_sem p' = kp_sem p" "kp_wg p' - kp_wg p = int (active_tasks p') - int (active_tasks p)"
    and "map fst (kp_tasks p') = map fst (kp_tasks p)"
  shows "pool_inv n p'"
  using assms(1-3) key_tasks_fst [OF assms(4)] by (auto simp: pool_inv_def split: option.splits)

lemma pool_take_inv: "pool_inv n p \<Longrightarrow> pool_inv n (pool_take ok i p)"
  by (erule phase_step_inv)
    (auto simp: pool_take_def active_tasks_def rows_affected_update update_phase_fst)

lemma pool_done_inv: "pool_inv n p \<Longrightarrow> pool_inv n (pool_done i p)"
  by (erule phase_step_inv)
    (auto simp: pool_done_def active_tasks_def rows_affected_update update_phase_fst)

lemma pool_release_inv:
  assumes "pool_inv n p"
  shows "pool_inv n (pool_release i p)"
proof (cases "i < length (kp_tasks p) \<and> snd (kp_tasks p ! i) = TaskLeaving")
  case True
  define p' where "p' = pool_release i p"
  have t: "kp_tasks p' = take i (kp_tasks p) @ drop (Suc i) (kp_tasks p)" "kp_wg p' = kp_wg p"
    using True by (simp_all add: p'_def pool_release_def)
  have a: "active_tasks p' = active_tasks p"
    using rows_affected_delete [of i "kp_tasks p" "\<lambda>t. snd t \<noteq> TaskLeaving"] True by (simp add: active_tasks_def t)
  have k: "int (key_tasks key p') = int (key_tasks key p) - (if fst (kp_tasks p ! i) = key then 1 else 0)" for key
    using rows_affected_delete [of i "kp_tasks p" "\<lambda>t. fst t = key"] True by (simp only: key_tasks_def t simp_thms)
  show ?thesis
  proof (cases "kp_sem p")
    case None
    then show ?thesis using assms True a t by (auto simp: pool_inv_def p'_def [symmetric]) (simp_all add: p'_def pool_release_def)
  next
    case (Some sem)
    have s: "kp_sem p' = Some (sem(fst (kp_tasks p ! i) := sem (fst (kp_tasks p ! i)) - 1))"
      using True Some by (simp add: p'_def pool_release_def)
    have o': "sem key = key_tasks key p" "int (sem key) \<le> n" "0 < n" for key using assms Some by (auto simp: pool_inv_def)
    have "(sem(fst (kp_tasks p ! i) := sem (fst (kp_tasks p ! i)) - 1)) key = key_tasks key p'
        \<and> int (key_tasks key p') \<le> n" for key
      using k [of key] o'(1,2) [of key] o'(3) by auto
    then show ?thesis using assms a t s o'(3) by (simp add: pool_inv_def p'_def [symmetric])
  qed
qed (use assms in \<open>auto simp: pool_release_def\<close>)

lemma pool_submit_inv:
  assumes "pool_inv n p" "semaphore_ok n grant"
  shows "pool_inv n (snd (pool_Submit grant isnil key p))"
proof -
  have a: "int (key_tasks k (p\<lparr>kp_sem := s, kp_wg := w, kp_tasks := kp_tasks p @ [(key, TaskAdmitted)]\<rparr>))
      = int (key_tasks k p) + (if k = key then 1 else 0)" for k s w
    by (simp add: key_tasks_def)
  show ?thesis using assms
    by (auto simp: pool_Submit_def pool_inv_def active_tasks_def key_tasks_def semaphore_ok_def split: option.splits)
qed

lemma pool_run_inv:
  assumes "semaphore_ok (po_PerActivityConcurrency (pool_withDefaults opts)) grant"
  shows "pool_run grant opts p \<Longrightarrow> pool_inv (po_PerActivityConcurrency (pool_withDefaults opts)) p"
proof (induction rule: pool_run.induct)
  case new
  then show ?case by (simp add: pool_inv_def NewKeyedConsumerPool_def active_tasks_def key_tasks_def)
next
  case (closed p)
  then show ?case by (simp add: pool_inv_def pool_Close_def active_tasks_def key_tasks_def split: option.splits)
qed (use assms in \<open>auto intro: pool_submit_inv pool_take_inv pool_done_inv pool_release_inv\<close>)

section \<open>Bound and shutdown\<close>

lemma rows_affected_mono: "(\<And>x. P x \<Longrightarrow> Q x) \<Longrightarrow> rows_affected P xs \<le> rows_affected Q xs"
  by (induction xs) auto

text \<open>After a pool was closed, its tasks only finish.\<close>

inductive pool_later :: "(nat \<Rightarrow> bool) \<Rightarrow> keyed_pool \<Rightarrow> keyed_pool \<Rightarrow> bool" for grant p where
  now: "pool_later grant p p"
| submit: "pool_later grant p q \<Longrightarrow> pool_later grant p (snd (pool_Submit grant isnil key q))"
| taken: "pool_later grant p q \<Longrightarrow> pool_later grant p (pool_take ok i q)"
| ended: "pool_later grant p q \<Longrightarrow> pool_later grant p (pool_done i q)"
| released: "pool_later grant p q \<Longrightarrow> pool_later grant p (pool_release i q)"

definition all_leaving :: "keyed_pool \<Rightarrow> bool" where
  "all_leaving p \<longleftrightarrow> (\<forall>t \<in> set (kp_tasks p). snd t = TaskLeaving)"

lemma closed_stays_empty:
  "pool_later grant p q \<Longrightarrow> kp_closed p \<Longrightarrow> all_leaving p \<Longrightarrow> kp_closed q \<and> all_leaving q"
proof (induction rule: pool_later.induct)
  case (submit q isnil key)
  then show ?case by (simp add: pool_Submit_def)
next
  case (taken q ok i)
  then show ?case by (auto simp: pool_take_def all_leaving_def dest: nth_mem)
next
  case (ended q i)
  then show ?case by (auto simp: pool_done_def all_leaving_def dest: nth_mem)
next
  case (released q i)
  then show ?case by (auto simp: pool_release_def all_leaving_def dest: in_set_takeD in_set_dropD)
qed simp

text \<open>At most the configured number of tasks of a key run at a time, whatever submissions, refusals, panics
  and releases interleave; and a close that waited successfully means it: no task is running or about to,
  and none ever will be.\<close>

theorem pool_bounded_and_drained:
  assumes "semaphore_ok (po_PerActivityConcurrency (pool_withDefaults opts)) grant" "pool_run grant opts p"
  shows "(0 < po_PerActivityConcurrency (pool_withDefaults opts) \<longrightarrow>
      int (rows_affected (\<lambda>t. t = (key, TaskRunning)) (kp_tasks p)) \<le> po_PerActivityConcurrency (pool_withDefaults opts))
    \<and> (kp_closed p \<and> pool_waited p \<and> pool_later grant p q \<longrightarrow>
         (\<forall>t \<in> set (kp_tasks q). snd t \<noteq> TaskRunning \<and> snd t \<noteq> TaskAdmitted))"
proof (intro conjI impI)
  have i: "pool_inv (po_PerActivityConcurrency (pool_withDefaults opts)) p" using assms by (rule pool_run_inv)
  assume n: "0 < po_PerActivityConcurrency (pool_withDefaults opts)"
  have "rows_affected (\<lambda>t. t = (key, TaskRunning)) (kp_tasks p) \<le> key_tasks key p"
    unfolding key_tasks_def by (rule rows_affected_mono) auto
  then show "int (rows_affected (\<lambda>t. t = (key, TaskRunning)) (kp_tasks p)) \<le> po_PerActivityConcurrency (pool_withDefaults opts)"
    using i n by (auto simp: pool_inv_def split: option.splits) (metis of_nat_le_iff order_trans)
next
  have i: "pool_inv (po_PerActivityConcurrency (pool_withDefaults opts)) p" using assms by (rule pool_run_inv)
  assume c: "kp_closed p \<and> pool_waited p \<and> pool_later grant p q"
  then have "active_tasks p = 0" using i by (simp add: pool_inv_def pool_waited_def)
  then have "all_leaving p" by (simp add: active_tasks_def rows_affected_zero all_leaving_def)
  then have "all_leaving q" using c closed_stays_empty by blast
  then show "\<forall>t \<in> set (kp_tasks q). snd t \<noteq> TaskRunning \<and> snd t \<noteq> TaskAdmitted" by (auto simp: all_leaving_def)
qed

definition sample_options :: pool_options where
  "sample_options = \<lparr>po_GlobalWorkerNum = 0, po_PerActivityConcurrency = 1\<rparr>"

definition one_permit :: "nat \<Rightarrow> bool" where "one_permit k \<longleftrightarrow> k = 0"

definition sample_pool :: keyed_pool where
  "sample_pool = pool_take True 0 (snd (pool_Submit one_permit False ''a'' (NewKeyedConsumerPool sample_options)))"

lemma sample_pool_run:
  "kp_tasks sample_pool = [(''a'', TaskRunning)]"
  "fst (pool_Submit one_permit False ''a'' sample_pool) = Inl ErrActivityBusy"
  "fst (pool_Submit one_permit False ''b'' sample_pool) = Inr ()"
  by code_simp+

theorem pool_bounded_and_drained_witness:
  "rows_affected (\<lambda>t. t = (''a'', TaskRunning)) (kp_tasks sample_pool) = 1
   \<and> int (rows_affected (\<lambda>t. t = (''a'', TaskRunning)) (kp_tasks sample_pool)) \<le> po_PerActivityConcurrency (pool_withDefaults sample_options)"
proof -
  have "semaphore_ok (po_PerActivityConcurrency (pool_withDefaults sample_options)) one_permit"
    by (simp add: semaphore_ok_def one_permit_def pool_withDefaults_def sample_options_def Let_def)
  moreover have "pool_run one_permit sample_options sample_pool"
    unfolding sample_pool_def by (intro pool_run.taken pool_run.submit pool_run.new)
  moreover have "0 < po_PerActivityConcurrency (pool_withDefaults sample_options)" by code_simp
  ultimately show ?thesis using pool_bounded_and_drained [where key = "''a''"] sample_pool_run(1) by simp
qed

text \<open>The bound is for the key: a task that finished may still hold its permit while the wait group has counted
  it out, so a submission can find its activity busy although nothing of it runs.\<close>

lemma busy_while_leaving:
  "fst (pool_Submit one_permit False ''a'' (pool_done 0 sample_pool)) = Inl ErrActivityBusy
   \<and> kp_wg (pool_done 0 sample_pool) = 0"
  by code_simp

end
