(* ===== verification/Spec2Isabelle.thy ===== *)
theory Spec2Isabelle
  imports OrderSpec SeckillSpec SeckillOrders PaymentSpec AlipaySpec InventorySpec CouponSpec CheckoutSpec CartSpec ActivitySpec MigratorSpec TrafficSpec Handlers UserSpec SearchSpec AgentWriteSpec AgentSessionSpec AgentCacheSpec Pool
begin

text \<open>
  DouyinMall is an e-commerce back end of Go services (\<open>src/backend/internal\<close>) that call each other over
  gRPC and tell each other of order changes through RocketMQ.  This development models the services that
  move money and goods, operation by operation, and proves what holds of them in every interleaving.

  \<^bold>\<open>How a service is modelled.\<close>  Its MySQL tables are lists of rows and its Redis keys the lists and maps they
  hold, in one record of the state.  A repository method, use case or handler is a function from the
  state to a result and the new state; an error is \<open>Inl\<close>, one constructor for every error the code tells
  apart.  What a call cannot know, whether a statement fails, the clock, the order of goroutines, is an
  argument, so a theorem holds for all of them.  A transaction that fails gives back the state it started
  from (\<open>run_tx\<close> of theory Prelude).  Concurrency is a step relation whose steps are the transactions,
  scripts and single statements; a property of its reachable states holds in every interleaving.
  Machine integers wrap by \<open>wrap64\<close> and \<open>wrap32\<close>, division rounds towards zero (\<open>go_div\<close>), \<open>float64\<close> is
  rounding on rationals (theory GoFloat).  Strings are byte strings.

  \<^bold>\<open>Theories.\<close>
  \<^item> Prelude, Redis, Outbox: shared tables and lookups, sorted sets, and the transactional outbox with its
    worker, proved once in the locale of what a worker needs of a store.
  \<^item> OrderDomain (the status machine, and the locale of life cycles that the payment status shares),
    OrderRepo, OrderUsecase, OrderJobs (\<open>internal/order\<close>): tables and
    caches, use cases, gRPC handler and payment consumer, and the outbox, timeout and cleaning jobs.
    OrderProps has the invariant of all steps, OrderSpec the properties.
  \<^item> SeckillRepo, SeckillMQ (\<open>internal/seckill\<close>): tables, Lua scripts, processor, consumers, producer.
    SeckillProps has the invariants, SeckillFlow the facts on handlers, SeckillSpec the properties, and
    SeckillOrders joins the service with the order service it calls.
  \<^item> Payment, PaymentUsecase, Alipay (\<open>internal/payment\<close>), with PaymentProps, PaymentSpec and AlipaySpec.
  \<^item> Inventory (\<open>internal/inventory\<close>), with InventoryProps and InventorySpec: stock against its ledger.
  \<^item> Coupon, CouponUsecase (\<open>internal/coupon\<close>), with CouponProps and CouponSpec.
  \<^item> Checkout (\<open>internal/checkout\<close>), over a record of clients; CheckoutPrice on prices, the locale of
    CheckoutSaga on what its compensation needs of the services, CheckoutWorld with the clients made of
    the handlers above and its interpretation, CheckoutSpec with the properties.
  \<^item> Cart (\<open>internal/cart\<close>), with the write-behind locale of CartProps and the properties in CartSpec.
  \<^item> This theory: the properties that span services.

  \<^bold>\<open>Fuel and termination.\<close>  Most loops are structural recursion.  The outbox worker reads page after page:
  \<open>worker_Run\<close> takes the number of pages as fuel, and \<open>outbox_run_terminates\<close> shows how much is enough.
  Draining the delay queue recurses under the measure of its length.  \<open>SyncPaymentOrder_Run\<close> runs against a
  deadline, whose number of rounds is its fuel; more rounds never change what the lemma on it says.

  \<^bold>\<open>Parameters.\<close>  The payment provider, the product service's quotes, the broker's acknowledgements, clocks
  and generated ids are arguments; no hypothesis is made of them beyond what a theorem states.

  \<^bold>\<open>Not modelled.\<close>  Generated RPC code (\<open>rpc_gen\<close>), configuration and wiring (\<open>config\<close>, \<open>ioc\<close>, \<open>cmd\<close>), HTTP and
  MCP request plumbing, provider SDK calls, logging and metrics; the product, search, user and agent
  services, which call Elasticsearch, Canal, language models or password hashing for most of what they do.
\<close>

section \<open>Properties that span components\<close>

text \<open>C2: a flash sale that succeeded has its order.  In every interleaving of the transactions of the flash-sale
  service with those of the order service, a request that is SUCCESS has an order with the id its number
  spells, of the same user, activity and kind.\<close>

theorem seckill_success_has_order:
  assumes "event_of ev" "(joint_step ev)\<^sup>*\<^sup>* (seckill_init, os0, {}) (d, os, C)"
    and "r \<in> set (sd_requests d)" "sr_status r = RequestStatusSuccess"
  shows "\<exists>m \<in> set (od_orders (os_db os)). OrderIDFromRequestNo (sr_no r) = Some (m_id m)
           \<and> m_user m = sr_user r \<and> m_activity m = sr_activity r \<and> m_kind m = OrderKindSeckill"
proof -
  have "joint_inv ev (seckill_init, os0, {})"
    by (simp add: joint_inv_def seckill_init_inv) (simp add: success_nos_def seckill_init_def)
  then have inv: "joint_inv ev (d, os, C)" by (rule joint_steps_inv [OF assms(2,1)])
  have "order_for (ev (sr_no r)) os" using inv assms(3,4) by (auto simp: joint_inv_def success_nos_def)
  moreover have "sr_activity r = ev_activity (ev (sr_no r))" "sr_user r = ev_user_id (ev (sr_no r))"
    using inv assms(3) by (auto simp: joint_inv_def seckill_inv_def reqs_ok_def)
  ultimately show ?thesis using assms(1) by (auto simp: order_for_def event_of_def)
qed


definition joint_db :: seckill_db where "joint_db = ss_db (fst (snd (Process good_env (order_client create_ok 1000) (sample_event ''11'') (open_svc, empty_svc))))"

definition joint_orders :: order_svc where "joint_orders = snd (snd (Process good_env (order_client create_ok 1000) (sample_event ''11'') (open_svc, empty_svc)))"

lemma number_11: "OrderIDFromRequestNo ''11'' = Some 11"
  by (simp add: OrderIDFromRequestNo_def parse_int_def parse_nat_def digit_val_def in64_def)


lemma joint_db_requests: "sd_requests joint_db
    = [\<lparr>sr_no = ''11'', sr_activity = 1, sr_user = 5, sr_status = RequestStatusSuccess, sr_reason = FailReasonNone\<rparr>]"
  by code_simp

lemma joint_run_sample: "\<exists>C. (joint_step sample_event)\<^sup>*\<^sup>* (seckill_init, empty_svc, {}) (joint_db, joint_orders, C)"
proof -
  obtain r s' os' where p: "Process good_env (order_client create_ok 1000) (sample_event ''11'') (open_svc, empty_svc) = (r, s', os')"
    by (metis prod_cases3)
  obtain C where c: "(joint_step sample_event)\<^sup>*\<^sup>* (sd1, empty_svc, {}) (joint_db, joint_orders, C)"
    using Process_run [OF sample_event_of _ p, of "{}"] number_11 p by (auto simp: joint_db_def joint_orders_def open_svc_def)
  have "joint_step sample_event (seckill_init, empty_svc, {}) (sd1, empty_svc, {})"
    unfolding sd1_def by (rule js_activity) (simp add: sample_activity_def)
  then show ?thesis using c by (meson converse_rtranclp_into_rtranclp)
qed

lemma seckill_success_has_order_witness:
  "\<exists>m \<in> set (od_orders (os_db joint_orders)). m_id m = 11 \<and> m_user m = 5 \<and> m_kind m = OrderKindSeckill"
proof -
  let ?r = "\<lparr>sr_no = ''11'', sr_activity = 1, sr_user = 5, sr_status = RequestStatusSuccess, sr_reason = FailReasonNone\<rparr>"
  obtain C where c: "(joint_step sample_event)\<^sup>*\<^sup>* (seckill_init, empty_svc, {}) (joint_db, joint_orders, C)"
    using joint_run_sample by blast
  show ?thesis
    using seckill_success_has_order [OF sample_event_of c, of ?r] number_11 by (simp add: joint_db_requests) blast
qed

end
